(* ===== verification/Prelude.thy ===== *)
theory Prelude
  imports Main "HOL-Library.Word"
begin

text \<open>
  Shared vocabulary of the development: the integer types of the C code, the
  conversions between them, and the few list and option facts every component needs.

  A \<open>uint32_t\<close> is a 32-bit word; an \<open>int32_t\<close> is the integer its two's
  complement representation denotes, and \<open>i32\<close> brings a mathematical result
  back into that range (the wrap-around every supported compiler produces; the C
  standard leaves a signed overflow undefined, so the theorems that matter say when
  none occurs). Handles and resource numbers are \<open>uintptr_t\<close> values that are
  compared and never computed with, apart from the guarded index arithmetic of
  resources.c; they are natural numbers here, and 0 is the null handle.
\<close>

unbundle bit_operations_syntax

type_synonym u8 = "8 word"
type_synonym u16 = "16 word"
type_synonym u32 = "32 word"
type_synonym wlc_handle = nat
type_synonym wlc_resource = nat

named_theorems world_simps \<open>read-after-write laws of the state accessors\<close>
named_theorems frame_simps \<open>what an operation leaves unchanged\<close>

section \<open>Integer conversions\<close>

definition i32 :: "int \<Rightarrow> int" where
  "i32 n = signed_take_bit 31 n"

definition i32_add :: "int \<Rightarrow> int \<Rightarrow> int" where
  "i32_add a b = i32 (a + b)"

definition i32_sub :: "int \<Rightarrow> int \<Rightarrow> int" where
  "i32_sub a b = i32 (a - b)"

definition in_i32 :: "int \<Rightarrow> bool" where
  "in_i32 n \<longleftrightarrow> - (2 ^ 31) \<le> n \<and> n < 2 ^ 31"

text \<open>The usual arithmetic conversion of an \<open>int32_t\<close> operand to
  \<open>uint32_t\<close>, and the implicit conversion back.\<close>

definition u32_of_i32 :: "int \<Rightarrow> u32" where
  "u32_of_i32 n = word_of_int n"

definition i32_of_u32 :: "u32 \<Rightarrow> int" where
  "i32_of_u32 w = sint w"

lemma i32_id [simp]: "in_i32 n \<Longrightarrow> i32 n = n"
  by (simp add: i32_def in_i32_def signed_take_bit_int_eq_self)

lemma in_i32_i32 [simp]: "in_i32 (i32 n)"
  unfolding in_i32_def i32_def
  using signed_take_bit_int_greater_eq_minus_exp [of 31 n]
    signed_take_bit_int_less_exp [of 31 n] by simp

lemma in_i32_sint [simp]: "in_i32 (sint (w :: u32))"
  using sint_ge [of w] sint_lt [of w] by (simp add: in_i32_def)

lemma i32_of_u32_of_i32 [simp]: "i32_of_u32 (u32_of_i32 n) = i32 n"
  by (simp add: i32_of_u32_def u32_of_i32_def i32_def sint_sbintrunc')

lemma i32_of_u32_small: "uint w < 2 ^ 31 \<Longrightarrow> i32_of_u32 w = uint w"
proof -
  assume a: "uint w < 2 ^ 31"
  have "- (2 ^ 31) \<le> uint w" by (rule order_trans [OF _ uint_ge_0]) simp
  with a show ?thesis
    by (simp only: i32_of_u32_def sint_uint signed_take_bit_int_eq_self len_num0 len_bit0 len_bit1
        len_num1 flip: One_nat_def) (simp add: signed_take_bit_int_eq_self)
qed

lemma u32_of_i32_of_u32 [simp]: "u32_of_i32 (i32_of_u32 w) = w"
  by (simp add: i32_of_u32_def u32_of_i32_def)

end
