(* ===== verification/Geometry.thy ===== *)
theory Geometry
  imports Prelude
begin

text \<open>
  The value types of include/wlc/geometry.h and the functions on them. A point is a pair
  of \<open>int32_t\<close>, a size a pair of \<open>uint32_t\<close>; a
  geometry is a point and a size. \<open>memcmp\<close> on the two-word and four-word structures is
  equality of the records (they have no padding). The last section relates
  \<open>wlc_geometry_contains\<close> to the pixels of its two rectangles.
\<close>

section \<open>Data\<close>

record wlc_point =
  px :: int
  py :: int

record wlc_size =
  sw :: u32
  sh :: u32

record wlc_geometry =
  gorigin :: wlc_point
  gsize :: wlc_size

definition wlc_point_zero :: wlc_point where
  "wlc_point_zero = \<lparr>px = 0, py = 0\<rparr>"

definition wlc_size_zero :: wlc_size where
  "wlc_size_zero = \<lparr>sw = 0, sh = 0\<rparr>"

definition wlc_geometry_zero :: wlc_geometry where
  "wlc_geometry_zero = \<lparr>gorigin = wlc_point_zero, gsize = wlc_size_zero\<rparr>"

section \<open>Operations\<close>

definition wlc_point_min :: "wlc_point \<Rightarrow> wlc_point \<Rightarrow> wlc_point" where
  "wlc_point_min a b =
     \<lparr>px = (if px a < px b then px a else px b), py = (if py a < py b then py a else py b)\<rparr>"

definition wlc_point_max :: "wlc_point \<Rightarrow> wlc_point \<Rightarrow> wlc_point" where
  "wlc_point_max a b =
     \<lparr>px = (if px a > px b then px a else px b), py = (if py a > py b then py a else py b)\<rparr>"

definition wlc_size_min :: "wlc_size \<Rightarrow> wlc_size \<Rightarrow> wlc_size" where
  "wlc_size_min a b =
     \<lparr>sw = (if sw a < sw b then sw a else sw b), sh = (if sh a < sh b then sh a else sh b)\<rparr>"

definition wlc_size_max :: "wlc_size \<Rightarrow> wlc_size \<Rightarrow> wlc_size" where
  "wlc_size_max a b =
     \<lparr>sw = (if sw a > sw b then sw a else sw b), sh = (if sh a > sh b then sh a else sh b)\<rparr>"

definition wlc_point_equals :: "wlc_point \<Rightarrow> wlc_point \<Rightarrow> bool" where
  "wlc_point_equals a b \<longleftrightarrow> px a = px b \<and> py a = py b"

definition wlc_size_equals :: "wlc_size \<Rightarrow> wlc_size \<Rightarrow> bool" where
  "wlc_size_equals a b \<longleftrightarrow> sw a = sw b \<and> sh a = sh b"

definition wlc_geometry_equals :: "wlc_geometry \<Rightarrow> wlc_geometry \<Rightarrow> bool" where
  "wlc_geometry_equals a b \<longleftrightarrow>
     wlc_point_equals (gorigin a) (gorigin b) \<and> wlc_size_equals (gsize a) (gsize b)"

definition wlc_geometry_contains :: "wlc_geometry \<Rightarrow> wlc_geometry \<Rightarrow> bool" where
  "wlc_geometry_contains a b \<longleftrightarrow>
     px (gorigin a) \<le> px (gorigin b) \<and> py (gorigin a) \<le> py (gorigin b) \<and>
     i32_add (px (gorigin a)) (i32_of_u32 (sw (gsize a)))
       \<ge> i32_add (px (gorigin b)) (i32_of_u32 (sw (gsize b))) \<and>
     i32_add (py (gorigin a)) (i32_of_u32 (sh (gsize a)))
       \<ge> i32_add (py (gorigin b)) (i32_of_u32 (sh (gsize b)))"

section \<open>Laws\<close>

lemma wlc_point_equals_iff [simp]: "wlc_point_equals a b \<longleftrightarrow> a = b"
  by (cases a, cases b) (simp add: wlc_point_equals_def)

lemma wlc_size_equals_iff [simp]: "wlc_size_equals a b \<longleftrightarrow> a = b"
  by (cases a, cases b) (simp add: wlc_size_equals_def)

lemma wlc_geometry_equals_iff [simp]: "wlc_geometry_equals a b \<longleftrightarrow> a = b"
  by (cases a, cases b) (simp add: wlc_geometry_equals_def)

lemma wlc_size_max_ge:
  "sw a \<le> sw (wlc_size_max a b)" "sw b \<le> sw (wlc_size_max a b)"
  "sh a \<le> sh (wlc_size_max a b)" "sh b \<le> sh (wlc_size_max a b)"
  by (auto simp: wlc_size_max_def)

section \<open>Containment and pixels\<close>

text \<open>The pixels of a rectangle, and the condition that its far corner is an \<open>int32_t\<close>.\<close>

definition geometry_pixels :: "wlc_geometry \<Rightarrow> (int \<times> int) set" where
  "geometry_pixels g =
     {px (gorigin g)..<px (gorigin g) + uint (sw (gsize g))} \<times>
     {py (gorigin g)..<py (gorigin g) + uint (sh (gsize g))}"

definition geometry_fits :: "wlc_geometry \<Rightarrow> bool" where
  "geometry_fits g \<longleftrightarrow>
     in_i32 (px (gorigin g)) \<and> in_i32 (py (gorigin g)) \<and>
     uint (sw (gsize g)) < 2 ^ 31 \<and> uint (sh (gsize g)) < 2 ^ 31 \<and>
     in_i32 (px (gorigin g) + uint (sw (gsize g))) \<and> in_i32 (py (gorigin g) + uint (sh (gsize g)))"

lemma wlc_geometry_contains_fits:
  assumes "geometry_fits a" "geometry_fits b"
  shows "wlc_geometry_contains a b \<longleftrightarrow>
     px (gorigin a) \<le> px (gorigin b) \<and> py (gorigin a) \<le> py (gorigin b) \<and>
     px (gorigin a) + uint (sw (gsize a)) \<ge> px (gorigin b) + uint (sw (gsize b)) \<and>
     py (gorigin a) + uint (sh (gsize a)) \<ge> py (gorigin b) + uint (sh (gsize b))"
  using assms unfolding geometry_fits_def wlc_geometry_contains_def i32_add_def
  by (simp only: i32_of_u32_small i32_id)

lemma times_ivl_subset_iff:
  fixes a b c d a' b' c' d' :: int
  assumes "a < b" "c < d"
  shows "{a..<b} \<times> {c..<d} \<subseteq> {a'..<b'} \<times> {c'..<d'} \<longleftrightarrow> a' \<le> a \<and> b \<le> b' \<and> c' \<le> c \<and> d \<le> d'"
  using assms by (subst times_subset_iff) auto

text \<open>For rectangles whose far corners are representable, and a
  second one that is not empty, wlc_geometry_contains holds exactly
  when every pixel of the second rectangle is a pixel of the first: the comparison in
  wrapped int32 arithmetic is the geometric inclusion.\<close>

theorem geometry_contains_iff_pixels:
  assumes "geometry_fits a" "geometry_fits b"
    and "sw (gsize b) \<noteq> 0" "sh (gsize b) \<noteq> 0"
  shows "wlc_geometry_contains a b \<longleftrightarrow> geometry_pixels b \<subseteq> geometry_pixels a"
proof -
  have "0 < uint (sw (gsize b))" "0 < uint (sh (gsize b))"
    using assms(3,4) by (simp_all add: order_less_le uint_0_iff)
  then show ?thesis
    unfolding geometry_pixels_def wlc_geometry_contains_fits [OF assms(1,2)]
    by (subst times_ivl_subset_iff) auto
qed

theorem geometry_contains_iff_pixels_witness:
  "wlc_geometry_contains
     \<lparr>gorigin = \<lparr>px = -5, py = 0\<rparr>, gsize = \<lparr>sw = 100, sh = 80\<rparr>\<rparr>
     \<lparr>gorigin = \<lparr>px = 10, py = 10\<rparr>, gsize = \<lparr>sw = 85, sh = 70\<rparr>\<rparr> \<longleftrightarrow>
   geometry_pixels \<lparr>gorigin = \<lparr>px = 10, py = 10\<rparr>, gsize = \<lparr>sw = 85, sh = 70\<rparr>\<rparr>
     \<subseteq> geometry_pixels \<lparr>gorigin = \<lparr>px = -5, py = 0\<rparr>, gsize = \<lparr>sw = 100, sh = 80\<rparr>\<rparr>"
  by (rule geometry_contains_iff_pixels) (simp_all add: geometry_fits_def in_i32_def)

end
