(* ===== verification/Positioner.thy ===== *)
theory Positioner
  imports Geometry
begin

text \<open>
  The xdg-shell v6 positioner object: src/resources/types/xdg-positioner.h and
  xdg-positioner.c, with the positioner bits of include/wlc/wlc.h.

  A request handler receives the user data of its \<open>wl_resource\<close>, which is the
  positioner or NULL (\<open>None\<close>: the request is ignored). A handler either posts
  \<open>INVALID_INPUT\<close> on the resource and leaves the positioner as it was
  (\<open>Inl\<close>), or returns the updated positioner (\<open>Inr\<close>). The numeric
  values of the protocol's own enumerations are in a header generated at build time, so
  they are a parameter; \<open>zxdg_values_ok\<close> states what the protocol promises of them,
  that the values of one enumeration share no bit.
\<close>

section \<open>Bits and data\<close>

definition WLC_XDG_POSITIONER_HAS_SIZE :: u32 where "WLC_XDG_POSITIONER_HAS_SIZE = 2"
definition WLC_XDG_POSITIONER_HAS_ANCHOR_RECT :: u32 where "WLC_XDG_POSITIONER_HAS_ANCHOR_RECT = 4"

definition WLC_BIT_ANCHOR_NONE :: u32 where "WLC_BIT_ANCHOR_NONE = 0"
definition WLC_BIT_ANCHOR_TOP :: u32 where "WLC_BIT_ANCHOR_TOP = 1"
definition WLC_BIT_ANCHOR_BOTTOM :: u32 where "WLC_BIT_ANCHOR_BOTTOM = 2"
definition WLC_BIT_ANCHOR_LEFT :: u32 where "WLC_BIT_ANCHOR_LEFT = 4"
definition WLC_BIT_ANCHOR_RIGHT :: u32 where "WLC_BIT_ANCHOR_RIGHT = 8"

definition WLC_BIT_GRAVITY_NONE :: u32 where "WLC_BIT_GRAVITY_NONE = 0"
definition WLC_BIT_GRAVITY_TOP :: u32 where "WLC_BIT_GRAVITY_TOP = 1"
definition WLC_BIT_GRAVITY_BOTTOM :: u32 where "WLC_BIT_GRAVITY_BOTTOM = 2"
definition WLC_BIT_GRAVITY_LEFT :: u32 where "WLC_BIT_GRAVITY_LEFT = 4"
definition WLC_BIT_GRAVITY_RIGHT :: u32 where "WLC_BIT_GRAVITY_RIGHT = 8"

definition WLC_BIT_CONSTRAINT_ADJUSTMENT_NONE :: u32 where
  "WLC_BIT_CONSTRAINT_ADJUSTMENT_NONE = 0"
definition WLC_BIT_CONSTRAINT_ADJUSTMENT_SLIDE_X :: u32 where
  "WLC_BIT_CONSTRAINT_ADJUSTMENT_SLIDE_X = 1"
definition WLC_BIT_CONSTRAINT_ADJUSTMENT_SLIDE_Y :: u32 where
  "WLC_BIT_CONSTRAINT_ADJUSTMENT_SLIDE_Y = 2"
definition WLC_BIT_CONSTRAINT_ADJUSTMENT_FLIP_X :: u32 where
  "WLC_BIT_CONSTRAINT_ADJUSTMENT_FLIP_X = 4"
definition WLC_BIT_CONSTRAINT_ADJUSTMENT_FLIP_Y :: u32 where
  "WLC_BIT_CONSTRAINT_ADJUSTMENT_FLIP_Y = 8"
definition WLC_BIT_CONSTRAINT_ADJUSTMENT_RESIZE_X :: u32 where
  "WLC_BIT_CONSTRAINT_ADJUSTMENT_RESIZE_X = 16"
definition WLC_BIT_CONSTRAINT_ADJUSTMENT_RESIZE_Y :: u32 where
  "WLC_BIT_CONSTRAINT_ADJUSTMENT_RESIZE_Y = 32"

lemmas positioner_bit_defs =
  WLC_XDG_POSITIONER_HAS_SIZE_def WLC_XDG_POSITIONER_HAS_ANCHOR_RECT_def
  WLC_BIT_ANCHOR_NONE_def WLC_BIT_ANCHOR_TOP_def WLC_BIT_ANCHOR_BOTTOM_def
  WLC_BIT_ANCHOR_LEFT_def WLC_BIT_ANCHOR_RIGHT_def
  WLC_BIT_GRAVITY_NONE_def WLC_BIT_GRAVITY_TOP_def WLC_BIT_GRAVITY_BOTTOM_def
  WLC_BIT_GRAVITY_LEFT_def WLC_BIT_GRAVITY_RIGHT_def
  WLC_BIT_CONSTRAINT_ADJUSTMENT_NONE_def
  WLC_BIT_CONSTRAINT_ADJUSTMENT_SLIDE_X_def WLC_BIT_CONSTRAINT_ADJUSTMENT_SLIDE_Y_def
  WLC_BIT_CONSTRAINT_ADJUSTMENT_FLIP_X_def WLC_BIT_CONSTRAINT_ADJUSTMENT_FLIP_Y_def
  WLC_BIT_CONSTRAINT_ADJUSTMENT_RESIZE_X_def WLC_BIT_CONSTRAINT_ADJUSTMENT_RESIZE_Y_def

record wlc_xdg_positioner =
  ps_flags :: u32
  ps_size :: wlc_size
  ps_offset :: wlc_point
  ps_anchor_rect :: wlc_geometry
  ps_anchor :: u32
  ps_gravity :: u32
  ps_constraint_adjustment :: u32

text \<open>A positioner as the pool hands it out, all bytes zero.\<close>

definition positioner_zero :: wlc_xdg_positioner where
  "positioner_zero = \<lparr>ps_flags = 0, ps_size = wlc_size_zero, ps_offset = wlc_point_zero,
     ps_anchor_rect = wlc_geometry_zero, ps_anchor = 0, ps_gravity = 0,
     ps_constraint_adjustment = 0\<rparr>"

datatype positioner_error = ZXDG_POSITIONER_V6_ERROR_INVALID_INPUT

text \<open>The values of the protocol's enumerations
  (\<open>ZXDG_POSITIONER_V6_...\<close>).\<close>

record zxdg_values =
  z_top :: u32
  z_bottom :: u32
  z_left :: u32
  z_right :: u32
  z_slide_x :: u32
  z_slide_y :: u32
  z_flip_x :: u32
  z_flip_y :: u32
  z_resize_x :: u32
  z_resize_y :: u32

definition zxdg_values_ok :: "zxdg_values \<Rightarrow> bool" where
  "zxdg_values_ok Z \<longleftrightarrow>
     list_all (\<lambda>v. v \<noteq> 0) [z_top Z, z_bottom Z, z_left Z, z_right Z] \<and>
     sorted_wrt (\<lambda>v w. v AND w = 0) [z_top Z, z_bottom Z, z_left Z, z_right Z]"

section \<open>Requests\<close>

type_synonym positioner_reply = "positioner_error + wlc_xdg_positioner option"

definition wlc_xdg_positioner_protocol_set_size ::
  "int \<Rightarrow> int \<Rightarrow> wlc_xdg_positioner option \<Rightarrow> positioner_reply" where
  "wlc_xdg_positioner_protocol_set_size width height ud =
     (case ud of
        None \<Rightarrow> Inr None
      | Some p \<Rightarrow>
          if width < 1 \<or> height < 1 then Inl ZXDG_POSITIONER_V6_ERROR_INVALID_INPUT
          else Inr (Some (p\<lparr>ps_size := \<lparr>sw = u32_of_i32 width, sh = u32_of_i32 height\<rparr>,
                            ps_flags := ps_flags p OR WLC_XDG_POSITIONER_HAS_SIZE\<rparr>)))"

definition wlc_xdg_positioner_protocol_set_anchor_rect ::
  "int \<Rightarrow> int \<Rightarrow> int \<Rightarrow> int \<Rightarrow> wlc_xdg_positioner option \<Rightarrow> positioner_reply" where
  "wlc_xdg_positioner_protocol_set_anchor_rect x y width height ud =
     (case ud of
        None \<Rightarrow> Inr None
      | Some p \<Rightarrow>
          if width < 1 \<or> height < 1 then Inl ZXDG_POSITIONER_V6_ERROR_INVALID_INPUT
          else Inr (Some (p\<lparr>ps_anchor_rect :=
                              \<lparr>gorigin = \<lparr>px = x, py = y\<rparr>,
                               gsize = \<lparr>sw = u32_of_i32 width, sh = u32_of_i32 height\<rparr>\<rparr>,
                            ps_flags := ps_flags p OR WLC_XDG_POSITIONER_HAS_ANCHOR_RECT\<rparr>)))"

definition when_bit :: "bool \<Rightarrow> u32 \<Rightarrow> u32 \<Rightarrow> u32" where
  "when_bit c b acc = (if c then acc OR b else acc)"

definition same_axis :: "zxdg_values \<Rightarrow> u32 \<Rightarrow> bool" where
  "same_axis Z v \<longleftrightarrow>
     (v AND z_top Z \<noteq> 0 \<and> v AND z_bottom Z \<noteq> 0) \<or> (v AND z_left Z \<noteq> 0 \<and> v AND z_right Z \<noteq> 0)"

definition wlc_xdg_positioner_protocol_set_anchor ::
  "zxdg_values \<Rightarrow> u32 \<Rightarrow> wlc_xdg_positioner option \<Rightarrow> positioner_reply" where
  "wlc_xdg_positioner_protocol_set_anchor Z anchor ud =
     (case ud of
        None \<Rightarrow> Inr None
      | Some p \<Rightarrow>
          if same_axis Z anchor then Inl ZXDG_POSITIONER_V6_ERROR_INVALID_INPUT
          else Inr (Some (p\<lparr>ps_anchor :=
            when_bit (anchor AND z_right Z \<noteq> 0) WLC_BIT_ANCHOR_RIGHT
              (when_bit (anchor AND z_left Z \<noteq> 0) WLC_BIT_ANCHOR_LEFT
                (when_bit (anchor AND z_bottom Z \<noteq> 0) WLC_BIT_ANCHOR_BOTTOM
                  (when_bit (anchor AND z_top Z \<noteq> 0) WLC_BIT_ANCHOR_TOP
                    WLC_BIT_ANCHOR_NONE)))\<rparr>)))"

definition wlc_xdg_positioner_protocol_set_gravity ::
  "zxdg_values \<Rightarrow> u32 \<Rightarrow> wlc_xdg_positioner option \<Rightarrow> positioner_reply" where
  "wlc_xdg_positioner_protocol_set_gravity Z gravity ud =
     (case ud of
        None \<Rightarrow> Inr None
      | Some p \<Rightarrow>
          if same_axis Z gravity then Inl ZXDG_POSITIONER_V6_ERROR_INVALID_INPUT
          else Inr (Some (p\<lparr>ps_gravity :=
            when_bit (gravity AND z_right Z \<noteq> 0) WLC_BIT_GRAVITY_RIGHT
              (when_bit (gravity AND z_left Z \<noteq> 0) WLC_BIT_GRAVITY_LEFT
                (when_bit (gravity AND z_bottom Z \<noteq> 0) WLC_BIT_GRAVITY_BOTTOM
                  (when_bit (gravity AND z_top Z \<noteq> 0) WLC_BIT_GRAVITY_TOP
                    WLC_BIT_GRAVITY_NONE)))\<rparr>)))"

definition wlc_xdg_positioner_protocol_set_constraint_adjustment ::
  "zxdg_values \<Rightarrow> u32 \<Rightarrow> wlc_xdg_positioner option \<Rightarrow> positioner_reply" where
  "wlc_xdg_positioner_protocol_set_constraint_adjustment Z ca ud =
     (case ud of
        None \<Rightarrow> Inr None
      | Some p \<Rightarrow>
          Inr (Some (p\<lparr>ps_constraint_adjustment :=
            when_bit (ca AND z_resize_y Z \<noteq> 0) WLC_BIT_CONSTRAINT_ADJUSTMENT_RESIZE_Y
             (when_bit (ca AND z_resize_x Z \<noteq> 0) WLC_BIT_CONSTRAINT_ADJUSTMENT_RESIZE_X
              (when_bit (ca AND z_flip_y Z \<noteq> 0) WLC_BIT_CONSTRAINT_ADJUSTMENT_FLIP_Y
               (when_bit (ca AND z_flip_x Z \<noteq> 0) WLC_BIT_CONSTRAINT_ADJUSTMENT_FLIP_X
                (when_bit (ca AND z_slide_y Z \<noteq> 0) WLC_BIT_CONSTRAINT_ADJUSTMENT_SLIDE_Y
                 (when_bit (ca AND z_slide_x Z \<noteq> 0) WLC_BIT_CONSTRAINT_ADJUSTMENT_SLIDE_X
                   WLC_BIT_CONSTRAINT_ADJUSTMENT_NONE)))))\<rparr>)))"

definition wlc_xdg_positioner_protocol_set_offset ::
  "int \<Rightarrow> int \<Rightarrow> wlc_xdg_positioner option \<Rightarrow> positioner_reply" where
  "wlc_xdg_positioner_protocol_set_offset x y ud =
     (case ud of
        None \<Rightarrow> Inr None
      | Some p \<Rightarrow> Inr (Some (p\<lparr>ps_offset := \<lparr>px = x, py = y\<rparr>\<rparr>)))"

text \<open>The dispatch table \<open>zxdg_positioner_v6_implementation\<close>, as a datatype of
  requests and the handler each is bound to. An error kills the client, so a run of
  requests stops at the first one.\<close>

datatype positioner_request =
    Req_set_size int int
  | Req_set_anchor_rect int int int int
  | Req_set_anchor u32
  | Req_set_gravity u32
  | Req_set_constraint_adjustment u32
  | Req_set_offset int int

fun wlc_xdg_positioner_implementation ::
  "zxdg_values \<Rightarrow> positioner_request \<Rightarrow> wlc_xdg_positioner option \<Rightarrow> positioner_reply" where
  "wlc_xdg_positioner_implementation Z (Req_set_size w h) =
     wlc_xdg_positioner_protocol_set_size w h"
| "wlc_xdg_positioner_implementation Z (Req_set_anchor_rect x y w h) =
     wlc_xdg_positioner_protocol_set_anchor_rect x y w h"
| "wlc_xdg_positioner_implementation Z (Req_set_anchor a) =
     wlc_xdg_positioner_protocol_set_anchor Z a"
| "wlc_xdg_positioner_implementation Z (Req_set_gravity g) =
     wlc_xdg_positioner_protocol_set_gravity Z g"
| "wlc_xdg_positioner_implementation Z (Req_set_constraint_adjustment c) =
     wlc_xdg_positioner_protocol_set_constraint_adjustment Z c"
| "wlc_xdg_positioner_implementation Z (Req_set_offset x y) =
     wlc_xdg_positioner_protocol_set_offset x y"

fun positioner_run ::
  "zxdg_values \<Rightarrow> positioner_request list \<Rightarrow> wlc_xdg_positioner option \<Rightarrow> positioner_reply" where
  "positioner_run Z [] ud = Inr ud"
| "positioner_run Z (r # rs) ud =
     (case wlc_xdg_positioner_implementation Z r ud of
        Inl e \<Rightarrow> Inl e
      | Inr ud' \<Rightarrow> positioner_run Z rs ud')"

section \<open>The positioner invariant\<close>

definition one_per_axis :: "u32 \<Rightarrow> bool" where
  "one_per_axis v \<longleftrightarrow>
     v \<in> {0, 1, 2, 4, 5, 6, 8, 9, 10}"

definition size_positive :: "wlc_size \<Rightarrow> bool" where
  "size_positive s \<longleftrightarrow> i32_of_u32 (sw s) \<ge> 1 \<and> i32_of_u32 (sh s) \<ge> 1"

definition positioner_ok :: "wlc_xdg_positioner \<Rightarrow> bool" where
  "positioner_ok p \<longleftrightarrow>
     (ps_flags p AND WLC_XDG_POSITIONER_HAS_SIZE \<noteq> 0 \<longrightarrow> size_positive (ps_size p)) \<and>
     (ps_flags p AND WLC_XDG_POSITIONER_HAS_ANCHOR_RECT \<noteq> 0 \<longrightarrow>
        size_positive (gsize (ps_anchor_rect p))) \<and>
     one_per_axis (ps_anchor p) \<and> one_per_axis (ps_gravity p) \<and>
     ps_constraint_adjustment p < 64"

lemma positioner_ok_zero: "positioner_ok positioner_zero"
  by (simp add: positioner_ok_def positioner_zero_def one_per_axis_def)

lemma size_positive_of_i32:
  "in_i32 w \<Longrightarrow> in_i32 h \<Longrightarrow> size_positive \<lparr>sw = u32_of_i32 w, sh = u32_of_i32 h\<rparr> \<longleftrightarrow> 1 \<le> w \<and> 1 \<le> h"
  by (simp add: size_positive_def)

lemma flag_or_other:
  fixes f :: u32
  shows "(f OR WLC_XDG_POSITIONER_HAS_SIZE) AND WLC_XDG_POSITIONER_HAS_ANCHOR_RECT \<noteq> 0 \<longleftrightarrow>
         f AND WLC_XDG_POSITIONER_HAS_ANCHOR_RECT \<noteq> 0"
    and "(f OR WLC_XDG_POSITIONER_HAS_ANCHOR_RECT) AND WLC_XDG_POSITIONER_HAS_SIZE \<noteq> 0 \<longleftrightarrow>
         f AND WLC_XDG_POSITIONER_HAS_SIZE \<noteq> 0"
  by (simp_all add: positioner_bit_defs bit.conj_disj_distrib2)

lemma when_bit_axes:
  "one_per_axis (when_bit r 8 (when_bit l 4 (when_bit b 2 (when_bit t 1 0))))
     \<longleftrightarrow> \<not> (t \<and> b) \<and> \<not> (l \<and> r)"
  by (cases r; cases l; cases b; cases t) (simp_all add: when_bit_def one_per_axis_def)

lemma when_bit_six:
  "when_bit a 32 (when_bit b 16 (when_bit c 8 (when_bit d 4 (when_bit e 2 (when_bit f 1 0))))) < (64::u32)"
  by (cases a; cases b; cases c; cases d; cases e; cases f) (simp_all add: when_bit_def)

fun request_in_range :: "positioner_request \<Rightarrow> bool" where
  "request_in_range (Req_set_size w h) \<longleftrightarrow> in_i32 w \<and> in_i32 h"
| "request_in_range (Req_set_anchor_rect x y w h) \<longleftrightarrow> in_i32 x \<and> in_i32 y \<and> in_i32 w \<and> in_i32 h"
| "request_in_range (Req_set_offset x y) \<longleftrightarrow> in_i32 x \<and> in_i32 y"
| "request_in_range _ \<longleftrightarrow> True"

lemma positioner_ok_request:
  assumes "wlc_xdg_positioner_implementation Z r (Some p) = Inr (Some p')"
    and "positioner_ok p" "request_in_range r"
  shows "positioner_ok p'"
proof (cases r)
  case (Req_set_size w h)
  with assms show ?thesis
    by (auto simp: wlc_xdg_positioner_protocol_set_size_def positioner_ok_def flag_or_other
        size_positive_of_i32 split: if_splits)
next
  case (Req_set_anchor_rect x y w h)
  with assms show ?thesis
    by (auto simp: wlc_xdg_positioner_protocol_set_anchor_rect_def positioner_ok_def flag_or_other
        size_positive_of_i32 split: if_splits)
next
  case (Req_set_anchor a)
  with assms show ?thesis
    by (auto simp: wlc_xdg_positioner_protocol_set_anchor_def positioner_ok_def same_axis_def
        when_bit_axes positioner_bit_defs split: if_splits)
next
  case (Req_set_gravity a)
  with assms show ?thesis
    by (auto simp: wlc_xdg_positioner_protocol_set_gravity_def positioner_ok_def same_axis_def
        when_bit_axes positioner_bit_defs split: if_splits)
next
  case (Req_set_constraint_adjustment c)
  with assms show ?thesis
    by (auto simp: wlc_xdg_positioner_protocol_set_constraint_adjustment_def positioner_ok_def
        when_bit_six positioner_bit_defs)
next
  case (Req_set_offset x y)
  with assms show ?thesis
    by (auto simp: wlc_xdg_positioner_protocol_set_offset_def positioner_ok_def)
qed

lemma positioner_request_some:
  "wlc_xdg_positioner_implementation Z r (Some p) = Inr ud \<Longrightarrow> \<exists>p'. ud = Some p'"
  by (cases r)
    (auto simp: wlc_xdg_positioner_protocol_set_size_def
      wlc_xdg_positioner_protocol_set_anchor_rect_def wlc_xdg_positioner_protocol_set_anchor_def
      wlc_xdg_positioner_protocol_set_gravity_def
      wlc_xdg_positioner_protocol_set_constraint_adjustment_def
      wlc_xdg_positioner_protocol_set_offset_def split: if_splits)

lemma positioner_ok_run:
  "positioner_run Z rs (Some p) = Inr ud \<Longrightarrow> positioner_ok p \<Longrightarrow> list_all request_in_range rs \<Longrightarrow>
     \<exists>p'. ud = Some p' \<and> positioner_ok p'"
proof (induction rs arbitrary: p)
  case (Cons r rs)
  then obtain ud' where step: "wlc_xdg_positioner_implementation Z r (Some p) = Inr ud'"
    and rest: "positioner_run Z rs ud' = Inr ud" by (auto split: sum.splits)
  from positioner_request_some [OF step] obtain p' where "ud' = Some p'" ..
  with Cons positioner_ok_request step rest show ?case by (metis list.pred_inject(2))
qed auto

text \<open>C25 (invariant). Whatever requests a client sends to a fresh positioner
  without a protocol error, the stored positioner is well formed: a size or an anchor
  rectangle that is marked as set has positive dimensions (so it never is the negative
  number a bare conversion to uint32 would keep), the anchor and the gravity never name
  both edges of an axis, and the constraint adjustment uses the six defined bits only.\<close>

theorem positioner_reachable_ok:
  assumes "list_all request_in_range rs"
    and "positioner_run Z rs (Some positioner_zero) = Inr ud"
  shows "\<exists>p. ud = Some p \<and> positioner_ok p"
  using assms positioner_ok_run positioner_ok_zero by blast

definition zxdg_protocol_values :: zxdg_values where
  "zxdg_protocol_values = \<lparr>z_top = 1, z_bottom = 2, z_left = 4, z_right = 8,
     z_slide_x = 1, z_slide_y = 2, z_flip_x = 4, z_flip_y = 8, z_resize_x = 16, z_resize_y = 32\<rparr>"

theorem positioner_reachable_ok_witness:
  "\<exists>p. Some (positioner_zero\<lparr>ps_size := \<lparr>sw = 30, sh = 20\<rparr>, ps_flags := 2, ps_anchor := 5\<rparr>) = Some p
     \<and> positioner_ok p"
  by (rule positioner_reachable_ok
        [of "[Req_set_size 30 20, Req_set_anchor 5]" zxdg_protocol_values])
    (simp_all add: in_i32_def wlc_xdg_positioner_protocol_set_size_def
      wlc_xdg_positioner_protocol_set_anchor_def same_axis_def when_bit_def
      zxdg_protocol_values_def positioner_zero_def positioner_bit_defs u32_of_i32_def)

text \<open>With protocol values that share no bit, set_anchor stores
  the union of exactly the edges the request names, in wlc's own bits, and is rejected with
  INVALID_INPUT exactly when the request names both edges of an axis; no other field changes.\<close>

theorem positioner_set_anchor_spec:
  assumes "zxdg_values_ok Z"
    and "A \<subseteq> {0, 1, 2, 3}"
    and "a = (if 0 \<in> A then z_top Z else 0) OR (if 1 \<in> A then z_bottom Z else 0)
          OR (if 2 \<in> A then z_left Z else 0) OR (if (3::nat) \<in> A then z_right Z else 0)"
  shows "wlc_xdg_positioner_protocol_set_anchor Z a (Some p) =
    (if {0, 1} \<subseteq> A \<or> {2, 3} \<subseteq> A then Inl ZXDG_POSITIONER_V6_ERROR_INVALID_INPUT
     else Inr (Some (p\<lparr>ps_anchor := (\<Sum>i\<in>A. 2 ^ i)\<rparr>)))"
proof -
  have bits: "a AND z_top Z \<noteq> 0 \<longleftrightarrow> 0 \<in> A" "a AND z_bottom Z \<noteq> 0 \<longleftrightarrow> 1 \<in> A"
    "a AND z_left Z \<noteq> 0 \<longleftrightarrow> 2 \<in> A" "a AND z_right Z \<noteq> 0 \<longleftrightarrow> 3 \<in> A"
    using assms(1) unfolding zxdg_values_ok_def assms(3)
    by (auto simp: bit.conj_disj_distrib bit.conj_disj_distrib2 ac_simps)
  have "(\<Sum>i\<in>A. 2 ^ i) = (\<Sum>i\<in>{0, 1, 2, 3}. if i \<in> A then 2 ^ i else (0 :: u32))"
    using assms(2) by (intro sum.mono_neutral_cong_left) auto
  then show ?thesis
    unfolding wlc_xdg_positioner_protocol_set_anchor_def same_axis_def bits
    by (cases "0 \<in> A"; cases "1 \<in> A"; cases "2 \<in> A"; cases "3 \<in> A")
      (simp_all add: positioner_bit_defs when_bit_def del: One_nat_def)
qed

theorem positioner_set_anchor_spec_witness:
  "wlc_xdg_positioner_protocol_set_anchor zxdg_protocol_values 9 (Some positioner_zero) =
     (if {0, 1} \<subseteq> {0, 3 :: nat} \<or> {2, 3} \<subseteq> {0, 3 :: nat}
      then Inl ZXDG_POSITIONER_V6_ERROR_INVALID_INPUT
      else Inr (Some (positioner_zero\<lparr>ps_anchor := (\<Sum>i\<in>{0, 3}. 2 ^ i)\<rparr>)))"
  by (rule positioner_set_anchor_spec)
    (simp_all add: zxdg_values_ok_def zxdg_protocol_values_def)

end
