(* ===== verification/Tty.thy ===== *)
theory Tty
  imports Prelude
begin

text \<open>
  System calls as the session code issues them, and the virtual terminal of
  src/session/tty.c (its Linux branch).

  The kernel is a parameter: \<open>k_ret K h c\<close> is what the call \<open>c\<close> returns when
  the calls \<open>h\<close> (newest first) have been made before it, \<open>k_out\<close> the scalar the
  call writes through its pointer argument and \<open>k_stat\<close> what a stat call reports. A
  function that runs \<open>die\<close> ends the process; it returns \<open>Inl\<close> with the state the
  process dies in, every other path returns \<open>Inr\<close>. The static structure of tty.c is the
  record \<open>tty_state\<close>; logging is left out.
\<close>

section \<open>System calls\<close>

datatype ioctl_request =
    VT_OPENQRY | KDGETMODE | VT_GETSTATE | VT_ACTIVATE int | VT_WAITACTIVE int
  | KDGKBMODE | KDSKBMUTE int | KDSKBMODE int | KDSETMODE int | VT_SETMODE int
  | VT_RELDISP int | EVIOCREVOKE

datatype syscall =
    Open string "int set"
  | Close int
  | Stat string
  | Fstat int
  | Ioctl int ioctl_request
  | DrmSetMaster int
  | DrmDropMaster int

record stat_buf =
  st_dev :: "64 word"
  st_ino :: "64 word"
  st_rdev :: "64 word"

record kernel =
  k_ret :: "syscall list \<Rightarrow> syscall \<Rightarrow> int"
  k_out :: "syscall list \<Rightarrow> syscall \<Rightarrow> int"
  k_stat :: "syscall list \<Rightarrow> syscall \<Rightarrow> stat_buf"
  k_ttyname :: "syscall list \<Rightarrow> string option"
  k_cstr_to_i32 :: "string \<Rightarrow> int option"
  k_cstreq :: "string \<Rightarrow> string \<Rightarrow> bool"

text \<open>Flag and mode numbers of the Linux headers the code includes, and the device number
  macros of the C library.\<close>

definition KD_TEXT :: int where "KD_TEXT = 0"
definition KD_GRAPHICS :: int where "KD_GRAPHICS = 1"
definition VT_AUTO :: int where "VT_AUTO = 0"
definition VT_PROCESS :: int where "VT_PROCESS = 1"
definition VT_ACKACQ :: int where "VT_ACKACQ = 2"
definition K_UNICODE :: int where "K_UNICODE = 3"
definition K_OFF :: int where "K_OFF = 4"
definition O_RDWR :: int where "O_RDWR = 2"
definition O_NOCTTY :: int where "O_NOCTTY = 256"
definition O_CLOEXEC :: int where "O_CLOEXEC = 524288"
definition TTY_MAJOR :: u32 where "TTY_MAJOR = 4"

definition dev_major :: "64 word \<Rightarrow> u32" where
  "dev_major d = ucast (drop_bit 8 d AND 0xfff) OR ucast (drop_bit 32 d AND 0xfffff000)"

definition dev_minor :: "64 word \<Rightarrow> u32" where
  "dev_minor d = ucast (d AND 0xff) OR ucast (drop_bit 12 d AND 0xffffff00)"

fun dec_nat :: "nat \<Rightarrow> string" where
  "dec_nat n =
     (if n < 10 then [char_of (48 + n)] else dec_nat (n div 10) @ [char_of (48 + n mod 10)])"

declare dec_nat.simps [simp del]

definition dec_int :: "int \<Rightarrow> string" where
  "dec_int i = (if i < 0 then CHR ''-'' # dec_nat (nat (- i)) else dec_nat (nat i))"

section \<open>State\<close>

record tty_state =
  old_kb_mode :: int
  old_vt :: int
  tty :: int
  tvt :: int
  hist :: "syscall list"

definition tty_initial :: tty_state where
  "tty_initial = \<lparr>old_kb_mode = 0, old_vt = 0, tty = -1, tvt = 0, hist = []\<rparr>"

definition sys :: "kernel \<Rightarrow> syscall \<Rightarrow> 'a tty_state_scheme \<Rightarrow> int \<times> 'a tty_state_scheme" where
  "sys K c s = (k_ret K (hist s) c, s\<lparr>hist := c # hist s\<rparr>)"

definition sys_out :: "kernel \<Rightarrow> syscall \<Rightarrow> 'a tty_state_scheme \<Rightarrow> int \<times> int \<times> 'a tty_state_scheme" where
  "sys_out K c s = (k_ret K (hist s) c, k_out K (hist s) c, s\<lparr>hist := c # hist s\<rparr>)"

definition sys_stat ::
  "kernel \<Rightarrow> syscall \<Rightarrow> 'a tty_state_scheme \<Rightarrow> int \<times> stat_buf \<times> 'a tty_state_scheme" where
  "sys_stat K c s = (k_ret K (hist s) c, k_stat K (hist s) c, s\<lparr>hist := c # hist s\<rparr>)"

section \<open>Operations\<close>

definition find_vt ::
  "kernel \<Rightarrow> string option \<Rightarrow> bool \<Rightarrow> 'a tty_state_scheme \<Rightarrow>
     'a tty_state_scheme + (int \<times> bool) \<times> 'a tty_state_scheme" where
  "find_vt K vt_string replace_vt s =
     (case Option.bind vt_string (k_cstr_to_i32 K) of
        Some vt \<Rightarrow> Inr ((vt, True), s)
      | None \<Rightarrow>
          let (tty0_fd, s) = sys K (Open ''/dev/tty0'' {O_RDWR, O_CLOEXEC}) s in
          if tty0_fd < 0 then Inl s
          else
            let (r, vt, s) = sys_out K (Ioctl tty0_fd VT_OPENQRY) s in
            if r \<noteq> 0 then Inl s
            else let (_, s) = sys K (Close tty0_fd) s in Inr ((vt, replace_vt), s))"

definition open_tty ::
  "kernel \<Rightarrow> int \<Rightarrow> 'a tty_state_scheme \<Rightarrow> 'a tty_state_scheme + int \<times> 'a tty_state_scheme" where
  "open_tty K vt s =
     (let tty_name = ''/dev/tty'' @ dec_int vt in
      if (case k_ttyname K (hist s) of None \<Rightarrow> False | Some n \<Rightarrow> k_cstreq K tty_name n)
      then Inr (0, s)
      else
        let (fd, s) = sys K (Open tty_name {O_RDWR, O_NOCTTY, O_CLOEXEC}) s in
        if fd < 0 then Inl s else Inr (fd, s))"

definition wlc_tty_activate :: "kernel \<Rightarrow> 'a tty_state_scheme \<Rightarrow> bool \<times> 'a tty_state_scheme" where
  "wlc_tty_activate K s =
     (let (r, s) = sys K (Ioctl (tty s) (VT_RELDISP VT_ACKACQ)) s in (r \<noteq> -1, s))"

definition wlc_tty_deactivate :: "kernel \<Rightarrow> 'a tty_state_scheme \<Rightarrow> bool \<times> 'a tty_state_scheme" where
  "wlc_tty_deactivate K s = (let (r, s) = sys K (Ioctl (tty s) (VT_RELDISP 1)) s in (r \<noteq> -1, s))"

definition wlc_tty_activate_vt ::
  "kernel \<Rightarrow> int \<Rightarrow> 'a tty_state_scheme \<Rightarrow> bool \<times> 'a tty_state_scheme" where
  "wlc_tty_activate_vt K vt s =
     (if tty s < 0 \<or> vt = tvt s then (False, s)
      else let (r, s) = sys K (Ioctl (tty s) (VT_ACTIVATE vt)) s in (r \<noteq> -1, s))"

definition wlc_tty_get_vt :: "'a tty_state_scheme \<Rightarrow> int" where
  "wlc_tty_get_vt s = tvt s"

text \<open>The restoration of the vt, in the order of \<open>wlc_tty_terminate\<close>; a failing call is
  logged and the next one is made all the same.\<close>

definition restore_vt :: "kernel \<Rightarrow> 'a tty_state_scheme \<Rightarrow> 'a tty_state_scheme" where
  "restore_vt K s =
     (let (r1, s) = sys K (Ioctl (tty s) (KDSKBMUTE 0)) s;
          s = (if r1 = -1 then
                 let (r2, s) = sys K (Ioctl (tty s) (KDSKBMODE (old_kb_mode s))) s in
                 if r2 = -1 then snd (sys K (Ioctl (tty s) (KDSKBMODE K_UNICODE)) s) else s
               else s);
          (_, s) = sys K (Ioctl (tty s) (KDSETMODE KD_TEXT)) s;
          (_, s) = sys K (Ioctl (tty s) (VT_SETMODE VT_AUTO)) s
      in s)"

definition wlc_tty_terminate :: "kernel \<Rightarrow> 'a tty_state_scheme \<Rightarrow> 'a tty_state_scheme" where
  "wlc_tty_terminate K s =
     (let s = (if tty s \<ge> 0 then
                 let (r, s) = sys K (Ioctl (tty s) (VT_ACTIVATE (tvt s))) s;
                     (r', s) = (if r \<noteq> -1 then sys K (Ioctl (tty s) (VT_WAITACTIVE (tvt s))) s
                                else (-1, s));
                     s = (if r \<noteq> -1 \<and> r' \<noteq> -1 then restore_vt K s else s);
                     (_, s) = sys K (Ioctl (tty s) (VT_ACTIVATE (old_vt s))) s
                 in snd (sys K (Close (tty s)) s)
               else s)
      in s\<lparr>old_kb_mode := 0, old_vt := 0, tvt := 0, tty := -1\<rparr>)"

text \<open>\<open>setup_tty\<close>: the checks and queries, then the switch to graphics, each step with
  its \<open>die\<close>.\<close>

definition setup_tty_graphics ::
  "kernel \<Rightarrow> int \<Rightarrow> 'a tty_state_scheme \<Rightarrow> 'a tty_state_scheme + bool \<times> 'a tty_state_scheme" where
  "setup_tty_graphics K fd s =
     (let (r1, s) = sys K (Ioctl fd (KDSKBMUTE 1)) s;
          (r2, s) = (if r1 = -1 then sys K (Ioctl fd (KDSKBMODE K_OFF)) s else (0, s)) in
      if r1 = -1 \<and> r2 = -1 then Inl (wlc_tty_terminate K s)
      else
        let (r, s) = sys K (Ioctl fd (KDSETMODE KD_GRAPHICS)) s in
        if r = -1 then Inl (wlc_tty_terminate K s)
        else
          let (r, s) = sys K (Ioctl fd (VT_SETMODE VT_PROCESS)) s in
          if r = -1 then Inl (wlc_tty_terminate K s)
          else Inr (True, s))"

definition setup_tty_activate ::
  "kernel \<Rightarrow> int \<Rightarrow> 'a tty_state_scheme \<Rightarrow> 'a tty_state_scheme + bool \<times> 'a tty_state_scheme" where
  "setup_tty_activate K fd s =
     (let (r, active, s) = sys_out K (Ioctl fd VT_GETSTATE) s in
      if r = -1 then Inl s
      else
        let s = s\<lparr>old_vt := active\<rparr>;
            (r, s) = sys K (Ioctl fd (VT_ACTIVATE (tvt s))) s in
        if r = -1 then Inl s
        else
          let (r, s) = sys K (Ioctl fd (VT_WAITACTIVE (tvt s))) s in
          if r = -1 then Inl s
          else
            let (r, kb, s) = sys_out K (Ioctl fd KDGKBMODE) s in
            if r = -1 then Inl s
            else setup_tty_graphics K fd (s\<lparr>old_kb_mode := kb, tty := fd\<rparr>))"

definition setup_tty ::
  "kernel \<Rightarrow> int \<Rightarrow> int \<Rightarrow> bool \<Rightarrow> 'a tty_state_scheme \<Rightarrow>
     'a tty_state_scheme + bool \<times> 'a tty_state_scheme" where
  "setup_tty K fd vt replace_vt s =
     (if fd < 0 then Inr (False, s)
      else
        let (r, st, s) = sys_stat K (Fstat fd) s in
        if r = -1 then Inl s
        else
          let s = s\<lparr>tvt := i32_of_u32 (dev_minor (st_rdev st))\<rparr> in
          if dev_major (st_rdev st) \<noteq> TTY_MAJOR \<or> tvt s = 0 then Inl s
          else if replace_vt then setup_tty_activate K fd s
          else
            let (r, kd_mode, s) = sys_out K (Ioctl fd KDGETMODE) s in
            if r = -1 then Inl s
            else if kd_mode \<noteq> KD_TEXT then Inl s
            else setup_tty_activate K fd s)"

definition wlc_tty_init ::
  "kernel \<Rightarrow> string option \<Rightarrow> int \<Rightarrow> 'a tty_state_scheme \<Rightarrow> 'a tty_state_scheme + 'a tty_state_scheme" where
  "wlc_tty_init K vtnr vt s =
     (if tty s \<ge> 0 then Inr s
      else
        let replace_vt = (vt > 0) in
        case (if vt = 0 then find_vt K vtnr replace_vt s else Inr ((vt, replace_vt), s)) of
          Inl s \<Rightarrow> Inl s
        | Inr ((vt, replace_vt), s) \<Rightarrow>
            if vt = 0 then Inl s
            else
              (case open_tty K vt s of
                 Inl s \<Rightarrow> Inl s
               | Inr (fd, s) \<Rightarrow>
                   (case setup_tty K fd vt replace_vt s of
                      Inl s \<Rightarrow> Inl s
                    | Inr (ok, s) \<Rightarrow> if ok then Inr s else Inl s)))"

section \<open>Death and restoration\<close>

fun changes_console :: "syscall \<Rightarrow> bool" where
  "changes_console (Ioctl _ (KDSKBMUTE _)) \<longleftrightarrow> True"
| "changes_console (Ioctl _ (KDSKBMODE _)) \<longleftrightarrow> True"
| "changes_console (Ioctl _ (KDSETMODE _)) \<longleftrightarrow> True"
| "changes_console (Ioctl _ (VT_SETMODE _)) \<longleftrightarrow> True"
| "changes_console _ \<longleftrightarrow> False"

lemmas sys_defs = sys_def sys_out_def sys_stat_def

text \<open>Every death either left the console alone, or is the state
  \<open>wlc_tty_terminate\<close> leaves.\<close>

definition clean_death :: "kernel \<Rightarrow> 'a tty_state_scheme \<Rightarrow> 'a tty_state_scheme \<Rightarrow> bool" where
  "clean_death K s s' \<longleftrightarrow>
     (\<exists>s0. tty s0 \<ge> 0 \<and> s' = wlc_tty_terminate K s0) \<or>
     (\<forall>c\<in>set (hist s'). changes_console c \<longrightarrow> c \<in> set (hist s))"

lemma clean_death_trans:
  assumes "clean_death K s1 s'"
    and "\<And>c. c \<in> set (hist s1) \<Longrightarrow> changes_console c \<Longrightarrow> c \<in> set (hist s)"
  shows "clean_death K s s'"
  using assms unfolding clean_death_def by blast

lemma clean_death_quiet:
  "(\<And>c. c \<in> set (hist s') \<Longrightarrow> changes_console c \<Longrightarrow> c \<in> set (hist s)) \<Longrightarrow> clean_death K s s'"
  unfolding clean_death_def by blast

lemma clean_death_terminate: "tty s0 \<ge> 0 \<Longrightarrow> clean_death K s (wlc_tty_terminate K s0)"
  unfolding clean_death_def by blast

lemma setup_tty_graphics_death:
  "setup_tty_graphics K fd s = Inl s' \<Longrightarrow> tty s \<ge> 0 \<Longrightarrow> clean_death K s s'"
  unfolding setup_tty_graphics_def Let_def sys_defs
  by (auto split: if_splits intro!: clean_death_terminate)

lemma setup_tty_activate_death:
  assumes "setup_tty_activate K fd s = Inl s'" "fd \<ge> 0"
  shows "clean_death K s s'"
  using assms unfolding setup_tty_activate_def Let_def sys_defs
  by (auto split: if_splits)
    (fastforce intro: clean_death_quiet clean_death_trans [OF setup_tty_graphics_death])+

lemma setup_tty_death: "setup_tty K fd vt rep s = Inl s' \<Longrightarrow> clean_death K s s'"
  unfolding setup_tty_def Let_def sys_defs
  by (auto split: if_splits)
    (fastforce intro: clean_death_quiet clean_death_trans [OF setup_tty_activate_death])+

lemma find_vt_console:
  "find_vt K v rep s = Inl s' \<Longrightarrow> clean_death K s s'"
  "find_vt K v rep s = Inr ((vt, r), s') \<Longrightarrow> c \<in> set (hist s') \<Longrightarrow> changes_console c \<Longrightarrow> c \<in> set (hist s)"
  unfolding find_vt_def Let_def sys_defs
  by (auto split: option.splits if_splits) (fastforce intro: clean_death_quiet)+

lemma open_tty_console:
  "open_tty K vt s = Inl s' \<Longrightarrow> clean_death K s s'"
  "open_tty K vt s = Inr (fd, s') \<Longrightarrow> c \<in> set (hist s') \<Longrightarrow> changes_console c \<Longrightarrow> c \<in> set (hist s)"
  unfolding open_tty_def Let_def sys_defs
  by (auto split: option.splits if_splits) (fastforce intro: clean_death_quiet)+

lemma setup_tty_false:
  "setup_tty K fd vt rep s = Inr (False, s') \<Longrightarrow> s' = s \<and> fd < 0"
  unfolding setup_tty_def setup_tty_activate_def setup_tty_graphics_def Let_def sys_defs
  by (auto split: if_splits)

lemma wlc_tty_init_death:
  assumes "wlc_tty_init K vtnr vt s = Inl s'"
  shows "clean_death K s s'"
proof -
  have tty: "\<not> tty s \<ge> 0" using assms by (auto simp: wlc_tty_init_def)
  let ?find = "if vt = 0 then find_vt K vtnr (vt > 0) s else Inr ((vt, vt > 0), s)"
  show ?thesis
  proof (cases ?find)
    case (Inl s1)
    then show ?thesis using assms tty find_vt_console(1)
      by (fastforce simp: wlc_tty_init_def split: if_splits)
  next
    case (Inr r)
    then obtain vt1 rep s1 where f: "?find = Inr ((vt1, rep), s1)" by (metis prod.exhaust)
    have c1: "\<And>c. c \<in> set (hist s1) \<Longrightarrow> changes_console c \<Longrightarrow> c \<in> set (hist s)"
      using f find_vt_console(2) by (fastforce split: if_splits)
    have step: "(if vt1 = 0 then Inl s1 else
        case open_tty K vt1 s1 of Inl s \<Rightarrow> Inl s
        | Inr (fd, s) \<Rightarrow> (case setup_tty K fd vt1 rep s of Inl s \<Rightarrow> Inl s
            | Inr (ok, s) \<Rightarrow> if ok then Inr s else Inl s)) = Inl s'"
      using assms tty f by (simp add: wlc_tty_init_def Let_def)
    have "clean_death K s1 s'"
    proof (cases "open_tty K vt1 s1")
      case (Inl s2)
      have "clean_death K s1 s1" by (rule clean_death_quiet)
      then show ?thesis using step Inl open_tty_console(1) [OF Inl] by (simp split: if_splits)
    next
      case (Inr q)
      then obtain fd s2 where o: "open_tty K vt1 s1 = Inr (fd, s2)" by (metis prod.exhaust)
      have c2: "\<And>c. c \<in> set (hist s2) \<Longrightarrow> changes_console c \<Longrightarrow> c \<in> set (hist s1)"
        using o open_tty_console(2) by metis
      have "clean_death K s2 s'" if "vt1 \<noteq> 0"
        using step o that setup_tty_death [of K fd vt1 rep s2]
        by (auto split: sum.splits if_splits dest!: setup_tty_false simp: clean_death_def)
      then show ?thesis using step clean_death_trans c2
        by (cases "vt1 = 0") (auto simp: clean_death_def)
    qed
    then show ?thesis using c1 clean_death_trans by blast
  qed
qed

text \<open>What terminate does when the vt can be brought back to the foreground.\<close>

definition vt_switchable :: "kernel \<Rightarrow> bool" where
  "vt_switchable K \<longleftrightarrow>
     (\<forall>h fd v. k_ret K h (Ioctl fd (VT_ACTIVATE v)) \<noteq> -1 \<and> k_ret K h (Ioctl fd (VT_WAITACTIVE v)) \<noteq> -1)"

definition keyboard_restore :: "int \<Rightarrow> int \<Rightarrow> syscall list \<Rightarrow> bool" where
  "keyboard_restore fd mode kb \<longleftrightarrow>
     kb = [Ioctl fd (KDSKBMUTE 0)] \<or> kb = [Ioctl fd (KDSKBMODE mode), Ioctl fd (KDSKBMUTE 0)] \<or>
     kb = [Ioctl fd (KDSKBMODE K_UNICODE), Ioctl fd (KDSKBMODE mode), Ioctl fd (KDSKBMUTE 0)]"

lemma wlc_tty_terminate_calls:
  assumes "vt_switchable K" "tty s \<ge> 0"
  shows "\<exists>kb. keyboard_restore (tty s) (old_kb_mode s) kb \<and>
    hist (wlc_tty_terminate K s) =
      [Close (tty s), Ioctl (tty s) (VT_ACTIVATE (old_vt s)), Ioctl (tty s) (VT_SETMODE VT_AUTO),
       Ioctl (tty s) (KDSETMODE KD_TEXT)] @ kb @
      [Ioctl (tty s) (VT_WAITACTIVE (tvt s)), Ioctl (tty s) (VT_ACTIVATE (tvt s))] @ hist s"
  using assms
  by (simp add: wlc_tty_terminate_def restore_vt_def Let_def sys_def vt_switchable_def
      keyboard_restore_def)

lemma wlc_tty_terminate_tty [simp]: "tty (wlc_tty_terminate K s) = -1"
  by (simp add: wlc_tty_terminate_def Let_def)


text \<open>A kernel on which everything works but the last step of the setup, and one
  on which everything works: vt 2 (device 4:2) is free, the process starts on vt 1.\<close>

definition kernel_vt :: "bool \<Rightarrow> kernel" where
  "kernel_vt fail = \<lparr>
     k_ret = (\<lambda>h c. case c of Open _ _ \<Rightarrow> 7
                | Ioctl _ (VT_SETMODE m) \<Rightarrow> if fail \<and> m = VT_PROCESS then -1 else 0
                | _ \<Rightarrow> 0),
     k_out = (\<lambda>h c. case c of Ioctl _ VT_OPENQRY \<Rightarrow> 2 | Ioctl _ VT_GETSTATE \<Rightarrow> 1 | _ \<Rightarrow> 0),
     k_stat = (\<lambda>h c. \<lparr>st_dev = 0, st_ino = 0, st_rdev = 0x402\<rparr>),
     k_ttyname = (\<lambda>h. None), k_cstr_to_i32 = (\<lambda>_. None), k_cstreq = (=)\<rparr>"

lemmas tty_run_defs =
  wlc_tty_init_def find_vt_def open_tty_def setup_tty_def setup_tty_activate_def
  setup_tty_graphics_def wlc_tty_terminate_def restore_vt_def sys_defs Let_def tty_initial_def
  dec_int_def dec_nat.simps dev_major_def dev_minor_def TTY_MAJOR_def KD_TEXT_def i32_of_u32_def
  kernel_vt_def VT_PROCESS_def


text \<open>A successful takeover holds a valid terminal: the descriptor
  is not negative, the vt number is the minor number of a tty device, the vt that was active is
  remembered, and the last call hands vt switching to the process. A terminate afterwards
  issues the restoring calls for exactly that descriptor, vt and keyboard mode.\<close>

theorem tty_init_then_terminate:
  assumes "wlc_tty_init K vtnr vt tty_initial = Inr s" "vt_switchable K"
  shows "tty s \<ge> 0 \<and> tvt s \<noteq> 0 \<and> hd (hist s) = Ioctl (tty s) (VT_SETMODE VT_PROCESS) \<and>
    (\<exists>kb. keyboard_restore (tty s) (old_kb_mode s) kb \<and>
    hist (wlc_tty_terminate K s) =
      [Close (tty s), Ioctl (tty s) (VT_ACTIVATE (old_vt s)), Ioctl (tty s) (VT_SETMODE VT_AUTO),
       Ioctl (tty s) (KDSETMODE KD_TEXT)] @ kb @
      [Ioctl (tty s) (VT_WAITACTIVE (tvt s)), Ioctl (tty s) (VT_ACTIVATE (tvt s))] @ hist s)"
proof -
  have "tty s \<ge> 0 \<and> tvt s \<noteq> 0 \<and> hd (hist s) = Ioctl (tty s) (VT_SETMODE VT_PROCESS)"
    using assms(1)
    unfolding wlc_tty_init_def setup_tty_def setup_tty_activate_def setup_tty_graphics_def
      Let_def sys_defs
    by (auto simp: tty_initial_def split: if_splits sum.splits prod.splits)
  then show ?thesis using wlc_tty_terminate_calls [OF assms(2), of s] by blast
qed

theorem tty_init_then_terminate_witness:
  "\<exists>s. wlc_tty_init (kernel_vt False) None 0 tty_initial = Inr s \<and> tty s \<ge> 0"
proof -
  obtain s where "wlc_tty_init (kernel_vt False) None 0 tty_initial = Inr s"
    by (simp add: tty_run_defs)
  moreover have "vt_switchable (kernel_vt False)" by (simp add: vt_switchable_def kernel_vt_def)
  ultimately show ?thesis using tty_init_then_terminate [of "kernel_vt False" None 0 s] by simp
qed

end
