(* ===== verification/Fdpass.thy ===== *)
theory Fdpass
  imports Tty "HOL-Library.Multiset"
begin

text \<open>
  The privileged file descriptor process of src/session/fd.c. The child keeps a table of 32
  slots (\<open>wlc.fds\<close>) and answers requests received from a socket one at a time; the parent
  sends a request and reads the response. The child's copy of the terminal state comes along,
  its record extends \<open>tty_state\<close>, and both share the history of system calls.

  The socket is in Socket.thy: here a request arrives as the value that was sent, and an absent, short or late
  response is \<open>None\<close>. A read outside an
  object of the program sets \<open>fd_ub\<close>, from there on nothing is claimed.
\<close>

section \<open>Data\<close>

definition WLC_FD_INPUT :: u32 where "WLC_FD_INPUT = 0"
definition WLC_FD_DRM :: u32 where "WLC_FD_DRM = 1"
definition WLC_FD_LAST :: u32 where "WLC_FD_LAST = 2"

definition INPUT_MAJOR :: u32 where "INPUT_MAJOR = 13"
definition DRM_MAJOR :: u32 where "DRM_MAJOR = 226"

record wlc_fd =
  fd_dev :: "64 word"
  fd_ino :: "64 word"
  fd_fd :: int
  fd_type :: u32

record fd_child = tty_state +
  fds :: "wlc_fd list"
  fd_ub :: bool

text \<open>A path in a request is an array of 32 characters, not necessarily terminated.\<close>

datatype msg_request =
    TYPE_CHECK
  | TYPE_FD_OPEN (rq_path: string) (rq_flags: "int set") (rq_type: u32)
  | TYPE_FD_CLOSE "64 word" "64 word"
  | TYPE_ACTIVATE
  | TYPE_DEACTIVATE
  | TYPE_ACTIVATE_VT int

text \<open>A response carries the type of its request, and for the last three the answer; the
  descriptor travels beside it, -1 for none.\<close>

datatype msg_response =
    Resp_check
  | Resp_fd_open
  | Resp_activate bool
  | Resp_deactivate bool
  | Resp_activate_vt bool

definition fd_free :: wlc_fd where
  "fd_free = \<lparr>fd_dev = -1, fd_ino = -1, fd_fd = -1, fd_type = -1\<rparr>"

text \<open>The child after its fork, with the terminal state it inherited; its history of calls
  starts empty.\<close>

definition fd_child_initial :: "'a tty_state_scheme \<Rightarrow> fd_child" where
  "fd_child_initial t = \<lparr>old_kb_mode = old_kb_mode t, old_vt = old_vt t, tty = tty t, tvt = tvt t,
     hist = [], fds = replicate 32 fd_free, fd_ub = False\<rparr>"

section \<open>Opening\<close>

text \<open>The index of the first slot that satisfies a test, the search loop of both
  \<open>fd_open\<close> and \<open>fd_close\<close>.\<close>

fun find_slot :: "(wlc_fd \<Rightarrow> bool) \<Rightarrow> wlc_fd list \<Rightarrow> nat option" where
  "find_slot P [] = None"
| "find_slot P (x # xs) = (if P x then Some 0 else map_option Suc (find_slot P xs))"

definition allow_base :: "u32 \<Rightarrow> string" where
  "allow_base t = (if t = WLC_FD_INPUT then ''/dev/input/'' else ''/dev/dri/card'')"

definition allow_major :: "u32 \<Rightarrow> u32" where
  "allow_major t = (if t = WLC_FD_INPUT then INPUT_MAJOR else DRM_MAJOR)"

text \<open>The path as the C library reads it: up to the terminator.\<close>

definition c_path :: "string \<Rightarrow> string" where
  "c_path p = takeWhile (\<lambda>c. c \<noteq> CHR 0x00) p"

definition fd_open ::
  "kernel \<Rightarrow> string \<Rightarrow> int set \<Rightarrow> u32 \<Rightarrow> fd_child \<Rightarrow> int \<times> fd_child" where
  "fd_open K path flags type s =
     (case find_slot (\<lambda>f. fd_fd f < 0) (fds s) of
        None \<Rightarrow> (-1, s)
      | Some i \<Rightarrow>
          if type > WLC_FD_LAST then (-1, s)
          else if type = WLC_FD_LAST then (-1, s\<lparr>fd_ub := True\<rparr>)
          else if take (length (allow_base type)) path \<noteq> allow_base type then (-1, s)
          else if CHR 0x00 \<notin> set path then (-1, s\<lparr>fd_ub := True\<rparr>)
          else
            let (r, st, s) = sys_stat K (Stat (c_path path)) s in
            if r < 0 then (-1, s)
            else if dev_major (st_rdev st) \<noteq> allow_major type then (-1, s)
            else
              let (fd, s) = sys K (Open (c_path path) (flags \<union> {O_CLOEXEC})) s in
              if fd < 0 then (fd, s)
              else
                let s = s\<lparr>fds := (fds s)[i := \<lparr>fd_dev = st_dev st, fd_ino = st_ino st,
                                   fd_fd = fd, fd_type = type\<rparr>]\<rparr>;
                    s = (if type = WLC_FD_DRM then snd (sys K (DrmSetMaster fd) s) else s)
                in (fd, s))"

section \<open>Closing\<close>

definition fd_close :: "kernel \<Rightarrow> 64 word \<Rightarrow> 64 word \<Rightarrow> fd_child \<Rightarrow> fd_child" where
  "fd_close K dev ino s =
     (case find_slot (\<lambda>f. fd_dev f = dev \<and> fd_ino f = ino) (fds s) of
        None \<Rightarrow> s
      | Some i \<Rightarrow>
          let f = fds s ! i;
              s = (if fd_type f = WLC_FD_DRM then snd (sys K (DrmDropMaster (fd_fd f)) s) else s);
              s = snd (sys K (Close (fd_fd f)) s)
          in s\<lparr>fds := (fds s)[i := f\<lparr>fd_fd := -1\<rparr>]\<rparr>)"

section \<open>Activation\<close>

text \<open>The loops over the table; each runs over the slot indices that remain. The first
  acquires the drm devices, the second drops them, the third revokes and closes the input devices; all
  three stop with \<open>False\<close> at the first failing call.\<close>

fun activate_loop :: "kernel \<Rightarrow> wlc_fd list \<Rightarrow> fd_child \<Rightarrow> bool \<times> fd_child" where
  "activate_loop K [] s = (True, s)"
| "activate_loop K (f # fs) s =
     (if fd_fd f < 0 then activate_loop K fs s
      else if fd_type f = WLC_FD_DRM then
        (let (r, s) = sys K (DrmSetMaster (fd_fd f)) s in
         if r \<noteq> 0 then (False, s) else activate_loop K fs s)
      else activate_loop K fs s)"

definition activate :: "kernel \<Rightarrow> fd_child \<Rightarrow> bool \<times> fd_child" where
  "activate K s =
     (let (ok, s) = activate_loop K (fds s) s in
      if ok then wlc_tty_activate K s else (False, s))"

fun drop_master_loop :: "kernel \<Rightarrow> wlc_fd list \<Rightarrow> fd_child \<Rightarrow> bool \<times> fd_child" where
  "drop_master_loop K [] s = (True, s)"
| "drop_master_loop K (f # fs) s =
     (if fd_fd f < 0 \<or> fd_type f \<noteq> WLC_FD_DRM then drop_master_loop K fs s
      else (let (r, s) = sys K (DrmDropMaster (fd_fd f)) s in
            if r \<noteq> 0 then (False, s) else drop_master_loop K fs s))"

fun revoke_loop :: "kernel \<Rightarrow> nat \<Rightarrow> nat \<Rightarrow> fd_child \<Rightarrow> bool \<times> fd_child" where
  "revoke_loop K i 0 s = (True, s)"
| "revoke_loop K i (Suc n) s =
     (let f = fds s ! i in
      if fd_fd f < 0 then revoke_loop K (Suc i) n s
      else if fd_type f = WLC_FD_INPUT then
        (let (r, s) = sys K (Ioctl (fd_fd f) EVIOCREVOKE) s in
         if r = -1 then (False, s)
         else let s = snd (sys K (Close (fd_fd f)) s)
              in revoke_loop K (Suc i) n (s\<lparr>fds := (fds s)[i := f\<lparr>fd_fd := -1\<rparr>]\<rparr>))
      else revoke_loop K (Suc i) n s)"

definition deactivate :: "kernel \<Rightarrow> fd_child \<Rightarrow> bool \<times> fd_child" where
  "deactivate K s =
     (let (ok, s) = drop_master_loop K (fds s) s in
      if \<not> ok then (False, s)
      else
        let (ok, s) = revoke_loop K 0 (length (fds s)) s in
        if \<not> ok then (False, s) else wlc_tty_deactivate K s)"

section \<open>The request loop\<close>

text \<open>\<open>handle_request\<close> returns what it writes to the socket: the response and the descriptor
  passed with it (the \<open>fd\<close> that came with the request, unless the request opens one);
  \<open>TYPE_FD_CLOSE\<close> writes nothing.\<close>

definition handle_request ::
  "kernel \<Rightarrow> int \<Rightarrow> msg_request \<Rightarrow> fd_child \<Rightarrow> (msg_response \<times> int) option \<times> fd_child" where
  "handle_request K fd request s =
     (case request of
        TYPE_CHECK \<Rightarrow> (Some (Resp_check, fd), s)
      | TYPE_FD_OPEN path flags type \<Rightarrow>
          let (fd, s) = fd_open K path flags type s in (Some (Resp_fd_open, fd), s)
      | TYPE_FD_CLOSE dev ino \<Rightarrow> (None, fd_close K dev ino s)
      | TYPE_ACTIVATE \<Rightarrow> let (r, s) = activate K s in (Some (Resp_activate r, fd), s)
      | TYPE_DEACTIVATE \<Rightarrow> let (r, s) = deactivate K s in (Some (Resp_deactivate r, fd), s)
      | TYPE_ACTIVATE_VT vt \<Rightarrow>
          let (r, s) = wlc_tty_activate_vt K vt s in (Some (Resp_activate_vt r, fd), s))"

fun close_all :: "kernel \<Rightarrow> wlc_fd list \<Rightarrow> fd_child \<Rightarrow> fd_child" where
  "close_all K [] s = s"
| "close_all K (f # fs) s =
     (if fd_fd f < 0 then close_all K fs s
      else
        let s = (if fd_type f = WLC_FD_DRM then snd (sys K (DrmDropMaster (fd_fd f)) s) else s)
        in close_all K fs (snd (sys K (Close (fd_fd f)) s)))"

fun serve :: "kernel \<Rightarrow> msg_request list \<Rightarrow> fd_child \<Rightarrow> fd_child" where
  "serve K [] s = s"
| "serve K (r # rs) s = serve K rs (snd (handle_request K (-1) r s))"

text \<open>\<open>communicate\<close>: the requests that arrive before the parent exits, then the closing
  loop and the part of \<open>wlc_cleanup\<close> a process without a display runs.\<close>

definition communicate :: "kernel \<Rightarrow> msg_request list \<Rightarrow> 'a tty_state_scheme \<Rightarrow> fd_child" where
  "communicate K rs t =
     (let s = serve K rs (fd_child_initial t) in wlc_tty_terminate K (close_all K (fds s) s))"

section \<open>The parent\<close>

text \<open>The functions of the unprivileged process, in a build without \<open>HAS_LOGIND\<close>. The
  transport \<open>T\<close> sends a request and yields the response that arrives in time, if any;
  \<open>'s\<close> is the state of whatever is at the other end.\<close>

type_synonym 's transport = "msg_request \<Rightarrow> 's \<Rightarrow> (msg_response \<times> int) option \<times> 's"

definition strncpy32 :: "string \<Rightarrow> string" where
  "strncpy32 p = take 32 (c_path p @ replicate 32 (CHR 0x00))"

definition wlc_fd_open :: "'s transport \<Rightarrow> string \<Rightarrow> int set \<Rightarrow> u32 \<Rightarrow> 's \<Rightarrow> int \<times> 's" where
  "wlc_fd_open T path flags type s =
     (let (r, s) = T (TYPE_FD_OPEN (strncpy32 path) flags type) s in
      (case r of Some (Resp_fd_open, fd) \<Rightarrow> fd | _ \<Rightarrow> -1, s))"

definition wlc_fd_close ::
  "kernel \<Rightarrow> 's transport \<Rightarrow> int \<Rightarrow> 'a tty_state_scheme \<Rightarrow> 's \<Rightarrow> 'a tty_state_scheme \<times> 's" where
  "wlc_fd_close K T fd p s =
     (let (r, st, p) = sys_stat K (Fstat fd) p;
          s = (if r = 0 then snd (T (TYPE_FD_CLOSE (st_dev st) (st_ino st)) s) else s)
      in (snd (sys K (Close fd) p), s))"

definition wlc_fd_activate :: "'s transport \<Rightarrow> 's \<Rightarrow> bool \<times> 's" where
  "wlc_fd_activate T s =
     (let (r, s) = T TYPE_ACTIVATE s in (case r of Some (Resp_activate b, _) \<Rightarrow> b | _ \<Rightarrow> False, s))"

definition wlc_fd_deactivate :: "'s transport \<Rightarrow> 's \<Rightarrow> bool \<times> 's" where
  "wlc_fd_deactivate T s =
     (let (r, s) = T TYPE_DEACTIVATE s in (case r of Some (Resp_deactivate b, _) \<Rightarrow> b | _ \<Rightarrow> False, s))"

definition wlc_fd_activate_vt :: "'s transport \<Rightarrow> int \<Rightarrow> 's \<Rightarrow> bool \<times> 's" where
  "wlc_fd_activate_vt T vt s =
     (let (r, s) = T (TYPE_ACTIVATE_VT vt) s in
      (case r of Some (Resp_activate_vt b, _) \<Rightarrow> b | _ \<Rightarrow> False, s))"

section \<open>Slots\<close>

lemma find_slot_Some:
  "find_slot P xs = Some i \<longleftrightarrow> i < length xs \<and> P (xs ! i) \<and> (\<forall>j<i. \<not> P (xs ! j))"
  by (induction xs arbitrary: i)
    (auto simp: less_Suc_eq_0_disj nth_Cons split: nat.splits)

lemma find_slot_None: "find_slot P xs = None \<longleftrightarrow> (\<forall>x\<in>set xs. \<not> P x)"
  by (induction xs) auto

text \<open>What a handler leaves alone. The loops only make calls.\<close>

lemma sys_simps [simp]:
  "fds (snd (sys K c s)) = fds s" "fd_ub (snd (sys K c s)) = fd_ub s"
  "hist (snd (sys K c s)) = c # hist s"
  by (simp_all add: sys_def)

section \<open>What the child opens\<close>

text \<open>Every open in a history is of a permitted path, right after a stat of that path that
  reported the permitted kind of device.\<close>

fun opens_checked :: "kernel \<Rightarrow> syscall list \<Rightarrow> bool" where
  "opens_checked K [] \<longleftrightarrow> True"
| "opens_checked K (c # h) \<longleftrightarrow> opens_checked K h \<and>
     (case c of
        Open p f \<Rightarrow> O_CLOEXEC \<in> f \<and>
          (\<exists>t\<in>{WLC_FD_INPUT, WLC_FD_DRM}. \<exists>h'. take (length (allow_base t)) p = allow_base t \<and>
             h = Stat p # h' \<and> dev_major (st_rdev (k_stat K h' (Stat p))) = allow_major t)
      | _ \<Rightarrow> True)"

lemma take_takeWhile_prefix:
  "take n p = b \<Longrightarrow> \<forall>x\<in>set b. Q x \<Longrightarrow> take n (takeWhile Q p) = b"
proof (induction p arbitrary: n b)
  case (Cons x p)
  then show ?case by (cases n) auto
qed auto

lemma allow_base_no_nul: "\<forall>x\<in>set (allow_base t). x \<noteq> CHR 0x00"
  by (simp add: allow_base_def)

lemma fd_type_cases: "\<not> t > WLC_FD_LAST \<Longrightarrow> t \<noteq> WLC_FD_LAST \<Longrightarrow> t \<in> {WLC_FD_INPUT, WLC_FD_DRM}"
proof -
  assume "\<not> t > WLC_FD_LAST" "t \<noteq> WLC_FD_LAST"
  then have "t < 2" by (simp add: WLC_FD_LAST_def order_less_le not_less)
  then have "unat t < 2" by (simp add: word_less_nat_alt)
  then have "unat t = unat (0 :: u32) \<or> unat t = unat (1 :: u32)" by auto
  then have "t = 0 \<or> t = 1" using unsigned_word_eqI by blast
  then show ?thesis by (simp add: WLC_FD_INPUT_def WLC_FD_DRM_def)
qed

lemma opens_checked_fd_open:
  assumes "opens_checked K (hist s)"
  shows "opens_checked K (hist (snd (fd_open K path flags type s)))"
  using assms fd_type_cases [of type]
    take_takeWhile_prefix [OF _ allow_base_no_nul, of "length (allow_base type)" path type]
  unfolding fd_open_def Let_def sys_stat_def sys_def
  by (auto simp: c_path_def split: option.splits)

lemma opens_checked_activate_loop:
  "opens_checked K (hist s) \<Longrightarrow> opens_checked K (hist (snd (activate_loop K xs s)))"
  by (induction xs arbitrary: s) (auto simp: sys_def Let_def)

lemma opens_checked_drop_master_loop:
  "opens_checked K (hist s) \<Longrightarrow> opens_checked K (hist (snd (drop_master_loop K xs s)))"
  by (induction xs arbitrary: s) (auto simp: sys_def Let_def)

lemma opens_checked_revoke_loop:
  "opens_checked K (hist s) \<Longrightarrow> opens_checked K (hist (snd (revoke_loop K i n s)))"
  by (induction n arbitrary: s i) (auto simp: sys_def Let_def)

lemma opens_checked_close_all:
  "opens_checked K (hist s) \<Longrightarrow> opens_checked K (hist (close_all K xs s))"
  by (induction xs arbitrary: s) (auto simp: Let_def)

lemma opens_checked_terminate:
  "opens_checked K (hist s) \<Longrightarrow> opens_checked K (hist (wlc_tty_terminate K s))"
  by (simp add: wlc_tty_terminate_def restore_vt_def sys_def Let_def)

lemma opens_checked_handle:
  assumes "opens_checked K (hist s)"
  shows "opens_checked K (hist (snd (handle_request K fd r s)))"
proof (cases r)
  case (TYPE_FD_OPEN p f t)
  then show ?thesis
    using opens_checked_fd_open [OF assms, of p f t]
    by (auto simp: handle_request_def split: prod.splits)
next
  case TYPE_ACTIVATE
  then show ?thesis using opens_checked_activate_loop [OF assms, of "fds s"]
    by (auto simp: handle_request_def activate_def wlc_tty_activate_def sys_def Let_def
        split: prod.splits)
next
  case TYPE_DEACTIVATE
  have "opens_checked K (hist (snd (deactivate K s)))"
    using opens_checked_drop_master_loop [OF assms, of "fds s"] opens_checked_revoke_loop
    unfolding deactivate_def wlc_tty_deactivate_def sys_def Let_def
    by (simp split: prod.splits) (metis snd_conv)
  then show ?thesis using TYPE_DEACTIVATE
    by (auto simp: handle_request_def split: prod.splits)
qed (use assms in \<open>auto simp: handle_request_def fd_close_def wlc_tty_activate_vt_def sys_def Let_def
      split: option.splits prod.splits\<close>)

lemma opens_checked_serve:
  "opens_checked K (hist s) \<Longrightarrow> opens_checked K (hist (serve K rs s))"
  by (induction rs arbitrary: s) (auto intro: opens_checked_handle)

text \<open>The reads outside an object: only an open request can cause one, by an index
  that the test lets through or by a path without its terminator.\<close>

definition request_in_bounds :: "msg_request \<Rightarrow> bool" where
  "request_in_bounds r \<longleftrightarrow>
     (case r of TYPE_FD_OPEN path flags type \<Rightarrow> type \<noteq> WLC_FD_LAST \<and> CHR 0x00 \<in> set path | _ \<Rightarrow> True)"

lemma fd_ub_activate_loop [simp]: "fd_ub (snd (activate_loop K xs s)) = fd_ub s"
  by (induction xs arbitrary: s) (simp_all add: sys_def Let_def)

lemma fd_ub_drop_master_loop [simp]: "fd_ub (snd (drop_master_loop K xs s)) = fd_ub s"
  by (induction xs arbitrary: s) (simp_all add: sys_def Let_def)

lemma fd_ub_revoke_loop [simp]: "fd_ub (snd (revoke_loop K i n s)) = fd_ub s"
  by (induction n arbitrary: s i) (simp_all add: sys_def Let_def)

lemma fd_ub_close_all [simp]: "fd_ub (close_all K xs s) = fd_ub s"
  by (induction xs arbitrary: s) (simp_all add: Let_def)

lemma fd_ub_tty [simp]:
  "fd_ub (snd (wlc_tty_activate K s)) = fd_ub s"
  "fd_ub (snd (wlc_tty_deactivate K s)) = fd_ub s"
  "fd_ub (snd (wlc_tty_activate_vt K vt s)) = fd_ub s"
  by (simp_all add: wlc_tty_activate_def wlc_tty_deactivate_def wlc_tty_activate_vt_def sys_def)

lemma fd_ub_activate [simp]:
  "fd_ub (snd (activate K s)) = fd_ub s" "fd_ub (snd (deactivate K s)) = fd_ub s"
  by (simp_all add: activate_def deactivate_def Let_def case_prod_beta)

lemma fd_ub_fd_close [simp]: "fd_ub (fd_close K d n s) = fd_ub s"
  by (simp add: fd_close_def Let_def split: option.split)

lemma fd_ub_fd_open:
  "type \<noteq> WLC_FD_LAST \<Longrightarrow> CHR 0x00 \<in> set path \<Longrightarrow> fd_ub (snd (fd_open K path flags type s)) = fd_ub s"
  by (simp add: fd_open_def Let_def sys_stat_def sys_def split: option.split)

lemma fd_ub_handle:
  "request_in_bounds r \<Longrightarrow> fd_ub (snd (handle_request K fd r s)) = fd_ub s"
  by (cases r)
    (simp_all add: handle_request_def request_in_bounds_def fd_ub_fd_open Let_def case_prod_beta)

lemma fd_ub_serve: "list_all request_in_bounds rs \<Longrightarrow> fd_ub (serve K rs s) = fd_ub s"
  by (induction rs arbitrary: s) (auto simp: fd_ub_handle)

lemma fd_ub_terminate [simp]: "fd_ub (wlc_tty_terminate K s) = fd_ub s"
  by (simp add: wlc_tty_terminate_def restore_vt_def sys_def Let_def)


definition kernel_dev :: kernel where
  "kernel_dev = \<lparr>
     k_ret = (\<lambda>h c. case c of Open _ _ \<Rightarrow> 10 + int (length h) | _ \<Rightarrow> 0),
     k_out = (\<lambda>h c. 0),
     k_stat = (\<lambda>h c. \<lparr>st_dev = 5, st_ino = 77, st_rdev = 0xd40\<rparr>),
     k_ttyname = (\<lambda>h. None), k_cstr_to_i32 = (\<lambda>_. None), k_cstreq = (=)\<rparr>"


text \<open>The bound on the device type of an open request is one too large: with a free
  slot, a request of type \<open>WLC_FD_LAST\<close> passes the test and the child reads the entry
  behind the end of the table of permitted paths.\<close>

theorem fd_open_type_last_out_of_bounds:
  assumes "fd_fd (fds s ! i) < 0" "i < length (fds s)"
  shows "fd_ub (snd (fd_open K path flags WLC_FD_LAST s))"
proof -
  have "find_slot (\<lambda>f. fd_fd f < 0) (fds s) \<noteq> None"
    using assms nth_mem unfolding find_slot_None by blast
  then show ?thesis by (auto simp: fd_open_def)
qed

theorem fd_open_type_last_out_of_bounds_witness:
  "fd_ub (snd (fd_open kernel_dev (strncpy32 ''/etc/shadow'') {} WLC_FD_LAST (fd_child_initial tty_initial)))"
  by (rule fd_open_type_last_out_of_bounds [where i = 0]) (simp_all add: fd_child_initial_def fd_free_def)

section \<open>The table and the descriptors that are open\<close>

text \<open>The descriptors the child has opened and not closed, by its history.\<close>

fun open_fds :: "kernel \<Rightarrow> syscall list \<Rightarrow> int set" where
  "open_fds K [] = {}"
| "open_fds K (c # h) =
     (case c of
        Open p f \<Rightarrow> if k_ret K h c \<ge> 0 then insert (k_ret K h c) (open_fds K h) else open_fds K h
      | Close fd \<Rightarrow> open_fds K h - {fd}
      | _ \<Rightarrow> open_fds K h)"

definition live_fds :: "wlc_fd list \<Rightarrow> int list" where
  "live_fds xs = filter (\<lambda>f. 0 \<le> f) (map fd_fd xs)"

text \<open>What the kernel promises of open: it never returns a descriptor that is still open.\<close>

definition open_fresh :: "kernel \<Rightarrow> bool" where
  "open_fresh K \<longleftrightarrow> (\<forall>h p f. k_ret K h (Open p f) \<notin> open_fds K h)"

definition fd_table_ok :: "kernel \<Rightarrow> fd_child \<Rightarrow> bool" where
  "fd_table_ok K s \<longleftrightarrow>
     length (fds s) = 32 \<and> distinct (live_fds (fds s)) \<and> set (live_fds (fds s)) = open_fds K (hist s)"

lemma mset_live_fds_update:
  assumes "i < length xs"
  shows "mset (live_fds (xs[i := f])) + (if 0 \<le> fd_fd (xs ! i) then {#fd_fd (xs ! i)#} else {#}) =
    mset (live_fds xs) + (if 0 \<le> fd_fd f then {#fd_fd f#} else {#})"
  using assms
proof (induction xs arbitrary: i)
  case (Cons x xs)
  show ?case
  proof (cases i)
    case 0
    then show ?thesis by (simp add: live_fds_def)
  next
    case (Suc n)
    then show ?thesis using Cons.IH [of n] Cons.prems
      by (simp add: live_fds_def ac_simps split: if_splits)
  qed
qed simp

lemma live_fds_add:
  assumes "i < length xs" "fd_fd (xs ! i) < 0" "0 \<le> fd_fd f"
  shows "distinct (live_fds (xs[i := f])) \<longleftrightarrow> distinct (live_fds xs) \<and> fd_fd f \<notin> set (live_fds xs)"
    and "set (live_fds (xs[i := f])) = insert (fd_fd f) (set (live_fds xs))"
proof -
  have m: "mset (live_fds (xs[i := f])) = mset (fd_fd f # live_fds xs)"
    using mset_live_fds_update [OF assms(1), of f] assms(2,3) by simp
  show "distinct (live_fds (xs[i := f])) \<longleftrightarrow> distinct (live_fds xs) \<and> fd_fd f \<notin> set (live_fds xs)"
    using mset_eq_imp_distinct_iff [OF m] by auto
  show "set (live_fds (xs[i := f])) = insert (fd_fd f) (set (live_fds xs))"
    using mset_eq_setD [OF m] by simp
qed

lemma live_fds_clear:
  assumes "i < length xs" "fd_fd f < 0" "distinct (live_fds xs)"
  shows "distinct (live_fds (xs[i := f]))"
    and "set (live_fds (xs[i := f])) = set (live_fds xs) - {fd_fd (xs ! i)}"
proof -
  have m: "0 \<le> fd_fd (xs ! i) \<Longrightarrow> mset (live_fds xs) = mset (fd_fd (xs ! i) # live_fds (xs[i := f]))"
    "fd_fd (xs ! i) < 0 \<Longrightarrow> mset (live_fds (xs[i := f])) = mset (live_fds xs)"
    using mset_live_fds_update [OF assms(1), of f] assms(2) by auto
  have neg: "fd_fd (xs ! i) < 0 \<Longrightarrow> fd_fd (xs ! i) \<notin> set (live_fds xs)" by (simp add: live_fds_def)
  show "distinct (live_fds (xs[i := f]))"
    using m assms(3) by (metis distinct.simps(2) linorder_not_less mset_eq_imp_distinct_iff)
  show "set (live_fds (xs[i := f])) = set (live_fds xs) - {fd_fd (xs ! i)}"
  proof (cases "0 \<le> fd_fd (xs ! i)")
    case True
    have "distinct (fd_fd (xs ! i) # live_fds (xs[i := f]))"
      using mset_eq_imp_distinct_iff [OF m(1) [OF True]] assms(3) by simp
    moreover have "set (live_fds xs) = insert (fd_fd (xs ! i)) (set (live_fds (xs[i := f])))"
      using mset_eq_setD [OF m(1) [OF True]] by simp
    ultimately show ?thesis by auto
  next
    case False
    then show ?thesis using mset_eq_setD [OF m(2)] neg by auto
  qed
qed

lemma fd_table_ok_cong:
  "fds s' = fds s \<Longrightarrow> open_fds K (hist s') = open_fds K (hist s) \<Longrightarrow> fd_table_ok K s' = fd_table_ok K s"
  by (simp add: fd_table_ok_def)

lemma fd_table_ok_fd_open:
  assumes "open_fresh K" "fd_table_ok K s"
  shows "fd_table_ok K (snd (fd_open K path flags type s))"
proof (cases "find_slot (\<lambda>f. fd_fd f < 0) (fds s)")
  case None
  then show ?thesis using assms by (simp add: fd_open_def)
next
  case (Some i)
  then have i: "i < length (fds s)" "fd_fd (fds s ! i) < 0" by (simp_all add: find_slot_Some)
  have fresh: "k_ret K h (Open p f) \<in> open_fds K h \<Longrightarrow> False" for h p f
    using assms(1) by (simp add: open_fresh_def)
  show ?thesis
    using assms(2) Some i fresh [of "Stat (c_path path) # hist s"]
    by (auto simp: fd_open_def fd_table_ok_def Let_def sys_stat_def sys_def live_fds_add)
qed

lemma fd_table_ok_clear:
  assumes "fd_table_ok K s" "i < length (fds s)"
  shows "fd_table_ok K (s\<lparr>hist := Close (fd_fd (fds s ! i)) # hist s,
           fds := (fds s)[i := (fds s ! i)\<lparr>fd_fd := -1\<rparr>]\<rparr>)"
  using assms live_fds_clear [of i "fds s" "(fds s ! i)\<lparr>fd_fd := -1\<rparr>"]
  by (simp add: fd_table_ok_def)

lemma fd_table_ok_fd_close:
  assumes "fd_table_ok K s"
  shows "fd_table_ok K (fd_close K d n s)"
proof (cases "find_slot (\<lambda>f. fd_dev f = d \<and> fd_ino f = n) (fds s)")
  case (Some i)
  then have i: "i < length (fds s)" by (simp add: find_slot_Some)
  have "fd_table_ok K (s\<lparr>hist := DrmDropMaster (fd_fd (fds s ! i)) # hist s\<rparr>)"
    using assms by (simp add: fd_table_ok_def)
  from fd_table_ok_clear [OF this, of i] fd_table_ok_clear [OF assms i] i Some show ?thesis
    by (cases "fd_type (fds s ! i) = WLC_FD_DRM") (simp_all add: fd_close_def Let_def sys_def)
qed (use assms in \<open>simp add: fd_close_def\<close>)

lemma activate_loop_frame [simp]:
  "fds (snd (activate_loop K xs s)) = fds s"
  "open_fds K' (hist (snd (activate_loop K xs s))) = open_fds K' (hist s)"
  by (induction xs arbitrary: s) (simp_all add: sys_def Let_def)

lemma drop_master_loop_frame [simp]:
  "fds (snd (drop_master_loop K xs s)) = fds s"
  "open_fds K' (hist (snd (drop_master_loop K xs s))) = open_fds K' (hist s)"
  by (induction xs arbitrary: s) (simp_all add: sys_def Let_def)

lemma tty_calls_frame [simp]:
  "fds (snd (wlc_tty_activate K s)) = fds s"
  "fds (snd (wlc_tty_deactivate K s)) = fds s"
  "fds (snd (wlc_tty_activate_vt K vt s)) = fds s"
  "open_fds K' (hist (snd (wlc_tty_activate K s))) = open_fds K' (hist s)"
  "open_fds K' (hist (snd (wlc_tty_deactivate K s))) = open_fds K' (hist s)"
  "open_fds K' (hist (snd (wlc_tty_activate_vt K vt s))) = open_fds K' (hist s)"
  by (simp_all add: wlc_tty_activate_def wlc_tty_deactivate_def wlc_tty_activate_vt_def sys_def)

lemma fd_table_ok_revoke_loop:
  "fd_table_ok K s \<Longrightarrow> i + n \<le> length (fds s) \<Longrightarrow> fd_table_ok K (snd (revoke_loop K i n s))"
proof (induction n arbitrary: i s)
  case (Suc n)
  let ?f = "fds s ! i"
  let ?s1 = "s\<lparr>hist := Ioctl (fd_fd ?f) EVIOCREVOKE # hist s\<rparr>"
  have s1: "fd_table_ok K ?s1" using Suc.prems(1) by (simp add: fd_table_ok_def)
  have s2: "fd_table_ok K (?s1\<lparr>hist := Close (fd_fd ?f) # hist ?s1, fds := (fds s)[i := ?f\<lparr>fd_fd := -1\<rparr>]\<rparr>)"
    using fd_table_ok_clear [OF s1, of i] Suc.prems(2) by simp
  show ?case using Suc.IH [of s "Suc i"] Suc.IH [OF s2, of "Suc i"] Suc.prems s1
    by (simp add: Let_def sys_def)
qed simp

lemma fd_table_ok_handle:
  assumes "open_fresh K" "fd_table_ok K s"
  shows "fd_table_ok K (snd (handle_request K fd r s))"
proof -
  have "fd_table_ok K (snd (activate K s))"
    by (rule iffD2 [OF fd_table_ok_cong assms(2)]) (simp_all add: activate_def Let_def case_prod_beta)
  moreover have "fd_table_ok K (snd (deactivate K s))"
  proof -
    let ?d = "snd (drop_master_loop K (fds s) s)"
    have d: "fd_table_ok K ?d" by (rule iffD2 [OF fd_table_ok_cong assms(2)]) simp_all
    then have r: "fd_table_ok K (snd (revoke_loop K 0 (length (fds s)) ?d))"
      by (rule fd_table_ok_revoke_loop) simp
    then have "fd_table_ok K (snd (wlc_tty_deactivate K (snd (revoke_loop K 0 (length (fds s)) ?d))))"
      by (rule iffD2 [OF fd_table_ok_cong, rotated 2]) simp_all
    with d r show ?thesis by (simp add: deactivate_def Let_def case_prod_beta)
  qed
  moreover have "fd_table_ok K (snd (wlc_tty_activate_vt K vt s))" for vt
    by (rule iffD2 [OF fd_table_ok_cong assms(2)]) simp_all
  ultimately show ?thesis
    using assms fd_table_ok_fd_open fd_table_ok_fd_close
    by (cases r) (simp_all add: handle_request_def Let_def case_prod_beta)
qed

lemma fd_table_ok_serve:
  "open_fresh K \<Longrightarrow> fd_table_ok K s \<Longrightarrow> fd_table_ok K (serve K rs s)"
  by (induction rs arbitrary: s) (simp_all add: fd_table_ok_handle)

lemma fd_table_ok_initial: "fd_table_ok K (fd_child_initial t)"
  by (simp add: fd_table_ok_def fd_child_initial_def live_fds_def fd_free_def)

lemma close_all_open_fds:
  "open_fds K (hist (close_all K xs s)) = open_fds K (hist s) - set (live_fds xs)"
  by (induction xs arbitrary: s) (auto simp: live_fds_def Let_def)

lemma terminate_open_fds:
  "open_fds K (hist (wlc_tty_terminate K s)) \<subseteq> open_fds K (hist s)"
  by (auto simp: wlc_tty_terminate_def restore_vt_def sys_def Let_def)

text \<open>C15 (invariant). After any sequence of requests, the live slots of the child's table
  are exactly the descriptors it has opened and not closed, each in one slot: no
  descriptor is forgotten while the child runs, and none is kept in the table after its close.\<close>

theorem fd_table_exact:
  assumes "open_fresh K"
  shows "length (fds (serve K rs (fd_child_initial t))) = 32 \<and>
    distinct (live_fds (fds (serve K rs (fd_child_initial t)))) \<and>
    set (live_fds (fds (serve K rs (fd_child_initial t)))) =
      open_fds K (hist (serve K rs (fd_child_initial t)))"
  using fd_table_ok_serve [OF assms fd_table_ok_initial] by (simp add: fd_table_ok_def)

lemma open_fresh_kernel_dev: "open_fresh kernel_dev"
proof -
  have "fd \<in> open_fds kernel_dev h \<Longrightarrow> fd < 10 + int (length h)" for fd h
    by (induction h) (auto simp: kernel_dev_def split: syscall.splits if_splits)
  then show ?thesis unfolding open_fresh_def by (fastforce simp: kernel_dev_def)
qed

theorem fd_table_exact_witness:
  "set (live_fds (fds (serve kernel_dev [TYPE_FD_OPEN (strncpy32 ''/dev/input/event0'') {} WLC_FD_INPUT]
       (fd_child_initial tty_initial)))) =
   open_fds kernel_dev (hist (serve kernel_dev [TYPE_FD_OPEN (strncpy32 ''/dev/input/event0'') {} WLC_FD_INPUT]
       (fd_child_initial tty_initial)))"
  using fd_table_exact [OF open_fresh_kernel_dev] by blast

text \<open>When the parent has gone the child closes every descriptor it still
  holds before it exits.\<close>

theorem fd_child_closes_everything:
  assumes "open_fresh K"
  shows "open_fds K (hist (communicate K rs t)) = {}"
proof -
  have "fd_table_ok K (serve K rs (fd_child_initial t))"
    by (rule fd_table_ok_serve [OF assms fd_table_ok_initial])
  then show ?thesis
    using terminate_open_fds close_all_open_fds
    by (fastforce simp: communicate_def Let_def fd_table_ok_def)
qed

theorem fd_child_closes_everything_witness:
  "open_fds kernel_dev (hist (communicate kernel_dev
     [TYPE_FD_OPEN (strncpy32 ''/dev/input/event0'') {} WLC_FD_INPUT] tty_initial)) = {}"
  by (rule fd_child_closes_everything) (rule open_fresh_kernel_dev)

section \<open>Deactivation\<close>

text \<open>What the loop has done to the slots from \<open>i\<close> on when it reports success, and that it
  touches no other slot.\<close>

definition input_closed :: "wlc_fd \<Rightarrow> wlc_fd" where
  "input_closed f = (if 0 \<le> fd_fd f \<and> fd_type f = WLC_FD_INPUT then f\<lparr>fd_fd := -1\<rparr> else f)"

lemma revoke_loop_success:
  "revoke_loop K i n s = (True, s') \<Longrightarrow> i + n \<le> length (fds s) \<Longrightarrow>
     fds s' = take i (fds s) @ map input_closed (take n (drop i (fds s))) @ drop (i + n) (fds s)"
proof (induction n arbitrary: i s)
  case (Suc n)
  let ?f = "fds s ! i"
  have i: "i < length (fds s)" using Suc.prems(2) by simp
  have split: "take (Suc n) (drop i (fds s)) = ?f # take n (drop (Suc i) (fds s))"
    using Cons_nth_drop_Suc [OF i] by (metis take_Suc_Cons)
  show ?case
  proof (cases "0 \<le> fd_fd ?f \<and> fd_type ?f = WLC_FD_INPUT")
    case True
    let ?h = "Close (fd_fd ?f) # Ioctl (fd_fd ?f) EVIOCREVOKE # hist s"
    let ?s = "s\<lparr>hist := ?h, fds := (fds s)[i := ?f\<lparr>fd_fd := -1\<rparr>]\<rparr>"
    have "revoke_loop K (Suc i) n ?s = (True, s')"
      using Suc.prems(1) True by (simp add: Let_def sys_def split: if_splits)
    from Suc.IH [OF this] Suc.prems(2) split True i show ?thesis
      by (simp add: input_closed_def take_Suc_conv_app_nth drop_update_swap)
  next
    case False
    have "revoke_loop K (Suc i) n s = (True, s')"
      using Suc.prems(1) False by (simp add: Let_def split: if_splits)
    from Suc.IH [OF this] Suc.prems(2) split False i show ?thesis
      by (simp add: input_closed_def take_Suc_conv_app_nth)
  qed
qed simp

lemma drop_master_loop_tty [simp]: "tty (snd (drop_master_loop K xs s)) = tty s"
  by (induction xs arbitrary: s) (simp_all add: sys_def Let_def)

lemma wlc_tty_deactivate_fds: "wlc_tty_deactivate K s = (b, s') \<Longrightarrow> fds s' = fds s"
  using tty_calls_frame(2) [of K s] by simp

lemma drop_master_loop_fails:
  "drop_master_loop K xs s = (False, s') \<Longrightarrow>
     \<exists>cs. hist s' = cs @ hist s \<and> (\<forall>c\<in>set cs. \<exists>fd. c = DrmDropMaster fd)"
proof (induction xs arbitrary: s)
  case (Cons f xs)
  then show ?case
    by (fastforce simp: Let_def sys_def split: if_splits)
qed simp

text \<open>A deactivation that reports success has closed every open input device
  and left every other slot as it was; so no input descriptor survives a switch to another vt,
  while the drm devices stay open for the switch back.\<close>

theorem fd_deactivate_closes_inputs:
  assumes "deactivate K s = (True, s')"
  shows "fds s' = map input_closed (fds s) \<and>
    (\<forall>f\<in>set (fds s'). fd_type f = WLC_FD_INPUT \<longrightarrow> fd_fd f < 0)"
proof -
  obtain s1 s2 where s1: "drop_master_loop K (fds s) s = (True, s1)"
    and s2: "revoke_loop K 0 (length (fds s1)) s1 = (True, s2)"
    and s': "wlc_tty_deactivate K s2 = (True, s')"
    using assms by (auto simp: deactivate_def Let_def split: prod.splits if_splits)
  have "fds s1 = fds s" using drop_master_loop_frame(1) [of K "fds s" s] s1 by simp
  moreover have "fds s2 = map input_closed (fds s1)" using revoke_loop_success [OF s2] by simp
  ultimately have "fds s' = map input_closed (fds s)" using wlc_tty_deactivate_fds [OF s'] by simp
  then show ?thesis by (auto simp: input_closed_def)
qed

theorem fd_deactivate_closes_inputs_witness:
  "map fd_fd (fds (snd (deactivate kernel_dev (fd_child_initial tty_initial\<lparr>fds :=
     [\<lparr>fd_dev = 5, fd_ino = 7, fd_fd = 11, fd_type = WLC_FD_DRM\<rparr>,
      \<lparr>fd_dev = 5, fd_ino = 8, fd_fd = 12, fd_type = WLC_FD_INPUT\<rparr>]\<rparr>)))) = [11, -1]"
proof -
  let ?s = "fd_child_initial tty_initial\<lparr>fds :=
     [\<lparr>fd_dev = 5, fd_ino = 7, fd_fd = 11, fd_type = WLC_FD_DRM\<rparr>,
      \<lparr>fd_dev = 5, fd_ino = 8, fd_fd = 12, fd_type = WLC_FD_INPUT\<rparr>]\<rparr>"
  have "deactivate kernel_dev ?s = (True, snd (deactivate kernel_dev ?s))"
    by (simp add: deactivate_def wlc_tty_deactivate_def Let_def sys_def kernel_dev_def
        WLC_FD_DRM_def WLC_FD_INPUT_def eval_nat_numeral)
  from fd_deactivate_closes_inputs [OF this] show ?thesis
    by (simp add: input_closed_def WLC_FD_DRM_def WLC_FD_INPUT_def)
qed

text \<open>If a drm device refuses to be dropped the deactivation fails before any
  input device is revoked or closed: the only calls made are the drops.\<close>

theorem fd_deactivate_drm_first:
  assumes "fst (drop_master_loop K (fds s) s) = False"
  shows "fst (deactivate K s) = False \<and> fds (snd (deactivate K s)) = fds s \<and>
    (\<exists>cs. hist (snd (deactivate K s)) = cs @ hist s \<and> (\<forall>c\<in>set cs. \<exists>fd. c = DrmDropMaster fd))"
proof -
  obtain s1 where s1: "drop_master_loop K (fds s) s = (False, s1)"
    using assms by (metis prod.collapse)
  moreover have "fds s1 = fds s" using drop_master_loop_frame(1) [of K "fds s" s] s1 by simp
  ultimately show ?thesis using drop_master_loop_fails [OF s1] by (simp add: deactivate_def)
qed

theorem fd_deactivate_drm_first_witness:
  "fst (deactivate (kernel_dev\<lparr>k_ret := \<lambda>h c. -1\<rparr>) (fd_child_initial tty_initial\<lparr>fds :=
     [\<lparr>fd_dev = 5, fd_ino = 7, fd_fd = 11, fd_type = WLC_FD_DRM\<rparr>]\<rparr>)) = False"
proof -
  let ?K = "kernel_dev\<lparr>k_ret := \<lambda>h c. -1\<rparr>"
  let ?s = "fd_child_initial tty_initial\<lparr>fds :=
     [\<lparr>fd_dev = 5, fd_ino = 7, fd_fd = 11, fd_type = WLC_FD_DRM\<rparr>]\<rparr>"
  have "fst (drop_master_loop ?K (fds ?s) ?s) = False" by (simp add: Let_def sys_def)
  from fd_deactivate_drm_first [OF this] show ?thesis by blast
qed

section \<open>Opening and closing from the parent\<close>

lemma c_path_strncpy32:
  assumes "CHR 0x00 \<notin> set path" "length path < 32"
  shows "c_path (strncpy32 path) = path" "CHR 0x00 \<in> set (strncpy32 path)"
proof -
  have p: "c_path path = path" using assms(1) by (auto simp: c_path_def takeWhile_eq_all_conv)
  obtain k where k: "32 - length path = Suc k" using assms(2) by (metis Suc_diff_Suc)
  then have n: "strncpy32 path = path @ CHR 0x00 # replicate k (CHR 0x00)"
    using assms(2) p k by (auto simp: strncpy32_def min_def)
  show "CHR 0x00 \<in> set (strncpy32 path)" by (simp add: n)
  show "c_path (strncpy32 path) = path" unfolding n c_path_def
    using assms(1) by (subst takeWhile_append2) auto
qed

text \<open>The parent's open, answered by the child, yields a descriptor only for
  a permitted device whose stat and open succeed: for a path of at most 31 characters, what the
  parent gets is the kernel's answer to the child's open of exactly that path, recorded in the first free slot
  with the device and inode that stat reported; a denied request yields -1 and changes nothing.\<close>

theorem wlc_fd_open_roundtrip:
  assumes "CHR 0x00 \<notin> set path" "length path < 32" "\<not> type > WLC_FD_LAST" "type \<noteq> WLC_FD_LAST"
    and "find_slot (\<lambda>f. fd_fd f < 0) (fds s) = Some i"
    and "wlc_fd_open (handle_request K (-1)) path flags type s = (fd, s')"
  shows "if take (length (allow_base type)) path = allow_base type \<and> fd \<ge> 0 then
       (let st = k_stat K (hist s) (Stat path) in
         fds s' = (fds s)[i := \<lparr>fd_dev = st_dev st, fd_ino = st_ino st, fd_fd = fd, fd_type = type\<rparr>] \<and>
         dev_major (st_rdev st) = allow_major type \<and>
         fd = k_ret K (Stat path # hist s) (Open path (flags \<union> {O_CLOEXEC})))
     else fd < 0 \<and> fds s' = fds s"
proof -
  have pre: "take (length (allow_base type)) (strncpy32 path) = allow_base type \<longleftrightarrow>
      take (length (allow_base type)) path = allow_base type"
  proof -
    have "length (allow_base type) < 32" by (simp add: allow_base_def)
    moreover have "c_path path = path" using assms(1) by (auto simp: c_path_def takeWhile_eq_all_conv)
    ultimately have eq: "take (length (allow_base type)) (strncpy32 path) =
        take (length (allow_base type)) (path @ replicate 32 (CHR 0x00))"
      by (auto simp: strncpy32_def min_def)
    show ?thesis
    proof (cases "length (allow_base type) \<le> length path")
      case False
      then have "CHR 0x00 \<in> set (take (length (allow_base type)) (path @ replicate 32 (CHR 0x00)))"
        using \<open>length (allow_base type) < 32\<close> by (auto simp: min_def)
      then have "take (length (allow_base type)) (path @ replicate 32 (CHR 0x00)) \<noteq> allow_base type"
        using allow_base_no_nul by metis
      moreover have "take (length (allow_base type)) path \<noteq> allow_base type"
        using False by (metis length_take min_def nat_le_linear)
      ultimately show ?thesis using eq by simp
    qed (use eq in simp)
  qed
  show ?thesis
    using assms(3-6) c_path_strncpy32 [OF assms(1,2)]
    unfolding wlc_fd_open_def handle_request_def fd_open_def
    by (auto simp: Let_def sys_stat_def sys_def pre split: if_splits)
qed

theorem wlc_fd_open_roundtrip_witness:
  "\<exists>s'. wlc_fd_open (handle_request kernel_dev (-1)) ''/dev/input/event0'' {} WLC_FD_INPUT
      (fd_child_initial tty_initial) = (11, s') \<and>
    fds s' = (fds (fd_child_initial tty_initial))[0 := \<lparr>fd_dev = 5, fd_ino = 77, fd_fd = 11, fd_type = WLC_FD_INPUT\<rparr>]"
proof -
  have slot: "find_slot (\<lambda>f. fd_fd f < 0) (fds (fd_child_initial tty_initial)) = Some 0"
    by (simp add: find_slot_Some fd_child_initial_def fd_free_def)
  have path: "c_path (strncpy32 ''/dev/input/event0'') = ''/dev/input/event0''"
    "CHR 0x00 \<in> set (strncpy32 ''/dev/input/event0'')" by (simp_all add: c_path_strncpy32)
  have base: "take (length (allow_base WLC_FD_INPUT)) (strncpy32 ''/dev/input/event0'') = allow_base WLC_FD_INPUT"
    by (simp add: strncpy32_def c_path_def allow_base_def)
  have type: "\<not> WLC_FD_INPUT > WLC_FD_LAST" "WLC_FD_INPUT \<noteq> WLC_FD_LAST" "WLC_FD_INPUT \<noteq> WLC_FD_DRM"
    by (simp_all add: WLC_FD_INPUT_def WLC_FD_LAST_def WLC_FD_DRM_def)
  have major: "dev_major 0xd40 = INPUT_MAJOR" by (simp add: dev_major_def INPUT_MAJOR_def)
  obtain s' where run: "wlc_fd_open (handle_request kernel_dev (-1)) ''/dev/input/event0'' {} WLC_FD_INPUT
      (fd_child_initial tty_initial) = (11, s')"
    by (simp add: wlc_fd_open_def handle_request_def fd_open_def slot path base major type
        allow_major_def sys_defs Let_def kernel_dev_def)
      (simp add: fd_child_initial_def)
  from wlc_fd_open_roundtrip [OF _ _ _ _ slot run] run show ?thesis
    by (simp add: WLC_FD_LAST_def WLC_FD_INPUT_def allow_base_def Let_def kernel_dev_def)
qed

text \<open>Closing a slot does not clear its device and inode numbers, and a close takes the
  first slot that matches them. So when a device that was closed in an earlier slot is open again
  in a later one, closing it only closes -1: the later slot keeps its descriptor,
  which stays open.\<close>

theorem fd_close_stale_slot_leaks:
  assumes "find_slot (\<lambda>f. fd_dev f = d \<and> fd_ino f = n) (fds s) = Some i"
    and "fd_fd (fds s ! i) < 0" "0 \<le> fd_fd (fds s ! j)"
    and "fd_fd (fds s ! j) \<in> open_fds K (hist s)"
  shows "fds (fd_close K d n s) ! j = fds s ! j \<and>
    fd_fd (fds s ! j) \<in> open_fds K (hist (fd_close K d n s))"
  using assms by (cases "i = j") (auto simp: fd_close_def Let_def)

theorem fd_close_stale_slot_leaks_witness:
  "let f = \<lparr>fd_dev = 5, fd_ino = 77, fd_fd = -1, fd_type = WLC_FD_INPUT\<rparr>;
       s = fd_child_initial tty_initial\<lparr>fds := [f, f\<lparr>fd_fd := 10\<rparr>], hist := [Open ''/dev/input/event0'' {}]\<rparr>
   in fds (fd_close kernel_dev 5 77 s) ! 1 = fds s ! 1 \<and>
      fd_fd (fds s ! 1) \<in> open_fds kernel_dev (hist (fd_close kernel_dev 5 77 s))"
  unfolding Let_def by (rule fd_close_stale_slot_leaks [where i = 0]) (simp_all add: kernel_dev_def)

end
