(* ===== verification/Socket.thy ===== *)
theory Socket
  imports Fdpass
begin

text \<open>
  The socket between the two processes of src/session/fd.c: messages with a descriptor beside them, the wait for a
  response, and the start of the child.

  A \<open>fd_channel\<close> is both ends of the socket pair with the child behind it: the messages on their way in each
  direction, in order. How far the child gets while the parent waits is a parameter, \<open>steps\<close>. A descriptor is
  denoted by the number it has in the child; the kernel gives the parent a number of its own for it.
\<close>

section \<open>Messages\<close>

definition SOL_SOCKET :: int where "SOL_SOCKET = 1"
definition SCM_RIGHTS :: int where "SCM_RIGHTS = 1"
definition EAGAIN :: int where "EAGAIN = 11"
definition CMSG_LEN :: "nat \<Rightarrow> nat" where "CMSG_LEN n = 16 + n"
definition CMSG_SPACE :: "nat \<Rightarrow> nat" where "CMSG_SPACE n = 16 + (n + 7) div 8 * 8"

record cmsghdr =
  cmsg_len :: nat
  cmsg_level :: int
  cmsg_type :: int
  cmsg_data :: int

record 'a msghdr =
  msg_iov :: 'a
  msg_iov_len :: int
  msg_controllen :: nat
  msg_control :: "cmsghdr option"

text \<open>The message \<open>write_fd\<close> gives to \<open>sendmsg\<close>.\<close>

definition write_fd :: "int \<Rightarrow> 'a \<Rightarrow> int \<Rightarrow> 'a msghdr" where
  "write_fd fd buffer buffer_size =
     \<lparr>msg_iov = buffer, msg_iov_len = buffer_size,
      msg_controllen = (if fd \<ge> 0 then CMSG_SPACE 4 else 0),
      msg_control = (if fd \<ge> 0 then Some \<lparr>cmsg_len = CMSG_LEN 4, cmsg_level = SOL_SOCKET, cmsg_type = SCM_RIGHTS, cmsg_data = fd\<rparr>
                     else None)\<rparr>"

text \<open>What \<open>recvmsg\<close> comes back with: a failure with its \<open>errno\<close>, or a message and the number of bytes read.\<close>

datatype 'a received = Rx_failed int | Rx int "'a msghdr"

definition recv_fd :: "'a received \<Rightarrow> int \<times> int \<times> 'a option" where
  "recv_fd rx =
     (case rx of
        Rx_failed e \<Rightarrow> (-1, -1, None)
      | Rx n m \<Rightarrow>
          if msg_controllen m = 0 then (n, -1, Some (msg_iov m))
          else
            (case msg_control m of
               None \<Rightarrow> (n, -1, Some (msg_iov m))
             | Some c \<Rightarrow>
                 if cmsg_len c = CMSG_LEN 4
                 then (if cmsg_level c \<noteq> SOL_SOCKET \<or> cmsg_type c \<noteq> SCM_RIGHTS then (n, -1, Some (msg_iov m))
                       else (n, cmsg_data c, Some (msg_iov m)))
                 else (n, -1, Some (msg_iov m))))"

lemma recv_write: "recv_fd (Rx n (write_fd fd d k)) = (n, if fd \<ge> 0 then fd else -1, Some d)"
  by (simp add: recv_fd_def write_fd_def CMSG_SPACE_def)

definition request_size :: int where "request_size = 48"
definition response_size :: int where "response_size = 8"

text \<open>The type of a response, \<open>msg_type\<close>.\<close>

fun response_type :: "msg_response \<Rightarrow> nat" where
  "response_type Resp_check = 0"
| "response_type Resp_fd_open = 1"
| "response_type (Resp_activate _) = 3"
| "response_type (Resp_deactivate _) = 4"
| "response_type (Resp_activate_vt _) = 5"

fun request_type :: "msg_request \<Rightarrow> nat" where
  "request_type TYPE_CHECK = 0"
| "request_type (TYPE_FD_OPEN _ _ _) = 1"
| "request_type (TYPE_FD_CLOSE _ _) = 2"
| "request_type TYPE_ACTIVATE = 3"
| "request_type TYPE_DEACTIVATE = 4"
| "request_type (TYPE_ACTIVATE_VT _) = 5"

text \<open>The loop of \<open>read_response\<close> over the results of \<open>recvmsg\<close>: it asks again as long as there is nothing to read. The
  result has the descriptor, the response, and whether it is the one that was expected.\<close>

fun read_loop :: "msg_response received list \<Rightarrow> nat \<Rightarrow> int \<times> msg_response option \<times> bool" where
  "read_loop [] expected_type = (-1, None, False)"
| "read_loop (rx # rest) expected_type =
     (case rx of
        Rx_failed e \<Rightarrow> if e = EAGAIN then read_loop rest expected_type else (-1, None, False)
      | Rx _ _ \<Rightarrow>
          let (ret, fd, r) = recv_fd rx
          in (fd, r, ret = response_size \<and> map_option response_type r = Some expected_type))"

text \<open>\<open>select\<close> reports whether the socket became readable within a second.\<close>

definition read_response :: "bool \<Rightarrow> msg_response received list \<Rightarrow> nat \<Rightarrow> int \<times> msg_response option \<times> bool" where
  "read_response readable rxs expected_type = (if \<not> readable then (-1, None, False) else read_loop rxs expected_type)"

section \<open>Both ends\<close>

record fd_channel =
  ch_requests :: "msg_request msghdr list"
  ch_responses :: "msg_response msghdr list"
  ch_child :: fd_child
  ch_died :: bool

text \<open>One turn of the inner loop of \<open>communicate\<close>.\<close>

definition child_turn :: "kernel \<Rightarrow> fd_channel \<Rightarrow> fd_channel" where
  "child_turn K c =
     (case ch_requests c of
        [] \<Rightarrow> c
      | m # ms \<Rightarrow>
          (case recv_fd (Rx (msg_iov_len m) m) of
             (n, fd, Some r) \<Rightarrow>
               if n \<noteq> request_size then c\<lparr>ch_requests := ms\<rparr>
               else
                 let (a, s) = handle_request K fd r (ch_child c)
                 in c\<lparr>ch_requests := ms, ch_child := s,
                      ch_responses := ch_responses c @ (case a of None \<Rightarrow> [] | Some (resp, fd) \<Rightarrow> [write_fd fd resp response_size])\<rparr>
           | _ \<Rightarrow> c\<lparr>ch_requests := ms\<rparr>))"

text \<open>\<open>ok\<close> is whether \<open>sendmsg\<close> took the whole message; otherwise the parent dies.\<close>

definition write_or_die :: "bool \<Rightarrow> msg_request \<Rightarrow> fd_channel \<Rightarrow> fd_channel" where
  "write_or_die ok r c =
     (if ok then c\<lparr>ch_requests := ch_requests c @ [write_fd (-1) r request_size]\<rparr> else c\<lparr>ch_died := True\<rparr>)"

text \<open>A request of the parent and, unless it closes a descriptor, the wait for the response, during which the child
  takes \<open>steps\<close> turns. This is the transport of the functions of the parent in Fdpass.\<close>

definition exchange :: "kernel \<Rightarrow> (fd_channel \<Rightarrow> bool) \<Rightarrow> (fd_channel \<Rightarrow> nat) \<Rightarrow> fd_channel transport" where
  "exchange K ok steps r c =
     (let c = write_or_die (ok c) r c in
      if ch_died c then (None, c)
      else if request_type r = 2 then (None, c)
      else
        let c = (child_turn K ^^ steps c) c;
            (fd, resp, good) = read_response (ch_responses c \<noteq> []) (map (Rx response_size) (take 1 (ch_responses c))) (request_type r);
            c = c\<lparr>ch_responses := drop 1 (ch_responses c)\<rparr>
        in (if good then map_option (\<lambda>a. (a, fd)) resp else None, c))"

definition check_socket :: "kernel \<Rightarrow> (fd_channel \<Rightarrow> bool) \<Rightarrow> (fd_channel \<Rightarrow> nat) \<Rightarrow> fd_channel \<Rightarrow> bool \<times> fd_channel" where
  "check_socket K ok steps c = (let (r, c) = exchange K ok steps TYPE_CHECK c in (r \<noteq> None, c))"

section \<open>Requests in a row\<close>

text \<open>The answers the child gives when it is called directly, as the parent receives them, and those that arrive over the
  socket.\<close>

definition as_received :: "(msg_response \<times> int) option \<Rightarrow> (msg_response \<times> int) option" where
  "as_received a = map_option (\<lambda>(r, fd). (r, if fd \<ge> 0 then fd else -1)) a"

fun child_answers :: "kernel \<Rightarrow> msg_request list \<Rightarrow> fd_child \<Rightarrow> (msg_response \<times> int) option list" where
  "child_answers K [] s = []"
| "child_answers K (r # rs) s = (let (a, s) = handle_request K (-1) r s in as_received a # child_answers K rs s)"

fun exchanges ::
  "kernel \<Rightarrow> (fd_channel \<Rightarrow> bool) \<Rightarrow> (fd_channel \<Rightarrow> nat) \<Rightarrow> msg_request list \<Rightarrow> fd_channel \<Rightarrow> (msg_response \<times> int) option list \<times> fd_channel" where
  "exchanges K ok steps [] c = ([], c)"
| "exchanges K ok steps (r # rs) c =
     (let (a, c) = exchange K ok steps r c; (as, c) = exchanges K ok steps rs c in (a # as, c))"

definition sent :: "msg_request \<Rightarrow> msg_request msghdr" where "sent r = write_fd (-1) r request_size"

definition reply :: "(msg_response \<times> int) option \<Rightarrow> msg_response msghdr list" where
  "reply a = (case a of None \<Rightarrow> [] | Some (resp, fd) \<Rightarrow> [write_fd fd resp response_size])"

lemma sent_fields: "recv_fd (Rx (msg_iov_len (sent r)) (sent r)) = (request_size, -1, Some r)"
  unfolding sent_def recv_write by (simp add: write_fd_def)

lemma child_turn_sent:
  "ch_requests c = sent r # ms \<Longrightarrow> child_turn K c =
     c\<lparr>ch_requests := ms, ch_child := snd (handle_request K (-1) r (ch_child c)),
       ch_responses := ch_responses c @ reply (fst (handle_request K (-1) r (ch_child c)))\<rparr>"
  by (simp add: child_turn_def sent_fields reply_def split: prod.split)

lemma child_turn_idle: "ch_requests c = [] \<Longrightarrow> (child_turn K ^^ n) c = c"
  by (induction n) (simp_all add: child_turn_def)

fun replies :: "kernel \<Rightarrow> msg_request list \<Rightarrow> fd_child \<Rightarrow> msg_response msghdr list" where
  "replies K [] s = []"
| "replies K (r # rs) s = reply (fst (handle_request K (-1) r s)) @ replies K rs (snd (handle_request K (-1) r s))"

text \<open>A child that has the time handles what is queued, in order.\<close>

lemma child_turns:
  "ch_requests c = map sent rs \<Longrightarrow> length rs \<le> n \<Longrightarrow> (child_turn K ^^ n) c =
     c\<lparr>ch_requests := [], ch_child := serve K rs (ch_child c), ch_responses := ch_responses c @ replies K rs (ch_child c)\<rparr>"
proof (induction rs arbitrary: c n)
  case Nil
  then show ?case by (simp add: child_turn_idle)
next
  case (Cons r rs)
  then obtain m where n: "n = Suc m" "length rs \<le> m" by (cases n) auto
  have "(child_turn K ^^ n) c = (child_turn K ^^ m) (child_turn K c)" unfolding n(1) by (simp add: funpow_swap1)
  then show ?case using Cons.IH [of "child_turn K c" m] n(2) Cons.prems(1) by (simp add: child_turn_sent [of c r "map sent rs"])
qed

definition closes :: "msg_request \<Rightarrow> bool" where "closes r \<longleftrightarrow> request_type r = 2"

lemma answer_type:
  "(case fst (handle_request K fd r s) of None \<Rightarrow> closes r | Some a \<Rightarrow> response_type (fst a) = request_type r \<and> \<not> closes r)"
  by (cases r) (auto simp: handle_request_def closes_def split: prod.splits)

lemma reply_answers: "closes r \<Longrightarrow> reply (fst (handle_request K fd r s)) = []"
  using answer_type [of r K fd s] by (auto simp: reply_def split: option.splits)

lemma replies_append: "replies K (xs @ ys) s = replies K xs s @ replies K ys (serve K xs s)"
  by (induction xs arbitrary: s) simp_all

lemma serve_append: "serve K (xs @ ys) s = serve K ys (serve K xs s)"
  by (induction xs arbitrary: s) simp_all

lemma replies_closes: "list_all closes rs \<Longrightarrow> replies K rs s = []"
  by (induction rs arbitrary: s) (simp_all add: reply_answers)

text \<open>The response that is first in the queue is read as it was sent.\<close>

lemma read_reply:
  "read_response True [Rx response_size (write_fd fd a response_size)] t =
     (if fd \<ge> 0 then fd else -1, Some a, response_type a = t)"
  by (simp add: read_response_def recv_write)

text \<open>A channel on which nothing waits but requests to close, with \<open>late\<close> responses left over.\<close>

definition settled :: "fd_channel \<Rightarrow> msg_request list \<Rightarrow> (msg_response \<times> int) option list \<Rightarrow> bool" where
  "settled c rs late \<longleftrightarrow> ch_requests c = map sent rs \<and> list_all closes rs \<and> ch_responses c = concat (map reply late) \<and> \<not> ch_died c"

lemma exchange_takes:
  assumes "ch_requests c = map sent ps" and "\<not> ch_died c" and "ok c" and "\<And>c. length (ch_requests c) \<le> steps c" and "\<not> closes r"
    and "ch_responses c @ replies K (ps @ [r]) (ch_child c) = write_fd fd x response_size # concat (map reply rest)"
    and "response_type x = request_type r"
  shows "\<exists>c'. exchange K ok steps r c = (Some (x, if fd \<ge> 0 then fd else -1), c') \<and> settled c' [] rest \<and>
    ch_child c' = serve K (ps @ [r]) (ch_child c)"
proof -
  define d where "d = write_or_die (ok c) r c"
  have d: "ch_requests d = map sent (ps @ [r])" "\<not> ch_died d" "ch_child d = ch_child c" "ch_responses d = ch_responses c"
    using assms(1-3) by (simp_all add: d_def write_or_die_def sent_def)
  define e where "e = (child_turn K ^^ steps d) d"
  have e: "ch_requests e = []" "ch_child e = serve K (ps @ [r]) (ch_child c)" "ch_died e = ch_died d"
    "ch_responses e = write_fd fd x response_size # concat (map reply rest)"
    using child_turns [OF d(1), of "steps d" K] assms(4) [of d] assms(6) d by (simp_all add: e_def)
  have "exchange K ok steps r c = (Some (x, if fd \<ge> 0 then fd else -1), e\<lparr>ch_responses := concat (map reply rest)\<rparr>)"
    using assms(5,7) d(2) e(4) by (simp add: exchange_def d_def [symmetric] e_def [symmetric] closes_def read_reply Let_def)
  then show ?thesis using e d by (intro exI [of _ "e\<lparr>ch_responses := concat (map reply rest)\<rparr>"] conjI) (simp_all add: settled_def)
qed

lemma exchange_answers:
  assumes "settled c ps late" and "ok c" and "\<And>c. length (ch_requests c) \<le> steps c" and "\<not> closes r"
    and "handle_request K (-1) r (serve K ps (ch_child c)) = (a, s)" and "late @ [a] = Some (x, fd) # rest" and "response_type x = request_type r"
  shows "\<exists>c'. exchange K ok steps r c = (Some (x, if fd \<ge> 0 then fd else -1), c') \<and> settled c' [] rest \<and> ch_child c' = s"
proof -
  have "ch_responses c @ replies K (ps @ [r]) (ch_child c) = concat (map reply (late @ [a]))"
    using assms(1,5) by (simp add: settled_def replies_append replies_closes)
  also have "\<dots> = write_fd fd x response_size # concat (map reply rest)" unfolding assms(6) by (simp add: reply_def)
  finally show ?thesis
    using exchange_takes [of c ps ok steps r K fd x rest] assms(1-5,7) by (simp add: settled_def serve_append)
qed

lemma exchange_close:
  assumes "settled c ps late" and "ok c" and "closes r"
  shows "\<exists>c'. exchange K ok steps r c = (None, c') \<and> settled c' (ps @ [r]) late \<and> ch_child c' = ch_child c"
  using assms by (simp add: exchange_def write_or_die_def settled_def closes_def sent_def)

lemma handle_close: "closes r \<Longrightarrow> fst (handle_request K fd r s) = None"
  using answer_type [of r K fd s] by (auto split: option.splits)

lemma handle_answer:
  "\<not> closes r \<Longrightarrow> handle_request K fd r s = (a, s') \<Longrightarrow> \<exists>x d. a = Some (x, d) \<and> response_type x = request_type r"
  using answer_type [of r K fd s] by (auto split: option.splits)

lemma exchanges_answers:
  assumes "\<And>c. ok c" and "\<And>c. length (ch_requests c) \<le> steps c"
  shows "settled c ps [] \<Longrightarrow> fst (exchanges K ok steps rs c) = child_answers K rs (serve K ps (ch_child c))"
proof (induction rs arbitrary: c ps)
  case (Cons r rs)
  obtain a s where a: "handle_request K (-1) r (serve K ps (ch_child c)) = (a, s)" by fastforce
  show ?case
  proof (cases "closes r")
    case True
    obtain c' where c': "exchange K ok steps r c = (None, c')" "settled c' (ps @ [r]) []" "ch_child c' = ch_child c"
      using exchange_close [where ok = ok, OF Cons.prems assms(1) True] by blast
    have "a = None" "serve K (ps @ [r]) (ch_child c) = s" using handle_close [OF True] a by (simp_all add: serve_append) (metis fst_conv)
    then show ?thesis using Cons.IH [OF c'(2)] a c' by (simp add: as_received_def case_prod_beta)
  next
    case False
    then obtain x d where x: "a = Some (x, d)" "response_type x = request_type r" using handle_answer [OF False a] by blast
    then obtain c' where c': "exchange K ok steps r c = (Some (x, if d \<ge> 0 then d else -1), c')" "settled c' [] []" "ch_child c' = s"
      using exchange_answers [where ok = ok and steps = steps, OF Cons.prems assms False a, of x d "[]"] by auto
    then show ?thesis using Cons.IH [OF c'(2)] a x by (simp add: as_received_def case_prod_beta)
  qed
qed simp

lemma exchanges_shift:
  assumes "\<And>c. ok c" and "\<And>c. length (ch_requests c) \<le> steps c"
  shows "settled c ps [Some (x, d)] \<Longrightarrow> list_all closes ps \<Longrightarrow> response_type x = t \<Longrightarrow> t \<noteq> 2 \<Longrightarrow> list_all (\<lambda>r. request_type r = t) rs \<Longrightarrow>
     fst (exchanges K ok steps rs c) = butlast (as_received (Some (x, d)) # child_answers K rs (serve K ps (ch_child c)))"
proof (induction rs arbitrary: c ps x d)
  case (Cons r rs)
  have r: "\<not> closes r" "request_type r = t" using Cons.prems(4,5) by (simp_all add: closes_def)
  obtain a s where a: "handle_request K (-1) r (serve K ps (ch_child c)) = (a, s)" by fastforce
  obtain y e where y: "a = Some (y, e)" "response_type y = t" using handle_answer [OF r(1) a] r(2) by blast
  obtain c' where c': "exchange K ok steps r c = (Some (x, if d \<ge> 0 then d else -1), c')" "settled c' [] [Some (y, e)]" "ch_child c' = s"
    using exchange_answers [where ok = ok and steps = steps, OF Cons.prems(1) assms r(1) a, of x d "[Some (y, e)]"] y Cons.prems(3) r(2) by auto
  show ?case
    using Cons.IH [OF c'(2) _ y(2)] Cons.prems(4,5) a y c' by (simp add: as_received_def case_prod_beta)
qed simp

section \<open>What the parent gets\<close>

text \<open>C16 (refinement). If the child is on time, the parent gets over the socket exactly the answers the child's handler gives to
  its requests, in order.\<close>

theorem requests_answered_in_order:
  assumes "ch_requests c = []" and "ch_responses c = []" and "\<not> ch_died c"
    and "\<And>c. ok c" and "\<And>c. length (ch_requests c) \<le> steps c"
  shows "fst (exchanges K ok steps rs c) = child_answers K rs (ch_child c)"
  using exchanges_answers [where ps = "[]" and c = c, OF assms(4,5)] assms(1-3) by (simp add: settled_def)

definition channel_new :: fd_channel where
  "channel_new = \<lparr>ch_requests = [], ch_responses = [], ch_child = fd_child_initial tty_initial, ch_died = False\<rparr>"

theorem requests_answered_in_order_witness:
  "fst (exchanges kernel_dev (\<lambda>_. True) (\<lambda>c. length (ch_requests c)) [TYPE_FD_CLOSE 5 77, TYPE_CHECK] channel_new) =
     child_answers kernel_dev [TYPE_FD_CLOSE 5 77, TYPE_CHECK] (fd_child_initial tty_initial)"
  by (subst requests_answered_in_order) (simp_all add: channel_new_def)

text \<open>C21 (error). One answer that comes too late shifts all that follow: the parent gives up on the first open, and every later
  open returns the descriptor of the device that was asked for before it.\<close>

theorem late_answer_shifts_descriptors:
  assumes "ch_requests c = []" and "ch_responses c = []" and "\<not> ch_died c"
    and "\<And>c. ok c" and "\<And>c. length (ch_requests c) \<le> steps c"
    and "list_all (\<lambda>r. request_type r = 1) (r # rs)" and "rs \<noteq> []"
  shows "fst (exchange K ok (\<lambda>_. 0) r c) = None \<and>
     fst (exchanges K ok steps rs (snd (exchange K ok (\<lambda>_. 0) r c))) = butlast (child_answers K (r # rs) (ch_child c))"
proof -
  have r: "\<not> closes r" "request_type r = 1" using assms(6) by (simp_all add: closes_def)
  define d where "d = c\<lparr>ch_requests := [sent r]\<rparr>"
  have late: "exchange K ok (\<lambda>_. 0) r c = (None, d)"
    using assms(1-4) r by (simp add: exchange_def write_or_die_def closes_def read_response_def sent_def d_def)
  obtain q qs where rs: "rs = q # qs" using assms(7) by (cases rs) auto
  obtain a s where a: "handle_request K (-1) r (ch_child c) = (a, s)" by fastforce
  obtain x e where x: "a = Some (x, e)" "response_type x = 1" using handle_answer [OF r(1) a] r(2) by auto
  have q: "\<not> closes q" "request_type q = 1" "list_all (\<lambda>r. request_type r = 1) qs" using assms(6) rs by (simp_all add: closes_def)
  obtain b t where b: "handle_request K (-1) q s = (b, t)" by fastforce
  obtain y f where y: "b = Some (y, f)" "response_type y = 1" using handle_answer [OF q(1) b] q(2) by auto
  have "ch_responses d @ replies K ([r] @ [q]) (ch_child d) = write_fd e x response_size # concat (map reply [b])"
    using a b x y assms(2) by (simp add: d_def reply_def)
  then obtain c' where c': "exchange K ok steps q d = (Some (x, if e \<ge> 0 then e else -1), c')" "settled c' [] [b]"
    "ch_child c' = t"
    using exchange_takes [of d "[r]" ok steps q K e x "[b]"] assms(3-5) q x a b by (auto simp: d_def)
  have "fst (exchanges K ok steps qs c') = butlast (as_received b # child_answers K qs t)"
    using exchanges_shift [OF assms(4,5) _ _ y(2) _ q(3), of c' "[]" f K] c' y(1) by simp
  moreover have "fst (exchanges K ok steps rs d) = Some (x, if e \<ge> 0 then e else -1) # fst (exchanges K ok steps qs c')"
    using c'(1) rs by (simp add: case_prod_beta)
  moreover have "child_answers K (r # rs) (ch_child c) = as_received (Some (x, e)) # as_received b # child_answers K qs t"
    using rs a b x(1) by simp
  ultimately show ?thesis using late by (simp add: as_received_def)
qed

text \<open>The child is late with the first device; the second open returns its descriptor.\<close>

definition open_event0 :: msg_request where "open_event0 = TYPE_FD_OPEN (strncpy32 ''/dev/input/event0'') {} WLC_FD_INPUT"

theorem late_answer_shifts_descriptors_witness:
  "fst (exchange kernel_dev (\<lambda>_. True) (\<lambda>_. 0) open_event0 channel_new) = None \<and>
   fst (exchanges kernel_dev (\<lambda>_. True) (\<lambda>c. length (ch_requests c)) [open_event0]
     (snd (exchange kernel_dev (\<lambda>_. True) (\<lambda>_. 0) open_event0 channel_new))) =
   butlast (child_answers kernel_dev [open_event0, open_event0] (fd_child_initial tty_initial))"
  using late_answer_shifts_descriptors [of channel_new "\<lambda>_. True" "\<lambda>c. length (ch_requests c)" open_event0 "[open_event0]" kernel_dev]
  by (simp add: channel_new_def open_event0_def)

section \<open>The start of the child\<close>

record fd_static =
  fs_socket :: int
  fs_child :: int
  fs_has_logind :: bool

datatype fd_call =
    Fd_close int
  | Fd_clearenv
  | Fd_sigaction string
  | Fd_communicate int
  | Fd_exit
  | Fd_setgid int
  | Fd_setuid int
  | Fd_kill int string
  | Fd_check int

text \<open>How the calls of the initialisation come out: the pair of sockets, the result of \<open>fork\<close>, and whether each of the
  others succeeds.\<close>

record fd_outcomes =
  fo_socketpair :: "(int \<times> int) option"
  fo_fork :: int
  fo_clearenv :: bool
  fo_gid :: int
  fo_uid :: int
  fo_setgid :: bool
  fo_setuid :: bool
  fo_child_alive :: bool
  fo_check :: bool

datatype fd_end = Fd_died string | Fd_child_done | Fd_parent fd_static

definition wlc_fd_init_child :: "fd_outcomes \<Rightarrow> int \<times> int \<Rightarrow> fd_end \<times> fd_call list" where
  "wlc_fd_init_child R sock =
     (if \<not> fo_clearenv R then (Fd_died ''Failed to clear environment'', [Fd_close (fst sock), Fd_clearenv])
      else (Fd_child_done,
        [Fd_close (fst sock), Fd_clearenv, Fd_sigaction ''SIGUSR1'', Fd_sigaction ''SIGUSR2'', Fd_sigaction ''SIGINT'',
         Fd_sigaction ''SIGTERM'', Fd_communicate (snd sock), Fd_exit]))"

definition wlc_fd_init_parent :: "bool \<Rightarrow> fd_outcomes \<Rightarrow> int \<times> int \<Rightarrow> fd_end \<times> fd_call list" where
  "wlc_fd_init_parent has_logind R sock =
     (let cs = [Fd_close (snd sock), Fd_setgid (fo_gid R)] in
      if \<not> fo_setgid R then (Fd_died ''Could not drop permissions'', cs)
      else
        let cs = cs @ [Fd_setuid (fo_uid R)] in
        if \<not> fo_setuid R then (Fd_died ''Could not drop permissions'', cs)
        else
          let cs = cs @ [Fd_kill (fo_fork R) ''0''] in
          if \<not> fo_child_alive R then (Fd_died ''Child process died'', cs)
          else
            let cs = cs @ [Fd_check (fst sock)] in
            if \<not> fo_check R then (Fd_died ''Communication between parent and child process seems to be broken'', cs)
            else (Fd_parent \<lparr>fs_socket = fst sock, fs_child = fo_fork R, fs_has_logind = has_logind\<rparr>, cs))"

definition wlc_fd_init :: "bool \<Rightarrow> fd_outcomes \<Rightarrow> fd_end \<times> fd_call list" where
  "wlc_fd_init has_logind R =
     (case fo_socketpair R of
        None \<Rightarrow> (Fd_died ''Failed to create fd passing unix domain socket pair'', [])
      | Some sock \<Rightarrow>
          if fo_fork R = 0 then wlc_fd_init_child R sock
          else if fo_fork R < 0 then (Fd_died ''Fork failed'', [])
          else wlc_fd_init_parent has_logind R sock)"

definition wlc_fd_terminate :: "fd_static \<Rightarrow> fd_static \<times> fd_call list" where
  "wlc_fd_terminate s =
     (\<lparr>fs_socket = 0, fs_child = 0, fs_has_logind = False\<rparr>,
      if fs_child s \<ge> 0 \<and> fs_has_logind s then [Fd_kill (fs_child s) ''SIGTERM''] else [])"

text \<open>The handler of the child: with logind it exits on SIGTERM and SIGINT, otherwise it does nothing.\<close>

definition signal_handler :: "fd_static \<Rightarrow> string \<Rightarrow> fd_call list" where
  "signal_handler s sig = (if fs_has_logind s \<and> (sig = ''SIGTERM'' \<or> sig = ''SIGINT'') then [Fd_exit] else [])"

text \<open>The parent goes on only without the privileges it was started with: both identities are given up, the group first,
  before the child is asked anything.\<close>

lemma parent_drops_privileges:
  "wlc_fd_init has_logind R = (Fd_parent s, cs) \<Longrightarrow>
     \<exists>a b. fo_socketpair R = Some (a, b) \<and> cs = [Fd_close b, Fd_setgid (fo_gid R), Fd_setuid (fo_uid R), Fd_kill (fs_child s) ''0'', Fd_check a] \<and>
       fo_setgid R \<and> fo_setuid R \<and> fs_child s > 0 \<and> fs_socket s = a"
  by (auto simp: wlc_fd_init_def wlc_fd_init_child_def wlc_fd_init_parent_def Let_def split: option.splits if_splits)

end
