(* ===== verification/Resources.thy ===== *)
theory Resources
  imports Prelude
begin

text \<open>
  Handles and resources, src/resources/resources.c and resources.h. A public number names a
  container in one of two pools (handles, resources); the container holds the source the
  object lives in and its index in the source's own pool. The wayland resource of a resource
  container carries a destroy listener that leads back to it.

  \<open>chck_pool\<close> is a library that is not part of the repository: what it does with a pool (which
  index an item gets, whether the buffer moves, in which order a loop visits the items) is a
  parameter, \<open>pool_laws\<close> states what the code relies on. So are the constructors and destructors
  of the sources and libwayland. Item contents are not modelled, apart from the public number
  every item carries behind its data. A pointer to an item is the pair of its source and its
  index. Pointers that moved are followed where the code follows them
  (\<open>relocate_handle\<close>).
\<close>

section \<open>State\<close>

record pool =
  p_used :: "nat set"
  p_buffer :: nat
  p_allocated :: nat

record wlc_source =
  s_name :: string
  s_constructor :: bool
  s_destructor :: bool
  s_pool :: pool
  s_items :: "nat \<Rightarrow> nat option"

record handle =
  h_public :: nat
  h_private :: nat
  h_source :: nat

datatype pool_kind = Handles | Resources

datatype res_event =
    Wl_resource_destroy nat
  | Wl_client_post_no_memory nat
  | Wl_resource_set_implementation nat nat nat

record store =
  st_sources :: "nat \<Rightarrow> wlc_source option"
  st_pool :: "pool_kind \<Rightarrow> pool"
  st_handle :: "pool_kind \<Rightarrow> nat \<Rightarrow> handle option"
  st_wl :: "nat \<Rightarrow> nat"
  st_userdata :: "nat \<Rightarrow> nat"
  st_listener :: "nat \<Rightarrow> nat option"
  st_events :: "res_event list"
  st_fault :: bool

record res_env =
  po_add :: "pool \<Rightarrow> (nat \<times> pool) option"
  po_remove :: "pool \<Rightarrow> nat \<Rightarrow> pool"
  po_indices :: "pool \<Rightarrow> nat list"
  heap_base :: nat
  cb_constructor :: "nat \<Rightarrow> nat \<Rightarrow> store \<Rightarrow> bool \<times> store"
  cb_destructor :: "nat \<Rightarrow> nat \<Rightarrow> store \<Rightarrow> store"
  first_word :: "nat \<Rightarrow> store \<Rightarrow> nat"
  ext_wl_resource_create :: "nat \<Rightarrow> string \<Rightarrow> u32 \<Rightarrow> u32 \<Rightarrow> store \<Rightarrow> nat"
  ext_wl_resource_get_client :: "nat \<Rightarrow> nat"

definition handle_zero :: handle where
  "handle_zero = \<lparr>h_public = 0, h_private = 0, h_source = 0\<rparr>"

definition SIZE_T_MAX :: nat where "SIZE_T_MAX = 2 ^ 64 - 1"

section \<open>Relocation\<close>

text \<open>Pointer comparisons and arithmetic on the address of a source.\<close>

definition relocate_handle :: "nat \<Rightarrow> nat \<Rightarrow> nat \<Rightarrow> handle \<Rightarrow> handle" where
  "relocate_handle dest start end h =
     (if h_source h < start \<or> h_source h > end then h
      else h\<lparr>h_source := dest + (h_source h - start)\<rparr>)"

definition relocate_handles :: "pool_kind \<Rightarrow> nat \<Rightarrow> nat \<Rightarrow> nat \<Rightarrow> store \<Rightarrow> store" where
  "relocate_handles k dest start end s =
     (if start = 0 then s
      else s\<lparr>st_handle := (st_handle s)(k := \<lambda>i. map_option (relocate_handle dest start end) (st_handle s k i))\<rparr>)"

text \<open>\<open>relocate_resources\<close> takes each listener out of its list and puts it back, because the
  container it is a member of has moved; here a listener is the index of its container.\<close>

definition relocate_resource :: "nat \<Rightarrow> store \<Rightarrow> store" where
  "relocate_resource i s =
     (if st_wl s i = 0 then s else s\<lparr>st_listener := (st_listener s)(st_wl s i := Some i)\<rparr>)"

definition relocate_resources :: "res_env \<Rightarrow> store \<Rightarrow> store" where
  "relocate_resources E s = fold relocate_resource (po_indices E (st_pool s Resources)) s"

section \<open>Creation\<close>

definition source_put :: "nat \<Rightarrow> wlc_source \<Rightarrow> store \<Rightarrow> store" where
  "source_put a so s = s\<lparr>st_sources := (st_sources s)(a := Some so)\<rparr>"

definition container_add :: "pool_kind \<Rightarrow> nat \<Rightarrow> pool \<Rightarrow> store \<Rightarrow> store" where
  "container_add k i p s =
     s\<lparr>st_pool := (st_pool s)(k := p), st_handle := (st_handle s)(k := (st_handle s k)(i := Some handle_zero)),
       st_wl := (case k of Resources \<Rightarrow> (st_wl s)(i := 0) | Handles \<Rightarrow> st_wl s),
       st_userdata := (case k of Handles \<Rightarrow> (st_userdata s)(i := 0) | Resources \<Rightarrow> st_userdata s)\<rparr>"

definition container_remove :: "res_env \<Rightarrow> pool_kind \<Rightarrow> nat \<Rightarrow> store \<Rightarrow> store" where
  "container_remove E k i s =
     s\<lparr>st_pool := (st_pool s)(k := po_remove E (st_pool s k) i),
       st_handle := (st_handle s)(k := (st_handle s k)(i := None))\<rparr>"

definition item_remove :: "res_env \<Rightarrow> nat \<Rightarrow> nat \<Rightarrow> store \<Rightarrow> store" where
  "item_remove E a h s =
     (case st_sources s a of
        None \<Rightarrow> s\<lparr>st_fault := True\<rparr>
      | Some so \<Rightarrow> source_put a (so\<lparr>s_pool := po_remove E (s_pool so) h, s_items := (s_items so)(h := None)\<rparr>) s)"

definition handle_create ::
  "res_env \<Rightarrow> pool_kind \<Rightarrow> nat \<Rightarrow> store \<Rightarrow> (nat \<times> nat) option \<times> store" where
  "handle_create E k a s =
     (case po_add E (st_pool s k) of
        None \<Rightarrow> (None, s)
      | Some (i, p) \<Rightarrow>
          let moved = p_buffer p \<noteq> p_buffer (st_pool s k);
              s = container_add k i p s;
              s = (if k = Resources \<and> moved then relocate_resources E s else s) in
          case st_sources s a of
            None \<Rightarrow> (None, s\<lparr>st_fault := True\<rparr>)
          | Some so \<Rightarrow>
              (case po_add E (s_pool so) of
                 None \<Rightarrow> (None, container_remove E k i s)
               | Some (h, q) \<Rightarrow>
                   let original = p_buffer (s_pool so);
                       s = source_put a (so\<lparr>s_pool := q, s_items := (s_items so)(h := Some 0)\<rparr>) s;
                       s = (if original \<noteq> p_buffer q
                            then relocate_handles k (p_buffer q) original (original + p_allocated q) s
                            else s) in
                   if i \<ge> SIZE_T_MAX \<or> h \<ge> SIZE_T_MAX
                   then (None, container_remove E k i (item_remove E a h s))
                   else
                     let s = source_put a (so\<lparr>s_pool := q, s_items := (s_items so)(h := Some (i + 1))\<rparr>) s in
                     if s_constructor so then
                       let (ret, s) = cb_constructor E a h s in
                       if ret then (Some (i, h), s)
                       else (None, container_remove E k i (item_remove E a h s))
                     else (Some (i, h), s)))"

definition handle_set :: "pool_kind \<Rightarrow> nat \<Rightarrow> handle \<Rightarrow> store \<Rightarrow> store" where
  "handle_set k i e s = s\<lparr>st_handle := (st_handle s)(k := (st_handle s k)(i := Some e))\<rparr>"

text \<open>\<open>wlc_handle_create\<close> returns the pointer to the new item; the public number is the one the
  item carries.\<close>

definition wlc_handle_create :: "res_env \<Rightarrow> nat \<Rightarrow> store \<Rightarrow> (nat \<times> nat) option \<times> store" where
  "wlc_handle_create E a s =
     (case handle_create E Handles a s of
        (None, s) \<Rightarrow> (None, s)
      | (Some (i, h), s) \<Rightarrow>
          (Some (a, h), handle_set Handles i \<lparr>h_public = i + 1, h_private = h + 1, h_source = a\<rparr> s))"

section \<open>Lookup\<close>

definition handle_is :: "handle \<Rightarrow> string \<Rightarrow> store \<Rightarrow> bool option" where
  "handle_is e name s =
     (case st_sources s (h_source e) of None \<Rightarrow> None | Some so \<Rightarrow> Some (s_name so = name))"

definition handle_get :: "handle option \<Rightarrow> string \<Rightarrow> store \<Rightarrow> (nat \<times> nat) option" where
  "handle_get eo name s =
     (case eo of
        None \<Rightarrow> None
      | Some e \<Rightarrow>
          if h_private e = 0 then None
          else if handle_is e name s \<noteq> Some True then None
          else (case st_sources s (h_source e) of
                  None \<Rightarrow> None
                | Some so \<Rightarrow> if s_items so (h_private e - 1) = None then None
                             else Some (h_source e, h_private e - 1)))"

definition convert_to_handle :: "(nat \<times> nat) option \<Rightarrow> store \<Rightarrow> nat" where
  "convert_to_handle ptr s =
     (case ptr of
        None \<Rightarrow> 0
      | Some (a, h) \<Rightarrow>
          (case st_sources s a of
             None \<Rightarrow> 0
           | Some so \<Rightarrow> (case s_items so h of None \<Rightarrow> 0 | Some pub \<Rightarrow> pub)))"

definition convert_from_wlc_handle :: "nat \<Rightarrow> string \<Rightarrow> store \<Rightarrow> (nat \<times> nat) option" where
  "convert_from_wlc_handle h name s =
     (if h = 0 then None else handle_get (st_handle s Handles (h - 1)) name s)"

definition convert_from_wlc_resource :: "nat \<Rightarrow> string \<Rightarrow> store \<Rightarrow> (nat \<times> nat) option" where
  "convert_from_wlc_resource r name s =
     (if r = 0 then None else handle_get (st_handle s Resources (r - 1)) name s)"

definition wlc_resource_from_wl_resource :: "nat \<Rightarrow> store \<Rightarrow> nat" where
  "wlc_resource_from_wl_resource r s =
     (if r = 0 then 0
      else case st_listener s r of
             None \<Rightarrow> 0
           | Some i \<Rightarrow> (case st_handle s Resources i of None \<Rightarrow> 0 | Some e \<Rightarrow> h_public e))"

definition convert_from_wl_resource :: "nat \<Rightarrow> string \<Rightarrow> store \<Rightarrow> (nat \<times> nat) option" where
  "convert_from_wl_resource r name s = convert_from_wlc_resource (wlc_resource_from_wl_resource r s) name s"

definition wl_resource_from_wlc_resource :: "nat \<Rightarrow> string \<Rightarrow> store \<Rightarrow> nat" where
  "wl_resource_from_wlc_resource r name s =
     (if r = 0 then 0
      else case st_handle s Resources (r - 1) of
             None \<Rightarrow> 0
           | Some e \<Rightarrow> if handle_is e name s = Some True then st_wl s (r - 1) else 0)"

section \<open>Release\<close>

definition resource_invalidate :: "nat \<Rightarrow> store \<Rightarrow> store" where
  "resource_invalidate i s =
     (if st_wl s i \<noteq> 0
      then s\<lparr>st_listener := (st_listener s)(st_wl s i := None), st_wl := (st_wl s)(i := 0)\<rparr>
      else s)"

definition res_emit :: "res_event \<Rightarrow> store \<Rightarrow> store" where
  "res_emit e s = s\<lparr>st_events := st_events s @ [e]\<rparr>"

definition resource_prerelase :: "nat \<Rightarrow> store \<Rightarrow> store" where
  "resource_prerelase i s =
     (let r = st_wl s i;
          s = resource_invalidate i s
      in if r \<noteq> 0 then res_emit (Wl_resource_destroy r) s else s)"

text \<open>The part of \<open>handle_release\<close> that takes the item out of its source: the destructor, which
  may release other handles, then the removal from the pool of the source.\<close>

definition handle_release_item :: "res_env \<Rightarrow> pool_kind \<Rightarrow> handle \<Rightarrow> store \<Rightarrow> store" where
  "handle_release_item E k e s =
     (case st_sources s (h_source e) of
        None \<Rightarrow> s\<lparr>st_fault := True\<rparr>
      | Some so \<Rightarrow>
          let original = p_buffer (s_pool so);
              s = item_remove E (h_source e) (h_private e - 1) s in
          (case st_sources s (h_source e) of
             None \<Rightarrow> s\<lparr>st_fault := True\<rparr>
           | Some so' \<Rightarrow>
               if original \<noteq> p_buffer (s_pool so')
               then relocate_handles k (p_buffer (s_pool so')) original
                      (original + p_allocated (s_pool so')) s
               else s))"

definition handle_destruct :: "res_env \<Rightarrow> handle \<Rightarrow> store \<Rightarrow> store" where
  "handle_destruct E e s =
     (case st_sources s (h_source e) of
        None \<Rightarrow> s\<lparr>st_fault := True\<rparr>
      | Some so \<Rightarrow>
          if s_destructor so \<and> s_items so (h_private e - 1) \<noteq> None
          then cb_destructor E (h_source e) (h_private e - 1) s else s)"

text \<open>The code keeps using the container after the destructor returns; when the destructor has removed
  that container the rest runs on freed memory.\<close>

definition handle_release :: "res_env \<Rightarrow> pool_kind \<Rightarrow> nat \<Rightarrow> store \<Rightarrow> store" where
  "handle_release E k i s =
     (case st_handle s k i of
        None \<Rightarrow> s
      | Some e \<Rightarrow>
          let s = (if h_private e \<noteq> 0 then handle_destruct E e s else s) in
          (case st_handle s k i of
             None \<Rightarrow> s\<lparr>st_fault := True\<rparr>
           | Some e \<Rightarrow>
               let s = (if h_private e \<noteq> 0 then handle_release_item E k e s else s) in
               if h_public e = 0 then s\<lparr>st_fault := True\<rparr>
               else
                 let s = (if k = Resources then resource_prerelase (h_public e - 1) s else s);
                     original = p_buffer (st_pool s k);
                     s = container_remove E k (h_public e - 1) s
                 in if k = Resources \<and> original \<noteq> p_buffer (st_pool s k)
                    then relocate_resources E s else s))"

definition wlc_handle_release :: "res_env \<Rightarrow> nat \<Rightarrow> store \<Rightarrow> store" where
  "wlc_handle_release E h s = (if h = 0 then s else handle_release E Handles (h - 1) s)"

definition wlc_resource_release :: "res_env \<Rightarrow> nat \<Rightarrow> store \<Rightarrow> store" where
  "wlc_resource_release E r s = (if r = 0 then s else handle_release E Resources (r - 1) s)"

definition wlc_resource_invalidate :: "nat \<Rightarrow> store \<Rightarrow> store" where
  "wlc_resource_invalidate r s =
     (if r = 0 \<or> st_handle s Resources (r - 1) = None then s else resource_invalidate (r - 1) s)"

text \<open>libwayland destroys a resource of ours: the listener runs first.\<close>

definition wl_destructor :: "res_env \<Rightarrow> nat \<Rightarrow> store \<Rightarrow> store" where
  "wl_destructor E r s =
     (case st_listener s r of
        None \<Rightarrow> s
      | Some i \<Rightarrow>
          let s = s\<lparr>st_listener := (st_listener s)(r := None), st_wl := (st_wl s)(i := 0)\<rparr> in
          (case st_handle s Resources i of
             None \<Rightarrow> s\<lparr>st_fault := True\<rparr>
           | Some e \<Rightarrow> wlc_resource_release E (h_public e) s))"

text \<open>Releasing a source releases what it contains; an item that the destructor of an earlier one
  has already released is not visited.\<close>

fun release_source_loop ::
  "res_env \<Rightarrow> pool_kind \<Rightarrow> nat \<Rightarrow> nat list \<Rightarrow> store \<Rightarrow> store" where
  "release_source_loop E k a [] s = s"
| "release_source_loop E k a (i # ix) s =
     release_source_loop E k a ix
       (case st_handle s k i of
          None \<Rightarrow> s
        | Some e \<Rightarrow> if h_source e \<noteq> a then s else handle_release E k i s)"

definition wlc_source_release :: "res_env \<Rightarrow> nat \<Rightarrow> store \<Rightarrow> store" where
  "wlc_source_release E a s =
     (if a = 0 then s
      else
        let s = release_source_loop E Handles a (po_indices E (st_pool s Handles)) s;
            s = release_source_loop E Resources a (po_indices E (st_pool s Resources)) s
        in s\<lparr>st_sources := (st_sources s)(a := None)\<rparr>)"

text \<open>At exit the code walks both pools and treats the first word of each container as its public
  number. For a handle it is; for a resource it is the \<open>prev\<close> pointer of its
  destroy listener, \<open>first_word\<close>.\<close>

definition wlc_resources_terminate :: "res_env \<Rightarrow> store \<Rightarrow> store" where
  "wlc_resources_terminate E s =
     (let s = fold (\<lambda>i s. if st_handle s Resources i = None then s
                          else wlc_resource_release E (first_word E i s) s)
                (po_indices E (st_pool s Resources)) s
      in fold (\<lambda>i s. case st_handle s Handles i of
                       None \<Rightarrow> s | Some e \<Rightarrow> wlc_handle_release E (h_public e) s)
           (po_indices E (st_pool s Handles)) s)"

section \<open>Wayland resources\<close>

definition wl_resource_create_checked ::
  "res_env \<Rightarrow> nat \<Rightarrow> string \<Rightarrow> u32 \<Rightarrow> u32 \<Rightarrow> u32 \<Rightarrow> store \<Rightarrow> nat \<times> store" where
  "wl_resource_create_checked E client iface version supported nid s =
     (if version > supported then (0, res_emit (Wl_client_post_no_memory client) s)
      else
        let r = ext_wl_resource_create E client iface version nid s in
        if r = 0 then (0, res_emit (Wl_client_post_no_memory client) s) else (r, s))"

definition wlc_resource_create_from :: "res_env \<Rightarrow> nat \<Rightarrow> nat \<Rightarrow> store \<Rightarrow> nat \<times> store" where
  "wlc_resource_create_from E a r s =
     (if r = 0 then (0, s)
      else
        case handle_create E Resources a s of
          (None, s) \<Rightarrow> (0, s)
        | (Some (i, h), s) \<Rightarrow>
            let s = handle_set Resources i \<lparr>h_public = i + 1, h_private = h + 1, h_source = a\<rparr> s
            in (i + 1, s\<lparr>st_wl := (st_wl s)(i := r), st_listener := (st_listener s)(r := Some i)\<rparr>))"

definition wlc_resource_create ::
  "res_env \<Rightarrow> nat \<Rightarrow> nat \<Rightarrow> string \<Rightarrow> u32 \<Rightarrow> u32 \<Rightarrow> u32 \<Rightarrow> store \<Rightarrow> nat \<times> store" where
  "wlc_resource_create E a client iface version supported nid s =
     (if version > supported then (0, res_emit (Wl_client_post_no_memory client) s)
      else
        let (resource, s) = wl_resource_create_checked E client iface version supported nid s in
        if resource = 0 then (0, res_emit (Wl_client_post_no_memory client) s)
        else
          let (r, s) = wlc_resource_create_from E a resource s in
          if r = 0 then
            (0, res_emit (Wl_client_post_no_memory client) (res_emit (Wl_resource_destroy resource) s))
          else (r, s))"

definition wl_resource_for_client :: "res_env \<Rightarrow> nat \<Rightarrow> nat \<Rightarrow> store \<Rightarrow> nat" where
  "wl_resource_for_client E a client s =
     (case find (\<lambda>i. case st_handle s Resources i of
                       None \<Rightarrow> False
                     | Some e \<Rightarrow> h_source e = a \<and> ext_wl_resource_get_client E (st_wl s i) = client)
             (po_indices E (st_pool s Resources)) of
        None \<Rightarrow> 0 | Some i \<Rightarrow> st_wl s i)"

definition wlc_resource_implement :: "nat \<Rightarrow> nat \<Rightarrow> nat \<Rightarrow> store \<Rightarrow> store" where
  "wlc_resource_implement r impl userdata s =
     (if r = 0 \<or> st_handle s Resources (r - 1) = None then s
      else res_emit (Wl_resource_set_implementation (st_wl s (r - 1)) impl userdata) s)"

definition wlc_handle_set_user_data :: "nat \<Rightarrow> nat \<Rightarrow> store \<Rightarrow> store" where
  "wlc_handle_set_user_data h ud s =
     (if h = 0 \<or> st_handle s Handles (h - 1) = None then s
      else s\<lparr>st_userdata := (st_userdata s)(h - 1 := ud)\<rparr>)"

definition wlc_handle_get_user_data :: "nat \<Rightarrow> store \<Rightarrow> nat" where
  "wlc_handle_get_user_data h s =
     (if h = 0 \<or> st_handle s Handles (h - 1) = None then 0 else st_userdata s (h - 1))"

section \<open>Laws of the parameters\<close>

text \<open>A pool hands out an index that is not in use; a new buffer lies above every source (the sources
  are members of static structures); a loop visits each item once.\<close>

definition buffer_ok :: "res_env \<Rightarrow> pool \<Rightarrow> bool" where
  "buffer_ok E p \<longleftrightarrow> p_buffer p = 0 \<or> heap_base E < p_buffer p"

definition pool_laws :: "res_env \<Rightarrow> bool" where
  "pool_laws E \<longleftrightarrow>
     (\<forall>p i p'. po_add E p = Some (i, p') \<longrightarrow>
        i \<notin> p_used p \<and> p_used p' = insert i (p_used p) \<and> (buffer_ok E p \<longrightarrow> buffer_ok E p')) \<and>
     (\<forall>p i. p_used (po_remove E p i) = p_used p - {i} \<and>
        (buffer_ok E p \<longrightarrow> buffer_ok E (po_remove E p i))) \<and>
     (\<forall>p. finite (p_used p) \<longrightarrow> set (po_indices E p) = p_used p \<and> distinct (po_indices E p))"

definition entry_ok :: "store \<Rightarrow> nat \<Rightarrow> handle \<Rightarrow> bool" where
  "entry_ok s i e \<longleftrightarrow>
     e = handle_zero \<or>
     h_public e = i + 1 \<and> h_private e \<noteq> 0 \<and>
     (\<exists>so. st_sources s (h_source e) = Some so \<and> s_items so (h_private e - 1) = Some (i + 1))"

definition source_ok :: "res_env \<Rightarrow> nat \<Rightarrow> wlc_source \<Rightarrow> bool" where
  "source_ok E a so \<longleftrightarrow>
     a \<noteq> 0 \<and> a \<le> heap_base E \<and> buffer_ok E (s_pool so) \<and>
     (\<forall>j. s_items so j \<noteq> None \<longleftrightarrow> j \<in> p_used (s_pool so))"

definition tables_ok :: "store \<Rightarrow> bool" where
  "tables_ok s \<longleftrightarrow>
     (\<forall>k. finite (p_used (st_pool s k)) \<and> (\<forall>i. st_handle s k i \<noteq> None \<longleftrightarrow> i \<in> p_used (st_pool s k)))"

definition sources_ok :: "res_env \<Rightarrow> store \<Rightarrow> bool" where
  "sources_ok E s \<longleftrightarrow> (\<forall>a so. st_sources s a = Some so \<longrightarrow> source_ok E a so)"

definition entries_ok :: "store \<Rightarrow> bool" where
  "entries_ok s \<longleftrightarrow> (\<forall>k i e. st_handle s k i = Some e \<longrightarrow> entry_ok s i e)"

definition owners_ok :: "store \<Rightarrow> bool" where
  "owners_ok s \<longleftrightarrow>
     (\<forall>k i e k' i' e'. st_handle s k i = Some e \<longrightarrow> st_handle s k' i' = Some e' \<longrightarrow>
        h_private e \<noteq> 0 \<longrightarrow> h_private e' = h_private e \<longrightarrow> h_source e' = h_source e \<longrightarrow> k = k' \<and> i = i')"

definition listeners_ok :: "store \<Rightarrow> bool" where
  "listeners_ok s \<longleftrightarrow>
     (\<forall>r i. st_listener s r = Some i \<longleftrightarrow> r \<noteq> 0 \<and> st_handle s Resources i \<noteq> None \<and> st_wl s i = r)"

definition store_ok :: "res_env \<Rightarrow> store \<Rightarrow> bool" where
  "store_ok E s \<longleftrightarrow> tables_ok s \<and> sources_ok E s \<and> entries_ok s \<and> owners_ok s \<and> listeners_ok s"

lemmas store_ok_defs = tables_ok_def sources_ok_def entries_ok_def owners_ok_def listeners_ok_def

text \<open>A constructor only initialises the item it is given. A destructor may release other objects and
  creates none; it keeps the store consistent and leaves the container of the object it
  destructs.\<close>

definition callback_laws :: "res_env \<Rightarrow> bool" where
  "callback_laws E \<longleftrightarrow>
     (\<forall>a h s. snd (cb_constructor E a h s) = s\<lparr>st_events := st_events (snd (cb_constructor E a h s))\<rparr>) \<and>
     (\<forall>a h s. store_ok E s \<longrightarrow> store_ok E (cb_destructor E a h s) \<and>
        (\<forall>k i e. st_handle (cb_destructor E a h s) k i = Some e \<longrightarrow> st_handle s k i = Some e) \<and>
        (\<forall>k i e. st_handle s k i = Some e \<and> h_source e = a \<and> h_private e = h + 1 \<longrightarrow>
           st_handle (cb_destructor E a h s) k i = Some e) \<and>
        (\<forall>b. map_option s_name (st_sources (cb_destructor E a h s) b) = map_option s_name (st_sources s b)))"

lemma pool_lawsD:
  assumes "pool_laws E"
  shows "po_add E p = Some (i, p') \<Longrightarrow> i \<notin> p_used p"
    and "po_add E p = Some (i, p') \<Longrightarrow> p_used p' = insert i (p_used p)"
    and "po_add E p = Some (i, p') \<Longrightarrow> buffer_ok E p \<Longrightarrow> buffer_ok E p'"
    and "p_used (po_remove E p j) = p_used p - {j}"
    and "buffer_ok E p \<Longrightarrow> buffer_ok E (po_remove E p j)"
    and "finite (p_used p) \<Longrightarrow> set (po_indices E p) = p_used p"
  using assms by (simp_all add: pool_laws_def)

lemma store_okD:
  assumes "store_ok E s"
  shows "st_handle s k i \<noteq> None \<longleftrightarrow> i \<in> p_used (st_pool s k)"
    and "st_sources s a = Some so \<Longrightarrow> source_ok E a so"
    and "st_handle s k i = Some e \<Longrightarrow> entry_ok s i e"
    and "st_handle s k i = Some e \<Longrightarrow> st_handle s k' i' = Some e' \<Longrightarrow> h_private e \<noteq> 0 \<Longrightarrow>
      h_private e' = h_private e \<Longrightarrow> h_source e' = h_source e \<Longrightarrow> k = k' \<and> i = i'"
    and "st_listener s r = Some n \<longleftrightarrow> r \<noteq> 0 \<and> st_handle s Resources n \<noteq> None \<and> st_wl s n = r"
    and "finite (p_used (st_pool s k))"
  using assms unfolding store_ok_def
  by (simp add: tables_ok_def, simp add: sources_ok_def, simp add: entries_ok_def,
      unfold owners_ok_def, fast, simp add: listeners_ok_def, simp add: tables_ok_def)

section \<open>What each step keeps\<close>

lemma handle_zero_simps [simp]:
  "h_public handle_zero = 0" "h_private handle_zero = 0" "h_source handle_zero = 0"
  by (simp_all add: handle_zero_def)

lemma store_ok_events [simp]:
  "store_ok E (s\<lparr>st_events := x\<rparr>) = store_ok E s"
  "store_ok E (res_emit ev s) = store_ok E s"
  by (simp_all add: store_ok_def store_ok_defs entry_ok_def res_emit_def)

lemma store_ok_container_add:
  assumes "store_ok E s" "pool_laws E" "po_add E (st_pool s k) = Some (i, p)"
  shows "store_ok E (container_add k i p s)"
proof -
  have fresh: "st_handle s k i = None" and used: "p_used p = insert i (p_used (st_pool s k))"
    using pool_lawsD(1,2) [OF assms(2,3)] store_okD(1) [OF assms(1), of k i] by auto
  note old = assms(1) [unfolded store_ok_def]
  let ?t = "container_add k i p s"
  have "tables_ok ?t" using old used by (simp add: tables_ok_def container_add_def)
  moreover have "sources_ok E ?t" using old by (simp add: sources_ok_def container_add_def)
  moreover have "entries_ok ?t" using old
    by (simp add: entries_ok_def container_add_def entry_ok_def)
  moreover have "owners_ok ?t" using old
    unfolding owners_ok_def container_add_def by (auto split: if_splits)
  moreover have "listeners_ok ?t" using old fresh
    by (cases k) (auto simp: listeners_ok_def container_add_def)
  ultimately show ?thesis by (simp add: store_ok_def)
qed

lemma store_ok_source_add:
  assumes "store_ok E s" "pool_laws E" "st_sources s a = Some so" "po_add E (s_pool so) = Some (h, q)"
  shows "store_ok E (source_put a (so\<lparr>s_pool := q, s_items := (s_items so)(h := Some x)\<rparr>) s)"
proof -
  let ?so = "so\<lparr>s_pool := q, s_items := (s_items so)(h := Some x)\<rparr>"
  let ?t = "source_put a ?so s"
  have so: "source_ok E a so" by (rule store_okD(2) [OF assms(1,3)])
  then have fresh: "s_items so h = None"
    using pool_lawsD(1) [OF assms(2,4)] by (auto simp: source_ok_def)
  have "source_ok E a ?so"
    using so pool_lawsD(2,3) [OF assms(2,4)] by (auto simp: source_ok_def)
  then have "sources_ok E ?t"
    using assms(1) by (simp add: store_ok_def sources_ok_def source_put_def)
  moreover have "entry_ok ?t i e" if "entry_ok s i e" for i e
    using that assms(3) fresh by (auto simp: entry_ok_def source_put_def)
  ultimately show ?thesis using assms(1)
    by (simp add: store_ok_def store_ok_defs source_put_def)
qed

lemma store_ok_source_low:
  "store_ok E s \<Longrightarrow> st_handle s k i = Some e \<Longrightarrow> h_source e \<le> heap_base E"
  using store_okD(2,3) [of E s] by (fastforce simp: entry_ok_def source_ok_def)

lemma relocate_handles_id:
  assumes "\<And>i e. st_handle s k i = Some e \<Longrightarrow> h_source e \<le> heap_base E"
    and "start = 0 \<or> heap_base E < start"
  shows "relocate_handles k dest start fin s = s"
proof (cases "start = 0")
  case False
  have "map_option (relocate_handle dest start fin) (st_handle s k i) = st_handle s k i" for i
    using assms(1) [of i] assms(2) False
    by (cases "st_handle s k i") (fastforce simp: relocate_handle_def)+
  then show ?thesis by (simp add: relocate_handles_def)
qed (simp add: relocate_handles_def)

lemma relocate_resource_id:
  assumes "store_ok E s" "i \<in> p_used (st_pool s Resources)"
  shows "relocate_resource i s = s"
proof -
  have "st_wl s i \<noteq> 0 \<Longrightarrow> st_listener s (st_wl s i) = Some i"
    using store_okD(1) [OF assms(1), of Resources i] store_okD(5) [OF assms(1)] assms(2) by auto
  then show ?thesis by (auto simp: relocate_resource_def fun_upd_idem)
qed

lemma relocate_resources_id:
  assumes "store_ok E s" "pool_laws E"
  shows "relocate_resources E s = s"
proof -
  have "fold relocate_resource ix s = s" if "set ix \<subseteq> p_used (st_pool s Resources)" for ix
    using that by (induction ix) (simp_all add: relocate_resource_id [OF assms(1)])
  then show ?thesis using pool_lawsD(6) [OF assms(2) store_okD(6) [OF assms(1)]]
    by (simp add: relocate_resources_def)
qed

lemma store_ok_item_remove:
  assumes "store_ok E s" "pool_laws E" "st_sources s a = Some so"
    and "\<And>k i e. st_handle s k i = Some e \<Longrightarrow> h_private e \<noteq> 0 \<Longrightarrow> h_source e = a \<Longrightarrow> h_private e - 1 \<noteq> h"
  shows "store_ok E (item_remove E a h s)"
proof -
  let ?so = "so\<lparr>s_pool := po_remove E (s_pool so) h, s_items := (s_items so)(h := None)\<rparr>"
  have "source_ok E a ?so"
    using store_okD(2) [OF assms(1,3)] pool_lawsD(4,5) [OF assms(2)] by (auto simp: source_ok_def)
  moreover have "entry_ok (source_put a ?so s) i e" if "st_handle s k i = Some e" for k i e
    using store_okD(3) [OF assms(1) that] assms(3) assms(4) [OF that]
    by (auto simp: entry_ok_def source_put_def)
  ultimately have "store_ok E (source_put a ?so s)"
    using assms(1) by (simp add: store_ok_def store_ok_defs source_put_def)
  then show ?thesis using assms(3) by (simp add: item_remove_def)
qed

lemma store_ok_container_remove:
  assumes "store_ok E s" "pool_laws E" "k = Resources \<Longrightarrow> st_wl s i = 0"
  shows "store_ok E (container_remove E k i s)"
proof -
  note old = assms(1) [unfolded store_ok_def]
  let ?t = "container_remove E k i s"
  have "tables_ok ?t" using old pool_lawsD(4) [OF assms(2)]
    by (simp add: tables_ok_def container_remove_def)
  moreover have "sources_ok E ?t" using old by (simp add: sources_ok_def container_remove_def)
  moreover have "entries_ok ?t" using old
    by (simp add: entries_ok_def container_remove_def entry_ok_def)
  moreover have "owners_ok ?t" using old
    unfolding owners_ok_def container_remove_def by (auto split: if_splits)
  moreover have "listeners_ok ?t" using old assms(3)
    by (auto simp: listeners_ok_def container_remove_def)
  ultimately show ?thesis by (simp add: store_ok_def)
qed

section \<open>Creation, as a whole\<close>

lemma source_put_twice [simp]: "source_put a x (source_put a y s) = source_put a x s"
  by (simp add: source_put_def)

lemma source_put_same: "st_sources s a = Some so \<Longrightarrow> source_put a so s = s"
  by (simp add: source_put_def fun_upd_idem)

lemma st_sources_container [simp]:
  "st_sources (container_add k i p s) = st_sources s"
  "st_sources (container_remove E k i s) = st_sources s"
  by (simp_all add: container_add_def container_remove_def)

lemma st_sources_put [simp]: "st_sources (source_put a so s) = (st_sources s)(a := Some so)"
  by (simp add: source_put_def)

lemma st_handle_put [simp]:
  "st_handle (source_put a so s) = st_handle s" "st_handle (item_remove E a h s) = st_handle s"
  by (simp_all add: source_put_def item_remove_def split: option.split)

text \<open>Up to the result of the constructor there is one state a creation builds: the container and
  the item are there and the item carries the public number.\<close>

definition built ::
  "pool_kind \<Rightarrow> nat \<Rightarrow> wlc_source \<Rightarrow> nat \<Rightarrow> pool \<Rightarrow> nat \<Rightarrow> pool \<Rightarrow> store \<Rightarrow> store" where
  "built k a so i p h q s =
     source_put a (so\<lparr>s_pool := q, s_items := (s_items so)(h := Some (i + 1))\<rparr>) (container_add k i p s)"

lemma handle_create_cases:
  assumes ok: "store_ok E s" "pool_laws E" and src: "st_sources s a = Some so"
  shows "handle_create E k a s =
    (case po_add E (st_pool s k) of
       None \<Rightarrow> (None, s)
     | Some (i, p) \<Rightarrow>
         (case po_add E (s_pool so) of
            None \<Rightarrow> (None, container_remove E k i (container_add k i p s))
          | Some (h, q) \<Rightarrow>
              let undo = (\<lambda>s. (None, container_remove E k i (item_remove E a h s))) in
              if i \<ge> SIZE_T_MAX \<or> h \<ge> SIZE_T_MAX
              then undo (source_put a (so\<lparr>s_pool := q, s_items := (s_items so)(h := Some 0)\<rparr>) (container_add k i p s))
              else if s_constructor so \<and> \<not> fst (cb_constructor E a h (built k a so i p h q s))
              then undo (snd (cb_constructor E a h (built k a so i p h q s)))
              else (Some (i, h), if s_constructor so then snd (cb_constructor E a h (built k a so i p h q s))
                                 else built k a so i p h q s)))"
proof (cases "po_add E (st_pool s k)")
  case (Some ip)
  then obtain i p where ip: "po_add E (st_pool s k) = Some (i, p)" by (cases ip) auto
  let ?c = "container_add k i p s"
  have c: "store_ok E ?c" by (rule store_ok_container_add [OF ok ip])
  have rr: "(if b then relocate_resources E ?c else ?c) = ?c" for b
    using relocate_resources_id [OF c ok(2)] by simp
  show ?thesis
  proof (cases "po_add E (s_pool so)")
    case (Some hq)
    then obtain h q where hq: "po_add E (s_pool so) = Some (h, q)" by (cases hq) auto
    have sc: "st_sources ?c a = Some so" using src by simp
    let ?d = "source_put a (so\<lparr>s_pool := q, s_items := (s_items so)(h := Some 0)\<rparr>) ?c"
    have d: "store_ok E ?d" by (rule store_ok_source_add [OF c ok(2) sc hq])
    have "buffer_ok E (s_pool so)" using store_okD(2) [OF ok(1) src] by (simp add: source_ok_def)
    then have "relocate_handles k x (p_buffer (s_pool so)) y ?d = ?d" for x y
      using store_ok_source_low [OF d] by (intro relocate_handles_id) (auto simp: buffer_ok_def)
    then have rel: "(if b then relocate_handles k x (p_buffer (s_pool so)) y ?d else ?d) = ?d" for b x y
      by simp
    show ?thesis
      unfolding handle_create_def ip hq Let_def option.case prod.case rr sc rel source_put_twice
      by (simp add: built_def case_prod_beta)
  qed (unfold handle_create_def ip Let_def option.case prod.case rr, use src in simp)
qed (simp add: handle_create_def)

lemma store_ok_built:
  assumes "store_ok E s" "pool_laws E" "st_sources s a = Some so"
    "po_add E (st_pool s k) = Some (i, p)" "po_add E (s_pool so) = Some (h, q)"
  shows "store_ok E (built k a so i p h q s)"
  unfolding built_def using assms
  by (intro store_ok_source_add store_ok_container_add) simp_all

text \<open>A creation that succeeds adds one container and one item; the constructor adds events.\<close>

lemma handle_create_Some:
  assumes ok: "store_ok E s" "pool_laws E" "callback_laws E" and src: "st_sources s a = Some so"
    and run: "handle_create E k a s = (Some (i, h), s')"
  obtains p q where "po_add E (st_pool s k) = Some (i, p)" "po_add E (s_pool so) = Some (h, q)"
    "s' = (built k a so i p h q s)\<lparr>st_events := st_events s'\<rparr>"
proof -
  have c: "snd (cb_constructor E a h t) = t\<lparr>st_events := st_events (snd (cb_constructor E a h t))\<rparr>" for t
    using ok(3) by (simp add: callback_laws_def)
  from run that show thesis
    unfolding handle_create_cases [OF ok(1,2) src] Let_def
    by (auto split: option.splits if_splits prod.splits simp: c [symmetric])
qed

text \<open>What two states have in common for every lookup: the containers, the names and contents of the
  sources, and the listeners.\<close>

definition same_view :: "store \<Rightarrow> store \<Rightarrow> bool" where
  "same_view s s' \<longleftrightarrow>
     st_handle s' = st_handle s \<and> st_listener s' = st_listener s \<and>
     (\<forall>a. map_option s_name (st_sources s' a) = map_option s_name (st_sources s a) \<and>
          map_option s_items (st_sources s' a) = map_option s_items (st_sources s a))"

lemma ctor_eq:
  "callback_laws E \<Longrightarrow>
     snd (cb_constructor E a h t) = t\<lparr>st_events := st_events (snd (cb_constructor E a h t))\<rparr>"
  by (simp add: callback_laws_def)

lemma undo_container:
  assumes "store_ok E s" "pool_laws E" "po_add E (st_pool s k) = Some (i, p)"
  shows "store_ok E (container_remove E k i (container_add k i p s)) \<and>
    same_view s (container_remove E k i (container_add k i p s))"
proof -
  have "st_handle s k i = None"
    using pool_lawsD(1) [OF assms(2,3)] store_okD(1) [OF assms(1), of k i] by auto
  then show ?thesis
    using store_ok_container_remove [OF store_ok_container_add [OF assms] assms(2), of k i]
    by (auto simp: same_view_def container_remove_def container_add_def fun_upd_idem)
qed

lemma item_remove_put:
  "item_remove E a h (source_put a so s) =
     source_put a (so\<lparr>s_pool := po_remove E (s_pool so) h, s_items := (s_items so)(h := None)\<rparr>) s"
  by (simp add: item_remove_def)

lemma undo_item:
  assumes ok: "store_ok E s" "pool_laws E" and src: "st_sources s a = Some so"
    and add: "po_add E (st_pool s k) = Some (i, p)" "po_add E (s_pool so) = Some (h, q)"
  shows "store_ok E (container_remove E k i (item_remove E a h (source_put a
      (so\<lparr>s_pool := q, s_items := (s_items so)(h := x)\<rparr>) (container_add k i p s)))) \<and>
    same_view s (container_remove E k i (item_remove E a h (source_put a
      (so\<lparr>s_pool := q, s_items := (s_items so)(h := x)\<rparr>) (container_add k i p s))))"
proof -
  let ?so = "so\<lparr>s_pool := po_remove E q h\<rparr>"
  let ?u = "container_remove E k i (container_add k i p s)"
  have so: "source_ok E a so" by (rule store_okD(2) [OF ok(1) src])
  have none: "s_items so h = None" using so pool_lawsD(1) [OF ok(2) add(2)] by (auto simp: source_ok_def)
  then have items: "(s_items so)(h := None) = s_items so" by (simp add: fun_upd_idem)
  have eq: "container_remove E k i (item_remove E a h (source_put a
      (so\<lparr>s_pool := q, s_items := (s_items so)(h := x)\<rparr>) (container_add k i p s))) = source_put a ?so ?u"
    unfolding item_remove_put by (simp add: items container_remove_def source_put_def)
  have u: "store_ok E ?u" "same_view s ?u" using undo_container [OF ok add(1)] by simp_all
  have "source_ok E a ?so"
    using so pool_lawsD(1-5) [OF ok(2)] add(2) by (auto simp: source_ok_def)
  then have "sources_ok E (source_put a ?so ?u)"
    using u(1) by (simp add: store_ok_def sources_ok_def)
  moreover have "entry_ok (source_put a ?so ?u) j e" if "entry_ok ?u j e" for j e
    using that src by (auto simp: entry_ok_def)
  ultimately have "store_ok E (source_put a ?so ?u)"
    using u(1) by (simp add: store_ok_def store_ok_defs source_put_def)
  moreover have "same_view s (source_put a ?so ?u)" using u(2) src
    by (simp add: same_view_def source_put_def)
  ultimately show ?thesis unfolding eq by simp
qed

lemma store_ok_same_events:
  "same_view s (t\<lparr>st_events := x\<rparr>) = same_view s t"
  "container_remove E k i (t\<lparr>st_events := x\<rparr>) = (container_remove E k i t)\<lparr>st_events := x\<rparr>"
  "item_remove E a h (t\<lparr>st_events := x\<rparr>) = (item_remove E a h t)\<lparr>st_events := x\<rparr>"
  by (simp_all add: same_view_def container_remove_def item_remove_def source_put_def split: option.split)

text \<open>A creation that fails leaves every container, item and listener as it was.\<close>

lemma handle_create_None:
  assumes ok: "store_ok E s" "pool_laws E" "callback_laws E" and src: "st_sources s a = Some so"
    and run: "handle_create E k a s = (None, s')"
  shows "store_ok E s' \<and> same_view s s'"
proof (cases "po_add E (st_pool s k)")
  case None
  then show ?thesis using run ok(1) by (simp add: handle_create_def same_view_def)
next
  case (Some ip)
  then obtain i p where ip: "po_add E (st_pool s k) = Some (i, p)" by (cases ip) auto
  show ?thesis
  proof (cases "po_add E (s_pool so)")
    case None
    then show ?thesis using run ip undo_container [OF ok(1,2) ip]
      by (auto simp: handle_create_cases [OF ok(1,2) src])
  next
    case (Some hq)
    then obtain h q where hq: "po_add E (s_pool so) = Some (h, q)" by (cases hq) auto
    note undo = undo_item [OF ok(1,2) src ip hq]
    let ?c = "snd (cb_constructor E a h (built k a so i p h q s))"
    have "store_ok E (container_remove E k i (item_remove E a h ?c)) \<and>
      same_view s (container_remove E k i (item_remove E a h ?c))"
      by (subst (1 2) ctor_eq [OF ok(3)])
        (use undo [of "Some (i + 1)"] in \<open>simp add: store_ok_same_events built_def\<close>)
    then show ?thesis using run ip hq undo [of "Some 0"]
      by (auto simp: handle_create_cases [OF ok(1,2) src] Let_def split: if_splits)
  qed
qed

text \<open>Setting the container completes a creation.\<close>

lemma store_ok_handle_set:
  assumes ok: "store_ok E s" "pool_laws E" and src: "st_sources s a = Some so"
    and add: "po_add E (st_pool s k) = Some (i, p)" "po_add E (s_pool so) = Some (h, q)"
  shows "store_ok E (handle_set k i \<lparr>h_public = i + 1, h_private = h + 1, h_source = a\<rparr> (built k a so i p h q s))"
    (is "store_ok E ?t")
proof -
  let ?b = "built k a so i p h q s"
  have b: "store_ok E ?b" by (rule store_ok_built [OF ok src add])
  have b_src: "st_sources ?b a = Some (so\<lparr>s_pool := q, s_items := (s_items so)(h := Some (i + 1))\<rparr>)"
    and b_h: "st_handle ?b k i = Some handle_zero" by (simp_all add: built_def container_add_def)
  have free: "s_items so h = None"
    using store_okD(2) [OF ok(1) src] pool_lawsD(1) [OF ok(2) add(2)] by (auto simp: source_ok_def)
  have old: "\<not> (h_private e = h + 1 \<and> h_source e = a)" if "st_handle ?b k' j = Some e" for k' j e
  proof -
    have "e = handle_zero \<or> st_handle s k' j = Some e"
      using that by (auto simp: built_def container_add_def split: if_splits)
    then show ?thesis using store_okD(3) [OF ok(1), of k' j e] free src by (auto simp: entry_ok_def)
  qed
  have "tables_ok ?t" using b b_h
    by (simp add: store_ok_def tables_ok_def handle_set_def) blast
  moreover have "sources_ok E ?t" using b by (simp add: store_ok_def sources_ok_def handle_set_def)
  moreover have "entries_ok ?t" using b b_src
    by (auto simp: store_ok_def entries_ok_def handle_set_def entry_ok_def)
  moreover have "owners_ok ?t"
  proof -
    have "\<forall>k' j e. st_handle ?b k' j = Some e \<longrightarrow> h_source e = a \<longrightarrow> h_private e \<noteq> h + 1"
      using old by blast
    then show ?thesis using b
      unfolding store_ok_def owners_ok_def handle_set_def by (auto split: if_splits) metis+
  qed
  moreover have "listeners_ok ?t" using b b_h
    by (auto simp: store_ok_def listeners_ok_def handle_set_def)
  ultimately show ?thesis by (simp add: store_ok_def)
qed

section \<open>Release, as a whole\<close>

lemma handle_destruct_ok:
  assumes ok: "store_ok E s" "callback_laws E" and e: "st_handle s k i = Some e" "e \<noteq> handle_zero"
  shows "store_ok E (handle_destruct E e s) \<and> st_handle (handle_destruct E e s) k i = Some e \<and>
    (\<forall>k i f. st_handle (handle_destruct E e s) k i = Some f \<longrightarrow> st_handle s k i = Some f) \<and>
    (\<forall>b. map_option s_name (st_sources (handle_destruct E e s) b) = map_option s_name (st_sources s b))"
proof -
  obtain so where so: "st_sources s (h_source e) = Some so" "h_private e \<noteq> 0"
    using store_okD(3) [OF ok(1) e(1)] e(2) by (auto simp: entry_ok_def)
  let ?t = "cb_destructor E (h_source e) (h_private e - 1) s"
  have "h_private e = (h_private e - 1) + 1" using so(2) by simp
  then have "store_ok E ?t \<and> st_handle ?t k i = Some e \<and>
     (\<forall>k i f. st_handle ?t k i = Some f \<longrightarrow> st_handle s k i = Some f) \<and>
     (\<forall>b. map_option s_name (st_sources ?t b) = map_option s_name (st_sources s b))"
    using ok e(1) unfolding callback_laws_def by blast
  then show ?thesis using ok(1) e(1) so(1) by (simp add: handle_destruct_def)
qed

lemma prerelase_simps [simp]:
  "st_handle (resource_prerelase i s) = st_handle s" "st_sources (resource_prerelase i s) = st_sources s"
  "st_pool (resource_prerelase i s) = st_pool s"
  "st_wl (resource_prerelase i s) i = 0"
  by (simp_all add: resource_prerelase_def resource_invalidate_def res_emit_def Let_def)

lemma store_ok_invalidate:
  assumes "store_ok E s" "st_handle s Resources i \<noteq> None"
  shows "store_ok E (resource_invalidate i s)"
proof -
  note old = assms(1) [unfolded store_ok_def]
  have "listeners_ok (resource_invalidate i s)"
    using old assms(2) by (auto simp: listeners_ok_def resource_invalidate_def split: if_splits)
      (metis option.inject option.distinct(1))+
  then show ?thesis using old
    by (simp add: store_ok_def store_ok_defs resource_invalidate_def entry_ok_def)
qed

lemma store_ok_prerelase:
  "store_ok E s \<Longrightarrow> st_handle s Resources i \<noteq> None \<Longrightarrow> store_ok E (resource_prerelase i s)"
  using store_ok_invalidate by (simp add: resource_prerelase_def Let_def)

text \<open>The state a release leaves behind, without the steps that only repair addresses.\<close>

definition released :: "res_env \<Rightarrow> pool_kind \<Rightarrow> nat \<Rightarrow> handle \<Rightarrow> store \<Rightarrow> store" where
  "released E k i e s =
     item_remove E (h_source e) (h_private e - 1)
       (container_remove E k i (if k = Resources then resource_prerelase i s else s))"

lemma store_ok_released:
  assumes ok: "store_ok E s" "pool_laws E" and e: "st_handle s k i = Some e" "e \<noteq> handle_zero"
  shows "store_ok E (released E k i e s)"
proof -
  obtain so where so: "st_sources s (h_source e) = Some so" "h_private e \<noteq> 0"
    using store_okD(3) [OF ok(1) e(1)] e(2) by (auto simp: entry_ok_def)
  let ?p = "if k = Resources then resource_prerelase i s else s"
  have p: "store_ok E ?p" using ok(1) e(1) store_ok_prerelase by auto
  have r: "store_ok E (container_remove E k i ?p)"
    by (rule store_ok_container_remove [OF p ok(2)]) auto
  have src: "st_sources (container_remove E k i ?p) (h_source e) = Some so" using so(1) by simp
  show ?thesis unfolding released_def
  proof (rule store_ok_item_remove [OF r ok(2) src])
    fix k' j f
    assume f: "st_handle (container_remove E k i ?p) k' j = Some f" "h_private f \<noteq> 0" "h_source f = h_source e"
    then have sf: "st_handle s k' j = Some f" and ne: "\<not> (k' = k \<and> j = i)"
      by (auto simp: container_remove_def split: if_splits)
    show "h_private f - 1 \<noteq> h_private e - 1"
    proof
      assume "h_private f - 1 = h_private e - 1"
      then have "h_private f = h_private e" using f(2) so(2) by arith
      with store_okD(4) [OF ok(1) e(1) sf so(2) _ f(3)] ne show False by blast
    qed
  qed
qed

lemma item_remove_commute:
  "resource_prerelase i (item_remove E a h s) = item_remove E a h (resource_prerelase i s)"
  "container_remove E k i (item_remove E a h s) = item_remove E a h (container_remove E k i s)"
  by (simp_all add: item_remove_def container_remove_def source_put_def resource_prerelase_def
      resource_invalidate_def res_emit_def Let_def split: option.split)

lemma handle_release_live:
  assumes ok: "store_ok E s" "pool_laws E" "callback_laws E"
    and e: "st_handle s k i = Some e" "e \<noteq> handle_zero"
  shows "handle_release E k i s = released E k i e (handle_destruct E e s)"
proof -
  let ?t = "handle_destruct E e s"
  have t: "store_ok E ?t" "st_handle ?t k i = Some e" using handle_destruct_ok [OF ok(1,3) e] by simp_all
  obtain so where so: "st_sources ?t (h_source e) = Some so" "h_private e \<noteq> 0" "h_public e = i + 1"
    using store_okD(3) [OF t] e(2) by (auto simp: entry_ok_def)
  have buf: "buffer_ok E (s_pool so)" using store_okD(2) [OF t(1) so(1)] by (simp add: source_ok_def)
  let ?r = "item_remove E (h_source e) (h_private e - 1) ?t"
  have "relocate_handles k' x (p_buffer (s_pool so)) y ?r = ?r" for x y k'
    using store_ok_source_low [OF t(1)] buf by (intro relocate_handles_id) (auto simp: buffer_ok_def)
  moreover have "st_sources ?r (h_source e) = Some
      (so\<lparr>s_pool := po_remove E (s_pool so) (h_private e - 1), s_items := (s_items so)(h_private e - 1 := None)\<rparr>)"
    using so(1) by (simp add: item_remove_def)
  ultimately have item: "handle_release_item E k' e ?t = ?r" for k'
    using so(1) by (simp add: handle_release_item_def Let_def)
  have rel: "relocate_resources E (released E k i e ?t) = released E k i e ?t"
    by (rule relocate_resources_id [OF store_ok_released [OF t(1) ok(2) t(2) e(2)] ok(2)])
  have "handle_release E k i s =
     (let u = if k = Resources then resource_prerelase i ?r else ?r;
          v = container_remove E k i u
      in if k = Resources \<and> p_buffer (st_pool u k) \<noteq> p_buffer (st_pool v k)
         then relocate_resources E v else v)"
    unfolding handle_release_def e(1) option.case Let_def using so(2,3) by (simp add: t(2) item)
  then show ?thesis
    using rel by (cases "k = Resources") (simp_all add: released_def item_remove_commute Let_def)
qed

text \<open>What is left of the tables after a release.\<close>

lemma handle_release_effect:
  assumes ok: "store_ok E s" "pool_laws E" "callback_laws E"
    and e: "st_handle s k i = Some e" "e \<noteq> handle_zero"
  shows "store_ok E (handle_release E k i s)"
    and "st_handle (handle_release E k i s) k i = None"
    and "st_handle (handle_release E k i s) k' j = Some f \<Longrightarrow> st_handle s k' j = Some f"
    and "map_option s_name (st_sources (handle_release E k i s) b) = map_option s_name (st_sources s b)"
proof -
  let ?t = "handle_destruct E e s"
  note t = handle_destruct_ok [OF ok(1,3) e]
  note eq = handle_release_live [OF ok e]
  show "store_ok E (handle_release E k i s)"
    unfolding eq using t ok(2) e(2) by (intro store_ok_released) auto
  show "st_handle (handle_release E k i s) k i = None"
    unfolding eq released_def by (simp add: container_remove_def)
  show "st_handle (handle_release E k i s) k' j = Some f \<Longrightarrow> st_handle s k' j = Some f"
    unfolding eq released_def using t by (auto simp: container_remove_def split: if_splits)
  have "map_option s_name (st_sources (released E k i e ?t) b) = map_option s_name (st_sources ?t b)"
    by (simp add: released_def item_remove_def split: option.split)
  then show "map_option s_name (st_sources (handle_release E k i s) b) = map_option s_name (st_sources s b)"
    unfolding eq using t by simp
qed

section \<open>The contract of a handle table\<close>

text \<open>What the rest of the program relies on: a creation yields a number that named nothing before and names
  the new object, and disturbs no other number; a failed creation changes no lookup; a released number
  names nothing, and a release brings nothing to life.\<close>

locale handle_store =
  fixes inv :: "'s \<Rightarrow> bool"
    and pre :: "'r \<Rightarrow> 's \<Rightarrow> bool"
    and create :: "'r \<Rightarrow> 's \<Rightarrow> nat \<times> 's"
    and lookup :: "nat \<Rightarrow> 's \<Rightarrow> 'v option"
    and release :: "nat \<Rightarrow> 's \<Rightarrow> 's"
  assumes create_new: "inv s \<Longrightarrow> pre r s \<Longrightarrow> create r s = (h, s') \<Longrightarrow> h \<noteq> 0 \<Longrightarrow>
      inv s' \<and> lookup h s = None \<and> lookup h s' \<noteq> None \<and> (\<forall>h'. h' \<noteq> h \<longrightarrow> lookup h' s' = lookup h' s)"
    and create_fails: "inv s \<Longrightarrow> pre r s \<Longrightarrow> create r s = (0, s') \<Longrightarrow>
      inv s' \<and> (\<forall>h. lookup h s' = lookup h s)"
    and release_inv: "inv s \<Longrightarrow> inv (release h s)"
    and release_dead: "inv s \<Longrightarrow> lookup h (release h s) = None"
    and release_shrinks: "inv s \<Longrightarrow> lookup h' (release h s) = Some v \<Longrightarrow> lookup h' s = Some v"
begin

lemma release_keeps_dead: "inv s \<Longrightarrow> lookup h' s = None \<Longrightarrow> lookup h' (release h s) = None"
  using release_shrinks by (metis option.exhaust)

lemma fold_release_keeps_dead:
  "inv s \<Longrightarrow> lookup h s = None \<Longrightarrow> inv (fold release hs s) \<and> lookup h (fold release hs s) = None"
  by (induction hs arbitrary: s) (simp_all add: release_inv release_keeps_dead)

lemma fold_release_dead:
  "inv s \<Longrightarrow> h \<in> set hs \<Longrightarrow> lookup h (fold release hs s) = None"
proof (induction hs arbitrary: s)
  case (Cons x hs)
  then show ?case
    using fold_release_keeps_dead [OF release_inv release_dead] by (cases "h = x") (auto simp: release_inv)
qed simp

lemma create_distinct:
  assumes "inv s" "pre r s" "create r s = (h, s1)" "h \<noteq> 0" "pre r' s1" "create r' s1 = (h', s2)" "h' \<noteq> 0"
  shows "h \<noteq> h' \<and> lookup h s2 = lookup h s1"
  using create_new [OF assms(1-4)] create_new [OF _ assms(5-7)] by metis

text \<open>A freed number may be given out again, to the next object only.\<close>

lemma create_release:
  assumes "inv s" "pre r s" "create r s = (h, s1)" "h \<noteq> 0"
  shows "lookup h' (release h s1) = Some v \<Longrightarrow> lookup h' s = Some v"
  using create_new [OF assms] release_shrinks release_dead by (metis option.distinct(1))

end

section \<open>The contract holds of the tables\<close>

text \<open>Between operations no container is under construction.\<close>

definition handles_inv :: "res_env \<Rightarrow> nat \<Rightarrow> string \<Rightarrow> store \<Rightarrow> bool" where
  "handles_inv E a name s \<longleftrightarrow>
     store_ok E s \<and> pool_laws E \<and> callback_laws E \<and> map_option s_name (st_sources s a) = Some name \<and>
     (\<forall>k i. st_handle s k i \<noteq> Some handle_zero)"

definition handle_new :: "res_env \<Rightarrow> nat \<Rightarrow> unit \<Rightarrow> store \<Rightarrow> nat \<times> store" where
  "handle_new E a u s = (case wlc_handle_create E a s of (ptr, s') \<Rightarrow> (convert_to_handle ptr s', s'))"

definition table_get :: "pool_kind \<Rightarrow> nat \<Rightarrow> string \<Rightarrow> store \<Rightarrow> (nat \<times> nat) option" where
  "table_get k h name s = (if h = 0 then None else handle_get (st_handle s k (h - 1)) name s)"

lemma table_get_simps:
  "convert_from_wlc_handle h name s = table_get Handles h name s"
  "convert_from_wlc_resource h name s = table_get Resources h name s"
  by (simp_all add: table_get_def convert_from_wlc_handle_def convert_from_wlc_resource_def)

lemma table_get_Some:
  assumes "store_ok E s"
  shows "table_get k h name s = Some v \<longleftrightarrow>
    (\<exists>e. h \<noteq> 0 \<and> st_handle s k (h - 1) = Some e \<and> e \<noteq> handle_zero \<and>
       map_option s_name (st_sources s (h_source e)) = Some name \<and> v = (h_source e, h_private e - 1))"
  using store_okD(3) [OF assms, of k "h - 1"]
  by (cases "st_handle s k (h - 1)")
    (auto simp: table_get_def handle_get_def handle_is_def entry_ok_def split: option.splits)

lemma table_get_cong:
  assumes "store_ok E s" "store_ok E s'" "st_handle s' k (h - 1) = st_handle s k (h - 1)"
    and "\<And>a. map_option s_name (st_sources s' a) = map_option s_name (st_sources s a)"
  shows "table_get k h name s' = table_get k h name s"
  using table_get_Some [OF assms(1)] table_get_Some [OF assms(2)] assms(3,4)
  by (metis option.exhaust)

text \<open>The two creations end in the same state, but for the wayland resource.\<close>

definition created :: "pool_kind \<Rightarrow> nat \<Rightarrow> nat \<Rightarrow> nat \<Rightarrow> store \<Rightarrow> store \<Rightarrow> bool" where
  "created k a i h s s' \<longleftrightarrow>
     st_handle s k i = None \<and>
     st_handle s' = (st_handle s)(k := (st_handle s k)(i := Some \<lparr>h_public = i + 1, h_private = h + 1, h_source = a\<rparr>)) \<and>
     (\<forall>b. map_option s_name (st_sources s' b) = map_option s_name (st_sources s b)) \<and>
     (\<exists>so. st_sources s' a = Some so \<and> s_items so h = Some (i + 1))"

lemma handle_create_created:
  assumes ok: "store_ok E s" "pool_laws E" "callback_laws E" and src: "st_sources s a = Some so"
    and run: "handle_create E k a s = (Some (i, h), s')"
  defines "t \<equiv> handle_set k i \<lparr>h_public = i + 1, h_private = h + 1, h_source = a\<rparr> s'"
  shows "store_ok E t \<and> created k a i h s t \<and> (k = Resources \<longrightarrow> st_wl t i = 0) \<and>
    st_listener t = st_listener s"
proof -
  from handle_create_Some [OF ok src run] obtain p q where
    pq: "po_add E (st_pool s k) = Some (i, p)" "po_add E (s_pool so) = Some (h, q)"
    and s': "s' = (built k a so i p h q s)\<lparr>st_events := st_events s'\<rparr>" by blast
  have t: "t = (handle_set k i \<lparr>h_public = i + 1, h_private = h + 1, h_source = a\<rparr>
      (built k a so i p h q s))\<lparr>st_events := st_events s'\<rparr>"
    unfolding t_def by (subst s') (simp add: handle_set_def)
  have "st_handle s k i = None"
    using pool_lawsD(1) [OF ok(2) pq(1)] store_okD(1) [OF ok(1), of k i] by auto
  then have "created k a i h s t" using src unfolding t
    by (simp add: created_def handle_set_def built_def container_add_def source_put_def)
  moreover have "k = Resources \<longrightarrow> st_wl t i = 0" "st_listener t = st_listener s" unfolding t
    by (simp_all add: handle_set_def built_def container_add_def source_put_def)
  ultimately show ?thesis
    using store_ok_handle_set [OF ok(1,2) src pq] unfolding t by simp
qed

lemma created_lookup:
  assumes "store_ok E s" "store_ok E s'" "created k a i h s s'"
    and "map_option s_name (st_sources s a) = Some name"
  shows "table_get k (i + 1) n s = None"
    and "table_get k (i + 1) name s' = Some (a, h)"
    and "h' \<noteq> i + 1 \<Longrightarrow> table_get k h' n s' = table_get k h' n s"
    and "k' \<noteq> k \<Longrightarrow> table_get k' h' n s' = table_get k' h' n s"
proof -
  note c = assms(3) [unfolded created_def]
  show "table_get k (i + 1) n s = None"
    using c by (simp add: table_get_def handle_get_def)
  show "table_get k (i + 1) name s' = Some (a, h)"
    unfolding table_get_Some [OF assms(2)] using c assms(4) by (auto simp: handle_zero_def)
  show "h' \<noteq> i + 1 \<Longrightarrow> table_get k h' n s' = table_get k h' n s"
    by (cases "h' = 0", simp add: table_get_def, rule table_get_cong [OF assms(1,2)]) (use c in auto)
  show "k' \<noteq> k \<Longrightarrow> table_get k' h' n s' = table_get k' h' n s"
    by (rule table_get_cong [OF assms(1,2)]) (use c in auto)
qed

lemma same_view_lookup:
  assumes "store_ok E s" "store_ok E s'" "same_view s s'"
  shows "table_get k h n s' = table_get k h n s"
  by (rule table_get_cong [OF assms(1,2)]) (use assms(3) in \<open>auto simp: same_view_def\<close>)

text \<open>Creation and release, per kind of table.\<close>

lemma handles_inv_source: "handles_inv E a name s \<Longrightarrow> \<exists>so. st_sources s a = Some so \<and> s_name so = name"
  by (auto simp: handles_inv_def)

lemma table_new:
  assumes inv: "handles_inv E a name s"
    and run: "handle_create E k a s = (Some (i, h), s')"
  defines "t \<equiv> handle_set k i \<lparr>h_public = i + 1, h_private = h + 1, h_source = a\<rparr> s'"
  shows "handles_inv E a name t" "table_get k (i + 1) n s = None" "table_get k (i + 1) name t = Some (a, h)"
    "h' \<noteq> i + 1 \<Longrightarrow> table_get k h' n t = table_get k h' n s"
    "k' \<noteq> k \<Longrightarrow> table_get k' h' n t = table_get k' h' n s"
proof -
  obtain so where so: "st_sources s a = Some so" "s_name so = name"
    using handles_inv_source [OF inv] by blast
  note ok = inv [unfolded handles_inv_def]
  have t: "store_ok E t" "created k a i h s t"
    using handle_create_created [OF _ _ _ so(1) run] ok unfolding t_def by auto
  have name: "map_option s_name (st_sources s a) = Some name" using so by simp
  show "handles_inv E a name t" using ok t by (simp add: handles_inv_def created_def handle_zero_def)
  note look = created_lookup [OF _ t name]
  show "table_get k (i + 1) n s = None" "table_get k (i + 1) name t = Some (a, h)"
    "h' \<noteq> i + 1 \<Longrightarrow> table_get k h' n t = table_get k h' n s"
    "k' \<noteq> k \<Longrightarrow> table_get k' h' n t = table_get k' h' n s"
    using look ok by blast+
qed

lemma table_new_fails:
  assumes inv: "handles_inv E a name s" and run: "handle_create E k a s = (None, s')"
  shows "handles_inv E a name s' \<and> (\<forall>k h n. table_get k h n s' = table_get k h n s)"
proof -
  obtain so where so: "st_sources s a = Some so" using handles_inv_source [OF inv] by blast
  have "store_ok E s' \<and> same_view s s'"
    using handle_create_None [OF _ _ _ so run] inv by (simp add: handles_inv_def)
  then show ?thesis using inv same_view_lookup [of E s s']
    by (simp add: handles_inv_def same_view_def)
qed

lemma table_release:
  fixes k :: pool_kind
  assumes inv: "handles_inv E a name s" and h: "h \<noteq> 0"
  defines "t \<equiv> handle_release E k (h - 1) s"
  shows "handles_inv E a name t" "table_get k h n t = None"
    "table_get k' h' n t = Some v \<Longrightarrow> table_get k' h' n s = Some v"
proof -
  note ok = inv [unfolded handles_inv_def]
  have *: "handles_inv E a name t \<and> table_get k h n t = None \<and>
    (table_get k' h' n t = Some v \<longrightarrow> table_get k' h' n s = Some v)"
  proof (cases "st_handle s k (h - 1)")
    case None
    then show ?thesis using inv by (simp add: t_def handle_release_def table_get_def handle_get_def)
  next
    case (Some e)
    with ok have e: "st_handle s k (h - 1) = Some e" "e \<noteq> handle_zero" by auto
    note eff = handle_release_effect [OF _ _ _ e, of E, folded t_def]
    have t: "handles_inv E a name t" using ok eff(1,3,4) unfolding handles_inv_def by metis
    moreover have "table_get k h n t = None"
      using eff(2) ok by (simp add: table_get_def handle_get_def)
    moreover have "table_get k' h' n t = Some v \<longrightarrow> table_get k' h' n s = Some v"
    proof
      assume "table_get k' h' n t = Some v"
      then obtain f where f: "h' \<noteq> 0" "st_handle t k' (h' - 1) = Some f" "f \<noteq> handle_zero"
        "map_option s_name (st_sources t (h_source f)) = Some n" "v = (h_source f, h_private f - 1)"
        using table_get_Some eff(1) ok by blast
      have "st_handle s k' (h' - 1) = Some f" by (rule eff(3)) (use ok f in auto)
      moreover have "map_option s_name (st_sources s (h_source f)) = Some n" using eff(4) ok f by simp
      ultimately show "table_get k' h' n s = Some v" using table_get_Some f ok by blast
    qed
    ultimately show ?thesis by blast
  qed
  then show "handles_inv E a name t" "table_get k h n t = None"
    "table_get k' h' n t = Some v \<Longrightarrow> table_get k' h' n s = Some v" by blast+
qed

text \<open>Attaching the wayland resource to a new resource container.\<close>

definition res_attach :: "nat \<Rightarrow> nat \<Rightarrow> store \<Rightarrow> store" where
  "res_attach i r s = s\<lparr>st_wl := (st_wl s)(i := r), st_listener := (st_listener s)(r := Some i)\<rparr>"

lemma store_ok_attach:
  assumes "store_ok E s" "st_handle s Resources i \<noteq> None" "st_wl s i = 0" "r \<noteq> 0" "st_listener s r = None"
  shows "store_ok E (res_attach i r s)"
proof -
  note old = assms(1) [unfolded store_ok_def]
  have "listeners_ok (res_attach i r s)"
    using old assms(2-5) by (auto simp: listeners_ok_def res_attach_def) (metis option.distinct(1))
  then show ?thesis using old by (simp add: store_ok_def store_ok_defs res_attach_def entry_ok_def)
qed

lemma table_get_attach [simp]: "table_get k h n (res_attach i r s) = table_get k h n s"
  by (simp add: table_get_def handle_get_def handle_is_def res_attach_def split: option.split)

lemma handles_inv_attach:
  "handles_inv E a name s \<Longrightarrow> st_handle s Resources i \<noteq> None \<Longrightarrow> st_wl s i = 0 \<Longrightarrow> r \<noteq> 0 \<Longrightarrow>
     st_listener s r = None \<Longrightarrow> handles_inv E a name (res_attach i r s)"
  using store_ok_attach by (simp add: handles_inv_def) (simp add: res_attach_def)

text \<open>The result of \<open>wlc_resource_create_from\<close> and of \<open>wlc_handle_create\<close>.\<close>

lemma wlc_resource_create_from_cases:
  assumes inv: "handles_inv E a name s" and r: "r \<noteq> 0" "st_listener s r = None"
    and run: "wlc_resource_create_from E a r s = (h, s')"
  shows "(h = 0 \<and> handles_inv E a name s' \<and> (\<forall>k h n. table_get k h n s' = table_get k h n s)) \<or>
    (\<exists>i g t. h = i + 1 \<and> handle_create E Resources a s = (Some (i, g), t) \<and>
       s' = res_attach i r (handle_set Resources i \<lparr>h_public = i + 1, h_private = g + 1, h_source = a\<rparr> t) \<and>
       handles_inv E a name s')"
proof (cases "handle_create E Resources a s")
  case (Pair res t)
  show ?thesis
  proof (cases res)
    case None
    then show ?thesis using run r Pair table_new_fails [OF inv, of Resources t]
      by (simp add: wlc_resource_create_from_def)
  next
    case (Some ig)
    then obtain i g where hc: "handle_create E Resources a s = (Some (i, g), t)" using Pair by (cases ig) auto
    let ?t = "handle_set Resources i \<lparr>h_public = i + 1, h_private = g + 1, h_source = a\<rparr> t"
    obtain so where so: "st_sources s a = Some so" using handles_inv_source [OF inv] by blast
    have c: "st_wl ?t i = 0" "st_listener ?t = st_listener s"
      using handle_create_created [OF _ _ _ so hc] inv by (simp_all add: handles_inv_def)
    have "handles_inv E a name ?t" by (rule table_new(1) [OF inv hc])
    then have "handles_inv E a name (res_attach i r ?t)"
      using c r by (intro handles_inv_attach) (simp_all add: handle_set_def)
    then show ?thesis using run r(1) hc by (auto simp: wlc_resource_create_from_def res_attach_def Let_def)
  qed
qed

lemma wlc_handle_create_cases:
  assumes inv: "handles_inv E a name s" and run: "wlc_handle_create E a s = (ptr, s')"
  shows "(ptr = None \<and> handles_inv E a name s' \<and> (\<forall>k h n. table_get k h n s' = table_get k h n s)) \<or>
    (\<exists>i g t. ptr = Some (a, g) \<and> convert_to_handle ptr s' = i + 1 \<and>
       handle_create E Handles a s = (Some (i, g), t) \<and>
       s' = handle_set Handles i \<lparr>h_public = i + 1, h_private = g + 1, h_source = a\<rparr> t)"
proof (cases "handle_create E Handles a s")
  case (Pair res t)
  show ?thesis
  proof (cases res)
    case None
    then show ?thesis using run Pair table_new_fails [OF inv, of Handles t]
      by (simp add: wlc_handle_create_def)
  next
    case (Some ig)
    then obtain i g where hc: "handle_create E Handles a s = (Some (i, g), t)" using Pair by (cases ig) auto
    let ?t = "handle_set Handles i \<lparr>h_public = i + 1, h_private = g + 1, h_source = a\<rparr> t"
    obtain so where so: "st_sources s a = Some so" using handles_inv_source [OF inv] by blast
    have "created Handles a i g s ?t"
      using handle_create_created [OF _ _ _ so hc] inv by (simp add: handles_inv_def)
    then have "convert_to_handle (Some (a, g)) ?t = i + 1" by (auto simp: created_def convert_to_handle_def)
    then show ?thesis using run hc by (auto simp: wlc_handle_create_def)
  qed
qed

interpretation handles: handle_store "handles_inv E a name" "\<lambda>_ _. True" "handle_new E a"
  "\<lambda>h. convert_from_wlc_handle h name" "wlc_handle_release E" for E a name
proof (unfold_locales, unfold table_get_simps handle_new_def)
  fix s h s' and u :: unit
  assume inv: "handles_inv E a name s"
  assume run: "(case wlc_handle_create E a s of (ptr, s') \<Rightarrow> (convert_to_handle ptr s', s')) = (h, s')"
  then obtain ptr where w: "wlc_handle_create E a s = (ptr, s')" "h = convert_to_handle ptr s'"
    by (auto split: prod.splits)
  assume "h \<noteq> 0"
  then obtain i g t where "h = i + 1" "handle_create E Handles a s = (Some (i, g), t)"
    "s' = handle_set Handles i \<lparr>h_public = i + 1, h_private = g + 1, h_source = a\<rparr> t"
    using wlc_handle_create_cases [OF inv w(1)] w(2) by (auto simp: convert_to_handle_def)
  then show "handles_inv E a name s' \<and> table_get Handles h name s = None \<and> table_get Handles h name s' \<noteq> None \<and>
      (\<forall>h'. h' \<noteq> h \<longrightarrow> table_get Handles h' name s' = table_get Handles h' name s)"
    using table_new [OF inv] by auto
next
  fix s s' and u :: unit
  assume inv: "handles_inv E a name s"
  assume "(case wlc_handle_create E a s of (ptr, s') \<Rightarrow> (convert_to_handle ptr s', s')) = (0, s')"
  then obtain ptr where w: "wlc_handle_create E a s = (ptr, s')" "convert_to_handle ptr s' = 0"
    by (auto split: prod.splits)
  then show "handles_inv E a name s' \<and> (\<forall>h. table_get Handles h name s' = table_get Handles h name s)"
    using wlc_handle_create_cases [OF inv w(1)] by auto
next
  fix s h h' v
  assume inv: "handles_inv E a name s"
  have z: "table_get Handles 0 name s = None" by (simp add: table_get_def)
  show "handles_inv E a name (wlc_handle_release E h s)"
    "table_get Handles h name (wlc_handle_release E h s) = None"
    "table_get Handles h' name (wlc_handle_release E h s) = Some v \<Longrightarrow> table_get Handles h' name s = Some v"
    using table_release [OF inv, of h Handles] inv z by (cases "h = 0"; simp add: wlc_handle_release_def)+
qed

interpretation resources: handle_store "handles_inv E a name" "\<lambda>r s. r \<noteq> 0 \<and> st_listener s r = None"
  "wlc_resource_create_from E a" "\<lambda>h. convert_from_wlc_resource h name" "wlc_resource_release E" for E a name
proof (unfold_locales, unfold table_get_simps)
  fix r s h s'
  assume inv: "handles_inv E a name s" and r: "r \<noteq> 0 \<and> st_listener s r = None"
    and run: "wlc_resource_create_from E a r s = (h, s')" and "h \<noteq> 0"
  then obtain i g t where *: "h = i + 1" "handle_create E Resources a s = (Some (i, g), t)"
    "s' = res_attach i r (handle_set Resources i \<lparr>h_public = i + 1, h_private = g + 1, h_source = a\<rparr> t)"
    "handles_inv E a name s'"
    using wlc_resource_create_from_cases [OF inv _ _ run] by auto
  then show "handles_inv E a name s' \<and> table_get Resources h name s = None \<and> table_get Resources h name s' \<noteq> None \<and>
      (\<forall>h'. h' \<noteq> h \<longrightarrow> table_get Resources h' name s' = table_get Resources h' name s)"
    using table_new [OF inv] by auto
next
  fix r s s'
  assume inv: "handles_inv E a name s" and r: "r \<noteq> 0 \<and> st_listener s r = None"
    and run: "wlc_resource_create_from E a r s = (0, s')"
  then show "handles_inv E a name s' \<and> (\<forall>h. table_get Resources h name s' = table_get Resources h name s)"
    using wlc_resource_create_from_cases [OF inv _ _ run] by auto
next
  fix s h h' v
  assume inv: "handles_inv E a name s"
  have z: "table_get Resources 0 name s = None" by (simp add: table_get_def)
  show "handles_inv E a name (wlc_resource_release E h s)"
    "table_get Resources h name (wlc_resource_release E h s) = None"
    "table_get Resources h' name (wlc_resource_release E h s) = Some v \<Longrightarrow> table_get Resources h' name s = Some v"
    using table_release [OF inv, of h Resources] inv z by (cases "h = 0"; simp add: wlc_resource_release_def)+
qed

section \<open>Properties\<close>

text \<open>An environment for the witnesses: a pool that hands out the number after the largest in use,
  callbacks that do nothing.\<close>

definition env_ref :: res_env where
  "env_ref = \<lparr>
     po_add = (\<lambda>p. if finite (p_used p)
       then let i = (if p_used p = {} then 0 else Suc (Max (p_used p)))
            in Some (i, p\<lparr>p_used := insert i (p_used p), p_buffer := 2000\<rparr>)
       else None),
     po_remove = (\<lambda>p i. p\<lparr>p_used := p_used p - {i}\<rparr>),
     po_indices = (\<lambda>p. sorted_list_of_set (p_used p)),
     heap_base = 1000,
     cb_constructor = (\<lambda>a h s. (True, s)),
     cb_destructor = (\<lambda>a h s. s),
     first_word = (\<lambda>i s. 3000),
     ext_wl_resource_create = (\<lambda>client iface version nid s. if nid = 0 then 0 else 500 + unat nid),
     ext_wl_resource_get_client = (\<lambda>r. 1)\<rparr>"

definition store_ref :: "store" where
  "store_ref = \<lparr>
     st_sources = [100 \<mapsto> \<lparr>s_name = ''view'', s_constructor = True, s_destructor = True,
                       s_pool = \<lparr>p_used = {}, p_buffer = 0, p_allocated = 0\<rparr>, s_items = Map.empty\<rparr>],
     st_pool = (\<lambda>k. \<lparr>p_used = {}, p_buffer = 0, p_allocated = 0\<rparr>),
     st_handle = (\<lambda>k i. None), st_wl = (\<lambda>i. 0), st_userdata = (\<lambda>i. 0),
     st_listener = (\<lambda>r. None), st_events = [], st_fault = False\<rparr>"

lemma env_ref_laws: "pool_laws env_ref" "callback_laws env_ref"
proof -
  have "finite A \<Longrightarrow> A \<noteq> {} \<Longrightarrow> Suc (Max A) \<notin> A" for A :: "nat set"
    by (metis Max_ge Suc_n_not_le_n)
  then show "pool_laws env_ref"
    by (auto simp: pool_laws_def env_ref_def buffer_ok_def Let_def split: if_splits)
  show "callback_laws env_ref" by (simp add: callback_laws_def env_ref_def)
qed

lemma store_ref_inv: "handles_inv env_ref 100 ''view'' store_ref"
  using env_ref_laws
  by (simp add: handles_inv_def store_ok_def store_ok_defs source_ok_def buffer_ok_def)
    (simp add: store_ref_def env_ref_def)



text \<open>Releasing any list of handles leaves none of them alive, however their destructors release
  further handles on the way, and brings no handle to life.\<close>

theorem wlc_handle_release_all_dead:
  assumes "handles_inv E a name s" "h \<in> set hs"
  shows "convert_from_wlc_handle h name (fold (wlc_handle_release E) hs s) = None"
  using assms by (rule handles.fold_release_dead)

theorem wlc_handle_release_all_dead_witness:
  "convert_from_wlc_handle 2 ''view'' (fold (wlc_handle_release env_ref) [1, 2, 3] store_ref) = None"
  by (rule wlc_handle_release_all_dead [OF store_ref_inv]) simp



text \<open>When wlc_resource_create fails, at whatever step, no conversion of any
  handle or resource has changed, the client is told it is out of memory, and the wayland resource, if
  it was already made, is destroyed.\<close>

theorem wlc_resource_create_fails_cleanly:
  assumes "handles_inv E a name s"
    and "wlc_resource_create E a client iface version supported nid s = (0, s')"
    and "st_listener s (ext_wl_resource_create E client iface version nid s) = None"
  shows "(\<forall>h n. convert_from_wlc_handle h n s' = convert_from_wlc_handle h n s) \<and>
    (\<forall>r n. convert_from_wlc_resource r n s' = convert_from_wlc_resource r n s) \<and>
    Wl_client_post_no_memory client \<in> set (st_events s') \<and>
    (\<not> version > supported \<longrightarrow> ext_wl_resource_create E client iface version nid s \<noteq> 0 \<longrightarrow>
       Wl_resource_destroy (ext_wl_resource_create E client iface version nid s) \<in> set (st_events s'))"
proof -
  let ?r = "ext_wl_resource_create E client iface version nid s"
  have ev: "table_get k h n (res_emit x t) = table_get k h n t" for k h n x t
    by (simp add: table_get_def handle_get_def handle_is_def res_emit_def split: option.split)
  show ?thesis
  proof (cases "version > supported \<or> ?r = 0")
    case True
    then have "s' = res_emit (Wl_client_post_no_memory client) s \<or>
        s' = res_emit (Wl_client_post_no_memory client) (res_emit (Wl_client_post_no_memory client) s)"
      using assms(2) by (cases "version > supported")
        (auto simp: wlc_resource_create_def wl_resource_create_checked_def Let_def)
    moreover have "Wl_client_post_no_memory client \<in> set (st_events (res_emit (Wl_client_post_no_memory client) t))" for t
      by (simp add: res_emit_def)
    ultimately show ?thesis using True by (auto simp: table_get_simps ev)
  next
    case False
    obtain h t where run: "wlc_resource_create_from E a ?r s = (h, t)" by fastforce
    have t: "h = 0" "s' = res_emit (Wl_client_post_no_memory client) (res_emit (Wl_resource_destroy ?r) t)"
      using assms(2) False run
      by (auto simp: wlc_resource_create_def wl_resource_create_checked_def Let_def split: if_splits)
    from run t(1) have "\<forall>k h n. table_get k h n t = table_get k h n s"
      using wlc_resource_create_from_cases [OF assms(1) _ assms(3)] False by auto
    then show ?thesis using t(2) by (simp add: table_get_simps ev) (simp add: res_emit_def)
  qed
qed

theorem wlc_resource_create_fails_cleanly_witness:
  "\<exists>s'. wlc_resource_create env_ref 100 1 ''wl_surface'' 4 3 9 store_ref = (0, s') \<and>
     Wl_client_post_no_memory 1 \<in> set (st_events s')"
proof -
  obtain s' where run: "wlc_resource_create env_ref 100 1 ''wl_surface'' 4 3 9 store_ref = (0, s')"
    by (simp add: wlc_resource_create_def)
  have "st_listener store_ref (ext_wl_resource_create env_ref 1 ''wl_surface'' 4 9 store_ref) = None"
    by (simp add: store_ref_def)
  from wlc_resource_create_fails_cleanly [OF store_ref_inv run this] run show ?thesis by blast
qed


definition store_ref2 :: store where
  "store_ref2 = store_ref\<lparr>
     st_sources := [100 \<mapsto> \<lparr>s_name = ''region'', s_constructor = False, s_destructor = False,
                       s_pool = \<lparr>p_used = {0}, p_buffer = 2000, p_allocated = 0\<rparr>, s_items = [0 \<mapsto> 1]\<rparr>],
     st_pool := (\<lambda>k. \<lparr>p_used = (if k = Resources then {0} else {}), p_buffer = 2000, p_allocated = 0\<rparr>),
     st_handle := (\<lambda>k i. if k = Resources \<and> i = 0 then Some \<lparr>h_public = 1, h_private = 1, h_source = 100\<rparr> else None),
     st_wl := (\<lambda>i. if i = 0 then 7 else 0), st_listener := [7 \<mapsto> 0]\<rparr>"


text \<open>When the buffer of a source pool moves, a handle whose source lies in the old buffer is
  led to the same offset of the new one. But the range test uses the size of the new buffer and includes
  its end: a source behind the old buffer, at most the new size away, is moved too and from
  then on names memory that never held it.\<close>

theorem relocate_handle_moves_outsiders:
  assumes "old_size \<le> new_size" "dest \<noteq> start"
    and "start \<le> h_source g" "h_source g < start + old_size"
    and "start + old_size \<le> h_source h" "h_source h \<le> start + new_size"
  shows "relocate_handle dest start (start + new_size) g = g\<lparr>h_source := dest + (h_source g - start)\<rparr> \<and>
    h_source (relocate_handle dest start (start + new_size) h) \<noteq> h_source h"
  using assms by (auto simp: relocate_handle_def)

theorem relocate_handle_moves_outsiders_witness:
  "h_source (relocate_handle 9000 4000 (4000 + 64) \<lparr>h_public = 1, h_private = 1, h_source = 4064\<rparr>) \<noteq> 4064"
  using relocate_handle_moves_outsiders [of 32 64 9000 4000
      "\<lparr>h_public = 2, h_private = 1, h_source = 4000\<rparr>" "\<lparr>h_public = 1, h_private = 1, h_source = 4064\<rparr>"]
  by simp

end
