(* ===== verification/Chck.thy ===== *)
theory Chck
  imports Prelude Complex_Main
begin

text \<open>
  The libraries the compositor core is written over, as parameters: \<open>chck_iter_pool\<close> (an
  ordered array), the integer helpers of chck/math, pixman regions, and the rounding of C's
  \<open>float\<close> and \<open>double\<close>. None of their sources is in the repository. Each is a record of
  operations and a predicate stating what the code relies on; the reference instances at the end
  satisfy the predicates and serve the witnesses.

  The content of an iter pool is a list. Reading it (the for-each macros, get, count) is reading the
  list; an operation that can fail for want of memory returns \<open>None\<close>. A loop over a pool that
  removes the entry it looks at and stops is \<open>pool_remove_first\<close>.
\<close>

section \<open>Ordered pools\<close>

record 'a pool_ops =
  push_back :: "'a list \<Rightarrow> 'a \<Rightarrow> 'a list option"
  push_front :: "'a list \<Rightarrow> 'a \<Rightarrow> 'a list option"
  insert_at :: "'a list \<Rightarrow> nat \<Rightarrow> 'a \<Rightarrow> 'a list option"
  remove_at :: "'a list \<Rightarrow> nat \<Rightarrow> 'a list"
  set_c_array :: "'a list \<Rightarrow> 'a list \<Rightarrow> 'a list option"

definition pool_ops_ok :: "'a pool_ops \<Rightarrow> bool" where
  "pool_ops_ok P \<longleftrightarrow>
     (\<forall>xs x ys. push_back P xs x = Some ys \<longrightarrow> ys = xs @ [x]) \<and>
     (\<forall>xs x ys. push_front P xs x = Some ys \<longrightarrow> ys = x # xs) \<and>
     (\<forall>xs i x ys. insert_at P xs i x = Some ys \<longrightarrow> i \<le> length xs \<longrightarrow> ys = take i xs @ x # drop i xs) \<and>
     (\<forall>xs i. i < length xs \<longrightarrow> remove_at P xs i = take i xs @ drop (Suc i) xs) \<and>
     (\<forall>xs ys zs. set_c_array P xs ys = Some zs \<longrightarrow> zs = ys)"

text \<open>A push that fails leaves the pool as it was; most callers ignore the result.\<close>

definition pool_push_back :: "'a pool_ops \<Rightarrow> 'a \<Rightarrow> 'a list \<Rightarrow> 'a list" where
  "pool_push_back P x xs = (case push_back P xs x of None \<Rightarrow> xs | Some ys \<Rightarrow> ys)"

definition pool_push_front :: "'a pool_ops \<Rightarrow> 'a \<Rightarrow> 'a list \<Rightarrow> 'a list" where
  "pool_push_front P x xs = (case push_front P xs x of None \<Rightarrow> xs | Some ys \<Rightarrow> ys)"

fun index_of :: "'a \<Rightarrow> 'a list \<Rightarrow> nat option" where
  "index_of y [] = None"
| "index_of y (x # xs) = (if x = y then Some 0 else map_option Suc (index_of y xs))"

definition pool_remove_first :: "'a pool_ops \<Rightarrow> 'a \<Rightarrow> 'a list \<Rightarrow> 'a list" where
  "pool_remove_first P y xs = (case index_of y xs of None \<Rightarrow> xs | Some i \<Rightarrow> remove_at P xs i)"

lemma pool_ops_okD:
  assumes "pool_ops_ok P"
  shows "push_back P xs x = Some ys \<Longrightarrow> ys = xs @ [x]"
    and "push_front P xs x = Some ys \<Longrightarrow> ys = x # xs"
    and "insert_at P xs i x = Some ys \<Longrightarrow> i \<le> length xs \<Longrightarrow> ys = take i xs @ x # drop i xs"
    and "i < length xs \<Longrightarrow> remove_at P xs i = take i xs @ drop (Suc i) xs"
    and "set_c_array P xs ys = Some zs \<Longrightarrow> zs = ys"
  using assms by (simp_all add: pool_ops_ok_def)

lemma index_of_Some:
  "index_of y xs = Some i \<longleftrightarrow> i < length xs \<and> xs ! i = y \<and> y \<notin> set (take i xs)"
proof (induction xs arbitrary: i)
  case (Cons x xs)
  then show ?case by (cases i) auto
qed simp

lemma index_of_None: "index_of y xs = None \<longleftrightarrow> y \<notin> set xs"
  by (induction xs) auto

lemma index_of_SomeD:
  "index_of y xs = Some i \<Longrightarrow> xs = take i xs @ y # drop (Suc i) xs \<and> i < length xs \<and> y \<notin> set (take i xs)"
  by (auto simp: index_of_Some id_take_nth_drop)

lemma pool_remove_first_eq:
  assumes "pool_ops_ok P"
  shows "pool_remove_first P y xs = remove1 y xs"
proof (cases "index_of y xs")
  case None
  then have "y \<notin> set xs" using index_of_None by metis
  with None show ?thesis by (simp add: pool_remove_first_def remove1_idem)
next
  case (Some i)
  note i = index_of_SomeD [OF Some]
  have "remove1 y xs = take i xs @ drop (Suc i) xs"
    by (metis i remove1_append remove1.simps(2))
  then show ?thesis using Some i by (simp add: pool_remove_first_def pool_ops_okD(4) [OF assms])
qed

lemma pool_push_back_cases:
  "pool_ops_ok P \<Longrightarrow> pool_push_back P x xs = xs \<or> pool_push_back P x xs = xs @ [x]"
  by (auto simp: pool_push_back_def dest: pool_ops_okD split: option.split)

definition pool_ref :: "'a pool_ops" where
  "pool_ref = \<lparr>
     push_back = (\<lambda>xs x. Some (xs @ [x])), push_front = (\<lambda>xs x. Some (x # xs)),
     insert_at = (\<lambda>xs i x. Some (take i xs @ x # drop i xs)),
     remove_at = (\<lambda>xs i. take i xs @ drop (Suc i) xs), set_c_array = (\<lambda>xs ys. Some ys)\<rparr>"

lemma pool_ref_ok [simp]: "pool_ops_ok pool_ref"
  by (simp add: pool_ops_ok_def pool_ref_def)

section \<open>Integer helpers\<close>

record chck_math =
  m_clamp32 :: "int \<Rightarrow> int \<Rightarrow> int \<Rightarrow> int"
  m_clampu32 :: "u32 \<Rightarrow> u32 \<Rightarrow> u32 \<Rightarrow> u32"
  m_min32 :: "int \<Rightarrow> int \<Rightarrow> int"
  m_max32 :: "int \<Rightarrow> int \<Rightarrow> int"
  m_maxu32 :: "u32 \<Rightarrow> u32 \<Rightarrow> u32"
  m_mul_ofsz :: "nat \<Rightarrow> nat \<Rightarrow> nat option"
  m_clampf :: "real \<Rightarrow> real \<Rightarrow> real \<Rightarrow> real"

text \<open>\<open>m_mul_ofsz\<close> is \<open>None\<close> when the product overflows \<open>size_t\<close>.\<close>

definition chck_math_ok :: "chck_math \<Rightarrow> bool" where
  "chck_math_ok M \<longleftrightarrow>
     (\<forall>v lo hi. lo \<le> hi \<longrightarrow> m_clamp32 M v lo hi = max lo (min v hi)) \<and>
     (\<forall>v lo hi. lo \<le> hi \<longrightarrow> m_clampu32 M v lo hi = max lo (min v hi)) \<and>
     (\<forall>a b. m_min32 M a b = min a b) \<and> (\<forall>a b. m_max32 M a b = max a b) \<and>
     (\<forall>a b. m_maxu32 M a b = max a b) \<and>
     (\<forall>a b. m_mul_ofsz M a b = (if a * b < 2 ^ 64 then Some (a * b) else None)) \<and>
     (\<forall>v lo hi. lo \<le> hi \<longrightarrow> m_clampf M v lo hi = max lo (min v hi))"

lemma chck_math_okD:
  assumes "chck_math_ok M"
  shows "lo \<le> hi \<Longrightarrow> m_clamp32 M v lo hi = max lo (min v hi)"
    and "ulo \<le> uhi \<Longrightarrow> m_clampu32 M u ulo uhi = max ulo (min u uhi)"
    and "m_min32 M a b = min a b" and "m_max32 M a b = max a b"
    and "m_maxu32 M ua ub = max ua ub"
    and "m_mul_ofsz M na nb = (if na * nb < 2 ^ 64 then Some (na * nb) else None)"
    and "rlo \<le> rhi \<Longrightarrow> m_clampf M rv rlo rhi = max rlo (min rv rhi)"
  using assms by (simp_all add: chck_math_ok_def)

definition math_ref :: chck_math where
  "math_ref = \<lparr>
     m_clamp32 = (\<lambda>v lo hi. max lo (min v hi)), m_clampu32 = (\<lambda>v lo hi. max lo (min v hi)),
     m_min32 = min, m_max32 = max, m_maxu32 = max,
     m_mul_ofsz = (\<lambda>a b. if a * b < 2 ^ 64 then Some (a * b) else None),
     m_clampf = (\<lambda>v lo hi. max lo (min v hi))\<rparr>"

lemma math_ref_ok [simp]: "chck_math_ok math_ref"
  by (simp add: chck_math_ok_def math_ref_def)

section \<open>Floating point\<close>

text \<open>A C floating point operation is the exact operation followed by a rounding, one for
  \<open>float\<close> and one for \<open>double\<close>. A conversion to an integer type drops the fraction; outside the
  range of the type it is undefined in C, and wraps here.\<close>

record fp_ops =
  f32 :: "real \<Rightarrow> real"
  f64 :: "real \<Rightarrow> real"

definition trunc :: "real \<Rightarrow> int" where
  "trunc x = (if 0 \<le> x then \<lfloor>x\<rfloor> else \<lceil>x\<rceil>)"

definition real_to_i32 :: "real \<Rightarrow> int" where
  "real_to_i32 x = i32 (trunc x)"

definition real_to_u32 :: "real \<Rightarrow> u32" where
  "real_to_u32 x = word_of_int (trunc x)"

definition u32_real :: "u32 \<Rightarrow> real" where
  "u32_real w = of_int (uint w)"

text \<open>Rounding is monotone and keeps the integers that have at most 24 (53) bits, the signs included.\<close>

definition fp_ok :: "fp_ops \<Rightarrow> bool" where
  "fp_ok F \<longleftrightarrow>
     (\<forall>x y. x \<le> y \<longrightarrow> f32 F x \<le> f32 F y) \<and> (\<forall>x y. x \<le> y \<longrightarrow> f64 F x \<le> f64 F y) \<and>
     (\<forall>n. \<bar>n\<bar> \<le> 2 ^ 24 \<longrightarrow> f32 F (of_int n) = of_int n) \<and>
     (\<forall>n. \<bar>n\<bar> \<le> 2 ^ 53 \<longrightarrow> f64 F (of_int n) = of_int n)"

definition fp_ref :: fp_ops where "fp_ref = \<lparr>f32 = (\<lambda>x. x), f64 = (\<lambda>x. x)\<rparr>"

lemma fp_ref_ok [simp]: "fp_ok fp_ref"
  by (simp add: fp_ok_def fp_ref_def)

lemma trunc_of_int [simp]: "trunc (of_int n) = n"
  by (simp add: trunc_def)

section \<open>Regions\<close>

text \<open>A pixman region is seen through its extents; \<open>rg_data\<close> stands for its list of boxes.\<close>

record region =
  rg_x1 :: int
  rg_y1 :: int
  rg_x2 :: int
  rg_y2 :: int
  rg_data :: nat

record pixman_ops =
  px_init_rect :: "int \<Rightarrow> int \<Rightarrow> u32 \<Rightarrow> u32 \<Rightarrow> region"
  px_clear :: "region \<Rightarrow> region"
  px_union :: "region \<Rightarrow> region \<Rightarrow> region"
  px_union_rect :: "region \<Rightarrow> int \<Rightarrow> int \<Rightarrow> u32 \<Rightarrow> u32 \<Rightarrow> region"
  px_subtract_rect :: "region \<Rightarrow> int \<Rightarrow> int \<Rightarrow> u32 \<Rightarrow> u32 \<Rightarrow> region"
  px_intersect_rect :: "region \<Rightarrow> int \<Rightarrow> int \<Rightarrow> u32 \<Rightarrow> u32 \<Rightarrow> region"
  px_equal :: "region \<Rightarrow> region \<Rightarrow> bool"

text \<open>What pixman promises of extents: an intersection with a rectangle at the origin lies in that
  rectangle, and equal regions have equal extents.\<close>

definition pixman_ok :: "pixman_ops \<Rightarrow> bool" where
  "pixman_ok X \<longleftrightarrow>
     (\<forall>r w h. uint w < 2 ^ 31 \<longrightarrow> uint h < 2 ^ 31 \<longrightarrow>
        (let s = px_intersect_rect X r 0 0 w h in
         0 \<le> rg_x1 s \<and> rg_x1 s \<le> rg_x2 s \<and> rg_x2 s \<le> uint w \<and>
         0 \<le> rg_y1 s \<and> rg_y1 s \<le> rg_y2 s \<and> rg_y2 s \<le> uint h)) \<and>
     (\<forall>r s. px_equal X r s \<longrightarrow>
        rg_x1 r = rg_x1 s \<and> rg_y1 r = rg_y1 s \<and> rg_x2 r = rg_x2 s \<and> rg_y2 r = rg_y2 s)"

definition region_rect :: "int \<Rightarrow> int \<Rightarrow> int \<Rightarrow> int \<Rightarrow> region" where
  "region_rect x1 y1 x2 y2 = \<lparr>rg_x1 = x1, rg_y1 = y1, rg_x2 = x2, rg_y2 = y2, rg_data = 0\<rparr>"

definition region_zero :: region where "region_zero = region_rect 0 0 0 0"

text \<open>A reference that keeps only extents.\<close>

definition pixman_ref :: pixman_ops where
  "pixman_ref = \<lparr>
     px_init_rect = (\<lambda>x y w h. region_rect x y (x + uint w) (y + uint h)),
     px_clear = (\<lambda>r. region_zero),
     px_union = (\<lambda>r s. region_rect (min (rg_x1 r) (rg_x1 s)) (min (rg_y1 r) (rg_y1 s))
                                   (max (rg_x2 r) (rg_x2 s)) (max (rg_y2 r) (rg_y2 s))),
     px_union_rect = (\<lambda>r x y w h. region_rect (min (rg_x1 r) x) (min (rg_y1 r) y)
                                   (max (rg_x2 r) (x + uint w)) (max (rg_y2 r) (y + uint h))),
     px_subtract_rect = (\<lambda>r x y w h. r),
     px_intersect_rect = (\<lambda>r x y w h.
        if max (rg_x1 r) x < min (rg_x2 r) (x + uint w) \<and> max (rg_y1 r) y < min (rg_y2 r) (y + uint h)
        then region_rect (max (rg_x1 r) x) (max (rg_y1 r) y) (min (rg_x2 r) (x + uint w)) (min (rg_y2 r) (y + uint h))
        else region_rect 0 0 0 0),
     px_equal = (\<lambda>r s. rg_x1 r = rg_x1 s \<and> rg_y1 r = rg_y1 s \<and> rg_x2 r = rg_x2 s \<and> rg_y2 r = rg_y2 s)\<rparr>"

lemma pixman_ref_ok [simp]: "pixman_ok pixman_ref"
  by (auto simp: pixman_ok_def pixman_ref_def region_rect_def Let_def)

end
