(* ===== verification/World.thy ===== *)
theory World
  imports Chck Geometry Positioner
begin

text \<open>
  The state of the compositor and the environment its operations run in.

  \<open>world\<close> holds the live objects by number, as Resources.thy gives them out: handles (views and
  outputs) and resources (surfaces, buffers, callbacks, roles ...). \<open>view_of\<close>,
  \<open>surface_of\<close> and the others are \<open>convert_from_wlc_handle\<close> and
  \<open>convert_from_wlc_resource\<close>: \<open>None\<close> for 0, for a number that is not live, and for an object of
  another type. A pointer of the code to an object is its number here; the number 0 is NULL. An
  \<open>upd_\<close> function writes through such a pointer.

  Everything the code sends out (wayland events, renderer and backend calls, timers) is appended
  to \<open>w_trace\<close>, in order. What C leaves undefined, or what stops the process, is recorded in
  \<open>w_faults\<close>: a theorem about a run that adds no fault is a theorem about a defined run.

  The environment \<open>env\<close> holds the parameters: the libraries of Chck.thy, the callbacks of the author of
  the compositor (\<open>struct wlc_interface\<close>: \<open>None\<close> is a callback that is not set, and one that is set
  may change the world by calling the public functions), the listeners of the system signals, the
  renderer and context behind their function pointers, and libwayland. The model is of a build
  without \<open>ENABLE_XWAYLAND\<close>, whose window functions are the empty ones of xwm.h.
\<close>

section \<open>Objects\<close>

datatype wlc_connector_type =
    WLC_CONNECTOR_WLC | WLC_CONNECTOR_UNKNOWN | WLC_CONNECTOR_VGA | WLC_CONNECTOR_DVII
  | WLC_CONNECTOR_DVID | WLC_CONNECTOR_DVIA | WLC_CONNECTOR_COMPOSITE | WLC_CONNECTOR_SVIDEO
  | WLC_CONNECTOR_LVDS | WLC_CONNECTOR_COMPONENT | WLC_CONNECTOR_DIN | WLC_CONNECTOR_DP
  | WLC_CONNECTOR_HDMIA | WLC_CONNECTOR_HDMIB | WLC_CONNECTOR_TV | WLC_CONNECTOR_eDP
  | WLC_CONNECTOR_VIRTUAL | WLC_CONNECTOR_DSI

record wlc_output_mode =
  md_refresh :: int
  md_width :: int
  md_height :: int
  md_flags :: u32

record wlc_output_information =
  in_modes :: "wlc_output_mode list"
  in_name :: "string option"
  in_make :: "string option"
  in_model :: "string option"
  in_x :: int
  in_y :: int
  in_physical_width :: int
  in_physical_height :: int
  in_subpixel :: int
  in_connector_id :: u32
  in_crtc_id :: u32
  in_transform :: int
  in_connector :: wlc_connector_type

text \<open>The backend surface, with the function pointers of its api the output looks at.\<close>

record wlc_backend_surface =
  bs_display :: nat
  bs_window :: nat
  bs_api_sleep :: bool
  bs_api_set_gamma :: bool
  bs_api_get_gamma_size :: bool

record wlc_output =
  o_resources :: "nat list"
  o_mode :: wlc_size
  o_resolution :: wlc_size
  o_virtual :: wlc_size
  o_information :: wlc_output_information
  o_bsurface :: wlc_backend_surface
  o_surfaces :: "nat list"
  o_views :: "nat list"
  o_mutable :: "nat list"
  o_callbacks :: "nat list"
  o_visible :: "nat list"
  o_blit :: "bool list option"
  o_scale :: u32
  o_timer_idle :: bool
  o_wl_output :: nat
  o_task_bsurface :: wlc_backend_surface
  o_task_terminate :: bool
  o_task_sleep :: bool
  o_ims :: real
  o_frame_time :: u32
  o_pending :: bool
  o_scheduled :: bool
  o_activity :: bool
  o_sleeping :: bool
  o_background_visible :: bool
  o_created :: bool
  o_active_mode :: u32
  o_active_mask :: u32

record wlc_view_state =
  vs_geometry :: wlc_geometry
  vs_edges :: u32
  vs_state :: u32

record wlc_view =
  v_pending :: wlc_view_state
  v_commit :: wlc_view_state
  v_surface_pending :: wlc_geometry
  v_surface_commit :: wlc_geometry
  v_wl_state :: "u32 list"
  v_parent :: nat
  v_surface :: nat
  v_shell_surface :: nat
  v_xdg_surface :: nat
  v_xdg_toplevel :: nat
  v_xdg_popup :: nat
  v_custom_surface :: nat
  v_app_id :: "string option"
  v_title :: "string option"
  v_instance :: "string option"
  v_class :: "string option"
  v_pid :: int
  v_minimized :: bool
  v_type :: u32
  v_mask :: u32
  v_created :: bool
  v_fullscreen_mode :: u32

record wlc_surface_state =
  ss_frame_cbs :: "nat list"
  ss_opaque :: region
  ss_input :: region
  ss_damage :: region
  ss_offset :: wlc_point
  ss_subsurface_position :: wlc_point
  ss_buffer :: nat
  ss_scale :: int
  ss_transform :: int
  ss_attached :: bool

text \<open>The fields the renderer manages (textures, images, format) are left to it.\<close>

record wlc_surface =
  sf_pending :: wlc_surface_state
  sf_commit :: wlc_surface_state
  sf_size :: wlc_size
  sf_transform_w :: real
  sf_transform_h :: real
  sf_parent :: nat
  sf_subsurface_list :: "nat list"
  sf_view :: nat
  sf_parent_view :: nat
  sf_output :: nat
  sf_synchronized :: bool
  sf_parent_synchronized :: bool

record wlc_buffer =
  bf_size :: wlc_size
  bf_surface :: nat
  bf_references :: u16
  bf_y_inverted :: bool

text \<open>A source of clipboard data; its functions are those of a client or those of \<open>wlc_set_selection\<close>.\<close>

datatype data_source_impl = Impl_null | Impl_client | Impl_custom

record wlc_data_source =
  ds_types :: "string option list"
  ds_prf_dnd_action :: u32
  ds_dst_dnd_actions :: u32
  ds_src_dnd_actions :: u32
  ds_impl :: data_source_impl

text \<open>A popup keeps a pointer to the positioner object it was created with, here the number of its
  resource.\<close>

datatype res_data =
    R_surface wlc_surface
  | R_buffer wlc_buffer
  | R_callback
  | R_region region
  | R_shell_surface
  | R_xdg_surface nat
  | R_xdg_toplevel
  | R_xdg_popup "nat option"
  | R_xdg_positioner wlc_xdg_positioner
  | R_custom_surface
  | R_subsurface
  | R_output
  | R_pointer
  | R_keyboard
  | R_touch
  | R_data_source wlc_data_source
  | R_data_device
  | R_data_offer

datatype res_kind =
    K_surface | K_buffer | K_callback | K_region | K_shell_surface | K_xdg_surface
  | K_xdg_toplevel | K_xdg_popup | K_xdg_positioner | K_custom_surface | K_subsurface | K_output
  | K_pointer | K_keyboard | K_touch | K_data_source | K_data_device | K_data_offer

fun res_name :: "res_data \<Rightarrow> res_kind" where
  "res_name (R_surface _) = K_surface"
| "res_name (R_buffer _) = K_buffer"
| "res_name R_callback = K_callback"
| "res_name (R_region _) = K_region"
| "res_name R_shell_surface = K_shell_surface"
| "res_name (R_xdg_surface _) = K_xdg_surface"
| "res_name R_xdg_toplevel = K_xdg_toplevel"
| "res_name (R_xdg_popup _) = K_xdg_popup"
| "res_name (R_xdg_positioner _) = K_xdg_positioner"
| "res_name R_custom_surface = K_custom_surface"
| "res_name R_subsurface = K_subsurface"
| "res_name R_output = K_output"
| "res_name R_pointer = K_pointer"
| "res_name R_keyboard = K_keyboard"
| "res_name R_touch = K_touch"
| "res_name (R_data_source _) = K_data_source"
| "res_name R_data_device = K_data_device"
| "res_name R_data_offer = K_data_offer"

record res_entry =
  re_data :: res_data
  re_wl :: nat

text \<open>The untyped pointer libwayland keeps with a resource: to one of the static structures, or an object. A
  number is a handle or a resource cast to a pointer.\<close>

datatype source_ref = No_source | Client_source nat | Custom_source nat

datatype user_data =
    UD_null | UD_compositor | UD_shell | UD_xdg_shell | UD_seat | UD_pointer | UD_keyboard | UD_touch | UD_manager
  | UD_number nat | UD_positioner nat | UD_source source_ref | UD_foreign

section \<open>What goes out\<close>

datatype wlc_touch_type = WLC_TOUCH_DOWN | WLC_TOUCH_UP | WLC_TOUCH_MOTION | WLC_TOUCH_FRAME | WLC_TOUCH_CANCEL

text \<open>What the seat sends: to pointers and keyboards, and to touch and data devices. Two renderer calls of the
  author are among the first.\<close>

datatype input_out =
    Keyboard_timer int
  | Send_keyboard_key nat u32 u32 u32 bool
  | Send_keyboard_enter nat u32 nat "u32 list"
  | Send_keyboard_leave nat u32 nat
  | Send_keyboard_modifiers nat u32 u32 u32 u32 u32
  | Send_keyboard_keymap nat u32 int u32
  | Send_keyboard_repeat_info nat u32 u32
  | Device_leds nat bool bool bool
  | Send_pointer_enter nat u32 nat int int
  | Send_pointer_leave nat u32 nat
  | Send_pointer_button nat u32 u32 u32 bool
  | Send_pointer_axis nat u32 bool int
  | Send_pointer_motion nat u32 int int
  | Rd_pointer_paint nat wlc_point
  | Rd_write_pixels nat nat wlc_geometry
  | Rd_read_pixels nat nat wlc_geometry

datatype device_out =
    Send_touch_down nat u32 u32 nat int int int
  | Send_touch_up nat u32 u32 int
  | Send_touch_motion nat u32 int int int
  | Send_touch_frame nat
  | Send_touch_cancel nat
  | Send_source_send nat string int
  | Send_source_target nat "string option"
  | Send_source_cancelled nat
  | Send_source_dnd_finished nat
  | Send_device_data_offer nat nat
  | Send_device_selection nat nat
  | Send_offer nat "string option"
  | Close_fd int
  | Custom_send nat string int
  | Send_seat_capabilities nat u32
  | Send_seat_name nat string

datatype event =
    Timer_update nat int
  | Timer_remove nat
  | Send_output_geometry nat nat
  | Send_output_scale nat u32
  | Send_output_mode nat u32 u32 u32 int
  | Send_output_done nat
  | Rd_resolution nat wlc_size wlc_size u32
  | Rd_surface_destroy nat nat
  | Rd_surface_attach nat nat nat
  | Timer_fired nat
  | Rd_view_paint nat nat
  | Rd_surface_paint nat nat wlc_geometry
  | Rd_flush_fakefb nat
  | Rd_clear nat
  | Rd_release nat
  | Ctx_swap nat
  | Ctx_bind_to_wl_display nat
  | Ctx_release nat
  | Bs_release nat
  | Bs_sleep nat bool
  | Bs_set_gamma nat u16
  | Send_callback_done nat u32
  | Send_toplevel_configure nat u32 u32 "u32 list"
  | Send_popup_configure nat int int u32 u32
  | Send_shell_surface_configure nat u32 u32 u32
  | Send_xdg_surface_configure nat u32
  | Send_toplevel_close nat
  | Send_popup_done nat
  | Send_shell_surface_popup_done nat
  | Post_error nat u32
  | Post_no_memory nat
  | Queue_buffer_release nat
  | Wl_destroy nat
  | Global_destroy nat
  | Fd_activate
  | Fd_deactivate
  | Fd_activate_vt int
  | Loop_add_idle
  | Source_remove
  | Backend_update_outputs
  | Compositor_destroyed
  | Global_create string
  | Backend_release
  | Input_out input_out
  | Device_out device_out

datatype fault = Null_pointer | Wild_pointer | Assertion | Abort | Out_of_fuel | Division_by_zero | Uninitialised
  | Signed_overflow

section \<open>The compositor\<close>

datatype tty_mode = IDLE | ACTIVATING | DEACTIVATING

record wlc_compositor =
  c_outputs :: "nat list"
  c_views :: "nat list"
  c_surfaces :: "nat list"
  c_active_output :: nat
  c_tty :: tty_mode
  c_vt :: int
  c_idle :: bool
  c_terminating :: bool
  c_ready :: bool

section \<open>The seat\<close>

record wlc_modifiers =
  mo_leds :: u32
  mo_mods :: u32

record wlc_keymap =
  km_format :: u32
  km_size :: u32
  km_fd :: int
  km_mods :: "u32 list"
  km_leds :: "u32 list"

text \<open>The state of libxkbcommon is an opaque number; \<open>kb_keymap\<close> says whether the pointer to the keymap of
  the seat is set, \<open>kb_sym\<close> whether the second state was made.\<close>

record wlc_keyboard =
  kb_keymap :: bool
  kb_resources :: "nat list"
  kb_keys :: "u32 list"
  kb_focused_resources :: "nat list"
  kb_focused_view :: nat
  kb_depressed :: u32
  kb_latched :: u32
  kb_locked :: u32
  kb_group :: u32
  kb_modifiers :: wlc_modifiers
  kb_repeat_delay :: u32
  kb_repeat_rate :: u32
  kb_xkb :: nat
  kb_sym :: bool
  kb_repeat :: bool
  kb_repeating :: bool
  kb_focused :: bool

record wlc_pointer =
  pt_resources :: "nat list"
  pt_x :: real
  pt_y :: real
  pt_tip :: wlc_point
  pt_surface :: nat
  pt_focused_resources :: "nat list"
  pt_focused_surface :: nat
  pt_focused_offset :: wlc_point
  pt_focused_view :: nat

record wlc_touch =
  tc_resources :: "nat list"
  tc_focus :: nat

record wlc_data_device_manager =
  dm_devices :: "nat list"
  dm_source :: source_ref

record wlc_seat =
  se_manager :: wlc_data_device_manager
  se_keymap :: wlc_keymap
  se_keyboard :: wlc_keyboard
  se_pointer :: wlc_pointer
  se_touch :: wlc_touch
  se_customs :: "nat \<Rightarrow> wlc_data_source option"

record world =
  w_views :: "nat \<Rightarrow> wlc_view option"
  w_outputs :: "nat \<Rightarrow> wlc_output option"
  w_res :: "nat \<Rightarrow> res_entry option"
  w_udata :: "nat \<Rightarrow> user_data"
  w_comp :: wlc_compositor
  w_seat :: wlc_seat
  w_active :: bool
  w_serial :: u32
  w_rendering_output :: nat
  w_trace :: "event list"
  w_faults :: "fault list"

section \<open>The environment\<close>

datatype wlc_output_event =
    WLC_OUTPUT_EVENT_ADD wlc_backend_surface wlc_output_information
  | WLC_OUTPUT_EVENT_REMOVE nat
  | WLC_OUTPUT_EVENT_ACTIVE nat
  | WLC_OUTPUT_EVENT_UPDATE
  | WLC_OUTPUT_EVENT_SURFACE nat

datatype wlc_focus_event = WLC_FOCUS_EVENT_VIEW nat | WLC_FOCUS_EVENT_OUTPUT nat

datatype surface_role = WLC_SHELL_SURFACE | WLC_XDG_SURFACE | WLC_XDG_TOPLEVEL_SURFACE | WLC_CUSTOM_SURFACE

datatype wlc_surface_event =
    WLC_SURFACE_EVENT_CREATED nat
  | WLC_SURFACE_EVENT_DESTROYED nat
  | WLC_SURFACE_EVENT_REQUEST_VIEW_ATTACH nat surface_role nat
  | WLC_SURFACE_EVENT_REQUEST_VIEW_POPUP nat nat nat

record wlc_interface =
  if_output_created :: "(nat \<Rightarrow> world \<Rightarrow> bool \<times> world) option"
  if_output_destroyed :: "(nat \<Rightarrow> world \<Rightarrow> world) option"
  if_output_focus :: "(nat \<Rightarrow> bool \<Rightarrow> world \<Rightarrow> world) option"
  if_output_resolution :: "(nat \<Rightarrow> wlc_size \<Rightarrow> wlc_size \<Rightarrow> world \<Rightarrow> world) option"
  if_output_context_created :: "(nat \<Rightarrow> world \<Rightarrow> world) option"
  if_output_context_destroyed :: "(nat \<Rightarrow> world \<Rightarrow> world) option"
  if_output_render_pre :: "(nat \<Rightarrow> world \<Rightarrow> world) option"
  if_output_render_post :: "(nat \<Rightarrow> world \<Rightarrow> world) option"
  if_view_created :: "(nat \<Rightarrow> world \<Rightarrow> bool \<times> world) option"
  if_view_destroyed :: "(nat \<Rightarrow> world \<Rightarrow> world) option"
  if_view_move_to_output :: "(nat \<Rightarrow> nat \<Rightarrow> nat \<Rightarrow> world \<Rightarrow> world) option"
  if_view_request_geometry :: "(nat \<Rightarrow> wlc_geometry \<Rightarrow> world \<Rightarrow> world) option"
  if_view_request_state :: "(nat \<Rightarrow> u32 \<Rightarrow> bool \<Rightarrow> world \<Rightarrow> world) option"
  if_view_request_minimize :: "(nat \<Rightarrow> bool \<Rightarrow> world \<Rightarrow> bool \<times> world) option"
  if_view_render_pre :: "(nat \<Rightarrow> world \<Rightarrow> world) option"
  if_view_render_post :: "(nat \<Rightarrow> world \<Rightarrow> world) option"
  if_view_properties_updated :: "(nat \<Rightarrow> u32 \<Rightarrow> world \<Rightarrow> world) option"
  if_view_focus :: "(nat \<Rightarrow> bool \<Rightarrow> world \<Rightarrow> world) option"
  if_view_request_move :: "(nat \<Rightarrow> wlc_point \<Rightarrow> world \<Rightarrow> world) option"
  if_view_request_resize :: "(nat \<Rightarrow> u32 \<Rightarrow> wlc_point \<Rightarrow> world \<Rightarrow> world) option"
  if_keyboard_key :: "(nat \<times> u32 \<times> wlc_modifiers \<times> u32 \<times> bool \<Rightarrow> world \<Rightarrow> bool \<times> world) option"
  if_pointer_button :: "(nat \<times> u32 \<times> wlc_modifiers \<times> u32 \<times> bool \<times> wlc_point \<Rightarrow> world \<Rightarrow> bool \<times> world) option"
  if_pointer_scroll :: "(nat \<times> u32 \<times> wlc_modifiers \<times> u8 \<times> real \<times> real \<Rightarrow> world \<Rightarrow> bool \<times> world) option"
  if_pointer_motion_v2 :: "(nat \<times> u32 \<times> real \<times> real \<Rightarrow> world \<Rightarrow> bool \<times> world) option"
  if_pointer_motion :: "(nat \<times> u32 \<times> wlc_point \<Rightarrow> world \<Rightarrow> bool \<times> world) option"
  if_touch :: "(nat \<times> u32 \<times> wlc_modifiers \<times> wlc_touch_type \<times> int \<times> wlc_point \<Rightarrow> world \<Rightarrow> bool \<times> world) option"
  if_compositor_ready :: "(world \<Rightarrow> world) option"
  if_compositor_terminate :: "(world \<Rightarrow> world) option"
  if_input_created :: "(nat \<Rightarrow> world \<Rightarrow> bool \<times> world) option"
  if_input_destroyed :: "(nat \<Rightarrow> world \<Rightarrow> world) option"

text \<open>What the input backend reports. The functions that scale an absolute position to the output are its
  own; \<open>None\<close> is a touch without position functions.\<close>

datatype wlc_input_event =
    WLC_INPUT_EVENT_MOTION u32 real real
  | WLC_INPUT_EVENT_MOTION_ABSOLUTE u32 "u32 \<Rightarrow> real" "u32 \<Rightarrow> real"
  | WLC_INPUT_EVENT_SCROLL u32 u8 real real
  | WLC_INPUT_EVENT_BUTTON u32 u32 bool
  | WLC_INPUT_EVENT_KEY u32 nat u32 bool
  | WLC_INPUT_EVENT_TOUCH u32 "((u32 \<Rightarrow> real) \<times> (u32 \<Rightarrow> real)) option" wlc_touch_type int

text \<open>libxkbcommon, over an opaque state: what a key does to it, the modifiers and the layout it serializes,
  the leds, and the keysym and the character of a key under a mask of pressed modifiers.\<close>

record xkb_ops =
  xkb_update_key :: "nat \<Rightarrow> u32 \<Rightarrow> bool \<Rightarrow> nat"
  xkb_depressed :: "nat \<Rightarrow> u32"
  xkb_latched :: "nat \<Rightarrow> u32"
  xkb_locked :: "nat \<Rightarrow> u32"
  xkb_layout :: "nat \<Rightarrow> u32"
  xkb_led_active :: "nat \<Rightarrow> u32 \<Rightarrow> bool"
  xkb_key_repeats :: "u32 \<Rightarrow> bool"
  xkb_one_sym :: "u32 \<Rightarrow> u32 \<Rightarrow> u32"
  xkb_utf32 :: "u32 \<Rightarrow> u32 \<Rightarrow> u32"
  xkb_f1 :: u32
  xkb_f12 :: u32

record env =
  hp :: "nat pool_ops"
  sp :: "u32 pool_ops"
  mth :: chck_math
  fpo :: fp_ops
  pxo :: pixman_ops
  iface :: wlc_interface
  sig_output :: "wlc_output_event \<Rightarrow> world \<Rightarrow> world"
  sig_focus :: "wlc_focus_event \<Rightarrow> world \<Rightarrow> world"
  sig_surface :: "wlc_surface_event \<Rightarrow> world \<Rightarrow> world"
  sig_render :: "nat \<Rightarrow> world \<Rightarrow> world"
  release_resource :: "nat \<Rightarrow> world \<Rightarrow> world"
  release_handle :: "nat \<Rightarrow> world \<Rightarrow> world"
  release_source :: "nat \<Rightarrow> res_kind \<Rightarrow> world \<Rightarrow> world"
  ext_client_destroy :: "nat \<Rightarrow> world \<Rightarrow> world"
  ext_client :: "nat \<Rightarrow> nat"
  ext_version :: "nat \<Rightarrow> u32"
  ext_render_attach :: "nat \<Rightarrow> nat \<Rightarrow> nat \<Rightarrow> world \<Rightarrow> bool \<times> wlc_size \<times> bool"
  ext_context_create :: "nat \<Rightarrow> world \<Rightarrow> bool"
  ext_render_create :: "nat \<Rightarrow> world \<Rightarrow> bool"
  ext_gamma_size :: "nat \<Rightarrow> u16"
  ext_cstrneq :: "string option \<Rightarrow> string \<Rightarrow> nat \<Rightarrow> bool"
  ext_set_cstr :: "string \<Rightarrow> nat \<Rightarrow> string option option"
  ext_cstreq :: "string option \<Rightarrow> string \<Rightarrow> bool"
  ext_set_cstr_all :: "string \<Rightarrow> string option option"
  ext_client_pid :: "nat \<Rightarrow> int"
  ext_resource_from :: "nat \<Rightarrow> nat \<Rightarrow> world \<Rightarrow> nat \<times> world"
  ext_new_resource :: "world \<Rightarrow> nat option"
  ext_new_handle :: "world \<Rightarrow> nat option"
  ext_new_timer :: "nat \<Rightarrow> bool"
  ext_new_global :: "nat \<Rightarrow> nat"
  ext_calloc :: "nat \<Rightarrow> bool"
  ext_wl_create :: "nat \<Rightarrow> u32 \<Rightarrow> world \<Rightarrow> nat"
  sig_input :: "wlc_input_event \<Rightarrow> world \<Rightarrow> world"
  sig_activate :: "bool \<Rightarrow> int \<Rightarrow> world \<Rightarrow> world"
  sig_selection :: "source_ref \<Rightarrow> world \<Rightarrow> world"
  backend_update_outputs :: "world \<Rightarrow> world"
  xkb :: xkb_ops
  ext_pool_add :: "nat list \<Rightarrow> nat \<Rightarrow> nat list"
  ext_time :: "world \<Rightarrow> u32"
  ext_fixed :: "real \<Rightarrow> int"
  ext_client_of_id :: "nat \<Rightarrow> nat"
  ext_context_live :: "nat \<Rightarrow> world \<Rightarrow> bool"
  ext_tty_vt :: int
  ext_new_custom :: "world \<Rightarrow> nat"
  ext_address :: "user_data \<Rightarrow> nat"
  wl_mode_current :: u32
  wl_mode_preferred :: u32
  wl_toplevel_states :: "u32 \<times> u32 \<times> u32 \<times> u32"
  wl_since_scale :: u32
  wl_since_done :: u32
  wl_transform_flipped_270 :: int
  wl_err_invalid_scale :: u32
  wl_err_invalid_transform :: u32
  wl_err_bad_surface :: u32
  fuel :: nat

section \<open>Access\<close>

definition view_of :: "world \<Rightarrow> nat \<Rightarrow> wlc_view option" where
  "view_of w h = (if h = 0 then None else w_views w h)"

definition output_of :: "world \<Rightarrow> nat \<Rightarrow> wlc_output option" where
  "output_of w h = (if h = 0 then None else w_outputs w h)"

definition surface_of :: "world \<Rightarrow> nat \<Rightarrow> wlc_surface option" where
  "surface_of w r =
     (if r = 0 then None
      else case w_res w r of None \<Rightarrow> None
           | Some e \<Rightarrow> (case re_data e of R_surface s \<Rightarrow> Some s | _ \<Rightarrow> None))"

definition buffer_of :: "world \<Rightarrow> nat \<Rightarrow> wlc_buffer option" where
  "buffer_of w r =
     (if r = 0 then None
      else case w_res w r of None \<Rightarrow> None
           | Some e \<Rightarrow> (case re_data e of R_buffer b \<Rightarrow> Some b | _ \<Rightarrow> None))"

definition positioner_of :: "world \<Rightarrow> nat \<Rightarrow> wlc_xdg_positioner option" where
  "positioner_of w r =
     (if r = 0 then None
      else case w_res w r of None \<Rightarrow> None
           | Some e \<Rightarrow> (case re_data e of R_xdg_positioner p \<Rightarrow> Some p | _ \<Rightarrow> None))"

definition region_of :: "world \<Rightarrow> nat \<Rightarrow> region option" where
  "region_of w r =
     (if r = 0 then None
      else case w_res w r of None \<Rightarrow> None
           | Some e \<Rightarrow> (case re_data e of R_region g \<Rightarrow> Some g | _ \<Rightarrow> None))"

text \<open>\<open>wl_resource_from_wlc_resource\<close>: 0 when the number is not live or names a resource of another type.\<close>

definition wl_of :: "world \<Rightarrow> nat \<Rightarrow> res_kind \<Rightarrow> nat" where
  "wl_of w r k =
     (if r = 0 then 0
      else case w_res w r of None \<Rightarrow> 0
           | Some e \<Rightarrow> if res_name (re_data e) = k then re_wl e else 0)"

definition upd_view :: "nat \<Rightarrow> (wlc_view \<Rightarrow> wlc_view) \<Rightarrow> world \<Rightarrow> world" where
  "upd_view h f w = w\<lparr>w_views := (w_views w)(h := map_option f (w_views w h))\<rparr>"

definition upd_output :: "nat \<Rightarrow> (wlc_output \<Rightarrow> wlc_output) \<Rightarrow> world \<Rightarrow> world" where
  "upd_output h f w = w\<lparr>w_outputs := (w_outputs w)(h := map_option f (w_outputs w h))\<rparr>"

fun map_surface :: "(wlc_surface \<Rightarrow> wlc_surface) \<Rightarrow> res_entry \<Rightarrow> res_entry" where
  "map_surface f e = (case re_data e of R_surface s \<Rightarrow> e\<lparr>re_data := R_surface (f s)\<rparr> | _ \<Rightarrow> e)"

fun map_buffer :: "(wlc_buffer \<Rightarrow> wlc_buffer) \<Rightarrow> res_entry \<Rightarrow> res_entry" where
  "map_buffer f e = (case re_data e of R_buffer b \<Rightarrow> e\<lparr>re_data := R_buffer (f b)\<rparr> | _ \<Rightarrow> e)"

definition upd_surface :: "nat \<Rightarrow> (wlc_surface \<Rightarrow> wlc_surface) \<Rightarrow> world \<Rightarrow> world" where
  "upd_surface r f w = w\<lparr>w_res := (w_res w)(r := map_option (map_surface f) (w_res w r))\<rparr>"

definition upd_buffer :: "nat \<Rightarrow> (wlc_buffer \<Rightarrow> wlc_buffer) \<Rightarrow> world \<Rightarrow> world" where
  "upd_buffer r f w = w\<lparr>w_res := (w_res w)(r := map_option (map_buffer f) (w_res w r))\<rparr>"

definition upd_comp :: "(wlc_compositor \<Rightarrow> wlc_compositor) \<Rightarrow> world \<Rightarrow> world" where
  "upd_comp f w = w\<lparr>w_comp := f (w_comp w)\<rparr>"

definition upd_seat :: "(wlc_seat \<Rightarrow> wlc_seat) \<Rightarrow> world \<Rightarrow> world" where
  "upd_seat f w = w\<lparr>w_seat := f (w_seat w)\<rparr>"

definition set_user_data :: "nat \<Rightarrow> user_data \<Rightarrow> world \<Rightarrow> world" where
  "set_user_data wl d w = w\<lparr>w_udata := (w_udata w)(wl := d)\<rparr>"

text \<open>\<open>(wlc_handle)wl_resource_get_user_data(resource)\<close>: a pointer that is no number in disguise is an address.\<close>

definition user_number :: "env \<Rightarrow> world \<Rightarrow> nat \<Rightarrow> nat" where
  "user_number E w wl = (case w_udata w wl of UD_null \<Rightarrow> 0 | UD_number n \<Rightarrow> n | d \<Rightarrow> ext_address E d)"

definition implement_resource :: "nat \<Rightarrow> user_data \<Rightarrow> world \<Rightarrow> world" where
  "implement_resource r d w =
     (if r = 0 then w else case w_res w r of None \<Rightarrow> w | Some e \<Rightarrow> set_user_data (re_wl e) d w)"

definition emit :: "event \<Rightarrow> world \<Rightarrow> world" where
  "emit e w = w\<lparr>w_trace := w_trace w @ [e]\<rparr>"

definition fail :: "fault \<Rightarrow> world \<Rightarrow> world" where
  "fail f w = w\<lparr>w_faults := w_faults w @ [f]\<rparr>"

text \<open>\<open>WLC_INTERFACE_EMIT\<close>: a callback that is not set is not called.\<close>

definition call0 :: "(world \<Rightarrow> world) option \<Rightarrow> world \<Rightarrow> world" where
  "call0 f w = (case f of None \<Rightarrow> w | Some f \<Rightarrow> f w)"

definition call1 :: "('a \<Rightarrow> world \<Rightarrow> world) option \<Rightarrow> 'a \<Rightarrow> world \<Rightarrow> world" where
  "call1 f a w = (case f of None \<Rightarrow> w | Some f \<Rightarrow> f a w)"

definition call2 :: "('a \<Rightarrow> 'b \<Rightarrow> world \<Rightarrow> world) option \<Rightarrow> 'a \<Rightarrow> 'b \<Rightarrow> world \<Rightarrow> world" where
  "call2 f a b w = (case f of None \<Rightarrow> w | Some f \<Rightarrow> f a b w)"

definition call3 ::
  "('a \<Rightarrow> 'b \<Rightarrow> 'c \<Rightarrow> world \<Rightarrow> world) option \<Rightarrow> 'a \<Rightarrow> 'b \<Rightarrow> 'c \<Rightarrow> world \<Rightarrow> world" where
  "call3 f a b c w = (case f of None \<Rightarrow> w | Some f \<Rightarrow> f a b c w)"

text \<open>\<open>WLC_INTERFACE_EMIT_EXCEPT(x, v, ...)\<close>: whether the callback is set and returned \<open>v\<close>.\<close>

definition call1_except :: "('a \<Rightarrow> world \<Rightarrow> bool \<times> world) option \<Rightarrow> bool \<Rightarrow> 'a \<Rightarrow> world \<Rightarrow> bool \<times> world" where
  "call1_except f v a w = (case f of None \<Rightarrow> (False, w) | Some f \<Rightarrow> let (r, w) = f a w in (r = v, w))"

definition call2_except ::
  "('a \<Rightarrow> 'b \<Rightarrow> world \<Rightarrow> bool \<times> world) option \<Rightarrow> bool \<Rightarrow> 'a \<Rightarrow> 'b \<Rightarrow> world \<Rightarrow> bool \<times> world" where
  "call2_except f v a b w = (case f of None \<Rightarrow> (False, w) | Some f \<Rightarrow> let (r, w) = f a b w in (r = v, w))"

section \<open>Read-after-write laws\<close>

lemma output_of_0 [simp]: "output_of w 0 = None"
  by (simp add: output_of_def)

lemma view_of_0 [simp]: "view_of w 0 = None"
  by (simp add: view_of_def)

lemma surface_of_0 [simp]: "surface_of w 0 = None"
  by (simp add: surface_of_def)

lemma buffer_of_0 [simp]: "buffer_of w 0 = None"
  by (simp add: buffer_of_def)

lemma wl_of_0 [simp]: "wl_of w 0 k = 0"
  by (simp add: wl_of_def)

lemma upd_view_fields [simp]:
  "w_outputs (upd_view h f w) = w_outputs w"
  "w_res (upd_view h f w) = w_res w"
  "w_udata (upd_view h f w) = w_udata w"
  "w_comp (upd_view h f w) = w_comp w"
  "w_active (upd_view h f w) = w_active w"
  "w_serial (upd_view h f w) = w_serial w"
  "w_rendering_output (upd_view h f w) = w_rendering_output w"
  "w_trace (upd_view h f w) = w_trace w"
  "w_faults (upd_view h f w) = w_faults w"
  by (simp_all add: upd_view_def)

lemma upd_view_objects [simp]:
  "output_of (upd_view h f w) r = output_of w r"
  "surface_of (upd_view h f w) r = surface_of w r"
  "buffer_of (upd_view h f w) r = buffer_of w r"
  "positioner_of (upd_view h f w) r = positioner_of w r"
  "region_of (upd_view h f w) r = region_of w r"
  "wl_of (upd_view h f w) r k = wl_of w r k"
  by (simp_all add: upd_view_def output_of_def surface_of_def buffer_of_def positioner_of_def region_of_def wl_of_def)

lemma view_of_upd_view [simp]:
  "view_of (upd_view h f w) r = (if r = h then map_option f (view_of w h) else view_of w r)"
  by (simp add: upd_view_def view_of_def)

lemma upd_output_fields [simp]:
  "w_views (upd_output h f w) = w_views w"
  "w_res (upd_output h f w) = w_res w"
  "w_udata (upd_output h f w) = w_udata w"
  "w_comp (upd_output h f w) = w_comp w"
  "w_active (upd_output h f w) = w_active w"
  "w_serial (upd_output h f w) = w_serial w"
  "w_rendering_output (upd_output h f w) = w_rendering_output w"
  "w_trace (upd_output h f w) = w_trace w"
  "w_faults (upd_output h f w) = w_faults w"
  by (simp_all add: upd_output_def)

lemma upd_output_objects [simp]:
  "view_of (upd_output h f w) r = view_of w r"
  "surface_of (upd_output h f w) r = surface_of w r"
  "buffer_of (upd_output h f w) r = buffer_of w r"
  "positioner_of (upd_output h f w) r = positioner_of w r"
  "region_of (upd_output h f w) r = region_of w r"
  "wl_of (upd_output h f w) r k = wl_of w r k"
  by (simp_all add: upd_output_def view_of_def surface_of_def buffer_of_def positioner_of_def region_of_def wl_of_def)

lemma output_of_upd_output [simp]:
  "output_of (upd_output h f w) r = (if r = h then map_option f (output_of w h) else output_of w r)"
  by (simp add: upd_output_def output_of_def)

lemma upd_surface_fields [simp]:
  "w_views (upd_surface h f w) = w_views w"
  "w_outputs (upd_surface h f w) = w_outputs w"
  "w_udata (upd_surface h f w) = w_udata w"
  "w_comp (upd_surface h f w) = w_comp w"
  "w_active (upd_surface h f w) = w_active w"
  "w_serial (upd_surface h f w) = w_serial w"
  "w_rendering_output (upd_surface h f w) = w_rendering_output w"
  "w_trace (upd_surface h f w) = w_trace w"
  "w_faults (upd_surface h f w) = w_faults w"
  by (simp_all add: upd_surface_def)

lemma upd_surface_objects [simp]:
  "view_of (upd_surface h f w) r = view_of w r"
  "output_of (upd_surface h f w) r = output_of w r"
  by (simp_all add: upd_surface_def view_of_def output_of_def)

lemma upd_surface_resources [simp]:
  "buffer_of (upd_surface h f w) r = buffer_of w r"
  "positioner_of (upd_surface h f w) r = positioner_of w r"
  "region_of (upd_surface h f w) r = region_of w r"
  "wl_of (upd_surface h f w) r k = wl_of w r k"
  by (auto simp: upd_surface_def buffer_of_def positioner_of_def region_of_def wl_of_def split: option.splits res_data.splits)

lemma surface_of_upd_surface [simp]:
  "surface_of (upd_surface h f w) r = (if r = h then map_option f (surface_of w h) else surface_of w r)"
  by (auto simp: upd_surface_def surface_of_def split: option.splits res_data.splits)

lemma upd_buffer_fields [simp]:
  "w_views (upd_buffer h f w) = w_views w"
  "w_outputs (upd_buffer h f w) = w_outputs w"
  "w_udata (upd_buffer h f w) = w_udata w"
  "w_comp (upd_buffer h f w) = w_comp w"
  "w_active (upd_buffer h f w) = w_active w"
  "w_serial (upd_buffer h f w) = w_serial w"
  "w_rendering_output (upd_buffer h f w) = w_rendering_output w"
  "w_trace (upd_buffer h f w) = w_trace w"
  "w_faults (upd_buffer h f w) = w_faults w"
  by (simp_all add: upd_buffer_def)

lemma upd_buffer_objects [simp]:
  "view_of (upd_buffer h f w) r = view_of w r"
  "output_of (upd_buffer h f w) r = output_of w r"
  by (simp_all add: upd_buffer_def view_of_def output_of_def)

lemma upd_buffer_resources [simp]:
  "surface_of (upd_buffer h f w) r = surface_of w r"
  "positioner_of (upd_buffer h f w) r = positioner_of w r"
  "region_of (upd_buffer h f w) r = region_of w r"
  "wl_of (upd_buffer h f w) r k = wl_of w r k"
  by (auto simp: upd_buffer_def surface_of_def positioner_of_def region_of_def wl_of_def split: option.splits res_data.splits)

lemma buffer_of_upd_buffer [simp]:
  "buffer_of (upd_buffer h f w) r = (if r = h then map_option f (buffer_of w h) else buffer_of w r)"
  by (auto simp: upd_buffer_def buffer_of_def split: option.splits res_data.splits)

lemma upd_comp_fields [simp]:
  "w_views (upd_comp f w) = w_views w"
  "w_outputs (upd_comp f w) = w_outputs w"
  "w_res (upd_comp f w) = w_res w"
  "w_udata (upd_comp f w) = w_udata w"
  "w_active (upd_comp f w) = w_active w"
  "w_serial (upd_comp f w) = w_serial w"
  "w_rendering_output (upd_comp f w) = w_rendering_output w"
  "w_trace (upd_comp f w) = w_trace w"
  "w_faults (upd_comp f w) = w_faults w"
  by (simp_all add: upd_comp_def)

lemma upd_comp_objects [simp]:
  "view_of (upd_comp f w) r = view_of w r"
  "output_of (upd_comp f w) r = output_of w r"
  "surface_of (upd_comp f w) r = surface_of w r"
  "buffer_of (upd_comp f w) r = buffer_of w r"
  "positioner_of (upd_comp f w) r = positioner_of w r"
  "region_of (upd_comp f w) r = region_of w r"
  "wl_of (upd_comp f w) r k = wl_of w r k"
  by (simp_all add: upd_comp_def view_of_def output_of_def surface_of_def buffer_of_def positioner_of_def region_of_def wl_of_def)

lemma emit_fields [simp]:
  "w_views (emit e w) = w_views w"
  "w_outputs (emit e w) = w_outputs w"
  "w_res (emit e w) = w_res w"
  "w_udata (emit e w) = w_udata w"
  "w_comp (emit e w) = w_comp w"
  "w_active (emit e w) = w_active w"
  "w_serial (emit e w) = w_serial w"
  "w_rendering_output (emit e w) = w_rendering_output w"
  "w_faults (emit e w) = w_faults w"
  by (simp_all add: emit_def)

lemma emit_objects [simp]:
  "view_of (emit e w) r = view_of w r"
  "output_of (emit e w) r = output_of w r"
  "surface_of (emit e w) r = surface_of w r"
  "buffer_of (emit e w) r = buffer_of w r"
  "positioner_of (emit e w) r = positioner_of w r"
  "region_of (emit e w) r = region_of w r"
  "wl_of (emit e w) r k = wl_of w r k"
  by (simp_all add: emit_def view_of_def output_of_def surface_of_def buffer_of_def positioner_of_def region_of_def wl_of_def)

lemma fail_fields [simp]:
  "w_views (fail x w) = w_views w"
  "w_outputs (fail x w) = w_outputs w"
  "w_res (fail x w) = w_res w"
  "w_udata (fail x w) = w_udata w"
  "w_comp (fail x w) = w_comp w"
  "w_active (fail x w) = w_active w"
  "w_serial (fail x w) = w_serial w"
  "w_rendering_output (fail x w) = w_rendering_output w"
  "w_trace (fail x w) = w_trace w"
  by (simp_all add: fail_def)

lemma fail_objects [simp]:
  "view_of (fail x w) r = view_of w r"
  "output_of (fail x w) r = output_of w r"
  "surface_of (fail x w) r = surface_of w r"
  "buffer_of (fail x w) r = buffer_of w r"
  "positioner_of (fail x w) r = positioner_of w r"
  "region_of (fail x w) r = region_of w r"
  "wl_of (fail x w) r k = wl_of w r k"
  by (simp_all add: fail_def view_of_def output_of_def surface_of_def buffer_of_def positioner_of_def region_of_def wl_of_def)

lemma w_seat_other [simp]:
  "w_seat (upd_view h fv w) = w_seat w" "w_seat (upd_output h fo w) = w_seat w" "w_seat (upd_surface h fs w) = w_seat w"
  "w_seat (upd_buffer h fb w) = w_seat w" "w_seat (upd_comp fc w) = w_seat w" "w_seat (emit e w) = w_seat w"
  "w_seat (fail x w) = w_seat w" "w_seat (set_user_data wl d w) = w_seat w" "w_seat (upd_seat g w) = g (w_seat w)"
  by (simp_all add: upd_view_def upd_output_def upd_surface_def upd_buffer_def upd_comp_def emit_def fail_def
      set_user_data_def upd_seat_def)

lemma upd_seat_fields [simp]:
  "w_views (upd_seat f w) = w_views w" "w_outputs (upd_seat f w) = w_outputs w" "w_res (upd_seat f w) = w_res w"
  "w_udata (upd_seat f w) = w_udata w" "w_comp (upd_seat f w) = w_comp w" "w_active (upd_seat f w) = w_active w"
  "w_serial (upd_seat f w) = w_serial w" "w_rendering_output (upd_seat f w) = w_rendering_output w"
  "w_trace (upd_seat f w) = w_trace w" "w_faults (upd_seat f w) = w_faults w"
  by (simp_all add: upd_seat_def)

lemma upd_seat_objects [simp]:
  "view_of (upd_seat f w) r = view_of w r" "output_of (upd_seat f w) r = output_of w r"
  "surface_of (upd_seat f w) r = surface_of w r" "buffer_of (upd_seat f w) r = buffer_of w r"
  "positioner_of (upd_seat f w) r = positioner_of w r" "region_of (upd_seat f w) r = region_of w r"
  "wl_of (upd_seat f w) r k = wl_of w r k"
  by (simp_all add: upd_seat_def view_of_def output_of_def surface_of_def buffer_of_def positioner_of_def region_of_def wl_of_def)

lemma set_user_data_fields [simp]:
  "w_views (set_user_data wl d w) = w_views w" "w_outputs (set_user_data wl d w) = w_outputs w"
  "w_res (set_user_data wl d w) = w_res w" "w_udata (set_user_data wl d w) = (w_udata w)(wl := d)"
  "w_comp (set_user_data wl d w) = w_comp w" "w_active (set_user_data wl d w) = w_active w"
  "w_serial (set_user_data wl d w) = w_serial w" "w_rendering_output (set_user_data wl d w) = w_rendering_output w"
  "w_trace (set_user_data wl d w) = w_trace w" "w_faults (set_user_data wl d w) = w_faults w"
  by (simp_all add: set_user_data_def)

lemma set_user_data_objects [simp]:
  "view_of (set_user_data wl d w) r = view_of w r" "output_of (set_user_data wl d w) r = output_of w r"
  "surface_of (set_user_data wl d w) r = surface_of w r" "buffer_of (set_user_data wl d w) r = buffer_of w r"
  "positioner_of (set_user_data wl d w) r = positioner_of w r" "region_of (set_user_data wl d w) r = region_of w r"
  "wl_of (set_user_data wl d w) r k = wl_of w r k"
  by (simp_all add: set_user_data_def view_of_def output_of_def surface_of_def buffer_of_def positioner_of_def region_of_def wl_of_def)

lemma w_comp_upd_comp [simp]: "w_comp (upd_comp f w) = f (w_comp w)"
  by (simp add: upd_comp_def)

lemma w_trace_emit [simp]: "w_trace (emit e w) = w_trace w @ [e]"
  by (simp add: emit_def)

lemma w_faults_fail [simp]: "w_faults (fail x w) = w_faults w @ [x]"
  by (simp add: fail_def)

subsection \<open>Objects behind numbers\<close>

text \<open>Views, outputs, surfaces and buffers are reached the same way: a partial lookup that knows no object 0,
  and a write that is seen by exactly the lookups of the number it goes to.\<close>

locale objects =
  fixes get :: "world \<Rightarrow> nat \<Rightarrow> 'a option"
    and upd :: "nat \<Rightarrow> ('a \<Rightarrow> 'a) \<Rightarrow> world \<Rightarrow> world"
  assumes get_null: "get w 0 = None"
    and get_upd: "get (upd h f w) r = (if r = h then map_option f (get w r) else get w r)"
begin

lemma alive_upd: "get (upd h f w) r = None \<longleftrightarrow> get w r = None"
  by (simp add: get_upd)

lemma field_upd: "(\<And>x. g (f x) = g x) \<Longrightarrow> map_option g (get (upd h f w) r) = map_option g (get w r)"
  by (simp add: get_upd option.map_comp o_def)

lemma field_written: "get w h = Some x \<Longrightarrow> map_option g (get (upd h f w) h) = Some (g (f x))"
  by (simp add: get_upd)

lemma fold_upd_other: "r \<notin> set hs \<Longrightarrow> get (fold (\<lambda>h. upd h (f h)) hs w) r = get w r"
  by (induction hs arbitrary: w) (simp_all add: get_upd)

lemma fold_upd_alive: "get (fold (\<lambda>h. upd h (f h)) hs w) r = None \<longleftrightarrow> get w r = None"
  by (induction hs arbitrary: w) (simp_all add: get_upd)

lemma fold_upd_each:
  "distinct hs \<Longrightarrow> r \<in> set hs \<Longrightarrow> get (fold (\<lambda>h. upd h (f h)) hs w) r = map_option (f r) (get w r)"
proof (induction hs arbitrary: w)
  case (Cons h hs)
  then show ?case by (cases "r = h") (simp_all add: fold_upd_other get_upd)
qed simp

end

interpretation views: objects view_of upd_view by unfold_locales simp_all
interpretation outputs: objects output_of upd_output by unfold_locales simp_all
interpretation surfaces: objects surface_of upd_surface by unfold_locales simp_all
interpretation buffers: objects buffer_of upd_buffer by unfold_locales simp_all

section \<open>The laws of the environment\<close>

text \<open>\<open>env_keeps E P\<close>: no callback of the author, no listener and no release handler changes what \<open>P\<close> sees
  of the world, the release of a buffer excepted.\<close>

lemma wl_of_not_buffer: "wl_of w r k \<noteq> 0 \<Longrightarrow> k \<noteq> K_buffer \<Longrightarrow> buffer_of w r = None"
  by (auto simp: wl_of_def buffer_of_def split: option.splits res_data.splits if_splits)

definition keeps1 :: "(world \<Rightarrow> 'b) \<Rightarrow> ('a \<Rightarrow> world \<Rightarrow> world) option \<Rightarrow> bool" where
  "keeps1 P f \<longleftrightarrow> (\<forall>g. f = Some g \<longrightarrow> (\<forall>a w. P (g a w) = P w))"

definition keeps1r :: "(world \<Rightarrow> 'b) \<Rightarrow> ('a \<Rightarrow> world \<Rightarrow> bool \<times> world) option \<Rightarrow> bool" where
  "keeps1r P f \<longleftrightarrow> (\<forall>g. f = Some g \<longrightarrow> (\<forall>a w. P (snd (g a w)) = P w))"

definition keeps2 :: "(world \<Rightarrow> 'c) \<Rightarrow> ('a \<Rightarrow> 'b \<Rightarrow> world \<Rightarrow> world) option \<Rightarrow> bool" where
  "keeps2 P f \<longleftrightarrow> (\<forall>g. f = Some g \<longrightarrow> (\<forall>a b w. P (g a b w) = P w))"

definition keeps2r :: "(world \<Rightarrow> 'c) \<Rightarrow> ('a \<Rightarrow> 'b \<Rightarrow> world \<Rightarrow> bool \<times> world) option \<Rightarrow> bool" where
  "keeps2r P f \<longleftrightarrow> (\<forall>g. f = Some g \<longrightarrow> (\<forall>a b w. P (snd (g a b w)) = P w))"

definition keeps3 :: "(world \<Rightarrow> 'd) \<Rightarrow> ('a \<Rightarrow> 'b \<Rightarrow> 'c \<Rightarrow> world \<Rightarrow> world) option \<Rightarrow> bool" where
  "keeps3 P f \<longleftrightarrow> (\<forall>g. f = Some g \<longrightarrow> (\<forall>a b c w. P (g a b c w) = P w))"

definition env_keeps :: "env \<Rightarrow> (world \<Rightarrow> 'a) \<Rightarrow> bool" where
  "env_keeps E P \<longleftrightarrow>
     (let F = iface E in
      keeps1r P (if_output_created F) \<and> keeps1 P (if_output_destroyed F) \<and> keeps2 P (if_output_focus F) \<and>
      keeps3 P (if_output_resolution F) \<and> keeps1 P (if_output_context_created F) \<and>
      keeps1 P (if_output_context_destroyed F) \<and> keeps1 P (if_output_render_pre F) \<and>
      keeps1 P (if_output_render_post F) \<and> keeps1r P (if_view_created F) \<and> keeps1 P (if_view_destroyed F) \<and>
      keeps3 P (if_view_move_to_output F) \<and> keeps2 P (if_view_request_geometry F) \<and>
      keeps3 P (if_view_request_state F) \<and> keeps2r P (if_view_request_minimize F) \<and>
      keeps1 P (if_view_render_pre F) \<and> keeps1 P (if_view_render_post F) \<and>
      keeps2 P (if_view_properties_updated F) \<and>
      (\<forall>e w. P (sig_output E e w) = P w) \<and> (\<forall>e w. P (sig_focus E e w) = P w) \<and>
      (\<forall>e w. P (sig_surface E e w) = P w) \<and> (\<forall>e w. P (sig_render E e w) = P w) \<and>
      (\<forall>r w. buffer_of w r = None \<longrightarrow> P (release_resource E r w) = P w) \<and> (\<forall>h w. P (release_handle E h w) = P w) \<and>
      (\<forall>r k w. P (release_source E r k w) = P w) \<and>
      (\<forall>c w. P (ext_client_destroy E c w) = P w) \<and>
      keeps2 P (if_view_focus F) \<and> keeps2 P (if_view_request_move F) \<and> keeps3 P (if_view_request_resize F) \<and>
      keeps1r P (if_keyboard_key F) \<and> keeps1r P (if_pointer_button F) \<and> keeps1r P (if_pointer_scroll F) \<and>
      keeps1r P (if_pointer_motion_v2 F) \<and> keeps1r P (if_pointer_motion F) \<and> keeps1r P (if_touch F) \<and>
      (\<forall>e w. P (sig_input E e w) = P w) \<and> (\<forall>a v w. P (sig_activate E a v w) = P w) \<and>
      (\<forall>s w. P (sig_selection E s w) = P w) \<and> (\<forall>w. P (backend_update_outputs E w) = P w))"

lemma env_keepsD:
  assumes "env_keeps E P"
  shows "keeps1r P (if_output_created (iface E))" "keeps1 P (if_output_destroyed (iface E))"
    "keeps2 P (if_output_focus (iface E))" "keeps3 P (if_output_resolution (iface E))"
    "keeps1 P (if_output_context_created (iface E))" "keeps1 P (if_output_context_destroyed (iface E))"
    "keeps1 P (if_output_render_pre (iface E))" "keeps1 P (if_output_render_post (iface E))"
    "keeps1r P (if_view_created (iface E))" "keeps1 P (if_view_destroyed (iface E))"
    "keeps3 P (if_view_move_to_output (iface E))" "keeps2 P (if_view_request_geometry (iface E))"
    "keeps3 P (if_view_request_state (iface E))" "keeps2r P (if_view_request_minimize (iface E))"
    "keeps1 P (if_view_render_pre (iface E))" "keeps1 P (if_view_render_post (iface E))"
    "keeps2 P (if_view_properties_updated (iface E))"
    "P (sig_output E oe w) = P w" "P (sig_focus E fe w) = P w" "P (sig_surface E se w) = P w"
    "P (sig_render E h w) = P w" "buffer_of w r = None \<Longrightarrow> P (release_resource E r w) = P w" "P (release_handle E h w) = P w"
    "P (ext_client_destroy E c w) = P w" "P (release_source E r k w) = P w"
    "keeps2 P (if_view_focus (iface E))" "keeps2 P (if_view_request_move (iface E))"
    "keeps3 P (if_view_request_resize (iface E))" "keeps1r P (if_keyboard_key (iface E))"
    "keeps1r P (if_pointer_button (iface E))" "keeps1r P (if_pointer_scroll (iface E))"
    "keeps1r P (if_pointer_motion_v2 (iface E))" "keeps1r P (if_pointer_motion (iface E))"
    "keeps1r P (if_touch (iface E))" "P (sig_input E ie w) = P w" "P (sig_activate E ac vt w) = P w"
    "P (sig_selection E sr w) = P w" "P (backend_update_outputs E w) = P w"
  using assms by (simp_all add: env_keeps_def Let_def)

lemma call_keeps:
  "keeps1 P f1 \<Longrightarrow> P (call1 f1 a w) = P w" "keeps2 P f2 \<Longrightarrow> P (call2 f2 a b w) = P w"
  "keeps3 P f3 \<Longrightarrow> P (call3 f3 a b c w) = P w"
  "keeps1r P g1 \<Longrightarrow> P (snd (call1_except g1 x a w)) = P w"
  "keeps2r P g2 \<Longrightarrow> P (snd (call2_except g2 x a b w)) = P w"
  by (auto simp: keeps1_def keeps2_def keeps3_def keeps1r_def keeps2r_def call1_def call2_def call3_def
      call1_except_def call2_except_def split: option.split prod.splits) (metis snd_conv)+

definition env_ok :: "env \<Rightarrow> bool" where
  "env_ok E \<longleftrightarrow>
     pool_ops_ok (hp E) \<and> pool_ops_ok (sp E) \<and> chck_math_ok (mth E) \<and> fp_ok (fpo E) \<and> pixman_ok (pxo E)"

lemma env_okD [simp]:
  assumes "env_ok E"
  shows "pool_ops_ok (hp E)" "pool_ops_ok (sp E)" "chck_math_ok (mth E)" "fp_ok (fpo E)" "pixman_ok (pxo E)"
  using assms by (simp_all add: env_ok_def)

end
