(* ===== verification/Bounds.thy ===== *)
theory Bounds
  imports World
begin

text \<open>
  Views and surfaces as rectangles: the bounds and the visible area of a view, the opaque and the
  input area of a surface (src/compositor/view.c, src/resources/types/surface.c), and the coordinate
  transform of a surface tree. These functions read the world and compute; where the code asserts
  something about what it read, the result has a component that says whether the assertion holds.

  The products with a transform are computed in floating point and converted back, as in the code:
  \<open>float\<close> in view.c, \<open>double\<close> (the type of the transform) in surface.c.
\<close>

section \<open>Windows of Xwayland\<close>

text \<open>The empty functions of xwm.h for a build without Xwayland.\<close>

definition wlc_x11_is_valid_window :: "wlc_view \<Rightarrow> bool" where
  "wlc_x11_is_valid_window v = False"

definition is_x11_view :: "wlc_view \<Rightarrow> bool" where
  "is_x11_view v = wlc_x11_is_valid_window v"

definition wlc_x11_is_window_hidden :: "wlc_view \<Rightarrow> bool" where
  "wlc_x11_is_window_hidden v = False"

definition wlc_x11_set_window_hidden :: "nat \<Rightarrow> bool \<Rightarrow> world \<Rightarrow> world" where
  "wlc_x11_set_window_hidden vid hidden w = w"

definition wlc_x11_window_configure :: "nat \<Rightarrow> wlc_geometry \<Rightarrow> world \<Rightarrow> world" where
  "wlc_x11_window_configure vid g w = w"

definition wlc_x11_window_set_state :: "nat \<Rightarrow> u32 \<Rightarrow> bool \<Rightarrow> world \<Rightarrow> world" where
  "wlc_x11_window_set_state vid st toggle w = w"

definition wlc_x11_window_set_active :: "nat \<Rightarrow> bool \<Rightarrow> world \<Rightarrow> bool \<times> world" where
  "wlc_x11_window_set_active vid active w = (False, w)"

definition wlc_x11_window_close :: "nat \<Rightarrow> world \<Rightarrow> world" where
  "wlc_x11_window_close vid w = w"

lemmas x11_defs [simp] =
  wlc_x11_is_valid_window_def is_x11_view_def wlc_x11_is_window_hidden_def
  wlc_x11_set_window_hidden_def wlc_x11_window_configure_def wlc_x11_window_set_state_def
  wlc_x11_window_set_active_def wlc_x11_window_close_def

section \<open>The view\<close>

definition wlc_view_get_output_ptr :: "world \<Rightarrow> nat \<Rightarrow> nat" where
  "wlc_view_get_output_ptr w vid =
     (case view_of w vid of
        None \<Rightarrow> 0
      | Some v \<Rightarrow>
          (case surface_of w (v_surface v) of
             None \<Rightarrow> 0
           | Some s \<Rightarrow> if output_of w (sf_output s) = None then 0 else sf_output s))"

definition wlc_view_get_client_ptr :: "env \<Rightarrow> world \<Rightarrow> nat \<Rightarrow> nat" where
  "wlc_view_get_client_ptr E w vid =
     (let r = (case view_of w vid of None \<Rightarrow> 0 | Some v \<Rightarrow> wl_of w (v_surface v) K_surface) in
      if r = 0 then 0 else ext_client E r)"

text \<open>\<open>a OP= b\<close> for an integer lvalue and a \<open>float\<close> operand: the lvalue is converted, the operation
  rounds, the result is converted back.\<close>

definition flt :: "env \<Rightarrow> real \<Rightarrow> real" where "flt E x = f32 (fpo E) x"
definition dbl :: "env \<Rightarrow> real \<Rightarrow> real" where "dbl E x = f64 (fpo E) x"

definition flt_u32 :: "env \<Rightarrow> u32 \<Rightarrow> real" where "flt_u32 E w = flt E (u32_real w)"
definition flt_i32 :: "env \<Rightarrow> int \<Rightarrow> real" where "flt_i32 E n = flt E (of_int n)"

definition flt_div :: "env \<Rightarrow> u32 \<Rightarrow> u32 \<Rightarrow> real" where
  "flt_div E a b = flt E (flt_u32 E a / flt_u32 E b)"

text \<open>The frame an xdg toplevel draws around its visible geometry is added to the bounds.\<close>

definition bounds_with_frame :: "env \<Rightarrow> wlc_geometry \<Rightarrow> wlc_size \<Rightarrow> wlc_geometry \<Rightarrow> wlc_geometry" where
  "bounds_with_frame E visible ssz b =
     (let M = mth E;
          vx = m_clamp32 M (px (gorigin visible)) 0 (i32_of_u32 (sw ssz));
          vy = m_clamp32 M (py (gorigin visible)) 0 (i32_of_u32 (sh ssz));
          vw = m_clampu32 M (sw ssz - sw (gsize visible)) 0 (sw ssz);
          vh = m_clampu32 M (sh ssz - sh (gsize visible)) 0 (sh ssz);
          wa = flt_div E (sw (gsize b)) (sw ssz);
          ha = flt_div E (sh (gsize b)) (sh ssz)
      in \<lparr>gorigin =
            \<lparr>px = real_to_i32 (flt E (flt_i32 E (px (gorigin b)) - flt E (flt_i32 E vx * wa))),
             py = real_to_i32 (flt E (flt_i32 E (py (gorigin b)) - flt E (flt_i32 E vy * ha)))\<rparr>,
          gsize =
            \<lparr>sw = real_to_u32 (flt E (flt_u32 E (sw (gsize b)) + flt E (flt_u32 E vw * wa))),
             sh = real_to_u32 (flt E (flt_u32 E (sh (gsize b)) + flt E (flt_u32 E vh * ha)))\<rparr>\<rparr>)"

text \<open>The visible area keeps the aspect of the surface and is centred in the bounds.\<close>

definition visible_centred :: "env \<Rightarrow> wlc_size \<Rightarrow> wlc_geometry \<Rightarrow> wlc_geometry" where
  "visible_centred E ssz b =
     (let ba = flt_div E (sw (gsize b)) (sh (gsize b));
          sa = flt_div E (sw ssz) (sh ssz);
          scale = (if ba < sa then flt_div E (sw (gsize b)) (sw ssz) else flt_div E (sh (gsize b)) (sh ssz));
          vw = real_to_u32 (flt E (flt_u32 E (sw ssz) * scale));
          vh = real_to_u32 (flt E (flt_u32 E (sh ssz) * scale));
          ox = real_to_i32 (dbl E (dbl E (of_int (px (gorigin b)) + dbl E (u32_real (sw (gsize b)) * (1/2)))
                                   - dbl E (u32_real vw * (1/2))));
          oy = real_to_i32 (dbl E (dbl E (of_int (py (gorigin b)) + dbl E (u32_real (sh (gsize b)) * (1/2)))
                                   - dbl E (u32_real vh * (1/2))))
      in \<lparr>gorigin = \<lparr>px = ox, py = oy\<rparr>,
          gsize = \<lparr>sw = m_maxu32 (mth E) vw 1, sh = m_maxu32 (mth E) vh 1\<rparr>\<rparr>)"

text \<open>The result: whether the assertions hold, the bounds, and the visible area; the code leaves the
  latter unwritten (\<open>None\<close>) when the view has no surface.\<close>

definition wlc_view_get_bounds ::
  "env \<Rightarrow> world \<Rightarrow> wlc_view \<Rightarrow> bool \<times> wlc_geometry \<times> wlc_geometry option" where
  "wlc_view_get_bounds E w v =
     (let b = vs_geometry (v_commit v) in
      case surface_of w (v_surface v) of
        None \<Rightarrow> (True, b, None)
      | Some s \<Rightarrow>
          let ssz = sf_size s;
              positive = (sw ssz > 0 \<and> sh ssz > 0);
              framed = (v_xdg_toplevel v \<noteq> 0 \<and> \<not> wlc_size_equals (gsize (v_surface_commit v)) wlc_size_zero);
              b = (if framed then bounds_with_frame E (v_surface_commit v) ssz b else b);
              b = b\<lparr>gsize := wlc_size_max (gsize b) \<lparr>sw = 1, sh = 1\<rparr>\<rparr>;
              centred = ((is_x11_view v \<or> v_shell_surface v \<noteq> 0) \<and> \<not> wlc_size_equals ssz (gsize b))
          in ((framed \<or> centred \<longrightarrow> positive), b,
              Some (if centred then visible_centred E ssz b else b)))"

section \<open>The surface\<close>

definition wlc_surface_get_opaque ::
  "env \<Rightarrow> wlc_surface option \<Rightarrow> wlc_point \<Rightarrow> bool \<times> bool \<times> wlc_geometry" where
  "wlc_surface_get_opaque E so offset =
     (case so of
        None \<Rightarrow> (True, False, wlc_geometry_zero)
      | Some s \<Rightarrow>
          let r = ss_opaque (sf_commit s);
              M = mth E;
              tw = sf_transform_w s;
              th = sf_transform_h s;
              opaque = (i32 (rg_x1 r + rg_y1 r + rg_x2 r + rg_y2 r) > 0)
          in
          if opaque then
            let ox = m_min32 M (rg_x1 r) (i32_of_u32 (sw (sf_size s)));
                oy = m_min32 M (rg_y1 r) (i32_of_u32 (sh (sf_size s)));
                ow = u32_of_i32 (m_clamp32 M (rg_x2 r) ox (i32_of_u32 (sw (sf_size s))));
                oh = u32_of_i32 (m_clamp32 M (rg_y2 r) oy (i32_of_u32 (sh (sf_size s))))
            in (i32_of_u32 ow \<ge> ox \<and> i32_of_u32 oh \<ge> oy, True,
                \<lparr>gorigin = \<lparr>px = real_to_i32 (dbl E (of_int (px offset) + dbl E (of_int ox * tw))),
                            py = real_to_i32 (dbl E (of_int (py offset) + dbl E (of_int oy * th)))\<rparr>,
                 gsize = \<lparr>sw = real_to_u32 (dbl E (u32_real (ow - u32_of_i32 ox) * tw)),
                          sh = real_to_u32 (dbl E (u32_real (oh - u32_of_i32 oy) * th))\<rparr>\<rparr>)
          else
            (True, False,
             \<lparr>gorigin = offset,
              gsize = \<lparr>sw = real_to_u32 (dbl E (u32_real (sw (sf_size s)) * tw)),
                       sh = real_to_u32 (dbl E (u32_real (sh (sf_size s)) * th))\<rparr>\<rparr>))"

definition wlc_surface_get_input ::
  "env \<Rightarrow> wlc_surface option \<Rightarrow> wlc_point \<Rightarrow> bool \<times> wlc_geometry" where
  "wlc_surface_get_input E so offset =
     (case so of
        None \<Rightarrow> (True, wlc_geometry_zero)
      | Some s \<Rightarrow>
          let r = ss_input (sf_commit s);
              tw = sf_transform_w s;
              th = sf_transform_h s
          in (rg_x2 r \<ge> rg_x1 r \<and> rg_y2 r \<ge> rg_y1 r,
              \<lparr>gorigin = \<lparr>px = real_to_i32 (dbl E (of_int (px offset) + dbl E (of_int (rg_x1 r) * tw))),
                          py = real_to_i32 (dbl E (of_int (py offset) + dbl E (of_int (rg_y1 r) * th)))\<rparr>,
               gsize = \<lparr>sw = real_to_u32 (dbl E (of_int (i32_sub (rg_x2 r) (rg_x1 r)) * tw)),
                        sh = real_to_u32 (dbl E (of_int (i32_sub (rg_y2 r) (rg_y1 r)) * th))\<rparr>\<rparr>))"

definition wlc_surface_get_buffer :: "world \<Rightarrow> wlc_surface option \<Rightarrow> nat" where
  "wlc_surface_get_buffer w so =
     (case so of
        None \<Rightarrow> 0
      | Some s \<Rightarrow>
          let b = (if ss_buffer (sf_commit s) \<noteq> 0 then ss_buffer (sf_commit s) else ss_buffer (sf_pending s))
          in if buffer_of w b = None then 0 else b)"

text \<open>Without a surface the visible origin is read uninitialised, but the surface functions do not look at
  it then.\<close>

definition visible_origin :: "wlc_geometry option \<Rightarrow> wlc_point" where
  "visible_origin v = (case v of None \<Rightarrow> wlc_point_zero | Some g \<Rightarrow> gorigin g)"

definition wlc_view_get_opaque :: "env \<Rightarrow> world \<Rightarrow> wlc_view \<Rightarrow> bool \<times> bool \<times> wlc_geometry" where
  "wlc_view_get_opaque E w v =
     (let (ok, b, vis) = wlc_view_get_bounds E w v;
          (ok', opaque, g) = wlc_surface_get_opaque E (surface_of w (v_surface v)) (visible_origin vis)
      in (ok \<and> ok', opaque, g))"

definition wlc_view_get_input :: "env \<Rightarrow> world \<Rightarrow> wlc_view \<Rightarrow> bool \<times> wlc_geometry" where
  "wlc_view_get_input E w v =
     (let (ok, b, vis) = wlc_view_get_bounds E w v in
      if is_x11_view v then (ok, case vis of None \<Rightarrow> wlc_geometry_zero | Some g \<Rightarrow> g)
      else
        let (ok', g) = wlc_surface_get_input E (surface_of w (v_surface v)) (visible_origin vis)
        in (ok \<and> ok', g))"

section \<open>Coordinate transforms\<close>

definition surface_update_coordinate_transform :: "env \<Rightarrow> nat \<Rightarrow> wlc_geometry \<Rightarrow> world \<Rightarrow> world" where
  "surface_update_coordinate_transform E sid area w =
     (case surface_of w sid of
        None \<Rightarrow> w
      | Some s \<Rightarrow>
          if sw (sf_size s) * sh (sf_size s) \<le> 0 then w
          else upd_surface sid (\<lambda>s. s\<lparr>sf_transform_w := flt_div E (sw (gsize area)) (sw (sf_size s)),
                                   sf_transform_h := flt_div E (sh (gsize area)) (sh (sf_size s))\<rparr>) w)"

definition surface_tree_update_coordinate_transform :: "env \<Rightarrow> nat \<Rightarrow> wlc_geometry \<Rightarrow> world \<Rightarrow> world" where
  "surface_tree_update_coordinate_transform E sid area w =
     (let w = surface_update_coordinate_transform E sid area w in
      case surface_of w sid of
        None \<Rightarrow> w
      | Some s \<Rightarrow> fold (\<lambda>c. surface_update_coordinate_transform E c area) (sf_subsurface_list s) w)"

end
