(* ===== verification/Sample.thy ===== *)
theory Sample
  imports World
begin

text \<open>
  A concrete environment and concrete objects: the reference instances of Chck.thy, no callback of the
  author, signals nobody listens to. The witnesses of the other theories evaluate on worlds built from
  these.
\<close>

definition iface_none :: wlc_interface where
  "iface_none = \<lparr>
     if_output_created = None, if_output_destroyed = None, if_output_focus = None,
     if_output_resolution = None, if_output_context_created = None, if_output_context_destroyed = None,
     if_output_render_pre = None, if_output_render_post = None, if_view_created = None,
     if_view_destroyed = None, if_view_move_to_output = None, if_view_request_geometry = None,
     if_view_request_state = None, if_view_request_minimize = None, if_view_render_pre = None,
     if_view_render_post = None, if_view_properties_updated = None, if_view_focus = None, if_view_request_move = None,
     if_view_request_resize = None, if_keyboard_key = None, if_pointer_button = None, if_pointer_scroll = None,
     if_pointer_motion_v2 = None, if_pointer_motion = None, if_touch = None, if_compositor_ready = None,
     if_compositor_terminate = None, if_input_created = None, if_input_destroyed = None\<rparr>"

text \<open>An xkb state that is the number of keys held; the control key is 29, alt 56; the keys up to 58 repeat
  not, and the symbols of the function keys are theirs.\<close>

definition xkb_ref :: xkb_ops where
  "xkb_ref = \<lparr>
     xkb_update_key = (\<lambda>n k down. if down then Suc n else n - 1), xkb_depressed = (\<lambda>n. word_of_nat n),
     xkb_latched = (\<lambda>_. 0), xkb_locked = (\<lambda>_. 0), xkb_layout = (\<lambda>_. 0), xkb_led_active = (\<lambda>_ _. False),
     xkb_key_repeats = (\<lambda>k. k > 66), xkb_one_sym = (\<lambda>_ k. k), xkb_utf32 = (\<lambda>_ k. k),
     xkb_f1 = 0xffbe, xkb_f12 = 0xffc9\<rparr>"

definition env_ref :: env where
  "env_ref = \<lparr>
     hp = pool_ref, sp = pool_ref, mth = math_ref, fpo = fp_ref, pxo = pixman_ref, iface = iface_none,
     sig_output = (\<lambda>_ w. w), sig_focus = (\<lambda>_ w. w), sig_surface = (\<lambda>_ w. w), sig_render = (\<lambda>_ w. w),
     release_resource = (\<lambda>_ w. w), release_handle = (\<lambda>_ w. w), release_source = (\<lambda>_ _ w. w),
     ext_client_destroy = (\<lambda>_ w. w),
     ext_client = (\<lambda>_. 1), ext_version = (\<lambda>_. 2),
     ext_render_attach = (\<lambda>_ _ _ _. (True, \<lparr>sw = 64, sh = 48\<rparr>, True)),
     ext_context_create = (\<lambda>_ _. True), ext_render_create = (\<lambda>_ _. True),
     ext_gamma_size = (\<lambda>_. 0), ext_cstrneq = (\<lambda>_ _ _. False), ext_set_cstr = (\<lambda>s _. Some (Some s)),
     ext_cstreq = (\<lambda>a b. a = Some b), ext_set_cstr_all = (\<lambda>s. Some (Some s)), ext_client_pid = (\<lambda>_. 100),
     ext_resource_from = (\<lambda>_ _ w. (0, w)), ext_new_resource = (\<lambda>_. None), ext_new_handle = (\<lambda>_. None), ext_new_timer = (\<lambda>_. True), ext_new_global = (\<lambda>_. 1), ext_calloc = (\<lambda>_. True),
     ext_wl_create = (\<lambda>_ _ _. 1), sig_input = (\<lambda>_ w. w), sig_activate = (\<lambda>_ _ w. w), sig_selection = (\<lambda>_ w. w),
     backend_update_outputs = (\<lambda>w. w), xkb = xkb_ref, ext_pool_add = (\<lambda>xs x. xs @ [x]), ext_time = (\<lambda>_. 0),
     ext_fixed = (\<lambda>x. trunc (256 * x)), ext_client_of_id = (\<lambda>_. 1), ext_context_live = (\<lambda>_ _. True), ext_tty_vt = 1,
     ext_new_custom = (\<lambda>_. 1), ext_address = (\<lambda>_. 1000000),
     wl_mode_current = 1, wl_mode_preferred = 2, wl_toplevel_states = (1, 2, 3, 4),
     wl_since_scale = 2, wl_since_done = 2, wl_transform_flipped_270 = 7,
     wl_err_invalid_scale = 0, wl_err_invalid_transform = 1, wl_err_bad_surface = 0, fuel = 10\<rparr>"

definition output_blank :: wlc_output where
  "output_blank = \<lparr>
     o_resources = [], o_mode = wlc_size_zero, o_resolution = wlc_size_zero, o_virtual = wlc_size_zero,
     o_information = \<lparr>in_modes = [], in_name = None, in_make = None, in_model = None, in_x = 0, in_y = 0,
       in_physical_width = 0, in_physical_height = 0, in_subpixel = 0, in_connector_id = 0, in_crtc_id = 0,
       in_transform = 0, in_connector = WLC_CONNECTOR_WLC\<rparr>,
     o_bsurface = \<lparr>bs_display = 0, bs_window = 0, bs_api_sleep = False, bs_api_set_gamma = False,
       bs_api_get_gamma_size = False\<rparr>,
     o_surfaces = [], o_views = [], o_mutable = [], o_callbacks = [], o_visible = [], o_blit = None,
     o_scale = 1, o_timer_idle = True, o_wl_output = 1,
     o_task_bsurface = \<lparr>bs_display = 0, bs_window = 0, bs_api_sleep = False, bs_api_set_gamma = False,
       bs_api_get_gamma_size = False\<rparr>,
     o_task_terminate = False, o_task_sleep = False, o_ims = 41, o_frame_time = 0, o_pending = False,
     o_scheduled = False, o_activity = False, o_sleeping = False, o_background_visible = False,
     o_created = False, o_active_mode = 0xFFFFFFFF, o_active_mask = 1\<rparr>"

definition view_blank :: wlc_view where
  "view_blank = \<lparr>
     v_pending = \<lparr>vs_geometry = wlc_geometry_zero, vs_edges = 0, vs_state = 0\<rparr>,
     v_commit = \<lparr>vs_geometry = wlc_geometry_zero, vs_edges = 0, vs_state = 0\<rparr>,
     v_surface_pending = wlc_geometry_zero, v_surface_commit = wlc_geometry_zero, v_wl_state = [],
     v_parent = 0, v_surface = 0, v_shell_surface = 0, v_xdg_surface = 0, v_xdg_toplevel = 0,
     v_xdg_popup = 0, v_custom_surface = 0, v_app_id = None, v_title = None, v_instance = None,
     v_class = None, v_pid = 0, v_minimized = False, v_type = 0, v_mask = 1, v_created = False,
     v_fullscreen_mode = 0\<rparr>"

definition surface_state_blank :: wlc_surface_state where
  "surface_state_blank = \<lparr>
     ss_frame_cbs = [], ss_opaque = region_zero, ss_input = region_zero, ss_damage = region_zero,
     ss_offset = wlc_point_zero, ss_subsurface_position = wlc_point_zero, ss_buffer = 0, ss_scale = 1,
     ss_transform = 0, ss_attached = False\<rparr>"

definition surface_blank :: wlc_surface where
  "surface_blank = \<lparr>
     sf_pending = surface_state_blank, sf_commit = surface_state_blank, sf_size = wlc_size_zero,
     sf_transform_w = 1, sf_transform_h = 1, sf_parent = 0, sf_subsurface_list = [], sf_view = 0,
     sf_parent_view = 0, sf_output = 0, sf_synchronized = False, sf_parent_synchronized = False\<rparr>"

definition buffer_blank :: wlc_buffer where
  "buffer_blank = \<lparr>bf_size = wlc_size_zero, bf_surface = 0, bf_references = 0, bf_y_inverted = True\<rparr>"

definition seat_blank :: wlc_seat where
  "seat_blank = \<lparr>
     se_manager = \<lparr>dm_devices = [], dm_source = No_source\<rparr>,
     se_keymap = \<lparr>km_format = 1, km_size = 1, km_fd = 3, km_mods = replicate 8 0xFFFFFFFF, km_leds = replicate 3 0xFFFFFFFF\<rparr>,
     se_keyboard = \<lparr>kb_keymap = True, kb_resources = [], kb_keys = [], kb_focused_resources = [], kb_focused_view = 0,
       kb_depressed = 0, kb_latched = 0, kb_locked = 0, kb_group = 0, kb_modifiers = \<lparr>mo_leds = 0, mo_mods = 0\<rparr>,
       kb_repeat_delay = 660, kb_repeat_rate = 25, kb_xkb = 0, kb_sym = True, kb_repeat = False, kb_repeating = False,
       kb_focused = False\<rparr>,
     se_pointer = \<lparr>pt_resources = [], pt_x = 0, pt_y = 0, pt_tip = wlc_point_zero, pt_surface = 0,
       pt_focused_resources = [], pt_focused_surface = 0, pt_focused_offset = wlc_point_zero, pt_focused_view = 0\<rparr>,
     se_touch = \<lparr>tc_resources = [], tc_focus = 0\<rparr>, se_customs = (\<lambda>_. None)\<rparr>"

definition world_blank :: world where
  "world_blank = \<lparr>
     w_views = (\<lambda>_. None), w_outputs = (\<lambda>_. None), w_res = (\<lambda>_. None), w_udata = (\<lambda>_. UD_null),
     w_comp = \<lparr>c_outputs = [], c_views = [], c_surfaces = [], c_active_output = 0, c_tty = IDLE, c_vt = 0,
       c_idle = False, c_terminating = False, c_ready = False\<rparr>,
     w_seat = seat_blank,
     w_active = True, w_serial = 0, w_rendering_output = 0, w_trace = [], w_faults = []\<rparr>"

definition put_output :: "nat \<Rightarrow> wlc_output \<Rightarrow> world \<Rightarrow> world" where
  "put_output h x w = w\<lparr>w_outputs := (w_outputs w)(h \<mapsto> x)\<rparr>"

definition put_view :: "nat \<Rightarrow> wlc_view \<Rightarrow> world \<Rightarrow> world" where
  "put_view h x w = w\<lparr>w_views := (w_views w)(h \<mapsto> x)\<rparr>"

definition put_res :: "nat \<Rightarrow> res_data \<Rightarrow> nat \<Rightarrow> world \<Rightarrow> world" where
  "put_res r d wl w = w\<lparr>w_res := (w_res w)(r \<mapsto> \<lparr>re_data = d, re_wl = wl\<rparr>)\<rparr>"

lemma env_ref_ok [simp]: "env_ok env_ref"
  by (simp add: env_ok_def env_ref_def)

lemma env_ref_fields [simp]:
  "hp env_ref = pool_ref"
  "sp env_ref = pool_ref"
  "mth env_ref = math_ref"
  "fpo env_ref = fp_ref"
  "pxo env_ref = pixman_ref"
  "iface env_ref = iface_none"
  "sig_output env_ref = (\<lambda>_ w. w)"
  "sig_focus env_ref = (\<lambda>_ w. w)"
  "sig_surface env_ref = (\<lambda>_ w. w)"
  "sig_render env_ref = (\<lambda>_ w. w)"
  "release_resource env_ref = (\<lambda>_ w. w)"
  "release_handle env_ref = (\<lambda>_ w. w)"
  "release_source env_ref = (\<lambda>_ _ w. w)"
  "ext_client_destroy env_ref = (\<lambda>_ w. w)"
  "ext_client env_ref = (\<lambda>_. 1)"
  "ext_version env_ref = (\<lambda>_. 2)"
  "ext_render_attach env_ref = (\<lambda>_ _ _ _. (True, \<lparr>sw = 64, sh = 48\<rparr>, True))"
  "ext_context_create env_ref = (\<lambda>_ _. True)"
  "ext_render_create env_ref = (\<lambda>_ _. True)"
  "ext_gamma_size env_ref = (\<lambda>_. 0)"
  "ext_cstrneq env_ref = (\<lambda>_ _ _. False)"
  "ext_set_cstr env_ref = (\<lambda>s _. Some (Some s))"
  "ext_cstreq env_ref = (\<lambda>a b. a = Some b)"
  "ext_set_cstr_all env_ref = (\<lambda>s. Some (Some s))"
  "ext_client_pid env_ref = (\<lambda>_. 100)"
  "ext_resource_from env_ref = (\<lambda>_ _ w. (0, w))"
  "ext_new_resource env_ref = (\<lambda>_. None)"
  "ext_new_handle env_ref = (\<lambda>_. None)"
  "ext_wl_create env_ref = (\<lambda>_ _ _. 1)"
  "wl_mode_current env_ref = 1"
  "wl_mode_preferred env_ref = 2"
  "wl_toplevel_states env_ref = (1, 2, 3, 4)"
  "wl_since_scale env_ref = 2"
  "wl_since_done env_ref = 2"
  "wl_transform_flipped_270 env_ref = 7"
  "wl_err_invalid_scale env_ref = 0"
  "wl_err_invalid_transform env_ref = 1"
  "wl_err_bad_surface env_ref = 0"
  "ext_new_timer env_ref = (\<lambda>_. True)"
  "ext_new_global env_ref = (\<lambda>_. 1)"
  "ext_calloc env_ref = (\<lambda>_. True)"
  "sig_input env_ref = (\<lambda>_ w. w)" "sig_activate env_ref = (\<lambda>_ _ w. w)" "sig_selection env_ref = (\<lambda>_ w. w)"
  "backend_update_outputs env_ref = (\<lambda>w. w)" "xkb env_ref = xkb_ref" "ext_pool_add env_ref = (\<lambda>xs x. xs @ [x])"
  "ext_time env_ref = (\<lambda>_. 0)" "ext_fixed env_ref = (\<lambda>x. trunc (256 * x))" "ext_client_of_id env_ref = (\<lambda>_. 1)"
  "ext_context_live env_ref = (\<lambda>_ _. True)" "ext_tty_vt env_ref = 1" "ext_new_custom env_ref = (\<lambda>_. 1)" "ext_address env_ref = (\<lambda>_. 1000000)"
  "fuel env_ref = 10"
  by (simp_all add: env_ref_def)

lemma iface_none_fields [simp]:
  "if_output_created iface_none = None"
  "if_output_destroyed iface_none = None"
  "if_output_focus iface_none = None"
  "if_output_resolution iface_none = None"
  "if_output_context_created iface_none = None"
  "if_output_context_destroyed iface_none = None"
  "if_output_render_pre iface_none = None"
  "if_output_render_post iface_none = None"
  "if_view_created iface_none = None"
  "if_view_destroyed iface_none = None"
  "if_view_move_to_output iface_none = None"
  "if_view_request_geometry iface_none = None"
  "if_view_request_state iface_none = None"
  "if_view_request_minimize iface_none = None"
  "if_view_render_pre iface_none = None"
  "if_view_render_post iface_none = None"
  "if_view_properties_updated iface_none = None"
  "if_view_focus iface_none = None" "if_view_request_move iface_none = None" "if_view_request_resize iface_none = None"
  "if_keyboard_key iface_none = None" "if_pointer_button iface_none = None" "if_pointer_scroll iface_none = None"
  "if_pointer_motion_v2 iface_none = None" "if_pointer_motion iface_none = None" "if_touch iface_none = None"
  "if_compositor_ready iface_none = None"
  "if_compositor_terminate iface_none = None"
  "if_input_created iface_none = None" "if_input_destroyed iface_none = None"
  by (simp_all add: iface_none_def)

text \<open>What a witness evaluates with: \<open>sample_defs\<close> for the objects, \<open>sample_access\<close> for a world built from
  them.\<close>

lemmas sample_objects =
  env_ref_def iface_none_def output_blank_def view_blank_def surface_state_blank_def surface_blank_def
  buffer_blank_def

lemmas sample_worlds = world_blank_def put_output_def put_view_def put_res_def

lemmas sample_access =
  view_of_def output_of_def surface_of_def buffer_of_def positioner_of_def region_of_def wl_of_def
  upd_view_def upd_output_def upd_surface_def upd_buffer_def upd_comp_def emit_def fail_def

lemma sample_seat [simp]:
  "w_seat world_blank = seat_blank" "w_seat (put_output h o1 w) = w_seat w" "w_seat (put_view h v1 w) = w_seat w"
  "w_seat (put_res r1 d1 wl w) = w_seat w"
  by (simp_all add: world_blank_def put_output_def put_view_def put_res_def)

lemma world_blank_of [simp]:
  "view_of world_blank h = None" "output_of world_blank h = None" "surface_of world_blank h = None"
  "buffer_of world_blank h = None" "positioner_of world_blank h = None" "region_of world_blank h = None"
  "wl_of world_blank h k = 0" "w_trace world_blank = []" "w_faults world_blank = []"
  by (simp_all add: world_blank_def sample_access)

lemma put_output_of [simp]:
  "output_of (put_output h x w) r = (if r = h \<and> h \<noteq> 0 then Some x else output_of w r)"
  "view_of (put_output h x w) r = view_of w r" "surface_of (put_output h x w) r = surface_of w r"
  "buffer_of (put_output h x w) r = buffer_of w r" "wl_of (put_output h x w) r k = wl_of w r k"
  "positioner_of (put_output h x w) r = positioner_of w r"
  "w_trace (put_output h x w) = w_trace w" "w_faults (put_output h x w) = w_faults w"
  "w_comp (put_output h x w) = w_comp w" "w_active (put_output h x w) = w_active w"
  by (simp_all add: put_output_def sample_access)

lemma put_view_of [simp]:
  "view_of (put_view h x w) r = (if r = h \<and> h \<noteq> 0 then Some x else view_of w r)"
  "output_of (put_view h x w) r = output_of w r" "surface_of (put_view h x w) r = surface_of w r"
  "buffer_of (put_view h x w) r = buffer_of w r" "wl_of (put_view h x w) r k = wl_of w r k"
  "positioner_of (put_view h x w) r = positioner_of w r"
  "w_trace (put_view h x w) = w_trace w" "w_faults (put_view h x w) = w_faults w"
  "w_comp (put_view h x w) = w_comp w" "w_active (put_view h x w) = w_active w"
  by (simp_all add: put_view_def sample_access)

lemma put_res_of [simp]:
  "view_of (put_res h d l w) r = view_of w r" "output_of (put_res h d l w) r = output_of w r"
  "surface_of (put_res h d l w) r =
     (if r = h \<and> h \<noteq> 0 then (case d of R_surface s \<Rightarrow> Some s | _ \<Rightarrow> None) else surface_of w r)"
  "buffer_of (put_res h d l w) r =
     (if r = h \<and> h \<noteq> 0 then (case d of R_buffer s \<Rightarrow> Some s | _ \<Rightarrow> None) else buffer_of w r)"
  "positioner_of (put_res h d l w) r =
     (if r = h \<and> h \<noteq> 0 then (case d of R_xdg_positioner s \<Rightarrow> Some s | _ \<Rightarrow> None) else positioner_of w r)"
  "wl_of (put_res h d l w) r k = (if r = h \<and> h \<noteq> 0 then (if res_name d = k then l else 0) else wl_of w r k)"
  "w_trace (put_res h d l w) = w_trace w" "w_faults (put_res h d l w) = w_faults w"
  "w_comp (put_res h d l w) = w_comp w" "w_active (put_res h d l w) = w_active w"
  by (auto simp: put_res_def sample_access split: res_data.splits)

lemma env_ref_keeps: "env_keeps env_ref P"
  by (simp add: env_keeps_def keeps1_def keeps1r_def keeps2_def keeps2r_def keeps3_def)

end
