(* ===== verification/Attach.thy ===== *)
theory Attach
  imports Bounds Sample
begin

text \<open>
  Where a surface meets an output: the repaint request of an output, the surfaces attached to it, and
  the size and transform a surface gets when a buffer is attached (src/compositor/output.c,
  src/resources/types/surface.c). The last section states what these operations leave alone: they write
  the attachment of surfaces, the surface lists and the repaint flags of outputs, and nothing of the
  stacks of views.
\<close>

section \<open>Repaint requests\<close>

definition wlc_output_schedule_repaint :: "nat \<Rightarrow> world \<Rightarrow> world" where
  "wlc_output_schedule_repaint oid w =
     (case output_of w oid of
        None \<Rightarrow> w
      | Some ou \<Rightarrow>
          let w = upd_output oid (\<lambda>x. x\<lparr>o_activity := True\<rparr>) w in
          if o_scheduled ou then w
          else emit (Timer_update oid 1) (upd_output oid (\<lambda>x. x\<lparr>o_scheduled := True\<rparr>) w))"

definition cancel_repaint :: "nat \<Rightarrow> world \<Rightarrow> world" where
  "cancel_repaint oid w =
     upd_output oid (\<lambda>x. x\<lparr>o_scheduled := False, o_activity := False\<rparr>) (emit (Timer_update oid 0) w)"

definition wlc_view_update :: "nat \<Rightarrow> world \<Rightarrow> world" where
  "wlc_view_update vid w =
     (case view_of w vid of
        None \<Rightarrow> fail Null_pointer w
      | Some v \<Rightarrow>
          if v_pending v = v_commit v then w
          else wlc_output_schedule_repaint (wlc_view_get_output_ptr w vid) w)"

section \<open>The surfaces of an output\<close>

definition wlc_output_surface_destroy :: "env \<Rightarrow> nat \<Rightarrow> nat \<Rightarrow> world \<Rightarrow> world" where
  "wlc_output_surface_destroy E oid sid w =
     (if output_of w oid = None then w
      else
        let w = (if map_option sf_output (surface_of w sid) = Some oid then w else fail Assertion w);
            w = emit (Rd_surface_destroy oid sid) w;
            w = upd_surface sid (\<lambda>s. s\<lparr>sf_output := 0\<rparr>) w;
            w = wlc_output_schedule_repaint oid w
        in upd_output oid (\<lambda>x. x\<lparr>o_surfaces := pool_remove_first (hp E) sid (o_surfaces x)\<rparr>) w)"

definition wlc_surface_invalidate :: "env \<Rightarrow> nat \<Rightarrow> world \<Rightarrow> world" where
  "wlc_surface_invalidate E sid w =
     (case surface_of w sid of
        None \<Rightarrow> w
      | Some s \<Rightarrow> wlc_output_surface_destroy E (sf_output s) sid w)"

text \<open>The renderer uploads the buffer; it may learn the size and the orientation of the buffer while it
  does.\<close>

definition wlc_render_surface_attach :: "env \<Rightarrow> nat \<Rightarrow> nat \<Rightarrow> nat \<Rightarrow> world \<Rightarrow> bool \<times> world" where
  "wlc_render_surface_attach E oid sid bid w =
     (let (ok, bsz, inverted) = ext_render_attach E oid sid bid w;
          w = upd_buffer bid (\<lambda>b. b\<lparr>bf_size := bsz, bf_y_inverted := inverted\<rparr>) w
      in (ok, emit (Rd_surface_attach oid sid bid) w))"

definition wlc_output_surface_attach :: "env \<Rightarrow> nat \<Rightarrow> nat \<Rightarrow> nat \<Rightarrow> world \<Rightarrow> bool \<times> world" where
  "wlc_output_surface_attach E oid sid bid w =
     (if output_of w oid = None then (False, w)
      else
        let new_surface = (map_option sf_output (surface_of w sid) \<noteq> Some oid);
            w = (if new_surface
                 then upd_surface sid (\<lambda>s. s\<lparr>sf_output := oid\<rparr>) (wlc_surface_invalidate E sid w) else w);
            (ok, w) = wlc_render_surface_attach E oid sid bid w
        in
        if \<not> ok then (False, upd_surface sid (\<lambda>s. s\<lparr>sf_output := 0\<rparr>) w)
        else if new_surface then
          (case push_back (hp E) (case output_of w oid of None \<Rightarrow> [] | Some x \<Rightarrow> o_surfaces x) sid of
             None \<Rightarrow> (False, wlc_surface_invalidate E sid w)
           | Some l \<Rightarrow> (True, wlc_output_schedule_repaint oid (upd_output oid (\<lambda>x. x\<lparr>o_surfaces := l\<rparr>) w)))
        else (True, wlc_output_schedule_repaint oid w))"

section \<open>Attaching a buffer\<close>

text \<open>The size a surface takes from its buffer. A floating point division by zero, an infinity in C, and
  an integer one, which traps, are recorded as faults.\<close>

definition attached_size :: "wlc_size \<Rightarrow> int \<Rightarrow> wlc_size" where
  "attached_size bsz sc =
     (let m = wlc_size_max bsz \<lparr>sw = 1, sh = 1\<rparr>
      in \<lparr>sw = sw m div u32_of_i32 sc, sh = sh m div u32_of_i32 sc\<rparr>)"

definition attached_transform :: "env \<Rightarrow> nat \<Rightarrow> wlc_size \<Rightarrow> world \<Rightarrow> world" where
  "attached_transform E sid ssz w =
     (case surface_of w sid of
        None \<Rightarrow> w
      | Some s \<Rightarrow>
          (case view_of w (sf_view s) of
             None \<Rightarrow> upd_surface sid (\<lambda>s. s\<lparr>sf_transform_w := 1, sf_transform_h := 1\<rparr>) w
           | Some v \<Rightarrow>
               let (ok, g, area) = wlc_view_get_bounds E w v;
                   w = (if ok then w else fail Assertion w)
               in case area of
                    None \<Rightarrow> fail Uninitialised w
                  | Some area \<Rightarrow>
                      let w = (if sw ssz = 0 \<or> sh ssz = 0 then fail Division_by_zero w else w)
                      in upd_surface sid (\<lambda>s. s\<lparr>sf_transform_w := flt_div E (sw (gsize area)) (sw ssz),
                                              sf_transform_h := flt_div E (sh (gsize area)) (sh ssz)\<rparr>) w))"

definition inherited_transform :: "env \<Rightarrow> nat \<Rightarrow> world \<Rightarrow> world" where
  "inherited_transform E sid w =
     (case surface_of w sid of
        None \<Rightarrow> w
      | Some s \<Rightarrow>
          (case surface_of w (sf_parent s) of
             None \<Rightarrow> w
           | Some p \<Rightarrow>
               upd_surface sid (\<lambda>s. s\<lparr>sf_transform_w := dbl E (sf_transform_w s * sf_transform_w p),
                                       sf_transform_h := dbl E (sf_transform_h s * sf_transform_h p)\<rparr>) w))"

definition wlc_surface_attach_to_output :: "env \<Rightarrow> nat \<Rightarrow> nat \<Rightarrow> nat \<Rightarrow> world \<Rightarrow> bool \<times> world" where
  "wlc_surface_attach_to_output E sid oid bid w =
     (if output_of w oid = None \<or> surface_of w sid = None then (False, w)
      else
        let (ok, w) = wlc_output_surface_attach E oid sid bid w in
        if \<not> ok then (False, w)
        else
          let bsz = (case buffer_of w bid of None \<Rightarrow> wlc_size_zero | Some b \<Rightarrow> bf_size b);
              sc = (case surface_of w sid of None \<Rightarrow> 1 | Some s \<Rightarrow> ss_scale (sf_commit s));
              w = (if u32_of_i32 sc = 0 then fail Division_by_zero w else w);
              ssz = attached_size bsz sc;
              w = upd_surface sid (\<lambda>s. s\<lparr>sf_size := ssz\<rparr>) w;
              w = attached_transform E sid ssz w;
              w = inherited_transform E sid w
          in (True, upd_surface sid (\<lambda>s. s\<lparr>sf_commit := (sf_commit s)\<lparr>ss_attached := (bid \<noteq> 0)\<rparr>\<rparr>) w))"

definition attach_view :: "env \<Rightarrow> nat \<Rightarrow> nat \<Rightarrow> world \<Rightarrow> bool \<times> world" where
  "attach_view E oid vid w =
     (case view_of w vid of
        None \<Rightarrow> (False, w)
      | Some v \<Rightarrow>
          if output_of w oid = None \<or> surface_of w (v_surface v) = None then (False, w)
          else
            let bid = wlc_surface_get_buffer w (surface_of w (v_surface v)) in
            if bid = 0 then (False, w) else wlc_surface_attach_to_output E (v_surface v) oid bid w)"

section \<open>What these operations leave alone\<close>

text \<open>\<open>att_erase\<close> blanks the fields they write. Two worlds with the same erasure agree on everything else.\<close>

definition erase_output :: "wlc_output \<Rightarrow> wlc_output" where
  "erase_output x = x\<lparr>o_surfaces := [], o_activity := False, o_scheduled := False\<rparr>"

definition erase_surface :: "wlc_surface \<Rightarrow> wlc_surface" where
  "erase_surface s =
     s\<lparr>sf_output := 0, sf_size := wlc_size_zero, sf_transform_w := 1, sf_transform_h := 1,
       sf_commit := (sf_commit s)\<lparr>ss_attached := False\<rparr>\<rparr>"

definition erase_buffer :: "wlc_buffer \<Rightarrow> wlc_buffer" where
  "erase_buffer b = b\<lparr>bf_size := wlc_size_zero, bf_y_inverted := False\<rparr>"

fun erase_data :: "res_data \<Rightarrow> res_data" where
  "erase_data (R_surface s) = R_surface (erase_surface s)"
| "erase_data (R_buffer b) = R_buffer (erase_buffer b)"
| "erase_data d = d"

definition erase_entry :: "res_entry \<Rightarrow> res_entry" where
  "erase_entry e = e\<lparr>re_data := erase_data (re_data e)\<rparr>"

definition att_erase :: "world \<Rightarrow> world" where
  "att_erase w =
     w\<lparr>w_outputs := (\<lambda>h. map_option erase_output (w_outputs w h)),
       w_res := (\<lambda>r. map_option erase_entry (w_res w r)), w_trace := [], w_faults := []\<rparr>"

lemma res_name_erase_data [simp]: "res_name (erase_data d) = res_name d"
  by (cases d) simp_all

lemma att_erase_emit [frame_simps]: "att_erase (emit e w) = att_erase w"
  by (simp add: att_erase_def emit_def)

lemma att_erase_fail [frame_simps]: "att_erase (fail e w) = att_erase w"
  by (simp add: att_erase_def fail_def)

lemma att_erase_upd_output:
  "(\<And>x. erase_output (f x) = erase_output x) \<Longrightarrow> att_erase (upd_output h f w) = att_erase w"
  by (simp add: att_erase_def upd_output_def fun_eq_iff option.map_comp o_def cong: option.map_cong)

lemma att_erase_upd_surface:
  assumes "\<And>s. erase_surface (f s) = erase_surface s"
  shows "att_erase (upd_surface r f w) = att_erase w"
proof -
  have "erase_entry (map_surface f e) = erase_entry e" for e
    using assms by (cases "re_data e") (simp_all add: erase_entry_def)
  then show ?thesis
    by (simp add: att_erase_def upd_surface_def fun_eq_iff option.map_comp o_def cong: option.map_cong)
qed

lemma att_erase_upd_buffer:
  assumes "\<And>s. erase_buffer (f s) = erase_buffer s"
  shows "att_erase (upd_buffer r f w) = att_erase w"
proof -
  have "erase_entry (map_buffer f e) = erase_entry e" for e
    using assms by (cases "re_data e") (simp_all add: erase_entry_def)
  then show ?thesis
    by (simp add: att_erase_def upd_buffer_def fun_eq_iff option.map_comp o_def cong: option.map_cong)
qed

lemmas att_erase_upd = att_erase_upd_output att_erase_upd_surface att_erase_upd_buffer

lemma att_erase_schedule_repaint [frame_simps]: "att_erase (wlc_output_schedule_repaint oid w) = att_erase w"
  by (simp add: wlc_output_schedule_repaint_def att_erase_upd frame_simps erase_output_def Let_def split: option.split)

lemma att_erase_view_update [frame_simps]: "att_erase (wlc_view_update vid w) = att_erase w"
  by (simp add: wlc_view_update_def frame_simps split: option.split)

lemma att_erase_output_surface_destroy [frame_simps]:
  "att_erase (wlc_output_surface_destroy E oid sid w) = att_erase w"
  by (simp add: wlc_output_surface_destroy_def att_erase_upd frame_simps erase_output_def erase_surface_def Let_def)

lemma att_erase_surface_invalidate [frame_simps]: "att_erase (wlc_surface_invalidate E sid w) = att_erase w"
  by (simp add: wlc_surface_invalidate_def frame_simps split: option.split)

lemma att_erase_render_surface_attach [frame_simps]:
  "att_erase (snd (wlc_render_surface_attach E oid sid bid w)) = att_erase w"
  by (simp add: wlc_render_surface_attach_def Let_def att_erase_upd frame_simps erase_buffer_def split: prod.split)

lemma att_erase_output_surface_attach [frame_simps]:
  "att_erase (snd (wlc_output_surface_attach E oid sid bid w)) = att_erase w"
  by (simp add: wlc_output_surface_attach_def Let_def case_prod_beta att_erase_upd frame_simps
      erase_surface_def erase_output_def split: option.split)

lemma att_erase_attached_transform [frame_simps]: "att_erase (attached_transform E sid ssz w) = att_erase w"
  by (simp add: attached_transform_def Let_def case_prod_beta att_erase_upd frame_simps
      erase_surface_def split: option.split)

lemma att_erase_inherited_transform [frame_simps]: "att_erase (inherited_transform E sid w) = att_erase w"
  by (simp add: inherited_transform_def att_erase_upd erase_surface_def split: option.split)

lemma att_erase_surface_attach_to_output [frame_simps]:
  "att_erase (snd (wlc_surface_attach_to_output E sid oid bid w)) = att_erase w"
  by (simp add: wlc_surface_attach_to_output_def Let_def case_prod_beta att_erase_upd frame_simps
      erase_surface_def)

lemma att_erase_attach_view [frame_simps]: "att_erase (snd (attach_view E oid vid w)) = att_erase w"
  by (simp add: attach_view_def Let_def frame_simps split: option.split)

lemma att_erase_tree_transform [frame_simps]:
  "att_erase (surface_tree_update_coordinate_transform E sid area w) = att_erase w"
proof -
  have one: "att_erase (surface_update_coordinate_transform E c area w) = att_erase w" for c w
    by (simp add: surface_update_coordinate_transform_def att_erase_upd erase_surface_def split: option.split)
  have "att_erase (fold (\<lambda>c. surface_update_coordinate_transform E c area) cs w) = att_erase w" for cs w
    by (induction cs arbitrary: w) (simp_all add: one)
  then show ?thesis
    by (simp add: surface_tree_update_coordinate_transform_def Let_def one split: option.split)
qed

text \<open>What equal erasures give.\<close>

lemma erase_entry_fields: "re_data (erase_entry e) = erase_data (re_data e)" "re_wl (erase_entry e) = re_wl e"
  by (simp_all add: erase_entry_def)

lemma erase_entry_eqD:
  "erase_entry e' = erase_entry e \<Longrightarrow> erase_data (re_data e') = erase_data (re_data e) \<and> re_wl e' = re_wl e"
  by (metis erase_entry_fields)

lemma att_erase_eqD:
  assumes "att_erase w' = att_erase w"
  shows "view_of w' = view_of w" "positioner_of w' = positioner_of w" "region_of w' = region_of w"
    and "wl_of w' = wl_of w" "w_comp w' = w_comp w" "w_udata w' = w_udata w" "w_active w' = w_active w"
    and "w_serial w' = w_serial w" "w_rendering_output w' = w_rendering_output w" "w_views w' = w_views w"
    and "map_option erase_output (output_of w' h) = map_option erase_output (output_of w h)"
    and "map_option erase_surface (surface_of w' r) = map_option erase_surface (surface_of w r)"
    and "map_option erase_buffer (buffer_of w' r) = map_option erase_buffer (buffer_of w r)"
proof -
  note a = arg_cong [OF assms]
  have v: "w_views w' = w_views w" using a [of w_views] by (simp add: att_erase_def)
  then show "w_views w' = w_views w" "view_of w' = view_of w" by (auto simp: view_of_def)
  show "w_comp w' = w_comp w" "w_udata w' = w_udata w" "w_active w' = w_active w"
    "w_serial w' = w_serial w" "w_rendering_output w' = w_rendering_output w"
    using a [of w_comp] a [of w_udata] a [of w_active] a [of w_serial] a [of w_rendering_output]
    by (simp_all add: att_erase_def)
  have o: "map_option erase_output (w_outputs w' h) = map_option erase_output (w_outputs w h)" for h
    using fun_cong [OF a [of w_outputs]] by (simp add: att_erase_def)
  then show "map_option erase_output (output_of w' h) = map_option erase_output (output_of w h)"
    by (simp add: output_of_def)
  have r: "map_option erase_entry (w_res w' r) = map_option erase_entry (w_res w r)" for r
    using fun_cong [OF a [of w_res]] by (simp add: att_erase_def)
  have rr: "(w_res w' r = None \<and> w_res w r = None) \<or>
      (\<exists>e' e. w_res w' r = Some e' \<and> w_res w r = Some e \<and> erase_data (re_data e') = erase_data (re_data e) \<and> re_wl e' = re_wl e)" for r
    using r [of r] by (cases "w_res w' r"; cases "w_res w r") (auto dest: erase_entry_eqD)
  have nm: "erase_data d' = erase_data d \<Longrightarrow> res_name d' = res_name d" for d d'
    by (metis res_name_erase_data)
  show "wl_of w' = wl_of w"
  proof (intro ext)
    show "wl_of w' r k = wl_of w r k" for r k
      using rr [of r] by (auto simp: wl_of_def dest: nm)
  qed
  show "positioner_of w' = positioner_of w"
  proof
    show "positioner_of w' r = positioner_of w r" for r
      using rr [of r] by (auto simp: positioner_of_def split: res_data.splits)
  qed
  show "region_of w' = region_of w"
  proof
    show "region_of w' r = region_of w r" for r
      using rr [of r] by (auto simp: region_of_def split: res_data.splits)
  qed
  show "map_option erase_surface (surface_of w' r) = map_option erase_surface (surface_of w r)"
    using rr [of r] by (auto simp: surface_of_def split: res_data.splits)
  show "map_option erase_buffer (buffer_of w' r) = map_option erase_buffer (buffer_of w r)"
    using rr [of r] by (auto simp: buffer_of_def split: res_data.splits)
qed

lemma att_erase_output_fields:
  assumes "att_erase w' = att_erase w"
  shows "map_option o_views (output_of w' h) = map_option o_views (output_of w h)"
    and "map_option o_mutable (output_of w' h) = map_option o_mutable (output_of w h)"
    and "map_option o_bsurface (output_of w' h) = map_option o_bsurface (output_of w h)"
    and "map_option o_pending (output_of w' h) = map_option o_pending (output_of w h)"
    and "output_of w' h = None \<longleftrightarrow> output_of w h = None"
    and "surface_of w' r = None \<longleftrightarrow> surface_of w r = None"
    and "buffer_of w' r = None \<longleftrightarrow> buffer_of w r = None"
proof -
  have f: "o_views x = o_views (erase_output x)" "o_mutable x = o_mutable (erase_output x)"
    "o_bsurface x = o_bsurface (erase_output x)" "o_pending x = o_pending (erase_output x)" for x
    by (simp_all add: erase_output_def)
  note m = att_erase_eqD(11) [OF assms, of h]
  have g: "map_option f (output_of w' h) = map_option f (output_of w h)"
    if "\<And>x. f x = f (erase_output x)" for f :: "wlc_output \<Rightarrow> 'a"
    using m that by (cases "output_of w' h"; cases "output_of w h") (auto, metis)
  show "map_option o_views (output_of w' h) = map_option o_views (output_of w h)"
    "map_option o_mutable (output_of w' h) = map_option o_mutable (output_of w h)"
    "map_option o_bsurface (output_of w' h) = map_option o_bsurface (output_of w h)"
    "map_option o_pending (output_of w' h) = map_option o_pending (output_of w h)"
    by (intro g f)+
  show "output_of w' h = None \<longleftrightarrow> output_of w h = None"
    "surface_of w' r = None \<longleftrightarrow> surface_of w r = None" "buffer_of w' r = None \<longleftrightarrow> buffer_of w r = None"
    using m att_erase_eqD(12,13) [OF assms, of r] by (metis map_option_is_None)+
qed

section \<open>Surfaces and the lists of the outputs\<close>

text \<open>A surface that names a live output is on the list of that output. (The converse does not hold: the
  list keeps the entry of a surface whose renderer upload failed.)\<close>

definition surfaces_listed :: "world \<Rightarrow> bool" where
  "surfaces_listed w \<longleftrightarrow>
     (\<forall>sid s x. surface_of w sid = Some s \<longrightarrow> output_of w (sf_output s) = Some x \<longrightarrow> sid \<in> set (o_surfaces x))"

lemma surfaces_listedD:
  "surfaces_listed w \<Longrightarrow> surface_of w sid = Some s \<Longrightarrow> output_of w (sf_output s) = Some x \<Longrightarrow> sid \<in> set (o_surfaces x)"
  by (simp add: surfaces_listed_def)

text \<open>The assignments in between, at a surface \<open>sid\<close> the invariant may not hold of.\<close>

definition listed_but :: "nat \<Rightarrow> world \<Rightarrow> bool" where
  "listed_but sid w \<longleftrightarrow>
     (\<forall>r s x. surface_of w r = Some s \<longrightarrow> output_of w (sf_output s) = Some x \<longrightarrow> r \<noteq> sid \<longrightarrow> r \<in> set (o_surfaces x))"

lemma surfaces_listed_iff:
  "surfaces_listed w \<longleftrightarrow> listed_but sid w \<and>
     (\<forall>s x. surface_of w sid = Some s \<longrightarrow> output_of w (sf_output s) = Some x \<longrightarrow> sid \<in> set (o_surfaces x))"
  unfolding surfaces_listed_def listed_but_def by metis

lemma listed_but_simps [simp]:
  "listed_but sid (emit e w) = listed_but sid w" "listed_but sid (fail f w) = listed_but sid w"
  "listed_but sid (upd_buffer b g w) = listed_but sid w" "listed_but sid (upd_surface sid h w) = listed_but sid w"
  by (simp_all add: listed_but_def) (metis (no_types, lifting))

lemma listed_but_upd_output:
  assumes "listed_but sid w" "\<And>x. set (o_surfaces x) - {sid} \<subseteq> set (o_surfaces (f x))"
  shows "listed_but sid (upd_output oid f w)"
  using assms unfolding listed_but_def by (auto split: if_splits) blast+

lemma listed_but_schedule [simp]: "listed_but sid w \<Longrightarrow> listed_but sid (wlc_output_schedule_repaint oid w)"
  by (auto simp: wlc_output_schedule_repaint_def Let_def intro!: listed_but_upd_output split: option.split)

lemma schedule_surfaces [simp]:
  "surface_of (wlc_output_schedule_repaint oid w) r = surface_of w r"
  "map_option o_surfaces (output_of (wlc_output_schedule_repaint oid w) h) = map_option o_surfaces (output_of w h)"
  by (auto simp: wlc_output_schedule_repaint_def Let_def option.map_comp o_def split: option.split)

lemma listed_but_destroy:
  assumes "pool_ops_ok (hp E)" "listed_but sid w"
  shows "listed_but sid (wlc_output_surface_destroy E oid sid w)"
  using assms by (auto simp: wlc_output_surface_destroy_def Let_def pool_remove_first_eq
      intro!: listed_but_upd_output) (metis in_set_remove1)+

lemma listed_but_invalidate:
  "pool_ops_ok (hp E) \<Longrightarrow> listed_but sid w \<Longrightarrow> listed_but sid (wlc_surface_invalidate E sid w)"
  by (simp add: wlc_surface_invalidate_def listed_but_destroy split: option.split)

lemma invalidate_output:
  "surface_of (wlc_surface_invalidate E sid w) sid = Some s \<Longrightarrow> output_of (wlc_surface_invalidate E sid w) (sf_output s) = None"
  by (auto simp: wlc_surface_invalidate_def wlc_output_surface_destroy_def Let_def split: option.splits if_splits)

lemma schedule_listed: "surfaces_listed w \<Longrightarrow> surfaces_listed (wlc_output_schedule_repaint oid w)"
  by (auto simp: wlc_output_schedule_repaint_def Let_def surfaces_listed_def split: option.split if_splits)

lemma listed_but_push:
  assumes "pool_ops_ok P" "push_back P (case output_of w oid of None \<Rightarrow> [] | Some x \<Rightarrow> o_surfaces x) sid = Some l"
    and "listed_but sid w"
  shows "listed_but sid (upd_output oid (\<lambda>x. x\<lparr>o_surfaces := l\<rparr>) w)"
  using assms(3) pool_ops_okD(1) [OF assms(1,2)]
  unfolding listed_but_def by (auto split: if_splits option.splits)

lemma render_attach_frame [simp]:
  "listed_but sid (snd (wlc_render_surface_attach E oid r bid w)) = listed_but sid w"
  "surface_of (snd (wlc_render_surface_attach E oid r bid w)) h = surface_of w h"
  "output_of (snd (wlc_render_surface_attach E oid r bid w)) h = output_of w h"
  by (simp_all add: wlc_render_surface_attach_def Let_def case_prod_beta)

text \<open>The stages of \<open>wlc_output_surface_attach\<close>: \<open>w2\<close> is the world after the upload.\<close>

lemma output_surface_attach_stages:
  assumes "output_of w oid = Some o0"
  obtains new w1 w2 ok where
    "new \<longleftrightarrow> map_option sf_output (surface_of w sid) \<noteq> Some oid"
    "w1 = (if new then upd_surface sid (\<lambda>s. s\<lparr>sf_output := oid\<rparr>) (wlc_surface_invalidate E sid w) else w)"
    "wlc_render_surface_attach E oid sid bid w1 = (ok, w2)"
    "wlc_output_surface_attach E oid sid bid w =
     (if \<not> ok then (False, upd_surface sid (\<lambda>s. s\<lparr>sf_output := 0\<rparr>) w2)
      else if new then
        (case push_back (hp E) (case output_of w2 oid of None \<Rightarrow> [] | Some x \<Rightarrow> o_surfaces x) sid of
           None \<Rightarrow> (False, wlc_surface_invalidate E sid w2)
         | Some l \<Rightarrow> (True, wlc_output_schedule_repaint oid (upd_output oid (\<lambda>x. x\<lparr>o_surfaces := l\<rparr>) w2)))
      else (True, wlc_output_schedule_repaint oid w2))"
proof -
  define new where "new = (map_option sf_output (surface_of w sid) \<noteq> Some oid)"
  define w1 where "w1 = (if new then upd_surface sid (\<lambda>s. s\<lparr>sf_output := oid\<rparr>) (wlc_surface_invalidate E sid w) else w)"
  obtain ok w2 where r: "wlc_render_surface_attach E oid sid bid w1 = (ok, w2)" by fastforce
  show ?thesis
    by (rule that [of new w1 ok w2])
       (use assms r in \<open>simp_all add: wlc_output_surface_attach_def Let_def w1_def new_def\<close>)
qed

lemma render_attach_frame':
  assumes "wlc_render_surface_attach E oid sid bid w1 = (ok, w2)"
  shows "surface_of w2 h = surface_of w1 h" "output_of w2 h = output_of w1 h" "listed_but sid w2 = listed_but sid w1"
  using render_attach_frame(1) [of sid E oid sid bid w1] render_attach_frame(2,3) [of E oid sid bid w1] assms
  by simp_all

lemma output_surface_attach_pushed:
  assumes P: "pool_ops_ok (hp E)" and l: "listed_but sid w2"
    and s: "\<And>s. surface_of w2 sid = Some s \<Longrightarrow> sf_output s = oid"
    and push: "push_back (hp E) (case output_of w2 oid of None \<Rightarrow> [] | Some x \<Rightarrow> o_surfaces x) sid = Some l"
  shows "surfaces_listed (upd_output oid (\<lambda>x. x\<lparr>o_surfaces := l\<rparr>) w2)"
proof -
  have "sid \<in> set l" using pool_ops_okD(1) [OF P push] by simp
  then show ?thesis
    using listed_but_push [OF P push l] s by (auto simp: surfaces_listed_iff [of _ sid])
qed

lemma output_surface_attach_listed:
  assumes P: "pool_ops_ok (hp E)" and l: "surfaces_listed w"
  shows "surfaces_listed (snd (wlc_output_surface_attach E oid sid bid w))"
proof (cases "output_of w oid")
  case None
  then show ?thesis using l by (simp add: wlc_output_surface_attach_def)
next
  case (Some o0)
  from this obtain new w1 w2 ok where st:
    "new \<longleftrightarrow> map_option sf_output (surface_of w sid) \<noteq> Some oid"
    "w1 = (if new then upd_surface sid (\<lambda>s. s\<lparr>sf_output := oid\<rparr>) (wlc_surface_invalidate E sid w) else w)"
    "wlc_render_surface_attach E oid sid bid w1 = (ok, w2)"
    and eq: "wlc_output_surface_attach E oid sid bid w =
     (if \<not> ok then (False, upd_surface sid (\<lambda>s. s\<lparr>sf_output := 0\<rparr>) w2)
      else if new then
        (case push_back (hp E) (case output_of w2 oid of None \<Rightarrow> [] | Some x \<Rightarrow> o_surfaces x) sid of
           None \<Rightarrow> (False, wlc_surface_invalidate E sid w2)
         | Some l \<Rightarrow> (True, wlc_output_schedule_repaint oid (upd_output oid (\<lambda>x. x\<lparr>o_surfaces := l\<rparr>) w2)))
      else (True, wlc_output_schedule_repaint oid w2))"
    by (rule output_surface_attach_stages)
  note rf = render_attach_frame' [OF st(3)]
  have l2: "listed_but sid w2"
    using l listed_but_invalidate [OF P] by (simp add: rf st(2) surfaces_listed_iff [of _ sid])
  have keep: "surfaces_listed w2" if "\<not> new"
    using that l2 l by (simp add: rf st(2) surfaces_listed_iff [of _ sid])
  have failed: "surfaces_listed (upd_surface sid (\<lambda>s. s\<lparr>sf_output := 0\<rparr>) w2)"
    using l2 by (auto simp: surfaces_listed_iff [of _ sid])
  have full: "surfaces_listed (wlc_surface_invalidate E sid w2)"
    using listed_but_invalidate [OF P l2] invalidate_output by (simp add: surfaces_listed_iff [of _ sid])
  have "sf_output s = oid" if new "surface_of w2 sid = Some s" for s
    using that by (auto simp: rf st(2))
  note pushed = output_surface_attach_pushed [OF P l2 this]
  show ?thesis unfolding eq
    using failed full pushed keep schedule_listed
    by (cases "push_back (hp E) (case output_of w2 oid of None \<Rightarrow> [] | Some x \<Rightarrow> o_surfaces x) sid")
       (simp_all del: listed_but_simps)
qed

lemma surfaces_listed_simps [simp]:
  "surfaces_listed (emit e w) = surfaces_listed w" "surfaces_listed (fail f w) = surfaces_listed w"
  by (simp_all add: surfaces_listed_def)

lemma surfaces_listed_upd_surface:
  "(\<And>s. sf_output (f s) = sf_output s) \<Longrightarrow> surfaces_listed w \<Longrightarrow> surfaces_listed (upd_surface r f w)"
  by (auto simp: surfaces_listed_def)

lemma attached_transform_frame:
  "output_of (attached_transform E sid ssz w) h = output_of w h"
  "buffer_of (attached_transform E sid ssz w) r = buffer_of w r"
  "surfaces_listed w \<Longrightarrow> surfaces_listed (attached_transform E sid ssz w)"
  "map_option sf_size (surface_of (attached_transform E sid ssz w) r) = map_option sf_size (surface_of w r)"
  "map_option sf_output (surface_of (attached_transform E sid ssz w) r) = map_option sf_output (surface_of w r)"
  "map_option sf_commit (surface_of (attached_transform E sid ssz w) r) = map_option sf_commit (surface_of w r)"
  unfolding attached_transform_def Let_def case_prod_beta
  by (auto simp del: surface_of_upd_surface intro: surfaces_listed_upd_surface
      simp add: surfaces.field_upd split: option.split)

lemma inherited_transform_frame:
  "output_of (inherited_transform E sid w) h = output_of w h"
  "buffer_of (inherited_transform E sid w) r = buffer_of w r"
  "surfaces_listed w \<Longrightarrow> surfaces_listed (inherited_transform E sid w)"
  "map_option sf_size (surface_of (inherited_transform E sid w) r) = map_option sf_size (surface_of w r)"
  "map_option sf_output (surface_of (inherited_transform E sid w) r) = map_option sf_output (surface_of w r)"
  "map_option sf_commit (surface_of (inherited_transform E sid w) r) = map_option sf_commit (surface_of w r)"
  unfolding inherited_transform_def Let_def case_prod_beta
  by (auto simp del: surface_of_upd_surface intro: surfaces_listed_upd_surface
      simp add: surfaces.field_upd split: option.split)

lemma surface_alive:
  "surface_of (wlc_surface_invalidate E sid w) r = None \<longleftrightarrow> surface_of w r = None"
  "output_of (wlc_surface_invalidate E sid w) h = None \<longleftrightarrow> output_of w h = None"
  using att_erase_output_fields [OF att_erase_surface_invalidate [of E sid w]] by auto

lemma schedule_flags:
  "output_of w oid = Some x \<Longrightarrow>
     \<exists>y. output_of (wlc_output_schedule_repaint oid w) oid = Some y \<and> o_activity y \<and> o_scheduled y"
  by (auto simp: wlc_output_schedule_repaint_def Let_def)

lemma output_surface_attach_result:
  assumes P: "pool_ops_ok (hp E)" and l: "surfaces_listed w" and s: "surface_of w sid = Some s"
    and r: "wlc_output_surface_attach E oid sid bid w = (True, w')"
  shows "\<exists>s' x. surface_of w' sid = Some s' \<and> output_of w' oid = Some x \<and> sf_output s' = oid
    \<and> sid \<in> set (o_surfaces x) \<and> o_activity x \<and> o_scheduled x"
proof -
  obtain o0 where o0: "output_of w oid = Some o0"
    using r by (cases "output_of w oid") (auto simp: wlc_output_surface_attach_def)
  from o0 obtain new w1 w2 ok where st:
    "new \<longleftrightarrow> map_option sf_output (surface_of w sid) \<noteq> Some oid"
    "w1 = (if new then upd_surface sid (\<lambda>s. s\<lparr>sf_output := oid\<rparr>) (wlc_surface_invalidate E sid w) else w)"
    "wlc_render_surface_attach E oid sid bid w1 = (ok, w2)"
    and eq: "wlc_output_surface_attach E oid sid bid w =
     (if \<not> ok then (False, upd_surface sid (\<lambda>s. s\<lparr>sf_output := 0\<rparr>) w2)
      else if new then
        (case push_back (hp E) (case output_of w2 oid of None \<Rightarrow> [] | Some x \<Rightarrow> o_surfaces x) sid of
           None \<Rightarrow> (False, wlc_surface_invalidate E sid w2)
         | Some l \<Rightarrow> (True, wlc_output_schedule_repaint oid (upd_output oid (\<lambda>x. x\<lparr>o_surfaces := l\<rparr>) w2)))
      else (True, wlc_output_schedule_repaint oid w2))"
    by (rule output_surface_attach_stages)
  note rf = render_attach_frame' [OF st(3)]
  obtain s1 where s1: "surface_of w1 sid = Some s1" "sf_output s1 = oid"
    using s st(1) surface_alive(1) [of E sid w sid] by (cases new) (auto simp: st(2))
  obtain x1 where x1: "output_of w1 oid = Some x1"
    using o0 surface_alive(2) [of E sid w oid] by (cases new) (auto simp: st(2))
  have "surfaces_listed w'" using output_surface_attach_listed [OF P l, of oid sid bid] r by simp
  moreover have "\<exists>v x. w' = wlc_output_schedule_repaint oid v \<and> surface_of v sid = Some s1 \<and> output_of v oid = Some x"
    using r s1 x1 unfolding eq by (auto simp: rf split: if_splits option.splits)
  ultimately obtain v x y where "surfaces_listed w'" "w' = wlc_output_schedule_repaint oid v"
    "surface_of w' sid = Some s1" "output_of w' oid = Some y" "o_activity y" "o_scheduled y"
    using schedule_flags by fastforce
  then show ?thesis using s1(2) by (auto dest: surfaces_listedD)
qed

text \<open>A successful wlc_surface_attach_to_output leaves the surface on the list of the
  output and of the output, attached exactly when there is a buffer, with the size of the buffer (at
  least 1x1) divided by the committed scale, and a repaint of the output is scheduled; failed or not,
  every surface that names a live output stays on the list of that output.\<close>

theorem attach_to_output_spec:
  assumes "pool_ops_ok (hp E)" and "surfaces_listed w" and "surface_of w sid = Some s"
    and "wlc_surface_attach_to_output E sid oid bid w = (ok, w')"
  shows "surfaces_listed w' \<and>
    (ok \<longrightarrow> (\<exists>s' x. surface_of w' sid = Some s' \<and> output_of w' oid = Some x \<and>
      sf_output s' = oid \<and> sid \<in> set (o_surfaces x) \<and> o_activity x \<and> o_scheduled x \<and>
      ss_attached (sf_commit s') = (bid \<noteq> 0) \<and> ss_scale (sf_commit s') = ss_scale (sf_commit s) \<and>
      sf_size s' = attached_size (case buffer_of w' bid of None \<Rightarrow> wlc_size_zero | Some b \<Rightarrow> bf_size b)
                                 (ss_scale (sf_commit s))))"
proof -
  obtain a v where r: "wlc_output_surface_attach E oid sid bid w = (a, v)" by fastforce
  have lv: "surfaces_listed v" using output_surface_attach_listed [OF assms(1,2), of oid sid bid] r by simp
  have er: "att_erase v = att_erase w" using att_erase_output_surface_attach [of E oid sid bid w] r by simp
  have "map_option (\<lambda>s. ss_scale (sf_commit s)) (surface_of v sid) = Some (ss_scale (sf_commit s))"
  proof -
    have "ss_scale (sf_commit s) = ss_scale (sf_commit (erase_surface s))" for s
      by (simp add: erase_surface_def)
    then show ?thesis
      using att_erase_eqD(12) [OF er, of sid] assms(3) by (cases "surface_of v sid") (auto, metis)
  qed
  then obtain s1 where s1: "surface_of v sid = Some s1" "ss_scale (sf_commit s1) = ss_scale (sf_commit s)" by auto
  consider (early) "ok = False" "w' = w" | (failed) "ok = False" "w' = v"
    | (attached) "a" "ok" "w' = snd (wlc_surface_attach_to_output E sid oid bid w)"
        "output_of w oid \<noteq> None" "surface_of w sid \<noteq> None"
    using assms(4) r by (auto simp: wlc_surface_attach_to_output_def Let_def split: if_splits)
  then show ?thesis
  proof cases
    case attached
    then have ra: "wlc_output_surface_attach E oid sid bid w = (True, v)" using r by simp
    obtain x where x: "output_of v oid = Some x" "sf_output s1 = oid" "sid \<in> set (o_surfaces x)"
      "o_activity x" "o_scheduled x"
      using output_surface_attach_result [OF assms(1,2,3) ra] s1 by auto
    define sc where "sc = ss_scale (sf_commit s)"
    define v1 where "v1 = (if u32_of_i32 sc = 0 then fail Division_by_zero v else v)"
    define ssz where "ssz = attached_size (case buffer_of v bid of None \<Rightarrow> wlc_size_zero | Some b \<Rightarrow> bf_size b) sc"
    define v2 where "v2 = inherited_transform E sid (attached_transform E sid ssz (upd_surface sid (\<lambda>s. s\<lparr>sf_size := ssz\<rparr>) v1))"
    have eq: "w' = upd_surface sid (\<lambda>s. s\<lparr>sf_commit := (sf_commit s)\<lparr>ss_attached := (bid \<noteq> 0)\<rparr>\<rparr>) v2"
      using attached ra s1 by (simp add: wlc_surface_attach_to_output_def Let_def v2_def v1_def ssz_def sc_def)
    note fr = attached_transform_frame inherited_transform_frame
    have v1: "surfaces_listed v1" "surface_of v1 r = surface_of v r" "output_of v1 h = output_of v h"
      "buffer_of v1 r = buffer_of v r" for r h
      using lv by (simp_all add: v1_def)
    have l2: "surfaces_listed v2"
      unfolding v2_def by (intro fr surfaces_listed_upd_surface v1) simp
    have m: "map_option sf_output (surface_of v2 sid) = Some oid" "map_option sf_size (surface_of v2 sid) = Some ssz"
      "map_option sf_commit (surface_of v2 sid) = Some (sf_commit s1)"
      unfolding v2_def fr using s1 x by (simp_all add: v1)
    have b: "buffer_of w' bid = buffer_of v bid" "output_of w' oid = output_of v oid"
      unfolding eq v2_def by (simp_all add: fr v1)
    have "surfaces_listed w'"
      unfolding eq by (rule surfaces_listed_upd_surface [OF _ l2]) simp
    then show ?thesis
      using m b x s1(2) attached(2) unfolding eq
      by (auto simp: ssz_def sc_def)
  qed (use assms lv in simp_all)
qed

definition attach_world :: world where
  "attach_world =
     put_output 1 output_blank (put_res 2 (R_surface surface_blank) 7 (put_res 3 (R_buffer buffer_blank) 8 world_blank))"

theorem attach_to_output_spec_witness:
  "surfaces_listed (snd (wlc_surface_attach_to_output env_ref 2 1 3 attach_world)) \<and>
   fst (wlc_surface_attach_to_output env_ref 2 1 3 attach_world) \<and>
   (\<exists>s x. surface_of (snd (wlc_surface_attach_to_output env_ref 2 1 3 attach_world)) 2 = Some s \<and>
      output_of (snd (wlc_surface_attach_to_output env_ref 2 1 3 attach_world)) 1 = Some x \<and>
      2 \<in> set (o_surfaces x) \<and> sf_output s = 1)"
proof -
  have s: "surface_of attach_world 2 = Some surface_blank" by (simp add: attach_world_def)
  have l: "surfaces_listed attach_world"
    by (auto simp: attach_world_def surfaces_listed_def surface_blank_def split: if_splits)
  have ok: "fst (wlc_surface_attach_to_output env_ref 2 1 3 attach_world)"
    by (simp add: wlc_surface_attach_to_output_def wlc_output_surface_attach_def wlc_render_surface_attach_def
        wlc_surface_invalidate_def wlc_output_surface_destroy_def attach_world_def sample_objects pool_ref_def Let_def)
  show ?thesis
    using attach_to_output_spec [OF _ l s, of env_ref 1 3] ok by (metis env_ref_fields(1) pool_ref_ok prod.collapse)
qed

end
