(* ===== verification/Stacking.thy ===== *)
theory Stacking
  imports Attach
begin

text \<open>
  The stack of views of an output and the operations that move views in it (src/compositor/output.c,
  src/compositor/view.c): linking and unlinking, the public functions that raise and lower a view, the
  wholesale replacement of the stack. \<open>o_views\<close> is the stack from back to front; \<open>o_mutable\<close> is the
  copy the author may reorder.
\<close>

section \<open>Operations\<close>

datatype output_link = LINK_BELOW | LINK_ABOVE

definition remove_from_pool :: "env \<Rightarrow> nat \<Rightarrow> nat list \<Rightarrow> nat list" where
  "remove_from_pool E h xs = pool_remove_first (hp E) h xs"

definition exists_in_pool :: "nat list \<Rightarrow> nat \<Rightarrow> bool" where
  "exists_in_pool xs h = list_ex (\<lambda>x. x = h) xs"

definition wlc_output_unlink_view :: "env \<Rightarrow> nat \<Rightarrow> nat \<Rightarrow> world \<Rightarrow> world" where
  "wlc_output_unlink_view E oid vid w =
     (if output_of w oid = None \<or> wlc_view_get_output_ptr w vid \<noteq> oid then w
      else wlc_output_schedule_repaint oid
             (upd_output oid (\<lambda>x. x\<lparr>o_views := remove_from_pool E vid (o_views x),
                                  o_mutable := remove_from_pool E vid (o_mutable x)\<rparr>) w))"

text \<open>Taking the view off the stack it is on, and putting it on the new one: the latter returns whether it
  could be added.\<close>

definition link_take_off :: "env \<Rightarrow> nat \<Rightarrow> nat \<Rightarrow> nat \<Rightarrow> world \<Rightarrow> world" where
  "link_take_off E old oid vid w =
     (if old = 0 then w
      else upd_output old (\<lambda>x. x\<lparr>o_views := remove_from_pool E vid (o_views x),
             o_mutable := (if old \<noteq> oid then remove_from_pool E vid (o_mutable x) else o_mutable x)\<rparr>) w)"

definition link_put :: "env \<Rightarrow> nat \<Rightarrow> output_link \<Rightarrow> nat \<Rightarrow> nat list \<Rightarrow> nat list option" where
  "link_put E vid link other xs =
     (if other \<noteq> 0 then
        (case index_of other xs of
           None \<Rightarrow> None
         | Some i \<Rightarrow> insert_at (hp E) xs (if link = LINK_ABOVE then Suc i else i) vid)
      else (case link of LINK_ABOVE \<Rightarrow> push_back (hp E) xs vid | LINK_BELOW \<Rightarrow> push_front (hp E) xs vid))"

definition link_mutable :: "env \<Rightarrow> nat \<Rightarrow> nat list \<Rightarrow> nat list" where
  "link_mutable E vid xs = (if exists_in_pool xs vid then xs else pool_push_back (hp E) vid xs)"

definition wlc_output_link_view :: "env \<Rightarrow> nat \<Rightarrow> nat \<Rightarrow> output_link \<Rightarrow> nat \<Rightarrow> world \<Rightarrow> world" where
  "wlc_output_link_view E oid vid link other w =
     (if output_of w oid = None then w
      else
        let old = wlc_view_get_output_ptr w vid;
            w = link_take_off E old oid vid w;
            new = (case output_of w oid of None \<Rightarrow> None | Some x \<Rightarrow> link_put E vid link other (o_views x));
            added = (new \<noteq> None);
            w = upd_output oid (\<lambda>x. x\<lparr>o_views := (case new of None \<Rightarrow> o_views x | Some l \<Rightarrow> l),
                                    o_mutable := link_mutable E vid (o_mutable x)\<rparr>) w;
            created = (case view_of w vid of None \<Rightarrow> False | Some v \<Rightarrow> v_created v);
            w = (if old \<noteq> oid \<and> created
                 then call3 (if_view_move_to_output (iface E)) vid old (if added then oid else 0) w else w)
        in if \<not> added then w
           else wlc_output_schedule_repaint oid (snd (attach_view E oid vid w)))"

definition wlc_output_set_views_ptr :: "env \<Rightarrow> nat \<Rightarrow> nat list \<Rightarrow> world \<Rightarrow> bool \<times> world" where
  "wlc_output_set_views_ptr E oid views w =
     (case output_of w oid of
        None \<Rightarrow> (False, w)
      | Some x \<Rightarrow>
          (case set_c_array (hp E) (o_views x) views of
             None \<Rightarrow> (False, w)
           | Some l \<Rightarrow>
               let w = upd_output oid (\<lambda>x. x\<lparr>o_views := l\<rparr>) w in
               (case set_c_array (hp E) (o_mutable x) views of
                  None \<Rightarrow> (False, w)
                | Some m \<Rightarrow>
                    let w = upd_output oid (\<lambda>x. x\<lparr>o_mutable := m\<rparr>) w;
                        w = fold (\<lambda>h w. snd (attach_view E oid h w)) l w
                    in (True, wlc_output_schedule_repaint oid w))))"

definition wlc_output_get_views_ptr :: "world \<Rightarrow> nat \<Rightarrow> nat list" where
  "wlc_output_get_views_ptr w oid = (case output_of w oid of None \<Rightarrow> [] | Some x \<Rightarrow> o_views x)"

definition wlc_output_get_mutable_views_ptr :: "world \<Rightarrow> nat \<Rightarrow> nat list" where
  "wlc_output_get_mutable_views_ptr w oid = (case output_of w oid of None \<Rightarrow> [] | Some x \<Rightarrow> o_mutable x)"

definition wlc_view_set_output_ptr :: "env \<Rightarrow> nat \<Rightarrow> nat \<Rightarrow> world \<Rightarrow> world" where
  "wlc_view_set_output_ptr E vid oid w =
     (if view_of w vid = None \<or> wlc_view_get_output_ptr w vid = oid then w
      else wlc_output_link_view E oid vid LINK_ABOVE 0 w)"

definition wlc_view_send_to :: "env \<Rightarrow> nat \<Rightarrow> output_link \<Rightarrow> world \<Rightarrow> world" where
  "wlc_view_send_to E vid link w =
     (if view_of w vid = None then w
      else wlc_output_link_view E (wlc_view_get_output_ptr w vid) vid link 0 w)"

text \<open>The guard reads \<open>if (!view || other) return;\<close>.\<close>

definition wlc_view_send_to_other :: "env \<Rightarrow> nat \<Rightarrow> output_link \<Rightarrow> nat \<Rightarrow> world \<Rightarrow> world" where
  "wlc_view_send_to_other E vid link other w =
     (if view_of w vid = None \<or> view_of w other \<noteq> None then w
      else wlc_output_link_view E (wlc_view_get_output_ptr w other) vid link other w)"

subsection \<open>The public functions\<close>

text \<open>A public function converts the handles it is given; \<open>live_view\<close> and \<open>live_output\<close> are the
  pointers it then works with.\<close>

definition live_view :: "world \<Rightarrow> nat \<Rightarrow> nat" where
  "live_view w h = (if view_of w h = None then 0 else h)"

definition live_output :: "world \<Rightarrow> nat \<Rightarrow> nat" where
  "live_output w h = (if output_of w h = None then 0 else h)"

definition wlc_view_get_output :: "world \<Rightarrow> nat \<Rightarrow> nat" where
  "wlc_view_get_output w view = wlc_view_get_output_ptr w (live_view w view)"

definition wlc_view_set_output :: "env \<Rightarrow> nat \<Rightarrow> nat \<Rightarrow> world \<Rightarrow> world" where
  "wlc_view_set_output E view output w =
     wlc_view_set_output_ptr E (live_view w view) (live_output w output) w"

definition wlc_view_send_to_back :: "env \<Rightarrow> nat \<Rightarrow> world \<Rightarrow> world" where
  "wlc_view_send_to_back E view w = wlc_view_send_to E (live_view w view) LINK_BELOW w"

definition wlc_view_send_below :: "env \<Rightarrow> nat \<Rightarrow> nat \<Rightarrow> world \<Rightarrow> world" where
  "wlc_view_send_below E view other w =
     wlc_view_send_to_other E (live_view w view) LINK_BELOW (live_view w other) w"

definition wlc_view_bring_above :: "env \<Rightarrow> nat \<Rightarrow> nat \<Rightarrow> world \<Rightarrow> world" where
  "wlc_view_bring_above E view other w =
     wlc_view_send_to_other E (live_view w view) LINK_ABOVE (live_view w other) w"

definition wlc_view_bring_to_front :: "env \<Rightarrow> nat \<Rightarrow> world \<Rightarrow> world" where
  "wlc_view_bring_to_front E view w = wlc_view_send_to E (live_view w view) LINK_ABOVE w"

definition wlc_output_get_views :: "world \<Rightarrow> nat \<Rightarrow> nat list" where
  "wlc_output_get_views w output = wlc_output_get_views_ptr w (live_output w output)"

definition wlc_output_get_mutable_views :: "world \<Rightarrow> nat \<Rightarrow> nat list" where
  "wlc_output_get_mutable_views w output = wlc_output_get_mutable_views_ptr w (live_output w output)"

definition wlc_output_set_views :: "env \<Rightarrow> nat \<Rightarrow> nat list \<Rightarrow> world \<Rightarrow> bool \<times> world" where
  "wlc_output_set_views E output views w = wlc_output_set_views_ptr E (live_output w output) views w"

section \<open>The order of the stack\<close>

text \<open>The reference: \<open>vid\<close> goes directly above or below \<open>other\<close>, or to an end of the stack, and the other
  views keep their order.\<close>

definition place :: "output_link \<Rightarrow> nat \<Rightarrow> nat \<Rightarrow> nat list \<Rightarrow> nat list" where
  "place link other vid xs =
     (if other = 0 then (case link of LINK_ABOVE \<Rightarrow> xs @ [vid] | LINK_BELOW \<Rightarrow> vid # xs)
      else takeWhile (\<lambda>x. x \<noteq> other) xs
             @ (case link of LINK_ABOVE \<Rightarrow> [other, vid] | LINK_BELOW \<Rightarrow> [vid, other])
             @ tl (dropWhile (\<lambda>x. x \<noteq> other) xs))"

lemma exists_in_pool_iff [simp]: "exists_in_pool xs h \<longleftrightarrow> h \<in> set xs"
  by (auto simp: exists_in_pool_def list_ex_iff)

lemma remove_from_pool_eq [simp]: "pool_ops_ok (hp E) \<Longrightarrow> remove_from_pool E h xs = remove1 h xs"
  by (simp add: remove_from_pool_def pool_remove_first_eq)

lemma index_of_split:
  assumes "index_of y xs = Some i"
  shows "take i xs = takeWhile (\<lambda>x. x \<noteq> y) xs" "drop i xs = y # tl (dropWhile (\<lambda>x. x \<noteq> y) xs)"
    "i < length xs"
  using assms by (induction xs arbitrary: i) (auto split: if_splits)

lemma link_put_place:
  assumes "pool_ops_ok (hp E)" and "link_put E vid link other xs = Some l"
  shows "l = place link other vid xs"
proof (cases "other = 0")
  case True
  then show ?thesis
    using assms by (cases link) (auto simp: link_put_def place_def dest: pool_ops_okD)
next
  case False
  then obtain i where i: "index_of other xs = Some i"
    and l: "insert_at (hp E) xs (if link = LINK_ABOVE then Suc i else i) vid = Some l"
    using assms(2) by (auto simp: link_put_def split: option.splits)
  note sp = index_of_split [OF i]
  have d: "drop (Suc i) xs = tl (dropWhile (\<lambda>x. x \<noteq> other) xs)"
    using sp(2) by (metis drop_Suc list.sel(3) tl_drop)
  have t: "take (Suc i) xs = takeWhile (\<lambda>x. x \<noteq> other) xs @ [other]"
    using i sp by (simp add: take_Suc_conv_app_nth index_of_Some)
  from False l show ?thesis
    using pool_ops_okD(3) [OF assms(1) l] sp d t by (cases link) (simp_all add: place_def)
qed

text \<open>Reading the stack of any output after each step.\<close>

definition stack_of :: "world \<Rightarrow> nat \<Rightarrow> nat list option" where
  "stack_of w h = map_option o_views (output_of w h)"

lemma stack_of_Some: "stack_of w h = Some l \<longleftrightarrow> (\<exists>x. output_of w h = Some x \<and> o_views x = l)"
  by (auto simp: stack_of_def)

lemma stack_of_attach_view [simp]: "stack_of (snd (attach_view E oid vid w)) h = stack_of w h"
  unfolding stack_of_def by (rule att_erase_output_fields(1)) (rule att_erase_attach_view)

lemma stack_of_schedule [simp]: "stack_of (wlc_output_schedule_repaint oid w) h = stack_of w h"
  unfolding stack_of_def by (rule att_erase_output_fields(1)) (rule att_erase_schedule_repaint)

lemma mutable_of_attach_view [simp]:
  "map_option o_mutable (output_of (snd (attach_view E oid vid w)) h) = map_option o_mutable (output_of w h)"
  by (rule att_erase_output_fields(2)) (rule att_erase_attach_view)

lemma mutable_of_schedule [simp]:
  "map_option o_mutable (output_of (wlc_output_schedule_repaint oid w) h) = map_option o_mutable (output_of w h)"
  by (rule att_erase_output_fields(2)) (rule att_erase_schedule_repaint)

lemma view_of_attach_view [simp]: "view_of (snd (attach_view E oid vid w)) = view_of w"
  by (rule att_erase_eqD(1)) (rule att_erase_attach_view)

lemma stack_of_take_off:
  assumes "pool_ops_ok (hp E)"
  shows "stack_of (link_take_off E old oid vid w) h = (if h = old then map_option (remove1 vid) (stack_of w h) else stack_of w h)"
  using assms by (simp add: stack_of_def link_take_off_def option.map_comp o_def)

lemma take_off_view_of [simp]: "view_of (link_take_off E old oid vid w) v = view_of w v"
  by (simp add: link_take_off_def)

text \<open>The callback of the author may restack; the laws below are for a link that does not call it.\<close>

definition link_silent :: "env \<Rightarrow> world \<Rightarrow> nat \<Rightarrow> nat \<Rightarrow> bool" where
  "link_silent E w oid vid \<longleftrightarrow>
     if_view_move_to_output (iface E) = None \<or> wlc_view_get_output_ptr w vid = oid \<or>
     (case view_of w vid of None \<Rightarrow> True | Some v \<Rightarrow> \<not> v_created v)"

text \<open>What the stack of the target looks like before the view is put on it.\<close>

definition link_base :: "world \<Rightarrow> nat \<Rightarrow> nat \<Rightarrow> nat list" where
  "link_base w oid vid =
     (case output_of w oid of
        None \<Rightarrow> []
      | Some x \<Rightarrow> if wlc_view_get_output_ptr w vid = oid then remove1 vid (o_views x) else o_views x)"

lemma link_view_unfold:
  assumes P: "pool_ops_ok (hp E)" and live: "output_of w oid \<noteq> None" and silent: "link_silent E w oid vid"
  shows "\<exists>v. wlc_output_link_view E oid vid link other w =
      (if link_put E vid link other (link_base w oid vid) = None then v
       else wlc_output_schedule_repaint oid (snd (attach_view E oid vid v)))
    \<and> (\<forall>h. stack_of v h =
        (if h = oid then Some (case link_put E vid link other (link_base w oid vid) of
                                 None \<Rightarrow> link_base w oid vid | Some l \<Rightarrow> l)
         else if h = wlc_view_get_output_ptr w vid then map_option (remove1 vid) (stack_of w h)
         else stack_of w h))"
proof -
  define old where "old = wlc_view_get_output_ptr w vid"
  define w1 where "w1 = link_take_off E old oid vid w"
  have w1: "stack_of w1 h = (if h = old then map_option (remove1 vid) (stack_of w h) else stack_of w h)" for h
    unfolding w1_def by (rule stack_of_take_off [OF P])
  have "stack_of w1 oid = Some (link_base w oid vid)"
    using live w1 [of oid] by (auto simp: link_base_def old_def stack_of_def)
  then obtain x1 where x1: "output_of w1 oid = Some x1" "o_views x1 = link_base w oid vid"
    by (auto simp: stack_of_Some)
  define new where "new = link_put E vid link other (link_base w oid vid)"
  define v where "v = upd_output oid (\<lambda>x. x\<lparr>o_views := (case new of None \<Rightarrow> o_views x | Some l \<Rightarrow> l),
                                    o_mutable := link_mutable E vid (o_mutable x)\<rparr>) w1"
  have "wlc_output_link_view E oid vid link other w =
      (if new = None then v else wlc_output_schedule_repaint oid (snd (attach_view E oid vid v)))"
    using live silent x1
    by (auto simp: wlc_output_link_view_def Let_def link_silent_def call3_def v_def new_def w1_def old_def
        split: option.splits)
  moreover have "stack_of v h =
        (if h = oid then Some (case new of None \<Rightarrow> link_base w oid vid | Some l \<Rightarrow> l)
         else if h = old then map_option (remove1 vid) (stack_of w h) else stack_of w h)" for h
    using w1 [of h] x1 by (auto simp: v_def stack_of_def split: option.split)
  ultimately show ?thesis unfolding new_def old_def by blast
qed

text \<open>C10 (equivalence). Linking a view into the stack of a live output (wlc_output_link_view) puts it directly above
  or below the other view, or at the end of the stack the link names, keeps the order of every other view,
  takes the view off the stack of its old output, and changes the stack of no other output.\<close>

theorem link_view_places:
  assumes "pool_ops_ok (hp E)" and "output_of w oid \<noteq> None" and "link_silent E w oid vid"
    and "link_put E vid link other (link_base w oid vid) \<noteq> None"
  shows "stack_of (wlc_output_link_view E oid vid link other w) h =
    (if h = oid then Some (place link other vid (link_base w oid vid))
     else if h = wlc_view_get_output_ptr w vid then map_option (remove1 vid) (stack_of w h)
     else stack_of w h)"
proof -
  obtain l where l: "link_put E vid link other (link_base w oid vid) = Some l" using assms(4) by blast
  show ?thesis
    using link_view_unfold [OF assms(1-3), of link other] l link_put_place [OF assms(1) l] by auto
qed

text \<open>When the view cannot be added, because the other view is not on the stack of the target or for
  want of memory, linking it still takes it off its old stack: it is then on the stack of no output it was
  not on before.\<close>

theorem link_view_not_added:
  assumes "pool_ops_ok (hp E)" and "output_of w oid \<noteq> None" and "link_silent E w oid vid"
    and "link_put E vid link other (link_base w oid vid) = None"
  shows "stack_of (wlc_output_link_view E oid vid link other w) h =
    (if h = wlc_view_get_output_ptr w vid then map_option (remove1 vid) (stack_of w h) else stack_of w h)"
  using link_view_unfold [OF assms(1-3), of link other] assms(2,4)
  by (auto simp: link_base_def stack_of_def split: option.splits)

lemma get_output_live: "wlc_view_get_output_ptr w vid = oid \<Longrightarrow> oid \<noteq> 0 \<Longrightarrow> output_of w oid \<noteq> None \<and> view_of w vid \<noteq> None"
  by (auto simp: wlc_view_get_output_ptr_def split: option.splits if_splits)

text \<open>wlc_view_bring_to_front and wlc_view_send_to_back move a view of an output to the top and to
  the bottom of the stack of that output and keep the order of the other views.\<close>

theorem view_front_and_back:
  assumes "pool_ops_ok (hp E)" and "wlc_view_get_output w view = oid" and "oid \<noteq> 0"
    and "stack_of w oid = Some xs"
    and "push_back (hp E) (remove1 view xs) view \<noteq> None" "push_front (hp E) (remove1 view xs) view \<noteq> None"
  shows "stack_of (wlc_view_bring_to_front E view w) oid = Some (remove1 view xs @ [view]) \<and>
         stack_of (wlc_view_send_to_back E view w) oid = Some (view # remove1 view xs)"
proof -
  have lv: "live_view w view = view"
    using assms(2,3) by (auto simp: wlc_view_get_output_def wlc_view_get_output_ptr_def live_view_def)
  then have o: "wlc_view_get_output_ptr w view = oid" using assms(2) by (simp add: wlc_view_get_output_def)
  note live = get_output_live [OF o assms(3)]
  have base: "link_base w oid view = remove1 view xs"
    using assms(4) o by (auto simp: link_base_def stack_of_Some)
  have put: "link_put E view LINK_ABOVE 0 (remove1 view xs) \<noteq> None" "link_put E view LINK_BELOW 0 (remove1 view xs) \<noteq> None"
    using assms(5,6) by (simp_all add: link_put_def)
  have silent: "link_silent E w oid view" using o by (simp add: link_silent_def)
  show ?thesis
    using live put link_view_unfold [OF assms(1) _ silent, of LINK_ABOVE 0]
      link_view_unfold [OF assms(1) _ silent, of LINK_BELOW 0]
      link_put_place [OF assms(1), of view LINK_ABOVE 0] link_put_place [OF assms(1), of view LINK_BELOW 0]
    by (auto simp: wlc_view_bring_to_front_def wlc_view_send_to_back_def wlc_view_send_to_def lv o base place_def)
qed

text \<open>wlc_view_bring_above and wlc_view_send_below never do anything: their guard returns when there is an
  other view, and without one there is no output to link to.\<close>

theorem view_relative_restack_is_noop:
  "wlc_view_bring_above E view other w = w \<and> wlc_view_send_below E view other w = w"
proof -
  have "wlc_view_send_to_other E vid link oth w = w" for vid link oth
    by (auto simp: wlc_view_send_to_other_def wlc_view_get_output_ptr_def wlc_output_link_view_def)
  then show ?thesis by (simp add: wlc_view_bring_above_def wlc_view_send_below_def)
qed

lemma fold_attach_view_frame: "att_erase (fold (\<lambda>h w. snd (attach_view E oid h w)) hs w) = att_erase w"
  by (induction hs arbitrary: w) (simp_all add: att_erase_attach_view)

text \<open>What wlc_output_set_views stores is what wlc_output_get_views and
  wlc_output_get_mutable_views return, and the stacks of the other outputs stay.\<close>

theorem set_views_roundtrip:
  assumes "pool_ops_ok (hp E)" and "wlc_output_set_views E output views w = (True, w')"
  shows "wlc_output_get_views w' output = views \<and> wlc_output_get_mutable_views w' output = views \<and>
    (\<forall>h. h \<noteq> output \<longrightarrow> stack_of w' h = stack_of w h)"
proof -
  obtain x l m where x: "output_of w output = Some x" and l: "set_c_array (hp E) (o_views x) views = Some l"
    and m: "set_c_array (hp E) (o_mutable x) views = Some m"
    using assms(2)
    by (auto simp: wlc_output_set_views_def live_output_def wlc_output_set_views_ptr_def Let_def
        split: option.splits if_splits)
  have lm: "l = views" "m = views" using pool_ops_okD(5) [OF assms(1)] l m by simp_all
  define v where "v = upd_output output (\<lambda>x. x\<lparr>o_mutable := m\<rparr>) (upd_output output (\<lambda>x. x\<lparr>o_views := l\<rparr>) w)"
  have w': "att_erase w' = att_erase v"
    using assms(2) x l m
    by (auto simp: wlc_output_set_views_def live_output_def wlc_output_set_views_ptr_def v_def Let_def
        att_erase_schedule_repaint fold_attach_view_frame)
  have s: "stack_of w' h = stack_of v h" for h
    unfolding stack_of_def by (rule att_erase_output_fields(1) [OF w'])
  have mu: "map_option o_mutable (output_of w' output) = Some views" "map_option o_views (output_of w' output) = Some views"
    using att_erase_output_fields(1) [OF w', of "output"] att_erase_output_fields(2) [OF w', of "output"] x lm by (auto simp: v_def)
  have "output_of w' output \<noteq> None" using mu by auto
  then show ?thesis
    using mu s by (auto simp: wlc_output_get_views_def wlc_output_get_mutable_views_def live_output_def
        wlc_output_get_views_ptr_def wlc_output_get_mutable_views_ptr_def v_def stack_of_def)
qed

section \<open>Witnesses\<close>

lemma pool_ref_total: "push_back pool_ref xs x = Some (xs @ [x])" "push_front pool_ref xs x = Some (x # xs)"
  "insert_at pool_ref xs i x = Some (take i xs @ x # drop i xs)"
  by (simp_all add: pool_ref_def)

text \<open>Two outputs, four views; view 13 is on output 1 through its surface 23.\<close>

definition stack_world :: world where
  "stack_world =
     put_output 1 (output_blank\<lparr>o_views := [11, 12, 13, 14], o_mutable := [11, 12, 13, 14]\<rparr>)
    (put_output 2 (output_blank\<lparr>o_views := [15]\<rparr>)
    (put_view 13 (view_blank\<lparr>v_surface := 23, v_created := True\<rparr>)
    (put_res 23 (R_surface (surface_blank\<lparr>sf_output := 1, sf_view := 13\<rparr>)) 7 world_blank)))"

lemma stack_world_facts:
  "output_of stack_world 1 \<noteq> None" "output_of stack_world 2 \<noteq> None" "wlc_view_get_output_ptr stack_world 13 = 1"
  "stack_of stack_world 1 = Some [11, 12, 13, 14]" "stack_of stack_world 2 = Some [15]"
  "link_base stack_world 1 13 = [11, 12, 14]" "link_base stack_world 2 13 = [15]" "live_view stack_world 13 = 13"
  by (simp_all add: stack_world_def wlc_view_get_output_ptr_def stack_of_def link_base_def live_view_def
      surface_blank_def view_blank_def output_blank_def)

theorem link_view_places_witness:
  "stack_of (wlc_output_link_view env_ref 1 13 LINK_ABOVE 11 stack_world) 1 = Some [11, 13, 12, 14]"
  by (subst link_view_places)
     (simp_all del: One_nat_def add: stack_world_facts link_silent_def link_put_def pool_ref_total place_def)

theorem link_view_not_added_witness:
  "stack_of (wlc_output_link_view env_ref 2 13 LINK_ABOVE 11 stack_world) 1 = Some [11, 12, 14]"
  by (subst link_view_not_added)
     (simp_all del: One_nat_def add: stack_world_facts link_silent_def link_put_def env_ref_def iface_none_def)

theorem view_front_and_back_witness:
  "stack_of (wlc_view_bring_to_front env_ref 13 stack_world) 1 = Some [11, 12, 14, 13]"
proof -
  have "wlc_view_get_output stack_world 13 = 1"
    by (simp del: One_nat_def add: stack_world_facts wlc_view_get_output_def)
  then show ?thesis
    using view_front_and_back [of env_ref stack_world 13 1 "[11, 12, 13, 14]"]
    by (simp del: One_nat_def add: stack_world_facts pool_ref_total)
qed

theorem set_views_roundtrip_witness:
  "wlc_output_get_views (snd (wlc_output_set_views env_ref 1 [14, 13] stack_world)) 1 = [14, 13]"
proof -
  have "wlc_output_set_views env_ref 1 [14, 13] stack_world =
     (True, snd (wlc_output_set_views env_ref 1 [14, 13] stack_world))"
    by (simp add: wlc_output_set_views_def wlc_output_set_views_ptr_def stack_world_def live_output_def
        pool_ref_def Let_def)
  then show ?thesis using set_views_roundtrip [of env_ref 1 "[14, 13]" stack_world] by simp
qed

end
