(* ===== verification/View.thy ===== *)
theory View
  imports Stacking
begin

text \<open>
  The state of a view (src/compositor/view.c): the pending state a request writes and the committed
  state the renderer reads, the configure events that announce the pending state to the client, the
  requests that go to the author of the compositor first, mapping and unmapping, and the public getters
  and setters. Linking a view to a surface, and its release, are in Link.thy.

  A state word is changed by the macro \<open>BIT_TOGGLE(w, m, f)\<close>, \<open>(w & ~m) | (-f & m)\<close>: the negated
  boolean is a word of ones or of zeros.
\<close>

section \<open>Bits\<close>

definition WLC_BIT_MAXIMIZED :: u32 where "WLC_BIT_MAXIMIZED = 1"
definition WLC_BIT_FULLSCREEN :: u32 where "WLC_BIT_FULLSCREEN = 2"
definition WLC_BIT_RESIZING :: u32 where "WLC_BIT_RESIZING = 4"
definition WLC_BIT_MOVING :: u32 where "WLC_BIT_MOVING = 8"
definition WLC_BIT_ACTIVATED :: u32 where "WLC_BIT_ACTIVATED = 16"
definition WLC_BIT_UNMANAGED :: u32 where "WLC_BIT_UNMANAGED = 2"
definition WLC_BIT_POPUP :: u32 where "WLC_BIT_POPUP = 16"
definition WLC_BIT_PROPERTY_TITLE :: u32 where "WLC_BIT_PROPERTY_TITLE = 1"
definition WLC_BIT_PROPERTY_CLASS :: u32 where "WLC_BIT_PROPERTY_CLASS = 2"
definition WLC_BIT_PROPERTY_APP_ID :: u32 where "WLC_BIT_PROPERTY_APP_ID = 4"
definition WLC_BIT_PROPERTY_PID :: u32 where "WLC_BIT_PROPERTY_PID = 8"

definition BIT_TOGGLE :: "u32 \<Rightarrow> u32 \<Rightarrow> bool \<Rightarrow> u32" where
  "BIT_TOGGLE w m f = (w AND NOT m) OR ((- of_bool f) AND m)"

text \<open>\<open>!!(w & m)\<close>.\<close>

definition any_bit :: "u32 \<Rightarrow> u32 \<Rightarrow> bool" where
  "any_bit w m \<longleftrightarrow> w AND m \<noteq> 0"

section \<open>Configure events\<close>

definition popup_data :: "world \<Rightarrow> nat \<Rightarrow> nat option" where
  "popup_data w r =
     (if r = 0 then None
      else case w_res w r of None \<Rightarrow> None
           | Some e \<Rightarrow> (case re_data e of R_xdg_popup po \<Rightarrow> po | _ \<Rightarrow> None))"

text \<open>A popup may outlive the positioner it points to: reading it is then a fault.\<close>

definition popup_size :: "world \<Rightarrow> nat \<Rightarrow> wlc_size \<Rightarrow> bool \<times> wlc_size" where
  "popup_size w r ssz =
     (case popup_data w r of
        None \<Rightarrow> (True, ssz)
      | Some pn \<Rightarrow>
          (case positioner_of w pn of
             None \<Rightarrow> (False, ssz)
           | Some p \<Rightarrow> (True, if any_bit (ps_flags p) WLC_XDG_POSITIONER_HAS_SIZE then ps_size p else ssz)))"

definition next_serial :: "world \<Rightarrow> u32 \<times> world" where
  "next_serial w = (w_serial w + 1, w\<lparr>w_serial := w_serial w + 1\<rparr>)"

definition configure_view :: "nat \<Rightarrow> u32 \<Rightarrow> wlc_geometry \<Rightarrow> world \<Rightarrow> world" where
  "configure_view vid edges g w =
     (case view_of w vid of
        None \<Rightarrow> fail Null_pointer w
      | Some v \<Rightarrow>
          let toplevel = wl_of w (v_xdg_toplevel v) K_xdg_toplevel;
              popup = wl_of w (v_xdg_popup v) K_xdg_popup;
              shell = wl_of w (v_shell_surface v) K_shell_surface;
              xdg = wl_of w (v_xdg_surface v) K_xdg_surface;
              w =
                (if toplevel \<noteq> 0 then
                   emit (Send_toplevel_configure toplevel (sw (gsize g)) (sh (gsize g)) (v_wl_state v)) w
                 else if popup \<noteq> 0 then
                   let (ok, ssz) = popup_size w (v_xdg_popup v) (gsize g);
                       w = (if ok then w else fail Wild_pointer w)
                   in emit (Send_popup_configure popup (px (gorigin g)) (py (gorigin g)) (sw ssz) (sh ssz)) w
                 else if shell \<noteq> 0 then
                   emit (Send_shell_surface_configure shell edges (sw (gsize g)) (sh (gsize g))) w
                 else if is_x11_view v then wlc_x11_window_configure vid g w
                 else w)
          in if xdg \<noteq> 0 then let (serial, w) = next_serial w in emit (Send_xdg_surface_configure xdg serial) w
             else w)"

definition wlc_view_close_ptr :: "env \<Rightarrow> nat \<Rightarrow> world \<Rightarrow> world" where
  "wlc_view_close_ptr E vid w =
     (case view_of w vid of
        None \<Rightarrow> w
      | Some v \<Rightarrow>
          let toplevel = wl_of w (v_xdg_toplevel v) K_xdg_toplevel;
              popup = wl_of w (v_xdg_popup v) K_xdg_popup;
              shell = wl_of w (v_shell_surface v) K_shell_surface
          in if toplevel \<noteq> 0 then emit (Send_toplevel_close toplevel) w
             else if is_x11_view v then wlc_x11_window_close vid w
             else if popup \<noteq> 0 then emit (Send_popup_done popup) w
             else if shell \<noteq> 0 then
               (if any_bit (v_type v) WLC_BIT_POPUP then emit (Send_shell_surface_popup_done shell) w
                else ext_client_destroy E (ext_client E shell) (release_resource E (v_shell_surface v) w))
             else w)"

section \<open>Committing\<close>

text \<open>The wayland names of the set state bits, in the order of the table of the code.\<close>

definition wl_state_map :: "env \<Rightarrow> (u32 \<times> u32) list" where
  "wl_state_map E =
     (let (maximized, fullscreen, resizing, activated) = wl_toplevel_states E in
      [(WLC_BIT_MAXIMIZED, maximized), (WLC_BIT_FULLSCREEN, fullscreen), (WLC_BIT_RESIZING, resizing),
       (WLC_BIT_ACTIVATED, activated)])"

definition wl_states :: "env \<Rightarrow> u32 \<Rightarrow> u32 list" where
  "wl_states E st =
     fold (\<lambda>(b, n) xs. if any_bit st b then pool_push_back (sp E) n xs else xs) (wl_state_map E) []"

definition commit_transform :: "env \<Rightarrow> nat \<Rightarrow> nat \<Rightarrow> world \<Rightarrow> world" where
  "commit_transform E vid sid w =
     (case view_of w vid of
        None \<Rightarrow> w
      | Some v \<Rightarrow>
          let (ok, geom, visible) = wlc_view_get_bounds E w v;
              w = (if ok then w else fail Assertion w)
          in case visible of
               None \<Rightarrow> fail Uninitialised w
             | Some area \<Rightarrow> surface_tree_update_coordinate_transform E sid area w)"

definition commit_pending :: "env \<Rightarrow> nat \<Rightarrow> nat \<Rightarrow> world \<Rightarrow> world" where
  "commit_pending E vid sid w =
     (case view_of w vid of
        None \<Rightarrow> fail Null_pointer w
      | Some v \<Rightarrow>
          let p = v_pending v; c = v_commit v in
          if p = c then w
          else
            let w = (if vs_state p \<noteq> vs_state c
                     then upd_view vid (\<lambda>v. v\<lparr>v_wl_state := wl_states E (vs_state p)\<rparr>) w else w);
                ssz = (case surface_of w sid of None \<Rightarrow> wlc_size_zero | Some s \<Rightarrow> sf_size s);
                size_changed = (\<not> wlc_size_equals (gsize (vs_geometry p)) (gsize (vs_geometry c)) \<or>
                                \<not> wlc_size_equals (gsize (vs_geometry p)) ssz);
                w = (if vs_state p \<noteq> vs_state c \<or> size_changed
                     then configure_view vid (vs_edges p) (vs_geometry p) w else w);
                w = upd_view vid (\<lambda>v. v\<lparr>v_commit := p\<rparr>) w
            in commit_transform E vid sid w)"

text \<open>The first commit announces the view to the author, who may refuse it: then it is closed.\<close>

definition announce_view :: "env \<Rightarrow> nat \<Rightarrow> wlc_surface \<Rightarrow> world \<Rightarrow> bool \<times> world" where
  "announce_view E vid s w =
     (let w = upd_view vid (\<lambda>v. v\<lparr>v_pending := (v_pending v)
                \<lparr>vs_geometry := (vs_geometry (v_pending v))\<lparr>gsize := sf_size s\<rparr>\<rparr>, v_created := True\<rparr>) w;
          (refused, w) = call1_except (if_view_created (iface E)) False vid w
      in if refused then (False, wlc_view_close_ptr E vid w) else (True, w))"

text \<open>Its callers all pass the view's own pending and committed state.\<close>

definition wlc_view_commit_state :: "env \<Rightarrow> nat \<Rightarrow> world \<Rightarrow> world" where
  "wlc_view_commit_state E vid w =
     (case view_of w vid of
        None \<Rightarrow> fail Null_pointer w
      | Some v \<Rightarrow>
          (case surface_of w (v_surface v) of
             None \<Rightarrow> w
           | Some s \<Rightarrow>
               let (go, w) = (if v_created v then (True, w) else announce_view E vid s w)
               in if go then commit_pending E vid (v_surface v) w else w))"

definition wlc_view_map :: "env \<Rightarrow> nat \<Rightarrow> world \<Rightarrow> world" where
  "wlc_view_map E vid w =
     (case view_of w vid of
        None \<Rightarrow> fail Null_pointer w
      | Some v \<Rightarrow>
          if v_created v then w
          else
            let w = wlc_output_link_view E (wlc_view_get_output_ptr w vid) vid LINK_ABOVE 0 w;
                p = (case view_of w vid of None \<Rightarrow> v_pending v | Some v \<Rightarrow> v_pending v);
                w = configure_view vid (vs_edges p) (vs_geometry p) w
            in wlc_view_commit_state E vid w)"

definition wlc_view_unmap :: "env \<Rightarrow> nat \<Rightarrow> world \<Rightarrow> world" where
  "wlc_view_unmap E vid w =
     (let w = wlc_output_unlink_view E (wlc_view_get_output_ptr w vid) vid w in
      case view_of w vid of
        None \<Rightarrow> fail Null_pointer w
      | Some v \<Rightarrow>
          if \<not> v_created v then w
          else upd_view vid (\<lambda>v. v\<lparr>v_created := False\<rparr>) (call1 (if_view_destroyed (iface E)) vid w))"

section \<open>Requests\<close>

definition wlc_view_request_geometry :: "env \<Rightarrow> nat \<Rightarrow> wlc_geometry \<Rightarrow> world \<Rightarrow> bool \<times> world" where
  "wlc_view_request_geometry E vid r w =
     (case view_of w vid of
        None \<Rightarrow> (False, fail Null_pointer w)
      | Some v \<Rightarrow>
          let w = (if v_created v \<and> if_view_request_geometry (iface E) \<noteq> None
                   then call2 (if_view_request_geometry (iface E)) vid r w
                   else upd_view vid (\<lambda>v. v\<lparr>v_pending := (v_pending v)\<lparr>vs_geometry := r\<rparr>\<rparr>) w);
              p = (case view_of w vid of None \<Rightarrow> v_pending v | Some v \<Rightarrow> v_pending v)
          in (wlc_geometry_equals r (vs_geometry p), configure_view vid (vs_edges p) (vs_geometry p) w))"

definition wlc_view_ack_surface_attach :: "env \<Rightarrow> nat \<Rightarrow> nat \<Rightarrow> world \<Rightarrow> world" where
  "wlc_view_ack_surface_attach E vid sid w =
     (case (view_of w vid, surface_of w sid) of
        (Some v, Some s) \<Rightarrow>
          let w = (if is_x11_view v
                   then upd_view vid (\<lambda>v. v\<lparr>v_surface_pending := \<lparr>gorigin = wlc_point_zero, gsize = sf_size s\<rparr>\<rparr>)
                        (upd_surface sid (\<lambda>s. s\<lparr>sf_pending := (sf_pending s)\<lparr>ss_opaque :=
                             (ss_opaque (sf_pending s))\<lparr>rg_x1 := 0, rg_y1 := 0, rg_x2 := i32_of_u32 (sw (sf_size s)),
                                                       rg_y2 := i32_of_u32 (sh (sf_size s))\<rparr>\<rparr>\<rparr>) w)
                   else w);
              resizing = (any_bit (vs_state (v_pending v)) WLC_BIT_RESIZING \<or>
                          any_bit (vs_state (v_commit v)) WLC_BIT_RESIZING);
              sp = (case view_of w vid of None \<Rightarrow> v_surface_pending v | Some v \<Rightarrow> v_surface_pending v);
              w = (if \<not> resizing \<and> \<not> wlc_geometry_equals sp (v_surface_commit v)
                   then snd (wlc_view_request_geometry E vid
                               \<lparr>gorigin = gorigin (vs_geometry (v_pending v)), gsize = gsize sp\<rparr> w)
                   else w)
          in upd_view vid (\<lambda>v. v\<lparr>v_surface_commit := v_surface_pending v\<rparr>) w
      | _ \<Rightarrow> fail Null_pointer w)"

definition wlc_view_set_state_ptr :: "nat \<Rightarrow> u32 \<Rightarrow> bool \<Rightarrow> world \<Rightarrow> world" where
  "wlc_view_set_state_ptr vid st toggle w =
     (case view_of w vid of
        None \<Rightarrow> w
      | Some v \<Rightarrow>
          let w = (if is_x11_view v then wlc_x11_window_set_state vid st toggle w else w)
          in wlc_view_update vid
               (upd_view vid (\<lambda>v. v\<lparr>v_pending := (v_pending v)
                                      \<lparr>vs_state := BIT_TOGGLE (vs_state (v_pending v)) st toggle\<rparr>\<rparr>) w))"

definition wlc_view_request_state :: "env \<Rightarrow> nat \<Rightarrow> u32 \<Rightarrow> bool \<Rightarrow> world \<Rightarrow> bool \<times> world" where
  "wlc_view_request_state E vid st toggle w =
     (case view_of w vid of
        None \<Rightarrow> (False, w)
      | Some v \<Rightarrow>
          if \<not> v_created v then (False, w)
          else if any_bit (vs_state (v_pending v)) st = toggle then
            (True, if st = WLC_BIT_FULLSCREEN \<or> st = WLC_BIT_MAXIMIZED
                   then configure_view vid (vs_edges (v_pending v)) (vs_geometry (v_pending v)) w else w)
          else
            let w = (if if_view_request_state (iface E) \<noteq> None
                     then call3 (if_view_request_state (iface E)) vid st toggle w
                     else wlc_view_set_state_ptr vid st toggle w);
                p = (case view_of w vid of None \<Rightarrow> v_pending v | Some v \<Rightarrow> v_pending v)
            in (any_bit (vs_state p) st = toggle, w))"

section \<open>Setters\<close>

definition wlc_view_set_mask_ptr :: "nat \<Rightarrow> u32 \<Rightarrow> world \<Rightarrow> world" where
  "wlc_view_set_mask_ptr vid m w =
     (if view_of w vid = None then w else wlc_view_update vid (upd_view vid (\<lambda>v. v\<lparr>v_mask := m\<rparr>) w))"

definition wlc_view_set_geometry_ptr :: "nat \<Rightarrow> u32 \<Rightarrow> wlc_geometry \<Rightarrow> world \<Rightarrow> world" where
  "wlc_view_set_geometry_ptr vid edges g w =
     (if view_of w vid = None then w
      else wlc_view_update vid
             (upd_view vid (\<lambda>v. v\<lparr>v_pending := (v_pending v)\<lparr>vs_geometry := g, vs_edges := edges\<rparr>\<rparr>) w))"

definition wlc_view_set_type_ptr :: "nat \<Rightarrow> u32 \<Rightarrow> bool \<Rightarrow> world \<Rightarrow> world" where
  "wlc_view_set_type_ptr vid ty toggle w =
     (if view_of w vid = None then w
      else upd_view vid (\<lambda>v. v\<lparr>v_type := BIT_TOGGLE (v_type v) ty toggle\<rparr>) w)"

definition wlc_view_set_parent_ptr :: "nat \<Rightarrow> nat \<Rightarrow> world \<Rightarrow> world" where
  "wlc_view_set_parent_ptr vid parent w =
     (if view_of w vid = None \<or> vid = parent then w
      else wlc_view_update vid (upd_view vid (\<lambda>v. v\<lparr>v_parent := parent\<rparr>) w))"

definition wlc_view_set_minimized_ptr :: "env \<Rightarrow> nat \<Rightarrow> bool \<Rightarrow> world \<Rightarrow> world" where
  "wlc_view_set_minimized_ptr E vid minimized w =
     (if view_of w vid = None then w
      else
        let (refused, w) = call2_except (if_view_request_minimize (iface E)) False vid minimized w
        in if refused then w else upd_view vid (\<lambda>v. v\<lparr>v_minimized := minimized\<rparr>) w)"

definition wlc_view_is_minimized_ptr :: "world \<Rightarrow> nat \<Rightarrow> bool" where
  "wlc_view_is_minimized_ptr w vid = (case view_of w vid of None \<Rightarrow> False | Some v \<Rightarrow> v_minimized v)"

definition wlc_view_set_title_ptr :: "env \<Rightarrow> nat \<Rightarrow> string \<Rightarrow> nat \<Rightarrow> world \<Rightarrow> world" where
  "wlc_view_set_title_ptr E vid title len w =
     (case view_of w vid of
        None \<Rightarrow> w
      | Some v \<Rightarrow>
          if ext_cstrneq E (v_title v) title len then w
          else case ext_set_cstr E title len of
                 None \<Rightarrow> w
               | Some s \<Rightarrow> call2 (if_view_properties_updated (iface E)) vid WLC_BIT_PROPERTY_TITLE
                             (upd_view vid (\<lambda>v. v\<lparr>v_title := s\<rparr>) w))"

definition wlc_view_set_instance_ptr :: "env \<Rightarrow> nat \<Rightarrow> string \<Rightarrow> nat \<Rightarrow> world \<Rightarrow> world" where
  "wlc_view_set_instance_ptr E vid inst len w =
     (case view_of w vid of
        None \<Rightarrow> w
      | Some v \<Rightarrow>
          if ext_cstrneq E (v_instance v) inst len then w
          else case ext_set_cstr E inst len of
                 None \<Rightarrow> w
               | Some s \<Rightarrow> call2 (if_view_properties_updated (iface E)) vid WLC_BIT_PROPERTY_CLASS
                             (upd_view vid (\<lambda>v. v\<lparr>v_instance := s\<rparr>) w))"

definition wlc_view_set_class_ptr :: "env \<Rightarrow> nat \<Rightarrow> string \<Rightarrow> nat \<Rightarrow> world \<Rightarrow> world" where
  "wlc_view_set_class_ptr E vid cls len w =
     (case view_of w vid of
        None \<Rightarrow> w
      | Some v \<Rightarrow>
          if ext_cstrneq E (v_class v) cls len then w
          else case ext_set_cstr E cls len of
                 None \<Rightarrow> w
               | Some s \<Rightarrow> call2 (if_view_properties_updated (iface E)) vid WLC_BIT_PROPERTY_CLASS
                             (upd_view vid (\<lambda>v. v\<lparr>v_class := s\<rparr>) w))"

definition wlc_view_set_app_id_ptr :: "env \<Rightarrow> nat \<Rightarrow> string \<Rightarrow> world \<Rightarrow> world" where
  "wlc_view_set_app_id_ptr E vid app_id w =
     (case view_of w vid of
        None \<Rightarrow> w
      | Some v \<Rightarrow>
          if ext_cstreq E (v_app_id v) app_id then w
          else case ext_set_cstr_all E app_id of
                 None \<Rightarrow> w
               | Some s \<Rightarrow> call2 (if_view_properties_updated (iface E)) vid WLC_BIT_PROPERTY_APP_ID
                             (upd_view vid (\<lambda>v. v\<lparr>v_app_id := s\<rparr>) w))"

definition wlc_view_set_pid_ptr :: "env \<Rightarrow> nat \<Rightarrow> int \<Rightarrow> world \<Rightarrow> world" where
  "wlc_view_set_pid_ptr E vid pid w =
     (case view_of w vid of
        None \<Rightarrow> w
      | Some v \<Rightarrow>
          if v_pid v = pid then w
          else call2 (if_view_properties_updated (iface E)) vid WLC_BIT_PROPERTY_PID
                 (upd_view vid (\<lambda>v. v\<lparr>v_pid := pid\<rparr>) w))"

definition wlc_view_focus_ptr :: "env \<Rightarrow> nat \<Rightarrow> world \<Rightarrow> world" where
  "wlc_view_focus_ptr E vid w =
     (case view_of w vid of
        None \<Rightarrow> sig_focus E (WLC_FOCUS_EVENT_VIEW 0) w
      | Some v \<Rightarrow>
          if any_bit (v_type v) WLC_BIT_UNMANAGED then w
          else sig_focus E (WLC_FOCUS_EVENT_VIEW vid) (snd (wlc_x11_window_set_active vid True w)))"

section \<open>The public functions\<close>

text \<open>The positioner of a popup view. The comment in the code asks for a complete positioner; the test
  accepts one with a size or an anchor rectangle.\<close>

definition get_xdg_positioner_for_handle :: "world \<Rightarrow> nat \<Rightarrow> wlc_xdg_positioner option" where
  "get_xdg_positioner_for_handle w view =
     (case view_of w view of
        None \<Rightarrow> None
      | Some v \<Rightarrow>
          if wl_of w (v_xdg_popup v) K_xdg_popup = 0 then None
          else case popup_data w (v_xdg_popup v) of
                 None \<Rightarrow> None
               | Some pn \<Rightarrow>
                   (case positioner_of w pn of
                      None \<Rightarrow> None
                    | Some p \<Rightarrow>
                        if any_bit (ps_flags p) (WLC_XDG_POSITIONER_HAS_SIZE OR WLC_XDG_POSITIONER_HAS_ANCHOR_RECT)
                        then Some p else None))"

definition wlc_view_positioner_get_size :: "world \<Rightarrow> nat \<Rightarrow> wlc_size option" where
  "wlc_view_positioner_get_size w view = map_option ps_size (get_xdg_positioner_for_handle w view)"

definition wlc_view_positioner_get_anchor_rect :: "world \<Rightarrow> nat \<Rightarrow> wlc_geometry option" where
  "wlc_view_positioner_get_anchor_rect w view = map_option ps_anchor_rect (get_xdg_positioner_for_handle w view)"

definition wlc_view_positioner_get_offset :: "world \<Rightarrow> nat \<Rightarrow> wlc_point option" where
  "wlc_view_positioner_get_offset w view = map_option ps_offset (get_xdg_positioner_for_handle w view)"

definition wlc_view_positioner_get_anchor :: "world \<Rightarrow> nat \<Rightarrow> u32" where
  "wlc_view_positioner_get_anchor w view =
     (case get_xdg_positioner_for_handle w view of None \<Rightarrow> 0 | Some p \<Rightarrow> ps_anchor p)"

definition wlc_view_positioner_get_gravity :: "world \<Rightarrow> nat \<Rightarrow> u32" where
  "wlc_view_positioner_get_gravity w view =
     (case get_xdg_positioner_for_handle w view of None \<Rightarrow> 0 | Some p \<Rightarrow> ps_gravity p)"

definition wlc_view_positioner_get_constraint_adjustment :: "world \<Rightarrow> nat \<Rightarrow> u32" where
  "wlc_view_positioner_get_constraint_adjustment w view =
     (case get_xdg_positioner_for_handle w view of None \<Rightarrow> 0 | Some p \<Rightarrow> ps_constraint_adjustment p)"

definition wlc_view_focus :: "env \<Rightarrow> nat \<Rightarrow> world \<Rightarrow> world" where
  "wlc_view_focus E view w = wlc_view_focus_ptr E (live_view w view) w"

definition wlc_view_close :: "env \<Rightarrow> nat \<Rightarrow> world \<Rightarrow> world" where
  "wlc_view_close E view w = wlc_view_close_ptr E (live_view w view) w"

definition wlc_view_get_mask :: "world \<Rightarrow> nat \<Rightarrow> u32" where
  "wlc_view_get_mask w view = (case view_of w view of None \<Rightarrow> 0 | Some v \<Rightarrow> v_mask v)"

definition wlc_view_set_mask :: "nat \<Rightarrow> u32 \<Rightarrow> world \<Rightarrow> world" where
  "wlc_view_set_mask view m w = wlc_view_set_mask_ptr (live_view w view) m w"

definition wlc_view_get_geometry :: "world \<Rightarrow> nat \<Rightarrow> wlc_geometry option" where
  "wlc_view_get_geometry w view = map_option (\<lambda>v. vs_geometry (v_pending v)) (view_of w view)"

definition wlc_view_get_visible_geometry :: "env \<Rightarrow> world \<Rightarrow> nat \<Rightarrow> wlc_geometry option" where
  "wlc_view_get_visible_geometry E w view =
     map_option (\<lambda>v. fst (snd (wlc_view_get_bounds E w v))) (view_of w view)"

definition wlc_view_set_geometry :: "nat \<Rightarrow> u32 \<Rightarrow> wlc_geometry \<Rightarrow> world \<Rightarrow> world" where
  "wlc_view_set_geometry view edges g w = wlc_view_set_geometry_ptr (live_view w view) edges g w"

definition wlc_view_get_type :: "world \<Rightarrow> nat \<Rightarrow> u32" where
  "wlc_view_get_type w view = (case view_of w view of None \<Rightarrow> 0 | Some v \<Rightarrow> v_type v)"

definition wlc_view_set_type :: "nat \<Rightarrow> u32 \<Rightarrow> bool \<Rightarrow> world \<Rightarrow> world" where
  "wlc_view_set_type view ty toggle w = wlc_view_set_type_ptr (live_view w view) ty toggle w"

definition wlc_view_get_state :: "world \<Rightarrow> nat \<Rightarrow> u32" where
  "wlc_view_get_state w view = (case view_of w view of None \<Rightarrow> 0 | Some v \<Rightarrow> vs_state (v_pending v))"

definition wlc_view_set_state :: "nat \<Rightarrow> u32 \<Rightarrow> bool \<Rightarrow> world \<Rightarrow> world" where
  "wlc_view_set_state view st toggle w = wlc_view_set_state_ptr (live_view w view) st toggle w"

definition wlc_view_get_parent :: "world \<Rightarrow> nat \<Rightarrow> nat" where
  "wlc_view_get_parent w view = (case view_of w view of None \<Rightarrow> 0 | Some v \<Rightarrow> v_parent v)"

definition wlc_view_set_parent :: "nat \<Rightarrow> nat \<Rightarrow> world \<Rightarrow> world" where
  "wlc_view_set_parent view parent w = wlc_view_set_parent_ptr (live_view w view) (live_view w parent) w"

text \<open>An empty string is no string to the author.\<close>

definition get_cstr :: "string option \<Rightarrow> string option" where
  "get_cstr s = (case s of None \<Rightarrow> None | Some [] \<Rightarrow> None | Some t \<Rightarrow> Some t)"

definition wlc_view_get_title :: "world \<Rightarrow> nat \<Rightarrow> string option" where
  "wlc_view_get_title w view = (case view_of w view of None \<Rightarrow> None | Some v \<Rightarrow> get_cstr (v_title v))"

definition wlc_view_get_instance :: "world \<Rightarrow> nat \<Rightarrow> string option" where
  "wlc_view_get_instance w view = (case view_of w view of None \<Rightarrow> None | Some v \<Rightarrow> get_cstr (v_instance v))"

definition wlc_view_get_class :: "world \<Rightarrow> nat \<Rightarrow> string option" where
  "wlc_view_get_class w view = (case view_of w view of None \<Rightarrow> None | Some v \<Rightarrow> get_cstr (v_class v))"

definition wlc_view_get_app_id :: "world \<Rightarrow> nat \<Rightarrow> string option" where
  "wlc_view_get_app_id w view = (case view_of w view of None \<Rightarrow> None | Some v \<Rightarrow> get_cstr (v_app_id v))"

definition wlc_view_get_pid :: "env \<Rightarrow> world \<Rightarrow> nat \<Rightarrow> int" where
  "wlc_view_get_pid E w view =
     (case view_of w view of
        None \<Rightarrow> 0
      | Some v \<Rightarrow> if is_x11_view v then v_pid v else ext_client_pid E (wlc_view_get_client_ptr E w view))"

definition wlc_view_is_minimized :: "world \<Rightarrow> nat \<Rightarrow> bool" where
  "wlc_view_is_minimized w view = wlc_view_is_minimized_ptr w (live_view w view)"

section \<open>Bits of a toggled word\<close>

lemma bit_BIT_TOGGLE:
  "bit (BIT_TOGGLE w m f) n \<longleftrightarrow> (if bit m n then f else bit w n)"
proof (cases "n < 32")
  case True
  then show ?thesis by (cases f) (auto simp: BIT_TOGGLE_def bit_or_iff bit_and_iff bit_not_iff)
next
  case False
  then show ?thesis by (auto simp: not_less dest: bit_imp_le_length)
qed

lemma any_bit_iff: "any_bit w m \<longleftrightarrow> (\<exists>n. bit w n \<and> bit m n)"
proof -
  have "n < 32" if "bit w n" for n using bit_imp_le_length [OF that] by simp
  then show ?thesis by (auto simp: any_bit_def bit_eq_iff bit_and_iff)
qed

lemma any_bit_BIT_TOGGLE:
  assumes "m \<noteq> 0"
  shows "any_bit (BIT_TOGGLE w m f) m = f"
proof -
  obtain n where "bit m n" using assms by (auto simp: bit_eq_iff)
  then show ?thesis by (auto simp: any_bit_iff bit_BIT_TOGGLE)
qed

section \<open>What the operations on views leave alone\<close>

text \<open>\<open>view_erase\<close> blanks, beyond \<open>att_erase\<close>, the states of the views, the stacks of the outputs and the
  serial. A projection of the world that factors through it is kept by every operation of this theory whose
  callbacks keep it.\<close>

definition erase_view :: "wlc_view \<Rightarrow> wlc_view" where
  "erase_view v =
     v\<lparr>v_pending := \<lparr>vs_geometry = wlc_geometry_zero, vs_edges = 0, vs_state = 0\<rparr>,
       v_commit := \<lparr>vs_geometry = wlc_geometry_zero, vs_edges = 0, vs_state = 0\<rparr>,
       v_surface_pending := wlc_geometry_zero, v_surface_commit := wlc_geometry_zero,
       v_wl_state := [], v_created := False\<rparr>"

definition erase_stack :: "wlc_output \<Rightarrow> wlc_output" where
  "erase_stack x = x\<lparr>o_views := [], o_mutable := []\<rparr>"

definition blank_views :: "world \<Rightarrow> world" where
  "blank_views w =
     w\<lparr>w_views := (\<lambda>h. map_option erase_view (w_views w h)),
       w_outputs := (\<lambda>h. map_option erase_stack (w_outputs w h)), w_serial := 0\<rparr>"

definition view_erase :: "world \<Rightarrow> world" where
  "view_erase w = blank_views (att_erase w)"

lemma view_erase_att: "att_erase w' = att_erase w \<Longrightarrow> view_erase w' = view_erase w"
  by (simp add: view_erase_def)

lemma view_erase_upd_view:
  "(\<And>v. erase_view (f v) = erase_view v) \<Longrightarrow> view_erase (upd_view h f w) = view_erase w"
  by (simp add: view_erase_def blank_views_def att_erase_def upd_view_def fun_eq_iff option.map_comp o_def
      cong: option.map_cong)

lemma view_erase_upd_output:
  "(\<And>x. erase_stack (erase_output (f x)) = erase_stack (erase_output x)) \<Longrightarrow> view_erase (upd_output h f w) = view_erase w"
  by (simp add: view_erase_def blank_views_def att_erase_def upd_output_def fun_eq_iff option.map_comp o_def
      cong: option.map_cong)

lemma view_erase_serial: "view_erase (w\<lparr>w_serial := n\<rparr>) = view_erase w"
  by (simp add: view_erase_def blank_views_def att_erase_def)

locale view_frame =
  fixes P :: "world \<Rightarrow> 'a"
  assumes factors: "view_erase w' = view_erase w \<Longrightarrow> P w' = P w"
begin

lemma keep_att: "att_erase w' = att_erase w \<Longrightarrow> P w' = P w"
  by (rule factors) (rule view_erase_att)

lemma keep_upd_view: "(\<And>v. erase_view (f v) = erase_view v) \<Longrightarrow> P (upd_view h f w) = P w"
  by (rule factors) (rule view_erase_upd_view)

lemma keep_upd_stack:
  "(\<And>x. erase_stack (erase_output (f x)) = erase_stack (erase_output x)) \<Longrightarrow> P (upd_output h f w) = P w"
  by (rule factors) (rule view_erase_upd_output)

lemmas keep_basic =
  keep_att [OF att_erase_emit] keep_att [OF att_erase_fail] keep_att [OF att_erase_schedule_repaint]
  keep_att [OF att_erase_view_update] keep_att [OF att_erase_attach_view] keep_att [OF att_erase_tree_transform]
  keep_att [OF att_erase_surface_attach_to_output] keep_att [OF att_erase_surface_invalidate]

lemma keep_link_view: "env_keeps E P \<Longrightarrow> P (wlc_output_link_view E oid vid link other w) = P w"
  by (simp add: wlc_output_link_view_def link_take_off_def Let_def keep_basic keep_upd_stack
      erase_stack_def erase_output_def call_keeps env_keepsD)

lemma keep_unlink_view: "P (wlc_output_unlink_view E oid vid w) = P w"
  by (simp add: wlc_output_unlink_view_def keep_basic keep_upd_stack erase_stack_def erase_output_def)

lemma keep_configure_view: "P (configure_view vid edges g w) = P w"
  by (simp add: configure_view_def Let_def next_serial_def case_prod_beta keep_basic
      factors [OF view_erase_serial] split: option.split)

lemma keep_close: "env_keeps E P \<Longrightarrow> P (wlc_view_close_ptr E vid w) = P w"
  by (simp add: wlc_view_close_ptr_def Let_def keep_basic env_keepsD wl_of_not_buffer split: option.split)

lemma keep_announce: "env_keeps E P \<Longrightarrow> P (snd (announce_view E vid s w)) = P w"
  by (simp add: announce_view_def Let_def case_prod_beta keep_close call_keeps env_keepsD keep_upd_view erase_view_def)

lemma keep_commit_transform: "P (commit_transform E vid sid w) = P w"
  by (simp add: commit_transform_def Let_def case_prod_beta keep_basic split: option.split)

lemma keep_commit_pending: "P (commit_pending E vid sid w) = P w"
  by (simp add: commit_pending_def Let_def keep_basic keep_commit_transform keep_configure_view keep_upd_view erase_view_def
      split: option.split)

lemma keep_commit_state: "env_keeps E P \<Longrightarrow> P (wlc_view_commit_state E vid w) = P w"
  by (simp add: wlc_view_commit_state_def Let_def case_prod_beta keep_basic keep_announce keep_commit_pending
      split: option.split)

lemma keep_map: "env_keeps E P \<Longrightarrow> P (wlc_view_map E vid w) = P w"
  by (simp add: wlc_view_map_def Let_def keep_basic keep_link_view keep_configure_view keep_commit_state
      split: option.split)

lemma keep_unmap: "env_keeps E P \<Longrightarrow> P (wlc_view_unmap E vid w) = P w"
  by (simp add: wlc_view_unmap_def Let_def keep_basic keep_unlink_view call_keeps env_keepsD keep_upd_view erase_view_def
      split: option.split)

lemma keep_request_geometry: "env_keeps E P \<Longrightarrow> P (snd (wlc_view_request_geometry E vid r w)) = P w"
  by (simp add: wlc_view_request_geometry_def Let_def keep_basic keep_configure_view call_keeps env_keepsD
      keep_upd_view erase_view_def split: option.split)

lemma keep_ack: "env_keeps E P \<Longrightarrow> P (wlc_view_ack_surface_attach E vid sid w) = P w"
  by (simp add: wlc_view_ack_surface_attach_def Let_def keep_basic keep_request_geometry keep_upd_view erase_view_def
      split: option.split)

lemma keep_set_state: "P (wlc_view_set_state_ptr vid st toggle w) = P w"
  by (simp add: wlc_view_set_state_ptr_def Let_def keep_basic keep_upd_view erase_view_def split: option.split)

lemma keep_request_state: "env_keeps E P \<Longrightarrow> P (snd (wlc_view_request_state E vid st toggle w)) = P w"
  by (simp add: wlc_view_request_state_def Let_def keep_configure_view keep_set_state call_keeps env_keepsD
      split: option.split)

end

text \<open>Two projections that factor: the state of the compositor, and the links between views and surfaces.\<close>

definition links :: "world \<Rightarrow> (nat \<Rightarrow> nat option) \<times> (nat \<Rightarrow> nat option)" where
  "links w = (\<lambda>h. map_option v_surface (view_of w h), \<lambda>r. map_option sf_view (surface_of w r))"

lemma view_erase_views:
  assumes "view_erase w' = view_erase w"
  shows "map_option erase_view (view_of w' h) = map_option erase_view (view_of w h)"
proof -
  have "w_views (view_erase v) = (\<lambda>h. map_option erase_view (w_views v h))" for v
    by (simp add: view_erase_def blank_views_def att_erase_def)
  then have "map_option erase_view (w_views w' h) = map_option erase_view (w_views w h)"
    using assms by metis
  then show ?thesis by (simp add: view_of_def)
qed

lemma view_erase_res:
  assumes "view_erase w' = view_erase w"
  shows "map_option erase_entry (w_res w' r) = map_option erase_entry (w_res w r)"
proof -
  have "w_res (view_erase v) = (\<lambda>h. map_option erase_entry (w_res v h))" for v
    by (simp add: view_erase_def blank_views_def att_erase_def)
  then show ?thesis using assms by metis
qed

lemma erased_surface:
  assumes "map_option erase_entry (w_res w' r) = map_option erase_entry (w_res w r)"
  shows "map_option erase_surface (surface_of w' r) = map_option erase_surface (surface_of w r)"
    and "map_option erase_buffer (buffer_of w' r) = map_option erase_buffer (buffer_of w r)"
proof -
  have "(w_res w' r = None \<and> w_res w r = None) \<or>
      (\<exists>e' e. w_res w' r = Some e' \<and> w_res w r = Some e \<and> erase_data (re_data e') = erase_data (re_data e))"
    using assms by (cases "w_res w' r"; cases "w_res w r") (auto dest: erase_entry_eqD)
  then show "map_option erase_surface (surface_of w' r) = map_option erase_surface (surface_of w r)"
    "map_option erase_buffer (buffer_of w' r) = map_option erase_buffer (buffer_of w r)"
    by (auto simp: surface_of_def buffer_of_def split: res_data.splits)
qed

lemma option_field:
  assumes "map_option e x = map_option e y" and "\<And>a. f (e a) = f a"
  shows "map_option f x = map_option f y"
  using assms by (cases x; cases y) (auto, metis)

interpretation comp_frame: view_frame w_comp
proof
  fix w w' :: world
  assume "view_erase w' = view_erase w"
  then have "w_comp (view_erase w') = w_comp (view_erase w)" by simp
  then show "w_comp w' = w_comp w" by (simp add: view_erase_def blank_views_def att_erase_def)
qed

interpretation links_frame: view_frame links
proof
  fix w w' :: world
  assume e: "view_erase w' = view_erase w"
  have "map_option v_surface (view_of w' h) = map_option v_surface (view_of w h)" for h
    using view_erase_views [OF e] by (rule option_field) (simp add: erase_view_def)
  moreover have "map_option sf_view (surface_of w' r) = map_option sf_view (surface_of w r)" for r
    using erased_surface(1) [OF view_erase_res [OF e]] by (rule option_field) (simp add: erase_surface_def)
  ultimately show "links w' = links w" by (simp add: links_def fun_eq_iff)
qed

section \<open>Properties\<close>

lemma view_of_update [simp]: "view_of (wlc_view_update vid w) = view_of w"
  by (rule att_erase_eqD(1)) (rule att_erase_view_update)

lemma view_of_schedule [simp]: "view_of (wlc_output_schedule_repaint oid w) = view_of w"
  by (rule att_erase_eqD(1)) (rule att_erase_schedule_repaint)

text \<open>wlc_view_set_state changes exactly the bits it is given, to the value it is given, in the pending
  state, and nothing else of any view; when the pending state then differs from the committed one, the output of the
  view has a repaint scheduled.\<close>

theorem view_set_state_spec:
  assumes "view_of w view = Some v"
  shows "\<exists>st'. (\<forall>n. bit st' n = (if bit st n then toggle else bit (vs_state (v_pending v)) n)) \<and>
    view_of (wlc_view_set_state view st toggle w) =
      (view_of w)(view \<mapsto> v\<lparr>v_pending := (v_pending v)\<lparr>vs_state := st'\<rparr>\<rparr>) \<and>
    ((v_pending v)\<lparr>vs_state := st'\<rparr> \<noteq> v_commit v \<longrightarrow>
      (\<forall>x. output_of (wlc_view_set_state view st toggle w) (wlc_view_get_output_ptr w view) = Some x \<longrightarrow>
        o_activity x \<and> o_scheduled x))"
proof -
  let ?st = "BIT_TOGGLE (vs_state (v_pending v)) st toggle"
  let ?w = "upd_view view (\<lambda>v. v\<lparr>v_pending := (v_pending v)\<lparr>vs_state := BIT_TOGGLE (vs_state (v_pending v)) st toggle\<rparr>\<rparr>) w"
  have eq: "wlc_view_set_state view st toggle w = wlc_view_update view ?w"
    using assms by (simp add: wlc_view_set_state_def wlc_view_set_state_ptr_def live_view_def)
  have out: "wlc_view_get_output_ptr ?w view = wlc_view_get_output_ptr w view"
    using assms by (simp add: wlc_view_get_output_ptr_def split: option.split)
  have h: "view \<noteq> 0" using assms by (cases "view = 0") simp_all
  have v: "view_of ?w = (view_of w)(view \<mapsto> v\<lparr>v_pending := (v_pending v)\<lparr>vs_state := ?st\<rparr>\<rparr>)"
    using assms by auto
  have sched: "o_activity x \<and> o_scheduled x"
    if "output_of (wlc_output_schedule_repaint oid ?w) oid = Some x" for x oid
    using that schedule_flags [of ?w oid] by (cases "output_of ?w oid") (auto simp: wlc_output_schedule_repaint_def)
  show ?thesis
    unfolding eq
    by (rule exI [of _ ?st]) (use assms v out sched in \<open>auto simp: bit_BIT_TOGGLE wlc_view_update_def\<close>)
qed

text \<open>What a configure tells the client: the reference for the events of \<open>configure_view\<close>.\<close>

definition configure_events :: "world \<Rightarrow> wlc_view \<Rightarrow> u32 \<Rightarrow> wlc_geometry \<Rightarrow> event list" where
  "configure_events w v edges g =
     (if wl_of w (v_xdg_toplevel v) K_xdg_toplevel \<noteq> 0
      then [Send_toplevel_configure (wl_of w (v_xdg_toplevel v) K_xdg_toplevel) (sw (gsize g)) (sh (gsize g)) (v_wl_state v)]
      else if wl_of w (v_xdg_popup v) K_xdg_popup \<noteq> 0
      then (let ssz = snd (popup_size w (v_xdg_popup v) (gsize g))
            in [Send_popup_configure (wl_of w (v_xdg_popup v) K_xdg_popup) (px (gorigin g)) (py (gorigin g)) (sw ssz) (sh ssz)])
      else if wl_of w (v_shell_surface v) K_shell_surface \<noteq> 0
      then [Send_shell_surface_configure (wl_of w (v_shell_surface v) K_shell_surface) edges (sw (gsize g)) (sh (gsize g))]
      else []) @
     (if wl_of w (v_xdg_surface v) K_xdg_surface \<noteq> 0
      then [Send_xdg_surface_configure (wl_of w (v_xdg_surface v) K_xdg_surface) (w_serial w + 1)] else [])"

lemma serial_fields [simp]:
  "view_of (w\<lparr>w_serial := n\<rparr>) = view_of w" "output_of (w\<lparr>w_serial := n\<rparr>) = output_of w"
  "surface_of (w\<lparr>w_serial := n\<rparr>) = surface_of w" "buffer_of (w\<lparr>w_serial := n\<rparr>) = buffer_of w"
  by (auto simp: view_of_def output_of_def surface_of_def buffer_of_def)

lemma configure_view_frame [simp]:
  "view_of (configure_view vid edges g w) = view_of w" "output_of (configure_view vid edges g w) = output_of w"
  "surface_of (configure_view vid edges g w) = surface_of w" "buffer_of (configure_view vid edges g w) = buffer_of w"
  by (auto simp: configure_view_def Let_def next_serial_def case_prod_beta fun_eq_iff split: option.split)

lemma popup_size_upd_view [simp]: "popup_size (upd_view h f w) r z = popup_size w r z"
  by (simp add: popup_size_def popup_data_def split: option.split)

lemma configure_view_trace:
  "view_of w vid = Some v \<Longrightarrow> w_trace (configure_view vid edges g w) = w_trace w @ configure_events w v edges g"
  by (simp add: configure_view_def configure_events_def Let_def next_serial_def case_prod_beta)

lemma tree_transform_frame [simp]:
  "w_trace (surface_tree_update_coordinate_transform E sid area w) = w_trace w"
  "view_of (surface_tree_update_coordinate_transform E sid area w) = view_of w"
proof -
  have one: "w_trace (surface_update_coordinate_transform E c area w) = w_trace w" for c w
    by (simp add: surface_update_coordinate_transform_def split: option.split)
  have "w_trace (fold (\<lambda>c. surface_update_coordinate_transform E c area) cs w) = w_trace w" for cs w
    by (induction cs arbitrary: w) (simp_all add: one)
  then show "w_trace (surface_tree_update_coordinate_transform E sid area w) = w_trace w"
    by (simp add: surface_tree_update_coordinate_transform_def Let_def one split: option.split)
  show "view_of (surface_tree_update_coordinate_transform E sid area w) = view_of w"
    by (rule att_erase_eqD(1)) (rule att_erase_tree_transform)
qed

lemma commit_transform_frame [simp]:
  "w_trace (commit_transform E vid sid w) = w_trace w" "view_of (commit_transform E vid sid w) = view_of w"
  by (auto simp: commit_transform_def Let_def case_prod_beta fun_eq_iff split: option.split)

text \<open>When pushing to the array of states does not fail, \<open>v_wl_state\<close> becomes the names of the set bits.\<close>

lemma wl_states_eq:
  assumes "pool_ops_ok (sp E)" and "\<And>xs x. push_back (sp E) xs x \<noteq> None"
  shows "wl_states E st = map snd (filter (\<lambda>(b, n). any_bit st b) (wl_state_map E))"
proof -
  have push: "pool_push_back (sp E) x xs = xs @ [x]" for x xs
    using assms(2) [of xs x] pool_ops_okD(1) [OF assms(1), of xs x]
    by (auto simp: pool_push_back_def split: option.split)
  have "fold (\<lambda>(b, n) xs. if any_bit st b then pool_push_back (sp E) n xs else xs) l acc =
        acc @ map snd (filter (\<lambda>(b, n). any_bit st b) l)" for l acc
    by (induction l arbitrary: acc) (auto simp: push)
  then show ?thesis by (simp add: wl_states_def)
qed

text \<open>Committing a created view (wlc_view_commit_state) makes its committed state the pending state,
  which stays as it is; the client is told exactly when the state bits or the size changed, by one configure with the
  pending geometry and the wayland names of exactly the pending state bits, and nothing else is sent.\<close>

theorem view_commit_publishes:
  assumes "view_of w vid = Some v" and "v_created v" and "surface_of w (v_surface v) = Some s"
    and "pool_ops_ok (sp E)" and "\<And>xs x. push_back (sp E) xs x \<noteq> None"
  shows "\<exists>v'. view_of (wlc_view_commit_state E vid w) vid = Some v' \<and>
    v_commit v' = v_pending v \<and> v_pending v' = v_pending v \<and>
    v_wl_state v' =
      (if vs_state (v_pending v) = vs_state (v_commit v) then v_wl_state v
       else map snd (filter (\<lambda>(b, n). any_bit (vs_state (v_pending v)) b) (wl_state_map E))) \<and>
    w_trace (wlc_view_commit_state E vid w) =
      w_trace w @
      (if v_pending v \<noteq> v_commit v \<and>
          (vs_state (v_pending v) \<noteq> vs_state (v_commit v) \<or>
           gsize (vs_geometry (v_pending v)) \<noteq> gsize (vs_geometry (v_commit v)) \<or>
           gsize (vs_geometry (v_pending v)) \<noteq> sf_size s)
       then configure_events w v' (vs_edges (v_pending v)) (vs_geometry (v_pending v)) else [])"
proof (cases "v_pending v = v_commit v")
  case True
  then show ?thesis
    using assms by (simp add: wlc_view_commit_state_def commit_pending_def Let_def)
next
  case False
  let ?p = "v_pending v"
  define ws where "ws = (if vs_state ?p \<noteq> vs_state (v_commit v) then wl_states E (vs_state ?p) else v_wl_state v)"
  define w1 where "w1 = (if vs_state ?p \<noteq> vs_state (v_commit v)
      then upd_view vid (\<lambda>v. v\<lparr>v_wl_state := wl_states E (vs_state ?p)\<rparr>) w else w)"
  define ch where "ch = (vs_state ?p \<noteq> vs_state (v_commit v) \<or> gsize (vs_geometry ?p) \<noteq> gsize (vs_geometry (v_commit v))
      \<or> gsize (vs_geometry ?p) \<noteq> sf_size s)"
  define w2 where "w2 = (if ch then configure_view vid (vs_edges ?p) (vs_geometry ?p) w1 else w1)"
  define v' where "v' = v\<lparr>v_wl_state := ws, v_commit := ?p\<rparr>"
  have w1: "view_of w1 vid = Some (v\<lparr>v_wl_state := ws\<rparr>)" "w_trace w1 = w_trace w" "surface_of w1 = surface_of w"
    using assms(1) by (auto simp: w1_def ws_def fun_eq_iff)
  have t2: "w_trace w2 = w_trace w @ (if ch then configure_events w1 (v\<lparr>v_wl_state := ws\<rparr>) (vs_edges ?p) (vs_geometry ?p) else [])"
    using configure_view_trace [OF w1(1)] w1(2) by (simp add: w2_def)
  have ce: "configure_events w1 (v\<lparr>v_wl_state := ws\<rparr>) e g = configure_events w v' e g" for e g
    by (simp add: configure_events_def w1_def v'_def)
  have eq: "wlc_view_commit_state E vid w =
      commit_transform E vid (v_surface v) (upd_view vid (\<lambda>v. v\<lparr>v_commit := ?p\<rparr>) w2)"
    using assms(1,2,3) False w1(3)
    by (simp add: wlc_view_commit_state_def commit_pending_def Let_def flip: w1_def) (simp add: w2_def ch_def)
  have "view_of (wlc_view_commit_state E vid w) vid = Some v'" "w_trace (wlc_view_commit_state E vid w) = w_trace w2"
    unfolding eq using w1 by (simp_all add: w2_def v'_def)
  then show ?thesis
    using t2 ce False assms(4,5) by (simp add: v'_def ws_def ch_def wl_states_eq)
qed

text \<open>The answer of wlc_view_request_state is the truth about the pending state it leaves: with a
  callback of the author it tells whether the author complied, and without one every request that names a
  bit is granted.\<close>

theorem view_request_state_truthful:
  assumes "view_of w vid = Some v" and "v_created v"
    and "wlc_view_request_state E vid st toggle w = (granted, w')" and "view_of w' vid = Some v'"
  shows "granted = (any_bit (vs_state (v_pending v')) st = toggle) \<and>
    (if_view_request_state (iface E) = None \<and> st \<noteq> 0 \<longrightarrow> granted)"
proof (cases "any_bit (vs_state (v_pending v)) st = toggle")
  case True
  then have "w' = w \<or> w' = configure_view vid (vs_edges (v_pending v)) (vs_geometry (v_pending v)) w" "granted"
    using assms(1-3) by (auto simp: wlc_view_request_state_def split: if_splits)
  then show ?thesis using True assms(1,4) by auto
next
  case False
  then have g: "granted = (any_bit (vs_state (v_pending v')) st = toggle)"
    using assms by (auto simp: wlc_view_request_state_def Let_def split: if_splits)
  moreover have "any_bit (vs_state (v_pending v')) st = toggle" if "if_view_request_state (iface E) = None" "st \<noteq> 0"
  proof -
    have "w' = wlc_view_set_state_ptr vid st toggle w"
      using assms(1-3) False that by (simp add: wlc_view_request_state_def Let_def)
    then have "v_pending v' = (v_pending v)\<lparr>vs_state := BIT_TOGGLE (vs_state (v_pending v)) st toggle\<rparr>"
      using assms(1,4) by (auto simp: wlc_view_set_state_ptr_def)
    then show ?thesis using that(2) by (simp add: any_bit_BIT_TOGGLE)
  qed
  ultimately show ?thesis by blast
qed

text \<open>The requests that write the state of a view.\<close>

datatype view_request =
    Rq_mask u32 | Rq_geometry u32 wlc_geometry | Rq_type u32 bool | Rq_state u32 bool | Rq_parent nat
  | Rq_minimized bool | Rq_title string | Rq_app_id string | Rq_pid int
  | Rq_request_state u32 bool | Rq_request_geometry wlc_geometry | Rq_focus

fun view_request_run :: "env \<Rightarrow> nat \<times> view_request \<Rightarrow> world \<Rightarrow> world" where
  "view_request_run E (h, Rq_mask m) w = wlc_view_set_mask h m w"
| "view_request_run E (h, Rq_geometry e g) w = wlc_view_set_geometry h e g w"
| "view_request_run E (h, Rq_type ty t) w = wlc_view_set_type h ty t w"
| "view_request_run E (h, Rq_state st t) w = wlc_view_set_state h st t w"
| "view_request_run E (h, Rq_parent p) w = wlc_view_set_parent h p w"
| "view_request_run E (h, Rq_minimized m) w = wlc_view_set_minimized_ptr E h m w"
| "view_request_run E (h, Rq_title s) w = wlc_view_set_title_ptr E h s (length s) w"
| "view_request_run E (h, Rq_app_id s) w = wlc_view_set_app_id_ptr E h s w"
| "view_request_run E (h, Rq_pid p) w = wlc_view_set_pid_ptr E h p w"
| "view_request_run E (h, Rq_request_state st t) w = snd (wlc_view_request_state E h st t w)"
| "view_request_run E (h, Rq_request_geometry g) w = snd (wlc_view_request_geometry E h g w)"
| "view_request_run E (h, Rq_focus) w = wlc_view_focus E h w"

definition committed :: "world \<Rightarrow> nat \<Rightarrow> wlc_view_state option" where
  "committed w h = map_option v_commit (view_of w h)"

lemma committed_basic [simp]:
  "committed (wlc_view_update vid w) = committed w" "committed (wlc_output_schedule_repaint oid w) = committed w"
  "committed (configure_view vid edges g w) = committed w" "committed (fail x w) = committed w"
  by (auto simp: committed_def fun_eq_iff)

lemma committed_upd_view: "(\<And>v. v_commit (f v) = v_commit v) \<Longrightarrow> committed (upd_view h f w) = committed w"
  unfolding committed_def fun_eq_iff by (intro allI views.field_upd)

lemma committed_request:
  assumes "env_keeps E committed"
  shows "committed (view_request_run E (h, rq) w) = committed w"
  using assms
  by (cases rq)
     (simp_all add: wlc_view_set_mask_def wlc_view_set_mask_ptr_def wlc_view_set_geometry_def
       wlc_view_set_geometry_ptr_def wlc_view_set_type_def wlc_view_set_type_ptr_def wlc_view_set_state_def
       wlc_view_set_state_ptr_def wlc_view_set_parent_def wlc_view_set_parent_ptr_def wlc_view_set_minimized_ptr_def
       wlc_view_set_title_ptr_def wlc_view_set_app_id_ptr_def wlc_view_set_pid_ptr_def wlc_view_request_state_def
       wlc_view_request_geometry_def wlc_view_focus_def wlc_view_focus_ptr_def Let_def case_prod_beta
       committed_upd_view call_keeps env_keepsD split: option.split)

text \<open>The state of a view is double buffered: no sequence of requests, by the author or by clients,
  changes the committed state of any view (callbacks of the author that commit nothing assumed).\<close>

theorem view_requests_keep_committed:
  assumes "env_keeps E committed"
  shows "committed (fold (view_request_run E) rqs w) = committed w"
  using committed_request [OF assms] by (induction rqs arbitrary: w) (simp_all add: split_paired_all)

section \<open>Mapping\<close>

lemma stack_of_frame [simp]:
  "stack_of (configure_view vid e g w) h = stack_of w h" "stack_of (fail x w) h = stack_of w h"
  "stack_of (emit ev w) h = stack_of w h" "stack_of (upd_view u f w) h = stack_of w h"
  "stack_of (wlc_view_update vid w) h = stack_of w h"
  by (simp_all add: stack_of_def att_erase_output_fields(1) [OF att_erase_view_update])

lemma stack_of_commit_pending [simp]: "stack_of (commit_pending E vid sid w) h = stack_of w h"
proof -
  have "att_erase (commit_transform E vid sid u) = att_erase u" for u
    by (simp add: commit_transform_def Let_def case_prod_beta frame_simps split: option.split)
  then have "stack_of (commit_transform E vid sid u) h = stack_of u h" for u
    unfolding stack_of_def by (rule att_erase_output_fields(1))
  then show ?thesis by (simp add: commit_pending_def Let_def split: option.split)
qed

lemma stack_of_commit_state:
  assumes "env_keeps E (\<lambda>w. stack_of w h)"
  shows "stack_of (wlc_view_commit_state E vid w) h = stack_of w h"
  using assms
  by (simp add: wlc_view_commit_state_def announce_view_def wlc_view_close_ptr_def Let_def case_prod_beta
      env_keepsD(22,24) [OF assms] wl_of_not_buffer call_keeps(4) [OF env_keepsD(9) [OF assms]] split: option.split)

text \<open>Mapping a view that is not created puts it on top of the stack of the output of its surface
  and keeps the order of the others; unmapping it takes it off that stack, and an unmapped view is not
  created.\<close>

theorem view_map_and_unmap:
  assumes "pool_ops_ok (hp E)" and "env_keeps E (\<lambda>w. stack_of w oid)"
    and "wlc_view_get_output_ptr w vid = oid" and "oid \<noteq> 0" and "stack_of w oid = Some xs"
    and "map_option v_created (view_of w vid) = Some created"
    and "push_back (hp E) (remove1 vid xs) vid \<noteq> None"
  shows "stack_of (wlc_view_map E vid w) oid = Some (if created then xs else remove1 vid xs @ [vid]) \<and>
    stack_of (wlc_view_unmap E vid w) oid = Some (remove1 vid xs) \<and>
    (\<forall>v'. view_of (wlc_view_unmap E vid w) vid = Some v' \<longrightarrow> \<not> v_created v')"
proof -
  note live = get_output_live [OF assms(3,4)]
  obtain v where v: "view_of w vid = Some v" "v_created v = created" using assms(6) by auto
  have base: "link_base w oid vid = remove1 vid xs"
    using assms(3,5) by (auto simp: link_base_def stack_of_Some)
  have silent: "link_silent E w oid vid" using assms(3) by (simp add: link_silent_def)
  obtain l where l: "push_back (hp E) (remove1 vid xs) vid = Some l" "l = remove1 vid xs @ [vid]"
    using assms(7) pool_ops_okD(1) [OF assms(1)] by blast
  have link: "stack_of (wlc_output_link_view E oid vid LINK_ABOVE 0 w) oid = Some (remove1 vid xs @ [vid])"
    using link_view_unfold [OF assms(1) _ silent, of LINK_ABOVE 0] live l
    by (auto simp: base link_put_def)
  have m: "stack_of (wlc_view_map E vid w) oid = Some (if created then xs else remove1 vid xs @ [vid])"
    using v assms(3,5) link by (simp add: wlc_view_map_def Let_def stack_of_commit_state [OF assms(2)])
  have un: "stack_of (wlc_output_unlink_view E oid vid w) oid = Some (remove1 vid xs)"
  proof -
    have "stack_of (wlc_output_unlink_view E oid vid w) oid = map_option (remove1 vid) (stack_of w oid)"
      using live assms(1,3) by (simp add: wlc_output_unlink_view_def)
        (simp add: stack_of_def option.map_comp o_def)
    then show ?thesis using assms(5) by simp
  qed
  have u: "view_of (wlc_output_unlink_view E oid vid w) vid = Some v"
    using v by (simp add: wlc_output_unlink_view_def)
  have "stack_of (wlc_view_unmap E vid w) oid = Some (remove1 vid xs)"
    using un u assms(3) call_keeps(1) [OF env_keepsD(10) [OF assms(2)]] by (simp add: wlc_view_unmap_def Let_def)
  moreover have "\<not> v_created v'" if "view_of (wlc_view_unmap E vid w) vid = Some v'" for v'
    using that u assms(3) by (auto simp: wlc_view_unmap_def Let_def split: if_splits)
  ultimately show ?thesis using m by blast
qed

section \<open>Witnesses\<close>

text \<open>A toplevel on output 1 whose pending state is larger than its committed one, maximized and activated.\<close>

definition toplevel_view :: wlc_view where
  "toplevel_view =
     view_blank\<lparr>v_pending := \<lparr>vs_geometry = \<lparr>gorigin = wlc_point_zero, gsize = \<lparr>sw = 100, sh = 50\<rparr>\<rparr>,
                               vs_edges = 0, vs_state = 17\<rparr>,
                v_surface := 23, v_xdg_surface := 33, v_xdg_toplevel := 34, v_created := True\<rparr>"

definition view_world :: world where
  "view_world =
     put_output 1 (output_blank\<lparr>o_views := [11, 13, 14]\<rparr>) (put_view 13 toplevel_view
    (put_res 23 (R_surface (surface_blank\<lparr>sf_output := 1, sf_view := 13, sf_size := \<lparr>sw = 64, sh = 48\<rparr>\<rparr>)) 7
    (put_res 33 (R_xdg_surface 31) 8 (put_res 34 R_xdg_toplevel 9 world_blank))))"

lemma view_world_facts:
  "view_of view_world 13 = Some toplevel_view" "v_created toplevel_view" "w_trace view_world = []"
  "surface_of view_world 23 = Some (surface_blank\<lparr>sf_output := 1, sf_view := 13, sf_size := \<lparr>sw = 64, sh = 48\<rparr>\<rparr>)"
  "wlc_view_get_output_ptr view_world 13 = 1" "stack_of view_world 1 = Some [11, 13, 14]"
  by (simp_all add: view_world_def toplevel_view_def wlc_view_get_output_ptr_def stack_of_def surface_blank_def
      output_blank_def view_blank_def)

theorem view_set_state_spec_witness:
  "\<exists>st'. bit st' 1 \<and> view_of (wlc_view_set_state 13 WLC_BIT_FULLSCREEN True view_world) =
      (view_of view_world)(13 \<mapsto> toplevel_view\<lparr>v_pending := (v_pending toplevel_view)\<lparr>vs_state := st'\<rparr>\<rparr>)"
proof -
  have "bit WLC_BIT_FULLSCREEN 1" by (simp add: WLC_BIT_FULLSCREEN_def)
  then show ?thesis
    using view_set_state_spec [OF view_world_facts(1), of WLC_BIT_FULLSCREEN True] by metis
qed

theorem view_commit_publishes_witness:
  "\<exists>v'. view_of (wlc_view_commit_state env_ref 13 view_world) 13 = Some v' \<and>
     v_commit v' = v_pending toplevel_view \<and> v_wl_state v' = [1, 4] \<and>
     w_trace (wlc_view_commit_state env_ref 13 view_world) =
       [Send_toplevel_configure 9 100 50 [1, 4], Send_xdg_surface_configure 8 1]"
proof -
  have st: "vs_state (v_pending toplevel_view) = 17" "vs_state (v_commit toplevel_view) = 0" "v_surface toplevel_view = 23"
    "vs_geometry (v_pending toplevel_view) = \<lparr>gorigin = wlc_point_zero, gsize = \<lparr>sw = 100, sh = 50\<rparr>\<rparr>"
    by (simp_all add: toplevel_view_def view_blank_def)
  then have ne: "v_pending toplevel_view \<noteq> v_commit toplevel_view" by fastforce
  have names: "map snd (filter (\<lambda>(b, n). any_bit 17 b) (wl_state_map env_ref)) = [1, 4]"
    by (simp add: wl_state_map_def any_bit_def WLC_BIT_MAXIMIZED_def WLC_BIT_FULLSCREEN_def
        WLC_BIT_RESIZING_def WLC_BIT_ACTIVATED_def)
  obtain v' where v': "view_of (wlc_view_commit_state env_ref 13 view_world) 13 = Some v'"
    "v_commit v' = v_pending toplevel_view" "v_wl_state v' = [1, 4]"
    "w_trace (wlc_view_commit_state env_ref 13 view_world) =
       configure_events view_world v' (vs_edges (v_pending toplevel_view)) (vs_geometry (v_pending toplevel_view))"
    using view_commit_publishes [OF view_world_facts(1,2), of _ env_ref] st ne names view_world_facts(3,4)
    by (auto simp: pool_ref_total)
  have wl: "wl_of view_world 34 K_xdg_toplevel = 9" "wl_of view_world 33 K_xdg_surface = 8" "w_serial view_world = 0"
    by (simp_all add: view_world_def) (simp add: sample_worlds)
  have "v_xdg_toplevel v' = 34 \<and> v_xdg_surface v' = 33"
  proof -
    have "view_erase (wlc_view_commit_state env_ref 13 view_world) = view_erase view_world"
      by (rule view_frame.keep_commit_state) (auto simp: view_frame_def env_ref_keeps)
    note e = view_erase_views [OF this, of 13]
    have "map_option v_xdg_toplevel (Some v') = Some 34" "map_option v_xdg_surface (Some v') = Some 33"
      using option_field [OF e, of v_xdg_toplevel] option_field [OF e, of v_xdg_surface] v'(1) view_world_facts(1)
      by (simp_all add: erase_view_def toplevel_view_def)
    then show ?thesis by simp
  qed
  then show ?thesis
    using v' st wl by (auto simp: configure_events_def)
qed

theorem view_request_state_truthful_witness:
  "fst (wlc_view_request_state env_ref 13 WLC_BIT_FULLSCREEN True view_world)"
proof -
  have "view_of (snd (wlc_view_request_state env_ref 13 WLC_BIT_FULLSCREEN True view_world)) 13 \<noteq> None"
    by (simp add: wlc_view_request_state_def wlc_view_set_state_ptr_def Let_def view_world_facts)
  then obtain v' where "view_of (snd (wlc_view_request_state env_ref 13 WLC_BIT_FULLSCREEN True view_world)) 13 = Some v'"
    by blast
  then show ?thesis
    using view_request_state_truthful [OF view_world_facts(1,2), of env_ref WLC_BIT_FULLSCREEN True]
    by (auto simp: WLC_BIT_FULLSCREEN_def prod_eq_iff)
qed

theorem view_requests_keep_committed_witness:
  "committed (fold (view_request_run env_ref)
     [(13, Rq_state WLC_BIT_FULLSCREEN True), (13, Rq_geometry 0 wlc_geometry_zero)] view_world) = committed view_world"
  by (rule view_requests_keep_committed) (rule env_ref_keeps)

theorem view_map_and_unmap_witness:
  "stack_of (wlc_view_map env_ref 13 (upd_view 13 (\<lambda>v. v\<lparr>v_created := False\<rparr>) view_world)) 1 = Some [11, 14, 13]"
proof -
  let ?w = "upd_view 13 (\<lambda>v. v\<lparr>v_created := False\<rparr>) view_world"
  have "wlc_view_get_output_ptr ?w 13 = 1" "stack_of ?w 1 = Some [11, 13, 14]" "map_option v_created (view_of ?w 13) = Some False"
    by (simp_all add: view_world_def toplevel_view_def wlc_view_get_output_ptr_def stack_of_def surface_blank_def
      output_blank_def view_blank_def)
  then show ?thesis
    using view_map_and_unmap [of env_ref 1 ?w 13 "[11, 13, 14]" False] by (simp add: env_ref_keeps pool_ref_total)
qed

end
