(* ===== verification/Link.thy ===== *)
theory Link
  imports View
begin

text \<open>
  The link between a view and its surface (\<open>wlc_view_set_surface\<close>, \<open>wlc_surface_attach_to_view\<close>). Each
  end names the other, and the two functions call each other to detach the old partners and to attach the
  new ones; the recursion is run with fuel, and \<open>None\<close> means it did not return within it.

  The links of a world are two partial maps. \<open>link_abs\<close> runs the two functions on the maps alone, the
  model refines it as long as the callbacks leave the links alone, and on consistent maps it returns
  within \<open>link_fuel\<close> calls with exactly the new link made and the old ones cut.
\<close>

section \<open>The two functions\<close>

fun link_set_surface :: "nat \<Rightarrow> env \<Rightarrow> nat \<Rightarrow> nat \<Rightarrow> world \<Rightarrow> world option"
  and link_attach :: "nat \<Rightarrow> env \<Rightarrow> nat \<Rightarrow> nat \<Rightarrow> world \<Rightarrow> world option" where
  "link_set_surface 0 E vid sid w = None"
| "link_set_surface (Suc n) E vid sid w =
     (case view_of w vid of
        None \<Rightarrow> Some w
      | Some v \<Rightarrow>
          if v_surface v = sid then Some w
          else
            (case link_attach n E (v_surface v) 0 (upd_view vid (\<lambda>v. v\<lparr>v_surface := sid\<rparr>) w) of
               None \<Rightarrow> None
             | Some w \<Rightarrow>
                 (case link_attach n E sid vid w of
                    None \<Rightarrow> None
                  | Some w \<Rightarrow>
                      Some (if (case surface_of w sid of None \<Rightarrow> False | Some s \<Rightarrow> ss_attached (sf_commit s))
                            then wlc_view_map E vid w else wlc_view_unmap E vid w))))"
| "link_attach 0 E sid vid w = None"
| "link_attach (Suc n) E sid vid w =
     (case surface_of w sid of
        None \<Rightarrow> Some w
      | Some s \<Rightarrow>
          if sf_view s = vid then Some w
          else
            (case link_set_surface n E (sf_view s) 0
                    (upd_surface sid (\<lambda>s. s\<lparr>sf_view := vid, sf_parent_view := vid\<rparr>) w) of
               None \<Rightarrow> None
             | Some w \<Rightarrow> link_set_surface n E vid sid w))"

definition link_fuel :: nat where "link_fuel = 8"

definition returned :: "world option \<Rightarrow> world \<Rightarrow> world" where
  "returned r w = (case r of None \<Rightarrow> fail Out_of_fuel w | Some w \<Rightarrow> w)"

definition wlc_view_set_surface :: "env \<Rightarrow> nat \<Rightarrow> nat \<Rightarrow> world \<Rightarrow> world" where
  "wlc_view_set_surface E vid sid w = returned (link_set_surface link_fuel E vid sid w) w"

definition wlc_surface_attach_to_view :: "env \<Rightarrow> nat \<Rightarrow> nat \<Rightarrow> world \<Rightarrow> world" where
  "wlc_surface_attach_to_view E sid vid w = returned (link_attach link_fuel E sid vid w) w"

section \<open>Birth and death of a view\<close>

text \<open>\<open>wlc_view\<close>: the pool hands out zeroed memory. The role numbers of the view may be stale when it is
  released; \<open>release_resource\<close> then releases whatever carries the number.\<close>

definition wlc_view_ctor :: "wlc_view \<Rightarrow> wlc_view" where
  "wlc_view_ctor v = v\<lparr>v_wl_state := []\<rparr>"

definition wlc_view_release :: "env \<Rightarrow> nat \<Rightarrow> world \<Rightarrow> world" where
  "wlc_view_release E vid w =
     (case view_of w vid of
        None \<Rightarrow> w
      | Some v \<Rightarrow>
          let w = wlc_view_unmap E vid w;
              w = wlc_view_set_parent_ptr vid 0 w;
              role = (\<lambda>f w. case view_of w vid of None \<Rightarrow> 0 | Some v \<Rightarrow> f v);
              w = release_resource E (role v_shell_surface w) w;
              w = release_resource E (role v_xdg_toplevel w) w;
              w = release_resource E (role v_xdg_popup w) w;
              w = upd_view vid (\<lambda>v. v\<lparr>v_title := None, v_instance := None, v_class := None, v_app_id := None\<rparr>) w;
              w = wlc_surface_attach_to_view E (role v_surface w) 0 w
          in upd_view vid (\<lambda>v. v\<lparr>v_wl_state := []\<rparr>) w)"

section \<open>The links alone\<close>

type_synonym link_maps = "(nat \<Rightarrow> nat option) \<times> (nat \<Rightarrow> nat option)"

fun abs_set_surface :: "nat \<Rightarrow> nat \<Rightarrow> nat \<Rightarrow> link_maps \<Rightarrow> link_maps option"
  and abs_attach :: "nat \<Rightarrow> nat \<Rightarrow> nat \<Rightarrow> link_maps \<Rightarrow> link_maps option" where
  "abs_set_surface 0 v s m = None"
| "abs_set_surface (Suc n) v s m =
     (case fst m v of
        None \<Rightarrow> Some m
      | Some old \<Rightarrow>
          if old = s then Some m
          else case abs_attach n old 0 ((fst m)(v \<mapsto> s), snd m) of
                 None \<Rightarrow> None | Some m \<Rightarrow> abs_attach n s v m)"
| "abs_attach 0 s v m = None"
| "abs_attach (Suc n) s v m =
     (case snd m s of
        None \<Rightarrow> Some m
      | Some old \<Rightarrow>
          if old = v then Some m
          else case abs_set_surface n old 0 (fst m, (snd m)(s \<mapsto> v)) of
                 None \<Rightarrow> None | Some m \<Rightarrow> abs_set_surface n v s m)"

lemma links_simps:
  "fst (links w) h = map_option v_surface (view_of w h)" "snd (links w) r = map_option sf_view (surface_of w r)"
  by (simp_all add: links_def)

lemma links_set_view:
  "view_of w vid = Some v \<Longrightarrow> links (upd_view vid (\<lambda>v. v\<lparr>v_surface := sid\<rparr>) w) = ((fst (links w))(vid \<mapsto> sid), snd (links w))"
  by (auto simp: links_def)

lemma links_set_surface:
  "surface_of w sid = Some s \<Longrightarrow>
   links (upd_surface sid (\<lambda>s. s\<lparr>sf_view := vid, sf_parent_view := vid\<rparr>) w) = (fst (links w), (snd (links w))(sid \<mapsto> vid))"
  by (auto simp: links_def)

lemma link_refines:
  assumes K: "env_keeps E links"
  shows "map_option links (link_set_surface n E vid sid w) = abs_set_surface n vid sid (links w)"
    and "map_option links (link_attach n E sid vid w) = abs_attach n sid vid (links w)"
proof (induction n arbitrary: vid sid w)
  case 0
  { case 1 then show ?case by simp }
  { case 2 then show ?case by simp }
next
  case (Suc n)
  { case 1
    show ?case
    proof (cases "view_of w vid")
      case None
      then show ?thesis by (simp add: links_simps)
    next
      case (Some v)
      show ?thesis
      proof (cases "v_surface v = sid")
        case True
        then show ?thesis using Some by (simp add: links_simps)
      next
        case False
        let ?w1 = "upd_view vid (\<lambda>v. v\<lparr>v_surface := sid\<rparr>) w"
        note l1 = links_set_view [OF Some, of sid]
        show ?thesis
        proof (cases "link_attach n E (v_surface v) 0 ?w1")
          case None
          then have "abs_attach n (v_surface v) 0 (links ?w1) = None" using Suc(2) [of "v_surface v" 0 ?w1] by simp
          then show ?thesis using Some False None by (simp add: links_simps l1)
        next
          case 2: (Some w2)
          then have a2: "abs_attach n (v_surface v) 0 (links ?w1) = Some (links w2)"
            using Suc(2) [of "v_surface v" 0 ?w1] by simp
          show ?thesis
            using Some False 2 a2 Suc(2) [of sid vid w2]
            by (cases "link_attach n E sid vid w2")
               (simp_all add: links_simps l1 links_frame.keep_map [OF K] links_frame.keep_unmap [OF K])
        qed
      qed
    qed }
  { case 2
    show ?case
    proof (cases "surface_of w sid")
      case None
      then show ?thesis by (simp add: links_simps)
    next
      case (Some s)
      show ?thesis
      proof (cases "sf_view s = vid")
        case True
        then show ?thesis using Some by (simp add: links_simps)
      next
        case False
        let ?w1 = "upd_surface sid (\<lambda>s. s\<lparr>sf_view := vid, sf_parent_view := vid\<rparr>) w"
        note l1 = links_set_surface [OF Some, of vid]
        show ?thesis
        proof (cases "link_set_surface n E (sf_view s) 0 ?w1")
          case None
          then have "abs_set_surface n (sf_view s) 0 (links ?w1) = None" using Suc(1) [of "sf_view s" 0 ?w1] by simp
          then show ?thesis using Some False None by (simp add: links_simps l1)
        next
          case 2: (Some w2)
          then have a2: "abs_set_surface n (sf_view s) 0 (links ?w1) = Some (links w2)"
            using Suc(1) [of "sf_view s" 0 ?w1] by simp
          show ?thesis
            using Some False 2 a2 Suc(1) [of vid sid w2] by (simp add: links_simps l1)
        qed
      qed
    qed }
qed

section \<open>Consistent links\<close>

definition link_consistent :: "link_maps \<Rightarrow> bool" where
  "link_consistent m \<longleftrightarrow>
     (\<forall>v s. fst m v = Some s \<longrightarrow> snd m s \<noteq> None \<longrightarrow> snd m s = Some v) \<and>
     (\<forall>v s. snd m s = Some v \<longrightarrow> fst m v \<noteq> None \<longrightarrow> fst m v = Some s) \<and> fst m 0 = None \<and> snd m 0 = None"

definition link_spec :: "nat \<Rightarrow> nat \<Rightarrow> link_maps \<Rightarrow> link_maps" where
  "link_spec v s m =
     (\<lambda>x. if x = v then Some s else if s \<noteq> 0 \<and> fst m x = Some s then Some 0 else fst m x,
      \<lambda>y. if y = s \<and> s \<noteq> 0 then Some v else if snd m y = Some v then Some 0 else snd m y)"

lemma abs_set_surface_spec:
  assumes c: "link_consistent m" and v: "fst m v = Some s0" and ne: "s0 \<noteq> s" and s: "s = 0 \<or> snd m s \<noteq> None"
  shows "abs_set_surface link_fuel v s m = Some (link_spec v s m)"
proof -
  obtain L S where m: "m = (L, S)" by (cases m)
  have z: "L 0 = None" "S 0 = None" using c by (simp_all add: link_consistent_def m)
  have cL: "\<And>v s. L v = Some s \<Longrightarrow> S s \<noteq> None \<Longrightarrow> S s = Some v" and cS: "\<And>v s. S s = Some v \<Longrightarrow> L v \<noteq> None \<Longrightarrow> L v = Some s"
    using c unfolding link_consistent_def m fst_conv snd_conv by blast+
  have Lv: "L v = Some s0" using v by (simp add: m)
  have v0: "v \<noteq> 0" using z Lv by (cases "v = 0") auto
  have old: "S s0 = None \<or> S s0 = Some v" using cL [OF Lv] by blast
  have spec: "link_spec v s m =
     (\<lambda>x. if x = v then Some s else if s \<noteq> 0 \<and> L x = Some s then Some 0 else L x,
      \<lambda>y. if y = s \<and> s \<noteq> 0 then Some v else if S y = Some v then Some 0 else S y)"
    unfolding link_spec_def m fst_conv snd_conv by (rule refl)
  have only2: "y = s0 \<and> S s0 = Some v" if "S y = Some v" for y using cS [OF that] that Lv by simp
  have f: "link_fuel = Suc (Suc (Suc (Suc (Suc (Suc (Suc (Suc 0)))))))" by (simp add: link_fuel_def)
  show ?thesis
  proof (cases "s = 0")
    case True
    have "abs_set_surface link_fuel v 0 (L, S) = Some (L(v \<mapsto> 0), if S s0 = None then S else S(s0 \<mapsto> 0))"
      using old
    proof
      assume "S s0 = None"
      then show ?thesis using Lv ne z True by (simp add: f)
    next
      assume "S s0 = Some v"
      then show ?thesis using Lv ne z True v0 by (simp add: f)
    qed
    moreover have "(L(v \<mapsto> 0), if S s0 = None then S else S(s0 \<mapsto> 0)) = link_spec v s m"
      unfolding spec using old True by (auto simp: fun_eq_iff dest: only2)
    ultimately show ?thesis using True by (simp add: m)
  next
    case False
    then obtain u where u: "S s = Some u" using s by (auto simp: m)
    have uv: "u \<noteq> v" using cS [OF u] Lv ne by auto
    have Lu: "L u = None \<or> L u = Some s" using cS [OF u] by blast
    have only: "x = u \<and> L u = Some s" if "L x = Some s" for x using cL [OF that] that u by simp
    have "abs_set_surface link_fuel v s (L, S) =
       Some ((if L u = None then L else L(u \<mapsto> 0))(v \<mapsto> s), (if S s0 = None then S else S(s0 \<mapsto> 0))(s \<mapsto> v))"
      using old
    proof
      assume "S s0 = None"
      with Lu show ?thesis using Lv ne z False u uv v0 by (cases "u = 0") (auto simp: f fun_upd_twist)
    next
      assume so: "S s0 = Some v"
      then have "s0 \<noteq> 0" using z by (cases "s0 = 0") auto
      with so Lu show ?thesis using Lv ne z False u uv v0 by (cases "u = 0") (auto simp: f fun_upd_twist)
    qed
    moreover have "((if L u = None then L else L(u \<mapsto> 0))(v \<mapsto> s), (if S s0 = None then S else S(s0 \<mapsto> 0))(s \<mapsto> v)) = link_spec v s m"
      unfolding spec using old False Lu uv u by (auto simp: fun_eq_iff dest: only2 only)
    ultimately show ?thesis using False by (simp add: m)
  qed
qed

lemma abs_attach_spec:
  assumes c: "link_consistent m" and v: "snd m s = Some u" and ne: "u \<noteq> v" and live: "fst m v \<noteq> None"
  shows "abs_attach link_fuel s v m = Some (link_spec v s m)"
proof -
  obtain L S where m: "m = (L, S)" by (cases m)
  have z: "L 0 = None" "S 0 = None" using c by (simp_all add: link_consistent_def m)
  have cL: "\<And>v s. L v = Some s \<Longrightarrow> S s \<noteq> None \<Longrightarrow> S s = Some v" and cS: "\<And>v s. S s = Some v \<Longrightarrow> L v \<noteq> None \<Longrightarrow> L v = Some s"
    using c unfolding link_consistent_def m fst_conv snd_conv by blast+
  have Su: "S s = Some u" using v by (simp add: m)
  have s0: "s \<noteq> 0" using z Su by (cases "s = 0") auto
  obtain t where Lv: "L v = Some t" using live by (auto simp: m)
  have v0: "v \<noteq> 0" using z Lv by (cases "v = 0") auto
  have ts: "t \<noteq> s" using cL [OF Lv] Su ne by auto
  have Lu: "L u = None \<or> L u = Some s" using cS [OF Su] by blast
  have St: "S t = None \<or> S t = Some v" using cL [OF Lv] by blast
  have spec: "link_spec v s m =
     (\<lambda>x. if x = v then Some s else if s \<noteq> 0 \<and> L x = Some s then Some 0 else L x,
      \<lambda>y. if y = s \<and> s \<noteq> 0 then Some v else if S y = Some v then Some 0 else S y)"
    unfolding link_spec_def m fst_conv snd_conv by (rule refl)
  have only: "x = u \<and> L u = Some s" if "L x = Some s" for x using cL [OF that] that Su by simp
  have only2: "y = t \<and> S t = Some v" if "S y = Some v" for y using cS [OF that] that Lv by simp
  have f: "link_fuel = Suc (Suc (Suc (Suc (Suc (Suc (Suc (Suc 0)))))))" by (simp add: link_fuel_def)
  have "abs_attach link_fuel s v (L, S) =
     Some ((if L u = None then L else L(u \<mapsto> 0))(v \<mapsto> s), (if S t = None then S else S(t \<mapsto> 0))(s \<mapsto> v))"
    using St
  proof
    assume "S t = None"
    with Lu show ?thesis using Lv ne z s0 Su v0 ts by (cases "u = 0"; cases "t = 0") (auto simp: f fun_upd_twist)
  next
    assume so: "S t = Some v"
    then have "t \<noteq> 0" using z by (cases "t = 0") auto
    with so Lu show ?thesis using Lv ne z s0 Su v0 ts by (cases "u = 0") (auto simp: f fun_upd_twist)
  qed
  moreover have "((if L u = None then L else L(u \<mapsto> 0))(v \<mapsto> s), (if S t = None then S else S(t \<mapsto> 0))(s \<mapsto> v)) = link_spec v s m"
    unfolding spec using St s0 Lu ne ts by (auto simp: fun_eq_iff dest: only2 only)
  ultimately show ?thesis by (simp add: m)
qed

text \<open>Detaching a surface: both ends become empty.\<close>

definition unlink_spec :: "nat \<Rightarrow> link_maps \<Rightarrow> link_maps" where
  "unlink_spec s m = (\<lambda>x. if fst m x = Some s then Some 0 else fst m x, (snd m)(s \<mapsto> 0))"

lemma abs_detach_spec:
  assumes c: "link_consistent m" and v: "snd m s = Some u" and ne: "u \<noteq> 0"
  shows "abs_attach link_fuel s 0 m = Some (unlink_spec s m)"
proof -
  obtain L S where m: "m = (L, S)" by (cases m)
  have z: "L 0 = None" "S 0 = None" using c by (simp_all add: link_consistent_def m)
  have cL: "\<And>v s. L v = Some s \<Longrightarrow> S s \<noteq> None \<Longrightarrow> S s = Some v" and cS: "\<And>v s. S s = Some v \<Longrightarrow> L v \<noteq> None \<Longrightarrow> L v = Some s"
    using c unfolding link_consistent_def m fst_conv snd_conv by blast+
  have Su: "S s = Some u" using v by (simp add: m)
  have s0: "s \<noteq> 0" using z Su by (cases "s = 0") auto
  have Lu: "L u = None \<or> L u = Some s" using cS [OF Su] by blast
  have only: "x = u \<and> L u = Some s" if "L x = Some s" for x using cL [OF that] that Su by simp
  have f: "link_fuel = Suc (Suc (Suc (Suc (Suc (Suc (Suc (Suc 0)))))))" by (simp add: link_fuel_def)
  have "abs_attach link_fuel s 0 (L, S) = Some (if L u = None then L else L(u \<mapsto> 0), S(s \<mapsto> 0))"
    using Lu ne z s0 Su by (auto simp: f)
  moreover have "(if L u = None then L else L(u \<mapsto> 0), S(s \<mapsto> 0)) = unlink_spec s m"
    unfolding unlink_spec_def m fst_conv snd_conv using Lu by (auto simp: fun_eq_iff dest: only)
  ultimately show ?thesis by (simp add: m)
qed

lemma link_consistentD:
  assumes "link_consistent m"
  shows "fst m v = Some s \<Longrightarrow> snd m s \<noteq> None \<Longrightarrow> snd m s = Some v"
    and "snd m s = Some v \<Longrightarrow> fst m v \<noteq> None \<Longrightarrow> fst m v = Some s" and "fst m 0 = None" and "snd m 0 = None"
  using assms unfolding link_consistent_def by blast+

lemma link_spec_consistent:
  assumes c: "link_consistent m" and v: "v \<noteq> 0"
  shows "link_consistent (link_spec v s m)"
proof -
  let ?A = "\<lambda>x. if x = v then Some s else if s \<noteq> 0 \<and> fst m x = Some s then Some 0 else fst m x"
  let ?B = "\<lambda>y. if y = s \<and> s \<noteq> 0 then Some v else if snd m y = Some v then Some 0 else snd m y"
  note d = link_consistentD [OF c]
  have "?B t = Some x" if a: "?A x = Some t" "?B t \<noteq> None" for x t
  proof (cases "x = v")
    case True
    then show ?thesis using a d(4) by (cases "s = 0") auto
  next
    case False
    then have "\<not> (s \<noteq> 0 \<and> fst m x = Some s)" using a d(4) by (auto split: if_splits)
    then show ?thesis using a False d(1) [of x t] by (auto split: if_splits)
  qed
  moreover have "?A x = Some t" if b: "?B t = Some x" "?A x \<noteq> None" for x t
  proof (cases "t = s \<and> s \<noteq> 0")
    case True
    then show ?thesis using b by simp
  next
    case t: False
    show ?thesis
    proof (cases "snd m t = Some v")
      case True
      then have "x = 0" using b t by (auto split: if_splits)
      then show ?thesis using b v d(3) by simp
    next
      case False
      then have "snd m t = Some x" "x \<noteq> v" using b t by (auto split: if_splits)
      then show ?thesis using b t d(2) [of t x] by (auto split: if_splits)
    qed
  qed
  moreover have "?A 0 = None" "?B 0 = None" using d(3,4) v by auto
  ultimately show ?thesis unfolding link_consistent_def link_spec_def fst_conv snd_conv by blast
qed

lemma unlink_spec_consistent:
  assumes c: "link_consistent m" and s: "s \<noteq> 0"
  shows "link_consistent (unlink_spec s m)"
proof -
  let ?A = "\<lambda>x. if fst m x = Some s then Some 0 else fst m x"
  let ?B = "(snd m)(s \<mapsto> 0)"
  note d = link_consistentD [OF c]
  have "?B t = Some x" if "?A x = Some t" "?B t \<noteq> None" for x t
    using that s d(4) d(1) [of x t] by (auto split: if_splits)
  moreover have "?A x = Some t" if "?B t = Some x" "?A x \<noteq> None" for x t
    using that d(3) d(2) [of t x] by (auto split: if_splits)
  moreover have "?A 0 = None" "?B 0 = None" using d(3,4) s by simp_all
  ultimately show ?thesis unfolding link_consistent_def unlink_spec_def fst_conv snd_conv by blast
qed

section \<open>Properties\<close>

text \<open>C11 (refinement). When the links are consistent and the callbacks leave them alone, wlc_view_set_surface returns
  within the fuel, makes the view and the surface name each other, leaves their old partners without one,
  touches no other link, and the links are consistent again.\<close>

theorem view_set_surface_links:
  assumes "env_keeps E links" and "link_consistent (links w)" and "view_of w vid = Some v"
    and "sid = 0 \<or> surface_of w sid \<noteq> None"
  shows "link_set_surface link_fuel E vid sid w \<noteq> None \<and>
    links (wlc_view_set_surface E vid sid w) = (if v_surface v = sid then links w else link_spec vid sid (links w)) \<and>
    link_consistent (links (wlc_view_set_surface E vid sid w))"
proof (cases "v_surface v = sid")
  case True
  have "link_set_surface link_fuel E vid sid w = Some w"
    using assms(3) True by (simp add: link_fuel_def eval_nat_numeral)
  then show ?thesis using True assms(2) by (simp add: wlc_view_set_surface_def returned_def)
next
  case False
  have v: "vid \<noteq> 0" using assms(3) by (cases "vid = 0") auto
  have "abs_set_surface link_fuel vid sid (links w) = Some (link_spec vid sid (links w))"
    using assms(3,4) False by (intro abs_set_surface_spec [OF assms(2), of vid "v_surface v"]) (auto simp: links_simps)
  then obtain w' where w': "link_set_surface link_fuel E vid sid w = Some w'" "links w' = link_spec vid sid (links w)"
    using link_refines(1) [OF assms(1), of link_fuel vid sid w] by auto
  then show ?thesis
    using False link_spec_consistent [OF assms(2) v, of sid] by (simp add: wlc_view_set_surface_def returned_def)
qed

text \<open>The same from the side of the surface: wlc_surface_attach_to_view links the two, or detaches the
  surface when the view is NULL, with both ends of every link agreeing before and after.\<close>

theorem surface_attach_to_view_links:
  assumes "env_keeps E links" and "link_consistent (links w)" and "surface_of w sid = Some s"
    and "vid = 0 \<or> view_of w vid \<noteq> None"
  shows "link_attach link_fuel E sid vid w \<noteq> None \<and>
    links (wlc_surface_attach_to_view E sid vid w) =
      (if sf_view s = vid then links w else if vid = 0 then unlink_spec sid (links w)
       else link_spec vid sid (links w)) \<and>
    link_consistent (links (wlc_surface_attach_to_view E sid vid w))"
proof (cases "sf_view s = vid")
  case True
  have "link_attach link_fuel E sid vid w = Some w"
    using assms(3) True by (simp add: link_fuel_def eval_nat_numeral)
  then show ?thesis using True assms(2) by (simp add: wlc_surface_attach_to_view_def returned_def)
next
  case False
  have s0: "sid \<noteq> 0" using assms(3) by (cases "sid = 0") auto
  let ?m = "if vid = 0 then unlink_spec sid (links w) else link_spec vid sid (links w)"
  have "abs_attach link_fuel sid vid (links w) = Some ?m"
    using assms(3,4) False abs_attach_spec [OF assms(2), of sid "sf_view s" vid]
      abs_detach_spec [OF assms(2), of sid "sf_view s"] by (auto simp: links_simps)
  then obtain w' where w': "link_attach link_fuel E sid vid w = Some w'" "links w' = ?m"
    using link_refines(2) [OF assms(1), of link_fuel sid vid w] by auto
  then show ?thesis
    using False link_spec_consistent [OF assms(2), of vid sid] unlink_spec_consistent [OF assms(2) s0]
    by (simp add: wlc_surface_attach_to_view_def returned_def)
qed

section \<open>Witnesses\<close>

text \<open>View 13 shows surface 23; view 14 shows 24. Linking 13 to 24 leaves 14 and 23 alone.\<close>

definition link_world :: world where
  "link_world =
     put_view 13 (view_blank\<lparr>v_surface := 23\<rparr>) (put_view 14 (view_blank\<lparr>v_surface := 24\<rparr>)
    (put_res 23 (R_surface (surface_blank\<lparr>sf_view := 13\<rparr>)) 7
    (put_res 24 (R_surface (surface_blank\<lparr>sf_view := 14\<rparr>)) 8 world_blank)))"

lemma link_world_links:
  "links link_world = ([13 \<mapsto> 23, 14 \<mapsto> 24], [23 \<mapsto> 13, 24 \<mapsto> 14])"
  by (auto simp: links_def link_world_def view_blank_def surface_blank_def fun_eq_iff)

lemma link_world_consistent: "link_consistent (links link_world)"
  by (auto simp: link_world_links link_consistent_def split: if_splits)

theorem view_set_surface_links_witness:
  "links (wlc_view_set_surface env_ref 13 24 link_world) = ([13 \<mapsto> 24, 14 \<mapsto> 0], [23 \<mapsto> 0, 24 \<mapsto> 13])"
proof -
  have "view_of link_world 13 = Some (view_blank\<lparr>v_surface := 23\<rparr>)" "surface_of link_world 24 \<noteq> None"
    by (simp_all add: link_world_def)
  then have "links (wlc_view_set_surface env_ref 13 24 link_world) = link_spec 13 24 (links link_world)"
    using view_set_surface_links [OF env_ref_keeps link_world_consistent, of 13 _ 24] by (simp add: view_blank_def)
  also have "\<dots> = ([13 \<mapsto> 24, 14 \<mapsto> 0], [23 \<mapsto> 0, 24 \<mapsto> 13])"
    unfolding link_spec_def link_world_links fst_conv snd_conv by (auto simp: fun_eq_iff)
  finally show ?thesis .
qed

theorem surface_attach_to_view_links_witness:
  "links (wlc_surface_attach_to_view env_ref 23 0 link_world) = ([13 \<mapsto> 0, 14 \<mapsto> 24], [23 \<mapsto> 0, 24 \<mapsto> 14])"
proof -
  have "surface_of link_world 23 = Some (surface_blank\<lparr>sf_view := 13\<rparr>)" by (simp add: link_world_def)
  then have "links (wlc_surface_attach_to_view env_ref 23 0 link_world) = unlink_spec 23 (links link_world)"
    using surface_attach_to_view_links [OF env_ref_keeps link_world_consistent, of 23 _ 0] by (simp add: surface_blank_def)
  also have "\<dots> = ([13 \<mapsto> 0, 14 \<mapsto> 24], [23 \<mapsto> 0, 24 \<mapsto> 14])"
    unfolding unlink_spec_def link_world_links fst_conv snd_conv by (auto simp: fun_eq_iff)
  finally show ?thesis .
qed

end
