(* ===== verification/Surface.thy ===== *)
theory Surface
  imports Link
begin

text \<open>
  Surfaces and their buffers (src/resources/types/surface.c, src/resources/types/buffer.c): the counted
  references a surface holds to its pending and its committed buffer, the requests of a client, the
  commit of a surface and of the subsurfaces that are synchronized with it, the parent of a subsurface,
  and the release of both kinds of object.

  A request handler receives the number \<open>convert_from_wl_resource\<close> finds for the wayland resource; for
  any other it does nothing.
\<close>

section \<open>Buffers\<close>

definition wlc_buffer_dispose :: "env \<Rightarrow> nat \<Rightarrow> world \<Rightarrow> world" where
  "wlc_buffer_dispose E bid w =
     (case buffer_of w bid of
        None \<Rightarrow> w
      | Some b \<Rightarrow>
          if bf_references b \<noteq> 0 then
            let w = upd_buffer bid (\<lambda>b. b\<lparr>bf_references := bf_references b - 1\<rparr>) w
            in if bf_references b - 1 > 0 then w else release_resource E bid w
          else release_resource E bid w)"

definition wlc_buffer_use :: "nat \<Rightarrow> world \<Rightarrow> nat \<times> world" where
  "wlc_buffer_use bid w =
     (if buffer_of w bid = None then (0, w)
      else (bid, upd_buffer bid (\<lambda>b. b\<lparr>bf_references := bf_references b + 1\<rparr>) w))"

definition invalidate_wl :: "nat \<Rightarrow> world \<Rightarrow> world" where
  "invalidate_wl r w = w\<lparr>w_res := (w_res w)(r := map_option (\<lambda>e. e\<lparr>re_wl := 0\<rparr>) (w_res w r))\<rparr>"

definition wlc_buffer_release :: "nat \<Rightarrow> world \<Rightarrow> world" where
  "wlc_buffer_release bid w =
     (case buffer_of w bid of
        None \<Rightarrow> w
      | Some b \<Rightarrow>
          let w = upd_surface (bf_surface b)
                    (\<lambda>s. s\<lparr>sf_commit := (sf_commit s)\<lparr>ss_buffer := (if ss_buffer (sf_commit s) = bid then 0 else ss_buffer (sf_commit s))\<rparr>,
                           sf_pending := (sf_pending s)\<lparr>ss_buffer := (if ss_buffer (sf_pending s) = bid then 0 else ss_buffer (sf_pending s))\<rparr>\<rparr>) w;
              wl = wl_of w bid K_buffer
          in if wl = 0 then w else emit (Queue_buffer_release wl) (invalidate_wl bid w))"

definition wlc_buffer_ctor :: "wlc_buffer \<Rightarrow> wlc_buffer" where
  "wlc_buffer_ctor b = b\<lparr>bf_y_inverted := True\<rparr>"

section \<open>The two states of a surface\<close>

datatype slot = Pending | Commit

definition slot_state :: "slot \<Rightarrow> wlc_surface \<Rightarrow> wlc_surface_state" where
  "slot_state sl s = (case sl of Pending \<Rightarrow> sf_pending s | Commit \<Rightarrow> sf_commit s)"

definition upd_slot :: "nat \<Rightarrow> slot \<Rightarrow> (wlc_surface_state \<Rightarrow> wlc_surface_state) \<Rightarrow> world \<Rightarrow> world" where
  "upd_slot sid sl f =
     upd_surface sid (\<lambda>s. case sl of Pending \<Rightarrow> s\<lparr>sf_pending := f (sf_pending s)\<rparr> | Commit \<Rightarrow> s\<lparr>sf_commit := f (sf_commit s)\<rparr>)"

definition state_set_buffer :: "env \<Rightarrow> nat \<Rightarrow> slot \<Rightarrow> nat \<Rightarrow> world \<Rightarrow> world" where
  "state_set_buffer E sid sl bid w =
     (case surface_of w sid of
        None \<Rightarrow> fail Null_pointer w
      | Some s \<Rightarrow>
          let cur = ss_buffer (slot_state sl s) in
          if cur = bid then w
          else
            let w = wlc_buffer_dispose E cur w;
                (n, w) = wlc_buffer_use bid w
            in upd_slot sid sl (\<lambda>st. st\<lparr>ss_buffer := n\<rparr>) w)"

definition surface_attach :: "env \<Rightarrow> nat \<Rightarrow> nat \<Rightarrow> world \<Rightarrow> world" where
  "surface_attach E sid bid w =
     (case surface_of w sid of
        None \<Rightarrow> fail Null_pointer w
      | Some s \<Rightarrow>
          if output_of w (sf_output s) = None then w
          else
            let w = snd (wlc_surface_attach_to_output E sid (sf_output s) bid w);
                vid = (case surface_of w sid of None \<Rightarrow> 0 | Some s \<Rightarrow> sf_view s)
            in if view_of w vid = None then w
               else if bid \<noteq> 0 then wlc_view_ack_surface_attach E vid sid (wlc_view_map E vid w)
               else wlc_view_unmap E vid w)"

text \<open>The part of a commit that moves regions and callbacks; the arguments are the states and the size of the
  surface.\<close>

definition commit_regions ::
  "env \<Rightarrow> wlc_size \<Rightarrow> wlc_surface_state \<times> wlc_surface_state \<Rightarrow> wlc_surface_state \<times> wlc_surface_state" where
  "commit_regions E ssz = (\<lambda>(p, c).
     let X = pxo E;
         clip = (\<lambda>r. px_intersect_rect X r 0 0 (sw ssz) (sh ssz));
         op = clip (ss_opaque p)
     in (p\<lparr>ss_offset := wlc_point_zero, ss_frame_cbs := [], ss_damage := px_clear X (ss_damage p)\<rparr>,
         c\<lparr>ss_scale := m_max32 (mth E) (ss_scale p) 1,
           ss_frame_cbs := fold (pool_push_back (hp E)) (ss_frame_cbs p) (ss_frame_cbs c),
           ss_damage := clip (px_union X (ss_damage c) (ss_damage p)),
           ss_opaque := (if px_equal X op (ss_opaque c) then ss_opaque c else op),
           ss_input := clip (ss_input p)\<rparr>))"

definition live_buffer :: "world \<Rightarrow> nat \<Rightarrow> nat" where
  "live_buffer w b = (if buffer_of w b = None then 0 else b)"

definition pending_buffer :: "world \<Rightarrow> nat \<Rightarrow> nat" where
  "pending_buffer w sid = (case surface_of w sid of None \<Rightarrow> 0 | Some s \<Rightarrow> live_buffer w (ss_buffer (sf_pending s)))"

definition commit_state :: "env \<Rightarrow> nat \<Rightarrow> world \<Rightarrow> world" where
  "commit_state E sid w =
     (case surface_of w sid of
        None \<Rightarrow> fail Null_pointer w
      | Some s \<Rightarrow>
          let w = upd_surface sid (\<lambda>s. let (p, c) = commit_regions E (sf_size s) (sf_pending s, sf_commit s)
                                       in s\<lparr>sf_pending := p, sf_commit := c\<rparr>) w;
              w = (if ss_attached (sf_pending s)
                   then upd_slot sid Pending (\<lambda>st. st\<lparr>ss_attached := False\<rparr>)
                          (surface_attach E sid (pending_buffer w sid) w)
                   else w);
              w = state_set_buffer E sid Commit (pending_buffer w sid) w
          in state_set_buffer E sid Pending 0 w)"

definition whole_plane :: "env \<Rightarrow> region" where
  "whole_plane E = px_init_rect (pxo E) (- (2 ^ 31)) (- (2 ^ 31)) 0xFFFFFFFF 0xFFFFFFFF"

definition init_state :: "env \<Rightarrow> wlc_surface_state \<Rightarrow> wlc_surface_state" where
  "init_state E st =
     st\<lparr>ss_opaque := px_init_rect (pxo E) 0 0 0 0, ss_damage := px_init_rect (pxo E) 0 0 0 0,
        ss_input := whole_plane E, ss_scale := 1, ss_subsurface_position := wlc_point_zero\<rparr>"

definition release_state :: "env \<Rightarrow> nat \<Rightarrow> slot \<Rightarrow> world \<Rightarrow> world" where
  "release_state E sid sl w =
     (let w = state_set_buffer E sid sl 0 w;
          cbs = (case surface_of w sid of None \<Rightarrow> [] | Some s \<Rightarrow> ss_frame_cbs (slot_state sl s));
          w = fold (release_resource E) cbs w
      in upd_slot sid sl (\<lambda>st. st\<lparr>ss_frame_cbs := []\<rparr>) w)"

section \<open>Requests\<close>

text \<open>\<open>wlc_resource_create\<close>: a new resource of the client, or 0 and a no-memory error.\<close>

definition create_resource :: "env \<Rightarrow> nat \<Rightarrow> u32 \<Rightarrow> res_data \<Rightarrow> world \<Rightarrow> nat \<times> world" where
  "create_resource E client wlid d w =
     (case ext_new_resource E w of
        None \<Rightarrow> (0, emit (Post_no_memory client) w)
      | Some r \<Rightarrow> (r, w\<lparr>w_res := (w_res w)(r \<mapsto> \<lparr>re_data = d, re_wl = ext_wl_create E client wlid w\<rparr>)\<rparr>))"

text \<open>\<open>bres\<close> is the wayland resource of the buffer, 0 when the client attaches none.\<close>

definition wl_cb_surface_attach :: "env \<Rightarrow> nat \<Rightarrow> nat \<Rightarrow> nat \<Rightarrow> int \<Rightarrow> int \<Rightarrow> world \<Rightarrow> world" where
  "wl_cb_surface_attach E client sid bres x y w =
     (if surface_of w sid = None then w
      else
        let (bid, w) = (if bres = 0 then (0, w) else ext_resource_from E sid bres w) in
        if bres \<noteq> 0 \<and> bid = 0 then emit (Post_no_memory client) w
        else
          let w = (if buffer_of w bid = None then w
                   else state_set_buffer E sid Pending bid (upd_buffer bid (\<lambda>b. b\<lparr>bf_surface := sid\<rparr>) w))
          in upd_slot sid Pending (\<lambda>st. st\<lparr>ss_offset := \<lparr>px = x, py = y\<rparr>, ss_attached := True\<rparr>) w)"

definition wl_cb_surface_damage :: "env \<Rightarrow> nat \<Rightarrow> int \<Rightarrow> int \<Rightarrow> int \<Rightarrow> int \<Rightarrow> world \<Rightarrow> world" where
  "wl_cb_surface_damage E sid x y width height w =
     (if surface_of w sid = None then w
      else upd_slot sid Pending
             (\<lambda>st. st\<lparr>ss_damage := px_union_rect (pxo E) (ss_damage st) x y (u32_of_i32 width) (u32_of_i32 height)\<rparr>) w)"

definition wl_cb_surface_frame :: "env \<Rightarrow> nat \<Rightarrow> nat \<Rightarrow> u32 \<Rightarrow> world \<Rightarrow> world" where
  "wl_cb_surface_frame E client sid callback_id w =
     (if surface_of w sid = None then w
      else
        let (r, w) = create_resource E client callback_id R_callback w in
        if r = 0 then w
        else upd_slot sid Pending (\<lambda>st. st\<lparr>ss_frame_cbs := pool_push_back (hp E) r (ss_frame_cbs st)\<rparr>) w)"

definition wl_cb_surface_set_opaque_region :: "env \<Rightarrow> nat \<Rightarrow> nat \<Rightarrow> world \<Rightarrow> world" where
  "wl_cb_surface_set_opaque_region E sid rid w =
     (if surface_of w sid = None then w
      else upd_slot sid Pending
             (\<lambda>st. st\<lparr>ss_opaque := (case region_of w rid of None \<Rightarrow> px_clear (pxo E) (ss_opaque st) | Some g \<Rightarrow> g)\<rparr>) w)"

definition wl_cb_surface_set_input_region :: "env \<Rightarrow> nat \<Rightarrow> nat \<Rightarrow> world \<Rightarrow> world" where
  "wl_cb_surface_set_input_region E sid rid w =
     (if surface_of w sid = None then w
      else upd_slot sid Pending
             (\<lambda>st. st\<lparr>ss_input := (case region_of w rid of None \<Rightarrow> whole_plane E | Some g \<Rightarrow> g)\<rparr>) w)"

definition wl_cb_surface_set_buffer_transform :: "env \<Rightarrow> nat \<Rightarrow> int \<Rightarrow> world \<Rightarrow> world" where
  "wl_cb_surface_set_buffer_transform E sid transform w =
     (if surface_of w sid = None then w
      else if transform < 0 \<or> transform > wl_transform_flipped_270 E
      then emit (Post_error (wl_of w sid K_surface) (wl_err_invalid_transform E)) w
      else upd_slot sid Pending (\<lambda>st. st\<lparr>ss_transform := transform\<rparr>) w)"

definition wl_cb_surface_set_buffer_scale :: "env \<Rightarrow> nat \<Rightarrow> int \<Rightarrow> world \<Rightarrow> world" where
  "wl_cb_surface_set_buffer_scale E sid sc w =
     (if surface_of w sid = None then w
      else if sc < 0 then emit (Post_error (wl_of w sid K_surface) (wl_err_invalid_scale E)) w
      else upd_slot sid Pending (\<lambda>st. st\<lparr>ss_scale := sc\<rparr>) w)"

text \<open>A commit walks down the synchronized subsurfaces; \<open>None\<close> is a walk that did not return within the fuel.
  The array of children is read anew for every index, as the loop of the code does.\<close>

fun commit_tree :: "nat \<Rightarrow> env \<Rightarrow> nat \<Rightarrow> world \<Rightarrow> world option"
  and commit_children :: "nat \<Rightarrow> env \<Rightarrow> nat \<Rightarrow> nat \<Rightarrow> world \<Rightarrow> world option" where
  "commit_tree 0 E sid w = None"
| "commit_tree (Suc n) E sid w =
     (if surface_of w sid = None then Some w
      else
        let w = commit_state E sid w;
            w = wlc_output_schedule_repaint (case surface_of w sid of None \<Rightarrow> 0 | Some s \<Rightarrow> sf_output s) w
        in commit_children n E sid 0 w)"
| "commit_children 0 E sid i w = None"
| "commit_children (Suc n) E sid i w =
     (let l = (case surface_of w sid of None \<Rightarrow> [] | Some s \<Rightarrow> sf_subsurface_list s) in
      if i \<ge> length l then Some w
      else
        case surface_of w (l ! i) of
          None \<Rightarrow> commit_children n E sid (Suc i) w
        | Some sub \<Rightarrow>
            let w = upd_surface (l ! i) (\<lambda>s. s\<lparr>sf_commit := (sf_commit s)
                       \<lparr>ss_subsurface_position := ss_subsurface_position (sf_pending s)\<rparr>\<rparr>) w in
            if sf_synchronized sub \<or> sf_parent_synchronized sub
            then (case commit_tree n E (l ! i) w of None \<Rightarrow> None | Some w \<Rightarrow> commit_children n E sid (Suc i) w)
            else commit_children n E sid (Suc i) w)"

definition commit_subsurface_state :: "env \<Rightarrow> nat \<Rightarrow> world \<Rightarrow> world" where
  "commit_subsurface_state E sid w = returned (commit_tree (fuel E) E sid w) w"

definition wl_cb_surface_commit :: "env \<Rightarrow> nat \<Rightarrow> world \<Rightarrow> world" where
  "wl_cb_surface_commit E sid w =
     (case surface_of w sid of
        None \<Rightarrow> w
      | Some s \<Rightarrow> if sf_parent_synchronized s \<or> sf_synchronized s then w else commit_subsurface_state E sid w)"

definition wlc_surface_commit :: "env \<Rightarrow> nat \<Rightarrow> world \<Rightarrow> world" where
  "wlc_surface_commit E sid w = commit_state E sid w"

section \<open>The parent of a subsurface\<close>

definition wlc_surface_set_parent :: "env \<Rightarrow> nat \<Rightarrow> nat \<Rightarrow> world \<Rightarrow> world" where
  "wlc_surface_set_parent E sid pid w =
     (case surface_of w sid of
        None \<Rightarrow> w
      | Some s \<Rightarrow>
          if sf_parent s = pid then w
          else
            let w = upd_surface (sf_parent s)
                      (\<lambda>p. p\<lparr>sf_subsurface_list := pool_remove_first (hp E) sid (sf_subsurface_list p)\<rparr>) w
            in case surface_of w pid of
                 None \<Rightarrow> upd_surface sid (\<lambda>s. s\<lparr>sf_parent := 0\<rparr>) w
               | Some p \<Rightarrow>
                   (case push_front (hp E) (sf_subsurface_list p) sid of
                      None \<Rightarrow> upd_surface sid (\<lambda>s. s\<lparr>sf_parent := 0\<rparr>) w
                    | Some l \<Rightarrow>
                        let w = upd_surface pid (\<lambda>p. p\<lparr>sf_subsurface_list := l\<rparr>) w;
                            w = snd (wlc_surface_attach_to_output E sid (sf_output p)
                                       (wlc_surface_get_buffer w (surface_of w sid)) w);
                            pv = (case surface_of w pid of None \<Rightarrow> 0 | Some p \<Rightarrow> sf_parent_view p)
                        in upd_surface sid (\<lambda>s. s\<lparr>sf_parent := pid, sf_parent_view := pv\<rparr>) w))"

section \<open>Birth and death of a surface\<close>

definition wlc_surface_ctor :: "env \<Rightarrow> wlc_surface \<Rightarrow> wlc_surface" where
  "wlc_surface_ctor E s =
     s\<lparr>sf_pending := init_state E (sf_pending s)\<lparr>ss_frame_cbs := []\<rparr>,
       sf_commit := init_state E (sf_commit s)\<lparr>ss_frame_cbs := []\<rparr>, sf_subsurface_list := [],
       sf_transform_w := 1, sf_transform_h := 1, sf_parent_synchronized := False\<rparr>"

definition wlc_surface_release :: "env \<Rightarrow> nat \<Rightarrow> world \<Rightarrow> world" where
  "wlc_surface_release E sid w =
     (if surface_of w sid = None then w
      else
        let w = sig_surface E (WLC_SURFACE_EVENT_DESTROYED sid) w;
            field = (\<lambda>f w. case surface_of w sid of None \<Rightarrow> 0 | Some s \<Rightarrow> f s);
            w = release_handle E (field sf_view w) w;
            w = wlc_surface_set_parent E sid 0 w;
            w = fold (release_resource E) (case surface_of w sid of None \<Rightarrow> [] | Some s \<Rightarrow> sf_subsurface_list s) w;
            w = upd_surface sid (\<lambda>s. s\<lparr>sf_subsurface_list := []\<rparr>) w;
            w = wlc_surface_invalidate E sid w;
            w = release_state E sid Commit w;
            w = release_state E sid Pending w;
            w = release_source E sid K_buffer w
        in release_source E sid K_callback w)"

section \<open>Frames\<close>

text \<open>Attaching the committed buffer runs through output and view; what it leaves of a surface and of the
  buffers.\<close>

definition region_states :: "world \<Rightarrow> nat \<Rightarrow> (wlc_surface_state \<times> wlc_surface_state) option" where
  "region_states w sid =
     map_option (\<lambda>s. ((sf_pending s)\<lparr>ss_buffer := 0\<rparr>, (sf_commit s)\<lparr>ss_buffer := 0, ss_attached := False\<rparr>))
       (surface_of w sid)"

definition slot_buf :: "world \<Rightarrow> nat \<times> slot \<Rightarrow> nat" where
  "slot_buf w = (\<lambda>(sid, sl). case surface_of w sid of None \<Rightarrow> 0 | Some s \<Rightarrow> ss_buffer (slot_state sl s))"

definition family :: "world \<Rightarrow> nat \<Rightarrow> (nat \<times> nat list) option" where
  "family w sid = map_option (\<lambda>s. (sf_parent s, sf_subsurface_list s)) (surface_of w sid)"

lemma erased_surface_field:
  assumes "view_erase w' = view_erase w" and "\<And>s. f (erase_surface s) = f s"
  shows "map_option f (surface_of w' r) = map_option f (surface_of w r)"
  using erased_surface(1) [OF view_erase_res [OF assms(1)]] assms(2) by (rule option_field)

interpretation region_frame: view_frame region_states
proof
  fix w w' :: world
  assume e: "view_erase w' = view_erase w"
  show "region_states w' = region_states w"
    unfolding region_states_def by (intro ext erased_surface_field [OF e]) (simp add: erase_surface_def)
qed

interpretation family_frame: view_frame family
proof
  fix w w' :: world
  assume e: "view_erase w' = view_erase w"
  show "family w' = family w"
    unfolding family_def by (intro ext erased_surface_field [OF e]) (simp add: erase_surface_def)
qed

definition buffer_refs :: "world \<Rightarrow> nat \<Rightarrow> u16 option" where
  "buffer_refs w r = map_option bf_references (buffer_of w r)"

interpretation buffers_frame: view_frame buffer_refs
proof
  fix w w' :: world
  assume e: "view_erase w' = view_erase w"
  show "buffer_refs w' = buffer_refs w"
    unfolding buffer_refs_def
    by (intro ext option_field [OF erased_surface(2) [OF view_erase_res [OF e]]]) (simp add: erase_buffer_def)
qed

lemma slot_buf_option:
  "slot_buf w (sid, sl) = (case map_option (\<lambda>s. ss_buffer (slot_state sl s)) (surface_of w sid) of None \<Rightarrow> 0 | Some b \<Rightarrow> b)"
  by (simp add: slot_buf_def split: option.split)

interpretation slots_frame: view_frame slot_buf
proof
  fix w w' :: world
  assume e: "view_erase w' = view_erase w"
  have "map_option (\<lambda>s. ss_buffer (slot_state sl s)) (surface_of w' sid) =
        map_option (\<lambda>s. ss_buffer (slot_state sl s)) (surface_of w sid)" for sid sl
    by (rule erased_surface_field [OF e]) (simp add: erase_surface_def slot_state_def split: slot.split)
  then show "slot_buf w' = slot_buf w" by (auto simp: slot_buf_option fun_eq_iff)
qed

context view_frame
begin

lemma keep_surface_attach: "env_keeps E P \<Longrightarrow> P (surface_attach E sid bid w) = P w"
  by (simp add: surface_attach_def Let_def keep_basic keep_ack keep_map keep_unmap split: option.split)

end

section \<open>Counting references\<close>

text \<open>\<open>refs w b\<close> are the slots that hold buffer \<open>b\<close>.\<close>

definition refs :: "world \<Rightarrow> nat \<Rightarrow> (nat \<times> slot) set" where
  "refs w b = {k. slot_buf w k = b}"

definition refs_exact :: "world \<Rightarrow> bool" where
  "refs_exact w \<longleftrightarrow>
     (\<forall>b. b \<noteq> 0 \<longrightarrow>
        (case buffer_refs w b of
           None \<Rightarrow> refs w b = {}
         | Some n \<Rightarrow> finite (refs w b) \<and> card (refs w b) = unat n))"

text \<open>What the release of a buffer does: the buffer is gone, no other count changes, and the slots of a
  surface that held it may have been emptied.\<close>

definition release_lawful :: "env \<Rightarrow> bool" where
  "release_lawful E \<longleftrightarrow>
     (\<forall>b w. buffer_of w b \<noteq> None \<longrightarrow>
        buffer_refs (release_resource E b w) b = None \<and>
        (\<forall>r. r \<noteq> b \<longrightarrow> buffer_refs (release_resource E b w) r = buffer_refs w r) \<and>
        (\<forall>k. slot_buf (release_resource E b w) k = slot_buf w k \<or>
             (slot_buf w k = b \<and> slot_buf (release_resource E b w) k = 0)) \<and>
        (\<forall>r. surface_of (release_resource E b w) r = None \<longleftrightarrow> surface_of w r = None))"

text \<open>\<open>refs_exact\<close> reads only the slots and the counts.\<close>

lemma buffer_refs_None: "buffer_refs w r = None \<longleftrightarrow> buffer_of w r = None"
  by (simp add: buffer_refs_def)

lemma refs_exact_cong:
  assumes "slot_buf w' = slot_buf w" and "buffer_refs w' = buffer_refs w"
  shows "refs_exact w' = refs_exact w"
proof -
  have r: "refs w' = refs w" by (rule ext) (simp add: refs_def assms(1))
  show ?thesis unfolding refs_exact_def assms(2) r by (rule refl)
qed

lemma refs_exactD:
  assumes "refs_exact w" "b \<noteq> 0"
  shows "buffer_refs w b = None \<Longrightarrow> refs w b = {}"
    and "buffer_refs w b = Some n \<Longrightarrow> finite (refs w b) \<and> card (refs w b) = unat n"
  using assms(1) [unfolded refs_exact_def, rule_format, OF assms(2)] by simp_all

text \<open>The count with one slot \<open>k\<close> left out.\<close>

definition refs_but :: "nat \<times> slot \<Rightarrow> world \<Rightarrow> bool" where
  "refs_but k w \<longleftrightarrow>
     (\<forall>b. b \<noteq> 0 \<longrightarrow>
        (case buffer_refs w b of
           None \<Rightarrow> refs w b - {k} = {}
         | Some n \<Rightarrow> finite (refs w b - {k}) \<and> card (refs w b - {k}) = unat n))"

lemma refs_butD:
  assumes "refs_but k w" "b \<noteq> 0"
  shows "buffer_refs w b = None \<Longrightarrow> refs w b - {k} = {}"
    and "buffer_refs w b = Some n \<Longrightarrow> finite (refs w b - {k}) \<and> card (refs w b - {k}) = unat n"
  using assms(1) [unfolded refs_but_def, rule_format, OF assms(2)] by simp_all

definition surfaces_alive :: "world \<Rightarrow> nat set" where
  "surfaces_alive w = {sid. surface_of w sid \<noteq> None}"

definition few_surfaces :: "world \<Rightarrow> bool" where
  "few_surfaces w \<longleftrightarrow> finite (surfaces_alive w) \<and> 2 * card (surfaces_alive w) < 2 ^ 16"

lemma slot_univ: "(UNIV :: slot set) = {Pending, Commit}"
  using slot.exhaust by auto

lemma refs_bounded:
  assumes "few_surfaces w" "b \<noteq> 0"
  shows "finite (refs w b)" "card (refs w b) < 2 ^ 16"
proof -
  have sub: "refs w b \<subseteq> surfaces_alive w \<times> {Pending, Commit}"
    using assms(2) slot_univ by (auto simp: refs_def slot_buf_def surfaces_alive_def split: option.splits)
  have fin: "finite (surfaces_alive w \<times> {Pending, Commit})" using assms(1) by (simp add: few_surfaces_def)
  show "finite (refs w b)" using sub fin by (rule finite_subset)
  have "card (refs w b) \<le> card (surfaces_alive w \<times> {Pending, Commit})" using sub fin by (rule card_mono [rotated])
  then show "card (refs w b) < 2 ^ 16" using assms(1) by (simp add: few_surfaces_def card_cartesian_product)
qed

lemma slot_buf_upd_slot:
  "surface_of w sid \<noteq> None \<Longrightarrow>
   slot_buf (upd_slot sid sl (\<lambda>st. st\<lparr>ss_buffer := n\<rparr>) w) = (slot_buf w)((sid, sl) := n)"
  by (auto simp: slot_buf_def upd_slot_def slot_state_def fun_eq_iff split: option.split slot.split)

lemma ref_frame_upd_buffer [simp]:
  "slot_buf (upd_buffer b f w) = slot_buf w" "surfaces_alive (upd_buffer b f w) = surfaces_alive w"
  by (simp_all add: slot_buf_def surfaces_alive_def fun_eq_iff)

lemma buffer_refs_upd_slot [simp]: "buffer_refs (upd_slot sid sl f w) = buffer_refs w"
  by (simp add: buffer_refs_def upd_slot_def fun_eq_iff)

lemma surfaces_alive_upd_slot [simp]: "surfaces_alive (upd_slot sid sl f w) = surfaces_alive w"
  by (auto simp: surfaces_alive_def upd_slot_def)

text \<open>Dropping the reference of one slot.\<close>

lemma dispose_refs:
  assumes law: "release_lawful E" and ex: "refs_exact w" and k: "slot_buf w k = cur"
  shows "refs_but k (wlc_buffer_dispose E cur w)"
    and "\<And>b. b \<noteq> cur \<Longrightarrow> buffer_refs (wlc_buffer_dispose E cur w) b = buffer_refs w b"
    and "surfaces_alive (wlc_buffer_dispose E cur w) = surfaces_alive w"
proof -
  have kin: "k \<in> refs w cur" using k by (simp add: refs_def)
  have other: "refs w b - {k} = refs w b" if "b \<noteq> cur" for b using that k by (auto simp: refs_def)
  have base: "refs_but k w'" if "buffer_refs w' = buffer_refs w" "slot_buf w' = slot_buf w" "cur = 0" for w'
    unfolding refs_but_def
  proof (intro allI impI)
    fix b :: nat assume b: "b \<noteq> 0"
    have "refs w' b - {k} = refs w b" using that(2,3) other b by (simp add: refs_def)
    then show "case buffer_refs w' b of None \<Rightarrow> refs w' b - {k} = {}
      | Some n \<Rightarrow> finite (refs w' b - {k}) \<and> card (refs w' b - {k}) = unat n"
      using ex [unfolded refs_exact_def, rule_format, OF b] that(1) by (cases "buffer_refs w b") simp_all
  qed
  consider (zero) "cur = 0" | (dead) "cur \<noteq> 0" "buffer_of w cur = None" | (live) x where "cur \<noteq> 0" "buffer_of w cur = Some x" by blast
  then have "refs_but k (wlc_buffer_dispose E cur w) \<and>
    (\<forall>b. b \<noteq> cur \<longrightarrow> buffer_refs (wlc_buffer_dispose E cur w) b = buffer_refs w b) \<and>
    surfaces_alive (wlc_buffer_dispose E cur w) = surfaces_alive w"
  proof cases
    case zero
    then show ?thesis using base by (simp add: wlc_buffer_dispose_def)
  next
    case dead
    then show ?thesis using refs_exactD(1) [OF ex] kin by (auto simp: buffer_refs_None)
  next
    case (live x)
    let ?n = "bf_references x"
    have n: "finite (refs w cur)" "card (refs w cur) = unat ?n"
      using refs_exactD(2) [OF ex live(1), of ?n] live(2) by (simp_all add: buffer_refs_def)
    have pos: "?n \<noteq> 0" using n kin by (metis card_gt_0_iff empty_iff unat_0 less_irrefl)
    have drop: "card (refs w cur - {k}) = unat (?n - 1)"
      using n kin pos by (simp add: card_Diff_singleton unat_minus_one)
    show ?thesis
    proof (cases "?n - 1 > 0")
      case True
      let ?w = "upd_buffer cur (\<lambda>b. b\<lparr>bf_references := bf_references b - 1\<rparr>) w"
      have eq: "wlc_buffer_dispose E cur w = ?w" using live pos True by (simp add: wlc_buffer_dispose_def Let_def)
      have r: "buffer_refs ?w b = (if b = cur then Some (?n - 1) else buffer_refs w b)" for b
        using live by (simp add: buffer_refs_def)
      have same: "refs ?w b = refs w b" for b by (simp add: refs_def)
      have "refs_but k ?w"
        unfolding refs_but_def
      proof (intro allI impI)
        fix b :: nat assume b: "b \<noteq> 0"
        show "case buffer_refs ?w b of None \<Rightarrow> refs ?w b - {k} = {}
            | Some n \<Rightarrow> finite (refs ?w b - {k}) \<and> card (refs ?w b - {k}) = unat n"
          using r [of b] drop n(1) ex [unfolded refs_exact_def, rule_format, OF b] other [of b] same [of b]
          by (cases "b = cur"; cases "buffer_refs w b") simp_all
      qed
      then show ?thesis using eq r by simp
    next
      case False
      let ?v = "upd_buffer cur (\<lambda>b. b\<lparr>bf_references := bf_references b - 1\<rparr>) w"
      have eq: "wlc_buffer_dispose E cur w = release_resource E cur ?v"
        using live pos False by (simp add: wlc_buffer_dispose_def Let_def)
      have one: "refs w cur = {k}"
      proof -
        have "?n - 1 = 0" by (rule ccontr) (use False word_gt_0 [of "?n - 1"] in argo)
        then have "card (refs w cur - {k}) = 0" unfolding drop by (simp only: unat_0)
        then have "refs w cur - {k} = {}" using n(1) by (metis card_0_eq finite_Diff)
        then show ?thesis using kin by blast
      qed
      have v: "buffer_of ?v cur \<noteq> None" "buffer_refs ?v b = buffer_refs w b" if "b \<noteq> cur" for b
        using live that by (simp_all add: buffer_refs_def)
      have l: "buffer_refs (release_resource E cur ?v) cur = None"
        "\<And>r. r \<noteq> cur \<Longrightarrow> buffer_refs (release_resource E cur ?v) r = buffer_refs ?v r"
        "\<And>j. slot_buf (release_resource E cur ?v) j = slot_buf w j \<or>
             (slot_buf w j = cur \<and> slot_buf (release_resource E cur ?v) j = 0)"
        "surfaces_alive (release_resource E cur ?v) = surfaces_alive w"
      proof -
        have "buffer_of ?v cur \<noteq> None" using live by simp
        note l = law [unfolded release_lawful_def, rule_format, OF this]
        show "buffer_refs (release_resource E cur ?v) cur = None"
          "\<And>r. r \<noteq> cur \<Longrightarrow> buffer_refs (release_resource E cur ?v) r = buffer_refs ?v r"
          using l by blast+
        show "\<And>j. slot_buf (release_resource E cur ?v) j = slot_buf w j \<or>
             (slot_buf w j = cur \<and> slot_buf (release_resource E cur ?v) j = 0)"
          using l unfolding ref_frame_upd_buffer(1) by blast
        show "surfaces_alive (release_resource E cur ?v) = surfaces_alive w" using l by (simp add: surfaces_alive_def)
      qed
      have same: "refs (release_resource E cur ?v) b = refs w b" if "b \<noteq> 0" "b \<noteq> cur" for b
        unfolding refs_def using that l(3) by (metis (no_types, lifting))
      have gone: "refs (release_resource E cur ?v) cur - {k} = {}"
      proof -
        have "refs (release_resource E cur ?v) cur \<subseteq> refs w cur"
          unfolding refs_def using live(1) l(3) by (metis (mono_tags, lifting) Collect_mono)
        then show ?thesis using one by auto
      qed
      have "refs_but k (release_resource E cur ?v)"
        unfolding refs_but_def
      proof (intro allI impI)
        fix b :: nat assume b: "b \<noteq> 0"
        show "case buffer_refs (release_resource E cur ?v) b of None \<Rightarrow> refs (release_resource E cur ?v) b - {k} = {}
            | Some n \<Rightarrow> finite (refs (release_resource E cur ?v) b - {k}) \<and>
                card (refs (release_resource E cur ?v) b - {k}) = unat n"
          using l(1) gone ex [unfolded refs_exact_def, rule_format, OF b] same [OF b] other [of b] l(2) [of b] v(2) [of b]
          by (cases "b = cur"; cases "buffer_refs w b") simp_all
      qed
      then show ?thesis using eq l(2,4) v(2) by simp
    qed
  qed
  then show "refs_but k (wlc_buffer_dispose E cur w)"
    "\<And>b. b \<noteq> cur \<Longrightarrow> buffer_refs (wlc_buffer_dispose E cur w) b = buffer_refs w b"
    "surfaces_alive (wlc_buffer_dispose E cur w) = surfaces_alive w" by blast+
qed

lemma use_refs:
  assumes "wlc_buffer_use bid w = (n, w')"
  shows "n = (if buffer_of w bid = None then 0 else bid)" "slot_buf w' = slot_buf w"
    "surfaces_alive w' = surfaces_alive w"
    "buffer_refs w' = (if n = 0 then buffer_refs w else (buffer_refs w)(n := map_option (\<lambda>x. x + 1) (buffer_refs w n)))"
  using assms by (auto simp: wlc_buffer_use_def buffer_refs_def fun_eq_iff split: if_splits)

text \<open>Filling the slot: with every slot counted again the counts are exact.\<close>

lemma fill_slot_exact:
  assumes but: "refs_but k w" and few: "few_surfaces w" and alive: "surface_of w (fst k) \<noteq> None"
    and use: "wlc_buffer_use bid w = (n, w')"
  shows "refs_exact (upd_slot (fst k) (snd k) (\<lambda>st. st\<lparr>ss_buffer := n\<rparr>) w')"
proof -
  let ?w = "upd_slot (fst k) (snd k) (\<lambda>st. st\<lparr>ss_buffer := n\<rparr>) w'"
  note u = use_refs [OF use]
  have alive': "surface_of w' (fst k) \<noteq> None" using u(3) alive by (auto simp: surfaces_alive_def)
  have sl: "slot_buf ?w = (slot_buf w)(k := n)"
    using slot_buf_upd_slot [OF alive', of "snd k" n] u(2) by simp
  then have refs: "refs ?w b = (if b = n then insert k (refs w b - {k}) else refs w b - {k})" for b
    by (auto simp: refs_def)
  have few': "few_surfaces ?w" using few u(3) by (simp add: few_surfaces_def)
  show ?thesis
    unfolding refs_exact_def
  proof (intro allI impI)
    fix b :: nat assume b: "b \<noteq> 0"
    show "case buffer_refs ?w b of None \<Rightarrow> refs ?w b = {} | Some n \<Rightarrow> finite (refs ?w b) \<and> card (refs ?w b) = unat n"
    proof (cases "b = n")
      case False
      then have "buffer_refs ?w b = buffer_refs w b" using u(4) by simp
      then show ?thesis using but [unfolded refs_but_def, rule_format, OF b] refs [of b] False
        by (cases "buffer_refs w b") simp_all
    next
      case True
      then have "buffer_refs w b \<noteq> None" using b u(1) by (auto simp: buffer_refs_None split: if_splits)
      then obtain x where x: "buffer_refs w b = Some x" by blast
      have fin: "finite (refs w b - {k})" "card (refs w b - {k}) = unat x" using refs_butD(2) [OF but b x] by simp_all
      have c: "card (refs ?w b) = unat x + 1" using refs [of b] True fin by (simp add: card.insert_remove)
      then have "unat x + 1 < 2 ^ 16" using refs_bounded(2) [OF few' b] by simp
      then have "unat (x + 1) = unat x + 1" by (simp add: unat_word_ariths)
      then show ?thesis using c fin refs [of b] True b x u(4) by simp
    qed
  qed
qed

lemma state_set_buffer_exact:
  assumes law: "release_lawful E" and ex: "refs_exact w" and few: "few_surfaces w"
  shows "refs_exact (state_set_buffer E sid sl bid w) \<and> surfaces_alive (state_set_buffer E sid sl bid w) = surfaces_alive w"
proof (cases "surface_of w sid")
  case None
  have "refs_exact (fail f w) = refs_exact w" for f
    by (rule refs_exact_cong) (simp_all add: slot_buf_def buffer_refs_def fun_eq_iff)
  then show ?thesis using None ex by (simp add: state_set_buffer_def surfaces_alive_def)
next
  case (Some s)
  let ?k = "(sid, sl)" and ?cur = "ss_buffer (slot_state sl s)"
  have k: "slot_buf w ?k = ?cur" using Some by (simp add: slot_buf_def)
  show ?thesis
  proof (cases "?cur = bid")
    case True
    then show ?thesis using Some ex by (simp add: state_set_buffer_def Let_def)
  next
    case False
    let ?w1 = "wlc_buffer_dispose E ?cur w"
    note d = dispose_refs [OF law ex k]
    obtain n w2 where u: "wlc_buffer_use bid ?w1 = (n, w2)" by fastforce
    have few1: "few_surfaces ?w1" using few d(3) by (simp add: few_surfaces_def)
    have alive: "surface_of ?w1 sid \<noteq> None" using d(3) Some by (auto simp: surfaces_alive_def)
    have eq: "state_set_buffer E sid sl bid w = upd_slot sid sl (\<lambda>st. st\<lparr>ss_buffer := n\<rparr>) w2"
      using Some False u by (simp add: state_set_buffer_def Let_def)
    show ?thesis
      using fill_slot_exact [OF d(1) few1 _ u] alive d(3) use_refs(3) [OF u] by (simp add: eq)
  qed
qed

end
