(* ===== verification/Commit.thy ===== *)
theory Commit
  imports Surface Sample
begin

text \<open>
  What the requests of surface.c promise: the counted references to buffers stay exact over any sequence of
  requests, a commit publishes the pending state clipped to the surface, the tree of subsurfaces is
  consistent.
\<close>

section \<open>The table of requests\<close>

datatype surface_request =
    Rq_destroy
  | Rq_attach nat nat int int
  | Rq_damage int int int int
  | Rq_frame nat u32
  | Rq_set_opaque_region nat
  | Rq_set_input_region nat
  | Rq_commit
  | Rq_set_buffer_transform int
  | Rq_set_buffer_scale int

fun wlc_surface_implementation :: "env \<Rightarrow> nat \<Rightarrow> surface_request \<Rightarrow> world \<Rightarrow> world" where
  "wlc_surface_implementation E sid Rq_destroy w = release_resource E sid w"
| "wlc_surface_implementation E sid (Rq_attach client bres x y) w = wl_cb_surface_attach E client sid bres x y w"
| "wlc_surface_implementation E sid (Rq_damage x y wd ht) w = wl_cb_surface_damage E sid x y wd ht w"
| "wlc_surface_implementation E sid (Rq_frame client cb) w = wl_cb_surface_frame E client sid cb w"
| "wlc_surface_implementation E sid (Rq_set_opaque_region r) w = wl_cb_surface_set_opaque_region E sid r w"
| "wlc_surface_implementation E sid (Rq_set_input_region r) w = wl_cb_surface_set_input_region E sid r w"
| "wlc_surface_implementation E sid Rq_commit w = wl_cb_surface_commit E sid w"
| "wlc_surface_implementation E sid (Rq_set_buffer_transform t) w = wl_cb_surface_set_buffer_transform E sid t w"
| "wlc_surface_implementation E sid (Rq_set_buffer_scale s) w = wl_cb_surface_set_buffer_scale E sid s w"

section \<open>References over requests\<close>

interpretation alive_frame: view_frame surfaces_alive
proof
  fix w w' :: world
  assume e: "view_erase w' = view_erase w"
  have "map_option (\<lambda>_. ()) (surface_of w' r) = map_option (\<lambda>_. ()) (surface_of w r)" for r
    by (rule erased_surface_field [OF e]) simp
  then have "surface_of w' r = None \<longleftrightarrow> surface_of w r = None" for r by (metis map_option_is_None)
  then show "surfaces_alive w' = surfaces_alive w" by (simp add: surfaces_alive_def)
qed

definition counted :: "world \<Rightarrow> bool" where
  "counted w \<longleftrightarrow> refs_exact w \<and> few_surfaces w"

text \<open>The three projections \<open>counted\<close> reads.\<close>

definition count_view :: "world \<Rightarrow> (nat \<times> slot \<Rightarrow> nat) \<times> (nat \<Rightarrow> u16 option) \<times> nat set" where
  "count_view w = (slot_buf w, buffer_refs w, surfaces_alive w)"

interpretation count_frame: view_frame count_view
proof
  fix w w' :: world
  assume e: "view_erase w' = view_erase w"
  show "count_view w' = count_view w"
    using slots_frame.factors [OF e] buffers_frame.factors [OF e] alive_frame.factors [OF e]
    by (simp add: count_view_def)
qed

lemma counted_cong: "count_view w' = count_view w \<Longrightarrow> counted w' = counted w"
proof -
  assume e: "count_view w' = count_view w"
  have "refs_exact w' = refs_exact w" by (rule refs_exact_cong) (use e in \<open>simp_all add: count_view_def\<close>)
  then show ?thesis using e by (simp add: counted_def count_view_def few_surfaces_def)
qed

lemma counted_set_buffer: "release_lawful E \<Longrightarrow> counted w \<Longrightarrow> counted (state_set_buffer E sid sl bid w)"
  using state_set_buffer_exact [of E w sid sl bid] by (simp add: counted_def few_surfaces_def)

lemma slot_buf_upd_surface:
  assumes "\<And>s. ss_buffer (sf_pending (f s)) = ss_buffer (sf_pending s)"
    and "\<And>s. ss_buffer (sf_commit (f s)) = ss_buffer (sf_commit s)"
  shows "slot_buf (upd_surface r f w) = slot_buf w"
  by (auto simp: slot_buf_def slot_state_def fun_eq_iff assms split: option.split slot.split)

lemma count_view_upd_surface:
  assumes "\<And>s. ss_buffer (sf_pending (f s)) = ss_buffer (sf_pending s)"
    and "\<And>s. ss_buffer (sf_commit (f s)) = ss_buffer (sf_commit s)"
  shows "count_view (upd_surface r f w) = count_view w"
proof -
  have "surfaces_alive (upd_surface r f w) = surfaces_alive w" by (auto simp: surfaces_alive_def)
  then show ?thesis by (simp add: count_view_def slot_buf_upd_surface [OF assms] buffer_refs_def fun_eq_iff)
qed

lemma count_view_upd_slot: "(\<And>st. ss_buffer (f st) = ss_buffer st) \<Longrightarrow> count_view (upd_slot sid sl f w) = count_view w"
  unfolding upd_slot_def by (rule count_view_upd_surface) (simp_all split: slot.split)

lemma count_view_upd_buffer:
  "(\<And>b. bf_references (f b) = bf_references b) \<Longrightarrow> count_view (upd_buffer r f w) = count_view w"
  by (auto simp: count_view_def buffer_refs_def fun_eq_iff option.map_comp comp_def)

lemma counted_commit_state:
  assumes "release_lawful E" "env_keeps E count_view" "counted w"
  shows "counted (commit_state E sid w)"
proof (cases "surface_of w sid")
  case None
  then show ?thesis using assms(3) by (simp add: commit_state_def counted_cong [OF count_frame.keep_basic(2)])
next
  case (Some s)
  define w1 where "w1 = upd_surface sid (\<lambda>s. let (p, c) = commit_regions E (sf_size s) (sf_pending s, sf_commit s)
                                       in s\<lparr>sf_pending := p, sf_commit := c\<rparr>) w"
  have "count_view w1 = count_view w"
    unfolding w1_def by (rule count_view_upd_surface) (simp_all add: commit_regions_def Let_def)
  then have c1: "counted w1" using assms(3) by (simp cong: counted_cong)
  define w2 where "w2 = (if ss_attached (sf_pending s)
                   then upd_slot sid Pending (\<lambda>st. st\<lparr>ss_attached := False\<rparr>)
                          (surface_attach E sid (pending_buffer w1 sid) w1)
                   else w1)"
  have "count_view w2 = count_view w1"
    by (simp add: w2_def count_view_upd_slot count_frame.keep_surface_attach [OF assms(2)])
  then have c2: "counted w2" using c1 by (simp cong: counted_cong)
  have eq: "commit_state E sid w = state_set_buffer E sid Pending 0 (state_set_buffer E sid Commit (pending_buffer w2 sid) w2)"
    using Some by (simp add: commit_state_def Let_def w1_def [unfolded Let_def, symmetric] w2_def [symmetric])
  show ?thesis unfolding eq by (intro counted_set_buffer assms(1) c2)
qed

lemma counted_commit_walk:
  assumes "release_lawful E" "env_keeps E count_view"
  shows "(\<forall>sid w w'. counted w \<longrightarrow> commit_tree n E sid w = Some w' \<longrightarrow> counted w') \<and>
         (\<forall>sid i w w'. counted w \<longrightarrow> commit_children n E sid i w = Some w' \<longrightarrow> counted w')"
proof (induction n)
  case 0
  then show ?case by simp
next
  case (Suc n)
  note tree = Suc.IH [THEN conjunct1, rule_format] and children = Suc.IH [THEN conjunct2, rule_format]
  have place: "count_view (upd_surface r (\<lambda>s. s\<lparr>sf_commit := (sf_commit s)\<lparr>ss_subsurface_position := p s\<rparr>\<rparr>) w) = count_view w" for r p w
    by (rule count_view_upd_surface) simp_all
  have rep: "counted (wlc_output_schedule_repaint oid w) = counted w" for oid w
    by (rule counted_cong) (rule count_frame.keep_basic(3))
  have "counted w'" if "counted w" "commit_tree (Suc n) E sid w = Some w'" for sid w w'
  proof (cases "surface_of w sid")
    case None
    then show ?thesis using that by simp
  next
    case (Some s)
    have "counted (wlc_output_schedule_repaint oid (commit_state E sid w))" for oid
      unfolding rep by (rule counted_commit_state [OF assms that(1)])
    then show ?thesis using that(2) Some by (auto simp: Let_def intro: children)
  qed
  moreover have "counted w'" if "counted w" "commit_children (Suc n) E sid i w = Some w'" for sid i w w'
  proof -
    have pl: "counted (upd_surface r (\<lambda>s. s\<lparr>sf_commit := (sf_commit s)\<lparr>ss_subsurface_position := p s\<rparr>\<rparr>) w)" for r p
      using that(1) counted_cong [OF place] by blast
    show ?thesis
      using that by (auto simp: Let_def split: option.splits if_splits intro: children [OF that(1)] children [OF pl] dest: tree [OF pl] intro: children)
  qed
  ultimately show ?case by blast
qed

lemma counted_commit_request:
  assumes "release_lawful E" "env_keeps E count_view" "counted w"
  shows "counted (wl_cb_surface_commit E sid w)"
proof -
  have "counted (commit_subsurface_state E sid w)"
  proof (cases "commit_tree (fuel E) E sid w")
    case None
    then have "commit_subsurface_state E sid w = fail Out_of_fuel w"
      by (simp add: commit_subsurface_state_def returned_def)
    then show ?thesis using assms(3) counted_cong [OF count_frame.keep_basic(2)] by metis
  next
    case (Some w')
    then have "commit_subsurface_state E sid w = w'" by (simp add: commit_subsurface_state_def returned_def)
    then show ?thesis using counted_commit_walk [OF assms(1,2), of "fuel E"] assms(3) Some by blast
  qed
  then show ?thesis using assms(3) by (simp add: wl_cb_surface_commit_def split: option.split)
qed

text \<open>\<open>wlc_resource_from_wl_resource\<close> finds the buffer of a wayland resource, and
  \<open>wlc_resource_create_from\<close> makes one nobody refers to yet; a new resource has a number that was not live.\<close>

definition creation_lawful :: "env \<Rightarrow> bool" where
  "creation_lawful E \<longleftrightarrow>
     (\<forall>sid bres w. let (b, w') = ext_resource_from E sid bres w in
        slot_buf w' = slot_buf w \<and> surfaces_alive w' = surfaces_alive w \<and>
        (buffer_refs w' = buffer_refs w \<or> (b \<noteq> 0 \<and> buffer_refs w b = None \<and> buffer_refs w' = (buffer_refs w)(b \<mapsto> 0)))) \<and>
     (\<forall>w r. ext_new_resource E w = Some r \<longrightarrow> r \<noteq> 0 \<and> w_res w r = None)"

lemma counted_new_buffer:
  assumes "counted w" "slot_buf w' = slot_buf w" "surfaces_alive w' = surfaces_alive w"
    and "buffer_refs w' = buffer_refs w \<or> (b \<noteq> 0 \<and> buffer_refs w b = None \<and> buffer_refs w' = (buffer_refs w)(b \<mapsto> 0))"
  shows "counted w'"
  using assms(4)
proof
  assume "buffer_refs w' = buffer_refs w"
  then show ?thesis using assms(1-3) counted_cong [of w' w] by (simp add: count_view_def)
next
  assume n: "b \<noteq> 0 \<and> buffer_refs w b = None \<and> buffer_refs w' = (buffer_refs w)(b \<mapsto> 0)"
  have r: "refs w' = refs w" by (rule ext) (simp add: refs_def assms(2))
  have "refs w b = {}" using assms(1) n refs_exactD(1) [of w b] by (simp add: counted_def)
  then have "refs_exact w'" using assms(1) n unfolding counted_def refs_exact_def r by auto
  then show ?thesis using assms(1,3) by (simp add: counted_def few_surfaces_def)
qed

lemma counted_attach:
  assumes "release_lawful E" "creation_lawful E" "counted w"
  shows "counted (wl_cb_surface_attach E client sid bres x y w)"
proof -
  obtain b w1 where b: "(if bres = 0 then (0, w) else ext_resource_from E sid bres w) = (b, w1)" by fastforce
  have c1: "counted w1"
  proof (cases "bres = 0")
    case True
    then show ?thesis using b assms(3) by simp
  next
    case False
    then have e: "ext_resource_from E sid bres w = (b, w1)" using b by simp
    have "slot_buf w1 = slot_buf w \<and> surfaces_alive w1 = surfaces_alive w \<and>
        (buffer_refs w1 = buffer_refs w \<or> (b \<noteq> 0 \<and> buffer_refs w b = None \<and> buffer_refs w1 = (buffer_refs w)(b \<mapsto> 0)))"
      using assms(2) [unfolded creation_lawful_def, THEN conjunct1, rule_format, of sid bres w] unfolding e by simp
    then show ?thesis using counted_new_buffer [OF assms(3)] by blast
  qed
  have c2: "counted (upd_buffer b (\<lambda>b. b\<lparr>bf_surface := sid\<rparr>) w1)"
    using c1 by (simp add: counted_cong [OF count_view_upd_buffer])
  have off: "counted (upd_slot sid Pending (\<lambda>st. st\<lparr>ss_offset := o', ss_attached := True\<rparr>) w) = counted w" for o' w
    by (rule counted_cong) (rule count_view_upd_slot, simp)
  show ?thesis
    using c1 counted_set_buffer [OF assms(1) c2] assms(3) b
    by (simp add: wl_cb_surface_attach_def off counted_cong [OF count_frame.keep_basic(1)])
qed

lemma counted_frame_request:
  assumes "creation_lawful E" "counted w"
  shows "counted (wl_cb_surface_frame E client sid cb w)"
proof -
  obtain r w1 where r: "create_resource E client cb R_callback w = (r, w1)" by fastforce
  have "count_view w1 = count_view w"
  proof (cases "ext_new_resource E w")
    case None
    then show ?thesis using r by (auto simp: create_resource_def count_frame.keep_basic(1))
  next
    case (Some n)
    then have n: "w_res w n = None" using assms(1) by (auto simp: creation_lawful_def)
    have w1: "w1 = w\<lparr>w_res := (w_res w)(n \<mapsto> \<lparr>re_data = R_callback, re_wl = ext_wl_create E client cb w\<rparr>)\<rparr>"
      using r Some by (auto simp: create_resource_def)
    have "surface_of w1 = surface_of w" "buffer_of w1 = buffer_of w"
      using n by (auto simp: w1 surface_of_def buffer_of_def fun_eq_iff)
    then show ?thesis by (simp add: count_view_def slot_buf_def buffer_refs_def surfaces_alive_def fun_eq_iff)
  qed
  then have "counted w1" using assms(2) by (simp cong: counted_cong)
  then show ?thesis using assms(2) r
    by (simp add: wl_cb_surface_frame_def counted_cong [OF count_view_upd_slot])
qed

lemma counted_request:
  assumes "release_lawful E" "creation_lawful E" "env_keeps E count_view" "rq \<noteq> Rq_destroy" "counted w"
  shows "counted (wlc_surface_implementation E sid rq w)"
  using assms
  by (cases rq)
     (simp_all add: counted_attach counted_frame_request counted_commit_request
       wl_cb_surface_damage_def wl_cb_surface_set_opaque_region_def wl_cb_surface_set_input_region_def
       wl_cb_surface_set_buffer_transform_def wl_cb_surface_set_buffer_scale_def
       counted_cong [OF count_view_upd_slot] counted_cong [OF count_frame.keep_basic(1)])


section \<open>Attaching nothing\<close>

lemma upd_surface_twice: "upd_surface r f (upd_surface r g w) = upd_surface r (\<lambda>s. f (g s)) w"
proof -
  have "map_surface f (map_surface g e) = map_surface (\<lambda>s. f (g s)) e" for e
    by (cases "re_data e") simp_all
  then show ?thesis by (simp del: map_surface.simps add: upd_surface_def option.map_comp comp_def)
qed

lemma upd_surface_same:
  assumes "surface_of w r = Some s" "f s = g s"
  shows "upd_surface r f w = upd_surface r g w"
  using assms by (auto simp: upd_surface_def surface_of_def fun_eq_iff split: if_splits option.splits res_data.splits)

text \<open>An attach without a buffer leaves the buffer of an earlier attach pending: attaching a buffer,
  then none, then committing does what committing the buffer does, although the client asked for a surface
  without content.\<close>

theorem attach_null_is_ignored:
  assumes "surface_of w sid = Some s" and "ss_attached (sf_pending s)"
  shows "commit_tree n E sid (wl_cb_surface_attach E client sid 0 x y w) = commit_tree n E sid w"
proof -
  define a where "a = wl_cb_surface_attach E client sid 0 x y w"
  define g :: "wlc_surface \<Rightarrow> wlc_surface" where "g = (\<lambda>s. s\<lparr>sf_pending := (sf_pending s)\<lparr>ss_offset := \<lparr>px = x, py = y\<rparr>, ss_attached := True\<rparr>\<rparr>)"
  have a: "a = upd_surface sid g w"
    using assms(1) by (simp add: a_def g_def wl_cb_surface_attach_def upd_slot_def)
  have sa: "surface_of a sid = Some (g s)" using assms(1) by (simp add: a)
  let ?f = "\<lambda>s. let (p, c) = commit_regions E (sf_size s) (sf_pending s, sf_commit s) in s\<lparr>sf_pending := p, sf_commit := c\<rparr>"
  have "upd_surface sid ?f a = upd_surface sid ?f w"
    unfolding a upd_surface_twice
    by (rule upd_surface_same [OF assms(1)]) (use assms(2) in \<open>simp add: g_def commit_regions_def Let_def\<close>)
  moreover have "ss_attached (sf_pending (g s)) = ss_attached (sf_pending s)" using assms(2) by (simp add: g_def)
  ultimately have "commit_state E sid a = commit_state E sid w"
    using sa assms(1) by (simp add: commit_state_def)
  then show ?thesis
    unfolding a_def [symmetric] using sa assms(1) by (cases n) simp_all
qed

section \<open>What a commit publishes\<close>

lemma fold_push_back:
  assumes "pool_ops_ok P" "\<And>xs x. push_back P xs x \<noteq> None"
  shows "fold (pool_push_back P) ys xs = xs @ ys"
proof -
  have "pool_push_back P x xs = xs @ [x]" for x xs
    using assms(2) [of xs x] pool_ops_okD(1) [OF assms(1), of xs x]
    by (auto simp: pool_push_back_def split: option.split)
  then show ?thesis by (induction ys arbitrary: xs) simp_all
qed

definition region_within :: "wlc_size \<Rightarrow> region \<Rightarrow> bool" where
  "region_within ssz r \<longleftrightarrow> 0 \<le> rg_x1 r \<and> rg_x1 r \<le> rg_x2 r \<and> rg_x2 r \<le> uint (sw ssz) \<and>
                       0 \<le> rg_y1 r \<and> rg_y1 r \<le> rg_y2 r \<and> rg_y2 r \<le> uint (sh ssz)"

lemma clip_within:
  assumes "pixman_ok X" "uint (sw ssz) < 2 ^ 31" "uint (sh ssz) < 2 ^ 31"
  shows "region_within ssz (px_intersect_rect X r 0 0 (sw ssz) (sh ssz))"
  using assms by (simp add: pixman_ok_def region_within_def Let_def)

lemma equal_within:
  assumes "pixman_ok X" "px_equal X r s" "region_within ssz r"
  shows "region_within ssz s"
  using assms by (auto simp: pixman_ok_def region_within_def)

text \<open>Releasing a buffer may empty slots; it changes nothing else of a surface.\<close>

definition release_keeps_states :: "env \<Rightarrow> bool" where
  "release_keeps_states E \<longleftrightarrow> (\<forall>b w. buffer_of w b \<noteq> None \<longrightarrow> region_states (release_resource E b w) = region_states w)"

lemma region_states_upd_surface:
  assumes "\<And>s. ((sf_pending (f s))\<lparr>ss_buffer := 0\<rparr>, (sf_commit (f s))\<lparr>ss_buffer := 0, ss_attached := False\<rparr>) =
                ((sf_pending s)\<lparr>ss_buffer := 0\<rparr>, (sf_commit s)\<lparr>ss_buffer := 0, ss_attached := False\<rparr>)"
  shows "region_states (upd_surface r f w) = region_states w"
  using assms by (auto simp: region_states_def fun_eq_iff option.map_comp comp_def)

lemma region_states_set_buffer:
  assumes "release_keeps_states E"
  shows "region_states (state_set_buffer E sid sl b w) = region_states w"
proof -
  have ub: "region_states (upd_buffer r f w) = region_states w" for r f w by (simp add: region_states_def fun_eq_iff)
  have d: "region_states (wlc_buffer_dispose E c w) = region_states w" for c
    using assms ub by (auto simp: wlc_buffer_dispose_def Let_def release_keeps_states_def split: option.split)
  have u: "region_states (snd (wlc_buffer_use b w)) = region_states w" for w by (simp add: wlc_buffer_use_def ub)
  have s: "region_states (upd_slot sid sl (\<lambda>st. st\<lparr>ss_buffer := n\<rparr>) w) = region_states w" for n w
    unfolding upd_slot_def by (rule region_states_upd_surface) (simp split: slot.split)
  show ?thesis
    by (simp add: state_set_buffer_def Let_def case_prod_beta region_frame.keep_basic s u d split: option.split)
qed

lemma set_buffer_none:
  assumes "surface_of (state_set_buffer E sid Pending 0 w) sid = Some s'"
  shows "ss_buffer (sf_pending s') = 0"
  using assms
  by (auto simp: state_set_buffer_def Let_def case_prod_beta wlc_buffer_use_def upd_slot_def slot_state_def
      split: option.splits if_splits)

lemma detached_state:
  "(p :: wlc_surface_state)\<lparr>ss_buffer := 0\<rparr> = q\<lparr>ss_buffer := 0\<rparr> \<Longrightarrow>
   p\<lparr>ss_attached := False, ss_buffer := 0\<rparr> = q\<lparr>ss_buffer := 0, ss_attached := False\<rparr>"
  by (cases p; cases q) simp


section \<open>The tree of subsurfaces\<close>

text \<open>Every child on a list names its parent, once, and is on the list of a live parent it names.\<close>

definition family_ok :: "(nat \<Rightarrow> (nat \<times> nat list) option) \<Rightarrow> bool" where
  "family_ok F \<longleftrightarrow>
     (\<forall>s p l. F s = Some (p, l) \<longrightarrow>
        distinct l \<and> (\<forall>c \<in> set l. \<exists>m. F c = Some (s, m)) \<and>
        (\<forall>q m. p \<noteq> 0 \<longrightarrow> F p = Some (q, m) \<longrightarrow> s \<in> set m))"

definition leave :: "nat \<Rightarrow> (nat \<Rightarrow> (nat \<times> nat list) option) \<Rightarrow> nat \<Rightarrow> (nat \<times> nat list) option" where
  "leave sid F = (case F sid of None \<Rightarrow> F
     | Some (p, l) \<Rightarrow>
        let G = F(p := map_option (\<lambda>(q, m). (q, remove1 sid m)) (F p))
        in G(sid := map_option (\<lambda>(q, m). (0, m)) (G sid)))"

definition join :: "nat \<Rightarrow> nat \<Rightarrow> (nat \<Rightarrow> (nat \<times> nat list) option) \<Rightarrow> nat \<Rightarrow> (nat \<times> nat list) option" where
  "join sid pid F =
     (let G = F(pid := map_option (\<lambda>(q, m). (q, sid # m)) (F pid))
      in G(sid := map_option (\<lambda>(q, m). (pid, m)) (G sid)))"

lemma leave_ok:
  assumes "family_ok F" "F 0 = None"
  shows "family_ok (leave sid F)"
proof (cases "F sid")
  case None
  then show ?thesis using assms by (simp add: leave_def)
next
  case (Some pl)
  obtain p l where pl: "F sid = Some (p, l)" using Some by (cases pl) simp
  have d: "F s = Some (q, m) \<Longrightarrow> distinct m" "F s = Some (q, m) \<Longrightarrow> c \<in> set m \<Longrightarrow> \<exists>n. F c = Some (s, n)"
    "F s = Some (q, m) \<Longrightarrow> q \<noteq> 0 \<Longrightarrow> F q = Some (a, b) \<Longrightarrow> s \<in> set b" for s q m c a b
    using assms(1) unfolding family_ok_def by blast+
  have L: "leave sid F s = (case F s of None \<Rightarrow> None
     | Some (q, m) \<Rightarrow> Some (if s = sid then 0 else q, if s = p then remove1 sid m else m))" for s
    using pl by (auto simp: leave_def Let_def split: option.split)
  show ?thesis
    unfolding family_ok_def
  proof (intro allI impI conjI ballI)
    fix s q m assume s: "leave sid F s = Some (q, m)"
    then obtain q0 m0 where F: "F s = Some (q0, m0)" and q: "q = (if s = sid then 0 else q0)"
      and m: "m = (if s = p then remove1 sid m0 else m0)" by (auto simp: L split: option.splits)
    show "distinct m" using d(1) [OF F] m by (simp split: if_splits)
    { fix c assume c: "c \<in> set m"
      then have c0: "c \<in> set m0" using m set_remove1_subset [of sid m0] by (auto split: if_splits)
      then obtain n where n: "F c = Some (s, n)" using d(2) [OF F] by blast
      have "c \<noteq> sid" using c n pl m d(1) [OF F] by (auto split: if_splits)
      then show "\<exists>n. leave sid F c = Some (s, n)" using n by (simp add: L) }
    { fix a b assume "q \<noteq> 0" "leave sid F q = Some (a, b)"
      then obtain a0 b0 where "F q0 = Some (a0, b0)" "b = (if q0 = p then remove1 sid b0 else b0)" "s \<noteq> sid" "q = q0"
        using q by (auto simp: L split: option.splits if_splits)
      then show "s \<in> set b" using d(3) [OF F] \<open>q \<noteq> 0\<close> by (auto simp: in_set_remove1) }
  qed
qed

lemma join_ok:
  assumes "family_ok F" "F 0 = None" "F sid = Some (0, l)" "F pid \<noteq> None"
  shows "family_ok (join sid pid F)"
proof -
  have d: "F s = Some (q, m) \<Longrightarrow> distinct m" "F s = Some (q, m) \<Longrightarrow> c \<in> set m \<Longrightarrow> \<exists>n. F c = Some (s, n)"
    "F s = Some (q, m) \<Longrightarrow> q \<noteq> 0 \<Longrightarrow> F q = Some (a, b) \<Longrightarrow> s \<in> set b" for s q m c a b
    using assms(1) unfolding family_ok_def by blast+
  have free: "sid \<notin> set m" if "F s = Some (q, m)" for s q m
    using d(2) [OF that] assms(2,3) that by fastforce
  have L: "join sid pid F s = (case F s of None \<Rightarrow> None
     | Some (q, m) \<Rightarrow> Some (if s = sid then pid else q, if s = pid then sid # m else m))" for s
    using assms(3,4) by (auto simp: join_def Let_def split: option.split)
  show ?thesis
    unfolding family_ok_def
  proof (intro allI impI conjI ballI)
    fix s q m assume s: "join sid pid F s = Some (q, m)"
    then obtain q0 m0 where F: "F s = Some (q0, m0)" and q: "q = (if s = sid then pid else q0)"
      and m: "m = (if s = pid then sid # m0 else m0)" by (auto simp: L split: option.splits)
    show "distinct m" using d(1) [OF F] free [OF F] m by simp
    { fix c assume "c \<in> set m"
      then consider "c = sid" "s = pid" | "c \<in> set m0" "c \<noteq> sid" using m free [OF F] by (auto split: if_splits)
      then show "\<exists>n. join sid pid F c = Some (s, n)"
        using d(2) [OF F, of c] assms(3) by cases (auto simp: L) }
    { fix a b assume "q \<noteq> 0" "join sid pid F q = Some (a, b)"
      then show "s \<in> set b" using d(3) [OF F] q by (auto simp: L split: option.splits if_splits) }
  qed
qed

lemma family_upd_surface: 
  assumes "\<And>s. sf_parent (f s) = a (sf_parent s)" "\<And>s. sf_subsurface_list (f s) = b (sf_subsurface_list s)"
  shows "family (upd_surface r f w) = (family w)(r := map_option (\<lambda>(p, l). (a p, b l)) (family w r))"
  by (auto simp: family_def fun_eq_iff assms option.map_comp comp_def)

lemma family_zero: "family w 0 = None"
  by (simp add: family_def)

lemma set_parent_family:
  assumes "pool_ops_ok (hp E)" "surface_of w sid = Some s" "sf_parent s \<noteq> pid"
  shows "family (wlc_surface_set_parent E sid pid w) = leave sid (family w) \<or>
         surface_of w pid \<noteq> None \<and> family (wlc_surface_set_parent E sid pid w) = join sid pid (leave sid (family w))"
    and "\<lbrakk>surface_of w pid \<noteq> None; \<And>xs x. push_front (hp E) xs x \<noteq> None\<rbrakk> \<Longrightarrow>
         family (wlc_surface_set_parent E sid pid w) = join sid pid (leave sid (family w))"
proof -
  let ?w1 = "upd_surface (sf_parent s) (\<lambda>p. p\<lparr>sf_subsurface_list := pool_remove_first (hp E) sid (sf_subsurface_list p)\<rparr>) w"
  have F: "family w sid = Some (sf_parent s, sf_subsurface_list s)" using assms(2) by (simp add: family_def)
  have F1: "family ?w1 = (family w)(sf_parent s := map_option (\<lambda>(q, m). (q, remove1 sid m)) (family w (sf_parent s)))"
    by (rule family_upd_surface) (simp_all add: pool_remove_first_eq [OF assms(1)])
  have zero: "family (upd_surface sid (\<lambda>s. s\<lparr>sf_parent := 0\<rparr>) ?w1) = leave sid (family w)"
    by (subst family_upd_surface [where a = "\<lambda>_. 0" and b = "\<lambda>l. l"]) (simp_all add: leave_def F F1 Let_def)
  have joined: "family (upd_surface sid (\<lambda>s. s\<lparr>sf_parent := pid, sf_parent_view := pv\<rparr>)
      (snd (wlc_surface_attach_to_output E sid oid b (upd_surface pid (\<lambda>p. p\<lparr>sf_subsurface_list := l\<rparr>) ?w1)))) =
      join sid pid (leave sid (family w))"
    if "surface_of ?w1 pid = Some p" "push_front (hp E) (sf_subsurface_list p) sid = Some l" for p l pv oid b
  proof -
    have l: "l = sid # sf_subsurface_list p" using pool_ops_okD(2) [OF assms(1) that(2)] .
    have "family ?w1 pid = Some (sf_parent p, sf_subsurface_list p)" using that(1) by (simp add: family_def)
    then show ?thesis
      using assms(3) F1 F
      by (subst family_upd_surface [where a = "\<lambda>_. pid" and b = "\<lambda>l. l"])
         (auto simp: family_frame.keep_basic family_upd_surface [where a = "\<lambda>p. p" and b = "\<lambda>_. l"] join_def leave_def Let_def l fun_eq_iff
           split: option.splits if_splits)
  qed
  have alive: "surface_of ?w1 pid = None \<longleftrightarrow> surface_of w pid = None" by simp
  show "family (wlc_surface_set_parent E sid pid w) = leave sid (family w) \<or>
         surface_of w pid \<noteq> None \<and> family (wlc_surface_set_parent E sid pid w) = join sid pid (leave sid (family w))"
    using assms(2,3) zero joined alive
    by (cases "surface_of ?w1 pid"; cases "push_front (hp E) (sf_subsurface_list (the (surface_of ?w1 pid))) sid")
       (simp_all add: wlc_surface_set_parent_def Let_def del: upd_surface_resources)
  { assume a: "surface_of w pid \<noteq> None" "\<And>xs x. push_front (hp E) xs x \<noteq> None"
    obtain p where p: "surface_of ?w1 pid = Some p" using a(1) alive by (cases "surface_of ?w1 pid") simp_all
    obtain l where "push_front (hp E) (sf_subsurface_list p) sid = Some l" using a(2) by blast
    then show "family (wlc_surface_set_parent E sid pid w) = join sid pid (leave sid (family w))"
      using assms(2,3) joined [OF p] p by (simp add: wlc_surface_set_parent_def Let_def del: upd_surface_resources) }
qed

text \<open>C20 (refinement). wlc_surface_set_parent moves a surface in the tree of subsurfaces: it leaves the list of its old
  parent and, memory allowing, heads the list of the new one; on every list the children stay distinct and
  name that parent, and a surface is on the list of the parent it names.\<close>

theorem surface_set_parent_tree:
  assumes "pool_ops_ok (hp E)" and "family_ok (family w)" and "surface_of w sid = Some s" and "sf_parent s \<noteq> pid"
  shows "family_ok (family (wlc_surface_set_parent E sid pid w)) \<and>
    (family (wlc_surface_set_parent E sid pid w) = leave sid (family w) \<or>
     surface_of w pid \<noteq> None \<and> family (wlc_surface_set_parent E sid pid w) = join sid pid (leave sid (family w))) \<and>
    (surface_of w pid \<noteq> None \<and> (\<forall>xs x. push_front (hp E) xs x \<noteq> None) \<longrightarrow>
     family (wlc_surface_set_parent E sid pid w) = join sid pid (leave sid (family w)))"
proof -
  let ?L = "leave sid (family w)"
  have l: "family_ok ?L" by (rule leave_ok) (use assms(2) family_zero in simp_all)
  have F: "family w sid = Some (sf_parent s, sf_subsurface_list s)" using assms(3) by (simp add: family_def)
  have "?L 0 = None" using F family_zero assms(3) by (auto simp: leave_def Let_def)
  moreover have "\<exists>m. ?L sid = Some (0, m)" using F by (auto simp: leave_def Let_def)
  moreover have "?L pid \<noteq> None" if "surface_of w pid \<noteq> None"
    using F that by (auto simp: leave_def Let_def family_def)
  ultimately have j: "surface_of w pid \<noteq> None \<Longrightarrow> family_ok (join sid pid ?L)" using join_ok [OF l] by blast
  show ?thesis using set_parent_family [OF assms(1,3,4)] l j by metis
qed

section \<open>Witnesses\<close>

text \<open>An environment in which buffers come into being at their wayland number and are released as
  wlc_buffer_release and the pool do it.\<close>

definition drop_buffer :: "nat \<Rightarrow> world \<Rightarrow> world" where
  "drop_buffer r w =
     (if buffer_of w r = None then w
      else let w = wlc_buffer_release r w in w\<lparr>w_res := (w_res w)(r := None)\<rparr>)"

definition adopt_buffer :: "nat \<Rightarrow> nat \<Rightarrow> world \<Rightarrow> nat \<times> world" where
  "adopt_buffer sid bres w =
     (bres, if bres = 0 \<or> w_res w bres \<noteq> None then w
            else w\<lparr>w_res := (w_res w)(bres \<mapsto> \<lparr>re_data = R_buffer (wlc_buffer_ctor buffer_blank), re_wl = bres\<rparr>)\<rparr>)"

definition env_buffers :: env where
  "env_buffers = env_ref\<lparr>release_resource := drop_buffer, ext_resource_from := adopt_buffer\<rparr>"

lemma env_buffers_fields [simp]:
  "release_resource env_buffers = drop_buffer" "ext_resource_from env_buffers = adopt_buffer"
  "ext_new_resource env_buffers = (\<lambda>_. None)" "hp env_buffers = pool_ref" "sp env_buffers = pool_ref"
  "mth env_buffers = math_ref" "fpo env_buffers = fp_ref" "pxo env_buffers = pixman_ref"
  by (simp_all add: env_buffers_def)

lemma env_buffers_keeps:
  assumes "\<And>r w. buffer_of w r = None \<Longrightarrow> P (drop_buffer r w) = P w"
  shows "env_keeps env_buffers P"
  using assms env_ref_keeps [of P] by (simp add: env_keeps_def env_buffers_def Let_def)

lemma env_buffers_keeps_all: "env_keeps env_buffers P"
  by (rule env_buffers_keeps) (simp add: drop_buffer_def)

lemma drop_buffer_reads:
  assumes "buffer_of w b = Some x"
  shows "buffer_of (drop_buffer b w) r = (if r = b then None else buffer_of w r)"
    and "surface_of (drop_buffer b w) r =
      (if r = bf_surface x then map_option
         (\<lambda>s. s\<lparr>sf_commit := (sf_commit s)\<lparr>ss_buffer := (if ss_buffer (sf_commit s) = b then 0 else ss_buffer (sf_commit s))\<rparr>,
                sf_pending := (sf_pending s)\<lparr>ss_buffer := (if ss_buffer (sf_pending s) = b then 0 else ss_buffer (sf_pending s))\<rparr>\<rparr>)
         (surface_of w r) else surface_of w r)"
proof -
  define w1 where "w1 = wlc_buffer_release b w"
  have d: "drop_buffer b w = w1\<lparr>w_res := (w_res w1)(b := None)\<rparr>" using assms by (simp add: drop_buffer_def w1_def Let_def)
  have inv: "buffer_of (invalidate_wl b v) r = buffer_of v r" "surface_of (invalidate_wl b v) r = surface_of v r" for v r
    by (auto simp: invalidate_wl_def buffer_of_def surface_of_def split: option.split)
  have w1: "buffer_of w1 r = buffer_of w r"
    "surface_of w1 r = (if r = bf_surface x then map_option
         (\<lambda>s. s\<lparr>sf_commit := (sf_commit s)\<lparr>ss_buffer := (if ss_buffer (sf_commit s) = b then 0 else ss_buffer (sf_commit s))\<rparr>,
                sf_pending := (sf_pending s)\<lparr>ss_buffer := (if ss_buffer (sf_pending s) = b then 0 else ss_buffer (sf_pending s))\<rparr>\<rparr>)
         (surface_of w r) else surface_of w r)" for r
    using assms by (simp_all add: w1_def wlc_buffer_release_def Let_def inv)
  have nos: "surface_of w1 b = None" using assms w1(1) [of b]
    by (auto simp: buffer_of_def surface_of_def split: option.splits res_data.splits if_splits)
  have "buffer_of (drop_buffer b w) r = (if r = b then None else buffer_of w1 r)"
    "surface_of (drop_buffer b w) r = (if r = b then None else surface_of w1 r)"
    by (simp_all add: d buffer_of_def surface_of_def)
  then show "buffer_of (drop_buffer b w) r = (if r = b then None else buffer_of w r)"
    "surface_of (drop_buffer b w) r =
      (if r = bf_surface x then map_option
         (\<lambda>s. s\<lparr>sf_commit := (sf_commit s)\<lparr>ss_buffer := (if ss_buffer (sf_commit s) = b then 0 else ss_buffer (sf_commit s))\<rparr>,
                sf_pending := (sf_pending s)\<lparr>ss_buffer := (if ss_buffer (sf_pending s) = b then 0 else ss_buffer (sf_pending s))\<rparr>\<rparr>)
         (surface_of w r) else surface_of w r)"
    using w1 nos by (simp_all split: if_splits)
qed

lemma env_buffers_release: "release_lawful env_buffers"
  unfolding release_lawful_def env_buffers_fields
  by (auto simp: drop_buffer_reads buffer_refs_def slot_buf_def slot_state_def split: option.splits slot.splits if_splits)

lemma env_buffers_release_keeps: "release_keeps_states env_buffers"
  unfolding release_keeps_states_def env_buffers_fields
  by (auto simp: drop_buffer_reads region_states_def fun_eq_iff option.map_comp comp_def)

lemma env_buffers_create: "creation_lawful env_buffers"
  unfolding creation_lawful_def env_buffers_fields
  by (auto simp: adopt_buffer_def slot_buf_def surfaces_alive_def buffer_refs_def surface_of_def buffer_of_def
      wlc_buffer_ctor_def buffer_blank_def fun_eq_iff split: option.splits)

definition two_surfaces :: world where
  "two_surfaces = put_res 1 (R_surface surface_blank) 7 (put_res 2 (R_surface surface_blank) 8 world_blank)"

lemma two_surfaces_of [simp]:
  "surface_of two_surfaces r = (if r = 1 \<or> r = 2 then Some surface_blank else None)" "buffer_of two_surfaces r = None"
  "view_of two_surfaces r = None" "output_of two_surfaces r = None"
  by (simp_all add: two_surfaces_def)

lemma two_surfaces_counted: "refs_exact two_surfaces" "few_surfaces two_surfaces"
proof -
  have "surfaces_alive two_surfaces = {1, 2}" by (auto simp: surfaces_alive_def)
  then show "few_surfaces two_surfaces" by (simp add: few_surfaces_def)
  show "refs_exact two_surfaces"
    by (auto simp: refs_exact_def refs_def buffer_refs_def slot_buf_def slot_state_def surface_blank_def surface_state_blank_def
        split: slot.split)
qed


definition attached_world :: world where
  "attached_world = put_res 1 (R_surface (surface_blank\<lparr>sf_pending := surface_state_blank\<lparr>ss_buffer := 10, ss_attached := True\<rparr>\<rparr>)) 7
     (put_res 10 (R_buffer (buffer_blank\<lparr>bf_surface := 1, bf_references := 1\<rparr>)) 9 world_blank)"

theorem attach_null_is_ignored_witness:
  "commit_tree 5 env_buffers 1 (wl_cb_surface_attach env_buffers 5 1 0 3 4 attached_world) = commit_tree 5 env_buffers 1 attached_world"
  by (rule attach_null_is_ignored [where s = "surface_blank\<lparr>sf_pending := surface_state_blank\<lparr>ss_buffer := 10, ss_attached := True\<rparr>\<rparr>"])
     (simp_all add: attached_world_def)

definition sized_world :: world where
  "sized_world = put_res 1 (R_surface (surface_blank\<lparr>sf_size := \<lparr>sw = 64, sh = 48\<rparr>,
     sf_pending := surface_state_blank\<lparr>ss_scale := 0, ss_frame_cbs := [21, 22], ss_input := region_rect (-5) 0 100 20\<rparr>,
     sf_commit := surface_state_blank\<lparr>ss_frame_cbs := [20]\<rparr>\<rparr>)) 7 world_blank"


definition child_world :: world where
  "child_world = put_res 1 (R_surface (surface_blank\<lparr>sf_subsurface_list := [3, 2]\<rparr>)) 7
    (put_res 2 (R_surface (surface_blank\<lparr>sf_parent := 1\<rparr>)) 8
    (put_res 3 (R_surface (surface_blank\<lparr>sf_parent := 1\<rparr>)) 9
    (put_res 4 (R_surface surface_blank) 10 world_blank)))"

theorem surface_set_parent_tree_witness:
  "family (wlc_surface_set_parent env_buffers 2 4 child_world) 1 = Some (0, [3]) \<and>
   family (wlc_surface_set_parent env_buffers 2 4 child_world) 4 = Some (0, [2]) \<and>
   family (wlc_surface_set_parent env_buffers 2 4 child_world) 2 = Some (4, [])"
proof -
  have F: "family child_world = [1 \<mapsto> (0, [3, 2]), 2 \<mapsto> (1, []), 3 \<mapsto> (1, []), 4 \<mapsto> (0, [])]"
    by (auto simp: family_def child_world_def surface_blank_def fun_eq_iff)
  have ok: "family_ok (family child_world)" by (auto simp: family_ok_def F split: if_splits)
  have pool: "pool_ops_ok (hp env_buffers)" by simp
  have push: "push_front (hp env_buffers) xs x \<noteq> None" for xs x by (simp add: pool_ref_def)
  have s: "surface_of child_world 2 = Some (surface_blank\<lparr>sf_parent := 1\<rparr>)" "surface_of child_world 4 \<noteq> None"
    by (simp_all add: child_world_def)
  have "family (wlc_surface_set_parent env_buffers 2 4 child_world) = join 2 4 (leave 2 (family child_world))"
    using surface_set_parent_tree [OF pool ok s(1), of 4] s(2) push by auto
  then show ?thesis by (simp add: F join_def leave_def)
qed

end
