(* ===== verification/Output.thy ===== *)
theory Output
  imports Surface
begin

text \<open>
  The life of an output (src/compositor/output.c): its modes and resolution, its backend surface with
  the context and the renderer on it, sleeping, the frame clock, and painting: which views are visible,
  and the walk over them and their subsurfaces. Stacking is in Stacking.thy, the list of surfaces in
  Attach.thy.

  The functions of the renderer and of the context are calls through function pointers; each call is an
  event. The timer of an output is armed by \<open>Timer_update oid n\<close> with \<open>n > 0\<close> and fires as
  \<open>cb_idle_timer\<close>.
\<close>

section \<open>Information and modes\<close>

definition UINT_MAX :: u32 where "UINT_MAX = 0xFFFFFFFF"

text \<open>The address \<open>(EGLNativeDisplayType)~0\<close>.\<close>

definition INVALID_DISPLAY :: nat where "INVALID_DISPLAY = 2 ^ 64 - 1"

fun name_for_connector :: "wlc_connector_type \<Rightarrow> string" where
  "name_for_connector WLC_CONNECTOR_WLC = ''WLC''"
| "name_for_connector WLC_CONNECTOR_UNKNOWN = ''Unknown''"
| "name_for_connector WLC_CONNECTOR_VGA = ''VGA''"
| "name_for_connector WLC_CONNECTOR_DVII = ''DVI-I''"
| "name_for_connector WLC_CONNECTOR_DVID = ''DVI-D''"
| "name_for_connector WLC_CONNECTOR_DVIA = ''DVI-A''"
| "name_for_connector WLC_CONNECTOR_COMPOSITE = ''Composite''"
| "name_for_connector WLC_CONNECTOR_SVIDEO = ''SVIDEO''"
| "name_for_connector WLC_CONNECTOR_LVDS = ''LVDS''"
| "name_for_connector WLC_CONNECTOR_COMPONENT = ''Component''"
| "name_for_connector WLC_CONNECTOR_DIN = ''DIN''"
| "name_for_connector WLC_CONNECTOR_DP = ''DP''"
| "name_for_connector WLC_CONNECTOR_HDMIA = ''HDMI-A''"
| "name_for_connector WLC_CONNECTOR_HDMIB = ''HDMI-B''"
| "name_for_connector WLC_CONNECTOR_TV = ''TV''"
| "name_for_connector WLC_CONNECTOR_eDP = ''eDP''"
| "name_for_connector WLC_CONNECTOR_VIRTUAL = ''Virtual''"
| "name_for_connector WLC_CONNECTOR_DSI = ''DSI''"

text \<open>\<open>%u\<close> of a format string.\<close>

fun decimal :: "nat \<Rightarrow> string" where
  "decimal n = (if n < 10 then [char_of (48 + n)] else decimal (n div 10) @ [char_of (48 + n mod 10)])"

declare decimal.simps [simp del]

definition information_zero :: wlc_output_information where
  "information_zero =
     \<lparr>in_modes = [], in_name = None, in_make = None, in_model = None, in_x = 0, in_y = 0,
      in_physical_width = 0, in_physical_height = 0, in_subpixel = 0, in_connector_id = 0, in_crtc_id = 0,
      in_transform = 0, in_connector = WLC_CONNECTOR_WLC\<rparr>"

definition wlc_output_information_add_mode ::
  "wlc_output_mode pool_ops \<Rightarrow> wlc_output_information \<Rightarrow> wlc_output_mode \<Rightarrow> bool \<times> wlc_output_information" where
  "wlc_output_information_add_mode M info mode =
     (case push_back M (in_modes info) mode of
        None \<Rightarrow> (False, info)
      | Some l \<Rightarrow> (True, info\<lparr>in_modes := l\<rparr>))"

text \<open>Released pools and strings are empty.\<close>

definition wlc_output_information_release :: "wlc_output_information \<Rightarrow> wlc_output_information" where
  "wlc_output_information_release info = info\<lparr>in_modes := [], in_name := None, in_make := None, in_model := None\<rparr>"

definition mode_size :: "env \<Rightarrow> wlc_output \<Rightarrow> wlc_output_mode \<Rightarrow> wlc_size" where
  "mode_size E x m =
     (if any_bit (md_flags m) (wl_mode_current E) then o_resolution x
      else \<lparr>sw = u32_of_i32 (md_width m), sh = u32_of_i32 (md_height m)\<rparr>)"

definition output_push_to_resource :: "env \<Rightarrow> nat \<Rightarrow> nat \<Rightarrow> world \<Rightarrow> world" where
  "output_push_to_resource E oid r w =
     (case output_of w oid of
        None \<Rightarrow> fail Null_pointer w
      | Some x \<Rightarrow>
          let resource = wl_of w r K_output in
          if resource = 0 then w
          else
            let version = ext_version E resource;
                w = emit (Send_output_geometry resource oid) w;
                w = (if version \<ge> wl_since_scale E
                     then emit (Send_output_scale resource (o_scale x)) (if o_scale x > 0 then w else fail Assertion w)
                     else w);
                w = fold (\<lambda>m. emit (Send_output_mode resource (md_flags m) (sw (mode_size E x m)) (sh (mode_size E x m)) (md_refresh m)))
                      (in_modes (o_information x)) w
            in if version \<ge> wl_since_done E then emit (Send_output_done resource) w else w)"

definition output_push_to_resources :: "env \<Rightarrow> nat \<Rightarrow> world \<Rightarrow> world" where
  "output_push_to_resources E oid w =
     fold (output_push_to_resource E oid) (case output_of w oid of None \<Rightarrow> [] | Some x \<Rightarrow> o_resources x) w"

definition wl_output_bind :: "env \<Rightarrow> nat \<Rightarrow> nat \<Rightarrow> u32 \<Rightarrow> world \<Rightarrow> world" where
  "wl_output_bind E client oid wlid w =
     (let (r, w) = create_resource E client wlid R_output w in
      if r = 0 then w
      else
        let w = upd_output oid (\<lambda>x. x\<lparr>o_resources := o_resources x @ [r]\<rparr>) w;
            wl = wl_of w r K_output;
            w = w\<lparr>w_udata := (w_udata w)(wl := UD_number oid)\<rparr>
        in output_push_to_resource E oid r w)"

section \<open>Resolution\<close>

definition wlc_output_set_resolution_ptr :: "env \<Rightarrow> nat \<Rightarrow> wlc_size \<Rightarrow> u32 \<Rightarrow> world \<Rightarrow> bool \<times> world" where
  "wlc_output_set_resolution_ptr E oid res scale w =
     (case output_of w oid of
        None \<Rightarrow> (False, w)
      | Some x \<Rightarrow>
          if sw res = 0 \<or> sh res = 0 \<or> scale = 0 then (False, fail Assertion w)
          else if o_scale x = scale \<and> wlc_size_equals res (o_resolution x) then (False, w)
          else
            let virtual = \<lparr>sw = sw res div scale, sh = sh res div scale\<rparr> in
            (case m_mul_ofsz (mth E) (unat (sw virtual)) (unat (sh virtual)) of
               None \<Rightarrow> (False, w)
             | Some gsz \<Rightarrow>
                 if \<not> ext_calloc E gsz then (False, fail Abort w)
                 else
                   let old = o_resolution x;
                       w = upd_output oid (\<lambda>x. x\<lparr>o_blit := Some (replicate gsz False), o_resolution := res,
                                                o_virtual := virtual, o_scale := scale\<rparr>) w;
                       w = output_push_to_resources E oid w;
                       w = call3 (if_output_resolution (iface E)) oid old
                             (case output_of w oid of None \<Rightarrow> res | Some x \<Rightarrow> o_resolution x) w
                   in (True, wlc_output_schedule_repaint oid w)))"

text \<open>The mode to use: the index, and the index of the mode with the largest area. The products are of type
  \<open>int32_t\<close>.\<close>

fun choose_mode :: "env \<Rightarrow> nat \<Rightarrow> wlc_output_mode list \<Rightarrow> u32 \<Rightarrow> u32 \<Rightarrow> u32 \<Rightarrow> u32 \<times> u32" where
  "choose_mode E i [] active largest fallback = (active, fallback)"
| "choose_mode E i (m # ms) active largest fallback =
     (let active = (if any_bit (md_flags m) (wl_mode_current E) \<or>
                       (active = UINT_MAX \<and> any_bit (md_flags m) (wl_mode_preferred E))
                    then word_of_nat i else active);
          current = u32_of_i32 (md_width m * md_height m)
      in if current > largest then choose_mode E (Suc i) ms active current (word_of_nat i)
         else choose_mode E (Suc i) ms active largest fallback)"

definition chosen_mode :: "env \<Rightarrow> wlc_output_mode list \<Rightarrow> u32" where
  "chosen_mode E ms =
     (let (active, fallback) = choose_mode E 0 ms UINT_MAX 0 UINT_MAX
      in if active = UINT_MAX then fallback else active)"

definition wlc_output_set_information :: "env \<Rightarrow> nat \<Rightarrow> wlc_output_information option \<Rightarrow> world \<Rightarrow> world" where
  "wlc_output_set_information E oid info w =
     (case output_of w oid of
        None \<Rightarrow> fail Null_pointer w
      | Some x \<Rightarrow>
          let w = upd_output oid (\<lambda>x. x\<lparr>o_information := wlc_output_information_release (o_information x)\<rparr>) w;
              w = (case info of
                     None \<Rightarrow> w
                   | Some i \<Rightarrow> upd_output oid (\<lambda>x. x\<lparr>o_information := i\<rparr>)
                                 (if in_name i = None then w else fail Assertion w));
              w = upd_output oid (\<lambda>x. x\<lparr>o_active_mode := UINT_MAX\<rparr>) w
          in
          case info of
            None \<Rightarrow> w
          | Some i \<Rightarrow>
              let active = chosen_mode E (in_modes i);
                  w = upd_output oid (\<lambda>x. x\<lparr>o_active_mode := active\<rparr>) w;
                  w = (if active = UINT_MAX then fail Assertion w else w);
                  n = ext_set_cstr_all E (name_for_connector (in_connector i) @ ''-'' @ decimal (unat (in_connector_id i)));
                  w = upd_output oid (\<lambda>x. x\<lparr>o_information := (o_information x)
                        \<lparr>in_name := (case n of None \<Rightarrow> in_name (o_information x) | Some s \<Rightarrow> s)\<rparr>\<rparr>) w
              in
              if unat active \<ge> length (in_modes i) then fail Abort w
              else
                let m = in_modes i ! unat active;
                    sz = \<lparr>sw = u32_of_i32 (md_width m), sh = u32_of_i32 (md_height m)\<rparr>;
                    w = upd_output oid (\<lambda>x. x\<lparr>o_mode := sz, o_information := (o_information x)
                          \<lparr>in_modes := (in_modes (o_information x))
                             [unat active := m\<lparr>md_flags := md_flags m OR wl_mode_current E\<rparr>]\<rparr>\<rparr>) w
                in snd (wlc_output_set_resolution_ptr E oid sz (o_scale x) w))"

section \<open>The backend surface\<close>

definition bsurface_zero :: wlc_backend_surface where
  "bsurface_zero = \<lparr>bs_display = 0, bs_window = 0, bs_api_sleep = False, bs_api_set_gamma = False,
                    bs_api_get_gamma_size = False\<rparr>"

definition destroy_surfaces :: "nat \<Rightarrow> world \<Rightarrow> world" where
  "destroy_surfaces oid w =
     fold (\<lambda>r w. if surface_of w r = None then w else emit (Rd_surface_destroy oid r) w)
       (case output_of w oid of None \<Rightarrow> [] | Some x \<Rightarrow> o_surfaces x) w"

text \<open>Attaching may add to the list that is walked, so it is read anew for every index.\<close>

fun reattach_surfaces :: "nat \<Rightarrow> env \<Rightarrow> nat \<Rightarrow> nat \<Rightarrow> world \<Rightarrow> world option" where
  "reattach_surfaces 0 E oid i w = None"
| "reattach_surfaces (Suc n) E oid i w =
     (let l = (case output_of w oid of None \<Rightarrow> [] | Some x \<Rightarrow> o_surfaces x) in
      if i \<ge> length l then Some w
      else if surface_of w (l ! i) = None then reattach_surfaces n E oid (Suc i) w
      else
        let w = snd (wlc_surface_attach_to_output E (l ! i) oid (wlc_surface_get_buffer w (surface_of w (l ! i))) w)
        in reattach_surfaces n E oid (Suc i) w)"

definition release_backend :: "env \<Rightarrow> nat \<Rightarrow> world \<Rightarrow> world" where
  "release_backend E oid w =
     (let w = destroy_surfaces oid w;
          w = (if \<exists>x. output_of w oid = Some x \<and> o_created x
               then call1 (if_output_context_destroyed (iface E)) oid w else w);
          w = emit (Bs_release oid) (emit (Ctx_release oid) (emit (Rd_release oid) w))
      in upd_output oid (\<lambda>x. x\<lparr>o_bsurface := bsurface_zero\<rparr>) w)"

definition remove_backend :: "env \<Rightarrow> nat \<Rightarrow> world \<Rightarrow> world" where
  "remove_backend E oid w = sig_output E (WLC_OUTPUT_EVENT_SURFACE oid) (cancel_repaint oid (release_backend E oid w))"

definition wlc_output_set_backend_surface_none :: "env \<Rightarrow> nat \<Rightarrow> world \<Rightarrow> world" where
  "wlc_output_set_backend_surface_none E oid w =
     (case output_of w oid of
        None \<Rightarrow> fail Null_pointer w
      | Some x \<Rightarrow>
          if bs_display (o_bsurface x) = 0 then w
          else if o_pending x
          then upd_output oid (\<lambda>x. x\<lparr>o_task_bsurface := (o_task_bsurface x)\<lparr>bs_display := INVALID_DISPLAY\<rparr>\<rparr>) w
          else remove_backend E oid w)"

text \<open>\<open>None\<close> is the NULL surface. The failure paths of the code call the function again with NULL.\<close>

definition wlc_output_set_backend_surface ::
  "env \<Rightarrow> nat \<Rightarrow> wlc_backend_surface option \<Rightarrow> world \<Rightarrow> bool \<times> world" where
  "wlc_output_set_backend_surface E oid bs w =
     (case bs of
        None \<Rightarrow> (True, wlc_output_set_backend_surface_none E oid w)
      | Some b \<Rightarrow>
          (case output_of w oid of
             None \<Rightarrow> (False, fail Null_pointer w)
           | Some x \<Rightarrow>
               if bs_display (o_bsurface x) = bs_display b then (True, w)
               else if o_pending x then (True, upd_output oid (\<lambda>x. x\<lparr>o_task_bsurface := b\<rparr>) w)
               else
                 let w = upd_output oid (\<lambda>x. x\<lparr>o_bsurface := b\<rparr>) (release_backend E oid w) in
                 if \<not> ext_context_create E oid w then (False, wlc_output_set_backend_surface_none E oid w)
                 else
                   let w = emit (Ctx_bind_to_wl_display oid) w in
                   if \<not> ext_render_create E oid w then (False, wlc_output_set_backend_surface_none E oid w)
                   else
                     let w = returned (reattach_surfaces (fuel E) E oid 0 w) w;
                         w = (if \<exists>x. output_of w oid = Some x \<and> o_created x
                              then call1 (if_output_context_created (iface E)) oid w else w)
                     in (True, sig_output E (WLC_OUTPUT_EVENT_SURFACE oid) w)))"

section \<open>Sleep, gamma, mask, focus\<close>

definition wlc_output_set_sleep_ptr :: "nat \<Rightarrow> bool \<Rightarrow> world \<Rightarrow> world" where
  "wlc_output_set_sleep_ptr oid sleep w =
     (case output_of w oid of
        None \<Rightarrow> w
      | Some x \<Rightarrow>
          if o_sleeping x = sleep then w
          else if sleep \<and> o_pending x then upd_output oid (\<lambda>x. x\<lparr>o_task_sleep := True\<rparr>) w
          else
            let w = (if bs_api_sleep (o_bsurface x) then emit (Bs_sleep oid sleep) w else w);
                w = upd_output oid (\<lambda>x. x\<lparr>o_sleeping := sleep\<rparr>) w
            in if \<not> sleep then wlc_output_schedule_repaint oid w
               else
                 let w = (if bs_api_sleep (o_bsurface x) then cancel_repaint oid w else w)
                 in upd_output oid (\<lambda>x. x\<lparr>o_scheduled := False, o_activity := False\<rparr>) w)"

definition wlc_output_set_gamma_ptr :: "nat \<Rightarrow> u16 \<Rightarrow> world \<Rightarrow> world" where
  "wlc_output_set_gamma_ptr oid n w =
     (case output_of w oid of
        None \<Rightarrow> w
      | Some x \<Rightarrow> if bs_api_set_gamma (o_bsurface x) then emit (Bs_set_gamma oid n) w else w)"

definition wlc_output_set_mask_ptr :: "nat \<Rightarrow> u32 \<Rightarrow> world \<Rightarrow> world" where
  "wlc_output_set_mask_ptr oid m w =
     (if output_of w oid = None then w
      else wlc_output_schedule_repaint oid (upd_output oid (\<lambda>x. x\<lparr>o_active_mask := m\<rparr>) w))"

definition wlc_output_focus_ptr :: "env \<Rightarrow> nat \<Rightarrow> world \<Rightarrow> world" where
  "wlc_output_focus_ptr E oid w = (if output_of w oid = None then w else sig_focus E (WLC_FOCUS_EVENT_OUTPUT oid) w)"

section \<open>Deferred tasks\<close>

definition wlc_output_terminate :: "env \<Rightarrow> nat \<Rightarrow> world \<Rightarrow> world" where
  "wlc_output_terminate E oid w =
     (case output_of w oid of
        None \<Rightarrow> fail Null_pointer w
      | Some x \<Rightarrow>
          if o_pending x then wlc_output_schedule_repaint oid (upd_output oid (\<lambda>x. x\<lparr>o_task_terminate := True\<rparr>) w)
          else sig_output E (WLC_OUTPUT_EVENT_REMOVE oid) w)"

definition o_field :: "(wlc_output \<Rightarrow> 'a) \<Rightarrow> 'a \<Rightarrow> nat \<Rightarrow> world \<Rightarrow> 'a" where
  "o_field f d oid w = (case output_of w oid of None \<Rightarrow> d | Some x \<Rightarrow> f x)"

definition task_backend :: "env \<Rightarrow> nat \<Rightarrow> world \<Rightarrow> world" where
  "task_backend E oid w =
     (let t = o_field o_task_bsurface bsurface_zero oid w in
      if bs_display t \<noteq> 0
      then upd_output oid (\<lambda>x. x\<lparr>o_task_bsurface := bsurface_zero\<rparr>)
             (snd (wlc_output_set_backend_surface E oid (if bs_display t = INVALID_DISPLAY then None else Some t) w))
      else w)"

definition task_sleep :: "nat \<Rightarrow> world \<Rightarrow> world" where
  "task_sleep oid w =
     (if o_field o_task_sleep False oid w
      then upd_output oid (\<lambda>x. x\<lparr>o_task_sleep := False\<rparr>) (wlc_output_set_sleep_ptr oid True w) else w)"

definition task_terminate :: "env \<Rightarrow> nat \<Rightarrow> world \<Rightarrow> world" where
  "task_terminate E oid w =
     (if o_field o_task_terminate False oid w
      then upd_output oid (\<lambda>x. x\<lparr>o_task_terminate := False\<rparr>) (wlc_output_terminate E oid w) else w)"

definition finish_frame_tasks :: "env \<Rightarrow> nat \<Rightarrow> world \<Rightarrow> world" where
  "finish_frame_tasks E oid w = task_terminate E oid (task_sleep oid (task_backend E oid w))"

section \<open>Visible views\<close>

definition view_visible :: "wlc_view option \<Rightarrow> wlc_surface option \<Rightarrow> u32 \<Rightarrow> bool" where
  "view_visible vo so m =
     (case (vo, so) of (Some v, Some s) \<Rightarrow> ss_attached (sf_commit s) \<and> any_bit (v_mask v) m | _ \<Rightarrow> False)"

text \<open>The rows \<open>ys\<close> of a rectangle in the buffer \<open>g\<close> of \<open>gsz\<close> pixels, each of \<open>memb\<close> pixels from
  column \<open>ax\<close>; the offsets are 32 bit. The result: whether the assertion holds in every row that is
  looked at, whether a pixel was not covered, and the buffer.\<close>

fun blit_rows :: "wlc_size \<Rightarrow> int \<Rightarrow> nat \<Rightarrow> bool \<Rightarrow> int list \<Rightarrow> bool \<Rightarrow> bool list \<Rightarrow> bool \<times> bool \<times> bool list" where
  "blit_rows r ax memb should_blit [] visible g = (True, visible, g)"
| "blit_rows r ax memb should_blit (y # ys) visible g =
     (let off = unat (u32_of_i32 ax + u32_of_i32 y * sw r);
          seen = (\<not> visible \<and> False \<in> set (take memb (drop off g)))
      in if off + memb > unat (sw r * sh r) then (False, visible, g)
         else if seen \<and> \<not> should_blit then (True, True, g)
         else blit_rows r ax memb should_blit ys (visible \<or> seen)
                (if should_blit then take off g @ replicate memb True @ drop (off + memb) g else g))"

definition blit :: "bool list \<Rightarrow> wlc_size \<Rightarrow> wlc_point \<Rightarrow> wlc_point \<Rightarrow> bool \<Rightarrow> bool \<times> bool \<times> bool list" where
  "blit g r a b should_blit =
     (let ok = (i32_sub (px b) (px a) \<ge> 0 \<and> px a \<ge> 0 \<and> px b \<le> i32_of_u32 (sw r) \<and> py a \<ge> 0 \<and> py b \<le> i32_of_u32 (sh r));
          (ok', visible, g) = blit_rows r (px a) (nat (px b - px a)) should_blit [py a..py b - 1] False g
      in (ok \<and> ok', visible, g))"

text \<open>The part of the output a view can cover.\<close>

definition view_corners :: "env \<Rightarrow> wlc_size \<Rightarrow> wlc_geometry \<Rightarrow> wlc_point \<times> wlc_point" where
  "view_corners E v o' =
     (let clamp = m_clamp32 (mth E); vw = i32_of_u32 (sw v); vh = i32_of_u32 (sh v) in
      (\<lparr>px = clamp (px (gorigin o')) 0 vw, py = clamp (py (gorigin o')) 0 vh\<rparr>,
       \<lparr>px = clamp (i32_of_u32 (u32_of_i32 (px (gorigin o')) + sw (gsize o'))) 1 vw,
        py = clamp (i32_of_u32 (u32_of_i32 (py (gorigin o')) + sh (gsize o'))) 1 vh\<rparr>))"

definition hide_x11 :: "nat \<Rightarrow> bool \<Rightarrow> world \<Rightarrow> world" where
  "hide_x11 vid vis w =
     (case view_of w vid of
        None \<Rightarrow> w
      | Some v \<Rightarrow>
          if is_x11_view v \<and> wlc_x11_is_window_hidden v = vis then
            let g = vs_geometry (v_pending v);
                g = (if \<not> vis then g\<lparr>gorigin := (gorigin g)\<lparr>px := i32_of_u32 (- sw (gsize g))\<rparr>\<rparr> else g)
            in wlc_x11_set_window_hidden vid (\<not> vis) (wlc_x11_window_configure vid g w)
          else w)"

definition visible_step :: "env \<Rightarrow> nat \<Rightarrow> nat \<Rightarrow> world \<Rightarrow> world" where
  "visible_step E oid h w =
     (case view_of w h of
        None \<Rightarrow> w
      | Some v \<Rightarrow>
          let sid = v_surface v in
          if surface_of w sid = None then w
          else
            let w = wlc_view_commit_state E h w;
                w = (if view_of w h = None \<or> surface_of w sid = None then fail Wild_pointer w else w);
                vis = view_visible (view_of w h) (surface_of w sid) (o_field o_active_mask 0 oid w);
                w = hide_x11 h vis w
            in
            if \<not> vis then w
            else
              case (view_of w h, output_of w oid) of
                (Some v, Some x) \<Rightarrow>
                  let (ok, should_blit, o') = wlc_view_get_opaque E w v;
                      (a, b) = view_corners E (o_virtual x) o';
                      (ok', visible, g) = blit (case o_blit x of None \<Rightarrow> [] | Some g \<Rightarrow> g) (o_virtual x) a b should_blit;
                      w = (if ok \<and> ok' then w else fail Assertion w);
                      w = upd_output oid (\<lambda>x. x\<lparr>o_blit := map_option (\<lambda>_. g) (o_blit x)\<rparr>) w
                  in if visible then upd_output oid (\<lambda>x. x\<lparr>o_visible := pool_push_front (hp E) h (o_visible x)\<rparr>) w else w
              | _ \<Rightarrow> fail Wild_pointer w)"

text \<open>From the top of the stack down; the stack is read anew for every index.\<close>

fun visible_loop :: "nat \<Rightarrow> env \<Rightarrow> nat \<Rightarrow> world \<Rightarrow> world" where
  "visible_loop 0 E oid w = w"
| "visible_loop (Suc i) E oid w =
     (let l = o_field o_views [] oid w in
      if i < length l then visible_loop i E oid (visible_step E oid (l ! i) w) else w)"

definition get_visible_views :: "env \<Rightarrow> nat \<Rightarrow> world \<Rightarrow> bool \<times> world" where
  "get_visible_views E oid w =
     (case output_of w oid of
        None \<Rightarrow> (False, fail Null_pointer w)
      | Some x \<Rightarrow>
          let w = (if o_blit x = None then fail Assertion w else w);
              gsz = unat (sw (o_virtual x) * sh (o_virtual x));
              w = upd_output oid (\<lambda>x. x\<lparr>o_blit := map_option (\<lambda>g. replicate gsz False @ drop gsz g) (o_blit x)\<rparr>) w;
              w = visible_loop (length (o_views x)) E oid w
          in (False \<in> set (take gsz (case o_field o_blit None oid w of None \<Rightarrow> [] | Some g \<Rightarrow> g)), w))"

section \<open>Painting\<close>

definition render_subsurface :: "env \<Rightarrow> nat \<Rightarrow> nat \<Rightarrow> wlc_point \<Rightarrow> real \<times> real \<Rightarrow> world \<Rightarrow> world" where
  "render_subsurface E oid sid offset scale w =
     (case surface_of w sid of
        None \<Rightarrow> fail Null_pointer w
      | Some s \<Rightarrow>
          let pos = ss_subsurface_position (sf_commit s); off = ss_offset (sf_commit s);
              x = real_to_i32 (dbl E (of_int (px offset) + dbl E (fst scale * of_int (i32_add (px pos) (px off)))));
              y = real_to_i32 (dbl E (of_int (py offset) + dbl E (snd scale * of_int (i32_add (py pos) (py off)))));
              wd = real_to_u32 (dbl E (u32_real (sw (sf_size s)) * fst scale));
              ht = real_to_u32 (dbl E (u32_real (sh (sf_size s)) * snd scale))
          in emit (Rd_surface_paint oid sid \<lparr>gorigin = \<lparr>px = x, py = y\<rparr>, gsize = \<lparr>sw = wd, sh = ht\<rparr>\<rparr>) w)"

text \<open>\<open>offset + (parent ? 0 : position / scale)\<close>, an \<open>int32_t\<close> and a \<open>double\<close>.\<close>

definition child_offset :: "env \<Rightarrow> wlc_surface \<Rightarrow> wlc_point \<Rightarrow> real \<times> real \<Rightarrow> wlc_point" where
  "child_offset E s offset scale =
     (let pos = ss_subsurface_position (sf_commit s);
          d = (\<lambda>p sc. if sf_parent s \<noteq> 0 then 0 else dbl E (of_int p / sc))
      in \<lparr>px = real_to_i32 (dbl E (of_int (px offset) + d (px pos) (fst scale))),
          py = real_to_i32 (dbl E (of_int (py offset) + d (py pos) (snd scale)))\<rparr>)"

definition take_callbacks :: "env \<Rightarrow> nat \<Rightarrow> nat \<Rightarrow> world \<Rightarrow> world" where
  "take_callbacks E oid sid w =
     (let cbs = (case surface_of w sid of None \<Rightarrow> [] | Some s \<Rightarrow> ss_frame_cbs (sf_commit s));
          w = upd_output oid (\<lambda>x. x\<lparr>o_callbacks := fold (pool_push_back (hp E)) cbs (o_callbacks x)\<rparr>) w
      in upd_slot sid Commit (\<lambda>st. st\<lparr>ss_frame_cbs := []\<rparr>) w)"

text \<open>The walk down the subsurfaces; \<open>None\<close> is a walk that did not return within the fuel.\<close>

fun subsurfaces_render :: "nat \<Rightarrow> env \<Rightarrow> nat \<Rightarrow> nat \<Rightarrow> real \<times> real \<Rightarrow> wlc_point \<Rightarrow> world \<Rightarrow> world option"
  and render_children :: "nat \<Rightarrow> env \<Rightarrow> nat \<Rightarrow> nat list \<Rightarrow> real \<times> real \<Rightarrow> wlc_point \<Rightarrow> world \<Rightarrow> world option" where
  "subsurfaces_render 0 E oid sid scale offset w = None"
| "subsurfaces_render (Suc n) E oid sid scale offset w =
     (case surface_of w sid of
        None \<Rightarrow> Some w
      | Some s \<Rightarrow>
          let w = (if sf_parent s \<noteq> 0 then render_subsurface E oid sid offset scale w else w) in
          (case render_children n E oid (sf_subsurface_list s) (sf_transform_w s, sf_transform_h s)
                  (child_offset E s offset scale) w of
             None \<Rightarrow> None
           | Some w \<Rightarrow> Some (take_callbacks E oid sid w)))"
| "render_children n E oid [] scale offset w = Some w"
| "render_children 0 E oid (c # cs) scale offset w = None"
| "render_children (Suc n) E oid (c # cs) scale offset w =
     (case subsurfaces_render n E oid c scale offset w of
        None \<Rightarrow> None
      | Some w \<Rightarrow> render_children n E oid cs scale offset w)"

text \<open>\<open>wlc_view_get_bounds\<close> without an area for the visible part: its second assertion is not reached.\<close>

definition view_bounds :: "env \<Rightarrow> world \<Rightarrow> wlc_view \<Rightarrow> bool \<times> wlc_geometry" where
  "view_bounds E w v =
     (case surface_of w (v_surface v) of
        None \<Rightarrow> (True, fst (snd (wlc_view_get_bounds E w v)))
      | Some s \<Rightarrow>
          (v_xdg_toplevel v \<noteq> 0 \<and> \<not> wlc_size_equals (gsize (v_surface_commit v)) wlc_size_zero \<longrightarrow>
             sw (sf_size s) > 0 \<and> sh (sf_size s) > 0,
           fst (snd (wlc_view_get_bounds E w v))))"

definition render_view :: "env \<Rightarrow> nat \<Rightarrow> nat \<Rightarrow> world \<Rightarrow> world" where
  "render_view E oid vid w =
     (case view_of w vid of
        None \<Rightarrow> fail Wild_pointer w
      | Some v \<Rightarrow>
          let sid = v_surface v in
          if surface_of w sid = None then w
          else
            let w = call1 (if_view_render_pre (iface E)) vid w;
                w = emit (Rd_view_paint oid vid) (emit (Rd_flush_fakefb oid) w);
                (ok, b) = (case view_of w vid of None \<Rightarrow> (True, wlc_geometry_zero) | Some v \<Rightarrow> view_bounds E w v);
                w = (if ok then w else fail Assertion w);
                w = returned (subsurfaces_render (fuel E) E oid sid (1, 1) (gorigin b) w) w;
                w = call1 (if_view_render_post (iface E)) vid w
            in emit (Rd_flush_fakefb oid) w)"

section \<open>The frame clock\<close>

definition should_render :: "world \<Rightarrow> wlc_output \<Rightarrow> bool" where
  "should_render w x \<longleftrightarrow> w_active w \<and> \<not> o_pending x \<and> bs_display (o_bsurface x) \<noteq> 0 \<and> o_active_mode x \<noteq> UINT_MAX"

text \<open>An output that was destroyed while it was painted is a dangling pointer by now.\<close>

definition swap_buffers :: "nat \<Rightarrow> world \<Rightarrow> world" where
  "swap_buffers oid w =
     (if output_of w oid = None then fail Wild_pointer w
      else emit (Ctx_swap oid) (upd_output oid (\<lambda>x. x\<lparr>o_pending := True\<rparr>) w))"

definition send_callbacks :: "env \<Rightarrow> nat \<Rightarrow> world \<Rightarrow> world" where
  "send_callbacks E oid w =
     (let w = fold (\<lambda>r w. let wl = wl_of w r K_callback;
                              w = (if wl \<noteq> 0 then emit (Send_callback_done wl (o_field o_frame_time 0 oid w)) w else w)
                          in release_resource E r w)
                (o_field o_callbacks [] oid w) w
      in upd_output oid (\<lambda>x. x\<lparr>o_callbacks := []\<rparr>) w)"

definition paint_views :: "env \<Rightarrow> nat \<Rightarrow> world \<Rightarrow> world" where
  "paint_views E oid w =
     upd_output oid (\<lambda>x. x\<lparr>o_visible := []\<rparr>) (fold (render_view E oid) (o_field o_visible [] oid w) w)"

definition paint_frame :: "env \<Rightarrow> nat \<Rightarrow> world \<Rightarrow> world" where
  "paint_frame E oid w =
     (let (bg, w) = get_visible_views E oid w;
          w = upd_output oid (\<lambda>x. x\<lparr>o_background_visible := bg\<rparr>) w;
          w = emit (Rd_clear oid) (w\<lparr>w_rendering_output := oid\<rparr>);
          w = (if bg then emit (Rd_flush_fakefb oid) (call1 (if_output_render_pre (iface E)) oid w) else w);
          w = paint_views E oid w;
          w = emit (Rd_flush_fakefb oid) (call1 (if_output_render_post (iface E)) oid w);
          w = sig_render E oid w
      in w\<lparr>w_rendering_output := 0\<rparr>)"

definition repaint :: "env \<Rightarrow> nat \<Rightarrow> world \<Rightarrow> bool \<times> world" where
  "repaint E oid w =
     (case output_of w oid of
        None \<Rightarrow> (False, w)
      | Some x \<Rightarrow>
          if \<not> should_render w x then
            (False, finish_frame_tasks E oid (upd_output oid (\<lambda>x. x\<lparr>o_activity := False, o_scheduled := False\<rparr>) w))
          else
            let w = emit (Rd_resolution oid (o_mode x) (o_virtual x) (o_scale x)) w in
            if o_sleeping x then (True, swap_buffers oid (emit (Rd_clear oid) w))
            else (True, send_callbacks E oid (swap_buffers oid (paint_frame E oid w))))"

text \<open>The handler of the timer gets the handle of the output; the output may be gone by then.\<close>

definition cb_idle_timer :: "env \<Rightarrow> nat \<Rightarrow> world \<Rightarrow> world" where
  "cb_idle_timer E oid w = snd (repaint E oid (emit (Timer_fired oid) w))"

definition next_ims :: "env \<Rightarrow> real \<Rightarrow> real" where
  "next_ims E ims = m_clampf (mth E) (flt E (dbl E (ims * dbl E (9/10)))) 1 41"

definition wlc_output_finish_frame :: "env \<Rightarrow> nat \<Rightarrow> int \<Rightarrow> int \<Rightarrow> world \<Rightarrow> world" where
  "wlc_output_finish_frame E oid sec nsec w =
     (case output_of w oid of
        None \<Rightarrow> w
      | Some x \<Rightarrow>
          let w = upd_output oid (\<lambda>x. x\<lparr>o_pending := False, o_frame_time := u32_of_i32 (sec * 1000 + nsec div 1000000)\<rparr>) w;
              w = (if o_activity x \<and> \<not> o_task_terminate x
                   then upd_output oid (\<lambda>x. x\<lparr>o_scheduled := True, o_activity := False\<rparr>)
                          (emit (Timer_update oid (real_to_i32 (next_ims E (o_ims x))))
                            (upd_output oid (\<lambda>x. x\<lparr>o_ims := next_ims E (o_ims x)\<rparr>) w))
                   else upd_output oid (\<lambda>x. x\<lparr>o_scheduled := False\<rparr>) w)
          in finish_frame_tasks E oid w)"

section \<open>Birth and death of an output\<close>

text \<open>The timer is removed first; what follows still stops it.\<close>

definition wlc_output_release :: "env \<Rightarrow> nat \<Rightarrow> world \<Rightarrow> world" where
  "wlc_output_release E oid w =
     (case output_of w oid of
        None \<Rightarrow> w
      | Some x \<Rightarrow>
          let w = (if o_timer_idle x then emit (Timer_remove oid) w else w);
              w = wlc_output_set_information E oid None w;
              w = snd (wlc_output_set_backend_surface E oid None w);
              w = upd_output oid (\<lambda>x. x\<lparr>o_surfaces := [], o_views := [], o_mutable := [], o_visible := [], o_callbacks := [],
                                        o_blit := None\<rparr>) w;
              w = (if o_field o_wl_output 0 oid w \<noteq> 0 then emit (Global_destroy (o_field o_wl_output 0 oid w)) w else w)
          in release_source E oid K_output w)"

definition wlc_output_ctor :: "env \<Rightarrow> nat \<Rightarrow> world \<Rightarrow> bool \<times> world" where
  "wlc_output_ctor E oid w =
     (if \<not> ext_new_timer E oid then (False, wlc_output_release E oid w)
      else
        let w = upd_output oid (\<lambda>x. x\<lparr>o_timer_idle := True\<rparr>) w;
            g = ext_new_global E oid
        in
        if g = 0 then (False, wlc_output_release E oid w)
        else
          let w = upd_output oid (\<lambda>x. x\<lparr>o_wl_output := g, o_resources := [], o_surfaces := [], o_views := [], o_mutable := [],
                                       o_callbacks := [], o_visible := [], o_active_mode := UINT_MAX, o_ims := 41,
                                       o_scale := 1\<rparr>) w;
              w = wlc_output_set_sleep_ptr oid False w
          in (True, wlc_output_set_mask_ptr oid 1 w))"

section \<open>Rendering from a callback of the author\<close>

definition wlc_output_render_surface :: "env \<Rightarrow> nat \<Rightarrow> nat \<Rightarrow> wlc_geometry \<Rightarrow> world \<Rightarrow> world" where
  "wlc_output_render_surface E oid sid g w =
     (case surface_of w sid of
        None \<Rightarrow> fail Null_pointer w
      | Some s \<Rightarrow>
          let (ok, w) = (if sf_output s \<noteq> oid
                         then wlc_surface_attach_to_output E sid oid (wlc_surface_get_buffer w (Some s)) w else (True, w))
          in
          if \<not> ok \<or> \<not> (\<exists>s. surface_of w sid = Some s \<and> ss_attached (sf_commit s)) then w
          else take_callbacks E oid sid (emit (Rd_surface_paint oid sid g) w))"

definition wlc_get_rendering_output :: "world \<Rightarrow> nat" where
  "wlc_get_rendering_output w = w_rendering_output w"

section \<open>Public functions\<close>

definition wlc_output_get_resolution :: "world \<Rightarrow> nat \<Rightarrow> wlc_size option" where
  "wlc_output_get_resolution w h = map_option o_resolution (output_of w h)"

definition wlc_output_get_virtual_resolution :: "world \<Rightarrow> nat \<Rightarrow> wlc_size option" where
  "wlc_output_get_virtual_resolution w h = map_option o_virtual (output_of w h)"

definition wlc_output_set_resolution :: "env \<Rightarrow> nat \<Rightarrow> wlc_size \<Rightarrow> u32 \<Rightarrow> world \<Rightarrow> world" where
  "wlc_output_set_resolution E h res scale w = snd (wlc_output_set_resolution_ptr E (live_output w h) res scale w)"

definition wlc_output_get_scale :: "world \<Rightarrow> nat \<Rightarrow> u32" where
  "wlc_output_get_scale w h = (case output_of w h of None \<Rightarrow> 1 | Some x \<Rightarrow> o_scale x)"

definition wlc_output_get_sleep :: "world \<Rightarrow> nat \<Rightarrow> bool" where
  "wlc_output_get_sleep w h = (case output_of w h of None \<Rightarrow> False | Some x \<Rightarrow> o_sleeping x)"

definition wlc_output_set_sleep :: "nat \<Rightarrow> bool \<Rightarrow> world \<Rightarrow> world" where
  "wlc_output_set_sleep h sleep w = wlc_output_set_sleep_ptr (live_output w h) sleep w"

definition wlc_output_set_gamma :: "nat \<Rightarrow> u16 \<Rightarrow> world \<Rightarrow> world" where
  "wlc_output_set_gamma h n w = wlc_output_set_gamma_ptr (live_output w h) n w"

definition wlc_output_get_gamma_size :: "env \<Rightarrow> world \<Rightarrow> nat \<Rightarrow> u16" where
  "wlc_output_get_gamma_size E w h =
     (case output_of w h of
        None \<Rightarrow> 0
      | Some x \<Rightarrow> if bs_api_get_gamma_size (o_bsurface x) then ext_gamma_size E h else 0)"

definition wlc_output_get_mask :: "world \<Rightarrow> nat \<Rightarrow> u32" where
  "wlc_output_get_mask w h = (case output_of w h of None \<Rightarrow> 0 | Some x \<Rightarrow> o_active_mask x)"

definition wlc_output_set_mask :: "nat \<Rightarrow> u32 \<Rightarrow> world \<Rightarrow> world" where
  "wlc_output_set_mask h m w = wlc_output_set_mask_ptr (live_output w h) m w"

definition wlc_output_focus :: "env \<Rightarrow> nat \<Rightarrow> world \<Rightarrow> world" where
  "wlc_output_focus E h w = wlc_output_focus_ptr E (live_output w h) w"

definition wlc_output_get_name :: "world \<Rightarrow> nat \<Rightarrow> string option" where
  "wlc_output_get_name w h = (case output_of w h of None \<Rightarrow> None | Some x \<Rightarrow> in_name (o_information x))"

end
