(* ===== verification/Visible.thy ===== *)
theory Visible
  imports Output Sample
begin

text \<open>
  Which views an output paints. The code keeps one flag per pixel of the output and covers it with the
  opaque rectangles of the views, from the top of the stack down; a view none of whose pixels is still
  uncovered is not painted. The reference is the painter's rule on sets of pixels.
\<close>

section \<open>Pixels\<close>

definition pixel_covered :: "wlc_size \<Rightarrow> bool list \<Rightarrow> int \<Rightarrow> int \<Rightarrow> bool" where
  "pixel_covered r g x y = g ! nat (y * uint (sw r) + x)"

definition rect :: "wlc_point \<Rightarrow> wlc_point \<Rightarrow> (int \<times> int) set" where
  "rect a b = {(x, y). px a \<le> x \<and> x < px b \<and> py a \<le> y \<and> y < py b}"

text \<open>The sizes for which every offset is exact.\<close>

definition small_screen :: "wlc_size \<Rightarrow> bool" where
  "small_screen r \<longleftrightarrow> 0 < uint (sw r) \<and> 0 < uint (sh r) \<and> uint (sw r) * uint (sh r) < 2 ^ 31"

lemma small_screen_dims:
  assumes "small_screen r"
  shows "uint (sw r) < 2 ^ 31" "uint (sh r) < 2 ^ 31" "unat (sw r * sh r) = nat (uint (sw r) * uint (sh r))"
proof -
  have w: "1 \<le> uint (sw r)" "1 \<le> uint (sh r)" and p: "uint (sw r) * uint (sh r) < 2 ^ 31"
    using assms by (simp_all add: small_screen_def)
  have "uint (sw r) * 1 \<le> uint (sw r) * uint (sh r)" using w by (intro mult_left_mono) simp_all
  then show "uint (sw r) < 2 ^ 31" using p by simp
  have "1 * uint (sh r) \<le> uint (sw r) * uint (sh r)" using w by (intro mult_right_mono) simp_all
  then show "uint (sh r) < 2 ^ 31" using p by simp
  have "uint (sw r * sh r) = uint (sw r) * uint (sh r)"
    using p by (simp add: uint_word_ariths)
  then show "unat (sw r * sh r) = nat (uint (sw r) * uint (sh r))" by (simp flip: nat_uint_eq)
qed

lemma row_offset:
  assumes "small_screen r" "0 \<le> ax" "ax \<le> uint (sw r)" "0 \<le> y" "y < uint (sh r)"
  shows "unat (u32_of_i32 ax + u32_of_i32 y * sw r) = nat (y * uint (sw r) + ax)"
    and "y * uint (sw r) + ax \<le> uint (sw r) * uint (sh r)"
proof -
  let ?W = "uint (sw r)" and ?H = "uint (sh r)"
  have "(y + 1) * ?W \<le> ?H * ?W" using assms by (intro mult_right_mono) simp_all
  then show le: "y * ?W + ax \<le> ?W * ?H" using assms(3) by (simp add: algebra_simps)
  have ge: "0 \<le> y * ?W + ax" using assms by simp
  have "uint (u32_of_i32 ax + u32_of_i32 y * sw r) = (ax + y * ?W) mod 2 ^ 32"
    by (simp add: u32_of_i32_def uint_word_ariths uint_word_of_int mod_simps)
  also have "\<dots> = y * ?W + ax" using le ge assms(1) by (simp add: small_screen_def add.commute)
  finally show "unat (u32_of_i32 ax + u32_of_i32 y * sw r) = nat (y * ?W + ax)" by (simp flip: nat_uint_eq)
qed

lemma pixel_index_inj:
  assumes "0 \<le> x" "x < W" "0 \<le> x'" "x' < W"
  shows "y * W + x = y' * W + x' \<longleftrightarrow> y = y' \<and> x = (x' :: int)"
proof
  assume e: "y * W + x = y' * W + x'"
  have "y = (y * W + x) div W" "y' = (y' * W + x') div W" using assms by simp_all
  then show "y = y' \<and> x = x'" using e by auto
qed simp

text \<open>One row.\<close>

lemma row_nth:
  assumes "off + memb \<le> length g" "i < length g"
  shows "(take off g @ replicate memb True @ drop (off + memb) g) ! i = (if off \<le> i \<and> i < off + memb then True else g ! i)"
  using assms by (auto simp: nth_append)

lemma row_length: "off + memb \<le> length g \<Longrightarrow> length (take off g @ replicate memb True @ drop (off + memb) g) = length g"
  by simp

lemma row_seen:
  assumes "off + memb \<le> length g"
  shows "False \<in> set (take memb (drop off g)) \<longleftrightarrow> (\<exists>i. off \<le> i \<and> i < off + memb \<and> \<not> g ! i)"
proof
  assume "False \<in> set (take memb (drop off g))"
  then obtain j where "j < memb" "take memb (drop off g) ! j = False" using assms by (auto simp: in_set_conv_nth)
  then show "\<exists>i. off \<le> i \<and> i < off + memb \<and> \<not> g ! i" using assms by (intro exI [of _ "off + j"]) auto
next
  assume "\<exists>i. off \<le> i \<and> i < off + memb \<and> \<not> g ! i"
  then obtain i where i: "off \<le> i" "i < off + memb" "\<not> g ! i" by blast
  then have "take memb (drop off g) ! (i - off) = False" "i - off < length (take memb (drop off g))" using assms by auto
  then show "False \<in> set (take memb (drop off g))" by (metis nth_mem)
qed

text \<open>The row \<open>y\<close> of a rectangle from column \<open>ax\<close> to \<open>bx\<close> has an uncovered pixel.\<close>

definition row_open :: "wlc_size \<Rightarrow> int \<Rightarrow> int \<Rightarrow> bool list \<Rightarrow> int \<Rightarrow> bool" where
  "row_open r ax bx g y \<longleftrightarrow> (\<exists>x. ax \<le> x \<and> x < bx \<and> \<not> pixel_covered r g x y)"

lemma row_blit:
  assumes "small_screen r" "0 \<le> ax" "ax \<le> bx" "bx \<le> uint (sw r)" "0 \<le> y" "y < uint (sh r)"
    and len: "length g = nat (uint (sw r) * uint (sh r))"
  defines "off \<equiv> unat (u32_of_i32 ax + u32_of_i32 y * sw r)" and "memb \<equiv> nat (bx - ax)"
  defines "g' \<equiv> take off g @ replicate memb True @ drop (off + memb) g"
  shows "off + memb \<le> length g" "False \<in> set (take memb (drop off g)) \<longleftrightarrow> row_open r ax bx g y" "length g' = length g"
    "\<And>x z. 0 \<le> x \<Longrightarrow> x < uint (sw r) \<Longrightarrow> 0 \<le> z \<Longrightarrow> z < uint (sh r) \<Longrightarrow>
       pixel_covered r g' x z = (pixel_covered r g x z \<or> (ax \<le> x \<and> x < bx \<and> z = y))"
proof -
  let ?W = "uint (sw r)"
  have ax: "ax \<le> ?W" using assms(3,4) by simp
  have off: "off = nat (y * ?W + ax)" unfolding off_def using row_offset(1) [OF assms(1,2) ax assms(5,6)] .
  have "y * ?W + bx \<le> ?W * uint (sh r)" using row_offset(2) [OF assms(1) _ assms(4) assms(5,6)] assms(2,3) by simp
  moreover have pos: "0 \<le> y * ?W" using assms(5) by simp
  ultimately show fits: "off + memb \<le> length g" using assms(2,3) by (simp add: off memb_def len nat_add_distrib [symmetric])
  show "length g' = length g" unfolding g'_def using fits by simp
  have inside: "off \<le> nat (z * ?W + x) \<and> nat (z * ?W + x) < off + memb \<longleftrightarrow> z = y \<and> ax \<le> x \<and> x < bx"
    if "0 \<le> x" "x < ?W" "0 \<le> z" for x z
  proof -
    have zp: "0 \<le> z * ?W" using that(3) by simp
    have "off \<le> nat (z * ?W + x) \<and> nat (z * ?W + x) < off + memb \<longleftrightarrow> y * ?W + ax \<le> z * ?W + x \<and> z * ?W + x < y * ?W + bx"
    proof -
      have q: "0 \<le> z * ?W + x" "0 \<le> y * ?W + ax" "0 \<le> bx - ax" using zp pos that(1) assms(2,3) by simp_all
      have "off + memb = nat (y * ?W + bx)"
        unfolding off memb_def using nat_add_distrib [OF q(2,3)] by simp
      then show ?thesis unfolding off using q by (auto simp: nat_le_eq_zle nat_less_eq_zless zless_nat_eq_int_zless)
    qed
    also have "\<dots> \<longleftrightarrow> z = y \<and> ax \<le> x \<and> x < bx"
    proof
      assume a: "y * ?W + ax \<le> z * ?W + x \<and> z * ?W + x < y * ?W + bx"
      have "z = y"
      proof (rule ccontr)
        assume "z \<noteq> y"
        then consider "z \<le> y - 1" | "z \<ge> y + 1" by linarith
        then show False
        proof cases
          case 1
          then have "z * ?W \<le> (y - 1) * ?W" using that by (intro mult_right_mono) simp_all
          then show ?thesis using a that assms(2) by (simp add: algebra_simps)
        next
          case 2
          then have "(y + 1) * ?W \<le> z * ?W" using that by (intro mult_right_mono) simp_all
          then show ?thesis using a that assms(4) by (simp add: algebra_simps)
        qed
      qed
      then show "z = y \<and> ax \<le> x \<and> x < bx" using a by simp
    qed auto
    finally show ?thesis .
  qed
  show "False \<in> set (take memb (drop off g)) \<longleftrightarrow> row_open r ax bx g y"
  proof
    assume "False \<in> set (take memb (drop off g))"
    then obtain i where i: "off \<le> i" "i < off + memb" "\<not> g ! i" using row_seen [OF fits] by blast
    define x where "x = int i - y * ?W"
    have "ax \<le> x" "x < bx" "i = nat (y * ?W + x)" using i(1,2) pos assms(2,3) by (simp_all add: x_def off memb_def)
    then show "row_open r ax bx g y" using i(3) unfolding row_open_def pixel_covered_def by blast
  next
    assume "row_open r ax bx g y"
    then obtain x where x: "ax \<le> x" "x < bx" "\<not> g ! nat (y * ?W + x)" by (auto simp: row_open_def pixel_covered_def)
    then show "False \<in> set (take memb (drop off g))"
      using row_seen [OF fits] inside [of x y] assms(2,4,5) by auto
  qed
  show "pixel_covered r g' x z = (pixel_covered r g x z \<or> (ax \<le> x \<and> x < bx \<and> z = y))"
    if "0 \<le> x" "x < ?W" "0 \<le> z" "z < uint (sh r)" for x z
  proof -
    have "z * ?W + x < ?W * uint (sh r)"
    proof -
      have "(z + 1) * ?W \<le> uint (sh r) * ?W" using that by (intro mult_right_mono) simp_all
      then show ?thesis using that by (simp add: algebra_simps)
    qed
    then have "nat (z * ?W + x) < length g" using that by (simp add: len nat_less_eq_zless)
    then show ?thesis using row_nth [OF fits, of "nat (z * ?W + x)"] inside [OF that(1-3)]
      by (auto simp: pixel_covered_def g'_def)
  qed
qed

lemma blit_rows_spec:
  assumes "small_screen r" "0 \<le> ax" "ax \<le> bx" "bx \<le> uint (sw r)" "\<forall>y \<in> set ys. 0 \<le> y \<and> y < uint (sh r)"
    and "length g = nat (uint (sw r) * uint (sh r))"
  shows "\<exists>g'. blit_rows r ax (nat (bx - ax)) sb ys vis g = (True, vis \<or> (\<exists>y \<in> set ys. row_open r ax bx g y), g') \<and>
    length g' = length g \<and>
    (\<forall>x z. 0 \<le> x \<longrightarrow> x < uint (sw r) \<longrightarrow> 0 \<le> z \<longrightarrow> z < uint (sh r) \<longrightarrow>
       pixel_covered r g' x z = (pixel_covered r g x z \<or> (sb \<and> ax \<le> x \<and> x < bx \<and> z \<in> set ys)))"
  using assms(5,6)
proof (induction ys arbitrary: vis g)
  case Nil
  then show ?case by simp
next
  case (Cons y ys)
  let ?off = "unat (u32_of_i32 ax + u32_of_i32 y * sw r)" and ?memb = "nat (bx - ax)"
  have y: "0 \<le> y" "y < uint (sh r)" using Cons.prems(1) by simp_all
  note row = row_blit [OF assms(1-4) y Cons.prems(2)]
  have fits: "\<not> ?off + ?memb > unat (sw r * sh r)"
    using row(1) Cons.prems(2) small_screen_dims(3) [OF assms(1)] by simp
  define g1 where "g1 = (if sb then take ?off g @ replicate ?memb True @ drop (?off + ?memb) g else g)"
  have g1: "length g1 = length g" "\<And>x z. 0 \<le> x \<Longrightarrow> x < uint (sw r) \<Longrightarrow> 0 \<le> z \<Longrightarrow> z < uint (sh r) \<Longrightarrow>
       pixel_covered r g1 x z = (pixel_covered r g x z \<or> (sb \<and> ax \<le> x \<and> x < bx \<and> z = y))"
    using row(3,4) by (simp_all add: g1_def)
  show ?case
  proof (cases "\<not> vis \<and> row_open r ax bx g y \<and> \<not> sb")
    case True
    then show ?thesis using row(2) fits by (intro exI [of _ g]) (simp add: Let_def)
  next
    case False
    then have step: "blit_rows r ax ?memb sb (y # ys) vis g = blit_rows r ax ?memb sb ys (vis \<or> row_open r ax bx g y) g1"
      using row(2) fits by (auto simp: Let_def g1_def)
    obtain g' where g': "blit_rows r ax ?memb sb ys (vis \<or> row_open r ax bx g y) g1 =
        (True, (vis \<or> row_open r ax bx g y) \<or> (\<exists>y \<in> set ys. row_open r ax bx g1 y), g')" "length g' = length g1"
      "\<And>x z. 0 \<le> x \<Longrightarrow> x < uint (sw r) \<Longrightarrow> 0 \<le> z \<Longrightarrow> z < uint (sh r) \<Longrightarrow>
       pixel_covered r g' x z = (pixel_covered r g1 x z \<or> (sb \<and> ax \<le> x \<and> x < bx \<and> z \<in> set ys))"
      using Cons.IH [of g1 "vis \<or> row_open r ax bx g y"] Cons.prems g1(1) by auto
    have open1: "row_open r ax bx g1 z \<longleftrightarrow> row_open r ax bx g z \<and> \<not> (sb \<and> z = y)" if "z \<in> set ys" for z
      using g1(2) that Cons.prems(1) assms(2,4) unfolding row_open_def by (auto 5 3)
    have "(vis \<or> row_open r ax bx g y) \<or> (\<exists>y \<in> set ys. row_open r ax bx g1 y) \<longleftrightarrow>
        vis \<or> (\<exists>z \<in> set (y # ys). row_open r ax bx g z)"
      using open1 by auto
    then show ?thesis using step g' g1 by (intro exI [of _ g']) auto
  qed
qed

lemma blit_spec:
  assumes "small_screen r" "0 \<le> px a" "px a \<le> px b" "px b \<le> uint (sw r)" "0 \<le> py a" "py b \<le> uint (sh r)"
    and "length g = nat (uint (sw r) * uint (sh r))"
  shows "\<exists>g'. blit g r a b sb = (True, (\<exists>(x, y) \<in> rect a b. \<not> pixel_covered r g x y), g') \<and> length g' = length g \<and>
    (\<forall>x z. 0 \<le> x \<longrightarrow> x < uint (sw r) \<longrightarrow> 0 \<le> z \<longrightarrow> z < uint (sh r) \<longrightarrow>
       pixel_covered r g' x z = (pixel_covered r g x z \<or> (sb \<and> (x, z) \<in> rect a b)))"
proof -
  note dims = small_screen_dims(1,2) [OF assms(1)]
  have ys: "\<forall>y \<in> set [py a..py b - 1]. 0 \<le> y \<and> y < uint (sh r)" using assms(5,6) by auto
  obtain g' where g': "blit_rows r (px a) (nat (px b - px a)) sb [py a..py b - 1] False g =
      (True, (\<exists>y \<in> set [py a..py b - 1]. row_open r (px a) (px b) g y), g')" "length g' = length g"
    "\<forall>x z. 0 \<le> x \<longrightarrow> x < uint (sw r) \<longrightarrow> 0 \<le> z \<longrightarrow> z < uint (sh r) \<longrightarrow>
       pixel_covered r g' x z = (pixel_covered r g x z \<or> (sb \<and> px a \<le> x \<and> x < px b \<and> z \<in> set [py a..py b - 1]))"
    using blit_rows_spec [OF assms(1-4) ys assms(7), of sb False] by auto
  have i: "i32_of_u32 (sw r) = uint (sw r)" "i32_of_u32 (sh r) = uint (sh r)" "i32_sub (px b) (px a) = px b - px a"
    using dims assms(2-4) by (simp_all add: i32_of_u32_small i32_sub_def in_i32_def)
  have "(\<exists>y \<in> set [py a..py b - 1]. row_open r (px a) (px b) g y) \<longleftrightarrow> (\<exists>(x, y) \<in> rect a b. \<not> pixel_covered r g x y)"
    unfolding row_open_def rect_def by fastforce
  then show ?thesis using g' i assms(2-6) by (intro exI [of _ g']) (auto simp: blit_def rect_def)
qed

section \<open>The painter's rule\<close>

definition view_shown :: "world \<Rightarrow> u32 \<Rightarrow> nat \<Rightarrow> bool" where
  "view_shown w m h \<longleftrightarrow>
     (\<exists>v s. view_of w h = Some v \<and> surface_of w (v_surface v) = Some s \<and> ss_attached (sf_commit s) \<and> any_bit (v_mask v) m)"

definition view_cover :: "env \<Rightarrow> world \<Rightarrow> nat \<Rightarrow> bool \<times> bool \<times> wlc_geometry" where
  "view_cover E w h = (case view_of w h of None \<Rightarrow> (True, False, wlc_geometry_zero) | Some v \<Rightarrow> wlc_view_get_opaque E w v)"

text \<open>The pixels of the output a view claims, and whether it hides what is under them.\<close>

definition view_area :: "env \<Rightarrow> world \<Rightarrow> wlc_size \<Rightarrow> nat \<Rightarrow> (int \<times> int) set" where
  "view_area E w r h = (let (a, b) = view_corners E r (snd (snd (view_cover E w h))) in rect a b)"

definition view_hides :: "env \<Rightarrow> world \<Rightarrow> nat \<Rightarrow> bool" where
  "view_hides E w h = fst (snd (view_cover E w h))"

definition covered_by :: "env \<Rightarrow> world \<Rightarrow> wlc_size \<Rightarrow> u32 \<Rightarrow> nat list \<Rightarrow> (int \<times> int) set" where
  "covered_by E w r m hs = (\<Union>h \<in> {h \<in> set hs. view_shown w m h \<and> view_hides E w h}. view_area E w r h)"

text \<open>The stack is listed from the bottom up: a view is painted when it shows a pixel that the views above it
  leave open.\<close>

fun painted :: "env \<Rightarrow> world \<Rightarrow> wlc_size \<Rightarrow> u32 \<Rightarrow> nat list \<Rightarrow> nat list" where
  "painted E w r m [] = []"
| "painted E w r m (h # hs) =
     (if view_shown w m h \<and> \<not> view_area E w r h \<subseteq> covered_by E w r m hs then h # painted E w r m hs
      else painted E w r m hs)"

definition screen :: "wlc_size \<Rightarrow> (int \<times> int) set" where
  "screen r = {(x, y). 0 \<le> x \<and> x < uint (sw r) \<and> 0 \<le> y \<and> y < uint (sh r)}"

text \<open>A view nothing of which is waiting to be committed, with a rectangle in the range of \<open>int32_t\<close>.\<close>

definition view_settled :: "env \<Rightarrow> world \<Rightarrow> nat \<Rightarrow> bool" where
  "view_settled E w h \<longleftrightarrow>
     (\<forall>v. view_of w h = Some v \<longrightarrow> v_created v \<and> v_pending v = v_commit v) \<and> fst (view_cover E w h) \<and>
     (let g = snd (snd (view_cover E w h)) in
      in_i32 (px (gorigin g)) \<and> in_i32 (py (gorigin g)) \<and>
      in_i32 (px (gorigin g) + uint (sw (gsize g))) \<and> in_i32 (py (gorigin g) + uint (sh (gsize g))))"

lemma i32_sum:
  assumes "in_i32 (x + uint w)"
  shows "i32_of_u32 (u32_of_i32 x + w) = x + uint w"
proof -
  have "u32_of_i32 x + w = u32_of_i32 (x + uint w)" by (simp add: u32_of_i32_def)
  then show ?thesis using assms by (simp only: i32_of_u32_of_i32 i32_id)
qed

lemma corners_in_screen:
  assumes "small_screen r" "chck_math_ok (mth E)" "view_settled E w h"
    and ab: "view_corners E r (snd (snd (view_cover E w h))) = (a, b)"
  shows "0 \<le> px a" "px a \<le> px b" "px b \<le> uint (sw r)" "0 \<le> py a" "py b \<le> uint (sh r)"
proof -
  define g where "g = snd (snd (view_cover E w h))"
  have g: "in_i32 (px (gorigin g) + uint (sw (gsize g)))" "in_i32 (py (gorigin g) + uint (sh (gsize g)))"
    using assms(3) by (simp_all add: view_settled_def g_def Let_def)
  note dims = small_screen_dims(1,2) [OF assms(1)]
  have pos: "1 \<le> uint (sw r)" "1 \<le> uint (sh r)" using assms(1) by (simp_all add: small_screen_def)
  have i: "i32_of_u32 (sw r) = uint (sw r)" "i32_of_u32 (sh r) = uint (sh r)" using dims by (simp_all add: i32_of_u32_small)
  have "a = \<lparr>px = max 0 (min (px (gorigin g)) (uint (sw r))), py = max 0 (min (py (gorigin g)) (uint (sh r)))\<rparr>"
    "b = \<lparr>px = max 1 (min (px (gorigin g) + uint (sw (gsize g))) (uint (sw r))),
          py = max 1 (min (py (gorigin g) + uint (sh (gsize g))) (uint (sh r)))\<rparr>"
    using ab pos unfolding g_def [symmetric]
    by (simp_all add: view_corners_def Let_def i i32_sum [OF g(1)] i32_sum [OF g(2)] chck_math_okD(1) [OF assms(2)])
  moreover have "max 0 (min (px (gorigin g)) (uint (sw r))) \<le> max 1 (min (px (gorigin g) + uint (sw (gsize g))) (uint (sw r)))"
    by (intro max.mono min.mono) simp_all
  ultimately show "0 \<le> px a" "px a \<le> px b" "px b \<le> uint (sw r)" "0 \<le> py a" "py b \<le> uint (sh r)"
    using pos by simp_all
qed

lemma settled_commit:
  assumes "view_settled E w h" "view_of w h = Some v" "surface_of w (v_surface v) \<noteq> None"
  shows "wlc_view_commit_state E h w = w"
  using assms by (auto simp: view_settled_def wlc_view_commit_state_def commit_pending_def)

text \<open>The world in the middle of the loop: only the buffer and the list of the output have changed.\<close>

definition mid_world :: "nat \<Rightarrow> bool list \<Rightarrow> nat list \<Rightarrow> world \<Rightarrow> world" where
  "mid_world oid g l w = upd_output oid (\<lambda>x. x\<lparr>o_blit := Some g, o_visible := l\<rparr>) w"

lemma mid_world_reads [simp]:
  "view_of (mid_world oid g l w) = view_of w" "surface_of (mid_world oid g l w) = surface_of w"
  "w_faults (mid_world oid g l w) = w_faults w"
  by (simp_all add: mid_world_def fun_eq_iff)

lemma opaque_mid [simp]: "wlc_view_get_opaque E (mid_world oid g l w) v = wlc_view_get_opaque E w v"
  by (simp add: wlc_view_get_opaque_def wlc_view_get_bounds_def)

lemma upd_output_twice: "upd_output h f (upd_output h g w) = upd_output h (\<lambda>x. f (g x)) w"
  by (simp add: upd_output_def option.map_comp comp_def)

lemma visible_blit_swap:
  "upd_output h (\<lambda>x. x\<lparr>o_visible := l, o_blit := b\<rparr>) w = upd_output h (\<lambda>x. x\<lparr>o_blit := b, o_visible := l\<rparr>) w"
  by (rule arg_cong [of _ _ "\<lambda>f. upd_output h f w"]) (rule ext, simp)

lemma settled_mid: "view_settled E (mid_world oid g l w) h = view_settled E w h"
  by (simp add: view_settled_def view_cover_def split: option.split)

lemma visible_step_mid:
  assumes "small_screen (o_virtual x)" "chck_math_ok (mth E)" "view_settled E w h" "output_of w oid = Some x"
    and len: "length g = nat (uint (sw (o_virtual x)) * uint (sh (o_virtual x)))"
    and push: "\<And>xs x. push_front (hp E) xs x = Some (x # xs)"
  defines "r \<equiv> o_virtual x" and "m \<equiv> o_active_mask x"
  shows "\<exists>g'. visible_step E oid h (mid_world oid g l w) =
      mid_world oid g' (if view_shown w m h \<and> (\<exists>(i, j) \<in> view_area E w r h. \<not> pixel_covered r g i j) then h # l else l) w \<and>
    length g' = length g \<and>
    (\<forall>i j. (i, j) \<in> screen r \<longrightarrow>
       pixel_covered r g' i j = (pixel_covered r g i j \<or> (view_shown w m h \<and> view_hides E w h \<and> (i, j) \<in> view_area E w r h)))"
proof -
  have idle: "view_of w h = None \<or> (\<exists>v. view_of w h = Some v \<and> surface_of w (v_surface v) = None) \<Longrightarrow>
      visible_step E oid h (mid_world oid g l w) = mid_world oid g l w \<and> \<not> view_shown w m h"
    by (auto simp: visible_step_def view_shown_def)
  show ?thesis
  proof (cases "\<exists>v s. view_of w h = Some v \<and> surface_of w (v_surface v) = Some s")
    case False
    then have "view_of w h = None \<or> (\<exists>v. view_of w h = Some v \<and> surface_of w (v_surface v) = None)" by auto
    then show ?thesis using idle by (intro exI [of _ g]) simp
  next
    case True
    then obtain v s where v: "view_of w h = Some v" and s: "surface_of w (v_surface v) = Some s" by blast
    have commit: "wlc_view_commit_state E h (mid_world oid g l w) = mid_world oid g l w"
      by (rule settled_commit [of _ _ _ v]) (simp_all add: settled_mid assms(3) v s)
    have mid: "output_of (mid_world oid g l w) oid = Some (x\<lparr>o_blit := Some g, o_visible := l\<rparr>)"
      using assms(4) by (simp add: mid_world_def)
    have shown: "view_visible (Some v) (Some s) m = view_shown w m h"
      using v s by (simp add: view_visible_def view_shown_def)
    show ?thesis
    proof (cases "view_shown w m h")
      case False
      then have "visible_step E oid h (mid_world oid g l w) = mid_world oid g l w"
        using v s commit mid shown by (simp add: visible_step_def Let_def o_field_def hide_x11_def m_def)
      then show ?thesis using False by (intro exI [of _ g]) simp
    next
      case True
      obtain ok sb og where cov: "wlc_view_get_opaque E w v = (ok, sb, og)" by (cases "wlc_view_get_opaque E w v")
      obtain a b where ab: "view_corners E r og = (a, b)" by fastforce
      have ok: "ok" using assms(3) v cov by (simp add: view_settled_def view_cover_def)
      have area: "view_area E w r h = rect a b" "view_hides E w h = sb"
        using v cov ab by (simp_all add: view_area_def view_hides_def view_cover_def)
      have c: "0 \<le> px a" "px a \<le> px b" "px b \<le> uint (sw r)" "0 \<le> py a" "py b \<le> uint (sh r)"
        using corners_in_screen [OF assms(1-3), of a b] v cov ab by (simp_all add: r_def view_cover_def)
      obtain g' where g': "blit g r a b sb = (True, (\<exists>(x, y) \<in> rect a b. \<not> pixel_covered r g x y), g')" "length g' = length g"
        "\<forall>x z. 0 \<le> x \<longrightarrow> x < uint (sw r) \<longrightarrow> 0 \<le> z \<longrightarrow> z < uint (sh r) \<longrightarrow>
           pixel_covered r g' x z = (pixel_covered r g x z \<or> (sb \<and> (x, z) \<in> rect a b))"
        using blit_spec [OF _ c, of g sb] assms(1) len by (auto simp: r_def)
      have pf: "pool_push_front (hp E) h l = h # l" by (simp add: pool_push_front_def push)
      have "visible_step E oid h (mid_world oid g l w) =
        mid_world oid g' (if \<exists>(i, j) \<in> rect a b. \<not> pixel_covered r g i j then h # l else l) w"
        using v s commit mid shown True cov ab ok g'(1) pf
        by (simp add: visible_step_def Let_def o_field_def hide_x11_def m_def r_def)
           (simp add: mid_world_def upd_output_twice visible_blit_swap)
      then show ?thesis using True area g'(2,3) by (intro exI [of _ g']) (simp add: screen_def)
    qed
  qed
qed

lemma area_in_screen:
  assumes "small_screen r" "chck_math_ok (mth E)" "view_settled E w h"
  shows "view_area E w r h \<subseteq> screen r"
proof -
  obtain a b where ab: "view_corners E r (snd (snd (view_cover E w h))) = (a, b)" by fastforce
  show ?thesis using corners_in_screen [OF assms ab] ab by (auto simp: view_area_def rect_def screen_def)
qed

lemma visible_loop_mid:
  assumes "small_screen (o_virtual x)" "chck_math_ok (mth E)" "\<forall>h \<in> set (o_views x). view_settled E w h"
    "output_of w oid = Some x" and push: "\<And>xs x. push_front (hp E) xs x = Some (x # xs)"
  defines "r \<equiv> o_virtual x" and "m \<equiv> o_active_mask x" and "vs \<equiv> o_views x"
  assumes "i \<le> length vs" "length g = nat (uint (sw r) * uint (sh r))"
    "\<forall>p \<in> screen r. pixel_covered r g (fst p) (snd p) \<longleftrightarrow> p \<in> covered_by E w r m (drop i vs)"
  shows "\<exists>g'. visible_loop i E oid (mid_world oid g (painted E w r m (drop i vs)) w) = mid_world oid g' (painted E w r m vs) w \<and>
    length g' = length g \<and> (\<forall>p \<in> screen r. pixel_covered r g' (fst p) (snd p) \<longleftrightarrow> p \<in> covered_by E w r m vs)"
  using assms(9-)
proof (induction i arbitrary: g)
  case 0
  then show ?case by (intro exI [of _ g]) simp
next
  case (Suc i)
  let ?h = "vs ! i" and ?hs = "drop (Suc i) vs"
  have i: "i < length vs" using Suc.prems(1) by simp
  have split: "drop i vs = ?h # ?hs" using i by (simp add: Cons_nth_drop_Suc)
  have h: "view_settled E w ?h" using assms(3) i by (simp add: vs_def)
  have views: "o_field o_views [] oid (mid_world oid g l w) = vs" for l
    using assms(4) by (simp add: mid_world_def o_field_def vs_def)
  have area: "view_area E w r ?h \<subseteq> screen r" using area_in_screen [OF assms(1,2) h] by (simp add: r_def)
  obtain g1 where g1: "visible_step E oid ?h (mid_world oid g (painted E w r m ?hs) w) =
      mid_world oid g1 (if view_shown w m ?h \<and> (\<exists>(a, b) \<in> view_area E w r ?h. \<not> pixel_covered r g a b)
                        then ?h # painted E w r m ?hs else painted E w r m ?hs) w" "length g1 = length g"
    "\<forall>a b. (a, b) \<in> screen r \<longrightarrow>
       pixel_covered r g1 a b = (pixel_covered r g a b \<or> (view_shown w m ?h \<and> view_hides E w ?h \<and> (a, b) \<in> view_area E w r ?h))"
    using visible_step_mid [OF assms(1,2) h assms(4) _ push, of g "painted E w r m ?hs"] Suc.prems(2) by (auto simp: r_def m_def)
  have "(\<exists>(a, b) \<in> view_area E w r ?h. \<not> pixel_covered r g a b) \<longleftrightarrow> \<not> view_area E w r ?h \<subseteq> covered_by E w r m ?hs"
    using Suc.prems(3) area by fastforce
  then have step: "visible_step E oid ?h (mid_world oid g (painted E w r m ?hs) w) = mid_world oid g1 (painted E w r m (drop i vs)) w"
    using g1(1) split by simp
  have "covered_by E w r m (drop i vs) =
      covered_by E w r m ?hs \<union> (if view_shown w m ?h \<and> view_hides E w ?h then view_area E w r ?h else {})"
    unfolding split by (auto simp: covered_by_def)
  then have cov: "\<forall>p \<in> screen r. pixel_covered r g1 (fst p) (snd p) \<longleftrightarrow> p \<in> covered_by E w r m (drop i vs)"
    using g1(3) Suc.prems(3) by auto
  have "visible_loop (Suc i) E oid (mid_world oid g (painted E w r m ?hs) w) =
      visible_loop i E oid (mid_world oid g1 (painted E w r m (drop i vs)) w)"
    using i step views by simp
  then show ?case using Suc.IH [of g1] i Suc.prems(2) g1(2) cov by simp
qed

text \<open>C2 (equivalence). When no view is waiting to be committed, the views an output paints are exactly those that the
  painter's rule gives: the shown views, bottom up, that have a pixel on the output which no opaque shown view
  above them claims; and the background is painted exactly when some pixel is claimed by no opaque view.\<close>

theorem visible_views_are_painters:
  assumes "output_of w oid = Some x" and "o_blit x = Some g0" and "o_visible x = []"
    and "small_screen (o_virtual x)" and "length g0 = nat (uint (sw (o_virtual x)) * uint (sh (o_virtual x)))"
    and "chck_math_ok (mth E)" and "\<And>xs y. push_front (hp E) xs y = Some (y # xs)"
    and "\<forall>h \<in> set (o_views x). view_settled E w h"
    and "get_visible_views E oid w = (background, w')"
  shows "w_faults w' = w_faults w \<and>
    map_option o_visible (output_of w' oid) = Some (painted E w (o_virtual x) (o_active_mask x) (o_views x)) \<and>
    background = (\<not> screen (o_virtual x) \<subseteq> covered_by E w (o_virtual x) (o_active_mask x) (o_views x))"
proof -
  let ?r = "o_virtual x" and ?m = "o_active_mask x" and ?vs = "o_views x"
  let ?N = "nat (uint (sw ?r) * uint (sh ?r))"
  define g where "g = replicate ?N False"
  note dims = small_screen_dims [OF assms(4)]
  have w1: "upd_output oid (\<lambda>x. x\<lparr>o_blit := map_option (\<lambda>g. replicate ?N False @ drop ?N g) (o_blit x)\<rparr>) w = mid_world oid g [] w"
  proof -
    have "w_outputs w oid = Some x" using assms(1) by (simp add: output_of_def split: if_splits)
    moreover have "x\<lparr>o_blit := b, o_visible := []\<rparr> = x\<lparr>o_blit := b\<rparr>" for b using assms(3) by (cases x) simp
    ultimately show ?thesis using assms(2,5) by (simp add: mid_world_def upd_output_def g_def)
  qed
  have index: "nat (b * uint (sw ?r) + a) < ?N" if "(a, b) \<in> screen ?r" for a b
  proof -
    have "(b + 1) * uint (sw ?r) \<le> uint (sh ?r) * uint (sw ?r)" using that by (intro mult_right_mono) (simp_all add: screen_def)
    then have "b * uint (sw ?r) + a < uint (sw ?r) * uint (sh ?r)" using that by (simp add: screen_def algebra_simps)
    then show ?thesis using that by (simp add: screen_def nat_less_eq_zless)
  qed
  have "\<forall>p \<in> screen ?r. pixel_covered ?r g (fst p) (snd p) \<longleftrightarrow> p \<in> covered_by E w ?r ?m (drop (length ?vs) ?vs)"
    using index by (auto simp: pixel_covered_def g_def covered_by_def)
  then obtain g' where g': "visible_loop (length ?vs) E oid (mid_world oid g [] w) = mid_world oid g' (painted E w ?r ?m ?vs) w"
    "length g' = length g" "\<forall>p \<in> screen ?r. pixel_covered ?r g' (fst p) (snd p) \<longleftrightarrow> p \<in> covered_by E w ?r ?m ?vs"
    using visible_loop_mid [OF assms(4,6,8,1,7), of "length ?vs" g] by (auto simp: g_def)
  have eq: "get_visible_views E oid w = (False \<in> set (take ?N g'), mid_world oid g' (painted E w ?r ?m ?vs) w)"
    using assms(1,2) w1 g'(1) dims(3) by (simp add: get_visible_views_def Let_def o_field_def mid_world_def)
  have len: "length g' = ?N" using g'(2) by (simp add: g_def)
  have "False \<in> set g' \<longleftrightarrow> (\<exists>p \<in> screen ?r. \<not> pixel_covered ?r g' (fst p) (snd p))"
  proof
    assume "False \<in> set g'"
    then obtain i where i: "i < ?N" "\<not> g' ! i" using len by (auto simp: in_set_conv_nth)
    let ?W = "uint (sw ?r)"
    have W: "0 < ?W" using assms(4) by (simp add: small_screen_def)
    have lt: "int i < ?W * uint (sh ?r)" using i(1) by linarith
    have "(int i mod ?W, int i div ?W) \<in> screen ?r"
    proof -
      have "int i div ?W < uint (sh ?r)"
      proof (rule ccontr)
        assume "\<not> int i div ?W < uint (sh ?r)"
        then have "uint (sh ?r) * ?W \<le> (int i div ?W) * ?W" using W by (intro mult_right_mono) simp_all
        also have "\<dots> \<le> int i" using W by (metis div_mult_mod_eq le_add_same_cancel1 pos_mod_sign)
        finally show False using lt by (simp add: mult.commute)
      qed
      then show ?thesis using W by (simp add: screen_def pos_imp_zdiv_nonneg_iff)
    qed
    moreover have "nat (int i div ?W * ?W + int i mod ?W) = i" by simp
    ultimately show "\<exists>p \<in> screen ?r. \<not> pixel_covered ?r g' (fst p) (snd p)"
      using i(2) by (intro bexI [of _ "(int i mod ?W, int i div ?W)"]) (simp_all add: pixel_covered_def)
  next
    assume "\<exists>p \<in> screen ?r. \<not> pixel_covered ?r g' (fst p) (snd p)"
    then obtain a b where "(a, b) \<in> screen ?r" "\<not> g' ! nat (b * uint (sw ?r) + a)" by (auto simp: pixel_covered_def)
    then show "False \<in> set g'" using index [of a b] len by (metis nth_mem)
  qed
  then have "False \<in> set g' \<longleftrightarrow> \<not> screen ?r \<subseteq> covered_by E w ?r ?m ?vs" using g'(3) by auto
  then show ?thesis using eq assms(1,9) len by (auto simp: mid_world_def)
qed

text \<open>An opaque view that lies to the left of the output still claims the first column of pixels: the right
  edge of the rectangle is clamped to 1 instead of 0, so what is under that column may not be painted.\<close>

theorem offscreen_view_claims_column:
  assumes "small_screen r" and "chck_math_ok (mth E)" and "view_settled E w h" and "snd (snd (view_cover E w h)) = g"
    and "px (gorigin g) + uint (sw (gsize g)) \<le> 0" and "py (gorigin g) \<le> 0" and "uint (sh r) \<le> py (gorigin g) + uint (sh (gsize g))"
  shows "view_area E w r h = {(0, y) | y. 0 \<le> y \<and> y < uint (sh r)}"
proof -
  have g: "in_i32 (px (gorigin g) + uint (sw (gsize g)))" "in_i32 (py (gorigin g) + uint (sh (gsize g)))"
    using assms(3,4) by (simp_all add: view_settled_def Let_def)
  note dims = small_screen_dims(1,2) [OF assms(1)]
  have pos: "1 \<le> uint (sw r)" "1 \<le> uint (sh r)" using assms(1) by (simp_all add: small_screen_def)
  have i: "i32_of_u32 (sw r) = uint (sw r)" "i32_of_u32 (sh r) = uint (sh r)" using dims by (simp_all add: i32_of_u32_small)
  have left: "px (gorigin g) \<le> 0" using assms(5) uint_ge_0 [of "sw (gsize g)"] by linarith
  have "view_corners E r g = (\<lparr>px = 0, py = 0\<rparr>, \<lparr>px = 1, py = uint (sh r)\<rparr>)"
    using assms(5-7) left pos
    by (simp add: view_corners_def Let_def i i32_sum [OF g(1)] i32_sum [OF g(2)] chck_math_okD(1) [OF assms(2)] min_def max_def)
  then show ?thesis unfolding view_area_def assms(4) by (auto simp: rect_def)
qed

section \<open>Witnesses\<close>

text \<open>A screen of 4 by 2 pixels: view 11 fills it and is opaque, view 12 under it is not painted. View 13 lies to
  the left of the screen.\<close>

definition tiny_surface :: "region \<Rightarrow> wlc_surface" where
  "tiny_surface r = surface_blank\<lparr>sf_size := \<lparr>sw = 4, sh = 2\<rparr>,
     sf_commit := surface_state_blank\<lparr>ss_opaque := r, ss_attached := True\<rparr>\<rparr>"

definition tiny_view :: "nat \<Rightarrow> int \<Rightarrow> wlc_view" where
  "tiny_view sid x = view_blank\<lparr>v_surface := sid, v_created := True,
     v_pending := \<lparr>vs_geometry = \<lparr>gorigin = \<lparr>px = x, py = 0\<rparr>, gsize = \<lparr>sw = 4, sh = 2\<rparr>\<rparr>, vs_edges = 0, vs_state = 0\<rparr>,
     v_commit := \<lparr>vs_geometry = \<lparr>gorigin = \<lparr>px = x, py = 0\<rparr>, gsize = \<lparr>sw = 4, sh = 2\<rparr>\<rparr>, vs_edges = 0, vs_state = 0\<rparr>\<rparr>"

definition tiny_output :: wlc_output where
  "tiny_output = output_blank\<lparr>o_virtual := \<lparr>sw = 4, sh = 2\<rparr>, o_blit := Some (replicate 8 False), o_views := [12, 11]\<rparr>"

definition tiny_world :: world where
  "tiny_world =
     put_output 1 tiny_output
    (put_view 11 (tiny_view 21 0) (put_view 12 (tiny_view 22 0) (put_view 13 (tiny_view 23 (-6))
    (put_res 21 (R_surface (tiny_surface (region_rect 0 0 4 2))) 7
    (put_res 22 (R_surface (tiny_surface region_zero)) 8
    (put_res 23 (R_surface (tiny_surface (region_rect 0 0 4 2))) 9 world_blank))))))"

lemma tiny_cover:
  "view_cover env_ref tiny_world 11 = (True, True, \<lparr>gorigin = \<lparr>px = 0, py = 0\<rparr>, gsize = \<lparr>sw = 4, sh = 2\<rparr>\<rparr>)"
  "view_cover env_ref tiny_world 12 = (True, False, \<lparr>gorigin = \<lparr>px = 0, py = 0\<rparr>, gsize = \<lparr>sw = 4, sh = 2\<rparr>\<rparr>)"
  "view_cover env_ref tiny_world 13 = (True, True, \<lparr>gorigin = \<lparr>px = -6, py = 0\<rparr>, gsize = \<lparr>sw = 4, sh = 2\<rparr>\<rparr>)"
  by (simp_all add: view_cover_def tiny_world_def tiny_output_def tiny_view_def tiny_surface_def view_blank_def surface_blank_def
      surface_state_blank_def region_rect_def region_zero_def wlc_view_get_opaque_def wlc_view_get_bounds_def
      wlc_surface_get_opaque_def visible_origin_def wlc_size_max_def math_ref_def fp_ref_def dbl_def real_to_i32_def real_to_u32_def
      u32_real_def i32_of_u32_def u32_of_i32_def i32_def in_i32_def Let_def trunc_def)

lemma tiny_settled: "view_settled env_ref tiny_world 11" "view_settled env_ref tiny_world 12" "view_settled env_ref tiny_world 13"
  unfolding view_settled_def tiny_cover
  by (simp_all add: tiny_world_def tiny_output_def tiny_view_def view_blank_def in_i32_def Let_def)

lemma tiny_screen: "small_screen \<lparr>sw = 4, sh = 2\<rparr>"
  by (simp add: small_screen_def)

lemma tiny_shown: "view_shown tiny_world 1 11" "view_shown tiny_world 1 12"
  by (simp_all add: view_shown_def tiny_world_def tiny_output_def tiny_view_def tiny_surface_def view_blank_def surface_blank_def
      surface_state_blank_def any_bit_def)

lemma tiny_area: "view_area env_ref tiny_world \<lparr>sw = 4, sh = 2\<rparr> 11 = screen \<lparr>sw = 4, sh = 2\<rparr>"
  "view_area env_ref tiny_world \<lparr>sw = 4, sh = 2\<rparr> 12 = screen \<lparr>sw = 4, sh = 2\<rparr>"
  unfolding view_area_def tiny_cover
  by (simp_all add: view_corners_def math_ref_def Let_def rect_def screen_def i32_of_u32_def u32_of_i32_def)

theorem visible_views_are_painters_witness:
  "map_option o_visible (output_of (snd (get_visible_views env_ref 1 tiny_world)) 1) = Some [11] \<and>
   \<not> fst (get_visible_views env_ref 1 tiny_world)"
proof -
  obtain bg w' where gv: "get_visible_views env_ref 1 tiny_world = (bg, w')" by fastforce
  have out: "output_of tiny_world 1 = Some tiny_output" by (simp add: tiny_world_def)
  have x: "o_blit tiny_output = Some (replicate 8 False)" "o_visible tiny_output = []" "o_virtual tiny_output = \<lparr>sw = 4, sh = 2\<rparr>"
    "o_views tiny_output = [12, 11]" "o_active_mask tiny_output = 1"
    by (simp_all add: tiny_output_def output_blank_def)
  have hide: "view_hides env_ref tiny_world 11" by (simp add: view_hides_def tiny_cover)
  have cov: "covered_by env_ref tiny_world \<lparr>sw = 4, sh = 2\<rparr> 1 [11] = screen \<lparr>sw = 4, sh = 2\<rparr>"
    "covered_by env_ref tiny_world \<lparr>sw = 4, sh = 2\<rparr> 1 [12, 11] = screen \<lparr>sw = 4, sh = 2\<rparr>"
    using tiny_shown hide tiny_area by (auto simp: covered_by_def)
  have "(0, 0) \<in> screen \<lparr>sw = 4, sh = 2\<rparr>" by (simp add: screen_def)
  then have p: "painted env_ref tiny_world \<lparr>sw = 4, sh = 2\<rparr> 1 [12, 11] = [11]"
    using cov tiny_area tiny_shown by (auto simp: covered_by_def)
  have push: "\<And>xs y. push_front (hp env_ref) xs y = Some (y # xs)" by (simp add: pool_ref_def)
  have "map_option o_visible (output_of w' 1) =
      Some (painted env_ref tiny_world (o_virtual tiny_output) (o_active_mask tiny_output) (o_views tiny_output)) \<and>
    bg = (\<not> screen (o_virtual tiny_output) \<subseteq> covered_by env_ref tiny_world (o_virtual tiny_output) (o_active_mask tiny_output) (o_views tiny_output))"
    using visible_views_are_painters [OF out x(1,2) _ _ _ push _ gv] tiny_screen tiny_settled by (simp add: x)
  then show ?thesis using gv p cov by (simp add: x)
qed

theorem offscreen_view_claims_column_witness:
  "view_area env_ref tiny_world \<lparr>sw = 4, sh = 2\<rparr> 13 = {(0, y) | y. 0 \<le> y \<and> y < 2}"
  using offscreen_view_claims_column [OF tiny_screen _ tiny_settled(3) refl] by (simp add: tiny_cover)

end
