(* ===== verification/Keep.thy ===== *)
theory Keep
  imports World
begin

text \<open>
  Walking down the body of an operation: a predicate on worlds that every step keeps is kept by the
  body. The rules follow the shapes the definitions have (sequences of \<open>let\<close>, branches, loops over a
  list), for operations that return a world and for those that return a result and a world.
\<close>

locale keeping =
  fixes K :: "world \<Rightarrow> bool"
begin

lemma keep_let_world: "K a \<Longrightarrow> (\<And>w :: world. K w \<Longrightarrow> K (F w)) \<Longrightarrow> K (Let a F)"
  "K a \<Longrightarrow> (\<And>w :: world. K w \<Longrightarrow> K (snd (G w))) \<Longrightarrow> K (snd (Let a G))"
  by (simp_all add: Let_def)

lemma keep_let: "(\<And>x. K (F x)) \<Longrightarrow> K (Let a F)" "(\<And>x. K (snd (G x))) \<Longrightarrow> K (snd (Let a G))"
  by (simp_all add: Let_def)

lemma keep_pair_world:
  "K (snd p) \<Longrightarrow> (\<And>b (w :: world). K w \<Longrightarrow> K (F b w)) \<Longrightarrow> K (case p of (b, w) \<Rightarrow> F b w)"
  "K (snd p) \<Longrightarrow> (\<And>b (w :: world). K w \<Longrightarrow> K (snd (G b w))) \<Longrightarrow> K (snd (case p of (b, w) \<Rightarrow> G b w))"
  by (cases p; simp)+

lemma keep_let_pair_world:
  "K (snd p) \<Longrightarrow> (\<And>b (w :: world). K w \<Longrightarrow> K (F b w)) \<Longrightarrow> K (let (b, w) = p in F b w)"
  "K (snd p) \<Longrightarrow> (\<And>b (w :: world). K w \<Longrightarrow> K (snd (G b w))) \<Longrightarrow> K (snd (let (b, w) = p in G b w))"
  by (cases p; simp)+

lemma keep_pair: "(\<And>b c. K (F b c)) \<Longrightarrow> K (case p of (b, c) \<Rightarrow> F b c)"
  "(\<And>b c. K (snd (G b c))) \<Longrightarrow> K (snd (case p of (b, c) \<Rightarrow> G b c))"
  by (cases p; simp)+

lemma keep_if: "K a \<Longrightarrow> K b \<Longrightarrow> K (if P then a else b)"
  "K (snd c) \<Longrightarrow> K (snd d) \<Longrightarrow> K (snd (if P then c else d))"
  by simp_all

lemma keep_option:
  "K a \<Longrightarrow> (\<And>x. K (F x)) \<Longrightarrow> K (case v of None \<Rightarrow> a | Some x \<Rightarrow> F x)"
  "K (snd b) \<Longrightarrow> (\<And>x. K (snd (G x))) \<Longrightarrow> K (snd (case v of None \<Rightarrow> b | Some x \<Rightarrow> G x))"
  by (simp_all split: option.split)

lemma keep_snd: "K w \<Longrightarrow> K (snd (b, w))"
  by simp

lemma keep_fold: "K w \<Longrightarrow> (\<And>x w. K w \<Longrightarrow> K (f x w)) \<Longrightarrow> K (fold f xs w)"
  by (induction xs arbitrary: w) simp_all

lemmas keep_walk = keep_snd keep_let_world keep_let_pair_world keep_pair_world keep_if keep_option keep_fold keep_let keep_pair

end

end
