(* ===== verification/Clock.thy ===== *)
theory Clock
  imports Output Keep Sample
begin

text \<open>
  The frame clock of an output. A repaint is requested by arming the timer of the output, is painted when
  the timer fires, and ends when the backend reports the page flip. The two promises: a scheduled repaint
  always has its timer armed or a frame on its way (no wakeup is lost), and there is never more than one
  frame on its way.

  What callbacks of the author may do in between is an arbitrary predicate \<open>K\<close> they keep: the first
  locale shows that every operation that is not part of the clock keeps such a predicate too.
\<close>

section \<open>Predicates every operation keeps\<close>

definition saves1 :: "(world \<Rightarrow> bool) \<Rightarrow> ('a \<Rightarrow> world \<Rightarrow> world) option \<Rightarrow> bool" where
  "saves1 K f \<longleftrightarrow> (\<forall>g. f = Some g \<longrightarrow> (\<forall>a w. K w \<longrightarrow> K (g a w)))"

definition saves1r :: "(world \<Rightarrow> bool) \<Rightarrow> ('a \<Rightarrow> world \<Rightarrow> bool \<times> world) option \<Rightarrow> bool" where
  "saves1r K f \<longleftrightarrow> (\<forall>g. f = Some g \<longrightarrow> (\<forall>a w. K w \<longrightarrow> K (snd (g a w))))"

definition saves2 :: "(world \<Rightarrow> bool) \<Rightarrow> ('a \<Rightarrow> 'b \<Rightarrow> world \<Rightarrow> world) option \<Rightarrow> bool" where
  "saves2 K f \<longleftrightarrow> (\<forall>g. f = Some g \<longrightarrow> (\<forall>a b w. K w \<longrightarrow> K (g a b w)))"

definition saves3 :: "(world \<Rightarrow> bool) \<Rightarrow> ('a \<Rightarrow> 'b \<Rightarrow> 'c \<Rightarrow> world \<Rightarrow> world) option \<Rightarrow> bool" where
  "saves3 K f \<longleftrightarrow> (\<forall>g. f = Some g \<longrightarrow> (\<forall>a b c w. K w \<longrightarrow> K (g a b c w)))"

text \<open>The callbacks and listeners a frame or a change of the backend can reach keep \<open>K\<close>.\<close>

definition env_saves :: "env \<Rightarrow> (world \<Rightarrow> bool) \<Rightarrow> bool" where
  "env_saves E K \<longleftrightarrow>
     (let F = iface E in
      saves3 K (if_output_resolution F) \<and> saves1 K (if_output_context_created F) \<and>
      saves1 K (if_output_context_destroyed F) \<and> saves1 K (if_output_render_pre F) \<and>
      saves1 K (if_output_render_post F) \<and> saves1r K (if_view_created F) \<and>
      saves3 K (if_view_move_to_output F) \<and>
      saves1 K (if_view_render_pre F) \<and> saves1 K (if_view_render_post F) \<and>
      (\<forall>e w. K w \<longrightarrow> K (sig_output E e w)) \<and> (\<forall>e w. K w \<longrightarrow> K (sig_render E e w)) \<and>
      (\<forall>r w. K w \<longrightarrow> K (release_resource E r w)) \<and> (\<forall>c w. K w \<longrightarrow> K (ext_client_destroy E c w)))"

lemma call_saves:
  "saves1 K f1 \<Longrightarrow> K w \<Longrightarrow> K (call1 f1 a w)"
  "saves3 K f3 \<Longrightarrow> K w \<Longrightarrow> K (call3 f3 a b c w)"
  "saves1r K g1 \<Longrightarrow> K w \<Longrightarrow> K (snd (call1_except g1 x a w))"
  by (auto simp: saves1_def saves3_def saves1r_def call1_def call3_def call1_except_def split: option.split prod.splits)
     (metis snd_conv)+

text \<open>Events that are not events of the clock.\<close>

fun clock_event :: "event \<Rightarrow> bool" where
  "clock_event (Timer_update _ _) = True"
| "clock_event (Timer_remove _) = True"
| "clock_event (Timer_fired _) = True"
| "clock_event (Ctx_swap _) = True"
| "clock_event _ = False"

locale saved = keeping K for K :: "world \<Rightarrow> bool" +
  assumes emit: "\<And>e w. \<not> clock_event e \<Longrightarrow> K w \<Longrightarrow> K (emit e w)"
    and fail: "\<And>f w. K w \<Longrightarrow> K (fail f w)"
    and upd_view: "\<And>h f w. K w \<Longrightarrow> K (upd_view h f w)"
    and upd_surface: "\<And>r f w. K w \<Longrightarrow> K (upd_surface r f w)"
    and upd_buffer: "\<And>r f w. K w \<Longrightarrow> K (upd_buffer r f w)"
    and upd_output: "\<And>h f w. (\<And>x. o_pending (f x) = o_pending x) \<Longrightarrow> (\<And>x. o_scheduled (f x) = o_scheduled x) \<Longrightarrow>
          K w \<Longrightarrow> K (upd_output h f w)"
    and schedule: "\<And>h w. K w \<Longrightarrow> K (wlc_output_schedule_repaint h w)"
    and serial: "\<And>n w. K w \<Longrightarrow> K (w\<lparr>w_serial := n\<rparr>)"
    and rendering: "\<And>n w. K w \<Longrightarrow> K (w\<lparr>w_rendering_output := n\<rparr>)"
begin

lemma calls:
  assumes "env_saves E K"
  shows
  "K w \<Longrightarrow> K (call3 (if_output_resolution (iface E)) a b c w)"
  "K w \<Longrightarrow> K (call1 (if_output_context_created (iface E)) h w)"
  "K w \<Longrightarrow> K (call1 (if_output_context_destroyed (iface E)) h w)"
  "K w \<Longrightarrow> K (call1 (if_output_render_pre (iface E)) h w)"
  "K w \<Longrightarrow> K (call1 (if_output_render_post (iface E)) h w)"
  "K w \<Longrightarrow> K (snd (call1_except (if_view_created (iface E)) x h w))"
  "K w \<Longrightarrow> K (call3 (if_view_move_to_output (iface E)) h b1 c1 w)"
  "K w \<Longrightarrow> K (call1 (if_view_render_pre (iface E)) h w)"
  "K w \<Longrightarrow> K (call1 (if_view_render_post (iface E)) h w)"
  "K w \<Longrightarrow> K (sig_output E oe w)" "K w \<Longrightarrow> K (sig_render E h w)"
  "K w \<Longrightarrow> K (release_resource E h w)" "K w \<Longrightarrow> K (ext_client_destroy E h w)"
  using assms [unfolded env_saves_def Let_def] by (simp_all add: call_saves)

lemmas basic = emit fail upd_view upd_surface upd_buffer upd_output schedule serial rendering calls

lemma view_update: "K w \<Longrightarrow> K (wlc_view_update vid w)"
  unfolding wlc_view_update_def by (rule keep_walk basic calls | assumption)+

lemma surface_destroy: "K w \<Longrightarrow> K (wlc_output_surface_destroy E oid sid w)"
  unfolding wlc_output_surface_destroy_def by (rule keep_walk basic calls | assumption | simp; fail)+

lemma surface_invalidate: "K w \<Longrightarrow> K (wlc_surface_invalidate E sid w)"
  unfolding wlc_surface_invalidate_def by (rule keep_walk surface_destroy | assumption)+

lemma render_attach: "K w \<Longrightarrow> K (snd (wlc_render_surface_attach E oid sid bid w))"
  unfolding wlc_render_surface_attach_def by (rule keep_walk basic calls | assumption | simp; fail)+

lemma output_attach: "K w \<Longrightarrow> K (snd (wlc_output_surface_attach E oid sid bid w))"
  unfolding wlc_output_surface_attach_def
  by (rule surface_invalidate render_attach keep_walk basic calls | assumption | simp; fail)+

lemma attach_to_output: "K w \<Longrightarrow> K (snd (wlc_surface_attach_to_output E sid oid bid w))"
  unfolding wlc_surface_attach_to_output_def attached_transform_def inherited_transform_def
  by (rule output_attach keep_walk basic calls | assumption | simp; fail)+

lemma attach_view': "K w \<Longrightarrow> K (snd (attach_view E oid vid w))"
  unfolding attach_view_def by (rule attach_to_output keep_walk basic calls | assumption | simp; fail)+

lemma link_view: "env_saves E K \<Longrightarrow> K w \<Longrightarrow> K (wlc_output_link_view E oid vid link other w)"
  unfolding wlc_output_link_view_def link_take_off_def
  by (rule attach_view' keep_walk basic calls | assumption | simp; fail)+

lemma configure: "K w \<Longrightarrow> K (configure_view vid edges g w)"
  unfolding configure_view_def next_serial_def
    wlc_x11_window_configure_def by (rule keep_walk basic calls | assumption | simp; fail)+

lemma close: "env_saves E K \<Longrightarrow> K w \<Longrightarrow> K (wlc_view_close_ptr E vid w)"
  unfolding wlc_view_close_ptr_def wlc_x11_window_close_def by (rule keep_walk basic calls | assumption | simp; fail)+

lemma announce: "env_saves E K \<Longrightarrow> K w \<Longrightarrow> K (snd (announce_view E vid s w))"
  unfolding announce_view_def by (rule close keep_walk basic calls | assumption | simp; fail)+

lemma tree_transform: "K w \<Longrightarrow> K (surface_tree_update_coordinate_transform E sid area w)"
  unfolding surface_tree_update_coordinate_transform_def surface_update_coordinate_transform_def
  by (rule keep_walk basic calls | assumption | simp; fail)+

lemma commit_transform': "K w \<Longrightarrow> K (commit_transform E vid sid w)"
  unfolding commit_transform_def by (rule tree_transform keep_walk basic calls | assumption | simp; fail)+

lemma commit_pending': "K w \<Longrightarrow> K (commit_pending E vid sid w)"
  unfolding commit_pending_def by (rule configure commit_transform' keep_walk basic calls | assumption | simp; fail)+

lemma view_commit: "env_saves E K \<Longrightarrow> K w \<Longrightarrow> K (wlc_view_commit_state E vid w)"
  unfolding wlc_view_commit_state_def by (rule announce commit_pending' keep_walk basic calls | assumption | simp; fail)+

lemma push_to_resource: "K w \<Longrightarrow> K (output_push_to_resource E oid r w)"
  unfolding output_push_to_resource_def by (rule keep_walk basic calls | assumption | simp; fail)+

lemma push_to_resources: "K w \<Longrightarrow> K (output_push_to_resources E oid w)"
  unfolding output_push_to_resources_def by (rule push_to_resource keep_walk | assumption)+

lemma set_resolution: "env_saves E K \<Longrightarrow> K w \<Longrightarrow> K (snd (wlc_output_set_resolution_ptr E oid res sc w))"
  unfolding wlc_output_set_resolution_ptr_def by (rule push_to_resources keep_walk basic calls | assumption | simp; fail)+

lemma set_information: "env_saves E K \<Longrightarrow> K w \<Longrightarrow> K (wlc_output_set_information E oid info w)"
  unfolding wlc_output_set_information_def by (rule set_resolution keep_walk basic calls | assumption | simp; fail)+

lemma destroy_all: "K w \<Longrightarrow> K (destroy_surfaces oid w)"
  unfolding destroy_surfaces_def by (rule keep_walk basic calls | assumption | simp; fail)+

lemma reattach: "K w \<Longrightarrow> reattach_surfaces n E oid i w = Some w' \<Longrightarrow> K w'"
proof (induction n arbitrary: i w)
  case (Suc n)
  then show ?case using Suc.IH [OF attach_to_output [OF Suc.prems(1)]] Suc.IH [OF Suc.prems(1)]
    by (simp add: Let_def split: if_splits)
qed simp

lemma returned_saved: "K w \<Longrightarrow> (\<And>w'. r = Some w' \<Longrightarrow> K w') \<Longrightarrow> K (returned r w)"
  by (cases r) (simp_all add: returned_def fail)

lemma release_backend': "env_saves E K \<Longrightarrow> K w \<Longrightarrow> K (release_backend E oid w)"
  unfolding release_backend_def by (rule destroy_all keep_walk basic calls | assumption | simp; fail)+

lemma visible_one: "env_saves E K \<Longrightarrow> K w \<Longrightarrow> K (visible_step E oid h w)"
  unfolding visible_step_def hide_x11_def wlc_x11_window_configure_def wlc_x11_set_window_hidden_def prod.case_distrib
  by (rule view_commit keep_walk basic calls | assumption | simp; fail)+

lemma visible_all: "env_saves E K \<Longrightarrow> K w \<Longrightarrow> K (visible_loop i E oid w)"
  by (induction i arbitrary: w) (simp_all add: Let_def visible_one)

lemma visible_views: "env_saves E K \<Longrightarrow> K w \<Longrightarrow> K (snd (get_visible_views E oid w))"
  unfolding get_visible_views_def by (rule visible_all keep_walk basic calls | assumption | simp; fail)+

lemma subsurface: "K w \<Longrightarrow> K (render_subsurface E oid sid offset sc w)"
  unfolding render_subsurface_def by (rule keep_walk basic calls | assumption | simp; fail)+

lemma callbacks_taken: "K w \<Longrightarrow> K (take_callbacks E oid sid w)"
  unfolding take_callbacks_def upd_slot_def by (rule keep_walk basic calls | assumption | simp; fail)+

lemma subsurfaces_both:
  "(\<forall>sid sc offset w w'. K w \<longrightarrow> subsurfaces_render n E oid sid sc offset w = Some w' \<longrightarrow> K w') \<and>
   (\<forall>cs sc offset w w'. K w \<longrightarrow> render_children n E oid cs sc offset w = Some w' \<longrightarrow> K w')"
proof (induction n)
  case 0
  have "K w'" if "K w" "render_children 0 E oid cs sc offset w = Some w'" for cs sc offset w w'
    using that by (cases cs) simp_all
  then show ?case by simp
next
  case (Suc n)
  note tree = Suc.IH [THEN conjunct1, rule_format] and children = Suc.IH [THEN conjunct2, rule_format]
  have "K w'" if "K w" "subsurfaces_render (Suc n) E oid sid sc offset w = Some w'" for sid sc offset w w'
    using that children [OF that(1)] children [OF subsurface [OF that(1), of E oid sid offset sc]]
    by (cases sc) (auto simp: Let_def intro!: callbacks_taken split: option.splits if_splits)
  moreover have "K w'" if "K w" "render_children (Suc n) E oid cs sc offset w = Some w'" for cs sc offset w w'
  proof (cases cs)
    case Nil
    then show ?thesis using that by (cases sc) simp
  next
    case (Cons c l)
    note prem = that(2)
    obtain x where "subsurfaces_render n E oid c sc offset w = Some x" "render_children n E oid l sc offset x = Some w'"
      using prem Cons by (cases sc) (auto split: option.splits)
    then show ?thesis using tree [OF that(1)] children by blast
  qed
  ultimately show ?case by blast
qed

lemma subsurfaces: "K w \<Longrightarrow> subsurfaces_render n E oid sid sc offset w = Some w' \<Longrightarrow> K w'"
  using subsurfaces_both by blast

lemma view_rendered: "env_saves E K \<Longrightarrow> K w \<Longrightarrow> K (render_view E oid vid w)"
  unfolding render_view_def by (rule returned_saved keep_walk basic calls | assumption | erule (1) subsurfaces | simp; fail)+

lemma paint: "env_saves E K \<Longrightarrow> K w \<Longrightarrow> K (paint_frame E oid w)"
  unfolding paint_frame_def paint_views_def
  by (rule visible_views view_rendered keep_walk basic calls | assumption | simp; fail)+

lemma callbacks_sent: "env_saves E K \<Longrightarrow> K w \<Longrightarrow> K (send_callbacks E oid w)"
  unfolding send_callbacks_def by (rule keep_walk basic calls | assumption | simp; fail)+

end

section \<open>The state of the clock\<close>

definition frame_pending :: "nat \<Rightarrow> world \<Rightarrow> bool" where
  "frame_pending oid w = o_field o_pending False oid w"

text \<open>Whether the timer runs, from what was done to it.\<close>

definition arm :: "nat \<Rightarrow> event \<Rightarrow> bool \<Rightarrow> bool" where
  "arm oid e a =
     (case e of
        Timer_update h n \<Rightarrow> if h = oid then n > 0 else a
      | Timer_remove h \<Rightarrow> if h = oid then False else a
      | Timer_fired h \<Rightarrow> if h = oid then False else a
      | _ \<Rightarrow> a)"

definition armed :: "nat \<Rightarrow> world \<Rightarrow> bool" where
  "armed oid w = fold (arm oid) (w_trace w) False"

definition swaps :: "nat \<Rightarrow> world \<Rightarrow> nat" where
  "swaps oid w = length (filter (\<lambda>e. e = Ctx_swap oid) (w_trace w))"

definition stalled :: "nat \<Rightarrow> world \<Rightarrow> bool" where
  "stalled oid w \<longleftrightarrow> o_field o_scheduled False oid w \<and> \<not> armed oid w"

text \<open>What everything but the timer and the page flip does to the clock: frames on their way stay as they
  are, nothing is swapped, and no repaint is scheduled without its timer.\<close>

definition quiet :: "nat \<Rightarrow> world \<Rightarrow> world \<Rightarrow> bool" where
  "quiet oid w0 w \<longleftrightarrow>
     frame_pending oid w = frame_pending oid w0 \<and> swaps oid w = swaps oid w0 \<and> (stalled oid w \<longrightarrow> stalled oid w0)"

lemma quiet_refl [simp]: "quiet oid w w"
  by (simp add: quiet_def)

lemma quiet_trans: "quiet oid w0 w1 \<Longrightarrow> quiet oid w1 w2 \<Longrightarrow> quiet oid w0 w2"
  by (auto simp: quiet_def)

lemma o_field_other [simp]:
  "o_field f d oid (emit e w) = o_field f d oid w" "o_field f d oid (fail x w) = o_field f d oid w"
  "o_field f d oid (upd_view h g w) = o_field f d oid w" "o_field f d oid (upd_surface r gs w) = o_field f d oid w"
  "o_field f d oid (upd_buffer r gb w) = o_field f d oid w"
  "o_field f d oid (w\<lparr>w_serial := n\<rparr>) = o_field f d oid w"
  "o_field f d oid (w\<lparr>w_rendering_output := m\<rparr>) = o_field f d oid w"
  by (simp_all add: o_field_def output_of_def)

lemma o_field_upd_output:
  "o_field f d oid (upd_output h g w) = (if oid = h then o_field (\<lambda>x. f (g x)) d oid w else o_field f d oid w)"
  by (simp add: o_field_def split: option.split)

lemma armed_emit: "armed oid (emit e w) = arm oid e (armed oid w)"
  by (simp add: armed_def emit_def)

lemma arm_simps [simp]:
  "arm oid (Timer_update h n) a = (if h = oid then n > 0 else a)"
  "arm oid (Timer_remove h) a = (h \<noteq> oid \<and> a)" "arm oid (Timer_fired h) a = (h \<noteq> oid \<and> a)"
  "\<not> clock_event e \<Longrightarrow> arm oid e a = a" "arm oid (Ctx_swap h) a = a"
  by (simp_all add: arm_def) (cases e; simp)

lemma swaps_emit: "swaps oid (emit e w) = swaps oid w + (if e = Ctx_swap oid then 1 else 0)"
  by (simp add: swaps_def emit_def)

lemma clock_other [simp]:
  "armed oid (fail x w) = armed oid w" "armed oid (upd_view h g w) = armed oid w"
  "armed oid (upd_surface r gs w) = armed oid w" "armed oid (upd_buffer r gb w) = armed oid w"
  "armed oid (upd_output h go w) = armed oid w"
  "armed oid (w\<lparr>w_serial := n\<rparr>) = armed oid w" "armed oid (w\<lparr>w_rendering_output := m\<rparr>) = armed oid w"
  "swaps oid (fail x w) = swaps oid w" "swaps oid (upd_view h g w) = swaps oid w"
  "swaps oid (upd_surface r gs w) = swaps oid w" "swaps oid (upd_buffer r gb w) = swaps oid w"
  "swaps oid (upd_output h go w) = swaps oid w"
  "swaps oid (w\<lparr>w_serial := n\<rparr>) = swaps oid w" "swaps oid (w\<lparr>w_rendering_output := m\<rparr>) = swaps oid w"
  by (simp_all add: armed_def swaps_def fail_def)

lemmas clock_defs = quiet_def frame_pending_def stalled_def

lemma quiet_cong:
  assumes "quiet oid w0 w" "o_field o_pending False oid w' = o_field o_pending False oid w"
    "o_field o_scheduled False oid w' = o_field o_scheduled False oid w" "armed oid w' = armed oid w" "swaps oid w' = swaps oid w"
  shows "quiet oid w0 w'"
  using assms by (simp add: clock_defs)

lemma quiet_schedule: "quiet oid w (wlc_output_schedule_repaint h w)"
  by (auto simp: clock_defs wlc_output_schedule_repaint_def Let_def o_field_def armed_emit swaps_emit split: option.split)

interpretation clock: saved "quiet oid w0" for oid w0
proof
  show "quiet oid w0 (emit e w)" if "\<not> clock_event e" "quiet oid w0 w" for e w
    by (rule quiet_cong [OF that(2)]) (use that(1) in \<open>auto simp: armed_emit swaps_emit\<close>)
  show "quiet oid w0 (wlc_output_schedule_repaint h w)" if "quiet oid w0 w" for h w
    using quiet_trans [OF that quiet_schedule] .
  show "quiet oid w0 (upd_output h f w)"
    if "\<And>x. o_pending (f x) = o_pending x" "\<And>x. o_scheduled (f x) = o_scheduled x" "quiet oid w0 w" for h f w
    by (rule quiet_cong [OF that(3)]) (simp_all add: o_field_upd_output that(1,2))
qed (erule quiet_cong; simp)+

section \<open>The operations of the clock\<close>

definition env_quiet :: "env \<Rightarrow> nat \<Rightarrow> bool" where
  "env_quiet E oid \<longleftrightarrow> (\<forall>w0. env_saves E (quiet oid w0))"

lemma env_quietD: "env_quiet E oid \<Longrightarrow> env_saves E (quiet oid w0)"
  by (simp add: env_quiet_def)

lemma quiet_unscheduled:
  assumes "frame_pending oid w' = frame_pending oid w" "swaps oid w' = swaps oid w" "\<not> o_field o_scheduled False oid w'"
  shows "quiet oid w w'"
  using assms by (simp add: quiet_def stalled_def)

lemma quiet_unschedule: "quiet oid w (upd_output h (\<lambda>x. x\<lparr>o_scheduled := False, o_activity := False\<rparr>) w)"
  "quiet oid w (upd_output h (\<lambda>x. x\<lparr>o_activity := False, o_scheduled := False\<rparr>) w)"
  by (auto simp: clock_defs o_field_upd_output o_field_def split: option.split)

lemma quiet_cancel: "quiet oid w (cancel_repaint h w)"
  by (auto simp: cancel_repaint_def clock_defs o_field_upd_output o_field_def armed_emit swaps_emit split: option.split)

lemmas quiet_then = quiet_trans [OF _ quiet_unschedule(1)] quiet_trans [OF _ quiet_unschedule(2)] quiet_trans [OF _ quiet_cancel]

lemma quiet_set_sleep: "quiet oid w (wlc_output_set_sleep_ptr h sleep w)"
  unfolding wlc_output_set_sleep_ptr_def
  by (rule quiet_then clock.keep_walk clock.basic quiet_refl | assumption | simp; fail)+

lemma quiet_remove_backend:
  assumes "env_quiet E oid"
  shows "quiet oid w (remove_backend E h w)"
proof -
  note e = env_quietD [OF assms]
  have "quiet oid w (cancel_repaint h (release_backend E h w))"
    using quiet_trans [OF clock.release_backend' [OF e quiet_refl] quiet_cancel] .
  then show ?thesis unfolding remove_backend_def by (rule clock.calls(10) [OF e])
qed

lemma quiet_backend_none:
  assumes "env_quiet E oid"
  shows "quiet oid w (wlc_output_set_backend_surface_none E h w)"
  using quiet_remove_backend [OF assms]
  by (simp add: wlc_output_set_backend_surface_none_def clock.fail clock.upd_output split: option.split)

lemma quiet_backend:
  assumes "env_quiet E oid"
  shows "quiet oid w (snd (wlc_output_set_backend_surface E h bs w))"
proof (cases bs)
  case None
  then show ?thesis using quiet_backend_none [OF assms] by (simp add: wlc_output_set_backend_surface_def)
next
  case (Some b)
  note e = env_quietD [OF assms]
  have n: "quiet oid w v \<Longrightarrow> quiet oid w (wlc_output_set_backend_surface_none E h v)" for v
    using quiet_trans [OF _ quiet_backend_none [OF assms]] .
  have r: "quiet oid w v \<Longrightarrow> quiet oid w (returned (reattach_surfaces m E h i v) v)" for v m i
    by (rule clock.returned_saved) (auto intro: clock.reattach)
  show ?thesis
    unfolding wlc_output_set_backend_surface_def Some option.case
    by (rule clock.keep_walk n r clock.release_backend' clock.basic clock.calls e quiet_refl | assumption | simp; fail)+
qed

lemma quiet_terminate:
  assumes "env_quiet E oid"
  shows "quiet oid w (wlc_output_terminate E h w)"
  unfolding wlc_output_terminate_def
  by (rule clock.keep_walk clock.basic clock.calls env_quietD [OF assms] quiet_refl | assumption | simp; fail)+

lemma quiet_tasks:
  assumes "env_quiet E oid"
  shows "quiet oid w (finish_frame_tasks E h w)"
proof -
  have b: "quiet oid v (task_backend E h v)" for v
    unfolding task_backend_def
    by (rule clock.keep_walk clock.basic quiet_backend [OF assms] quiet_refl | assumption | simp; fail)+
  have s: "quiet oid v (task_sleep h v)" for v
    unfolding task_sleep_def by (rule clock.keep_walk clock.basic quiet_set_sleep quiet_refl | assumption | simp; fail)+
  have t: "quiet oid v (task_terminate E h v)" for v
    unfolding task_terminate_def
    by (rule clock.keep_walk clock.basic quiet_terminate [OF assms] quiet_refl | assumption | simp; fail)+
  show ?thesis unfolding finish_frame_tasks_def by (rule quiet_trans [OF quiet_trans [OF b s] t])
qed

text \<open>A repaint either paints nothing and leaves no repaint scheduled without its timer, or it puts one
  frame on its way where there was none.\<close>

lemma swap_clock:
  "output_of w oid \<noteq> None \<Longrightarrow> frame_pending oid (swap_buffers oid w) \<and> swaps oid (swap_buffers oid w) = swaps oid w + 1"
  "output_of w oid = None \<Longrightarrow> swap_buffers oid w = fail Wild_pointer w"
  "h \<noteq> oid \<Longrightarrow> quiet oid w (swap_buffers h w)"
  by (auto simp: swap_buffers_def clock_defs o_field_upd_output o_field_def armed_emit swaps_emit)

lemma gone_clock: "output_of w oid = None \<Longrightarrow> \<not> frame_pending oid w \<and> \<not> stalled oid w"
  by (simp add: clock_defs o_field_def)

lemma repaint_clock:
  assumes "env_quiet E oid"
  shows "(frame_pending oid (snd (repaint E oid w)) = frame_pending oid w \<and> swaps oid (snd (repaint E oid w)) = swaps oid w \<and>
          \<not> stalled oid (snd (repaint E oid w))) \<or>
         (\<not> frame_pending oid w \<and> frame_pending oid (snd (repaint E oid w)) \<and> swaps oid (snd (repaint E oid w)) = swaps oid w + 1)"
proof (cases "output_of w oid")
  case None
  then show ?thesis using gone_clock [of w oid] by (simp add: repaint_def)
next
  case (Some x)
  note e = env_quietD [OF assms]
  show ?thesis
  proof (cases "should_render w x")
    case False
    let ?w1 = "upd_output oid (\<lambda>x. x\<lparr>o_activity := False, o_scheduled := False\<rparr>) w"
    have "\<not> stalled oid ?w1" using Some by (simp add: stalled_def o_field_upd_output o_field_def)
    then show ?thesis
      using Some False quiet_unschedule(2) [of oid w oid] quiet_tasks [OF assms, of ?w1 oid]
      by (simp add: repaint_def quiet_def)
  next
    case True
    let ?w1 = "emit (Rd_resolution oid (o_mode x) (o_virtual x) (o_scale x)) w"
    define w2 where "w2 = (if o_sleeping x then emit (Rd_clear oid) ?w1 else paint_frame E oid ?w1)"
    have "quiet oid w w2" unfolding w2_def by (rule clock.keep_walk clock.paint [OF e] clock.emit quiet_refl | simp; fail)+
    moreover have "\<not> frame_pending oid w" using Some True by (simp add: should_render_def frame_pending_def o_field_def)
    ultimately have q: "\<not> frame_pending oid w" "\<not> frame_pending oid w2" "swaps oid w2 = swaps oid w"
      by (simp_all add: quiet_def)
    define w3 where "w3 = swap_buffers oid w2"
    define w4 where "w4 = (if o_sleeping x then w3 else send_callbacks E oid w3)"
    have "quiet oid w3 w4" unfolding w4_def by (rule clock.keep_walk clock.callbacks_sent [OF e] quiet_refl)+
    moreover have "snd (repaint E oid w) = w4"
      using Some True by (simp add: repaint_def Let_def w4_def w3_def w2_def)
    moreover have "(frame_pending oid w3 \<and> swaps oid w3 = swaps oid w + 1) \<or>
        (\<not> frame_pending oid w3 \<and> \<not> stalled oid w3 \<and> swaps oid w3 = swaps oid w)"
    proof (cases "output_of w2 oid")
      case None
      then have "w3 = fail Wild_pointer w2" "output_of w3 oid = None" by (simp_all add: w3_def swap_buffers_def)
      then show ?thesis using gone_clock [of w3 oid] q by simp
    next
      case (Some y)
      then show ?thesis using swap_clock(1) [of w2 oid] q by (simp add: w3_def)
    qed
    ultimately show ?thesis using q by (auto simp: quiet_def)
  qed
qed

lemma repaint_other:
  assumes "env_quiet E oid" "h \<noteq> oid"
  shows "quiet oid w (snd (repaint E h w))"
proof -
  note e = env_quietD [OF assms(1)]
  have s: "quiet oid w v \<Longrightarrow> quiet oid w (swap_buffers h v)" for v
    using quiet_trans [OF _ swap_clock(3) [OF assms(2)]] .
  have t: "quiet oid w v \<Longrightarrow> quiet oid w (finish_frame_tasks E h v)" for v
    using quiet_trans [OF _ quiet_tasks [OF assms(1)]] .
  show ?thesis
    unfolding repaint_def
    by (rule s t clock.callbacks_sent [OF e] clock.paint [OF e] quiet_unschedule clock.keep_walk clock.emit quiet_refl | assumption | simp; fail)+
qed

lemma next_ims_range:
  assumes "chck_math_ok (mth E)"
  shows "1 \<le> real_to_i32 (next_ims E ims) \<and> real_to_i32 (next_ims E ims) \<le> 41"
proof -
  have r: "1 \<le> next_ims E ims" "next_ims E ims \<le> 41"
    using chck_math_okD(7) [OF assms, of 1 41] by (simp_all add: next_ims_def)
  then have t: "1 \<le> trunc (next_ims E ims)" "trunc (next_ims E ims) \<le> 41"
    by (simp_all add: trunc_def le_floor_iff floor_le_iff)
  then have "real_to_i32 (next_ims E ims) = trunc (next_ims E ims)"
    unfolding real_to_i32_def by (intro i32_id) (simp add: in_i32_def)
  then show ?thesis using t by simp
qed

lemma finish_clock:
  assumes "env_quiet E oid" "chck_math_ok (mth E)" "frame_pending oid w"
  shows "\<not> frame_pending oid (wlc_output_finish_frame E oid sec nsec w) \<and>
    swaps oid (wlc_output_finish_frame E oid sec nsec w) = swaps oid w \<and>
    \<not> stalled oid (wlc_output_finish_frame E oid sec nsec w)"
proof -
  obtain x where x: "output_of w oid = Some x" using assms(3) by (cases "output_of w oid") (simp_all add: frame_pending_def o_field_def)
  define w1 where "w1 = upd_output oid (\<lambda>x. x\<lparr>o_pending := False, o_frame_time := u32_of_i32 (sec * 1000 + nsec div 1000000)\<rparr>) w"
  define w2 where "w2 = (if o_activity x \<and> \<not> o_task_terminate x
                   then upd_output oid (\<lambda>x. x\<lparr>o_scheduled := True, o_activity := False\<rparr>)
                          (emit (Timer_update oid (real_to_i32 (next_ims E (o_ims x))))
                            (upd_output oid (\<lambda>x. x\<lparr>o_ims := next_ims E (o_ims x)\<rparr>) w1))
                   else upd_output oid (\<lambda>x. x\<lparr>o_scheduled := False\<rparr>) w1)"
  have "wlc_output_finish_frame E oid sec nsec w = finish_frame_tasks E oid w2"
    using x by (simp add: wlc_output_finish_frame_def Let_def w2_def w1_def)
  moreover have "\<not> frame_pending oid w2 \<and> swaps oid w2 = swaps oid w \<and> \<not> stalled oid w2"
    using x next_ims_range [OF assms(2), of "o_ims x"]
    by (auto simp: w2_def w1_def clock_defs o_field_upd_output o_field_def armed_emit swaps_emit)
  ultimately show ?thesis using quiet_tasks [OF assms(1), of w2 oid] by (auto simp: quiet_def)
qed

lemma finish_other:
  assumes "env_quiet E oid" "h \<noteq> oid"
  shows "quiet oid w (wlc_output_finish_frame E h sec nsec w)"
proof -
  have t: "quiet oid w v \<Longrightarrow> quiet oid w (finish_frame_tasks E h v)" for v
    using quiet_trans [OF _ quiet_tasks [OF assms(1)]] .
  have u: "quiet oid w v \<Longrightarrow> quiet oid w (upd_output h f v)" for f v
    using assms(2) by (simp add: clock_defs o_field_upd_output)
  have m: "quiet oid w v \<Longrightarrow> quiet oid w (emit (Timer_update h n) v)" for n v
    using assms(2) by (simp add: clock_defs armed_emit swaps_emit)
  show ?thesis
    unfolding wlc_output_finish_frame_def
    by (rule t u m clock.keep_walk quiet_refl | assumption)+
qed

section \<open>Runs\<close>

text \<open>From \<open>w0\<close> to \<open>w\<close> with \<open>n\<close> page flips of output \<open>oid\<close>: timers that run fire, frames on their way are
  flipped, and in between come requests.\<close>

inductive clock_run :: "env \<Rightarrow> nat \<Rightarrow> world \<Rightarrow> nat \<Rightarrow> world \<Rightarrow> bool" for E oid w0 where
  run_begin: "clock_run E oid w0 0 w0"
| run_timer: "clock_run E oid w0 n w \<Longrightarrow> armed h w \<Longrightarrow> clock_run E oid w0 n (cb_idle_timer E h w)"
| run_flip: "clock_run E oid w0 n w \<Longrightarrow> frame_pending h w \<Longrightarrow>
    clock_run E oid w0 (if h = oid then Suc n else n) (wlc_output_finish_frame E h sec nsec w)"
| run_request: "clock_run E oid w0 n w \<Longrightarrow> quiet oid w w' \<Longrightarrow> clock_run E oid w0 n w'"

text \<open>C1 (safety). The frame clock of an output: over any run of timers, page flips and requests, with callbacks that do
  not run the clock themselves, a scheduled repaint always has its timer armed or a frame on its way, so no
  wakeup is lost; and the buffers swapped are the pages flipped and the one frame that may be on its way, so no
  frame is painted before the last one is shown.\<close>

theorem frame_clock_sound:
  assumes "chck_math_ok (mth E)" and "env_quiet E oid" and "clock_run E oid w0 n w"
    and "\<not> frame_pending oid w0" and "\<not> stalled oid w0"
  shows "(o_field o_scheduled False oid w \<longrightarrow> armed oid w \<or> frame_pending oid w) \<and>
    swaps oid w = swaps oid w0 + n + (if frame_pending oid w then 1 else 0)"
proof -
  have "(stalled oid w \<longrightarrow> frame_pending oid w) \<and> swaps oid w = swaps oid w0 + n + (if frame_pending oid w then 1 else 0)"
    using assms(3)
  proof induction
    case run_begin
    then show ?case using assms(4,5) by simp
  next
    case (run_timer n w h)
    let ?v = "emit (Timer_fired h) w"
    have v: "frame_pending oid ?v = frame_pending oid w" "swaps oid ?v = swaps oid w" "h \<noteq> oid \<Longrightarrow> quiet oid w ?v"
      by (simp_all add: clock_defs armed_emit swaps_emit)
    show ?case
    proof (cases "h = oid")
      case True
      then show ?thesis using repaint_clock [OF assms(2), of ?v] v run_timer.IH by (auto simp: cb_idle_timer_def)
    next
      case False
      then have "quiet oid w (cb_idle_timer E h w)"
        using quiet_trans [OF v(3) repaint_other [OF assms(2)]] by (simp add: cb_idle_timer_def)
      then show ?thesis using run_timer.IH by (auto simp: quiet_def)
    qed
  next
    case (run_flip n w h sec nsec)
    show ?case
    proof (cases "h = oid")
      case True
      then show ?thesis using finish_clock [OF assms(2,1), of w sec nsec] run_flip by simp
    next
      case False
      then show ?thesis using finish_other [OF assms(2) False, of w sec nsec] run_flip.IH by (auto simp: quiet_def)
    qed
  next
    case (run_request n w w')
    then show ?case by (auto simp: quiet_def)
  qed
  then show ?thesis by (auto simp: stalled_def)
qed

lemma env_ref_quiet: "env_quiet env_ref oid"
  by (simp add: env_quiet_def env_saves_def saves1_def saves1r_def saves3_def)

text \<open>An output that sleeps without the help of its backend: the frame it paints is black.\<close>

definition dark_output :: wlc_output where
  "dark_output = output_blank\<lparr>o_bsurface := bsurface_zero\<lparr>bs_display := 5\<rparr>, o_active_mode := 0, o_sleeping := True\<rparr>"

definition dark_world :: world where
  "dark_world = wlc_output_schedule_repaint 1 (put_output 1 dark_output world_blank)"

lemma dark_world_fired:
  "output_of (cb_idle_timer env_ref 1 dark_world) 1 = Some (dark_output\<lparr>o_activity := True, o_scheduled := True, o_pending := True\<rparr>)"
  "armed 1 dark_world"
  by (simp_all add: dark_world_def wlc_output_schedule_repaint_def dark_output_def output_blank_def bsurface_zero_def
      cb_idle_timer_def repaint_def should_render_def UINT_MAX_def world_blank_def swap_buffers_def armed_emit
      send_callbacks_def o_field_def)

theorem frame_clock_sound_witness:
  "swaps 1 (wlc_output_finish_frame env_ref 1 7 0 (cb_idle_timer env_ref 1 dark_world)) = 1"
proof -
  let ?w0 = "put_output 1 dark_output world_blank"
  have "clock_run env_ref 1 ?w0 0 dark_world"
    unfolding dark_world_def by (rule run_request [OF run_begin quiet_schedule])
  then have "clock_run env_ref 1 ?w0 0 (cb_idle_timer env_ref 1 dark_world)"
    by (rule run_timer) (rule dark_world_fired)
  moreover have p: "frame_pending 1 (cb_idle_timer env_ref 1 dark_world)"
    using dark_world_fired(1) by (simp add: frame_pending_def o_field_def)
  ultimately have "clock_run env_ref 1 ?w0 (if (1 :: nat) = 1 then Suc 0 else 0)
      (wlc_output_finish_frame env_ref 1 7 0 (cb_idle_timer env_ref 1 dark_world))"
    by (rule run_flip)
  then have r: "clock_run env_ref 1 ?w0 1 (wlc_output_finish_frame env_ref 1 7 0 (cb_idle_timer env_ref 1 dark_world))"
    by simp
  have "\<not> frame_pending 1 ?w0" "\<not> stalled 1 ?w0" "swaps 1 ?w0 = 0"
    by (simp_all add: clock_defs o_field_def dark_output_def output_blank_def swaps_def)
  then show ?thesis
    using frame_clock_sound [OF _ env_ref_quiet r] finish_clock [OF env_ref_quiet _ p, of 7 0] by simp
qed

end
