(* ===== verification/Frames.thy ===== *)
theory Frames
  imports Clock Sample
begin

text \<open>
  What the life of an output promises beside its clock: the mode it chooses, its resolution and the size of
  its buffer, the pace of its frames, what becomes of deferred tasks, and what a release still touches.
\<close>

section \<open>Modes\<close>

definition mode_area :: "wlc_output_mode \<Rightarrow> u32" where
  "mode_area m = u32_of_i32 (md_width m * md_height m)"

definition is_current :: "env \<Rightarrow> wlc_output_mode \<Rightarrow> bool" where
  "is_current E m = any_bit (md_flags m) (wl_mode_current E)"

definition is_preferred :: "env \<Rightarrow> wlc_output_mode \<Rightarrow> bool" where
  "is_preferred E m = any_bit (md_flags m) (wl_mode_preferred E)"

text \<open>The reference: the last mode marked current, else the first preferred one, else the first of the largest
  ones.\<close>

definition first_largest :: "wlc_output_mode list \<Rightarrow> nat" where
  "first_largest ms = length (takeWhile (\<lambda>m. mode_area m < Max (mode_area ` set ms)) ms)"

definition mode_choice :: "env \<Rightarrow> wlc_output_mode list \<Rightarrow> u32" where
  "mode_choice E ms =
     (let current = filter (\<lambda>i. is_current E (ms ! i)) [0..<length ms];
          preferred = filter (\<lambda>i. is_preferred E (ms ! i)) [0..<length ms]
      in if current \<noteq> [] then word_of_nat (last current)
         else if preferred \<noteq> [] then word_of_nat (hd preferred)
         else if \<exists>m \<in> set ms. mode_area m > 0 then word_of_nat (first_largest ms)
         else UINT_MAX)"

lemma index_not_max: "i < 2 ^ 32 - 1 \<Longrightarrow> (word_of_nat i :: u32) \<noteq> UINT_MAX"
proof
  assume i: "i < 2 ^ 32 - 1" and e: "(word_of_nat i :: u32) = UINT_MAX"
  have "unat (word_of_nat i :: u32) = i" using i by (simp add: unat_of_nat)
  moreover have "unat UINT_MAX = 2 ^ 32 - 1" by (simp add: UINT_MAX_def)
  ultimately show False using i e by simp
qed

lemma filter_upt_Cons:
  "filter (\<lambda>k. P ((m # ms) ! k)) [0..<Suc (length ms)] =
   (if P m then [0] else []) @ map Suc (filter (\<lambda>k. P (ms ! k)) [0..<length ms])"
proof -
  have "[0..<Suc (length ms)] = 0 # map Suc [0..<length ms]" by (simp add: map_Suc_upt upt_conv_Cons del: upt_Suc)
  then show ?thesis by (simp add: filter_map comp_def)
qed

lemma choose_mode_active:
  assumes "i + length ms < 2 ^ 32"
  shows "fst (choose_mode E i ms active largest fallback) =
    (let current = filter (\<lambda>k. is_current E (ms ! k)) [0..<length ms];
         preferred = filter (\<lambda>k. is_preferred E (ms ! k)) [0..<length ms]
     in if current \<noteq> [] then word_of_nat (i + last current)
        else if active \<noteq> UINT_MAX then active
        else if preferred \<noteq> [] then word_of_nat (i + hd preferred) else UINT_MAX)"
  using assms
proof (induction ms arbitrary: i active largest fallback)
  case (Cons m ms)
  let ?C = "filter (\<lambda>k. is_current E (ms ! k)) [0..<length ms]" and ?P = "filter (\<lambda>k. is_preferred E (ms ! k)) [0..<length ms]"
  let ?a = "if is_current E m \<or> (active = UINT_MAX \<and> is_preferred E m) then word_of_nat i else active"
  have "i < 2 ^ 32 - 1" using Cons.prems by simp
  note max = index_not_max [OF this]
  have "fst (choose_mode E i (m # ms) active largest fallback) =
      fst (choose_mode E (Suc i) ms ?a (if mode_area m > largest then mode_area m else largest)
        (if mode_area m > largest then word_of_nat i else fallback))"
    by (simp add: Let_def is_current_def is_preferred_def mode_area_def)
  also have "\<dots> = (if ?C \<noteq> [] then word_of_nat (Suc i + last ?C) else if ?a \<noteq> UINT_MAX then ?a
      else if ?P \<noteq> [] then word_of_nat (Suc i + hd ?P) else UINT_MAX)"
    using Cons.IH [of "Suc i"] Cons.prems by (simp add: Let_def)
  finally show ?case
    using max by (simp add: filter_upt_Cons [of "is_current E"] filter_upt_Cons [of "is_preferred E"] last_map hd_map hd_append Let_def del: upt_Suc)
qed simp

lemma choose_mode_fallback:
  "snd (choose_mode E i ms active largest fallback) =
    (if \<exists>m \<in> set ms. mode_area m > largest then word_of_nat (i + first_largest ms) else fallback)"
proof (induction ms arbitrary: i active largest fallback)
  case (Cons m ms)
  let ?a = "if is_current E m \<or> (active = UINT_MAX \<and> is_preferred E m) then word_of_nat i else active"
  have step: "snd (choose_mode E i (m # ms) active largest fallback) =
      (if mode_area m > largest then snd (choose_mode E (Suc i) ms ?a (mode_area m) (word_of_nat i))
       else snd (choose_mode E (Suc i) ms ?a largest fallback))"
    by (simp add: Let_def is_current_def is_preferred_def mode_area_def)
  have tail: "first_largest (m # ms) = Suc (first_largest ms)" if "k \<in> set ms" "mode_area m < mode_area k" for k
  proof -
    have "Max (mode_area ` set (m # ms)) = Max (mode_area ` set ms)"
    proof (rule Max_eqI)
      show "Max (mode_area ` set ms) \<in> mode_area ` set (m # ms)" using that(1) Max_in [of "mode_area ` set ms"] by (cases ms) auto
      show "y \<le> Max (mode_area ` set ms)" if "y \<in> mode_area ` set (m # ms)" for y
      proof -
        have "mode_area k \<le> Max (mode_area ` set ms)" using \<open>k \<in> set ms\<close> by simp
        then show ?thesis using that \<open>mode_area m < mode_area k\<close> by auto
      qed
    qed simp
    moreover have "mode_area m < Max (mode_area ` set ms)"
      using that by (meson Max_ge finite_imageI finite_set image_eqI less_le_trans)
    ultimately show ?thesis by (simp add: first_largest_def)
  qed
  have head: "first_largest (m # ms) = 0" if "\<not> (\<exists>k \<in> set ms. mode_area k > mode_area m)"
  proof -
    have "Max (mode_area ` set (m # ms)) = mode_area m"
      by (rule Max_eqI) (use that in \<open>auto simp: not_less\<close>)
    then show ?thesis by (simp add: first_largest_def)
  qed
  show ?case
  proof (cases "mode_area m > largest")
    case True
    then show ?thesis
      using step Cons.IH [of "Suc i" ?a "mode_area m" "word_of_nat i"] tail head by auto
  next
    case False
    then have "k \<in> set ms \<Longrightarrow> mode_area k > largest \<Longrightarrow> mode_area m < mode_area k" for k by (simp add: not_less)
    then show ?thesis using False step Cons.IH [of "Suc i" ?a largest fallback] tail by auto
  qed
qed simp

text \<open>C23 (equivalence). The mode an output uses (chosen while walking once over its modes) is the last one marked
  current, else the first preferred one, else the first of those with the largest area.\<close>

theorem mode_choice_is_reference:
  assumes "length ms < 2 ^ 32 - 1"
  shows "chosen_mode E ms = mode_choice E ms"
proof -
  obtain a f where af: "choose_mode E 0 ms UINT_MAX 0 UINT_MAX = (a, f)" by fastforce
  have A: "a = (let current = filter (\<lambda>k. is_current E (ms ! k)) [0..<length ms];
         preferred = filter (\<lambda>k. is_preferred E (ms ! k)) [0..<length ms]
     in if current \<noteq> [] then word_of_nat (last current)
        else if preferred \<noteq> [] then word_of_nat (hd preferred) else UINT_MAX)"
    using choose_mode_active [of 0 ms E UINT_MAX 0 UINT_MAX] assms af by (simp add: Let_def)
  have F: "f = (if \<exists>m \<in> set ms. mode_area m > 0 then word_of_nat (first_largest ms) else UINT_MAX)"
    using choose_mode_fallback [of E 0 ms UINT_MAX 0 UINT_MAX] af by simp
  have bound: "k < length ms \<Longrightarrow> (word_of_nat k :: u32) \<noteq> UINT_MAX" for k
    using index_not_max [of k] assms by simp
  have "xs \<noteq> [] \<Longrightarrow> xs = filter P [0..<length ms] \<Longrightarrow> last xs < length ms \<and> hd xs < length ms" for xs P
    using last_in_set [of xs] hd_in_set [of xs] by auto
  then show ?thesis
    using A F bound unfolding chosen_mode_def mode_choice_def af by (auto simp: Let_def)
qed

theorem mode_choice_is_reference_witness:
  "chosen_mode env_ref [\<lparr>md_refresh = 60, md_width = 640, md_height = 480, md_flags = 0\<rparr>,
     \<lparr>md_refresh = 60, md_width = 800, md_height = 600, md_flags = 2\<rparr>,
     \<lparr>md_refresh = 60, md_width = 1024, md_height = 768, md_flags = 0\<rparr>] = 1"
  using mode_choice_is_reference [of "[\<lparr>md_refresh = 60, md_width = 640, md_height = 480, md_flags = 0\<rparr>,
     \<lparr>md_refresh = 60, md_width = 800, md_height = 600, md_flags = 2\<rparr>,
     \<lparr>md_refresh = 60, md_width = 1024, md_height = 768, md_flags = 0\<rparr>]" env_ref]
  by (simp add: mode_choice_def is_current_def is_preferred_def any_bit_def nth_Cons')

section \<open>The pace of frames\<close>

text \<open>C24 (bounds). A flip of an output with activity and no deferred task arms its timer again, by between 1 and
  41 milliseconds, keeps the new pace within the same bounds, and does nothing else that is seen outside.\<close>

theorem frame_pace_bounded:
  assumes "chck_math_ok (mth E)" and "output_of w oid = Some x" and "o_activity x"
    and "\<not> o_task_terminate x" and "\<not> o_task_sleep x" and "bs_display (o_task_bsurface x) = 0"
  shows "\<exists>n y. 1 \<le> n \<and> n \<le> 41 \<and> w_trace (wlc_output_finish_frame E oid sec nsec w) = w_trace w @ [Timer_update oid n] \<and>
    output_of (wlc_output_finish_frame E oid sec nsec w) oid = Some y \<and> 1 \<le> o_ims y \<and> o_ims y \<le> 41 \<and>
    o_scheduled y \<and> \<not> o_pending y \<and> \<not> o_activity y \<and> armed oid (wlc_output_finish_frame E oid sec nsec w)"
proof -
  have "1 \<le> next_ims E (o_ims x)" "next_ims E (o_ims x) \<le> 41"
    using chck_math_okD(7) [OF assms(1), of 1 41] by (simp_all add: next_ims_def)
  then show ?thesis
    using assms next_ims_range [OF assms(1), of "o_ims x"]
    by (auto simp: wlc_output_finish_frame_def Let_def finish_frame_tasks_def task_backend_def task_sleep_def
        task_terminate_def o_field_def armed_emit)
qed

theorem frame_pace_bounded_witness:
  "\<exists>n. w_trace (wlc_output_finish_frame env_ref 1 7 0 (put_output 1 (dark_output\<lparr>o_activity := True\<rparr>) world_blank)) =
     [Timer_update 1 n] \<and> n \<le> 41"
  using frame_pace_bounded [of env_ref "put_output 1 (dark_output\<lparr>o_activity := True\<rparr>) world_blank" 1
      "dark_output\<lparr>o_activity := True\<rparr>" 7 0]
  by (auto simp: dark_output_def output_blank_def)

section \<open>A requested frame is painted\<close>

lemma alive_other:
  "output_of (wlc_output_schedule_repaint h w) oid = None \<longleftrightarrow> output_of w oid = None"
  "output_of (w\<lparr>w_serial := n\<rparr>) oid = output_of w oid" "output_of (w\<lparr>w_rendering_output := m\<rparr>) oid = output_of w oid"
  by (auto simp: wlc_output_schedule_repaint_def Let_def output_of_def [of "w\<lparr>w_serial := n\<rparr>"]
      output_of_def [of "w\<lparr>w_rendering_output := m\<rparr>"] output_of_def [of w] split: option.split)

interpretation alive: saved "\<lambda>w. output_of w oid \<noteq> None" for oid
  by unfold_locales (auto simp: alive_other)

lemma timer_paints:
  assumes "env_quiet E oid" and alive: "env_saves E (\<lambda>w. output_of w oid \<noteq> None)"
    and x: "output_of w oid = Some x" "should_render w x"
  shows "frame_pending oid (cb_idle_timer E oid w) \<and> swaps oid (cb_idle_timer E oid w) = Suc (swaps oid w) \<and>
    output_of (cb_idle_timer E oid w) oid \<noteq> None"
proof -
  note e = env_quietD [OF assms(1)]
  let ?w1 = "emit (Rd_resolution oid (o_mode x) (o_virtual x) (o_scale x)) (emit (Timer_fired oid) w)"
  define w2 where "w2 = (if o_sleeping x then emit (Rd_clear oid) ?w1 else paint_frame E oid ?w1)"
  have a2: "output_of w2 oid \<noteq> None"
    unfolding w2_def using alive.paint [OF alive, of ?w1 oid] x(1) by simp
  have q1: "quiet oid ?w1 w2" unfolding w2_def by (rule clock.keep_walk clock.paint [OF e] clock.emit quiet_refl | simp; fail)+
  then have s2: "swaps oid w2 = swaps oid w" by (simp add: quiet_def swaps_emit)
  define w3 where "w3 = swap_buffers oid w2"
  have p3: "frame_pending oid w3" "swaps oid w3 = Suc (swaps oid w)"
    using swap_clock(1) [OF a2] s2 by (simp_all add: w3_def)
  have a3: "output_of w3 oid \<noteq> None" using a2 by (simp add: w3_def swap_buffers_def)
  define w4 where "w4 = (if o_sleeping x then w3 else send_callbacks E oid w3)"
  have q4: "quiet oid w3 w4" unfolding w4_def by (rule clock.keep_walk clock.callbacks_sent [OF e] quiet_refl)+
  have a4: "output_of w4 oid \<noteq> None"
    unfolding w4_def using a3 alive.callbacks_sent [OF alive a3] by simp
  have "cb_idle_timer E oid w = w4"
    using x by (simp add: cb_idle_timer_def repaint_def should_render_def Let_def w4_def w3_def w2_def)
  then show ?thesis using p3 q4 a4 by (simp add: quiet_def)
qed

text \<open>C13 (liveness). A repaint requested of an output that could show it (the session is active, the output has a backend
  and a mode, no frame is on its way) is painted: the timer is armed, and when it fires exactly one frame is
  swapped and is on its way, provided that no repaint was scheduled without its timer before.\<close>

theorem requested_frame_is_painted:
  assumes "env_quiet E oid" and "env_saves E (\<lambda>w. output_of w oid \<noteq> None)"
    and "output_of w oid = Some x" and "should_render w x" and "\<not> stalled oid w"
  shows "armed oid (wlc_output_schedule_repaint oid w) \<and>
    frame_pending oid (cb_idle_timer E oid (wlc_output_schedule_repaint oid w)) \<and>
    swaps oid (cb_idle_timer E oid (wlc_output_schedule_repaint oid w)) = Suc (swaps oid w)"
proof -
  let ?w = "wlc_output_schedule_repaint oid w"
  obtain y where y: "output_of ?w oid = Some y" "should_render ?w y"
    using assms(3,4) by (cases "o_scheduled x") (simp_all add: wlc_output_schedule_repaint_def Let_def should_render_def)
  have "swaps oid ?w = swaps oid w" using quiet_schedule [of oid w oid] by (simp add: quiet_def)
  moreover have "armed oid ?w"
    using assms(3,5) by (auto simp: wlc_output_schedule_repaint_def Let_def stalled_def o_field_def armed_emit)
  ultimately show ?thesis using timer_paints [OF assms(1,2) y] by simp
qed

theorem requested_frame_is_painted_witness:
  "swaps 1 (cb_idle_timer env_ref 1 dark_world) = 1"
  using requested_frame_is_painted [OF env_ref_quiet, of 1 "put_output 1 dark_output world_blank" dark_output]
  by (simp add: dark_world_def env_saves_def saves1_def saves1r_def saves3_def should_render_def stalled_def
      dark_output_def output_blank_def bsurface_zero_def UINT_MAX_def o_field_def swaps_def world_blank_def)

section \<open>Deferred tasks\<close>

lemma defer_termination:
  assumes "output_of w oid = Some x" "o_pending x"
  shows "wlc_output_terminate E oid w = wlc_output_schedule_repaint oid (upd_output oid (\<lambda>x. x\<lparr>o_task_terminate := True\<rparr>) w)"
  using assms by (simp add: wlc_output_terminate_def)

lemma repaint_while_pending:
  assumes "output_of w oid = Some x" "o_pending x" "o_task_terminate x" "\<not> o_task_sleep x" "bs_display (o_task_bsurface x) = 0"
  shows "cb_idle_timer E oid w =
    upd_output oid (\<lambda>x. x\<lparr>o_task_terminate := False\<rparr>) (emit (Timer_update oid 1) (upd_output oid (\<lambda>x. x\<lparr>o_scheduled := True\<rparr>)
      (upd_output oid (\<lambda>x. x\<lparr>o_activity := True\<rparr>) (upd_output oid (\<lambda>x. x\<lparr>o_task_terminate := True\<rparr>)
        (upd_output oid (\<lambda>x. x\<lparr>o_activity := False, o_scheduled := False\<rparr>) (emit (Timer_fired oid) w))))))"
  using assms
  by (simp add: cb_idle_timer_def repaint_def should_render_def finish_frame_tasks_def task_backend_def task_sleep_def
      task_terminate_def o_field_def wlc_output_terminate_def wlc_output_schedule_repaint_def Let_def)

text \<open>A termination that is deferred can be lost. An output that sleeps without the help of its backend
  keeps its timer armed; the black frame that timer paints is on its way while no repaint is scheduled;
  a termination requested now is deferred and arms the timer; and when the timer fires before the flip,
  the repaint runs the deferred termination, which defers itself again, and then clears it: the next flip
  no longer removes the output.\<close>

theorem deferred_termination_is_lost:
  fixes E :: env
  assumes "output_of w oid = Some x" and "should_render w x" and "\<not> bs_api_sleep (o_bsurface x)" and "\<not> o_sleeping x"
    and "armed oid w" and "\<not> o_task_sleep x" and "bs_display (o_task_bsurface x) = 0"
  defines "w1 \<equiv> wlc_output_set_sleep_ptr oid True w"
  defines "w2 \<equiv> wlc_output_terminate E oid (cb_idle_timer E oid w1)"
  defines "w3 \<equiv> cb_idle_timer E oid w2"
  shows "armed oid w1 \<and> armed oid w2 \<and> map_option o_task_terminate (output_of w2 oid) = Some True \<and>
    map_option o_task_terminate (output_of w3 oid) = Some False \<and>
    w_trace (wlc_output_finish_frame E oid sec nsec w3) =
      w_trace w2 @ [Timer_fired oid, Timer_update oid 1, Timer_update oid (real_to_i32 (next_ims E (o_ims x)))]"
proof -
  let ?y1 = "x\<lparr>o_sleeping := True, o_scheduled := False, o_activity := False\<rparr>"
  let ?y2 = "?y1\<lparr>o_pending := True, o_task_terminate := True, o_activity := True, o_scheduled := True\<rparr>"
  have w1: "w1 = upd_output oid (\<lambda>x. x\<lparr>o_scheduled := False, o_activity := False\<rparr>) (upd_output oid (\<lambda>x. x\<lparr>o_sleeping := True\<rparr>) w)"
    using assms(1-4) by (simp add: w1_def wlc_output_set_sleep_ptr_def should_render_def Let_def)
  have o1: "output_of w1 oid = Some ?y1" "armed oid w1" "should_render w1 ?y1"
    using assms(1,2,5) by (simp_all add: w1 should_render_def)
  let ?v = "emit (Ctx_swap oid) (upd_output oid (\<lambda>x. x\<lparr>o_pending := True\<rparr>)
      (emit (Rd_clear oid) (emit (Rd_resolution oid (o_mode x) (o_virtual x) (o_scale x)) (emit (Timer_fired oid) w1))))"
  have v: "cb_idle_timer E oid w1 = ?v"
    using o1 by (simp add: cb_idle_timer_def repaint_def should_render_def Let_def swap_buffers_def)
  have w2: "w2 = emit (Timer_update oid 1) (upd_output oid (\<lambda>x. x\<lparr>o_scheduled := True\<rparr>)
      (upd_output oid (\<lambda>x. x\<lparr>o_activity := True\<rparr>) (upd_output oid (\<lambda>x. x\<lparr>o_task_terminate := True\<rparr>) ?v)))"
    unfolding w2_def v using o1 by (simp add: defer_termination wlc_output_schedule_repaint_def Let_def)
  have o2: "output_of w2 oid = Some ?y2" "armed oid w2" using o1 by (simp_all add: w2 armed_emit)
  note w3 = repaint_while_pending [OF o2(1), of E, folded w3_def]
  have w3: "output_of w3 oid = Some (?y2\<lparr>o_task_terminate := False\<rparr>)" "w_trace w3 = w_trace w2 @ [Timer_fired oid, Timer_update oid 1]"
    using o2(1) assms(6,7) by (simp_all add: w3)
  then show ?thesis
    using o1 o2 assms(6,7)
    by (simp add: wlc_output_finish_frame_def finish_frame_tasks_def task_backend_def task_sleep_def task_terminate_def
        o_field_def Let_def)
qed

theorem deferred_termination_is_lost_witness:
  "map_option o_task_terminate (output_of (cb_idle_timer env_ref 1 (wlc_output_terminate env_ref 1 (cb_idle_timer env_ref 1
     (wlc_output_set_sleep_ptr 1 True (wlc_output_schedule_repaint 1
       (put_output 1 (dark_output\<lparr>o_sleeping := False\<rparr>) world_blank)))))) 1) = Some False"
  using deferred_termination_is_lost [of "wlc_output_schedule_repaint 1 (put_output 1 (dark_output\<lparr>o_sleeping := False\<rparr>) world_blank)"
      1 "dark_output\<lparr>o_sleeping := False, o_activity := True, o_scheduled := True\<rparr>" env_ref]
  by (simp add: wlc_output_schedule_repaint_def dark_output_def output_blank_def bsurface_zero_def should_render_def
      UINT_MAX_def world_blank_def armed_emit)

section \<open>Resolution\<close>

definition screen_of :: "nat \<Rightarrow> world \<Rightarrow> (wlc_size \<times> wlc_size \<times> u32 \<times> bool list option) option" where
  "screen_of oid w = map_option (\<lambda>x. (o_resolution x, o_virtual x, o_scale x, o_blit x)) (output_of w oid)"

lemma screen_of_other [simp]:
  "screen_of oid (emit e w) = screen_of oid w" "screen_of oid (fail f w) = screen_of oid w"
  "screen_of oid (wlc_output_schedule_repaint h w) = screen_of oid w"
  by (auto simp: screen_of_def wlc_output_schedule_repaint_def Let_def option.map_comp o_def split: option.split)

lemma screen_of_push: "screen_of oid (output_push_to_resource E h r w) = screen_of oid w"
  unfolding output_push_to_resource_def
  by (auto simp: Let_def split: option.split intro!: keeping.keep_fold [where K = "\<lambda>v. screen_of oid v = screen_of oid w"])

lemma screen_of_pushes: "screen_of oid (output_push_to_resources E h w) = screen_of oid w"
  unfolding output_push_to_resources_def
  by (rule keeping.keep_fold [where K = "\<lambda>v. screen_of oid v = screen_of oid w"]) (simp_all add: screen_of_push)

text \<open>A new resolution: the output takes it with the scale, its virtual size is the quotient, and the buffer
  for the visibility of pixels is cleared and has one entry per virtual pixel. The product cannot overflow
  \<open>size_t\<close>, so the failure branch of the code is never taken; but the painter computes it again
  in 32 bits, and then sees the whole buffer exactly if there are fewer than 2^32 pixels.\<close>

theorem set_resolution_spec:
  assumes "chck_math_ok (mth E)" and "env_keeps E (screen_of oid)"
    and "\<And>n. ext_calloc E n" and "output_of w oid = Some x"
    and "sw res \<noteq> 0" and "sh res \<noteq> 0" and "scale \<noteq> 0" and "\<not> (o_scale x = scale \<and> o_resolution x = res)"
  defines "r \<equiv> wlc_output_set_resolution_ptr E oid res scale w"
  defines "v \<equiv> \<lparr>sw = sw res div scale, sh = sh res div scale\<rparr>"
  shows "fst r \<and> (\<exists>y. output_of (snd r) oid = Some y \<and> o_resolution y = res \<and> o_scale y = scale \<and> o_virtual y = v \<and>
      o_blit y = Some (replicate (unat (sw v) * unat (sh v)) False)) \<and>
    (unat (sw v * sh v) = unat (sw v) * unat (sh v) \<longleftrightarrow> unat (sw v) * unat (sh v) < 2 ^ 32)"
proof -
  let ?n = "unat (sw v) * unat (sh v)"
  have "unat (sw v) < 2 ^ 32" "unat (sh v) < 2 ^ 32" using unsigned_less [of "sw v"] unsigned_less [of "sh v"] by simp_all
  then have "?n < 2 ^ 32 * 2 ^ 32" by (intro mult_strict_mono') simp_all
  then have n: "m_mul_ofsz (mth E) (unat (sw v)) (unat (sh v)) = Some ?n"
    by (simp add: chck_math_okD(6) [OF assms(1)])
  have ne: "\<not> (o_scale x = scale \<and> wlc_size_equals res (o_resolution x))"
    using assms(8) by (auto simp: wlc_size_equals_def)
  let ?w1 = "upd_output oid (\<lambda>x. x\<lparr>o_blit := Some (replicate ?n False), o_resolution := res, o_virtual := v, o_scale := scale\<rparr>) w"
  let ?w2 = "output_push_to_resources E oid ?w1"
  have r: "r = (True, wlc_output_schedule_repaint oid (call3 (if_output_resolution (iface E)) oid (o_resolution x)
             (case output_of ?w2 oid of None \<Rightarrow> res | Some x \<Rightarrow> o_resolution x) ?w2))"
    using assms(3-7) ne n by (simp add: r_def wlc_output_set_resolution_ptr_def Let_def v_def del: not_all)
  have "screen_of oid (snd r) = screen_of oid ?w1"
    unfolding r by (simp add: call_keeps(3) [OF env_keepsD(4) [OF assms(2)]] screen_of_pushes)
  then have s: "screen_of oid (snd r) = Some (res, v, scale, Some (replicate ?n False))"
    using assms(4) by (simp add: screen_of_def)
  have "unat (sw v * sh v) = ?n mod 2 ^ 32" by (simp add: unat_word_ariths)
  then have "unat (sw v * sh v) = ?n \<longleftrightarrow> ?n < 2 ^ 32" using mod_less_divisor [of "2 ^ 32" ?n] by auto
  then show ?thesis using r s by (auto simp: screen_of_def)
qed

theorem set_resolution_spec_witness:
  "map_option o_virtual (output_of (snd (wlc_output_set_resolution_ptr env_ref 1 \<lparr>sw = 1920, sh = 1080\<rparr> 2
      (put_output 1 output_blank world_blank))) 1) = Some \<lparr>sw = 960, sh = 540\<rparr>"
  using set_resolution_spec [of env_ref 1 "put_output 1 output_blank world_blank" output_blank "\<lparr>sw = 1920, sh = 1080\<rparr>" 2]
  by (auto simp: env_ref_keeps output_blank_def)

end
