(* ===== verification/Compositor.thy ===== *)
theory Compositor
  imports Output Sample
begin

text \<open>
  The compositor object (src/compositor/compositor.c): subsurface requests, creation of surfaces and
  views, the hand-over of the terminal, the listeners of the system signals, the active output, and
  termination.

  The pools of outputs, views and surfaces are the lists \<open>c_outputs\<close>, \<open>c_views\<close> and
  \<open>c_surfaces\<close> of live numbers in the order of their slots; a new object goes to the slot that
  \<open>ext_pool_add\<close> picks. A loop over a pool visits the objects that are in it when it starts and still
  live when their turn comes.

  A request carries the wayland resource it was sent to; the code reads what it belongs to from the user
  data of the resource, with \<open>user_number\<close>.
\<close>

section \<open>Objects the pools hand out\<close>

definition output_zero :: wlc_output where
  "output_zero = \<lparr>
     o_resources = [], o_mode = wlc_size_zero, o_resolution = wlc_size_zero, o_virtual = wlc_size_zero,
     o_information = information_zero, o_bsurface = bsurface_zero,
     o_surfaces = [], o_views = [], o_mutable = [], o_callbacks = [], o_visible = [], o_blit = None,
     o_scale = 0, o_timer_idle = False, o_wl_output = 0, o_task_bsurface = bsurface_zero,
     o_task_terminate = False, o_task_sleep = False, o_ims = 0, o_frame_time = 0, o_pending = False,
     o_scheduled = False, o_activity = False, o_sleeping = False, o_background_visible = False,
     o_created = False, o_active_mode = 0, o_active_mask = 0\<rparr>"

definition view_zero :: wlc_view where
  "view_zero = \<lparr>
     v_pending = \<lparr>vs_geometry = wlc_geometry_zero, vs_edges = 0, vs_state = 0\<rparr>,
     v_commit = \<lparr>vs_geometry = wlc_geometry_zero, vs_edges = 0, vs_state = 0\<rparr>,
     v_surface_pending = wlc_geometry_zero, v_surface_commit = wlc_geometry_zero, v_wl_state = [],
     v_parent = 0, v_surface = 0, v_shell_surface = 0, v_xdg_surface = 0, v_xdg_toplevel = 0,
     v_xdg_popup = 0, v_custom_surface = 0, v_app_id = None, v_title = None, v_instance = None,
     v_class = None, v_pid = 0, v_minimized = False, v_type = 0, v_mask = 0, v_created = False,
     v_fullscreen_mode = 0\<rparr>"

definition surface_state_zero :: wlc_surface_state where
  "surface_state_zero = \<lparr>
     ss_frame_cbs = [], ss_opaque = region_zero, ss_input = region_zero, ss_damage = region_zero,
     ss_offset = wlc_point_zero, ss_subsurface_position = wlc_point_zero, ss_buffer = 0, ss_scale = 0,
     ss_transform = 0, ss_attached = False\<rparr>"

definition surface_zero :: wlc_surface where
  "surface_zero = \<lparr>
     sf_pending = surface_state_zero, sf_commit = surface_state_zero, sf_size = wlc_size_zero,
     sf_transform_w = 0, sf_transform_h = 0, sf_parent = 0, sf_subsurface_list = [], sf_view = 0,
     sf_parent_view = 0, sf_output = 0, sf_synchronized = False, sf_parent_synchronized = False\<rparr>"

text \<open>\<open>wlc_handle_create\<close> for a view and for an output; 0 when it fails.\<close>

definition create_view :: "env \<Rightarrow> world \<Rightarrow> nat \<times> world" where
  "create_view E w =
     (case ext_new_handle E w of
        None \<Rightarrow> (0, w)
      | Some h \<Rightarrow>
          (h, upd_comp (\<lambda>c. c\<lparr>c_views := ext_pool_add E (c_views c) h\<rparr>)
                (w\<lparr>w_views := (w_views w)(h \<mapsto> wlc_view_ctor view_zero)\<rparr>)))"

definition create_output :: "env \<Rightarrow> world \<Rightarrow> nat \<times> world" where
  "create_output E w =
     (case ext_new_handle E w of
        None \<Rightarrow> (0, w)
      | Some h \<Rightarrow>
          let (ok, w') = wlc_output_ctor E h
                (upd_comp (\<lambda>c. c\<lparr>c_outputs := ext_pool_add E (c_outputs c) h\<rparr>)
                  (w\<lparr>w_outputs := (w_outputs w)(h \<mapsto> output_zero)\<rparr>))
          in if ok then (h, w')
             else (0, upd_comp (\<lambda>c. c\<lparr>c_outputs := removeAll h (c_outputs c)\<rparr>)
                        (w'\<lparr>w_outputs := (w_outputs w')(h := None)\<rparr>)))"

definition for_outputs :: "(nat \<Rightarrow> world \<Rightarrow> world) \<Rightarrow> world \<Rightarrow> world" where
  "for_outputs f w = fold (\<lambda>h w. if output_of w h = None then w else f h w) (c_outputs (w_comp w)) w"

section \<open>Subsurfaces\<close>

definition wl_cb_subsurface_set_position :: "env \<Rightarrow> nat \<Rightarrow> int \<Rightarrow> int \<Rightarrow> world \<Rightarrow> world" where
  "wl_cb_subsurface_set_position E res x y w =
     (let sid = user_number E w res in
      if surface_of w sid = None then w
      else upd_slot sid Pending (\<lambda>st. st\<lparr>ss_subsurface_position := \<lparr>px = x, py = y\<rparr>\<rparr>) w)"

text \<open>The position of the last entry that is \<open>y\<close>.\<close>

fun last_index_of :: "'a \<Rightarrow> 'a list \<Rightarrow> nat option" where
  "last_index_of y [] = None"
| "last_index_of y (x # xs) =
     (case last_index_of y xs of Some i \<Rightarrow> Some (Suc i) | None \<Rightarrow> if x = y then Some 0 else None)"

definition restack_list :: "nat pool_ops \<Rightarrow> nat \<Rightarrow> nat \<Rightarrow> nat \<Rightarrow> nat list \<Rightarrow> nat list" where
  "restack_list P sid sibling offset l =
     (case (last_index_of sid l, last_index_of sibling l) of
        (Some surface_idx, Some target_idx) \<Rightarrow>
          let target_idx = (if surface_idx < target_idx then target_idx - 1 else target_idx);
              l = remove_at P l surface_idx
          in (case insert_at P l (target_idx + offset) sid of None \<Rightarrow> l | Some l' \<Rightarrow> l')
      | _ \<Rightarrow> l)"

definition restack_subsurface_relative_to :: "env \<Rightarrow> nat \<Rightarrow> nat \<Rightarrow> nat \<Rightarrow> world \<Rightarrow> world" where
  "restack_subsurface_relative_to E sid sibling offset w =
     (case surface_of w sid of
        None \<Rightarrow> w
      | Some s \<Rightarrow>
          if surface_of w (sf_parent s) = None then fail Null_pointer w
          else upd_surface (sf_parent s)
                 (\<lambda>p. p\<lparr>sf_subsurface_list := restack_list (hp E) sid sibling offset (sf_subsurface_list p)\<rparr>) w)"

definition wl_cb_subsurface_place_above :: "env \<Rightarrow> nat \<Rightarrow> nat \<Rightarrow> world \<Rightarrow> world" where
  "wl_cb_subsurface_place_above E res sibling_resource w =
     restack_subsurface_relative_to E (user_number E w res) (user_number E w sibling_resource) 0 w"

definition wl_cb_subsurface_place_below :: "env \<Rightarrow> nat \<Rightarrow> nat \<Rightarrow> world \<Rightarrow> world" where
  "wl_cb_subsurface_place_below E res sibling_resource w =
     restack_subsurface_relative_to E (user_number E w res) (user_number E w sibling_resource) 1 w"

text \<open>\<open>None\<close> is a walk that did not return within the fuel, the depth of the calls.\<close>

fun recursive_set_subsurface_parent_sync_state :: "nat \<Rightarrow> nat \<Rightarrow> bool \<Rightarrow> world \<Rightarrow> world option" where
  "recursive_set_subsurface_parent_sync_state 0 sid state w = None"
| "recursive_set_subsurface_parent_sync_state (Suc n) sid state w =
     (case surface_of w sid of
        None \<Rightarrow> Some w
      | Some s \<Rightarrow>
          if sf_synchronized s then Some w
          else fold (\<lambda>c r. case r of None \<Rightarrow> None | Some w \<Rightarrow> recursive_set_subsurface_parent_sync_state n c state w)
                 (sf_subsurface_list s) (Some (upd_surface sid (\<lambda>s. s\<lparr>sf_parent_synchronized := state\<rparr>) w)))"

definition wl_cb_subsurface_set_sync :: "env \<Rightarrow> nat \<Rightarrow> world \<Rightarrow> world" where
  "wl_cb_subsurface_set_sync E res w =
     (let sid = user_number E w res in
      if surface_of w sid = None then w
      else
        let w = upd_surface sid (\<lambda>s. s\<lparr>sf_synchronized := True\<rparr>) w
        in returned (recursive_set_subsurface_parent_sync_state (fuel E) sid True w) w)"

definition wl_cb_subsurface_set_desync :: "env \<Rightarrow> nat \<Rightarrow> world \<Rightarrow> world" where
  "wl_cb_subsurface_set_desync E res w =
     (let sid = user_number E w res in
      case surface_of w sid of
        None \<Rightarrow> w
      | Some s \<Rightarrow>
          let w = upd_surface sid (\<lambda>s. s\<lparr>sf_synchronized := False\<rparr>) w;
              w = returned (recursive_set_subsurface_parent_sync_state (fuel E) sid False w) w
          in case surface_of w (sf_parent s) of
               None \<Rightarrow> w
             | Some p \<Rightarrow> if \<not> sf_synchronized p \<and> \<not> sf_parent_synchronized p then wlc_surface_commit E sid w else w)"

datatype subsurface_request =
    Sub_destroy | Sub_set_position int int | Sub_place_above nat | Sub_place_below nat | Sub_set_sync | Sub_set_desync

text \<open>\<open>r\<close> is the number of the resource \<open>res\<close>; its destruction releases it.\<close>

fun wl_subsurface_implementation :: "env \<Rightarrow> nat \<Rightarrow> nat \<Rightarrow> subsurface_request \<Rightarrow> world \<Rightarrow> world" where
  "wl_subsurface_implementation E r res Sub_destroy w = release_resource E r w"
| "wl_subsurface_implementation E r res (Sub_set_position x y) w = wl_cb_subsurface_set_position E res x y w"
| "wl_subsurface_implementation E r res (Sub_place_above sib) w = wl_cb_subsurface_place_above E res sib w"
| "wl_subsurface_implementation E r res (Sub_place_below sib) w = wl_cb_subsurface_place_below E res sib w"
| "wl_subsurface_implementation E r res Sub_set_sync w = wl_cb_subsurface_set_sync E res w"
| "wl_subsurface_implementation E r res Sub_set_desync w = wl_cb_subsurface_set_desync E res w"

definition wl_cb_subcompositor_get_subsurface ::
  "env \<Rightarrow> nat \<Rightarrow> nat \<Rightarrow> u32 \<Rightarrow> nat \<Rightarrow> nat \<Rightarrow> world \<Rightarrow> world" where
  "wl_cb_subcompositor_get_subsurface E client res wlid sid parent w =
     (if w_udata w res = UD_null then w
      else if sid = parent then emit (Post_error res (wl_err_bad_surface E)) w
      else
        let (r, w) = create_resource E client wlid R_subsurface w in
        if r = 0 then w
        else
          let w = implement_resource r (UD_number sid) w
          in wlc_surface_set_parent E sid (if surface_of w parent = None then 0 else parent) w)"

definition wl_cb_subcompositor_destroy :: "nat \<Rightarrow> world \<Rightarrow> world" where
  "wl_cb_subcompositor_destroy res w = emit (Wl_destroy res) w"

text \<open>\<open>wl_resource_create_checked\<close> with the interface of a global; the resource, 0 when it fails.\<close>

definition bind_global :: "env \<Rightarrow> nat \<Rightarrow> u32 \<Rightarrow> u32 \<Rightarrow> u32 \<Rightarrow> user_data \<Rightarrow> world \<Rightarrow> nat \<times> world" where
  "bind_global E client version supported wlid d w =
     (if version > supported then (0, emit (Post_no_memory client) w)
      else
        let wl = ext_wl_create E client wlid w in
        if wl = 0 then (0, emit (Post_no_memory client) w) else (wl, set_user_data wl d w))"

definition wl_subcompositor_bind :: "env \<Rightarrow> nat \<Rightarrow> u32 \<Rightarrow> u32 \<Rightarrow> world \<Rightarrow> world" where
  "wl_subcompositor_bind E client version wlid w = snd (bind_global E client version 1 wlid UD_compositor w)"

section \<open>Surfaces and regions\<close>

definition wl_cb_surface_create :: "env \<Rightarrow> nat \<Rightarrow> nat \<Rightarrow> u32 \<Rightarrow> world \<Rightarrow> world" where
  "wl_cb_surface_create E client res wlid w =
     (if w_udata w res = UD_null then w
      else
        let (r, w) = create_resource E client wlid (R_surface (wlc_surface_ctor E surface_zero)) w in
        if r = 0 then w
        else
          let w = upd_comp (\<lambda>c. c\<lparr>c_surfaces := ext_pool_add E (c_surfaces c) r\<rparr>) w;
              w = implement_resource r UD_compositor w
          in sig_surface E (WLC_SURFACE_EVENT_CREATED r) w)"

definition wl_cb_region_create :: "env \<Rightarrow> nat \<Rightarrow> nat \<Rightarrow> u32 \<Rightarrow> world \<Rightarrow> world" where
  "wl_cb_region_create E client res wlid w =
     (if w_udata w res = UD_null then w
      else
        let (r, w) = create_resource E client wlid (R_region region_zero) w in
        if r = 0 then w else implement_resource r (w_udata w res) w)"

definition wl_compositor_bind :: "env \<Rightarrow> nat \<Rightarrow> u32 \<Rightarrow> u32 \<Rightarrow> world \<Rightarrow> world" where
  "wl_compositor_bind E client version wlid w = snd (bind_global E client version 3 wlid UD_compositor w)"

section \<open>The hand-over of the terminal\<close>

definition cb_idle_vt_switch :: "world \<Rightarrow> world" where
  "cb_idle_vt_switch w =
     upd_comp (\<lambda>c. c\<lparr>c_vt := 0, c_idle := False\<rparr>) (emit Source_remove (emit (Fd_activate_vt (c_vt (w_comp w))) w))"

definition activate_tty :: "world \<Rightarrow> world" where
  "activate_tty w =
     (if c_tty (w_comp w) \<noteq> ACTIVATING then w else emit Fd_activate (upd_comp (\<lambda>c. c\<lparr>c_tty := IDLE\<rparr>) w))"

definition has_display :: "world \<Rightarrow> nat \<Rightarrow> bool" where
  "has_display w h = (case output_of w h of None \<Rightarrow> False | Some x \<Rightarrow> bs_display (o_bsurface x) \<noteq> 0)"

definition deactivate_tty :: "world \<Rightarrow> world" where
  "deactivate_tty w =
     (if c_tty (w_comp w) \<noteq> DEACTIVATING then w
      else if list_ex (has_display w) (c_outputs (w_comp w)) then w
      else
        let w = upd_comp (\<lambda>c. c\<lparr>c_tty := IDLE\<rparr>) w in
        if c_vt (w_comp w) \<noteq> 0 then emit Loop_add_idle (upd_comp (\<lambda>c. c\<lparr>c_idle := True\<rparr>) w)
        else emit Fd_deactivate w)"

definition respond_tty_activate :: "world \<Rightarrow> world" where
  "respond_tty_activate w =
     (case c_tty (w_comp w) of ACTIVATING \<Rightarrow> activate_tty w | DEACTIVATING \<Rightarrow> deactivate_tty w | IDLE \<Rightarrow> w)"

definition activate_event :: "env \<Rightarrow> bool \<Rightarrow> int \<Rightarrow> world \<Rightarrow> world" where
  "activate_event E active vt w =
     (if \<not> active then
        let w = upd_comp (\<lambda>c. c\<lparr>c_tty := DEACTIVATING, c_vt := vt\<rparr>) w;
            w = for_outputs (wlc_output_set_backend_surface_none E) w
        in deactivate_tty w
      else
        let w = upd_comp (\<lambda>c. c\<lparr>c_tty := ACTIVATING, c_vt := 0\<rparr>) w;
            w = activate_tty w;
            w = backend_update_outputs E (emit Backend_update_outputs w)
        in for_outputs (\<lambda>h. wlc_output_set_sleep_ptr h False) w)"

section \<open>Termination\<close>

definition wlc_compositor_terminate :: "env \<Rightarrow> world \<Rightarrow> world" where
  "wlc_compositor_terminate E w =
     (if c_terminating (w_comp w) then emit Compositor_destroyed w
      else
        let w = upd_comp (\<lambda>c. c\<lparr>c_terminating := True\<rparr>) w;
            w = call0 (if_compositor_terminate (iface E)) w
        in if c_outputs (w_comp w) \<noteq> [] then for_outputs (wlc_output_terminate E) w
           else emit Compositor_destroyed w)"

definition terminate_event :: "env \<Rightarrow> world \<Rightarrow> world" where
  "terminate_event E w = wlc_compositor_terminate E w"

text \<open>Without \<open>ENABLE_XWAYLAND\<close> the window manager itself is an empty function.\<close>

definition xwayland_event :: "env \<Rightarrow> bool \<Rightarrow> world \<Rightarrow> world" where
  "xwayland_event E activated w =
     (if c_ready (w_comp w) then w
      else upd_comp (\<lambda>c. c\<lparr>c_ready := True\<rparr>) (call0 (if_compositor_ready (iface E)) w))"

section \<open>Views for surfaces\<close>

definition wlc_compositor_view_for_surface :: "env \<Rightarrow> nat \<Rightarrow> world \<Rightarrow> nat \<times> world" where
  "wlc_compositor_view_for_surface E sid w =
     (case surface_of w sid of
        None \<Rightarrow> (0, fail Null_pointer w)
      | Some s \<Rightarrow>
          let (vid, w) = (if view_of w (sf_view s) \<noteq> None then (sf_view s, w) else create_view E w) in
          if vid = 0 then (0, w)
          else
            let w = snd (wlc_surface_attach_to_output E sid (live_output w (c_active_output (w_comp w)))
                           (wlc_surface_get_buffer w (surface_of w sid)) w)
            in (vid, wlc_surface_attach_to_view E sid vid w))"

fun role_kind :: "surface_role \<Rightarrow> res_kind" where
  "role_kind WLC_SHELL_SURFACE = K_shell_surface"
| "role_kind WLC_XDG_SURFACE = K_xdg_surface"
| "role_kind WLC_XDG_TOPLEVEL_SURFACE = K_xdg_toplevel"
| "role_kind WLC_CUSTOM_SURFACE = K_custom_surface"

fun set_role :: "surface_role \<Rightarrow> nat \<Rightarrow> wlc_view \<Rightarrow> wlc_view" where
  "set_role WLC_SHELL_SURFACE role v = v\<lparr>v_shell_surface := role\<rparr>"
| "set_role WLC_XDG_SURFACE role v = v\<lparr>v_xdg_surface := role\<rparr>"
| "set_role WLC_XDG_TOPLEVEL_SURFACE role v = v\<lparr>v_xdg_toplevel := role\<rparr>"
| "set_role WLC_CUSTOM_SURFACE role v = v\<lparr>v_custom_surface := role\<rparr>"

text \<open>\<open>wl_resource_set_user_data\<close> on what may be NULL.\<close>

definition name_user :: "nat \<Rightarrow> user_data \<Rightarrow> world \<Rightarrow> world" where
  "name_user wl d w = (if wl = 0 then fail Null_pointer w else set_user_data wl d w)"

definition attach_surface_to_view_or_create :: "env \<Rightarrow> nat \<Rightarrow> surface_role \<Rightarrow> nat \<Rightarrow> world \<Rightarrow> world" where
  "attach_surface_to_view_or_create E sid ty role w =
     (let (vid, w) = wlc_compositor_view_for_surface E sid w in
      if vid = 0 \<or> role = 0 then w
      else if view_of w vid = None then fail Wild_pointer w
      else
        let w = upd_view vid (set_role ty role) w
        in if ty = WLC_CUSTOM_SURFACE then w else name_user (wl_of w role (role_kind ty)) (UD_number vid) w)"

definition attach_popup_to_view_or_create :: "env \<Rightarrow> nat \<Rightarrow> nat \<Rightarrow> nat \<Rightarrow> world \<Rightarrow> world" where
  "attach_popup_to_view_or_create E sid parent role w =
     (let (vid, w) = wlc_compositor_view_for_surface E sid w in
      if vid = 0 then w
      else if view_of w vid = None then fail Wild_pointer w
      else
        let w = upd_view vid (\<lambda>v. v\<lparr>v_xdg_popup := role\<rparr>) w;
            pv = (case surface_of w parent of None \<Rightarrow> 0 | Some p \<Rightarrow> live_view w (sf_view p));
            w = wlc_view_set_parent_ptr vid pv w;
            w = wlc_view_set_type_ptr vid WLC_BIT_POPUP True w
        in name_user (wl_of w role K_xdg_popup) (UD_number vid) w)"

definition orphan_views :: "nat \<Rightarrow> world \<Rightarrow> world" where
  "orphan_views sid w =
     fold (\<lambda>h w. case (view_of w h, surface_of w sid) of
                   (Some v, Some s) \<Rightarrow> if v_parent v = sf_view s then wlc_view_set_parent_ptr h 0 w else w
                 | _ \<Rightarrow> w)
       (c_views (w_comp w)) w"

definition orphan_surfaces :: "env \<Rightarrow> nat \<Rightarrow> world \<Rightarrow> world" where
  "orphan_surfaces E sid w =
     fold (\<lambda>r w. case surface_of w r of
                   Some s \<Rightarrow> if sf_parent s = sid then wlc_surface_set_parent E r 0 w else w
                 | None \<Rightarrow> w)
       (c_surfaces (w_comp w)) w"

fun surface_event :: "env \<Rightarrow> wlc_surface_event \<Rightarrow> world \<Rightarrow> world" where
  "surface_event E (WLC_SURFACE_EVENT_REQUEST_VIEW_ATTACH sid ty role) w = attach_surface_to_view_or_create E sid ty role w"
| "surface_event E (WLC_SURFACE_EVENT_REQUEST_VIEW_POPUP sid parent role) w =
     attach_popup_to_view_or_create E sid parent role w"
| "surface_event E (WLC_SURFACE_EVENT_DESTROYED sid) w = orphan_surfaces E sid (orphan_views sid w)"
| "surface_event E (WLC_SURFACE_EVENT_CREATED sid) w = w"

section \<open>Outputs\<close>

definition get_surfaceless_output :: "world \<Rightarrow> nat" where
  "get_surfaceless_output w =
     (case filter (\<lambda>h. output_of w h \<noteq> None \<and> \<not> has_display w h) (c_outputs (w_comp w)) of [] \<Rightarrow> 0 | h # _ \<Rightarrow> h)"

definition active_output :: "env \<Rightarrow> nat \<Rightarrow> world \<Rightarrow> world" where
  "active_output E oid w =
     (let old = c_active_output (w_comp w) in
      if old = oid then w
      else
        let w = (if old \<noteq> 0 then call2 (if_output_focus (iface E)) old False w else w);
            w = wlc_output_schedule_repaint (c_active_output (w_comp w)) w;
            w = upd_comp (\<lambda>c. c\<lparr>c_active_output := oid\<rparr>) w
        in if oid \<noteq> 0
           then wlc_output_schedule_repaint oid (call2 (if_output_focus (iface E)) oid True w)
           else w)"

definition add_output :: "env \<Rightarrow> wlc_backend_surface \<Rightarrow> wlc_output_information \<Rightarrow> world \<Rightarrow> world" where
  "add_output E bs info w =
     (let (oid, w) = (if get_surfaceless_output w \<noteq> 0 then (get_surfaceless_output w, w) else create_output E w) in
      if oid = 0 then emit (Bs_release 0) w
      else
        let w = wlc_output_set_information E oid (Some info) w;
            (refused, w) = call1_except (if_output_created (iface E)) False oid w
        in
        if refused then wlc_output_terminate E oid w
        else
          let w = (if output_of w oid = None then fail Wild_pointer w else w);
              w = upd_output oid (\<lambda>x. x\<lparr>o_created := True\<rparr>) w;
              w = snd (wlc_output_set_backend_surface E oid (Some bs) w);
              w = (if c_active_output (w_comp w) = 0 then active_output E oid w else w)
          in wlc_output_schedule_repaint oid w)"

definition alive_output :: "nat \<Rightarrow> world \<Rightarrow> nat" where
  "alive_output oid w = (case filter (\<lambda>h. has_display w h \<and> h \<noteq> oid) (c_outputs (w_comp w)) of [] \<Rightarrow> 0 | h # _ \<Rightarrow> h)"

definition remove_output :: "env \<Rightarrow> nat \<Rightarrow> world \<Rightarrow> world" where
  "remove_output E oid w =
     (let alive = alive_output oid w;
          w = (if c_active_output (w_comp w) = oid
               then active_output E alive (upd_comp (\<lambda>c. c\<lparr>c_active_output := 0\<rparr>) w) else w);
          w = call1 (if_output_destroyed (iface E)) oid w;
          w = snd (wlc_output_set_backend_surface E oid None w)
      in if c_terminating (w_comp w) \<and> alive = 0 then wlc_compositor_terminate E w else w)"

fun output_event :: "env \<Rightarrow> wlc_output_event \<Rightarrow> world \<Rightarrow> world" where
  "output_event E (WLC_OUTPUT_EVENT_ADD bs info) w = add_output E bs info w"
| "output_event E (WLC_OUTPUT_EVENT_ACTIVE oid) w = active_output E oid w"
| "output_event E (WLC_OUTPUT_EVENT_REMOVE oid) w = remove_output E oid w"
| "output_event E WLC_OUTPUT_EVENT_UPDATE w = backend_update_outputs E (emit Backend_update_outputs w)"
| "output_event E (WLC_OUTPUT_EVENT_SURFACE oid) w = respond_tty_activate w"

fun focus_event :: "env \<Rightarrow> wlc_focus_event \<Rightarrow> world \<Rightarrow> world" where
  "focus_event E (WLC_FOCUS_EVENT_OUTPUT oid) w = active_output E oid w"
| "focus_event E (WLC_FOCUS_EVENT_VIEW vid) w = w"

section \<open>Public functions\<close>

definition wlc_get_outputs :: "env \<Rightarrow> world \<Rightarrow> nat list" where
  "wlc_get_outputs E w =
     (if ext_calloc E (length (c_outputs (w_comp w))) then c_outputs (w_comp w) else [])"

definition wlc_get_focused_output :: "world \<Rightarrow> nat" where
  "wlc_get_focused_output w = c_active_output (w_comp w)"

definition wlc_compositor_is_good :: "env \<Rightarrow> world \<Rightarrow> bool" where
  "wlc_compositor_is_good E w = list_ex (\<lambda>h. output_of w h \<noteq> None \<and> ext_context_live E h w) (c_outputs (w_comp w))"

end
