(* ===== verification/Subsurface.thy ===== *)
theory Subsurface
  imports Compositor Commit
begin

text \<open>
  What the requests on subsurfaces come to (src/compositor/compositor.c): the restacking of siblings, the
  walk that tells the surfaces below about a change of the synchronized mode, and cycles of parents.
\<close>

section \<open>Restacking\<close>

lemma last_index_of_None: "last_index_of y xs = None \<longleftrightarrow> y \<notin> set xs"
  by (induction xs) (auto split: option.split)

lemma last_index_of_distinct: "distinct xs \<Longrightarrow> i < length xs \<Longrightarrow> last_index_of (xs ! i) xs = Some i"
proof (induction xs arbitrary: i)
  case (Cons x xs)
  show ?case
  proof (cases i)
    case 0
    then show ?thesis using Cons.prems last_index_of_None [of x xs] by simp
  next
    case (Suc j)
    then show ?thesis using Cons by simp
  qed
qed simp

lemma restack_between:
  assumes "pool_ops_ok P" "insert_at P (take i l @ drop (Suc i) l) k x = Some l'" "i < length l" "k < length l"
  shows "l' = take k (take i l @ drop (Suc i) l) @ x # drop k (take i l @ drop (Suc i) l)"
  using pool_ops_okD(3) [OF assms(1,2)] assms(3,4) by simp

text \<open>What \<open>restack_list\<close> does when it finds both entries: the surface comes right before its sibling
  (offset 0) or right behind it (offset 1), and the others keep their order.\<close>

lemma remove_split:
  assumes "distinct l" "l = xs @ y # ys"
  shows "last_index_of y l = Some (length xs)" "take (length xs) l @ drop (Suc (length xs)) l = xs @ ys"
  using last_index_of_distinct [OF assms(1), of "length xs"] assms(2) by simp_all

lemma restack_list_spec:
  assumes "pool_ops_ok P" "distinct l" "sid \<in> set l" "sib \<in> set l" "sid \<noteq> sib"
    and "\<And>xs i x. insert_at P xs i x \<noteq> None" "offset \<le> 1"
  obtains as bs where "remove1 sid l = as @ sib # bs"
    "restack_list P sid sib offset l = (if offset = 0 then as @ sid # sib # bs else as @ sib # sid # bs)"
proof -
  obtain xs ys where l: "l = xs @ sid # ys" using assms(3) by (meson split_list)
  have nx: "sid \<notin> set xs" "sid \<notin> set ys" using assms(2) l by auto
  have r: "remove1 sid l = xs @ ys" using l nx by (simp add: remove1_append)
  have i: "last_index_of sid l = Some (length xs)" by (rule remove_split(1) [OF assms(2) l])
  have rem: "remove_at P l (length xs) = xs @ ys"
    using pool_ops_okD(4) [OF assms(1), of "length xs" l] remove_split(2) [OF assms(2) l] l by simp
  have "sib \<in> set (xs @ ys)" using assms(4,5) l by auto
  then obtain as bs where ab: "xs @ ys = as @ sib # bs" by (meson split_list)
  have d: "distinct (as @ sib # bs)" using assms(2) l ab by (metis distinct_remove1 r)
  have j: "last_index_of sib l = Some (if length as < length xs then length as else Suc (length as))"
  proof (cases "length as < length xs")
    case True
    then have "xs ! length as = sib" using ab by (metis nth_append nth_append_length)
    then show ?thesis using last_index_of_distinct [OF assms(2), of "length as"] True l by (simp add: nth_append)
  next
    case False
    then have "ys ! (length as - length xs) = sib" using ab by (metis nth_append nth_append_length)
    moreover have "length as < length xs + length ys" using arg_cong [OF ab, of length] by simp
    ultimately show ?thesis
      using last_index_of_distinct [OF assms(2), of "Suc (length as)"] False l by (simp add: nth_append Suc_diff_le)
  qed
  obtain l' where ins: "insert_at P (xs @ ys) (length as + offset) sid = Some l'" using assms(6) by blast
  have "length as + offset \<le> length (xs @ ys)" using assms(7) ab by simp
  then have "l' = take (length as + offset) (xs @ ys) @ sid # drop (length as + offset) (xs @ ys)"
    using pool_ops_okD(3) [OF assms(1) ins] by simp
  then have l': "l' = (if offset = 0 then as @ sid # sib # bs else as @ sib # sid # bs)"
    using ab assms(7) by (cases "offset = 0") (simp_all add: le_Suc_eq)
  have t: "(if length xs < (if length as < length xs then length as else Suc (length as))
            then (if length as < length xs then length as else Suc (length as)) - 1
            else (if length as < length xs then length as else Suc (length as))) = length as"
    by simp
  have "restack_list P sid sib offset l = l'"
    by (simp only: restack_list_def i j option.case prod.case Let_def t rem ins)
  then show thesis using that r ab l' by simp
qed

lemma upd_surface_id:
  assumes "\<And>s. surface_of w r = Some s \<Longrightarrow> f s = s" "r \<noteq> 0"
  shows "upd_surface r f w = w"
proof -
  have "map_option (map_surface f) (w_res w r) = w_res w r"
  proof (cases "w_res w r")
    case (Some e)
    then show ?thesis using assms by (cases "re_data e") (simp_all add: surface_of_def)
  qed simp
  then have "(w_res w)(r := map_option (map_surface f) (w_res w r)) = w_res w" by simp
  then show ?thesis by (simp add: upd_surface_def)
qed

text \<open>Requests to restack a subsurface have no effect: the code takes the sibling from the user data of its
  wl_surface, which for every surface the compositor has created is the compositor object and not the
  number of the surface; an address is no number on the list, so the sibling is never found. A subsurface
  whose parent is gone makes the same request read through a NULL pointer.\<close>

theorem subsurface_restack_never_moves:
  assumes "w_udata w res = UD_number sid" and "surface_of w sid = Some s" and "w_udata w sibling = UD_compositor"
    and "\<And>p. surface_of w (sf_parent s) = Some p \<Longrightarrow> ext_address E UD_compositor \<notin> set (sf_subsurface_list p)"
  shows "wl_cb_subsurface_place_above E res sibling w = wl_cb_subsurface_place_below E res sibling w \<and>
    wl_cb_subsurface_place_above E res sibling w = (if surface_of w (sf_parent s) = None then fail Null_pointer w else w)"
proof -
  have n: "user_number E w res = sid" "user_number E w sibling = ext_address E UD_compositor"
    using assms(1,3) by (simp_all add: user_number_def)
  have r: "restack_subsurface_relative_to E sid (ext_address E UD_compositor) k w =
      (if surface_of w (sf_parent s) = None then fail Null_pointer w else w)" for k
  proof (cases "surface_of w (sf_parent s)")
    case (Some p)
    then have "last_index_of (ext_address E UD_compositor) (sf_subsurface_list p) = None"
      using assms(4) by (simp add: last_index_of_None)
    then have "restack_list (hp E) sid (ext_address E UD_compositor) k (sf_subsurface_list p) = sf_subsurface_list p"
      by (simp add: restack_list_def split: option.split)
    then have "upd_surface (sf_parent s) (\<lambda>p. p\<lparr>sf_subsurface_list :=
        restack_list (hp E) sid (ext_address E UD_compositor) k (sf_subsurface_list p)\<rparr>) w = w"
      using Some by (intro upd_surface_id) (auto intro: ccontr)
    then show ?thesis using assms(2) Some by (simp add: restack_subsurface_relative_to_def)
  qed (simp add: restack_subsurface_relative_to_def assms(2))
  show ?thesis using r by (simp add: wl_cb_subsurface_place_above_def wl_cb_subsurface_place_below_def n)
qed

text \<open>Surface 2 with the subsurfaces 3 and 4, whose wayland resources are 12, 13 and 14; 23 is the wl_subsurface
  of 3.\<close>

definition family_world :: world where
  "family_world =
     put_res 2 (R_surface (surface_blank\<lparr>sf_subsurface_list := [4, 3]\<rparr>)) 12
       (put_res 3 (R_surface (surface_blank\<lparr>sf_parent := 2\<rparr>)) 13
         (put_res 4 (R_surface (surface_blank\<lparr>sf_parent := 2\<rparr>)) 14
           (world_blank\<lparr>w_udata := (\<lambda>_. UD_null)(12 := UD_compositor, 13 := UD_compositor, 14 := UD_compositor, 23 := UD_number 3)\<rparr>)))"

lemma put_res_udata [simp]: "w_udata (put_res r d l w) = w_udata w"
  by (simp add: put_res_def)

lemma blank_udata [simp]:
  "view_of (world_blank\<lparr>w_udata := u\<rparr>) h = None" "output_of (world_blank\<lparr>w_udata := u\<rparr>) h = None"
  "surface_of (world_blank\<lparr>w_udata := u\<rparr>) r = None" "buffer_of (world_blank\<lparr>w_udata := u\<rparr>) r = None"
  by (simp_all add: world_blank_def sample_access)

lemma family_world_of:
  "surface_of family_world r =
     (if r = 2 then Some (surface_blank\<lparr>sf_subsurface_list := [4, 3]\<rparr>)
      else if r = 3 \<or> r = 4 then Some (surface_blank\<lparr>sf_parent := 2\<rparr>) else None)"
  "w_udata family_world 14 = UD_compositor" "w_udata family_world 23 = UD_number 3"
  by (simp_all add: family_world_def)

lemma surface_blank_fields [simp]:
  "sf_parent surface_blank = 0" "sf_subsurface_list surface_blank = []" "\<not> sf_synchronized surface_blank"
  "\<not> sf_parent_synchronized surface_blank"
  by (simp_all add: surface_blank_def)

theorem subsurface_restack_never_moves_witness:
  "wl_cb_subsurface_place_above env_ref 23 14 family_world = family_world"
  by (rule subsurface_restack_never_moves [where sid = 3 and s = "surface_blank\<lparr>sf_parent := 2\<rparr>", THEN conjunct2, THEN trans])
     (auto simp: family_world_of)

section \<open>The synchronized mode\<close>

text \<open>The surfaces the walk reaches: down the lists, not beyond a surface that is synchronized itself.\<close>

inductive reached :: "world \<Rightarrow> nat \<Rightarrow> nat \<Rightarrow> bool" for w where
  reached_start: "surface_of w sid = Some s \<Longrightarrow> \<not> sf_synchronized s \<Longrightarrow> reached w sid sid"
| reached_below: "surface_of w sid = Some s \<Longrightarrow> \<not> sf_synchronized s \<Longrightarrow> c \<in> set (sf_subsurface_list s) \<Longrightarrow>
    reached w c r \<Longrightarrow> reached w sid r"

inductive_simps reached_iff: "reached w sid r"

text \<open>The state the walk reads is not what it writes.\<close>

definition walk_view :: "world \<Rightarrow> nat \<Rightarrow> (bool \<times> nat list) option" where
  "walk_view w r = map_option (\<lambda>s. (sf_synchronized s, sf_subsurface_list s)) (surface_of w r)"

definition told :: "world \<Rightarrow> bool \<Rightarrow> nat set \<Rightarrow> world \<Rightarrow> bool" where
  "told w state R w' \<longleftrightarrow>
     (\<forall>r. surface_of w' r =
        (if r \<in> R then map_option (\<lambda>s. s\<lparr>sf_parent_synchronized := state\<rparr>) (surface_of w r) else surface_of w r))"

lemma walk_view_surface: "walk_view w' = walk_view w \<Longrightarrow> surface_of w r = Some s \<Longrightarrow>
    \<exists>s'. surface_of w' r = Some s' \<and> sf_synchronized s' = sf_synchronized s \<and> sf_subsurface_list s' = sf_subsurface_list s"
  by (drule fun_cong [of _ _ r]) (auto simp: walk_view_def)

lemma reached_cong: "walk_view w' = walk_view w \<Longrightarrow> reached w sid r \<Longrightarrow> reached w' sid r"
proof (rotate_tac, induction rule: reached.induct)
  case (reached_start sid s)
  then show ?case using walk_view_surface [of w' w sid s] reached.reached_start by metis
next
  case (reached_below sid s c r)
  then show ?case using walk_view_surface [of w' w sid s] reached.reached_below by metis
qed

lemma reached_same: "walk_view w' = walk_view w \<Longrightarrow> reached w' = reached w"
  using reached_cong [of w' w] reached_cong [of w w'] by (intro ext) metis

lemma told_walk: "told w state R w' \<Longrightarrow> walk_view w' = walk_view w"
  by (auto simp: told_def walk_view_def fun_eq_iff option.map_comp comp_def)

lemma told_trans: "told w state R w' \<Longrightarrow> told w' state S w'' \<Longrightarrow> told w state (R \<union> S) w''"
  by (auto simp: told_def option.map_comp comp_def)

lemma told_refl: "told w state {} w"
  by (simp add: told_def)

lemma told_upd: "told w state {r} (upd_surface r (\<lambda>s. s\<lparr>sf_parent_synchronized := state\<rparr>) w)"
  by (simp add: told_def)

lemma fold_None: "fold (\<lambda>c r. case r of None \<Rightarrow> None | Some w \<Rightarrow> g c w) cs None = None"
  by (induction cs) simp_all

lemma walk_tells:
  "recursive_set_subsurface_parent_sync_state n sid state w = Some w' \<Longrightarrow> told w state {r. reached w sid r} w'"
proof (induction n arbitrary: sid w w')
  case (Suc n)
  let ?walk = "recursive_set_subsurface_parent_sync_state n"
  show ?case
  proof (cases "surface_of w sid")
    case None
    then have "{r. reached w sid r} = {}" by (auto simp: reached_iff [of w sid])
    then show ?thesis using Suc.prems None by (simp add: told_refl)
  next
    case (Some s)
    show ?thesis
    proof (cases "sf_synchronized s")
      case True
      then have "{r. reached w sid r} = {}" using Some by (auto simp: reached_iff [of w sid])
      then show ?thesis using Suc.prems Some True by (simp add: told_refl)
    next
      case False
      have loop: "told w state (R \<union> {r. \<exists>c \<in> set cs. reached w c r}) v'"
        if "told w state R v" "fold (\<lambda>c r. case r of None \<Rightarrow> None | Some w \<Rightarrow> ?walk c state w) cs (Some v) = Some v'" for cs R v v'
        using that
      proof (induction cs arbitrary: R v)
        case (Cons c cs)
        obtain u where u: "?walk c state v = Some u" using Cons.prems(2) by (cases "?walk c state v") (simp_all add: fold_None)
        have "told w state (R \<union> {r. reached w c r}) u"
          using told_trans [OF Cons.prems(1) Suc.IH [OF u]] by (simp add: reached_same [OF told_walk [OF Cons.prems(1)]])
        then have "told w state ((R \<union> {r. reached w c r}) \<union> {r. \<exists>c \<in> set cs. reached w c r}) v'"
          using Cons.prems(2) u by (intro Cons.IH) simp_all
        moreover have "(R \<union> {r. reached w c r}) \<union> {r. \<exists>c \<in> set cs. reached w c r} = R \<union> {r. \<exists>c \<in> set (c # cs). reached w c r}"
          by auto
        ultimately show ?case by (simp only:)
      qed simp
      have "{r. reached w sid r} = {sid} \<union> {r. \<exists>c \<in> set (sf_subsurface_list s). reached w c r}"
        using Some False by (auto simp: reached_iff [of w sid])
      then show ?thesis
        using loop [OF told_upd [of w state sid]] Suc.prems Some False by simp
    qed
  qed
qed simp

text \<open>On a tree the walk returns: \<open>depth\<close> falls from every surface that is not synchronized to those below it.\<close>

definition falls :: "(nat \<Rightarrow> nat) \<Rightarrow> world \<Rightarrow> bool" where
  "falls depth w \<longleftrightarrow>
     (\<forall>r s c. surface_of w r = Some s \<longrightarrow> \<not> sf_synchronized s \<longrightarrow> c \<in> set (sf_subsurface_list s) \<longrightarrow> depth c < depth r)"

lemma falls_cong:
  assumes "walk_view w' = walk_view w" "falls depth w"
  shows "falls depth w'"
  unfolding falls_def
proof (intro allI impI)
  fix r s c
  assume s: "surface_of w' r = Some s" "\<not> sf_synchronized s" "c \<in> set (sf_subsurface_list s)"
  obtain s' where "surface_of w r = Some s'" "sf_synchronized s' = sf_synchronized s" "sf_subsurface_list s' = sf_subsurface_list s"
    using walk_view_surface [OF assms(1) [symmetric] s(1)] by blast
  then show "depth c < depth r" using assms(2) s(2,3) unfolding falls_def by metis
qed

lemma walk_returns:
  "falls depth w \<Longrightarrow> depth sid < n \<Longrightarrow> \<exists>w'. recursive_set_subsurface_parent_sync_state n sid state w = Some w'"
proof (induction n arbitrary: sid w)
  case (Suc n)
  let ?walk = "recursive_set_subsurface_parent_sync_state n"
  show ?case
  proof (cases "surface_of w sid")
    case (Some s)
    have loop: "\<exists>v'. fold (\<lambda>c r. case r of None \<Rightarrow> None | Some w \<Rightarrow> ?walk c state w) cs (Some v) = Some v'"
      if "falls depth v" "\<forall>c \<in> set cs. depth c < n" for cs v
      using that
    proof (induction cs arbitrary: v)
      case (Cons c cs)
      obtain u where u: "?walk c state v = Some u" using Suc.IH [OF Cons.prems(1), of c] Cons.prems(2) by auto
      have "falls depth u" by (rule falls_cong [OF told_walk [OF walk_tells [OF u]] Cons.prems(1)])
      then show ?case using Cons.IH Cons.prems(2) u by simp
    qed simp
    have "falls depth (upd_surface sid (\<lambda>s. s\<lparr>sf_parent_synchronized := state\<rparr>) w)"
      by (rule falls_cong [OF told_walk [OF told_upd] Suc.prems(1)])
    moreover have "\<forall>c \<in> set (sf_subsurface_list s). depth c < n" if "\<not> sf_synchronized s"
      using Suc.prems Some that unfolding falls_def by (metis less_Suc_eq_le order_less_le_trans)
    ultimately show ?thesis using Some loop by (cases "sf_synchronized s") simp_all
  qed simp
qed simp

text \<open>Leaving the synchronized mode: over a tree of surfaces the walk returns and clears
  the inherited mark of the surface and of exactly those below it that are not shielded by a synchronized
  one in between, nothing else of any surface; and the cached state is committed if and only if the parent
  is not synchronized either, by itself or by inheritance.\<close>

theorem set_desync_spec:
  assumes "w_udata w res = UD_number sid" and "surface_of w sid = Some s"
  defines "w0 \<equiv> upd_surface sid (\<lambda>s. s\<lparr>sf_synchronized := False\<rparr>) w"
  assumes "falls depth w0" and "depth sid < fuel E"
  shows "\<exists>w1. told w0 False {r. reached w0 sid r} w1 \<and> reached w0 sid sid \<and>
    wl_cb_subsurface_set_desync E res w =
      (case surface_of w1 (sf_parent s) of
         None \<Rightarrow> w1
       | Some p \<Rightarrow> if sf_synchronized p \<or> sf_parent_synchronized p then w1 else wlc_surface_commit E sid w1)"
proof -
  obtain w1 where w1: "recursive_set_subsurface_parent_sync_state (fuel E) sid False w0 = Some w1"
    using walk_returns [OF assms(4,5)] by blast
  have "user_number E w res = sid" using assms(1) by (simp add: user_number_def)
  then have "wl_cb_subsurface_set_desync E res w =
      (case surface_of w1 (sf_parent s) of
         None \<Rightarrow> w1
       | Some p \<Rightarrow> if sf_synchronized p \<or> sf_parent_synchronized p then w1 else wlc_surface_commit E sid w1)"
    using assms(2) w1 by (auto simp: wl_cb_subsurface_set_desync_def w0_def returned_def Let_def split: option.split)
  moreover have "reached w0 sid sid"
    by (rule reached_start [of _ _ "s\<lparr>sf_synchronized := False\<rparr>"]) (simp_all add: w0_def assms(2))
  ultimately show ?thesis using walk_tells [OF w1] by blast
qed

definition sync_world :: world where
  "sync_world = put_res 2 (R_surface (surface_blank\<lparr>sf_subsurface_list := [3], sf_synchronized := True\<rparr>)) 12
     (put_res 3 (R_surface (surface_blank\<lparr>sf_parent := 2, sf_parent_synchronized := True\<rparr>)) 13
       (world_blank\<lparr>w_udata := (\<lambda>_. UD_number 3)\<rparr>))"

lemma sync_world_of:
  "surface_of sync_world r =
     (if r = 2 then Some (surface_blank\<lparr>sf_subsurface_list := [3], sf_synchronized := True\<rparr>)
      else if r = 3 then Some (surface_blank\<lparr>sf_parent := 2, sf_parent_synchronized := True\<rparr>) else None)"
  "w_udata sync_world l = UD_number 3"
  by (simp_all add: sync_world_def)

theorem set_desync_spec_witness:
  "\<exists>s. surface_of (wl_cb_subsurface_set_desync env_ref 23 sync_world) 3 = Some s \<and> \<not> sf_parent_synchronized s"
proof -
  let ?w0 = "upd_surface 3 (\<lambda>s. s\<lparr>sf_synchronized := False\<rparr>) sync_world"
  have f: "falls (\<lambda>_. 0) ?w0" by (auto simp: falls_def sync_world_of)
  obtain w1 where w1: "told ?w0 False {r. reached ?w0 3 r} w1" "reached ?w0 3 3"
    "wl_cb_subsurface_set_desync env_ref 23 sync_world = (case surface_of w1 2 of None \<Rightarrow> w1
       | Some p \<Rightarrow> if sf_synchronized p \<or> sf_parent_synchronized p then w1 else wlc_surface_commit env_ref 3 w1)"
    using set_desync_spec [OF sync_world_of(2), of "surface_blank\<lparr>sf_parent := 2, sf_parent_synchronized := True\<rparr>" "\<lambda>_. 0" env_ref 23] f
    by (auto simp: sync_world_of)
  have "\<not> reached ?w0 3 2" by (auto simp: reached_iff [of ?w0 3] sync_world_of)
  then have "surface_of w1 2 = surface_of sync_world 2" using w1(1) by (auto simp: told_def)
  then have "wl_cb_subsurface_set_desync env_ref 23 sync_world = w1" using w1(3) by (simp add: sync_world_of)
  moreover have "surface_of w1 3 = map_option (\<lambda>s. s\<lparr>sf_parent_synchronized := False\<rparr>) (surface_of ?w0 3)"
    using w1(1,2) by (auto simp: told_def)
  ultimately show ?thesis by (simp add: sync_world_of)
qed

text \<open>Entering the synchronized mode does not reach the surfaces below: the walk is started on a surface that
  was just marked synchronized, where it stops at once. The surfaces below keep committing by themselves.\<close>

theorem set_sync_stops_at_itself:
  assumes "surface_of w (user_number E w res) \<noteq> None" and "fuel E \<noteq> 0"
  shows "wl_cb_subsurface_set_sync E res w = upd_surface (user_number E w res) (\<lambda>s. s\<lparr>sf_synchronized := True\<rparr>) w"
proof -
  obtain n where "fuel E = Suc n" using assms(2) by (cases "fuel E") simp_all
  then show ?thesis using assms(1) by (auto simp: wl_cb_subsurface_set_sync_def Let_def returned_def)
qed

theorem set_sync_stops_at_itself_witness:
  "wl_cb_subsurface_set_sync env_ref 23 family_world = upd_surface 3 (\<lambda>s. s\<lparr>sf_synchronized := True\<rparr>) family_world"
  using set_sync_stops_at_itself [of family_world env_ref 23] by (simp add: family_world_of user_number_def)

section \<open>Cycles of parents\<close>

lemma walk_hangs:
  assumes "\<And>r. r \<in> D \<Longrightarrow> \<exists>s. surface_of w r = Some s \<and> \<not> sf_synchronized s \<and> (\<exists>c \<in> D. c \<in> set (sf_subsurface_list s))"
  shows "sid \<in> D \<Longrightarrow> recursive_set_subsurface_parent_sync_state n sid state w = None"
  using assms
proof (induction n arbitrary: sid w)
  case (Suc n)
  let ?walk = "recursive_set_subsurface_parent_sync_state n"
  let ?f = "\<lambda>c r. case r of None \<Rightarrow> None | Some w \<Rightarrow> ?walk c state w"
  obtain s c where s: "surface_of w sid = Some s" "\<not> sf_synchronized s" "c \<in> D" "c \<in> set (sf_subsurface_list s)"
    using Suc.prems by blast
  have dead: "?walk c state v = None" if "walk_view v = walk_view w" for v
  proof (rule Suc.IH [OF s(3)])
    fix r
    assume "r \<in> D"
    then obtain t where t: "surface_of w r = Some t" "\<not> sf_synchronized t" "\<exists>c \<in> D. c \<in> set (sf_subsurface_list t)"
      using Suc.prems(2) by blast
    then show "\<exists>s. surface_of v r = Some s \<and> \<not> sf_synchronized s \<and> (\<exists>c \<in> D. c \<in> set (sf_subsurface_list s))"
      using walk_view_surface [OF that t(1)] by metis
  qed
  have loop: "fold ?f cs (Some v) = None" if "walk_view v = walk_view w" "c \<in> set cs" for cs v
    using that
  proof (induction cs arbitrary: v)
    case (Cons d cs)
    show ?case
    proof (cases "?walk d state v")
      case None
      then show ?thesis by (simp add: fold_None)
    next
      case (Some u)
      then have "c \<noteq> d" using dead Cons.prems(1) by auto
      moreover have "walk_view u = walk_view w" using told_walk [OF walk_tells [OF Some]] Cons.prems(1) by simp
      ultimately show ?thesis using Cons Some by simp
    qed
  qed simp
  have "walk_view (upd_surface sid (\<lambda>s. s\<lparr>sf_parent_synchronized := state\<rparr>) w) = walk_view w"
    by (rule told_walk [OF told_upd])
  then show ?case using loop s by simp
qed simp

definition synchronized_of :: "world \<Rightarrow> nat \<Rightarrow> bool option" where
  "synchronized_of w r = map_option sf_synchronized (surface_of w r)"

interpretation sync_frame: view_frame synchronized_of
proof
  fix w w' :: world
  assume e: "view_erase w' = view_erase w"
  show "synchronized_of w' = synchronized_of w"
    unfolding synchronized_of_def by (intro ext erased_surface_field [OF e]) (simp add: erase_surface_def)
qed

lemma synchronized_upd: "(\<And>s. sf_synchronized (f s) = sf_synchronized s) \<Longrightarrow> synchronized_of (upd_surface r f w) = synchronized_of w"
  by (auto simp: synchronized_of_def fun_eq_iff option.map_comp comp_def)

lemma set_parent_sync: "synchronized_of (wlc_surface_set_parent E sid pid w) = synchronized_of w"
  by (simp add: wlc_surface_set_parent_def Let_def synchronized_upd sync_frame.keep_basic split: option.split)

interpretation udata_frame: view_frame w_udata
proof
  fix w w' :: world
  assume "view_erase w' = view_erase w"
  then have "w_udata (view_erase w') = w_udata (view_erase w)" by simp
  then show "w_udata w' = w_udata w" by (simp add: view_erase_def blank_views_def att_erase_def)
qed

lemma set_parent_udata: "w_udata (wlc_surface_set_parent E sid pid w) = w_udata w"
  by (simp add: wlc_surface_set_parent_def Let_def udata_frame.keep_basic split: option.split)

text \<open>New resources get numbers that are not in use.\<close>

definition fresh_numbers :: "env \<Rightarrow> bool" where
  "fresh_numbers E \<longleftrightarrow> (\<forall>w r. ext_new_resource E w = Some r \<longrightarrow> r \<noteq> 0 \<and> w_res w r = None)"

lemma get_subsurface_is_set_parent:
  assumes "fresh_numbers E" "ext_new_resource E w = Some r" "w_udata w res \<noteq> UD_null" "sid \<noteq> parent" "surface_of w parent \<noteq> None"
  shows "\<exists>v. surface_of v = surface_of w \<and> (\<forall>q. q \<noteq> r \<longrightarrow> w_res v q = w_res w q) \<and> w_udata v res \<noteq> UD_null \<and>
    wl_cb_subcompositor_get_subsurface E client res wlid sid parent w = wlc_surface_set_parent E sid parent v"
proof -
  have r: "r \<noteq> 0" "w_res w r = None"
    using assms(1,2) unfolding fresh_numbers_def by blast+
  define v where "v = implement_resource r (UD_number sid)
      (w\<lparr>w_res := (w_res w)(r \<mapsto> \<lparr>re_data = R_subsurface, re_wl = ext_wl_create E client wlid w\<rparr>)\<rparr>)"
  have s: "surface_of v = surface_of w" "\<forall>q. q \<noteq> r \<longrightarrow> w_res v q = w_res w q"
    using r by (auto simp: v_def implement_resource_def surface_of_def fun_eq_iff)
  have "w_udata v res \<noteq> UD_null" using r assms(3) by (simp add: v_def implement_resource_def)
  moreover have "wl_cb_subcompositor_get_subsurface E client res wlid sid parent w = wlc_surface_set_parent E sid parent v"
    using r assms(2-5) s
    by (auto simp: wl_cb_subcompositor_get_subsurface_def create_resource_def Let_def simp flip: v_def)
  ultimately show ?thesis using s by blast
qed

lemma family_surface: "surface_of v = surface_of w \<Longrightarrow> family v = family w" "surface_of v = surface_of w \<Longrightarrow> synchronized_of v = synchronized_of w"
  by (simp_all add: family_def synchronized_of_def fun_eq_iff)

text \<open>C28 (termination). The compositor accepts a cycle of parents, and then does not return from the request that leaves
  the synchronized mode: once a client has made each of two surfaces the subsurface of the other, the walk
  ends for no number of calls.\<close>

theorem parent_cycle_hangs:
  assumes "pool_ops_ok (hp E)" and "\<And>xs x. push_front (hp E) xs x \<noteq> None" and "fresh_numbers E"
    and "ext_new_resource E w = Some r1"
    and "ext_new_resource E (wl_cb_subcompositor_get_subsurface E client res id1 a b w) = Some r2"
    and "w_udata w res \<noteq> UD_null" and "a \<noteq> b"
    and "surface_of w a = Some s" and "sf_parent s = 0" and "\<not> sf_synchronized s"
    and "surface_of w b = Some t" and "sf_parent t = 0" and "\<not> sf_synchronized t"
  shows "recursive_set_subsurface_parent_sync_state n a state
    (wl_cb_subcompositor_get_subsurface E client res id2 b a (wl_cb_subcompositor_get_subsurface E client res id1 a b w)) = None"
proof -
  let ?w1 = "wl_cb_subcompositor_get_subsurface E client res id1 a b w"
  let ?w2 = "wl_cb_subcompositor_get_subsurface E client res id2 b a ?w1"
  have nz: "a \<noteq> 0" "b \<noteq> 0" using assms(8,11) by (auto intro: ccontr)
  obtain v where v: "surface_of v = surface_of w" "w_udata v res \<noteq> UD_null" "?w1 = wlc_surface_set_parent E a b v"
    using get_subsurface_is_set_parent [OF assms(3,4,6,7), of client id1] assms(11) by auto
  have "family ?w1 = join a b (leave a (family v))" unfolding v(3)
    by (rule set_parent_family(2) [OF assms(1)]) (use v(1) assms(2,8,9,11) nz in auto)
  then have F1: "family ?w1 = (family w)(b \<mapsto> (0, a # sf_subsurface_list t), a \<mapsto> (b, sf_subsurface_list s))"
    using assms(7,8,9,11,12) family_zero [of w]
    by (auto simp: family_surface(1) [OF v(1)] join_def leave_def Let_def family_def)
  have S1: "synchronized_of ?w1 = synchronized_of w" unfolding v(3) set_parent_sync using family_surface(2) [OF v(1)] .
  have U1: "w_udata ?w1 res \<noteq> UD_null" using v(2,3) by (simp add: set_parent_udata)
  obtain a1 where a1: "surface_of ?w1 a = Some a1"
    using fun_cong [OF F1, of a] assms(7) by (cases "surface_of ?w1 a") (simp_all add: family_def)
  obtain b1 where b1: "surface_of ?w1 b = Some b1" "sf_parent b1 = 0" "sf_subsurface_list b1 = a # sf_subsurface_list t"
    using fun_cong [OF F1, of b] assms(7) by (cases "surface_of ?w1 b") (auto simp: family_def)
  obtain u where u: "surface_of u = surface_of ?w1" "w_udata u res \<noteq> UD_null" "?w2 = wlc_surface_set_parent E b a u"
    using get_subsurface_is_set_parent [OF assms(3,5) U1 assms(7) [symmetric], of client id2] a1 by auto
  have "family ?w2 = join b a (leave b (family u))" unfolding u(3)
    by (rule set_parent_family(2) [OF assms(1)]) (use u(1) assms(2) a1 b1 nz in auto)
  then have F2: "family ?w2 = (family w)(a \<mapsto> (b, b # sf_subsurface_list s), b \<mapsto> (a, a # sf_subsurface_list t))"
    using assms(7) family_zero [of w] F1 nz
    by (auto simp: family_surface(1) [OF u(1)] join_def leave_def Let_def fun_eq_iff)
  have S2: "synchronized_of ?w2 = synchronized_of w" unfolding u(3) set_parent_sync family_surface(2) [OF u(1)] S1 ..
  have "\<exists>s. surface_of ?w2 r = Some s \<and> \<not> sf_synchronized s \<and> (\<exists>c \<in> {a, b}. c \<in> set (sf_subsurface_list s))" if "r \<in> {a, b}" for r
    using that fun_cong [OF F2, of r] fun_cong [OF S2, of r] assms(7,8,10,11,13)
    by (cases "surface_of ?w2 r") (auto simp: family_def synchronized_of_def split: if_splits)
  note D = this
  show ?thesis by (rule walk_hangs [where D = "{a, b}", OF D]) simp_all
qed

text \<open>Liveness of resources, and an environment that hands out the numbers 100 and 101.\<close>

definition res_live :: "world \<Rightarrow> nat \<Rightarrow> bool" where
  "res_live w r \<longleftrightarrow> w_res w r \<noteq> None"

interpretation live_frame: view_frame res_live
proof
  fix w w' :: world
  assume "view_erase w' = view_erase w"
  then have "w_res (view_erase w') = w_res (view_erase w)" by simp
  then have "map_option erase_entry (w_res w' r) = map_option erase_entry (w_res w r)" for r
    by (simp add: view_erase_def blank_views_def att_erase_def fun_eq_iff)
  then show "res_live w' = res_live w" unfolding res_live_def fun_eq_iff by (metis option.map_disc_iff)
qed

lemma set_parent_live: "res_live (wlc_surface_set_parent E sid pid w) = res_live w"
proof -
  have "res_live (upd_surface r f v) = res_live v" for r f v by (auto simp: res_live_def upd_surface_def fun_eq_iff)
  then show ?thesis by (simp add: wlc_surface_set_parent_def Let_def live_frame.keep_basic split: option.split)
qed

definition env_numbers :: env where
  "env_numbers = env_ref\<lparr>ext_new_resource :=
     (\<lambda>w. if w_res w 100 = None then Some 100 else if w_res w 101 = None then Some 101 else None)\<rparr>"

definition siblings_world :: world where
  "siblings_world = put_res 1 (R_surface surface_blank) 7 (put_res 2 (R_surface surface_blank) 8
     (world_blank\<lparr>w_udata := (\<lambda>_. UD_compositor)\<rparr>))"

theorem parent_cycle_hangs_witness:
  "recursive_set_subsurface_parent_sync_state 100 1 False
    (wl_cb_subcompositor_get_subsurface env_numbers 1 9 31 2 1
      (wl_cb_subcompositor_get_subsurface env_numbers 1 9 30 1 2 siblings_world)) = None"
proof -
  have E: "pool_ops_ok (hp env_numbers)" "\<And>xs x. push_front (hp env_numbers) xs x \<noteq> None" "fresh_numbers env_numbers"
    by (auto simp: env_numbers_def pool_ref_def fresh_numbers_def split: if_splits) (simp flip: pool_ref_def)
  have s: "surface_of siblings_world 1 = Some surface_blank" "surface_of siblings_world 2 = Some surface_blank"
    "w_udata siblings_world 9 \<noteq> UD_null" "w_res siblings_world 100 = None" "w_res siblings_world 101 = None"
    by (simp_all add: siblings_world_def) (simp_all add: put_res_def world_blank_def)
  have n: "ext_new_resource env_numbers siblings_world = Some 100" using s by (simp add: env_numbers_def)
  let ?w1 = "wl_cb_subcompositor_get_subsurface env_numbers 1 9 30 1 2 siblings_world"
  obtain v where v: "\<forall>q. q \<noteq> 100 \<longrightarrow> w_res v q = w_res siblings_world q" "?w1 = wlc_surface_set_parent env_numbers 1 2 v"
    using get_subsurface_is_set_parent [OF E(3) n s(3), of 1 2 1 30] s(2) by auto
  have "\<not> res_live ?w1 101" unfolding v(2) set_parent_live using v(1) s(5) by (simp add: res_live_def)
  then have "\<exists>r2. ext_new_resource env_numbers ?w1 = Some r2"
    by (simp add: env_numbers_def res_live_def)
  then obtain r2 where r2: "ext_new_resource env_numbers ?w1 = Some r2" ..
  show ?thesis
    using parent_cycle_hangs [OF E n r2 s(3) _ s(1) _ _ s(2), of 100 False 31] by simp
qed

end
