(* ===== verification/Handover.thy ===== *)
theory Handover
  imports Compositor
begin

text \<open>
  Handing over the terminal (\<open>activate_event\<close> of src/compositor/compositor.c with the backend surfaces of
  src/compositor/output.c). The compositor gives the terminal away only when no output has a backend
  surface any more; an output with a frame on its way gives its surface back when the frame is done.

  The abstract specification is a machine over what the hand-over looks at: the mode of the terminal, and
  of every output its display, whether a frame is pending, and the deferred display. The model refines it
  as long as the listener of the output signal is the compositor.
\<close>

section \<open>The abstract machine\<close>

record screen =
  sc_display :: nat
  sc_pending :: bool
  sc_task :: nat
  sc_terminate :: bool

record vt =
  vt_tty :: tty_mode
  vt_outputs :: "nat list"
  vt_screens :: "nat \<Rightarrow> screen option"
  vt_handovers :: nat

definition handover :: "event \<Rightarrow> bool" where
  "handover e \<longleftrightarrow> e = Loop_add_idle \<or> e = Fd_deactivate"

definition screen_of_output :: "wlc_output \<Rightarrow> screen" where
  "screen_of_output x = \<lparr>sc_display = bs_display (o_bsurface x), sc_pending = o_pending x,
                         sc_task = bs_display (o_task_bsurface x), sc_terminate = o_task_terminate x\<rparr>"

definition vt_view :: "world \<Rightarrow> vt" where
  "vt_view w = \<lparr>vt_tty = c_tty (w_comp w), vt_outputs = c_outputs (w_comp w),
                vt_screens = (\<lambda>h. map_option screen_of_output (output_of w h)),
                vt_handovers = length (filter handover (w_trace w))\<rparr>"

definition lit :: "vt \<Rightarrow> nat \<Rightarrow> bool" where
  "lit s h = (case vt_screens s h of None \<Rightarrow> False | Some c \<Rightarrow> sc_display c \<noteq> 0)"

definition any_lit :: "vt \<Rightarrow> bool" where
  "any_lit s = list_ex (lit s) (vt_outputs s)"

definition vt_respond :: "vt \<Rightarrow> vt" where
  "vt_respond s =
     (case vt_tty s of
        ACTIVATING \<Rightarrow> s\<lparr>vt_tty := IDLE\<rparr>
      | DEACTIVATING \<Rightarrow> if any_lit s then s else s\<lparr>vt_tty := IDLE, vt_handovers := Suc (vt_handovers s)\<rparr>
      | IDLE \<Rightarrow> s)"

definition vt_set :: "nat \<Rightarrow> (screen \<Rightarrow> screen) \<Rightarrow> vt \<Rightarrow> vt" where
  "vt_set h f s = s\<lparr>vt_screens := (vt_screens s)(h := map_option f (vt_screens s h))\<rparr>"

text \<open>Taking the backend surface away from an output.\<close>

definition vt_none :: "nat \<Rightarrow> vt \<Rightarrow> vt" where
  "vt_none h s =
     (case vt_screens s h of
        None \<Rightarrow> s
      | Some c \<Rightarrow>
          if sc_display c = 0 then s
          else if sc_pending c then vt_set h (\<lambda>c. c\<lparr>sc_task := INVALID_DISPLAY\<rparr>) s
          else vt_respond (vt_set h (\<lambda>c. c\<lparr>sc_display := 0\<rparr>) s))"

text \<open>The end of a frame of an output whose surface is to be taken away.\<close>

definition vt_flip :: "nat \<Rightarrow> vt \<Rightarrow> vt" where
  "vt_flip h s = vt_set h (\<lambda>c. c\<lparr>sc_task := 0\<rparr>) (vt_respond (vt_set h (\<lambda>c. c\<lparr>sc_pending := False, sc_display := 0\<rparr>) s))"

section \<open>Refinement\<close>

text \<open>The listener of the output signal is the compositor, and the callback that hears of a lost context does
  not take part.\<close>

definition wired :: "env \<Rightarrow> bool" where
  "wired E \<longleftrightarrow>
     (\<forall>h w. sig_output E (WLC_OUTPUT_EVENT_SURFACE h) w = respond_tty_activate w) \<and>
     keeps1 vt_view (if_output_context_destroyed (iface E))"

lemma has_display_lit: "has_display w = lit (vt_view w)"
  by (auto simp: has_display_def lit_def vt_view_def screen_of_output_def fun_eq_iff split: option.split)

lemma vt_view_emit: "\<not> handover e \<Longrightarrow> vt_view (emit e w) = vt_view w"
  by (simp add: vt_view_def)

lemma vt_view_fail: "vt_view (fail f w) = vt_view w"
  by (simp add: vt_view_def)

lemma vt_view_upd_output:
  "(\<And>x. screen_of_output (f x) = g (screen_of_output x)) \<Longrightarrow> vt_view (upd_output h f w) = vt_set h g (vt_view w)"
  by (auto simp: vt_view_def vt_set_def fun_eq_iff option.map_comp comp_def)

lemma vt_set_id: "(\<And>c. f c = c) \<Longrightarrow> vt_set h f s = s"
proof -
  assume "\<And>c. f c = c"
  then have "f = id" by (simp add: fun_eq_iff)
  then show ?thesis by (simp add: vt_set_def option.map_id0)
qed

lemma vt_view_same:
  assumes "\<And>x. screen_of_output (f x) = screen_of_output x"
  shows "vt_view (upd_output h f w) = vt_view w"
  by (subst vt_view_upd_output [where g = "\<lambda>c. c"]) (simp_all add: assms vt_set_id)

lemmas vt_view_basic = vt_view_emit vt_view_fail vt_view_same

lemma vt_view_schedule: "vt_view (wlc_output_schedule_repaint h w) = vt_view w"
  by (simp add: wlc_output_schedule_repaint_def Let_def vt_view_basic handover_def screen_of_output_def split: option.split)

lemma vt_view_cancel: "vt_view (cancel_repaint h w) = vt_view w"
  by (simp add: cancel_repaint_def vt_view_basic handover_def screen_of_output_def)

lemma vt_view_sleep: "vt_view (wlc_output_set_sleep_ptr h b w) = vt_view w"
  by (simp add: wlc_output_set_sleep_ptr_def Let_def vt_view_basic vt_view_schedule vt_view_cancel handover_def
      screen_of_output_def split: option.split)

lemma vt_view_tty:
  "vt_view (upd_comp (\<lambda>c. c\<lparr>c_tty := t\<rparr>) w) = (vt_view w)\<lparr>vt_tty := t\<rparr>"
  "vt_view (upd_comp (\<lambda>c. c\<lparr>c_tty := t, c_vt := v\<rparr>) w) = (vt_view w)\<lparr>vt_tty := t\<rparr>"
  "vt_view (upd_comp (\<lambda>c. c\<lparr>c_idle := b\<rparr>) w) = vt_view w"
  by (simp_all add: vt_view_def)

lemma vt_view_handover: "handover e \<Longrightarrow> vt_view (emit e w) = (vt_view w)\<lparr>vt_handovers := Suc (vt_handovers (vt_view w))\<rparr>"
  by (simp add: vt_view_def)

lemma vt_view_fields: "c_tty (w_comp w) = vt_tty (vt_view w)" "c_outputs (w_comp w) = vt_outputs (vt_view w)"
  by (simp_all add: vt_view_def)

lemma vt_view_deactivate:
  "vt_tty (vt_view w) = DEACTIVATING \<Longrightarrow> vt_view (deactivate_tty w) = vt_respond (vt_view w)"
  by (simp add: deactivate_tty_def Let_def vt_view_fields vt_respond_def any_lit_def has_display_lit vt_view_handover
      handover_def vt_view_tty)

lemma vt_view_respond: "vt_view (respond_tty_activate w) = vt_respond (vt_view w)"
proof (cases "vt_tty (vt_view w)")
  case DEACTIVATING
  then show ?thesis by (simp add: respond_tty_activate_def vt_view_fields vt_view_deactivate)
qed (simp_all add: respond_tty_activate_def vt_view_fields vt_respond_def activate_tty_def vt_view_basic handover_def vt_view_tty)

lemma vt_view_destroy_surfaces: "vt_view (destroy_surfaces h w) = vt_view w"
proof -
  have "vt_view (fold (\<lambda>r w. if surface_of w r = None then w else emit (Rd_surface_destroy h r) w) rs w) = vt_view w" for rs
    by (induction rs arbitrary: w) (simp_all add: vt_view_emit handover_def)
  then show ?thesis by (simp add: destroy_surfaces_def)
qed

lemma vt_view_release_backend:
  assumes "wired E"
  shows "vt_view (release_backend E h w) = vt_set h (\<lambda>c. c\<lparr>sc_display := 0\<rparr>) (vt_view w)"
proof -
  have "vt_view (upd_output h (\<lambda>x. x\<lparr>o_bsurface := bsurface_zero\<rparr>) v) = vt_set h (\<lambda>c. c\<lparr>sc_display := 0\<rparr>) (vt_view v)" for v
    by (rule vt_view_upd_output) (simp add: screen_of_output_def bsurface_zero_def)
  then show ?thesis
    using assms
    by (simp add: release_backend_def Let_def vt_view_emit handover_def wired_def call_keeps vt_view_destroy_surfaces)
qed

lemma vt_view_none:
  assumes "wired E"
  shows "vt_view (wlc_output_set_backend_surface_none E h w) = vt_none h (vt_view w)"
proof (cases "output_of w h")
  case None
  then show ?thesis by (simp add: wlc_output_set_backend_surface_none_def vt_none_def vt_view_fail) (simp add: vt_view_def)
next
  case (Some x)
  have s: "vt_screens (vt_view w) h = Some (screen_of_output x)" using Some by (simp add: vt_view_def)
  have r: "vt_view (remove_backend E h w) = vt_respond (vt_set h (\<lambda>c. c\<lparr>sc_display := 0\<rparr>) (vt_view w))"
    using assms by (simp add: remove_backend_def vt_view_respond vt_view_cancel vt_view_release_backend)
       (simp add: wired_def vt_view_respond vt_view_cancel vt_view_release_backend [OF assms])
  have t: "vt_view (upd_output h (\<lambda>x. x\<lparr>o_task_bsurface := (o_task_bsurface x)\<lparr>bs_display := INVALID_DISPLAY\<rparr>\<rparr>) w) =
      vt_set h (\<lambda>c. c\<lparr>sc_task := INVALID_DISPLAY\<rparr>) (vt_view w)"
    by (rule vt_view_upd_output) (simp add: screen_of_output_def)
  show ?thesis
    using Some s r t by (simp add: wlc_output_set_backend_surface_none_def vt_none_def) (simp add: screen_of_output_def)
qed

lemma vt_none_outputs: "vt_outputs (vt_none h s) = vt_outputs s" "vt_outputs (vt_respond s) = vt_outputs s"
  "vt_screens (vt_respond s) = vt_screens s"
  by (auto simp: vt_none_def vt_respond_def vt_set_def split: option.split tty_mode.split)

lemma vt_view_all_none:
  assumes "wired E"
  shows "vt_view (for_outputs (wlc_output_set_backend_surface_none E) w) = fold vt_none (vt_outputs (vt_view w)) (vt_view w)"
proof -
  have "vt_view (fold (\<lambda>h w. if output_of w h = None then w else wlc_output_set_backend_surface_none E h w) hs w) =
      fold vt_none hs (vt_view w)" for hs
  proof (induction hs arbitrary: w)
    case (Cons h hs)
    have "vt_none h (vt_view w) = vt_view w" if "output_of w h = None" using that by (simp add: vt_none_def vt_view_def)
    then show ?case using Cons vt_view_none [OF assms] by simp
  qed simp
  then show ?thesis by (simp add: for_outputs_def vt_view_fields)
qed

section \<open>Handing over\<close>

lemma fold_none_tty:
  assumes "vt_tty s = DEACTIVATING \<and> vt_handovers s = n \<or> vt_tty s = IDLE \<and> vt_handovers s = Suc n \<and> \<not> any_lit s"
  shows "(let t = fold vt_none hs s in
     vt_tty t = DEACTIVATING \<and> vt_handovers t = n \<or> vt_tty t = IDLE \<and> vt_handovers t = Suc n \<and> \<not> any_lit t)"
  using assms
proof (induction hs arbitrary: s)
  case (Cons h hs)
  have down: "any_lit (vt_set h f s) \<Longrightarrow> any_lit s" if "\<And>c. sc_display (f c) \<noteq> 0 \<Longrightarrow> sc_display c \<noteq> 0" for f
    using that by (fastforce simp: any_lit_def list_ex_iff lit_def vt_set_def split: option.splits if_splits)
  have "vt_tty (vt_none h s) = DEACTIVATING \<and> vt_handovers (vt_none h s) = n \<or>
      vt_tty (vt_none h s) = IDLE \<and> vt_handovers (vt_none h s) = Suc n \<and> \<not> any_lit (vt_none h s)"
  proof (cases "vt_screens s h")
    case None
    then show ?thesis using Cons.prems by (simp add: vt_none_def)
  next
    case (Some c)
    let ?p = "vt_set h (\<lambda>c. c\<lparr>sc_task := INVALID_DISPLAY\<rparr>) s" and ?q = "vt_set h (\<lambda>c. c\<lparr>sc_display := 0\<rparr>) s"
    have same: "vt_tty ?p = vt_tty s" "vt_handovers ?p = vt_handovers s" "vt_tty ?q = vt_tty s" "vt_handovers ?q = vt_handovers s"
      by (simp_all add: vt_set_def)
    have dark: "any_lit ?p \<Longrightarrow> any_lit s" "any_lit ?q \<Longrightarrow> any_lit s" by (rule down; simp)+
    have lit: "any_lit (t\<lparr>vt_tty := a, vt_handovers := b\<rparr>) = any_lit t" for t a b
      by (simp add: any_lit_def lit_def cong: list_ex_cong)
    show ?thesis using Some Cons.prems same dark lit by (auto simp: vt_none_def vt_respond_def split: tty_mode.split)
  qed
  then show ?case using Cons.IH by simp
qed simp

definition darkened :: "screen \<Rightarrow> screen" where
  "darkened c =
     (if sc_display c = 0 then c else if sc_pending c then c\<lparr>sc_task := INVALID_DISPLAY\<rparr> else c\<lparr>sc_display := 0\<rparr>)"

lemma vt_none_screens: "vt_screens (vt_none h s) = (vt_screens s)(h := map_option darkened (vt_screens s h))"
  by (auto simp: vt_none_def darkened_def vt_none_outputs fun_eq_iff vt_set_def split: option.split)

lemma fold_none_screens:
  "vt_screens (fold vt_none hs s) h = (if h \<in> set hs then map_option darkened (vt_screens s h) else vt_screens s h)"
proof (induction hs arbitrary: s)
  case (Cons k hs)
  have "darkened (darkened c) = darkened c" for c by (simp add: darkened_def)
  then have "map_option darkened (map_option darkened x) = map_option darkened x" for x by (cases x) simp_all
  then show ?case using Cons by (auto simp: vt_none_screens)
qed simp

lemma fold_none_outputs: "vt_outputs (fold vt_none hs s) = vt_outputs s"
  by (induction hs arbitrary: s) (simp_all add: vt_none_outputs)

text \<open>What \<open>activate_event\<close> leaves behind when the session is deactivated.\<close>

lemma deactivated:
  fixes w :: world and v :: int
  assumes "wired E"
  defines "s \<equiv> vt_view w" and "t \<equiv> vt_view (activate_event E False v w)"
  shows "vt_outputs t = vt_outputs s"
    and "vt_screens t h = (if h \<in> set (vt_outputs s) then map_option darkened (vt_screens s h) else vt_screens s h)"
    and "if any_lit t then vt_tty t = DEACTIVATING \<and> vt_handovers t = vt_handovers s
         else vt_tty t = IDLE \<and> vt_handovers t = Suc (vt_handovers s)"
proof -
  let ?s = "s\<lparr>vt_tty := DEACTIVATING\<rparr>"
  let ?m = "fold vt_none (vt_outputs s) ?s"
  let ?v = "for_outputs (wlc_output_set_backend_surface_none E) (upd_comp (\<lambda>c. c\<lparr>c_tty := DEACTIVATING, c_vt := v\<rparr>) w)"
  have m: "vt_view ?v = ?m" using vt_view_all_none [OF assms(1)] by (simp add: vt_view_tty s_def)
  have c: "vt_tty ?m = DEACTIVATING \<and> vt_handovers ?m = vt_handovers s \<or>
      vt_tty ?m = IDLE \<and> vt_handovers ?m = Suc (vt_handovers s) \<and> \<not> any_lit ?m"
    using fold_none_tty [of ?s "vt_handovers s" "vt_outputs s"] by (simp add: Let_def)
  have t: "t = (if vt_tty ?m = DEACTIVATING then vt_respond ?m else ?m)"
    using m by (simp add: t_def activate_event_def Let_def vt_view_deactivate)
      (simp add: deactivate_tty_def vt_view_fields)
  have scr: "vt_screens t = vt_screens ?m" "vt_outputs t = vt_outputs ?m" by (simp_all add: t vt_none_outputs)
  then show "vt_outputs t = vt_outputs s"
    "vt_screens t h = (if h \<in> set (vt_outputs s) then map_option darkened (vt_screens s h) else vt_screens s h)"
    by (simp_all add: fold_none_outputs fold_none_screens)
  have "any_lit t = any_lit ?m" using scr by (simp add: any_lit_def lit_def cong: list_ex_cong)
  then show "if any_lit t then vt_tty t = DEACTIVATING \<and> vt_handovers t = vt_handovers s
         else vt_tty t = IDLE \<and> vt_handovers t = Suc (vt_handovers s)"
    using c by (auto simp: t vt_respond_def)
qed

section \<open>The frames that are waited for\<close>

lemma vt_view_flip:
  assumes "wired E" "output_of w h = Some x" "bs_display (o_bsurface x) \<noteq> 0"
    "bs_display (o_task_bsurface x) = INVALID_DISPLAY" "\<not> o_task_terminate x"
  shows "vt_view (wlc_output_finish_frame E h sec nsec w) = vt_flip h (vt_view w)"
proof -
  let ?set = "\<lambda>f. vt_set h f (vt_view w)"
  define w1 where "w1 = upd_output h (\<lambda>x. x\<lparr>o_pending := False, o_frame_time := u32_of_i32 (sec * 1000 + nsec div 1000000)\<rparr>) w"
  define w2 where "w2 = (if o_activity x \<and> \<not> o_task_terminate x
                   then upd_output h (\<lambda>x. x\<lparr>o_scheduled := True, o_activity := False\<rparr>)
                          (emit (Timer_update h (real_to_i32 (next_ims E (o_ims x))))
                            (upd_output h (\<lambda>x. x\<lparr>o_ims := next_ims E (o_ims x)\<rparr>) w1))
                   else upd_output h (\<lambda>x. x\<lparr>o_scheduled := False\<rparr>) w1)"
  have f: "wlc_output_finish_frame E h sec nsec w = finish_frame_tasks E h w2"
    using assms(2) by (simp add: wlc_output_finish_frame_def Let_def w2_def w1_def)
  have "vt_view w1 = ?set (\<lambda>c. c\<lparr>sc_pending := False\<rparr>)"
    unfolding w1_def by (rule vt_view_upd_output) (simp add: screen_of_output_def)
  then have v2: "vt_view w2 = ?set (\<lambda>c. c\<lparr>sc_pending := False\<rparr>)"
    by (simp add: w2_def vt_view_basic handover_def screen_of_output_def)
  obtain y where y: "output_of w2 h = Some y" "screen_of_output y = (screen_of_output x)\<lparr>sc_pending := False\<rparr>"
    "o_task_bsurface y = o_task_bsurface x"
    using assms(2) by (cases "o_activity x \<and> \<not> o_task_terminate x") (simp_all add: w2_def w1_def screen_of_output_def)
  have "INVALID_DISPLAY \<noteq> 0" by (simp add: INVALID_DISPLAY_def)
  then have b: "task_backend E h w2 = upd_output h (\<lambda>x. x\<lparr>o_task_bsurface := bsurface_zero\<rparr>) (wlc_output_set_backend_surface_none E h w2)"
    using y(1,3) assms(4) by (simp add: task_backend_def o_field_def Let_def wlc_output_set_backend_surface_def)
  have "vt_view (upd_output h (\<lambda>x. x\<lparr>o_task_bsurface := bsurface_zero\<rparr>) u) = vt_set h (\<lambda>c. c\<lparr>sc_task := 0\<rparr>) (vt_view u)" for u
    by (rule vt_view_upd_output) (simp add: screen_of_output_def bsurface_zero_def)
  moreover have "vt_none h (vt_view w2) = vt_respond (?set (\<lambda>c. c\<lparr>sc_pending := False, sc_display := 0\<rparr>))"
  proof -
    have "vt_screens (vt_view w2) h = Some (screen_of_output y)" using y(1) by (simp add: vt_view_def)
    moreover have "vt_set h (\<lambda>c. c\<lparr>sc_display := 0\<rparr>) (vt_view w2) = ?set (\<lambda>c. c\<lparr>sc_pending := False, sc_display := 0\<rparr>)"
      unfolding v2 by (simp add: vt_set_def option.map_comp comp_def)
    ultimately show ?thesis using y(2) assms(3) by (simp add: vt_none_def screen_of_output_def)
  qed
  ultimately have v3: "vt_view (task_backend E h w2) = vt_flip h (vt_view w)"
    by (simp add: b vt_view_none [OF assms(1)] vt_flip_def)
  have v4: "vt_view (task_sleep h u) = vt_view u" for u
    by (simp add: task_sleep_def vt_view_sleep vt_view_same screen_of_output_def)
  let ?w4 = "task_sleep h (task_backend E h w2)"
  have "map_option sc_terminate (vt_screens (vt_view ?w4) h) = Some False"
    using assms(2,5) unfolding v4 v3
    by (simp add: vt_flip_def vt_set_def vt_none_outputs option.map_comp comp_def) (simp add: vt_view_def screen_of_output_def)
  then have "task_terminate E h ?w4 = ?w4"
    by (auto simp: task_terminate_def o_field_def vt_view_def screen_of_output_def split: option.splits)
  then show ?thesis using v3 v4 by (simp add: f finish_frame_tasks_def)
qed

lemma vt_flip_reads:
  "vt_outputs (vt_flip h s) = vt_outputs s"
  "vt_screens (vt_flip h s) = (vt_screens s)(h := map_option (\<lambda>c. c\<lparr>sc_pending := False, sc_display := 0, sc_task := 0\<rparr>) (vt_screens s h))"
  "vt_tty s = DEACTIVATING \<Longrightarrow>
     (if any_lit (vt_flip h s) then vt_tty (vt_flip h s) = DEACTIVATING \<and> vt_handovers (vt_flip h s) = vt_handovers s
      else vt_tty (vt_flip h s) = IDLE \<and> vt_handovers (vt_flip h s) = Suc (vt_handovers s))"
proof -
  let ?s = "vt_set h (\<lambda>c. c\<lparr>sc_pending := False, sc_display := 0\<rparr>) s"
  show o: "vt_outputs (vt_flip h s) = vt_outputs s" "vt_screens (vt_flip h s) =
      (vt_screens s)(h := map_option (\<lambda>c. c\<lparr>sc_pending := False, sc_display := 0, sc_task := 0\<rparr>) (vt_screens s h))"
    by (simp_all add: vt_flip_def vt_set_def vt_none_outputs option.map_comp comp_def)
  have l: "lit (vt_flip h s) = lit ?s"
    by (auto simp: lit_def o vt_set_def fun_eq_iff option.map_comp comp_def split: option.split)
  then have "any_lit (vt_flip h s) = any_lit ?s" by (simp add: any_lit_def o) (simp add: vt_set_def)
  then show "vt_tty s = DEACTIVATING \<Longrightarrow>
     (if any_lit (vt_flip h s) then vt_tty (vt_flip h s) = DEACTIVATING \<and> vt_handovers (vt_flip h s) = vt_handovers s
      else vt_tty (vt_flip h s) = IDLE \<and> vt_handovers (vt_flip h s) = Suc (vt_handovers s))"
    by (simp add: vt_flip_def vt_respond_def vt_set_def)
qed

text \<open>While the compositor waits: the outputs that are still lit are those of \<open>hs\<close>, each with a frame on its way and
  the order to give its surface back.\<close>

definition waiting :: "nat list \<Rightarrow> nat \<Rightarrow> vt \<Rightarrow> bool" where
  "waiting hs n s \<longleftrightarrow>
     distinct hs \<and> set hs = {h \<in> set (vt_outputs s). lit s h} \<and>
     (\<forall>h \<in> set hs. \<exists>c. vt_screens s h = Some c \<and> sc_pending c \<and> sc_task c = INVALID_DISPLAY \<and> \<not> sc_terminate c) \<and>
     (if hs = [] then vt_tty s = IDLE \<and> vt_handovers s = Suc n else vt_tty s = DEACTIVATING \<and> vt_handovers s = n)"

lemma any_lit_set: "any_lit s \<longleftrightarrow> {h \<in> set (vt_outputs s). lit s h} \<noteq> {}"
  by (auto simp: any_lit_def list_ex_iff)

lemma flip_waiting:
  assumes "waiting (h # hs) n s"
  shows "waiting hs n (vt_flip h s)"
proof -
  have "lit (vt_flip h s) k \<longleftrightarrow> k \<noteq> h \<and> lit s k" for k
    by (auto simp: lit_def vt_flip_reads split: option.split)
  then have set: "{k \<in> set (vt_outputs (vt_flip h s)). lit (vt_flip h s) k} = set hs"
    using assms by (auto simp: waiting_def vt_flip_reads)
  have "any_lit (vt_flip h s) \<longleftrightarrow> hs \<noteq> []" unfolding any_lit_set set by simp
  then show ?thesis
    using assms set vt_flip_reads(3) [of s h] by (auto simp: waiting_def vt_flip_reads split: if_splits)
qed

lemma flips_hand_over:
  assumes "wired E"
  shows "waiting hs n (vt_view w) \<Longrightarrow>
    vt_tty (vt_view (fold (\<lambda>h. wlc_output_finish_frame E h sec nsec) hs w)) = IDLE \<and>
    vt_handovers (vt_view (fold (\<lambda>h. wlc_output_finish_frame E h sec nsec) hs w)) = Suc n"
proof (induction hs arbitrary: w)
  case (Cons h hs)
  obtain c where c: "vt_screens (vt_view w) h = Some c" "sc_task c = INVALID_DISPLAY" "\<not> sc_terminate c" "lit (vt_view w) h"
    using Cons.prems by (auto simp: waiting_def)
  obtain x where x: "output_of w h = Some x" "screen_of_output x = c" using c(1) by (auto simp: vt_view_def)
  have "vt_view (wlc_output_finish_frame E h sec nsec w) = vt_flip h (vt_view w)"
    using vt_view_flip [OF assms x(1)] x(2) c by (auto simp: screen_of_output_def lit_def)
  then show ?case using Cons.IH flip_waiting [OF Cons.prems] by simp
qed (simp add: waiting_def)

text \<open>C4 (liveness). The session is given up exactly once, and not before every output has given its backend surface
  back: when no lit output has a frame on its way the hand-over (closing the devices, or the switch to the
  other terminal) happens at once; otherwise the compositor waits, and it happens with the last of the
  page flips it waits for, in whatever order they come.\<close>

theorem deactivation_hands_over_once:
  fixes w :: world and v sec nsec :: int
  assumes "wired E" and "\<And>h x. output_of w h = Some x \<Longrightarrow> \<not> o_task_terminate x"
  defines "w1 \<equiv> activate_event E False v w"
  assumes "distinct flips" and "set flips = {h \<in> set (c_outputs (w_comp w1)). has_display w1 h}"
  defines "w2 \<equiv> fold (\<lambda>h. wlc_output_finish_frame E h sec nsec) flips w1"
  shows "(flips \<noteq> [] \<longrightarrow> length (filter handover (w_trace w1)) = length (filter handover (w_trace w))) \<and>
    c_tty (w_comp w2) = IDLE \<and> length (filter handover (w_trace w2)) = Suc (length (filter handover (w_trace w)))"
proof -
  note d = deactivated [OF assms(1), of v w, folded w1_def]
  let ?n = "vt_handovers (vt_view w)"
  have set: "set flips = {h \<in> set (vt_outputs (vt_view w1)). lit (vt_view w1) h}"
    using assms(5) by (simp add: has_display_lit vt_view_fields)
  have each: "\<exists>c. vt_screens (vt_view w1) h = Some c \<and> sc_pending c \<and> sc_task c = INVALID_DISPLAY \<and> \<not> sc_terminate c"
    if "h \<in> set flips" for h
  proof -
    have h: "h \<in> set (vt_outputs (vt_view w))" "lit (vt_view w1) h" using that set d(1) by auto
    have t: "vt_screens (vt_view w1) h = map_option darkened (vt_screens (vt_view w) h)" using d(2) [of h] h(1) by simp
    then obtain c where c: "vt_screens (vt_view w) h = Some c"
      using h(2) by (cases "vt_screens (vt_view w) h") (simp_all add: lit_def)
    have "sc_display (darkened c) \<noteq> 0" using h(2) t c by (simp add: lit_def)
    then have "sc_pending (darkened c)" "sc_task (darkened c) = INVALID_DISPLAY"
      by (simp_all add: darkened_def split: if_splits)
    moreover obtain x where "output_of w h = Some x" "c = screen_of_output x" using c by (auto simp: vt_view_def)
    then have "\<not> sc_terminate (darkened c)" using assms(2) by (simp add: darkened_def screen_of_output_def)
    ultimately show ?thesis using t c by simp
  qed
  have "any_lit (vt_view w1) \<longleftrightarrow> flips \<noteq> []" unfolding any_lit_set set [symmetric] by simp
  then have "waiting flips ?n (vt_view w1)"
    using d(3) set each assms(4) by (auto simp: waiting_def)
  then have "vt_tty (vt_view w2) = IDLE \<and> vt_handovers (vt_view w2) = Suc ?n"
    unfolding w2_def by (rule flips_hand_over [OF assms(1)])
  moreover have "flips \<noteq> [] \<longrightarrow> vt_handovers (vt_view w1) = ?n"
    using \<open>waiting flips ?n (vt_view w1)\<close> by (simp add: waiting_def)
  ultimately show ?thesis by (simp add: vt_view_def)
qed

text \<open>Output 1 has a frame on its way, output 2 has not.\<close>

definition vt_env :: env where
  "vt_env = env_ref\<lparr>sig_output := (\<lambda>e w. case e of WLC_OUTPUT_EVENT_SURFACE _ \<Rightarrow> respond_tty_activate w | _ \<Rightarrow> w)\<rparr>"

definition vt_world :: world where
  "vt_world = put_output 1 (output_blank\<lparr>o_bsurface := bsurface_zero\<lparr>bs_display := 5\<rparr>, o_pending := True\<rparr>)
     (put_output 2 (output_blank\<lparr>o_bsurface := bsurface_zero\<lparr>bs_display := 6\<rparr>\<rparr>)
       (upd_comp (\<lambda>c. c\<lparr>c_outputs := [1, 2]\<rparr>) world_blank))"

theorem deactivation_hands_over_once_witness:
  "c_tty (w_comp (wlc_output_finish_frame vt_env 1 3 0 (activate_event vt_env False 2 vt_world))) = IDLE"
proof -
  have E: "wired vt_env" by (simp add: wired_def vt_env_def keeps1_def)
  have s: "vt_view vt_world = \<lparr>vt_tty = IDLE, vt_outputs = [1, 2],
      vt_screens = [1 \<mapsto> \<lparr>sc_display = 5, sc_pending = True, sc_task = 0, sc_terminate = False\<rparr>,
                    2 \<mapsto> \<lparr>sc_display = 6, sc_pending = False, sc_task = 0, sc_terminate = False\<rparr>], vt_handovers = 0\<rparr>"
    by (auto simp: vt_view_def vt_world_def screen_of_output_def output_blank_def bsurface_zero_def fun_eq_iff)
       (simp_all add: world_blank_def)
  let ?w1 = "activate_event vt_env False 2 vt_world"
  have d: "vt_outputs (vt_view ?w1) = [1, 2]" "lit (vt_view ?w1) 1" "\<not> lit (vt_view ?w1) 2"
    using deactivated(1) [OF E, of 2 vt_world] deactivated(2) [OF E, of 2 vt_world 1] deactivated(2) [OF E, of 2 vt_world 2]
    by (simp_all add: s lit_def darkened_def)
  have "{h \<in> set (c_outputs (w_comp ?w1)). has_display ?w1 h} = {1}"
    using d by (auto simp: has_display_lit vt_view_fields)
  then have f: "set [1] = {h \<in> set (c_outputs (w_comp ?w1)). has_display ?w1 h}" by simp
  have t: "\<not> o_task_terminate x" if "output_of vt_world h = Some x" for h x
    using that by (auto simp: vt_world_def output_blank_def split: if_splits)
  show ?thesis using deactivation_hands_over_once [OF E t _ f, where sec = 3 and nsec = 0] by simp
qed

end
