(* ===== verification/Lifecycle.thy ===== *)
theory Lifecycle
  imports Handover
begin

text \<open>
  The life of outputs and surfaces as the compositor sees it: what it leaves of a destroyed surface, which
  output becomes the active one when an output goes, and the end of the session, with the listener of the
  output signal wired to the compositor itself.
\<close>

section \<open>The listener of the output signal\<close>

text \<open>Handling an event may send further ones: adding an output may terminate it, terminating removes it,
  removing it takes its surface away. \<open>listen n E\<close> is the listener with \<open>n\<close> nested events left.\<close>

fun listen :: "nat \<Rightarrow> env \<Rightarrow> wlc_output_event \<Rightarrow> world \<Rightarrow> world" where
  "listen 0 E e w = fail Out_of_fuel w"
| "listen (Suc n) E e w = output_event (E\<lparr>sig_output := listen n E\<rparr>) e w"

definition wire :: "nat \<Rightarrow> env \<Rightarrow> env" where
  "wire n E = E\<lparr>sig_output := listen n E\<rparr>"

lemma wire_fields [simp]:
  "hp (wire n E) = hp E" "iface (wire n E) = iface E" "sig_output (wire n E) = listen n E" "mth (wire n E) = mth E"
  by (simp_all add: wire_def)

lemma listen_events:
  "listen (Suc n) E (WLC_OUTPUT_EVENT_SURFACE h) w = respond_tty_activate w"
  "listen (Suc n) E (WLC_OUTPUT_EVENT_REMOVE h) w = remove_output (wire n E) h w"
  by (simp_all add: wire_def)

section \<open>Destroyed surfaces\<close>

lemma set_parent_none:
  "surface_of w r = Some s \<Longrightarrow> sf_parent s \<noteq> 0 \<Longrightarrow> wlc_surface_set_parent E r 0 w =
     upd_surface r (\<lambda>s. s\<lparr>sf_parent := 0\<rparr>)
       (upd_surface (sf_parent s) (\<lambda>p. p\<lparr>sf_subsurface_list := pool_remove_first (hp E) r (sf_subsurface_list p)\<rparr>) w)"
  by (simp add: wlc_surface_set_parent_def Let_def)

definition parent_of :: "world \<Rightarrow> nat \<Rightarrow> nat option" where
  "parent_of w r = map_option sf_parent (surface_of w r)"

lemma orphan_step:
  assumes "sid \<noteq> 0"
  shows "parent_of (case surface_of w r of Some s \<Rightarrow> if sf_parent s = sid then wlc_surface_set_parent E r 0 w else w | None \<Rightarrow> w) k =
    (if k = r \<and> parent_of w r = Some sid then Some 0 else parent_of w k)"
  using assms by (auto simp: parent_of_def set_parent_none option.map_comp comp_def split: option.split)

lemma orphan_surfaces_parents:
  assumes "sid \<noteq> 0"
  shows "parent_of (orphan_surfaces E sid w) k = (if k \<in> set (c_surfaces (w_comp w)) \<and> parent_of w k = Some sid then Some 0 else parent_of w k)"
proof -
  let ?f = "\<lambda>r w. case surface_of w r of Some s \<Rightarrow> if sf_parent s = sid then wlc_surface_set_parent E r 0 w else w | None \<Rightarrow> w"
  have "parent_of (fold ?f rs w) k = (if k \<in> set rs \<and> parent_of w k = Some sid then Some 0 else parent_of w k)" for rs
  proof (induction rs arbitrary: w)
    case (Cons r rs)
    have "parent_of (fold ?f rs (?f r w)) k =
        (if k \<in> set rs \<and> parent_of (?f r w) k = Some sid then Some 0 else parent_of (?f r w) k)" by (rule Cons.IH)
    then show ?case using assms by (auto simp: orphan_step)
  qed simp
  then show ?thesis by (simp add: orphan_surfaces_def)
qed

lemma orphan_surfaces_views: "view_of (orphan_surfaces E sid w) h = view_of w h"
proof -
  have v: "view_of (wlc_surface_set_parent E r 0 w) h = view_of w h" for r w
    by (simp add: wlc_surface_set_parent_def Let_def split: option.split)
  have "view_of (fold (\<lambda>r w. case surface_of w r of Some s \<Rightarrow> if sf_parent s = sid then wlc_surface_set_parent E r 0 w else w | None \<Rightarrow> w) rs w) h =
      view_of w h" for rs
    by (induction rs arbitrary: w) (simp_all add: v split: option.split)
  then show ?thesis by (simp add: orphan_surfaces_def)
qed

lemma view_update_reads:
  "view_of (wlc_view_update h w) k = view_of w k" "surface_of (wlc_view_update h w) r = surface_of w r"
  "w_comp (wlc_view_update h w) = w_comp w"
  by (simp_all add: wlc_view_update_def wlc_output_schedule_repaint_def Let_def split: option.split)

lemma orphan_views_reads:
  assumes "surface_of w sid = Some s"
  shows "surface_of (orphan_views sid w) r = surface_of w r" "w_comp (orphan_views sid w) = w_comp w"
    and "map_option v_parent (view_of (orphan_views sid w) h) =
      (if h \<in> set (c_views (w_comp w)) \<and> map_option v_parent (view_of w h) = Some (sf_view s) then Some 0
       else map_option v_parent (view_of w h))"
proof -
  let ?f = "\<lambda>h w. case (view_of w h, surface_of w sid) of
      (Some v, Some s) \<Rightarrow> if v_parent v = sf_view s then wlc_view_set_parent_ptr h 0 w else w | _ \<Rightarrow> w"
  have step: "surface_of (?f h w) r = surface_of w r" "w_comp (?f h w) = w_comp w"
    "map_option v_parent (view_of (?f h w) k) =
      (if k = h \<and> map_option v_parent (view_of w h) = Some (sf_view s) then Some 0 else map_option v_parent (view_of w k))"
    if "surface_of w sid = Some s" for h k r w
    using that by (auto simp: wlc_view_set_parent_ptr_def view_update_reads split: option.split)
  have "surface_of (fold ?f hs w) r = surface_of w r \<and> w_comp (fold ?f hs w) = w_comp w \<and>
      map_option v_parent (view_of (fold ?f hs w) h) =
      (if h \<in> set hs \<and> map_option v_parent (view_of w h) = Some (sf_view s) then Some 0 else map_option v_parent (view_of w h))"
    if "surface_of w sid = Some s" for hs h r w
    using that
  proof (induction hs arbitrary: w)
    case (Cons k hs)
    have "surface_of (?f k w) sid = Some s" using step(1) [OF Cons.prems] Cons.prems by simp
    note IH = Cons.IH [OF this]
    then show ?case using step [OF Cons.prems, of k] by (simp only: fold.simps comp_apply set_simps) auto
  qed simp
  from this [OF assms] show "surface_of (orphan_views sid w) r = surface_of w r" "w_comp (orphan_views sid w) = w_comp w"
    "map_option v_parent (view_of (orphan_views sid w) h) =
      (if h \<in> set (c_views (w_comp w)) \<and> map_option v_parent (view_of w h) = Some (sf_view s) then Some 0
       else map_option v_parent (view_of w h))"
    by (simp_all add: orphan_views_def)
qed

text \<open>C22 (safety). A destroyed surface leaves no dangling parent: afterwards no surface of the compositor names it as
  its parent and no view names its view, and every other surface and view keeps the parent it had.\<close>

theorem destroyed_surface_is_no_parent:
  fixes E :: env
  assumes "surface_of w sid = Some s" and "sid \<noteq> 0"
  defines "w' \<equiv> surface_event E (WLC_SURFACE_EVENT_DESTROYED sid) w"
  shows "parent_of w' r = (if r \<in> set (c_surfaces (w_comp w)) \<and> parent_of w r = Some sid then Some 0 else parent_of w r) \<and>
    map_option v_parent (view_of w' h) =
      (if h \<in> set (c_views (w_comp w)) \<and> map_option v_parent (view_of w h) = Some (sf_view s) then Some 0
       else map_option v_parent (view_of w h))"
proof -
  note o = orphan_views_reads [OF assms(1)]
  have "parent_of (orphan_views sid w) = parent_of w" by (simp add: parent_of_def fun_eq_iff o(1))
  then show ?thesis using assms(2) by (simp add: w'_def orphan_surfaces_parents orphan_surfaces_views o)
qed

theorem destroyed_surface_is_no_parent_witness:
  "parent_of (surface_event env_ref (WLC_SURFACE_EVENT_DESTROYED 2)
     (put_res 2 (R_surface (surface_blank\<lparr>sf_view := 5\<rparr>)) 12 (put_res 3 (R_surface (surface_blank\<lparr>sf_parent := 2\<rparr>)) 13
       (upd_comp (\<lambda>c. c\<lparr>c_surfaces := [2, 3]\<rparr>) world_blank)))) 3 = Some 0"
  by (subst destroyed_surface_is_no_parent [where s = "surface_blank\<lparr>sf_view := 5\<rparr>", THEN conjunct1])
     (simp_all add: parent_of_def)

section \<open>Removing an output\<close>

definition term_view :: "world \<Rightarrow> nat \<times> bool \<times> bool" where
  "term_view w = (c_active_output (w_comp w), c_terminating (w_comp w), Compositor_destroyed \<in> set (w_trace w))"

text \<open>The callbacks the removal of an output reaches do not take part in it.\<close>

definition still :: "env \<Rightarrow> bool" where
  "still E \<longleftrightarrow>
     (\<forall>P \<in> {\<lambda>w. (vt_view w, term_view w)}.
        keeps1 P (if_output_context_destroyed (iface E)) \<and> keeps1 P (if_output_destroyed (iface E)) \<and>
        keeps2 P (if_output_focus (iface E)) \<and> (\<forall>f w. if_compositor_terminate (iface E) = Some f \<longrightarrow> P (f w) = P w))"

lemma still_calls:
  assumes "still E"
  shows "vt_view (call1 (if_output_context_destroyed (iface E)) h w) = vt_view w"
    "term_view (call1 (if_output_context_destroyed (iface E)) h w) = term_view w"
    "vt_view (call1 (if_output_destroyed (iface E)) h w) = vt_view w"
    "term_view (call1 (if_output_destroyed (iface E)) h w) = term_view w"
    "vt_view (call2 (if_output_focus (iface E)) h b w) = vt_view w"
    "term_view (call2 (if_output_focus (iface E)) h b w) = term_view w"
    "vt_view (call0 (if_compositor_terminate (iface E)) w) = vt_view w"
    "term_view (call0 (if_compositor_terminate (iface E)) w) = term_view w"
  using assms by (auto simp: still_def keeps1_def keeps2_def call1_def call2_def call0_def split: option.split)

lemma still_wired: "still E \<Longrightarrow> wired (wire (Suc n) E)"
  using listen_events(1) [of n E] by (auto simp: wired_def still_def keeps1_def simp del: listen.simps)

lemma still_wire: "still (wire n E) = still E"
  by (simp add: still_def)

lemma term_view_basic:
  "e \<noteq> Compositor_destroyed \<Longrightarrow> term_view (emit e w) = term_view w" "term_view (fail f w) = term_view w"
  "term_view (upd_output h g w) = term_view w"
  by (auto simp: term_view_def)

lemma term_view_schedule: "term_view (wlc_output_schedule_repaint h w) = term_view w"
  by (simp add: wlc_output_schedule_repaint_def Let_def term_view_basic split: option.split)

lemma term_view_respond: "term_view (respond_tty_activate w) = term_view w"
  by (simp add: respond_tty_activate_def activate_tty_def deactivate_tty_def Let_def term_view_basic split: tty_mode.split)
     (simp add: term_view_def)

lemma term_view_destroy_surfaces: "term_view (destroy_surfaces h w) = term_view w"
proof -
  have "term_view (fold (\<lambda>r w. if surface_of w r = None then w else emit (Rd_surface_destroy h r) w) rs w) = term_view w" for rs
    by (induction rs arbitrary: w) (simp_all add: term_view_basic)
  then show ?thesis by (simp add: destroy_surfaces_def)
qed

lemma term_view_none:
  assumes "still E"
  shows "term_view (wlc_output_set_backend_surface_none (wire (Suc n) E) h w) = term_view w"
  using still_calls(2) [OF assms] listen_events(1) [of n E]
  by (simp add: wlc_output_set_backend_surface_none_def remove_backend_def release_backend_def Let_def cancel_repaint_def
      term_view_basic term_view_respond term_view_destroy_surfaces del: listen.simps split: option.split)

definition others_lit :: "nat \<Rightarrow> vt \<Rightarrow> bool" where
  "others_lit h s \<longleftrightarrow> (\<exists>k \<in> set (vt_outputs s). k \<noteq> h \<and> lit s k)"

lemma alive_output_lit: "alive_output h w = 0 \<longleftrightarrow> \<not> others_lit h (vt_view w)"
  "alive_output h w \<noteq> 0 \<Longrightarrow> lit (vt_view w) (alive_output h w) \<and> alive_output h w \<noteq> h"
proof -
  let ?l = "filter (\<lambda>k. has_display w k \<and> k \<noteq> h) (c_outputs (w_comp w))"
  have z: "\<not> has_display w 0" by (simp add: has_display_def)
  have mem: "k \<in> set ?l \<longleftrightarrow> k \<in> set (vt_outputs (vt_view w)) \<and> k \<noteq> h \<and> lit (vt_view w) k" for k
    by (auto simp: has_display_lit vt_view_fields)
  show "alive_output h w = 0 \<longleftrightarrow> \<not> others_lit h (vt_view w)"
  proof (cases ?l)
    case Nil
    then show ?thesis using mem by (auto simp: alive_output_def others_lit_def)
  next
    case (Cons k l)
    then have k: "has_display w k" "others_lit h (vt_view w)"
      using mem [of k] by (auto simp: others_lit_def has_display_lit)
    then have "k \<noteq> 0" using z by metis
    then show ?thesis using Cons k(2) by (simp add: alive_output_def)
  qed
  show "alive_output h w \<noteq> 0 \<Longrightarrow> lit (vt_view w) (alive_output h w) \<and> alive_output h w \<noteq> h"
    using mem [of "alive_output h w"] by (cases ?l) (auto simp: alive_output_def)
qed

lemma active_output_views:
  assumes "still E"
  shows "vt_view (active_output E h w) = vt_view w"
    "term_view (active_output E h w) = (h, snd (term_view w))"
proof -
  have u: "vt_view (upd_comp (\<lambda>c. c\<lparr>c_active_output := k\<rparr>) v) = vt_view v"
    "term_view (upd_comp (\<lambda>c. c\<lparr>c_active_output := k\<rparr>) v) = (k, snd (term_view v))" for v k
    by (simp_all add: vt_view_def term_view_def)
  show "vt_view (active_output E h w) = vt_view w"
    by (simp add: active_output_def Let_def vt_view_schedule still_calls [OF assms] u)
  show "term_view (active_output E h w) = (h, snd (term_view w))"
    by (auto simp: active_output_def Let_def term_view_schedule still_calls [OF assms] u) (simp_all add: term_view_def)
qed

lemma remove_output_views:
  fixes w :: world and h n :: nat
  assumes "still E"
  defines "w' \<equiv> remove_output (wire (Suc n) E) h w"
  shows "vt_outputs (vt_view w') = vt_outputs (vt_view w)"
    "vt_screens (vt_view w') = (vt_screens (vt_view w))(h := map_option darkened (vt_screens (vt_view w) h))"
    "term_view w' = (if fst (term_view w) = h then alive_output h w else fst (term_view w), fst (snd (term_view w)),
       snd (snd (term_view w)) \<or> (fst (snd (term_view w)) \<and> \<not> others_lit h (vt_view w)))"
proof -
  let ?E = "wire (Suc n) E"
  have st: "still ?E" using assms(1) by (simp add: still_wire)
  define w1 where "w1 = (if c_active_output (w_comp w) = h
               then active_output ?E (alive_output h w) (upd_comp (\<lambda>c. c\<lparr>c_active_output := 0\<rparr>) w) else w)"
  define w2 where "w2 = call1 (if_output_destroyed (iface ?E)) h w1"
  define w3 where "w3 = wlc_output_set_backend_surface_none ?E h w2"
  have u: "vt_view (upd_comp (\<lambda>c. c\<lparr>c_active_output := 0\<rparr>) w) = vt_view w"
    "snd (term_view (upd_comp (\<lambda>c. c\<lparr>c_active_output := 0\<rparr>) w)) = snd (term_view w)" by (simp_all add: vt_view_def term_view_def)
  have a: "fst (term_view v) = c_active_output (w_comp v)" "fst (snd (term_view v)) = c_terminating (w_comp v)" for v
    by (simp_all add: term_view_def)
  have same: "term_view w = (fst (term_view w), snd (term_view w))" by simp
  have v1: "vt_view w1 = vt_view w" "term_view w1 = (if fst (term_view w) = h then alive_output h w else fst (term_view w), snd (term_view w))"
    using same by (auto simp: w1_def active_output_views [OF st] u a)
  have v3: "vt_view w3 = vt_none h (vt_view w)" "term_view w3 = term_view w1"
    using vt_view_none [OF still_wired [OF assms(1)]] term_view_none [OF assms(1)] v1
    by (simp_all add: w3_def w2_def still_calls [OF assms(1)])
  have t: "c_terminating (w_comp w3) = fst (snd (term_view w))" using v1(2) v3(2) a(2) [of w3] by simp
  have w': "w' = (if c_terminating (w_comp w3) \<and> alive_output h w = 0 then emit Compositor_destroyed w3 else w3)"
    by (simp add: w'_def remove_output_def Let_def wlc_output_set_backend_surface_def wlc_compositor_terminate_def
        w3_def w2_def w1_def del: wire_fields)
  have e: "vt_view (emit Compositor_destroyed w3) = vt_view w3" by (simp add: vt_view_emit handover_def)
  have f: "term_view (emit Compositor_destroyed w3) = (fst (term_view w3), fst (snd (term_view w3)), True)" by (simp add: term_view_def)
  show "vt_outputs (vt_view w') = vt_outputs (vt_view w)" by (simp add: w' e v3 vt_none_outputs)
  show "vt_screens (vt_view w') = (vt_screens (vt_view w))(h := map_option darkened (vt_screens (vt_view w) h))"
    by (simp add: w' e v3 vt_none_screens)
  show "term_view w' = (if fst (term_view w) = h then alive_output h w else fst (term_view w), fst (snd (term_view w)),
       snd (snd (term_view w)) \<or> (fst (snd (term_view w)) \<and> \<not> others_lit h (vt_view w)))"
    using t v1(2) v3(2) by (auto simp: w' f alive_output_lit(1) prod_eq_iff)
qed

text \<open>The active output is never one that was removed: when it goes, another output that has a backend
  surface becomes the active one, or none if there is no other; the removal of any other output leaves it
  as it is. The removed output has given up its surface, or does so with the flip of its last frame.\<close>

theorem removed_output_is_not_active:
  fixes E :: env and n :: nat
  assumes "still E" and "output_of w h \<noteq> None"
  defines "w' \<equiv> remove_output (wire (Suc n) E) h w"
  shows "c_active_output (w_comp w') \<noteq> h \<and>
    (c_active_output (w_comp w) \<noteq> h \<longrightarrow> c_active_output (w_comp w') = c_active_output (w_comp w)) \<and>
    (c_active_output (w_comp w) = h \<longrightarrow>
       (if \<exists>k \<in> set (c_outputs (w_comp w)). k \<noteq> h \<and> has_display w k then has_display w' (c_active_output (w_comp w'))
        else c_active_output (w_comp w') = 0)) \<and>
    (\<exists>y. output_of w' h = Some y \<and> (bs_display (o_bsurface y) = 0 \<or> o_pending y \<and> bs_display (o_task_bsurface y) = INVALID_DISPLAY))"
proof -
  note r = remove_output_views [OF assms(1), of n h w, folded w'_def]
  have a: "c_active_output (w_comp v) = fst (term_view v)" for v by (simp add: term_view_def)
  have nz: "h \<noteq> 0" using assms(2) by (auto intro: ccontr)
  have lit: "lit (vt_view w') k = lit (vt_view w) k" if "k \<noteq> h" for k using that by (simp add: lit_def r(2))
  have ex: "(\<exists>k \<in> set (c_outputs (w_comp w)). k \<noteq> h \<and> has_display w k) = (alive_output h w \<noteq> 0)"
    unfolding alive_output_lit(1) by (simp add: others_lit_def has_display_lit vt_view_fields)
  obtain x where x: "output_of w h = Some x" using assms(2) by blast
  have "vt_screens (vt_view w') h = Some (darkened (screen_of_output x))" using x by (simp add: r(2)) (simp add: vt_view_def)
  then obtain y where y: "output_of w' h = Some y" "screen_of_output y = darkened (screen_of_output x)" by (auto simp: vt_view_def)
  then have "bs_display (o_bsurface y) = 0 \<or> o_pending y \<and> bs_display (o_task_bsurface y) = INVALID_DISPLAY"
    by (auto simp: screen_of_output_def darkened_def split: if_splits)
  then show ?thesis
    using y(1) alive_output_lit(2) [of h w] lit [of "alive_output h w"] nz unfolding ex a r(3)
    by (auto simp: has_display_lit)
qed

lemma env_ref_still: "still env_ref"
  by (simp add: still_def keeps1_def keeps2_def)

theorem removed_output_is_not_active_witness:
  "c_active_output (w_comp (remove_output (wire 1 env_ref) 2 (upd_comp (\<lambda>c. c\<lparr>c_active_output := 2\<rparr>) vt_world))) \<noteq> 2"
  using removed_output_is_not_active [OF env_ref_still, of "upd_comp (\<lambda>c. c\<lparr>c_active_output := 2\<rparr>) vt_world" 2 0]
  by (simp add: vt_world_def del: listen.simps)

section \<open>The end of the session\<close>

definition closed :: "screen \<Rightarrow> screen" where
  "closed c = (if sc_pending c then c\<lparr>sc_terminate := True\<rparr> else c\<lparr>sc_display := 0\<rparr>)"

lemma closed_twice: "closed (closed c) = closed c"
  by (simp add: closed_def)

lemma terminate_output_views:
  fixes w :: world and n h :: nat
  assumes "still E"
  defines "E' \<equiv> wire (Suc (Suc n)) E"
  assumes "output_of w h = Some x"
  defines "w' \<equiv> wlc_output_terminate E' h w"
  shows "vt_outputs (vt_view w') = vt_outputs (vt_view w)"
    "vt_screens (vt_view w') = (vt_screens (vt_view w))(h := map_option closed (vt_screens (vt_view w) h))"
    "snd (term_view w') = (fst (snd (term_view w)),
       snd (snd (term_view w)) \<or> (\<not> o_pending x \<and> fst (snd (term_view w)) \<and> \<not> others_lit h (vt_view w)))"
proof -
  let ?p = "upd_output h (\<lambda>x. x\<lparr>o_task_terminate := True\<rparr>) w"
  have p: "vt_view ?p = vt_set h (\<lambda>c. c\<lparr>sc_terminate := True\<rparr>) (vt_view w)"
    by (rule vt_view_upd_output) (simp add: screen_of_output_def)
  have w': "w' = (if o_pending x then wlc_output_schedule_repaint h ?p else remove_output (wire (Suc n) E) h w)"
    using assms(3) listen_events(2) [of "Suc n" E] by (simp add: w'_def E'_def wlc_output_terminate_def del: listen.simps)
  have s: "vt_screens (vt_view w) h = Some (screen_of_output x)" using assms(3) by (simp add: vt_view_def)
  have c: "closed (screen_of_output x) = (if o_pending x then (screen_of_output x)\<lparr>sc_terminate := True\<rparr> else darkened (screen_of_output x))"
    by (simp add: closed_def darkened_def screen_of_output_def)
  note r = remove_output_views [OF assms(1), of n h w]
  show "vt_outputs (vt_view w') = vt_outputs (vt_view w)"
    by (simp add: w' vt_view_schedule p r(1)) (simp add: vt_set_def)
  show "vt_screens (vt_view w') = (vt_screens (vt_view w))(h := map_option closed (vt_screens (vt_view w) h))"
    by (simp add: w' vt_view_schedule p r(2) s c) (simp add: vt_set_def s)
  show "snd (term_view w') = (fst (snd (term_view w)),
       snd (snd (term_view w)) \<or> (\<not> o_pending x \<and> fst (snd (term_view w)) \<and> \<not> others_lit h (vt_view w)))"
    by (simp add: w' term_view_schedule term_view_basic r(3))
qed

lemma lit_screens: "lit s h = (\<exists>c. vt_screens s h = Some c \<and> sc_display c \<noteq> 0)"
  by (auto simp: lit_def split: option.split)

text \<open>Terminating the outputs of a list, all of them live.\<close>

lemma terminate_list:
  fixes n :: nat
  assumes "still E"
  defines "f \<equiv> \<lambda>h w. if output_of w h = None then w else wlc_output_terminate (wire (Suc (Suc n)) E) h w"
  shows "(\<forall>h \<in> set hs. vt_screens (vt_view w) h \<noteq> None) \<Longrightarrow>
    vt_outputs (vt_view (fold f hs w)) = vt_outputs (vt_view w) \<and>
    (\<forall>h. vt_screens (vt_view (fold f hs w)) h =
       (if h \<in> set hs then map_option closed (vt_screens (vt_view w) h) else vt_screens (vt_view w) h)) \<and>
    fst (snd (term_view (fold f hs w))) = fst (snd (term_view w)) \<and>
    (snd (snd (term_view w)) \<longrightarrow> snd (snd (term_view (fold f hs w))))"
proof (induction hs arbitrary: w)
  case (Cons h hs)
  obtain x where x: "output_of w h = Some x" using Cons.prems by (auto simp: vt_view_def)
  note t = terminate_output_views [OF assms(1) x, of n]
  have f: "f h w = wlc_output_terminate (wire (Suc (Suc n)) E) h w" using x by (simp add: f_def)
  have "\<forall>k \<in> set hs. vt_screens (vt_view (f h w)) k \<noteq> None" using Cons.prems t(2) by (auto simp: f)
  note IH = Cons.IH [OF this]
  have "map_option closed (map_option closed y) = map_option closed y" for y by (cases y) (simp_all add: closed_twice)
  then show ?case using IH t by (auto simp: f)
qed simp

lemma terminate_last:
  fixes n :: nat
  assumes "still E" "hs \<noteq> []" "set hs = set (vt_outputs (vt_view w))" "distinct hs"
    "\<And>h. h \<in> set hs \<Longrightarrow> \<exists>c. vt_screens (vt_view w) h = Some c \<and> \<not> sc_pending c" "fst (snd (term_view w))"
  defines "f \<equiv> \<lambda>h w. if output_of w h = None then w else wlc_output_terminate (wire (Suc (Suc n)) E) h w"
  shows "snd (snd (term_view (fold f hs w)))"
proof -
  obtain ks k where hs: "hs = ks @ [k]" using assms(2) by (meson rev_exhaust)
  have live: "\<forall>h \<in> set ks. vt_screens (vt_view w) h \<noteq> None" using assms(5) hs by fastforce
  let ?v = "fold f ks w"
  note v = terminate_list [OF assms(1) live, of n, folded f_def]
  have kn: "k \<notin> set ks" using assms(4) hs by simp
  obtain c where c: "vt_screens (vt_view w) k = Some c" "\<not> sc_pending c" using assms(5) hs by auto
  then have "vt_screens (vt_view ?v) k = Some c" using v kn by simp
  then obtain x where x: "output_of ?v k = Some x" "screen_of_output x = c" by (auto simp: vt_view_def)
  have "\<not> lit (vt_view ?v) h" if "h \<in> set (vt_outputs (vt_view ?v))" "h \<noteq> k" for h
  proof -
    have "h \<in> set ks" using that v assms(3) hs by auto
    then show ?thesis using v assms(5) [of h] hs by (auto simp: lit_screens closed_def split: if_splits)
  qed
  then have "\<not> others_lit k (vt_view ?v)" by (auto simp: others_lit_def)
  moreover have "fold f hs w = wlc_output_terminate (wire (Suc (Suc n)) E) k ?v" using x(1) by (simp add: hs f_def)
  moreover have "\<not> o_pending x" using x(2) c(2) by (auto simp: screen_of_output_def)
  ultimately show ?thesis using terminate_output_views(3) [OF assms(1) x(1), of n] v assms(6) by simp
qed

text \<open>The flip of an output whose termination was deferred.\<close>

lemma term_view_sleep: "term_view (wlc_output_set_sleep_ptr h b w) = term_view w"
  by (simp add: wlc_output_set_sleep_ptr_def Let_def term_view_basic term_view_schedule cancel_repaint_def split: option.split)

lemma flip_terminates:
  fixes n :: nat and sec nsec :: int
  assumes "still E" "vt_screens (vt_view w) h = Some c" "sc_terminate c" "sc_task c = 0"
  defines "w' \<equiv> wlc_output_finish_frame (wire (Suc (Suc n)) E) h sec nsec w"
  shows "vt_outputs (vt_view w') = vt_outputs (vt_view w)"
    "vt_screens (vt_view w') = (vt_screens (vt_view w))(h \<mapsto> c\<lparr>sc_pending := False, sc_display := 0, sc_terminate := False\<rparr>)"
    "snd (term_view w') = (fst (snd (term_view w)),
       snd (snd (term_view w)) \<or> (fst (snd (term_view w)) \<and> \<not> others_lit h (vt_view w)))"
proof -
  let ?E = "wire (Suc (Suc n)) E"
  obtain x where x: "output_of w h = Some x" "screen_of_output x = c" using assms(2) by (auto simp: vt_view_def)
  have t: "o_task_terminate x" "bs_display (o_task_bsurface x) = 0" using x(2) assms(3,4) by (auto simp: screen_of_output_def)
  define w1 where "w1 = upd_output h (\<lambda>x. x\<lparr>o_scheduled := False\<rparr>)
    (upd_output h (\<lambda>x. x\<lparr>o_pending := False, o_frame_time := u32_of_i32 (sec * 1000 + nsec div 1000000)\<rparr>) w)"
  have "vt_view (upd_output h (\<lambda>x. x\<lparr>o_pending := False, o_frame_time := u32_of_i32 (sec * 1000 + nsec div 1000000)\<rparr>) w) =
      vt_set h (\<lambda>c. c\<lparr>sc_pending := False\<rparr>) (vt_view w)"
    by (rule vt_view_upd_output) (simp add: screen_of_output_def)
  then have v1: "vt_view w1 = vt_set h (\<lambda>c. c\<lparr>sc_pending := False\<rparr>) (vt_view w)" "term_view w1 = term_view w"
    by (simp_all add: w1_def vt_view_same screen_of_output_def term_view_basic)
  have b: "task_backend ?E h w1 = w1" using x(1) t(2) by (simp add: task_backend_def o_field_def w1_def)
  define w2 where "w2 = task_sleep h w1"
  have v2: "vt_view w2 = vt_view w1" "term_view w2 = term_view w1"
    by (simp_all add: w2_def task_sleep_def vt_view_sleep vt_view_same screen_of_output_def term_view_sleep term_view_basic)
  have s2: "vt_screens (vt_view w2) = (vt_screens (vt_view w))(h \<mapsto> c\<lparr>sc_pending := False\<rparr>)"
    "vt_outputs (vt_view w2) = vt_outputs (vt_view w)" using assms(2) by (simp_all add: v2 v1 vt_set_def)
  then obtain y where y: "output_of w2 h = Some y" "screen_of_output y = c\<lparr>sc_pending := False\<rparr>" by (auto simp: vt_view_def fun_eq_iff split: if_splits)
  have yt: "o_task_terminate y" "\<not> o_pending y" 
    using arg_cong [OF y(2), of sc_terminate] arg_cong [OF y(2), of sc_pending] assms(3) by (simp_all add: screen_of_output_def)
  have w': "w' = upd_output h (\<lambda>x. x\<lparr>o_task_terminate := False\<rparr>) (wlc_output_terminate ?E h w2)"
    using x(1) t(1) y(1) yt(1) b
    by (simp add: w'_def wlc_output_finish_frame_def finish_frame_tasks_def task_terminate_def o_field_def Let_def
        flip: w1_def w2_def)
  have u: "vt_view (upd_output h (\<lambda>x. x\<lparr>o_task_terminate := False\<rparr>) v) = vt_set h (\<lambda>c. c\<lparr>sc_terminate := False\<rparr>) (vt_view v)" for v
    by (rule vt_view_upd_output) (simp add: screen_of_output_def)
  note r = terminate_output_views [OF assms(1) y(1), of n]
  show "vt_outputs (vt_view w') = vt_outputs (vt_view w)" by (simp add: w' u vt_set_def r(1) s2)
  show "vt_screens (vt_view w') = (vt_screens (vt_view w))(h \<mapsto> c\<lparr>sc_pending := False, sc_display := 0, sc_terminate := False\<rparr>)"
    by (simp add: w' u vt_set_def r(2) s2 closed_def)
  have "others_lit h (vt_view w2) = others_lit h (vt_view w)" by (auto simp: others_lit_def lit_screens s2)
  then show "snd (term_view w') = (fst (snd (term_view w)),
       snd (snd (term_view w)) \<or> (fst (snd (term_view w)) \<and> \<not> others_lit h (vt_view w)))"
    using yt(2) by (simp add: w' term_view_basic r(3) v2(2) v1(2))
qed

lemma flips_terminate:
  fixes n :: nat and sec nsec :: int
  assumes "still E"
  defines "f \<equiv> \<lambda>h. wlc_output_finish_frame (wire (Suc (Suc n)) E) h sec nsec"
  shows "\<lbrakk>distinct hs; fst (snd (term_view w));
      \<And>h. h \<in> set hs \<Longrightarrow> \<exists>c. vt_screens (vt_view w) h = Some c \<and> sc_terminate c \<and> sc_task c = 0;
      \<And>h. h \<in> set (vt_outputs (vt_view w)) \<Longrightarrow> h \<notin> set hs \<Longrightarrow> \<not> lit (vt_view w) h\<rbrakk> \<Longrightarrow>
    (\<forall>h \<in> set (vt_outputs (vt_view (fold f hs w))). \<not> lit (vt_view (fold f hs w)) h) \<and>
    vt_outputs (vt_view (fold f hs w)) = vt_outputs (vt_view w) \<and>
    (hs \<noteq> [] \<or> snd (snd (term_view w)) \<longrightarrow> snd (snd (term_view (fold f hs w))))"
proof (induction hs arbitrary: w)
  case (Cons h hs)
  obtain c where c: "vt_screens (vt_view w) h = Some c" "sc_terminate c" "sc_task c = 0" using Cons.prems(3) by auto
  note t = flip_terminates [OF assms(1) c, of n sec nsec, folded f_def]
  have f: "f h w = wlc_output_finish_frame (wire (Suc (Suc n)) E) h sec nsec w" by (simp add: f_def)
  have 1: "fst (snd (term_view (f h w)))" using t(3) Cons.prems(2) by (simp add: f)
  have 2: "\<exists>c. vt_screens (vt_view (f h w)) k = Some c \<and> sc_terminate c \<and> sc_task c = 0" if "k \<in> set hs" for k
    using that Cons.prems(1,3) t(2) by (auto simp: f)
  have 3: "\<not> lit (vt_view (f h w)) k" if "k \<in> set (vt_outputs (vt_view (f h w)))" "k \<notin> set hs" for k
    using that Cons.prems(4) [of k] t(1,2) by (cases "k = h") (auto simp: lit_screens f)
  have "snd (snd (term_view (f h w)))" if "hs = []"
  proof -
    have "\<not> others_lit h (vt_view w)" using Cons.prems(4) that by (auto simp: others_lit_def)
    then show ?thesis using t(3) Cons.prems(2) by (simp add: f)
  qed
  moreover have "snd (snd (term_view w)) \<Longrightarrow> snd (snd (term_view (f h w)))" using t(3) by (simp add: f)
  moreover note Cons.IH [of "f h w", OF _ 1 2 3]
  ultimately show ?case using Cons.prems(1) t(1) by (auto simp: f)
qed auto

text \<open>C5 (liveness). The session ends: after the request to terminate, every output without a frame on its way has given up
  its surface, and once the flips of the others have come, in whatever order, all have, and the signal that
  stops the program has been sent.\<close>

theorem termination_completes:
  fixes E :: env and w :: world and n :: nat and sec nsec :: int
  assumes "still E" and "\<not> c_terminating (w_comp w)" and "distinct (c_outputs (w_comp w))"
    and "\<And>h. h \<in> set (c_outputs (w_comp w)) \<Longrightarrow> \<exists>x. output_of w h = Some x \<and> bs_display (o_task_bsurface x) = 0"
  defines "E' \<equiv> wire (Suc (Suc n)) E"
  defines "w1 \<equiv> wlc_compositor_terminate E' w"
  assumes "distinct flips" and "set flips = {h \<in> set (c_outputs (w_comp w)). \<exists>x. output_of w h = Some x \<and> o_pending x}"
  defines "w2 \<equiv> fold (\<lambda>h. wlc_output_finish_frame E' h sec nsec) flips w1"
  shows "(\<forall>h \<in> set (c_outputs (w_comp w2)). \<not> has_display w2 h) \<and> Compositor_destroyed \<in> set (w_trace w2)"
proof -
  define v where "v = call0 (if_compositor_terminate (iface E)) (upd_comp (\<lambda>c. c\<lparr>c_terminating := True\<rparr>) w)"
  have u: "vt_view (upd_comp (\<lambda>c. c\<lparr>c_terminating := True\<rparr>) w) = vt_view w"
    "fst (snd (term_view (upd_comp (\<lambda>c. c\<lparr>c_terminating := True\<rparr>) w)))" by (simp_all add: vt_view_def term_view_def)
  have v: "vt_view v = vt_view w" "fst (snd (term_view v))" using u by (simp_all add: v_def still_calls [OF assms(1)])
  let ?hs = "c_outputs (w_comp w)"
  have o: "vt_outputs (vt_view w) = ?hs" "c_outputs (w_comp v) = ?hs" using v(1) by (simp_all add: vt_view_fields)
  show ?thesis
  proof (cases "?hs = []")
    case True
    then have "w1 = emit Compositor_destroyed v" using assms(2) o by (simp add: w1_def E'_def wlc_compositor_terminate_def Let_def v_def)
    moreover have "flips = []" using True assms(8) by simp
    ultimately show ?thesis using True o by (simp add: w2_def)
  next
    case False
    let ?f = "\<lambda>h w. if output_of w h = None then w else wlc_output_terminate E' h w"
    have w1: "w1 = fold ?f ?hs v"
      using False assms(2) o unfolding w1_def E'_def
      by (simp add: wlc_compositor_terminate_def for_outputs_def Let_def flip: v_def)
    have sc: "\<exists>c. vt_screens (vt_view v) h = Some c \<and> sc_task c = 0 \<and> (sc_pending c \<longleftrightarrow> h \<in> set flips)" if "h \<in> set ?hs" for h
      using assms(4) [OF that] assms(8) that v(1) by (auto simp: vt_view_def screen_of_output_def)
    have live: "\<forall>h \<in> set ?hs. vt_screens (vt_view v) h \<noteq> None" using sc by fastforce
    note t = terminate_list [OF assms(1) live, of n, folded E'_def, folded w1]
    have sub: "set flips \<subseteq> set ?hs" using assms(8) by blast
    have each: "\<exists>c. vt_screens (vt_view w1) h = Some c \<and> sc_terminate c \<and> sc_task c = 0" if "h \<in> set flips" for h
    proof -
      have "h \<in> set ?hs" using that sub by blast
      then show ?thesis using sc [of h] that t by (auto simp: closed_def)
    qed
    have dark: "\<not> lit (vt_view w1) h" if "h \<in> set (vt_outputs (vt_view w1))" "h \<notin> set flips" for h
    proof -
      have "h \<in> set ?hs" using that t o v(1) by simp
      then show ?thesis using sc [of h] that t by (auto simp: lit_screens closed_def)
    qed
    have term1: "fst (snd (term_view w1))" using t v(2) by simp
    have over: "snd (snd (term_view w1))" if "flips = []"
    proof -
      have np: "\<exists>c. vt_screens (vt_view v) h = Some c \<and> \<not> sc_pending c" if "h \<in> set ?hs" for h
        using sc [OF that] \<open>flips = []\<close> by auto
      have "set ?hs = set (vt_outputs (vt_view v))" using o v(1) by simp
      from terminate_last [OF assms(1) False this assms(3) np v(2), of n] show ?thesis unfolding w1 E'_def .
    qed
    have fl: "(\<forall>h \<in> set (vt_outputs (vt_view w2)). \<not> lit (vt_view w2) h) \<and>
        (flips \<noteq> [] \<or> snd (snd (term_view w1)) \<longrightarrow> snd (snd (term_view w2)))"
      using flips_terminate [OF assms(1,7) term1 each dark, of n sec nsec] unfolding w2_def E'_def by blast
    then have "snd (snd (term_view w2))" using over by blast
    then show ?thesis using fl by (simp add: has_display_lit vt_view_fields) (simp add: term_view_def)
  qed
qed

theorem termination_completes_witness:
  "Compositor_destroyed \<in> set (w_trace (wlc_output_finish_frame (wire 2 env_ref) 1 3 0
     (wlc_compositor_terminate (wire 2 env_ref) vt_world)))"
proof -
  have c: "c_outputs (w_comp vt_world) = [1, 2]" "\<not> c_terminating (w_comp vt_world)"
    by (simp_all add: vt_world_def world_blank_def)
  have o: "\<exists>x. output_of vt_world h = Some x \<and> bs_display (o_task_bsurface x) = 0" if "h \<in> set (c_outputs (w_comp vt_world))" for h
    using that by (auto simp: c) (simp_all add: vt_world_def output_blank_def)
  have f: "set [1] = {h \<in> set (c_outputs (w_comp vt_world)). \<exists>x. output_of vt_world h = Some x \<and> o_pending x}"
    by (auto simp: c) (simp_all add: vt_world_def output_blank_def)
  have two: "wire (Suc (Suc 0)) env_ref = wire 2 env_ref" by (simp add: numeral_2_eq_2)
  show ?thesis
    using termination_completes [OF env_ref_still c(2) _ o _ f, of 0 3 0] unfolding two by (simp add: c)
qed

end
