(* ===== verification/Keyboard.thy ===== *)
theory Keyboard
  imports Surface Sample
begin

text \<open>
  The keyboard of the seat and its keymap (src/compositor/seat/keyboard.c, keymap.c): the keys that are
  held, their repetition, the modifiers, the focus.

  The state of libxkbcommon is a number that the operations of \<open>xkb_ops\<close> transform. The result of
  \<open>xkb_state_new\<close> and the delays read from the environment of the process are arguments of
  \<open>wlc_keyboard_set_keymap\<close> and \<open>wlc_keyboard_ctor\<close>. The key state is \<open>True\<close> for pressed.
\<close>

section \<open>The keymap\<close>

definition WLC_MOD_LAST :: nat where "WLC_MOD_LAST = 8"
definition WLC_LED_LAST :: nat where "WLC_LED_LAST = 3"
definition XKB_MOD_INVALID :: u32 where "XKB_MOD_INVALID = 0xFFFFFFFF"

definition bit_of :: "nat \<Rightarrow> u32" where "bit_of i = push_bit i 1"

definition wlc_keymap_get_mod_mask :: "wlc_keymap \<Rightarrow> u32 \<Rightarrow> u32" where
  "wlc_keymap_get_mod_mask km inp =
     fold (\<lambda>i mods. if km_mods km ! i \<noteq> XKB_MOD_INVALID \<and> any_bit inp (bit_of (unat (km_mods km ! i)))
                     then mods OR bit_of i else mods) [0..<WLC_MOD_LAST] 0"

definition wlc_keymap_get_led_mask :: "xkb_ops \<Rightarrow> wlc_keymap \<Rightarrow> nat \<Rightarrow> u32" where
  "wlc_keymap_get_led_mask X km st =
     fold (\<lambda>i leds. if xkb_led_active X st (km_leds km ! i) then leds OR bit_of i else leds) [0..<WLC_LED_LAST] 0"

text \<open>The mask of pressed xkb modifiers for a set of wlc modifiers.\<close>

definition pressed_mask :: "wlc_keymap \<Rightarrow> u32 \<Rightarrow> u32" where
  "pressed_mask km mods =
     fold (\<lambda>i pressed. if km_mods km ! i \<noteq> XKB_MOD_INVALID \<and> any_bit mods (bit_of i)
                        then pressed OR bit_of (unat (km_mods km ! i)) else pressed) [0..<WLC_MOD_LAST] 0"

section \<open>Keys held\<close>

definition keyboard :: "world \<Rightarrow> wlc_keyboard" where "keyboard w = se_keyboard (w_seat w)"

definition upd_keyboard :: "(wlc_keyboard \<Rightarrow> wlc_keyboard) \<Rightarrow> world \<Rightarrow> world" where
  "upd_keyboard f = upd_seat (\<lambda>s. s\<lparr>se_keyboard := f (se_keyboard s)\<rparr>)"

abbreviation input :: "input_out \<Rightarrow> world \<Rightarrow> world" where "input x \<equiv> emit (Input_out x)"

text \<open>The loop over the pool, at index \<open>i\<close> with \<open>n\<close> entries left: an entry that is removed is not skipped over.
  The flag is \<open>False\<close> when a pressed key is found.\<close>

fun update_keys_loop :: "u32 pool_ops \<Rightarrow> nat \<Rightarrow> nat \<Rightarrow> u32 \<Rightarrow> bool \<Rightarrow> u32 list \<Rightarrow> bool \<times> u32 list" where
  "update_keys_loop P 0 i key pressed keys = (True, keys)"
| "update_keys_loop P (Suc n) i key pressed keys =
     (if keys ! i \<noteq> key then update_keys_loop P n (Suc i) key pressed keys
      else if pressed then (False, keys)
      else update_keys_loop P n i key pressed (remove_at P keys i))"

definition update_keys :: "env \<Rightarrow> u32 \<Rightarrow> bool \<Rightarrow> u32 list \<Rightarrow> bool \<times> u32 list" where
  "update_keys E key pressed keys =
     (let (ok, keys) = update_keys_loop (sp E) (length keys) 0 key pressed keys in
      if \<not> ok then (False, keys)
      else if pressed then (case push_back (sp E) keys key of None \<Rightarrow> (False, keys) | Some keys \<Rightarrow> (True, keys))
      else (True, keys))"

text \<open>For each live resource of a list, in order.\<close>

definition for_keyboards :: "(nat \<Rightarrow> world \<Rightarrow> world) \<Rightarrow> nat list \<Rightarrow> world \<Rightarrow> world" where
  "for_keyboards f rs w = fold (\<lambda>r w. let wr = wl_of w r K_keyboard in if wr = 0 then w else f wr w) rs w"

definition send_key :: "u32 \<Rightarrow> u32 \<Rightarrow> bool \<Rightarrow> nat \<Rightarrow> world \<Rightarrow> world" where
  "send_key time key pressed wr w =
     (let (serial, w) = next_serial w in input (Send_keyboard_key wr serial time key pressed) w)"

definition send_release_for_keys :: "env \<Rightarrow> nat list \<Rightarrow> u32 list \<Rightarrow> world \<Rightarrow> world" where
  "send_release_for_keys E rs keys w =
     (let time = ext_time E w in fold (\<lambda>k. for_keyboards (send_key time k False) rs) keys w)"

section \<open>Repetition\<close>

definition cb_repeat :: "env \<Rightarrow> world \<Rightarrow> world" where
  "cb_repeat E w =
     (let moved = kb_keys (keyboard w);
          w = upd_keyboard (\<lambda>k. k\<lparr>kb_keys := []\<rparr>) w;
          w = input (Keyboard_timer 0) w;
          w = upd_keyboard (\<lambda>k. k\<lparr>kb_repeat := False, kb_repeating := True, kb_focused := False\<rparr>) w
      in
      if \<not> kb_keymap (keyboard w) then w
      else
        let w = fold (\<lambda>key w.
              if xkb_key_repeats (xkb E) (key + 8)
              then upd_keyboard (\<lambda>k. k\<lparr>kb_xkb := xkb_update_key (xkb E) (kb_xkb k) (key + 8) False\<rparr>) w
              else upd_keyboard (\<lambda>k. k\<lparr>kb_keys := snd (update_keys E key True (kb_keys k))\<rparr>) w) moved w
        in fold (\<lambda>key w.
              if \<not> xkb_key_repeats (xkb E) (key + 8) then w
              else sig_input E (WLC_INPUT_EVENT_KEY (ext_time E w) 0 key True) w) moved w)"

definition begin_repeat :: "bool \<Rightarrow> world \<Rightarrow> world" where
  "begin_repeat focused w =
     (let w = upd_keyboard (\<lambda>k. k\<lparr>kb_repeat := True, kb_focused := focused\<rparr>) w;
          k = keyboard w;
          delay = (if kb_repeating k then kb_repeat_rate k else kb_repeat_delay k)
      in input (Keyboard_timer (sint delay)) w)"

definition reset_repeat :: "world \<Rightarrow> world" where
  "reset_repeat w =
     (if \<not> kb_repeat (keyboard w) then w
      else upd_keyboard (\<lambda>k. k\<lparr>kb_repeat := False, kb_repeating := False, kb_focused := False\<rparr>)
             (input (Keyboard_timer 0) w))"

section \<open>Focus\<close>

definition send_leave :: "nat \<Rightarrow> nat \<Rightarrow> world \<Rightarrow> world" where
  "send_leave surface wr w =
     (let (serial, w) = next_serial w in input (Send_keyboard_leave wr serial surface) w)"

text \<open>A popup is closed when the focus goes to another client. \<open>v\<close> and \<open>new_focus\<close> are read after the
  callback, which may have destroyed them.\<close>

definition close_popup :: "env \<Rightarrow> nat \<Rightarrow> nat \<Rightarrow> nat \<Rightarrow> world \<Rightarrow> world" where
  "close_popup E vid surface new_focus w =
     (case view_of w vid of
        None \<Rightarrow> fail Wild_pointer w
      | Some v \<Rightarrow>
          if is_x11_view v \<or> \<not> any_bit (v_type v) WLC_BIT_POPUP then w
          else
            let w = (if new_focus \<noteq> 0 \<and> view_of w new_focus = None then fail Wild_pointer w else w)
            in if ext_client E surface \<noteq> wlc_view_get_client_ptr E w new_focus then wlc_view_close_ptr E vid w else w)"

definition keyboard_defocus :: "env \<Rightarrow> nat \<Rightarrow> world \<Rightarrow> world" where
  "keyboard_defocus E new_focus w =
     (let vid = kb_focused_view (keyboard w);
          rs = kb_focused_resources (keyboard w);
          w = (case view_of w vid of
                 None \<Rightarrow> w
               | Some v \<Rightarrow>
                   let w = send_release_for_keys E rs (kb_keys (keyboard w)) w;
                       surface = wl_of w (v_surface v) K_surface
                   in
                   if surface = 0 then w
                   else
                     let w = (if is_x11_view v \<and> (case view_of w new_focus of None \<Rightarrow> True | Some n \<Rightarrow> \<not> is_x11_view n)
                              then snd (wlc_x11_window_set_active vid False w) else w);
                         w = for_keyboards (send_leave surface) rs w;
                         w = call2 (if_view_focus (iface E)) vid False w
                     in close_popup E vid surface new_focus w)
      in upd_keyboard (\<lambda>k. k\<lparr>kb_focused_resources := [], kb_focused_view := 0\<rparr>) w)"

text \<open>What a keyboard is sent that gets the focus: the modifiers, the held keys that do not repeat; the others
  come with the timer. The array that carries the keys is taken to have memory for them.\<close>

definition enter_keys :: "env \<Rightarrow> wlc_keyboard \<Rightarrow> u32 list" where
  "enter_keys E k = (if kb_keymap k then filter (\<lambda>key. \<not> xkb_key_repeats (xkb E) (key + 8)) (kb_keys k) else [])"

definition repeating_keys :: "env \<Rightarrow> wlc_keyboard \<Rightarrow> nat" where
  "repeating_keys E k =
     (if kb_keymap k then length (filter (\<lambda>key. xkb_key_repeats (xkb E) (key + 8)) (kb_keys k)) else 0)"

definition send_modifiers :: "nat \<Rightarrow> world \<Rightarrow> world" where
  "send_modifiers wr w =
     (let (serial, w) = next_serial w; k = keyboard w
      in input (Send_keyboard_modifiers wr serial (kb_depressed k) (kb_latched k) (kb_locked k) (kb_group k)) w)"

definition enter_keyboard :: "env \<Rightarrow> nat \<Rightarrow> nat \<Rightarrow> nat \<Rightarrow> world \<Rightarrow> world" where
  "enter_keyboard E surface r wr w =
     (let w = upd_keyboard (\<lambda>k. k\<lparr>kb_focused_resources := pool_push_back (hp E) r (kb_focused_resources k)\<rparr>) w;
          w = send_modifiers wr w;
          (serial, w) = next_serial w;
          w = input (Send_keyboard_enter wr serial surface (enter_keys E (keyboard w))) w
      in if repeating_keys E (keyboard w) > 0 then begin_repeat True w else w)"

definition keyboard_focus_view :: "env \<Rightarrow> nat \<Rightarrow> world \<Rightarrow> world" where
  "keyboard_focus_view E vid w =
     (if vid = 0 then w
      else case view_of w vid of
        None \<Rightarrow> fail Wild_pointer w
      | Some v \<Rightarrow>
          let surface = wl_of w (v_surface v) K_surface in
          if surface = 0 then w
          else
            let client = ext_client E surface;
                w = fold (\<lambda>r w. let wr = wl_of w r K_keyboard in
                           if wr = 0 \<or> ext_client E wr \<noteq> client then w else enter_keyboard E surface r wr w)
                      (kb_resources (keyboard w)) w;
                w = upd_keyboard (\<lambda>k. k\<lparr>kb_focused_view := vid\<rparr>) w
            in call2 (if_view_focus (iface E)) vid True w)"

definition wlc_keyboard_focus :: "env \<Rightarrow> nat \<Rightarrow> world \<Rightarrow> world" where
  "wlc_keyboard_focus E vid w =
     (if kb_focused_view (keyboard w) = vid then w
      else
        let w = (if \<not> kb_repeating (keyboard w) then reset_repeat w else w)
        in keyboard_focus_view E vid (keyboard_defocus E vid w))"

section \<open>Symbols\<close>

text \<open>\<open>apply_modifiers_to_xkb_state\<close> and the lookup in the second xkb state, which is changed nowhere else; \<open>None\<close>
  is \<open>XKB_KEY_NoSymbol\<close> and \<open>CHCK_REPLACEMENT_CHAR\<close>, when that state was not made.\<close>

definition apply_modifiers_to_xkb_state :: "world \<Rightarrow> wlc_modifiers option \<Rightarrow> u32" where
  "apply_modifiers_to_xkb_state w mods =
     (case mods of
        None \<Rightarrow> 0
      | Some m \<Rightarrow> if kb_keymap (keyboard w) then pressed_mask (se_keymap (w_seat w)) (mo_mods m) else 0)"

definition wlc_keyboard_get_keysym_for_key_ptr :: "env \<Rightarrow> world \<Rightarrow> u32 \<Rightarrow> wlc_modifiers option \<Rightarrow> u32 option" where
  "wlc_keyboard_get_keysym_for_key_ptr E w key mods =
     (if \<not> kb_sym (keyboard w) then None
      else Some (xkb_one_sym (xkb E) (apply_modifiers_to_xkb_state w mods) (key + 8)))"

definition wlc_keyboard_get_utf32_for_key_ptr :: "env \<Rightarrow> world \<Rightarrow> u32 \<Rightarrow> wlc_modifiers option \<Rightarrow> u32 option" where
  "wlc_keyboard_get_utf32_for_key_ptr E w key mods =
     (if \<not> kb_sym (keyboard w) then None
      else Some (xkb_utf32 (xkb E) (apply_modifiers_to_xkb_state w mods) (key + 8)))"

section \<open>Modifiers\<close>

definition WLC_BIT_LED_NUM :: u32 where "WLC_BIT_LED_NUM = 1"
definition WLC_BIT_LED_CAPS :: u32 where "WLC_BIT_LED_CAPS = 2"
definition WLC_BIT_LED_SCROLL :: u32 where "WLC_BIT_LED_SCROLL = 4"

definition keyboard_update_leds :: "u32 \<Rightarrow> nat \<Rightarrow> world \<Rightarrow> world" where
  "keyboard_update_leds leds device =
     input (Device_leds device (any_bit leds WLC_BIT_LED_NUM) (any_bit leds WLC_BIT_LED_CAPS) (any_bit leds WLC_BIT_LED_SCROLL))"

text \<open>\<open>device\<close> is 0 when the event came from no device.\<close>

definition wlc_keyboard_update_modifiers :: "env \<Rightarrow> nat \<Rightarrow> world \<Rightarrow> world" where
  "wlc_keyboard_update_modifiers E device w =
     (let k = keyboard w; X = xkb E;
          depressed = xkb_depressed X (kb_xkb k); latched = xkb_latched X (kb_xkb k);
          locked = xkb_locked X (kb_xkb k); group = xkb_layout X (kb_xkb k)
      in
      if depressed = kb_depressed k \<and> latched = kb_latched k \<and> locked = kb_locked k \<and> group = kb_group k then w
      else
        let w = upd_keyboard (\<lambda>k. k\<lparr>kb_depressed := depressed, kb_latched := latched, kb_locked := locked,
                                     kb_group := group\<rparr>) w;
            w = for_keyboards send_modifiers (kb_focused_resources k) w
        in
        if \<not> kb_keymap k then w
        else
          let km = se_keymap (w_seat w);
              mods = wlc_keymap_get_mod_mask km (depressed OR latched);
              leds = wlc_keymap_get_led_mask X km (kb_xkb k);
              w = upd_keyboard (\<lambda>k. k\<lparr>kb_modifiers := \<lparr>mo_leds = leds, mo_mods = mods\<rparr>\<rparr>) w
          in if device \<noteq> 0 then keyboard_update_leds leds device w else w)"

section \<open>Keys\<close>

text \<open>Whether the client gets the key: the author of the compositor may keep it.\<close>

definition wlc_keyboard_request_key :: "env \<Rightarrow> u32 \<Rightarrow> wlc_modifiers \<Rightarrow> u32 \<Rightarrow> bool \<Rightarrow> world \<Rightarrow> bool \<times> world" where
  "wlc_keyboard_request_key E time mods key pressed w =
     (let (kept, w) = call1_except (if_keyboard_key (iface E)) True (kb_focused_view (keyboard w), time, mods, key, pressed) w
      in if kept
         then (False, if pressed \<and> kb_keymap (keyboard w) \<and> xkb_key_repeats (xkb E) (key + 8) then begin_repeat False w else w)
         else (True, w))"

definition wlc_keyboard_update :: "env \<Rightarrow> u32 \<Rightarrow> bool \<Rightarrow> world \<Rightarrow> bool \<times> world" where
  "wlc_keyboard_update E key pressed w =
     (let w = upd_keyboard (\<lambda>k. k\<lparr>kb_xkb := xkb_update_key (xkb E) (kb_xkb k) (key + 8) pressed\<rparr>) w;
          (ret, keys) = update_keys E key pressed (kb_keys (keyboard w));
          w = upd_keyboard (\<lambda>k. k\<lparr>kb_keys := keys\<rparr>) w
      in (ret, if ret then reset_repeat w else w))"

definition wlc_keyboard_key :: "u32 \<Rightarrow> u32 \<Rightarrow> bool \<Rightarrow> world \<Rightarrow> world" where
  "wlc_keyboard_key time key pressed w = for_keyboards (send_key time key pressed) (kb_focused_resources (keyboard w)) w"

section \<open>Construction and release\<close>

text \<open>\<open>st\<close> and \<open>st2\<close> are what the two calls of \<open>xkb_state_new\<close> return, \<open>keymap\<close> whether the argument is not NULL.
  The old states are gone when one of them fails. A state of 0 is NULL.\<close>

definition wlc_keyboard_set_keymap :: "nat \<Rightarrow> bool \<Rightarrow> bool \<Rightarrow> wlc_keyboard \<Rightarrow> bool \<times> wlc_keyboard" where
  "wlc_keyboard_set_keymap st st2 keymap k =
     (let k = k\<lparr>kb_xkb := 0, kb_sym := False\<rparr> in
      if keymap \<and> st = 0 then (False, k)
      else
        let k = (if keymap then k\<lparr>kb_xkb := st\<rparr> else k) in
        if keymap \<and> \<not> st2 then (False, k)
        else
          let k = (if keymap then k\<lparr>kb_sym := True\<rparr> else k)
          in (True, k\<lparr>kb_keymap := keymap\<rparr>))"

definition keyboard_zero :: wlc_keyboard where
  "keyboard_zero = \<lparr>kb_keymap = False, kb_resources = [], kb_keys = [], kb_focused_resources = [], kb_focused_view = 0,
     kb_depressed = 0, kb_latched = 0, kb_locked = 0, kb_group = 0, kb_modifiers = \<lparr>mo_leds = 0, mo_mods = 0\<rparr>,
     kb_repeat_delay = 0, kb_repeat_rate = 0, kb_xkb = 0, kb_sym = False, kb_repeat = False, kb_repeating = False,
     kb_focused = False\<rparr>"

text \<open>Releasing the source of the resources releases them. \<open>timer\<close> is whether the timer was made.\<close>

definition wlc_keyboard_release :: "env \<Rightarrow> bool \<Rightarrow> world \<Rightarrow> world" where
  "wlc_keyboard_release E timer w =
     upd_keyboard (\<lambda>_. keyboard_zero) (release_source E 0 K_keyboard (if timer then emit Source_remove w else w))"

text \<open>\<open>pools\<close> and \<open>timer\<close>: whether the pools and the timer could be made; \<open>delay\<close> and \<open>rate\<close>: what
  \<open>WLC_REPEAT_DELAY\<close> and \<open>WLC_REPEAT_RATE\<close> read as.\<close>

definition wlc_keyboard_ctor ::
  "env \<Rightarrow> nat \<Rightarrow> bool \<Rightarrow> bool \<Rightarrow> bool \<Rightarrow> u32 option \<Rightarrow> u32 option \<Rightarrow> world \<Rightarrow> bool \<times> world" where
  "wlc_keyboard_ctor E st st2 pools timer delay rate w =
     (let (ok, k) = wlc_keyboard_set_keymap st st2 True keyboard_zero;
          w = upd_keyboard (\<lambda>_. k) w
      in if \<not> (ok \<and> pools \<and> timer) then (False, wlc_keyboard_release E (ok \<and> pools \<and> timer) w)
         else (True, upd_keyboard (\<lambda>k. k\<lparr>kb_repeat_delay := (case delay of None \<Rightarrow> 660 | Some d \<Rightarrow> d),
                                          kb_repeat_rate := (case rate of None \<Rightarrow> 25 | Some d \<Rightarrow> d)\<rparr>) w))"

end
