(* ===== verification/Pointer.thy ===== *)
theory Pointer
  imports Keyboard Output
begin

text \<open>
  The pointer of the seat (src/compositor/seat/pointer.c): the surface under it, its focus, what it sends to
  clients, its cursor.

  The position is a \<open>double\<close>, a real number here; \<open>chck_clamp\<close> at that type is \<open>m_clampf\<close>. A conversion to
  \<open>int32_t\<close> outside its range wraps. The output the pointer is on is the active output of the
  compositor. A division by a transform of 0 is recorded as a fault.
\<close>

section \<open>State\<close>

definition pointer :: "world \<Rightarrow> wlc_pointer" where "pointer w = se_pointer (w_seat w)"

definition upd_pointer :: "(wlc_pointer \<Rightarrow> wlc_pointer) \<Rightarrow> world \<Rightarrow> world" where
  "upd_pointer f = upd_seat (\<lambda>s. s\<lparr>se_pointer := f (se_pointer s)\<rparr>)"

definition checked :: "bool \<Rightarrow> world \<Rightarrow> world" where
  "checked ok w = (if ok then w else fail Assertion w)"

definition for_pointers :: "(nat \<Rightarrow> world \<Rightarrow> world) \<Rightarrow> nat list \<Rightarrow> world \<Rightarrow> world" where
  "for_pointers f rs w = fold (\<lambda>r w. let wr = wl_of w r K_pointer in if wr = 0 then w else f wr w) rs w"

text \<open>The client of the first focused resource that is live; 0 if there is none.\<close>

definition focused_client :: "env \<Rightarrow> world \<Rightarrow> nat" where
  "focused_client E w =
     (case filter (\<lambda>wr. wr \<noteq> 0) (map (\<lambda>r. wl_of w r K_pointer) (pt_focused_resources (pointer w))) of
        [] \<Rightarrow> 0 | wr # _ \<Rightarrow> ext_client E wr)"

definition active_output_of :: "world \<Rightarrow> nat" where
  "active_output_of w = live_output w (c_active_output (w_comp w))"

definition view_visible_to :: "wlc_view \<Rightarrow> u32 \<Rightarrow> bool" where
  "view_visible_to v msk = any_bit (v_mask v) msk"

section \<open>What is under the pointer\<close>

definition pixel_at :: "real \<Rightarrow> real \<Rightarrow> wlc_geometry" where
  "pixel_at x y = \<lparr>gorigin = \<lparr>px = real_to_i32 x, py = real_to_i32 y\<rparr>, gsize = \<lparr>sw = 1, sh = 1\<rparr>\<rparr>"

definition pointer_pixel :: "world \<Rightarrow> wlc_geometry" where
  "pointer_pixel w = pixel_at (pt_x (pointer w)) (pt_y (pointer w))"

text \<open>The first component is the assertion in the computation of the bounds.\<close>

definition is_inside_view_input_region :: "env \<Rightarrow> world \<Rightarrow> nat \<Rightarrow> bool \<times> bool" where
  "is_inside_view_input_region E w vid =
     (case view_of w vid of
        None \<Rightarrow> (True, False)
      | Some v \<Rightarrow> let (ok, b) = wlc_view_get_input E w v in (ok, wlc_geometry_contains b (pointer_pixel w)))"

record wlc_focused_surface =
  fs_id :: nat
  fs_offset :: wlc_point

definition shift :: "wlc_point \<Rightarrow> int \<Rightarrow> int \<Rightarrow> wlc_point" where
  "shift p dx dy = \<lparr>px = i32_add (px p) dx, py = i32_add (py p) dy\<rparr>"

definition scaled :: "env \<Rightarrow> int \<Rightarrow> real \<Rightarrow> int" where
  "scaled E n t = real_to_i32 (dbl E (of_int n * t))"

text \<open>The search through the subsurfaces of \<open>s\<close>; the fuel bounds the depth, \<open>None\<close> is running out of it.\<close>

fun find_surface_at_position_recursive ::
    "nat \<Rightarrow> env \<Rightarrow> world \<Rightarrow> wlc_geometry \<Rightarrow> wlc_surface \<Rightarrow> wlc_focused_surface \<Rightarrow> wlc_focused_surface option"
  and find_subsurface_at ::
    "nat \<Rightarrow> env \<Rightarrow> world \<Rightarrow> wlc_geometry \<Rightarrow> wlc_surface \<Rightarrow> nat list \<Rightarrow> wlc_focused_surface \<Rightarrow> wlc_focused_surface option"
where
  "find_surface_at_position_recursive 0 E w point s out = None"
| "find_surface_at_position_recursive (Suc n) E w point s out =
     find_subsurface_at n E w point s (sf_subsurface_list s) out"
| "find_subsurface_at n E w point s [] out = Some out"
| "find_subsurface_at n E w point s (sub # subs) out =
     (case surface_of w sub of
        None \<Rightarrow> find_subsurface_at n E w point s subs out
      | Some c \<Rightarrow>
          let dx = scaled E (px (ss_subsurface_position (sf_commit c))) (sf_transform_w s);
              dy = scaled E (py (ss_subsurface_position (sf_commit c))) (sf_transform_h s)
          in
          case find_surface_at_position_recursive n E w point c (out\<lparr>fs_offset := shift (fs_offset out) dx dy\<rparr>) of
            None \<Rightarrow> None
          | Some out \<Rightarrow>
              if fs_id out \<noteq> 0 then Some out
              else if wlc_geometry_contains \<lparr>gorigin = fs_offset out, gsize = sf_size c\<rparr> point
              then Some (out\<lparr>fs_id := sub\<rparr>)
              else find_subsurface_at n E w point s subs (out\<lparr>fs_offset := shift (fs_offset out) (- dx) (- dy)\<rparr>))"

text \<open>The views from the top; the result is whether a surface was found.\<close>

fun surface_under_views ::
  "env \<Rightarrow> u32 \<Rightarrow> wlc_geometry \<Rightarrow> nat list \<Rightarrow> wlc_focused_surface \<Rightarrow> world \<Rightarrow> bool \<times> wlc_focused_surface \<times> world" where
  "surface_under_views E msk point [] out w = (False, out, w)"
| "surface_under_views E msk point (h # hs) out w =
     (case view_of w h of
        None \<Rightarrow> surface_under_views E msk point hs out w
      | Some v \<Rightarrow>
          if \<not> view_visible_to v msk then surface_under_views E msk point hs out w
          else
            let (ok, b, visible) = wlc_view_get_bounds E w v;
                w = checked ok w
            in
            case surface_of w (v_surface v) of
              None \<Rightarrow> surface_under_views E msk point hs out w
            | Some s \<Rightarrow>
                (case find_surface_at_position_recursive (fuel E) E w point s (out\<lparr>fs_offset := gorigin b\<rparr>) of
                   None \<Rightarrow> (False, out, fail Out_of_fuel w)
                 | Some out \<Rightarrow>
                     if fs_id out \<noteq> 0 then (True, out, w)
                     else if (case visible of None \<Rightarrow> False | Some g \<Rightarrow> wlc_geometry_contains g point)
                     then (True, out\<lparr>fs_id := v_surface v\<rparr>, w)
                     else surface_under_views E msk point hs out w))"

definition surface_under_pointer ::
  "env \<Rightarrow> nat \<Rightarrow> wlc_focused_surface \<Rightarrow> world \<Rightarrow> bool \<times> wlc_focused_surface \<times> world" where
  "surface_under_pointer E oid out w =
     (case output_of w oid of
        None \<Rightarrow> (False, out, w)
      | Some ou \<Rightarrow>
          surface_under_views E (o_active_mask ou) (pointer_pixel w) (rev (o_views ou)) (out\<lparr>fs_id := 0\<rparr>) w)"

section \<open>The cursor\<close>

definition wlc_pointer_set_surface :: "env \<Rightarrow> nat \<Rightarrow> wlc_point \<Rightarrow> world \<Rightarrow> world" where
  "wlc_pointer_set_surface E sid tip w =
     (let w = upd_pointer (\<lambda>p. p\<lparr>pt_tip := tip\<rparr>) w;
          w = wlc_surface_invalidate E (pt_surface (pointer w)) w
      in upd_pointer (\<lambda>p. p\<lparr>pt_surface := sid\<rparr>) w)"

text \<open>\<open>sid\<close> is the number of the surface of the request, 0 for none; \<open>res\<close> the wayland resource it came from.\<close>

definition wl_cb_pointer_set_cursor :: "env \<Rightarrow> nat \<Rightarrow> nat \<Rightarrow> nat \<Rightarrow> int \<Rightarrow> int \<Rightarrow> world \<Rightarrow> world" where
  "wl_cb_pointer_set_cursor E client res sid hotspot_x hotspot_y w =
     (if w_udata w res = UD_null then w
      else if focused_client E w \<noteq> client then w
      else wlc_pointer_set_surface E (if surface_of w sid = None then 0 else sid) \<lparr>px = hotspot_x, py = hotspot_y\<rparr> w)"

definition clamp_to :: "env \<Rightarrow> real \<Rightarrow> u32 \<Rightarrow> real" where
  "clamp_to E x high = m_clampf (mth E) x 0 (u32_real high)"

definition pointer_paint :: "env \<Rightarrow> nat \<Rightarrow> world \<Rightarrow> world" where
  "pointer_paint E oid w =
     (case output_of w oid of
        None \<Rightarrow> fail Null_pointer w
      | Some ou \<Rightarrow>
          if oid \<noteq> active_output_of w then w
          else
            let p = pointer w;
                x = real_to_i32 (clamp_to E (pt_x p) (sw (o_resolution ou)));
                y = real_to_i32 (clamp_to E (pt_y p) (sh (o_resolution ou)));
                pos = \<lparr>px = x, py = y\<rparr>
            in
            case surface_of w (pt_surface p) of
              Some s \<Rightarrow>
                let (ok, w) = (if sf_output s \<noteq> oid
                               then wlc_surface_attach_to_output E (pt_surface p) oid (wlc_surface_get_buffer w (Some s)) w
                               else (True, w))
                in
                if \<not> ok then emit (Input_out (Rd_pointer_paint oid pos)) w
                else
                  let sz = (case surface_of w (pt_surface p) of None \<Rightarrow> wlc_size_zero | Some s \<Rightarrow> sf_size s)
                  in wlc_output_render_surface E oid (pt_surface p)
                       \<lparr>gorigin = \<lparr>px = i32_sub x (px (pt_tip p)), py = i32_sub y (py (pt_tip p))\<rparr>, gsize = sz\<rparr> w
            | None \<Rightarrow>
                if (case view_of w (pt_focused_view p) of None \<Rightarrow> True | Some v \<Rightarrow> is_x11_view v)
                then emit (Input_out (Rd_pointer_paint oid pos)) w else w)"

text \<open>Of the render events only that for the pointer is emitted.\<close>

definition render_event :: "env \<Rightarrow> nat \<Rightarrow> world \<Rightarrow> world" where
  "render_event E oid w = pointer_paint E oid w"

section \<open>Focus\<close>

definition pointer_leave :: "nat \<Rightarrow> nat \<Rightarrow> world \<Rightarrow> world" where
  "pointer_leave surface wr w =
     (let (serial, w) = next_serial w in input (Send_pointer_leave wr serial surface) w)"

definition pointer_defocus :: "world \<Rightarrow> world" where
  "pointer_defocus w =
     (let p = pointer w;
          surface = wl_of w (pt_focused_surface p) K_surface;
          w = (if surface = 0 then w else for_pointers (pointer_leave surface) (pt_focused_resources p) w)
      in upd_pointer (\<lambda>p. p\<lparr>pt_focused_resources := [], pt_focused_surface := 0, pt_focused_view := 0\<rparr>) w)"

definition enter_pointer :: "env \<Rightarrow> nat \<Rightarrow> real \<times> real \<Rightarrow> nat \<Rightarrow> nat \<Rightarrow> world \<Rightarrow> world" where
  "enter_pointer E surface d r wr w =
     (let w = upd_pointer (\<lambda>p. p\<lparr>pt_focused_resources := pool_push_back (hp E) r (pt_focused_resources p)\<rparr>) w;
          (serial, w) = next_serial w
      in input (Send_pointer_enter wr serial surface (ext_fixed E (fst d)) (ext_fixed E (snd d))) w)"

definition pointer_focus_view :: "env \<Rightarrow> nat \<Rightarrow> nat \<Rightarrow> real \<times> real \<Rightarrow> world \<Rightarrow> world" where
  "pointer_focus_view E sid old_focus d w =
     (case surface_of w sid of
        None \<Rightarrow> wlc_pointer_set_surface E 0 wlc_point_zero w
      | Some s \<Rightarrow>
          let w = (if sf_parent_view s \<noteq> old_focus then wlc_pointer_set_surface E 0 wlc_point_zero w else w);
              surface = wl_of w sid K_surface
          in
          if surface = 0 then w
          else
            let w = fold (\<lambda>r w. let wr = wl_of w r K_pointer in
                            if wr = 0 \<or> ext_client E wr \<noteq> ext_client E surface then w else enter_pointer E surface d r wr w)
                      (pt_resources (pointer w)) w
            in upd_pointer (\<lambda>p. p\<lparr>pt_focused_surface := sid, pt_focused_view := sf_parent_view s\<rparr>) w)"

text \<open>The position in the coordinates of the surface.\<close>

definition surface_local :: "env \<Rightarrow> wlc_pointer \<Rightarrow> wlc_surface \<Rightarrow> real \<times> real" where
  "surface_local E p s =
     (clamp_to E (dbl E (dbl E (pt_x p - of_int (px (pt_focused_offset p))) / sf_transform_w s)) (sw (sf_size s)),
      clamp_to E (dbl E (dbl E (pt_y p - of_int (py (pt_focused_offset p))) / sf_transform_h s)) (sh (sf_size s)))"

text \<open>\<open>sid\<close> is 0 for no surface; the result is the position that is written through \<open>out_pos\<close>.\<close>

definition wlc_pointer_focus :: "env \<Rightarrow> nat \<Rightarrow> world \<Rightarrow> (real \<times> real) \<times> world" where
  "wlc_pointer_focus E sid w =
     (let (d, w) = (case surface_of w sid of
                      None \<Rightarrow> ((0, 0), w)
                    | Some s \<Rightarrow> (surface_local E (pointer w) s,
                                 if sf_transform_w s = 0 \<or> sf_transform_h s = 0 then fail Division_by_zero w else w));
          sid = (if surface_of w sid = None then 0 else sid)
      in
      if pt_focused_surface (pointer w) = sid then (d, w)
      else (d, pointer_focus_view E sid (pt_focused_view (pointer w)) d (pointer_defocus w)))"

section \<open>Input\<close>

definition WLC_SCROLL_AXIS_VERTICAL :: u8 where "WLC_SCROLL_AXIS_VERTICAL = 1"
definition WLC_SCROLL_AXIS_HORIZONTAL :: u8 where "WLC_SCROLL_AXIS_HORIZONTAL = 2"

definition pointer_send_button :: "u32 \<Rightarrow> u32 \<Rightarrow> bool \<Rightarrow> nat \<Rightarrow> world \<Rightarrow> world" where
  "pointer_send_button time button pressed wr w =
     (let (serial, w) = next_serial w in input (Send_pointer_button wr serial time button pressed) w)"

text \<open>The popup, if there is one that has the keyboard and belongs to another client than the pointer.\<close>

definition popup_to_close :: "env \<Rightarrow> world \<Rightarrow> nat \<Rightarrow> bool" where
  "popup_to_close E w vid \<longleftrightarrow>
     vid \<noteq> pt_focused_view (pointer w) \<and>
     (case view_of w vid of
        None \<Rightarrow> False
      | Some v \<Rightarrow> \<not> is_x11_view v \<and> any_bit (v_type v) WLC_BIT_POPUP \<and>
                  focused_client E w \<noteq> wlc_view_get_client_ptr E w vid)"

definition wlc_pointer_button :: "env \<Rightarrow> u32 \<Rightarrow> u32 \<Rightarrow> bool \<Rightarrow> world \<Rightarrow> world" where
  "wlc_pointer_button E time button pressed w =
     (let vid = kb_focused_view (keyboard w) in
      if popup_to_close E w vid then wlc_view_close_ptr E vid w
      else
        let (ok, inside) = is_inside_view_input_region E w (pt_focused_view (pointer w));
            w = checked ok w
        in if \<not> inside then w
           else for_pointers (pointer_send_button time button pressed) (pt_focused_resources (pointer w)) w)"

definition pointer_send_axis :: "env \<Rightarrow> u32 \<Rightarrow> u8 \<Rightarrow> real \<Rightarrow> real \<Rightarrow> nat \<Rightarrow> world \<Rightarrow> world" where
  "pointer_send_axis E time axis_bits dy dx wr w =
     (let w = (if axis_bits AND WLC_SCROLL_AXIS_VERTICAL \<noteq> 0
               then input (Send_pointer_axis wr time True (ext_fixed E dy)) w else w)
      in if axis_bits AND WLC_SCROLL_AXIS_HORIZONTAL \<noteq> 0
         then input (Send_pointer_axis wr time False (ext_fixed E dx)) w else w)"

definition wlc_pointer_scroll :: "env \<Rightarrow> u32 \<Rightarrow> u8 \<Rightarrow> real \<Rightarrow> real \<Rightarrow> world \<Rightarrow> world" where
  "wlc_pointer_scroll E time axis_bits dy dx w =
     (let (ok, inside) = is_inside_view_input_region E w (pt_focused_view (pointer w));
          w = checked ok w
      in if \<not> inside then w
         else for_pointers (pointer_send_axis E time axis_bits dy dx) (pt_focused_resources (pointer w)) w)"

definition wlc_pointer_motion :: "env \<Rightarrow> u32 \<Rightarrow> bool \<Rightarrow> world \<Rightarrow> world" where
  "wlc_pointer_motion E time pass w =
     (let oid = active_output_of w;
          (_, focused, w) = surface_under_pointer E oid \<lparr>fs_id = 0, fs_offset = wlc_point_zero\<rparr> w;
          w = upd_pointer (\<lambda>p. p\<lparr>pt_focused_offset := fs_offset focused\<rparr>) w;
          (d, w) = (if pass then wlc_pointer_focus E (fs_id focused) w else ((0, 0), w));
          w = wlc_output_schedule_repaint oid w
      in
      if fs_id focused = 0 \<or> \<not> pass then w
      else
        let (ok, inside) = is_inside_view_input_region E w (pt_focused_view (pointer w));
            w = checked ok w
        in if \<not> inside then w
           else for_pointers (\<lambda>wr. input (Send_pointer_motion wr time (ext_fixed E (fst d)) (ext_fixed E (snd d))))
                  (pt_focused_resources (pointer w)) w)"

section \<open>Construction and release\<close>

definition pointer_zero :: wlc_pointer where
  "pointer_zero = \<lparr>pt_resources = [], pt_x = 0, pt_y = 0, pt_tip = wlc_point_zero, pt_surface = 0,
     pt_focused_resources = [], pt_focused_surface = 0, pt_focused_offset = wlc_point_zero, pt_focused_view = 0\<rparr>"

definition wlc_pointer_release :: "env \<Rightarrow> world \<Rightarrow> world" where
  "wlc_pointer_release E w = upd_pointer (\<lambda>_. pointer_zero) (release_source E 0 K_pointer w)"

text \<open>\<open>pools\<close>: whether the pools could be made.\<close>

definition wlc_pointer_ctor :: "env \<Rightarrow> bool \<Rightarrow> world \<Rightarrow> bool \<times> world" where
  "wlc_pointer_ctor E pools w =
     (let w = upd_pointer (\<lambda>_. pointer_zero) w in if pools then (True, w) else (False, wlc_pointer_release E w))"

datatype pointer_request = Pointer_set_cursor nat int int | Pointer_release

text \<open>\<open>r\<close> is the number of the resource \<open>res\<close>.\<close>

fun wlc_pointer_implementation :: "env \<Rightarrow> nat \<Rightarrow> nat \<Rightarrow> nat \<Rightarrow> pointer_request \<Rightarrow> world \<Rightarrow> world" where
  "wlc_pointer_implementation E client r res (Pointer_set_cursor sid x y) w = wl_cb_pointer_set_cursor E client res sid x y w"
| "wlc_pointer_implementation E client r res Pointer_release w = release_resource E r w"

end
