(* ===== verification/Touch.thy ===== *)
theory Touch
  imports Pointer
begin

text \<open>
  The touch device of the seat (src/compositor/seat/touch.c): the view a finger comes down on, and what is
  sent to its client.
\<close>

definition touch :: "world \<Rightarrow> wlc_touch" where "touch w = se_touch (w_seat w)"

definition upd_touch :: "(wlc_touch \<Rightarrow> wlc_touch) \<Rightarrow> world \<Rightarrow> world" where
  "upd_touch f = upd_seat (\<lambda>s. s\<lparr>se_touch := f (se_touch s)\<rparr>)"

text \<open>Both far edges are taken to be inside.\<close>

definition touches :: "wlc_geometry \<Rightarrow> wlc_point \<Rightarrow> bool" where
  "touches b pos \<longleftrightarrow>
     px (gorigin b) \<le> px pos \<and> px pos \<le> i32_add (px (gorigin b)) (i32_of_u32 (sw (gsize b))) \<and>
     py (gorigin b) \<le> py pos \<and> py pos \<le> i32_add (py (gorigin b)) (i32_of_u32 (sh (gsize b)))"

text \<open>The views from the top.\<close>

fun touched_view :: "env \<Rightarrow> u32 \<Rightarrow> wlc_point \<Rightarrow> nat list \<Rightarrow> world \<Rightarrow> nat \<times> world" where
  "touched_view E msk pos [] w = (0, w)"
| "touched_view E msk pos (h # hs) w =
     (case view_of w h of
        None \<Rightarrow> touched_view E msk pos hs w
      | Some v \<Rightarrow>
          if \<not> view_visible_to v msk then touched_view E msk pos hs w
          else
            let (ok, b, _) = wlc_view_get_bounds E w v;
                w = checked ok w
            in if touches b pos then (h, w) else touched_view E msk pos hs w)"

definition view_under_touch :: "env \<Rightarrow> wlc_point \<Rightarrow> world \<Rightarrow> nat \<times> world" where
  "view_under_touch E pos w =
     (case output_of w (active_output_of w) of
        None \<Rightarrow> (0, upd_touch (\<lambda>t. t\<lparr>tc_focus := 0\<rparr>) w)
      | Some ou \<Rightarrow>
          let (h, w) = touched_view E (o_active_mask ou) pos (rev (o_views ou)) w
          in (h, upd_touch (\<lambda>t. t\<lparr>tc_focus := h\<rparr>) w))"

definition wl_fixed_from_int :: "int \<Rightarrow> int" where
  "wl_fixed_from_int n = i32 (n * 256)"

abbreviation device :: "device_out \<Rightarrow> world \<Rightarrow> world" where "device x \<equiv> emit (Device_out x)"

fun send_touch :: "u32 \<Rightarrow> wlc_touch_type \<Rightarrow> int \<Rightarrow> wlc_point \<Rightarrow> nat \<Rightarrow> nat \<Rightarrow> world \<Rightarrow> world" where
  "send_touch time WLC_TOUCH_DOWN slot pos surface wr w =
     (let (serial, w) = next_serial w
      in device (Send_touch_down wr serial time surface slot (wl_fixed_from_int (px pos)) (wl_fixed_from_int (py pos))) w)"
| "send_touch time WLC_TOUCH_UP slot pos surface wr w =
     (let (serial, w) = next_serial w in device (Send_touch_up wr serial time slot) w)"
| "send_touch time WLC_TOUCH_MOTION slot pos surface wr w =
     device (Send_touch_motion wr time slot (wl_fixed_from_int (px pos)) (wl_fixed_from_int (py pos))) w"
| "send_touch time WLC_TOUCH_FRAME slot pos surface wr w = device (Send_touch_frame wr) w"
| "send_touch time WLC_TOUCH_CANCEL slot pos surface wr w = device (Send_touch_cancel wr) w"

definition wlc_touch_touch :: "env \<Rightarrow> u32 \<Rightarrow> wlc_touch_type \<Rightarrow> int \<Rightarrow> wlc_point \<Rightarrow> world \<Rightarrow> world" where
  "wlc_touch_touch E time ty slot pos w =
     (case view_of w (tc_focus (touch w)) of
        None \<Rightarrow> w
      | Some v \<Rightarrow>
          let surface = wl_of w (v_surface v) K_surface in
          if surface = 0 \<or> ext_client E surface = 0 then w
          else fold (\<lambda>r w. let wr = wl_of w r K_touch in
                       if wr = 0 \<or> ext_client E wr \<noteq> ext_client E surface then w
                       else send_touch time ty slot pos surface wr w)
                 (tc_resources (touch w)) w)"

definition wlc_touch_release :: "env \<Rightarrow> world \<Rightarrow> world" where
  "wlc_touch_release E w = upd_touch (\<lambda>_. \<lparr>tc_resources = [], tc_focus = 0\<rparr>) (release_source E 0 K_touch w)"

text \<open>\<open>pool\<close>: whether the source of the resources could be made.\<close>

definition wlc_touch_ctor :: "bool \<Rightarrow> world \<Rightarrow> bool \<times> world" where
  "wlc_touch_ctor pool w = (pool, upd_touch (\<lambda>_. \<lparr>tc_resources = [], tc_focus = 0\<rparr>) w)"

end
