(* ===== verification/Datadevice.thy ===== *)
theory Datadevice
  imports Keyboard Compositor
begin

text \<open>
  The clipboard of the seat (src/compositor/seat/data.c, src/resources/types/data-source.c): data
  sources, the offers made of them, and the selection.

  A pointer to a data source is a \<open>source_ref\<close>: a resource of a client, or an object that
  \<open>wlc_set_selection\<close> allocated, which \<open>se_customs\<close> holds by number. The functions of a source are chosen by
  its \<open>ds_impl\<close>. Following a pointer whose object is gone is the fault \<open>Wild_pointer\<close>. The devices of the
  source pool are in the order of the pool of all resources, which is how they are searched.
\<close>

section \<open>State\<close>

definition manager :: "world \<Rightarrow> wlc_data_device_manager" where "manager w = se_manager (w_seat w)"

definition upd_manager :: "(wlc_data_device_manager \<Rightarrow> wlc_data_device_manager) \<Rightarrow> world \<Rightarrow> world" where
  "upd_manager f = upd_seat (\<lambda>s. s\<lparr>se_manager := f (se_manager s)\<rparr>)"

definition data_source_of :: "world \<Rightarrow> nat \<Rightarrow> wlc_data_source option" where
  "data_source_of w r =
     (if r = 0 then None
      else case w_res w r of None \<Rightarrow> None
           | Some e \<Rightarrow> (case re_data e of R_data_source s \<Rightarrow> Some s | _ \<Rightarrow> None))"

fun source_at :: "world \<Rightarrow> source_ref \<Rightarrow> wlc_data_source option" where
  "source_at w No_source = None"
| "source_at w (Client_source r) = data_source_of w r"
| "source_at w (Custom_source n) = se_customs (w_seat w) n"

fun map_data_source :: "(wlc_data_source \<Rightarrow> wlc_data_source) \<Rightarrow> res_entry \<Rightarrow> res_entry" where
  "map_data_source f e = (case re_data e of R_data_source s \<Rightarrow> e\<lparr>re_data := R_data_source (f s)\<rparr> | _ \<Rightarrow> e)"

fun upd_source :: "source_ref \<Rightarrow> (wlc_data_source \<Rightarrow> wlc_data_source) \<Rightarrow> world \<Rightarrow> world" where
  "upd_source No_source f w = w"
| "upd_source (Client_source r) f w = w\<lparr>w_res := (w_res w)(r := map_option (map_data_source f) (w_res w r))\<rparr>"
| "upd_source (Custom_source n) f w =
     upd_seat (\<lambda>s. s\<lparr>se_customs := (se_customs s)(n := map_option f (se_customs s n))\<rparr>) w"

abbreviation device :: "device_out \<Rightarrow> world \<Rightarrow> world" where "device x \<equiv> emit (Device_out x)"

section \<open>The functions of a source\<close>

definition to_source :: "nat \<Rightarrow> (nat \<Rightarrow> device_out) \<Rightarrow> world \<Rightarrow> world" where
  "to_source r f w =
     (let wr = wl_of w r K_data_source in if wr = 0 then fail Null_pointer w else device (f wr) w)"

definition data_source_client_send :: "nat \<Rightarrow> string \<Rightarrow> int \<Rightarrow> world \<Rightarrow> world" where
  "data_source_client_send r ty fd w = device (Close_fd fd) (to_source r (\<lambda>wr. Send_source_send wr ty fd) w)"

definition data_source_client_accept :: "nat \<Rightarrow> string option \<Rightarrow> world \<Rightarrow> world" where
  "data_source_client_accept r ty w = to_source r (\<lambda>wr. Send_source_target wr ty) w"

definition data_source_client_cancel :: "nat \<Rightarrow> world \<Rightarrow> world" where
  "data_source_client_cancel r w =
     (let wr = wl_of w r K_data_source in if wr = 0 then w else device (Send_source_cancelled wr) w)"

definition data_source_client_dnd_finished :: "nat \<Rightarrow> world \<Rightarrow> world" where
  "data_source_client_dnd_finished r w = to_source r Send_source_dnd_finished w"

definition custom_data_source_send :: "nat \<Rightarrow> string \<Rightarrow> int \<Rightarrow> world \<Rightarrow> world" where
  "custom_data_source_send n ty fd w = device (Custom_send n ty fd) w"

definition custom_data_source_cancel :: "nat \<Rightarrow> world \<Rightarrow> world" where
  "custom_data_source_cancel n w = upd_seat (\<lambda>s. s\<lparr>se_customs := (se_customs s)(n := None)\<rparr>) w"

text \<open>The calls through \<open>source->impl\<close>. A custom source has no \<open>dnd_finished\<close>.\<close>

fun impl_accept :: "source_ref \<Rightarrow> string option \<Rightarrow> world \<Rightarrow> world" where
  "impl_accept (Client_source r) ty w = data_source_client_accept r ty w"
| "impl_accept (Custom_source n) ty w = w"
| "impl_accept No_source ty w = fail Null_pointer w"

fun impl_send :: "source_ref \<Rightarrow> string \<Rightarrow> int \<Rightarrow> world \<Rightarrow> world" where
  "impl_send (Client_source r) ty fd w = data_source_client_send r ty fd w"
| "impl_send (Custom_source n) ty fd w = custom_data_source_send n ty fd w"
| "impl_send No_source ty fd w = fail Null_pointer w"

fun impl_cancel :: "source_ref \<Rightarrow> world \<Rightarrow> world" where
  "impl_cancel (Client_source r) w = data_source_client_cancel r w"
| "impl_cancel (Custom_source n) w = custom_data_source_cancel n w"
| "impl_cancel No_source w = fail Null_pointer w"

fun impl_dnd_finished :: "source_ref \<Rightarrow> world \<Rightarrow> world" where
  "impl_dnd_finished (Client_source r) w = data_source_client_dnd_finished r w"
| "impl_dnd_finished (Custom_source n) w = fail Null_pointer w"
| "impl_dnd_finished No_source w = fail Null_pointer w"

text \<open>\<open>source->impl->f(source)\<close>, where the object may be gone.\<close>

definition through :: "(source_ref \<Rightarrow> world \<Rightarrow> world) \<Rightarrow> source_ref \<Rightarrow> world \<Rightarrow> world" where
  "through f s w = (if source_at w s = None then fail Wild_pointer w else f s w)"

section \<open>Offers\<close>

text \<open>The pointer in the user data of an offer; \<open>None\<close> is NULL.\<close>

definition offered :: "world \<Rightarrow> nat \<Rightarrow> source_ref option" where
  "offered w res = (case w_udata w res of UD_source No_source \<Rightarrow> None | UD_source s \<Rightarrow> Some s | _ \<Rightarrow> None)"

definition wl_cb_data_offer_accept :: "nat \<Rightarrow> string option \<Rightarrow> world \<Rightarrow> world" where
  "wl_cb_data_offer_accept res ty w =
     (case offered w res of None \<Rightarrow> w | Some s \<Rightarrow> through (\<lambda>s. impl_accept s ty) s w)"

definition wl_cb_data_offer_receive :: "nat \<Rightarrow> string \<Rightarrow> int \<Rightarrow> world \<Rightarrow> world" where
  "wl_cb_data_offer_receive res ty fd w =
     (case offered w res of None \<Rightarrow> w | Some s \<Rightarrow> through (\<lambda>s. impl_send s ty fd) s w)"

definition wl_cb_data_offer_set_actions :: "nat \<Rightarrow> u32 \<Rightarrow> u32 \<Rightarrow> world \<Rightarrow> world" where
  "wl_cb_data_offer_set_actions res dnd_actions preferred_action w =
     (case offered w res of
        None \<Rightarrow> w
      | Some s \<Rightarrow>
          through (\<lambda>s. upd_source s (\<lambda>d. d\<lparr>ds_dst_dnd_actions := dnd_actions, ds_prf_dnd_action := preferred_action\<rparr>)) s w)"

definition wl_cb_data_offer_finish :: "nat \<Rightarrow> world \<Rightarrow> world" where
  "wl_cb_data_offer_finish res w = (case offered w res of None \<Rightarrow> w | Some s \<Rightarrow> through impl_dnd_finished s w)"

datatype offer_request =
    Offer_accept "string option" | Offer_receive string int | Offer_set_actions u32 u32 | Offer_finish | Offer_destroy

text \<open>\<open>r\<close> is the number of the resource \<open>res\<close>.\<close>

fun wl_data_offer_implementation :: "env \<Rightarrow> nat \<Rightarrow> nat \<Rightarrow> offer_request \<Rightarrow> world \<Rightarrow> world" where
  "wl_data_offer_implementation E r res (Offer_accept ty) w = wl_cb_data_offer_accept res ty w"
| "wl_data_offer_implementation E r res (Offer_receive ty fd) w = wl_cb_data_offer_receive res ty fd w"
| "wl_data_offer_implementation E r res (Offer_set_actions a p) w = wl_cb_data_offer_set_actions res a p w"
| "wl_data_offer_implementation E r res Offer_finish w = wl_cb_data_offer_finish res w"
| "wl_data_offer_implementation E r res Offer_destroy w = release_resource E r w"

section \<open>The selection\<close>

definition wl_resource_for_client_of :: "env \<Rightarrow> world \<Rightarrow> nat list \<Rightarrow> nat \<Rightarrow> nat" where
  "wl_resource_for_client_of E w rs client =
     (case filter (\<lambda>wr. wr \<noteq> 0 \<and> ext_client E wr = client) (map (\<lambda>r. wl_of w r K_data_device) rs) of
        [] \<Rightarrow> 0 | wr # _ \<Rightarrow> wr)"

definition wlc_data_device_manager_offer :: "env \<Rightarrow> nat \<Rightarrow> world \<Rightarrow> world" where
  "wlc_data_device_manager_offer E client w =
     (let dev = wl_resource_for_client_of E w (dm_devices (manager w)) client in
      if client = 0 \<or> dev = 0 then w
      else
        let source = dm_source (manager w) in
        if source = No_source then device (Send_device_selection dev 0) w
        else
          let (r, w) = create_resource E client 0 R_data_offer w in
          if r = 0 then w
          else
            let w = implement_resource r (UD_source source) w;
                offer = wl_of w r K_data_offer;
                w = device (Send_device_data_offer dev offer) w;
                w = (case source_at w source of
                       None \<Rightarrow> fail Wild_pointer w
                     | Some d \<Rightarrow> fold (\<lambda>ty. device (Send_offer offer ty)) (ds_types d) w)
            in device (Send_device_selection dev offer) w)"

definition wlc_data_device_manager_set_source :: "env \<Rightarrow> source_ref \<Rightarrow> world \<Rightarrow> world" where
  "wlc_data_device_manager_set_source E source w =
     (let old = dm_source (manager w);
          w = (if old \<noteq> No_source then through impl_cancel old w else w);
          w = upd_manager (\<lambda>m. m\<lparr>dm_source := source\<rparr>) w;
          w = sig_selection E source w
      in
      if kb_focused_view (keyboard w) = 0 then w
      else
        let client = wlc_view_get_client_ptr E w (kb_focused_view (keyboard w));
            w = (if client = 0 then fail Assertion w else w)
        in wlc_data_device_manager_offer E client w)"

section \<open>Requests\<close>

text \<open>A push into the types needs memory; the new string stays empty when its copy cannot be made.\<close>

definition push_type :: "env \<Rightarrow> string \<Rightarrow> string option list \<Rightarrow> string option list" where
  "push_type E ty ts =
     (if ext_calloc E (Suc (length ts))
      then ts @ [case ext_set_cstr_all E ty of None \<Rightarrow> None | Some s \<Rightarrow> s] else ts)"

definition wl_cb_data_source_offer :: "env \<Rightarrow> nat \<Rightarrow> string \<Rightarrow> world \<Rightarrow> world" where
  "wl_cb_data_source_offer E r ty w =
     (if data_source_of w r = None then w
      else upd_source (Client_source r) (\<lambda>d. d\<lparr>ds_types := push_type E ty (ds_types d)\<rparr>) w)"

text \<open>\<open>res\<close> is the wayland resource of the source \<open>r\<close>; its user data is the manager.\<close>

definition wl_cb_data_source_destroy :: "env \<Rightarrow> nat \<Rightarrow> nat \<Rightarrow> world \<Rightarrow> world" where
  "wl_cb_data_source_destroy E r res w =
     (let w = (if data_source_of w r = None then w
               else if w_udata w res = UD_null then fail Null_pointer w
               else if dm_source (manager w) = Client_source r then wlc_data_device_manager_set_source E No_source w
               else w)
      in release_resource E r w)"

definition wl_cb_data_source_set_actions :: "nat \<Rightarrow> u32 \<Rightarrow> world \<Rightarrow> world" where
  "wl_cb_data_source_set_actions r dnd_actions w =
     (if data_source_of w r = None then w
      else upd_source (Client_source r) (\<lambda>d. d\<lparr>ds_src_dnd_actions := dnd_actions\<rparr>) w)"

datatype source_request = Source_offer string | Source_destroy | Source_set_actions u32

fun wl_data_source_implementation :: "env \<Rightarrow> nat \<Rightarrow> nat \<Rightarrow> source_request \<Rightarrow> world \<Rightarrow> world" where
  "wl_data_source_implementation E r res (Source_offer ty) w = wl_cb_data_source_offer E r ty w"
| "wl_data_source_implementation E r res Source_destroy w = wl_cb_data_source_destroy E r res w"
| "wl_data_source_implementation E r res (Source_set_actions a) w = wl_cb_data_source_set_actions r a w"

definition wlc_data_source_ctor :: "data_source_impl \<Rightarrow> wlc_data_source" where
  "wlc_data_source_ctor i =
     \<lparr>ds_types = [], ds_prf_dnd_action = 0, ds_dst_dnd_actions = 0, ds_src_dnd_actions = 0, ds_impl = i\<rparr>"

text \<open>The constructor gets no implementation; it is set afterwards.\<close>

definition wl_cb_manager_create_data_source :: "env \<Rightarrow> nat \<Rightarrow> nat \<Rightarrow> u32 \<Rightarrow> world \<Rightarrow> world" where
  "wl_cb_manager_create_data_source E client res wlid w =
     (if w_udata w res = UD_null then w
      else
        let (r, w) = create_resource E client wlid (R_data_source (wlc_data_source_ctor Impl_null)) w in
        if r = 0 then w
        else implement_resource r UD_manager (upd_source (Client_source r) (\<lambda>d. d\<lparr>ds_impl := Impl_client\<rparr>) w))"

text \<open>\<open>source\<close> is the number of the source of the request, 0 for NULL.\<close>

definition wl_cb_data_device_set_selection :: "env \<Rightarrow> nat \<Rightarrow> nat \<Rightarrow> nat \<Rightarrow> world \<Rightarrow> world" where
  "wl_cb_data_device_set_selection E client res source w =
     (if w_udata w res = UD_null then w
      else if data_source_of w source = None \<or> dm_source (manager w) = Client_source source then w
      else wlc_data_device_manager_offer E client (wlc_data_device_manager_set_source E (Client_source source) w))"

definition wl_cb_data_device_start_drag :: "world \<Rightarrow> world" where
  "wl_cb_data_device_start_drag w = w"

definition wl_cb_manager_get_data_device :: "env \<Rightarrow> nat \<Rightarrow> nat \<Rightarrow> u32 \<Rightarrow> world \<Rightarrow> world" where
  "wl_cb_manager_get_data_device E client seat_res wlid w =
     (if w_udata w seat_res = UD_null then w
      else
        let (r, w) = create_resource E client wlid R_data_device w in
        if r = 0 then w
        else implement_resource r UD_manager (upd_manager (\<lambda>m. m\<lparr>dm_devices := ext_pool_add E (dm_devices m) r\<rparr>) w))"

definition wl_data_device_manager_bind :: "env \<Rightarrow> nat \<Rightarrow> u32 \<Rightarrow> u32 \<Rightarrow> world \<Rightarrow> world" where
  "wl_data_device_manager_bind E client version wlid w = snd (bind_global E client version 3 wlid UD_manager w)"

section \<open>The selection of the author\<close>

text \<open>The number of the new object is \<open>ext_new_custom\<close>. A type that cannot be pushed would be written through
  NULL.\<close>

definition custom_types :: "env \<Rightarrow> string list \<Rightarrow> world \<Rightarrow> string option list \<times> world" where
  "custom_types E tys w =
     fold (\<lambda>ty (ts, w). if ext_calloc E (Suc (length ts)) then (push_type E ty ts, w) else (ts, fail Null_pointer w)) tys ([], w)"

definition wlc_data_device_manager_set_custom_selection :: "env \<Rightarrow> string list \<Rightarrow> world \<Rightarrow> world" where
  "wlc_data_device_manager_set_custom_selection E tys w =
     (let n = ext_new_custom E w;
          (ts, w) = custom_types E tys w;
          w = upd_seat (\<lambda>s. s\<lparr>se_customs := (se_customs s)(n \<mapsto> (wlc_data_source_ctor Impl_custom)\<lparr>ds_types := ts\<rparr>)\<rparr>) w
      in wlc_data_device_manager_set_source E (Custom_source n) w)"

section \<open>Construction and release\<close>

definition wlc_data_device_manager_release :: "env \<Rightarrow> nat \<Rightarrow> world \<Rightarrow> world" where
  "wlc_data_device_manager_release E global w =
     (let source = dm_source (manager w);
          w = (if source \<noteq> No_source then through impl_cancel source w else w);
          w = (if global \<noteq> 0 then emit (Global_destroy global) w else w);
          w = release_source E 0 K_data_source w;
          w = release_source E 0 K_data_device w;
          w = release_source E 0 K_data_offer w
      in upd_manager (\<lambda>_. \<lparr>dm_devices = [], dm_source = No_source\<rparr>) w)"

text \<open>\<open>global\<close> is the new global, 0 when it could not be made; \<open>pools\<close>: whether the sources could be made.\<close>

definition wlc_data_device_manager_ctor :: "env \<Rightarrow> nat \<Rightarrow> bool \<Rightarrow> world \<Rightarrow> bool \<times> world" where
  "wlc_data_device_manager_ctor E global pools w =
     (let w = upd_manager (\<lambda>_. \<lparr>dm_devices = [], dm_source = No_source\<rparr>) w in
      if global \<noteq> 0 \<and> pools then (True, w) else (False, wlc_data_device_manager_release E global w))"

end
