(* ===== verification/Seat.thy ===== *)
theory Seat
  imports Touch Datadevice
begin

text \<open>
  The seat (src/compositor/seat/seat.c): the devices it gives to clients, and the listeners that route input,
  focus and the end of surfaces to keyboard, pointer, touch and clipboard.

  The user data of a resource of the seat is the seat or one of its devices. \<open>wl_seat_bind\<close> takes the
  value of \<open>XDG_SEAT\<close> as an argument.
\<close>

section \<open>Devices for clients\<close>

definition wl_cb_seat_get_pointer :: "env \<Rightarrow> nat \<Rightarrow> nat \<Rightarrow> u32 \<Rightarrow> world \<Rightarrow> world" where
  "wl_cb_seat_get_pointer E client res wlid w =
     (if w_udata w res = UD_null then w
      else
        let (r, w) = create_resource E client wlid R_pointer w in
        if r = 0 then w
        else implement_resource r UD_pointer (upd_pointer (\<lambda>p. p\<lparr>pt_resources := ext_pool_add E (pt_resources p) r\<rparr>) w))"

text \<open>The version of wl_keyboard that knows about repetition, in the wayland protocol.\<close>

definition WL_KEYBOARD_REPEAT_INFO_SINCE_VERSION :: u32 where "WL_KEYBOARD_REPEAT_INFO_SINCE_VERSION = 4"

definition greet_keyboard :: "env \<Rightarrow> nat \<Rightarrow> world \<Rightarrow> world" where
  "greet_keyboard E wr w =
     (if wr = 0 then fail Null_pointer w
      else
        let k = keyboard w; km = se_keymap (w_seat w);
            w = (if ext_version E wr \<ge> WL_KEYBOARD_REPEAT_INFO_SINCE_VERSION
                 then input (Send_keyboard_repeat_info wr (kb_repeat_rate k) (kb_repeat_delay k)) w else w)
        in input (Send_keyboard_keymap wr (km_format km) (km_fd km) (km_size km)) w)"

definition refocus_client :: "env \<Rightarrow> nat \<Rightarrow> world \<Rightarrow> world" where
  "refocus_client E client w =
     (let vid = kb_focused_view (keyboard w) in
      if view_of w vid \<noteq> None \<and> wlc_view_get_client_ptr E w vid = client
      then wlc_view_focus_ptr E vid (upd_keyboard (\<lambda>k. k\<lparr>kb_focused_view := 0\<rparr>) w)
      else w)"

definition wl_cb_seat_get_keyboard :: "env \<Rightarrow> nat \<Rightarrow> nat \<Rightarrow> u32 \<Rightarrow> world \<Rightarrow> world" where
  "wl_cb_seat_get_keyboard E client res wlid w =
     (if w_udata w res = UD_null then w
      else
        let (r, w) = create_resource E client wlid R_keyboard w in
        if r = 0 then w
        else
          let w = upd_keyboard (\<lambda>k. k\<lparr>kb_resources := ext_pool_add E (kb_resources k) r\<rparr>) w;
              w = implement_resource r UD_keyboard w;
              w = greet_keyboard E (wl_of w r K_keyboard) w
          in refocus_client E client w)"

definition wl_cb_seat_get_touch :: "env \<Rightarrow> nat \<Rightarrow> nat \<Rightarrow> u32 \<Rightarrow> world \<Rightarrow> world" where
  "wl_cb_seat_get_touch E client res wlid w =
     (if w_udata w res = UD_null then w
      else
        let (r, w) = create_resource E client wlid R_touch w in
        if r = 0 then w
        else implement_resource r UD_touch (upd_touch (\<lambda>t. t\<lparr>tc_resources := ext_pool_add E (tc_resources t) r\<rparr>) w))"

text \<open>The capabilities pointer, keyboard and touch of the wayland protocol.\<close>

definition seat_capabilities :: u32 where "seat_capabilities = 1 OR 4 OR 2"

definition wl_seat_bind :: "env \<Rightarrow> string option \<Rightarrow> nat \<Rightarrow> u32 \<Rightarrow> u32 \<Rightarrow> world \<Rightarrow> world" where
  "wl_seat_bind E xdg_seat client version wlid w =
     (let (wl, w) = bind_global E client version 4 wlid UD_seat w in
      if wl = 0 then w
      else
        let w = device (Send_seat_capabilities wl seat_capabilities) w
        in if version \<ge> 2
           then device (Send_seat_name wl (case xdg_seat of None \<Rightarrow> ''seat0'' | Some s \<Rightarrow> s)) w else w)"

section \<open>Keys\<close>

definition WLC_BIT_MOD_CTRL :: u32 where "WLC_BIT_MOD_CTRL = 4"
definition WLC_BIT_MOD_ALT :: u32 where "WLC_BIT_MOD_ALT = 8"

definition is_vt_key :: "env \<Rightarrow> world \<Rightarrow> u32 \<Rightarrow> bool" where
  "is_vt_key E w code \<longleftrightarrow>
     mo_mods (kb_modifiers (keyboard w)) = WLC_BIT_MOD_CTRL OR WLC_BIT_MOD_ALT \<and>
     (case wlc_keyboard_get_keysym_for_key_ptr E w code (Some \<lparr>mo_leds = 0, mo_mods = 0\<rparr>) of
        None \<Rightarrow> False | Some ks \<Rightarrow> xkb_f1 (xkb E) \<le> ks \<and> ks \<le> xkb_f12 (xkb E))"

definition vt_of_key :: "u32 \<Rightarrow> int" where
  "vt_of_key code = sint (code - 59 + 1)"

definition seat_handle_key :: "env \<Rightarrow> u32 \<Rightarrow> nat \<Rightarrow> u32 \<Rightarrow> bool \<Rightarrow> world \<Rightarrow> world" where
  "seat_handle_key E time dev code pressed w =
     (let (changed, w) = wlc_keyboard_update E code pressed w in
      if \<not> changed then w
      else
        let w = wlc_keyboard_update_modifiers E dev w in
        if is_vt_key E w code
        then (if pressed \<and> ext_tty_vt E \<noteq> vt_of_key code then sig_activate E False (vt_of_key code) w else w)
        else
          let (pass, w) = wlc_keyboard_request_key E time (kb_modifiers (keyboard w)) code pressed w
          in if pass then wlc_keyboard_key time code pressed w else w)"

section \<open>Input\<close>

definition motion_handled :: "env \<Rightarrow> u32 \<Rightarrow> real \<Rightarrow> real \<Rightarrow> world \<Rightarrow> bool \<times> world" where
  "motion_handled E time x y w =
     (let view = pt_focused_view (pointer w) in
      case if_pointer_motion_v2 (iface E) of
        Some f \<Rightarrow> f (view, time, x, y) w
      | None \<Rightarrow>
          (case if_pointer_motion (iface E) of
             Some f \<Rightarrow> f (view, time, \<lparr>px = real_to_i32 x, py = real_to_i32 y\<rparr>) w
           | None \<Rightarrow> (False, w)))"

definition move_pointer :: "env \<Rightarrow> u32 \<Rightarrow> real \<Rightarrow> real \<Rightarrow> world \<Rightarrow> world" where
  "move_pointer E time x y w =
     (let (handled, w) = motion_handled E time x y w in wlc_pointer_motion E time (\<not> handled) w)"

definition touch_position :: "((u32 \<Rightarrow> real) \<times> (u32 \<Rightarrow> real)) option \<Rightarrow> wlc_size \<Rightarrow> wlc_point" where
  "touch_position tp resolution =
     (case tp of
        None \<Rightarrow> wlc_point_zero
      | Some (fx, fy) \<Rightarrow> \<lparr>px = real_to_i32 (fx (sw resolution)), py = real_to_i32 (fy (sh resolution))\<rparr>)"

definition touch_input :: "env \<Rightarrow> u32 \<Rightarrow> wlc_point \<Rightarrow> wlc_touch_type \<Rightarrow> int \<Rightarrow> world \<Rightarrow> world" where
  "touch_input E time pos ty slot w =
     (let (focused, w) = (if ty = WLC_TOUCH_DOWN \<and> slot = 0 then view_under_touch E pos w else (tc_focus (touch w), w));
          (handled, w) = call1_except (if_touch (iface E)) True
             (focused, time, kb_modifiers (keyboard w), ty, slot, pos) w;
          w = (if ty = WLC_TOUCH_MOTION \<or> ty = WLC_TOUCH_DOWN then wlc_pointer_motion E time (\<not> handled) w else w)
      in if handled then w else wlc_touch_touch E time ty slot pos w)"

definition active_resolution :: "world \<Rightarrow> wlc_size" where
  "active_resolution w =
     (case output_of w (active_output_of w) of None \<Rightarrow> wlc_size_zero | Some ou \<Rightarrow> o_virtual ou)"

fun seat_input_event :: "env \<Rightarrow> wlc_input_event \<Rightarrow> world \<Rightarrow> world" where
  "seat_input_event E (WLC_INPUT_EVENT_MOTION time dx dy) w =
     (let p = pointer w; rs = active_resolution w
      in move_pointer E time (clamp_to E (dbl E (pt_x p + dx)) (sw rs)) (clamp_to E (dbl E (pt_y p + dy)) (sh rs)) w)"
| "seat_input_event E (WLC_INPUT_EVENT_MOTION_ABSOLUTE time fx fy) w =
     (let rs = active_resolution w in move_pointer E time (fx (sw rs)) (fy (sh rs)) w)"
| "seat_input_event E (WLC_INPUT_EVENT_SCROLL time axis_bits dy dx) w =
     (let (kept, w) = call1_except (if_pointer_scroll (iface E)) True
             (pt_focused_view (pointer w), time, kb_modifiers (keyboard w), axis_bits, dy, dx) w
      in if kept then w else wlc_pointer_scroll E time axis_bits dy dx w)"
| "seat_input_event E (WLC_INPUT_EVENT_BUTTON time code pressed) w =
     (let p = pointer w; rs = active_resolution w;
          pos = \<lparr>px = real_to_i32 (clamp_to E (pt_x p) (sw rs)), py = real_to_i32 (clamp_to E (pt_y p) (sh rs))\<rparr>;
          (kept, w) = call1_except (if_pointer_button (iface E)) True
             (pt_focused_view p, time, kb_modifiers (keyboard w), code, pressed, pos) w
      in if kept then w else wlc_pointer_button E time code pressed w)"
| "seat_input_event E (WLC_INPUT_EVENT_KEY time dev code pressed) w = seat_handle_key E time dev code pressed w"
| "seat_input_event E (WLC_INPUT_EVENT_TOUCH time tp ty slot) w =
     touch_input E time (touch_position tp (active_resolution w)) ty slot w"

section \<open>Focus and the end of surfaces\<close>

fun seat_focus_event :: "env \<Rightarrow> wlc_focus_event \<Rightarrow> world \<Rightarrow> world" where
  "seat_focus_event E (WLC_FOCUS_EVENT_VIEW vid) w =
     (let w = wlc_keyboard_focus E vid w;
          w = (if vid \<noteq> 0 \<and> view_of w vid = None then fail Wild_pointer w else w)
      in wlc_data_device_manager_offer E (wlc_view_get_client_ptr E w vid) w)"
| "seat_focus_event E (WLC_FOCUS_EVENT_OUTPUT oid) w = w"

definition surface_gone :: "env \<Rightarrow> nat \<Rightarrow> world \<Rightarrow> world" where
  "surface_gone E sid w =
     (let field = (\<lambda>f w. case surface_of w sid of None \<Rightarrow> 0 | Some s \<Rightarrow> f s);
          w = (if field sf_parent w = 0 \<and> field sf_view w = kb_focused_view (keyboard w) then wlc_keyboard_focus E 0 w else w);
          w = (if field sf_parent_view w = pt_focused_view (pointer w) then snd (wlc_pointer_focus E 0 w) else w)
      in if pt_surface (pointer w) = sid then wlc_pointer_set_surface E 0 wlc_point_zero w else w)"

fun seat_surface_event :: "env \<Rightarrow> wlc_surface_event \<Rightarrow> world \<Rightarrow> world" where
  "seat_surface_event E (WLC_SURFACE_EVENT_DESTROYED sid) w = surface_gone E sid w"
| "seat_surface_event E (WLC_SURFACE_EVENT_CREATED sid) w = w"
| "seat_surface_event E (WLC_SURFACE_EVENT_REQUEST_VIEW_ATTACH sid ty role) w = w"
| "seat_surface_event E (WLC_SURFACE_EVENT_REQUEST_VIEW_POPUP sid parent role) w = w"

section \<open>The public access of the author\<close>

text \<open>src/compositor/compositor.c hands these on to the seat of the compositor.\<close>

definition wlc_keyboard_get_current_keys :: "world \<Rightarrow> u32 list" where
  "wlc_keyboard_get_current_keys w = kb_keys (keyboard w)"

definition wlc_keyboard_get_keysym_for_key :: "env \<Rightarrow> world \<Rightarrow> u32 \<Rightarrow> wlc_modifiers option \<Rightarrow> u32 option" where
  "wlc_keyboard_get_keysym_for_key E w key mods = wlc_keyboard_get_keysym_for_key_ptr E w key mods"

definition wlc_keyboard_get_utf32_for_key :: "env \<Rightarrow> world \<Rightarrow> u32 \<Rightarrow> wlc_modifiers option \<Rightarrow> u32 option" where
  "wlc_keyboard_get_utf32_for_key E w key mods = wlc_keyboard_get_utf32_for_key_ptr E w key mods"

definition wlc_pointer_get_position_v2 :: "world \<Rightarrow> real \<times> real" where
  "wlc_pointer_get_position_v2 w = (pt_x (pointer w), pt_y (pointer w))"

definition wlc_pointer_get_position :: "world \<Rightarrow> wlc_point" where
  "wlc_pointer_get_position w = \<lparr>px = real_to_i32 (pt_x (pointer w)), py = real_to_i32 (pt_y (pointer w))\<rparr>"

definition wlc_pointer_set_position_v2 :: "real \<Rightarrow> real \<Rightarrow> world \<Rightarrow> world" where
  "wlc_pointer_set_position_v2 x y w = upd_pointer (\<lambda>p. p\<lparr>pt_x := x, pt_y := y\<rparr>) w"

definition wlc_pointer_set_position :: "wlc_point \<Rightarrow> world \<Rightarrow> world" where
  "wlc_pointer_set_position pos w = wlc_pointer_set_position_v2 (of_int (px pos)) (of_int (py pos)) w"

end
