(* ===== verification/Shell.thy ===== *)
theory Shell
  imports Seat
begin

text \<open>
  The shells, which turn surfaces into windows (src/compositor/shell/shell.c, xdg-shell.c, custom-shell.c), the
  requests on the windows (src/resources/types/shell-surface.c, xdg-toplevel.c), and the regions of clients
  (src/resources/types/region.c).

  A request names its wayland resource by \<open>res\<close> (and the resources it carries by theirs), with the numbers of
  the objects behind them where the code converts them. The user data of a window resource is NULL, the
  shell, or the handle of its view; reading it as the wrong one of these is the fault \<open>Wild_pointer\<close>.
\<close>

section \<open>Requests on windows\<close>

text \<open>The view a window resource names, the output an output resource names, and the view of a surface.\<close>

definition named_view :: "env \<Rightarrow> world \<Rightarrow> nat \<Rightarrow> nat" where
  "named_view E w res = live_view w (user_number E w res)"

definition named_output :: "env \<Rightarrow> world \<Rightarrow> nat \<Rightarrow> nat" where
  "named_output E w res = (if res = 0 then 0 else live_output w (user_number E w res))"

definition view_of_surface :: "world \<Rightarrow> nat \<Rightarrow> nat" where
  "view_of_surface w sid = (case surface_of w sid of None \<Rightarrow> 0 | Some s \<Rightarrow> live_view w (sf_view s))"

text \<open>A write to a view that the callback before it may have destroyed.\<close>

definition write_view :: "nat \<Rightarrow> (wlc_view \<Rightarrow> wlc_view) \<Rightarrow> world \<Rightarrow> world" where
  "write_view vid f w = (if view_of w vid = None then fail Wild_pointer w else upd_view vid f w)"

definition pending_origin :: "int \<Rightarrow> int \<Rightarrow> wlc_view \<Rightarrow> wlc_view" where
  "pending_origin x y v =
     v\<lparr>v_pending := (v_pending v)\<lparr>vs_geometry := (vs_geometry (v_pending v))\<lparr>gorigin := \<lparr>px = x, py = y\<rparr>\<rparr>\<rparr>\<rparr>"

text \<open>The position handed to the author is the one of the pointer, rounded.\<close>

definition request_move :: "env \<Rightarrow> nat \<Rightarrow> world \<Rightarrow> world" where
  "request_move E seat_res w =
     (if w_udata w seat_res = UD_null \<or> pt_focused_view (pointer w) = 0 then w
      else call2 (if_view_request_move (iface E)) (pt_focused_view (pointer w)) (wlc_pointer_get_position w) w)"

definition request_resize :: "env \<Rightarrow> nat \<Rightarrow> u32 \<Rightarrow> world \<Rightarrow> world" where
  "request_resize E seat_res edges w =
     (if w_udata w seat_res = UD_null \<or> pt_focused_view (pointer w) = 0 then w
      else call3 (if_view_request_resize (iface E)) (pt_focused_view (pointer w)) edges (wlc_pointer_get_position w) w)"

text \<open>A state request with an optional output, and what is done with the view if it is granted.\<close>

definition request_on_output :: "env \<Rightarrow> nat \<Rightarrow> u32 \<Rightarrow> nat \<Rightarrow> (world \<Rightarrow> world) \<Rightarrow> world \<Rightarrow> world" where
  "request_on_output E res st output_res k w =
     (let vid = named_view E w res in
      if vid = 0 then w
      else
        let (granted, w) = wlc_view_request_state E vid st True w in
        if \<not> granted then w
        else
          let oid = named_output E w output_res;
              w = (if oid = 0 then w
                   else if view_of w vid = None then fail Wild_pointer w
                   else wlc_view_set_output_ptr E vid oid w)
          in k w)"

subsection \<open>wl_shell_surface\<close>

definition wl_cb_shell_surface_pong :: "world \<Rightarrow> world" where
  "wl_cb_shell_surface_pong w = w"

definition wl_cb_shell_surface_move :: "env \<Rightarrow> nat \<Rightarrow> world \<Rightarrow> world" where
  "wl_cb_shell_surface_move E seat_res w = request_move E seat_res w"

definition wl_cb_shell_surface_resize :: "env \<Rightarrow> nat \<Rightarrow> u32 \<Rightarrow> world \<Rightarrow> world" where
  "wl_cb_shell_surface_resize E seat_res edges w = request_resize E seat_res edges w"

text \<open>The method of the wayland protocol for a window that is not fullscreen.\<close>

definition WL_SHELL_SURFACE_FULLSCREEN_METHOD_DEFAULT :: u32 where "WL_SHELL_SURFACE_FULLSCREEN_METHOD_DEFAULT = 0"

definition wl_cb_shell_surface_set_toplevel :: "env \<Rightarrow> nat \<Rightarrow> world \<Rightarrow> world" where
  "wl_cb_shell_surface_set_toplevel E res w =
     (let vid = named_view E w res in
      if vid = 0 then w
      else
        let (granted, w) = wlc_view_request_state E vid WLC_BIT_FULLSCREEN False w in
        if \<not> granted then w
        else write_view vid (\<lambda>v. v\<lparr>v_fullscreen_mode := WL_SHELL_SURFACE_FULLSCREEN_METHOD_DEFAULT\<rparr>) w)"

definition wl_cb_shell_surface_set_transient :: "env \<Rightarrow> nat \<Rightarrow> nat \<Rightarrow> int \<Rightarrow> int \<Rightarrow> world \<Rightarrow> world" where
  "wl_cb_shell_surface_set_transient E res parent x y w =
     (let vid = named_view E w res in
      if vid = 0 then w
      else upd_view vid (pending_origin x y) (wlc_view_set_parent_ptr vid (view_of_surface w parent) w))"

definition wl_cb_shell_surface_set_fullscreen :: "env \<Rightarrow> nat \<Rightarrow> u32 \<Rightarrow> nat \<Rightarrow> world \<Rightarrow> world" where
  "wl_cb_shell_surface_set_fullscreen E res meth output_res w =
     request_on_output E res WLC_BIT_FULLSCREEN output_res
       (\<lambda>w'. write_view (named_view E w res) (\<lambda>v. v\<lparr>v_fullscreen_mode := meth\<rparr>) w') w"

definition wl_cb_shell_surface_set_popup :: "env \<Rightarrow> nat \<Rightarrow> nat \<Rightarrow> int \<Rightarrow> int \<Rightarrow> world \<Rightarrow> world" where
  "wl_cb_shell_surface_set_popup E res parent x y w =
     (let vid = named_view E w res in
      if vid = 0 then w
      else
        let w = wlc_view_set_type_ptr vid WLC_BIT_POPUP True w
        in upd_view vid (pending_origin x y) (wlc_view_set_parent_ptr vid (view_of_surface w parent) w))"

definition wl_cb_shell_surface_set_maximized :: "env \<Rightarrow> nat \<Rightarrow> nat \<Rightarrow> world \<Rightarrow> world" where
  "wl_cb_shell_surface_set_maximized E res output_res w =
     request_on_output E res WLC_BIT_MAXIMIZED output_res (\<lambda>w. w) w"

definition wl_cb_shell_surface_set_title :: "env \<Rightarrow> nat \<Rightarrow> string \<Rightarrow> world \<Rightarrow> world" where
  "wl_cb_shell_surface_set_title E res title w = wlc_view_set_title_ptr E (named_view E w res) title (length title) w"

definition wl_cb_shell_surface_set_class :: "env \<Rightarrow> nat \<Rightarrow> string \<Rightarrow> world \<Rightarrow> world" where
  "wl_cb_shell_surface_set_class E res cls w = wlc_view_set_class_ptr E (named_view E w res) cls (length cls) w"

datatype shell_surface_request =
    Shell_pong | Shell_move nat | Shell_resize nat u32 | Shell_set_toplevel | Shell_set_transient nat int int
  | Shell_set_fullscreen u32 nat | Shell_set_popup nat int int | Shell_set_maximized nat | Shell_set_title string
  | Shell_set_class string

fun wlc_shell_surface_implementation :: "env \<Rightarrow> nat \<Rightarrow> shell_surface_request \<Rightarrow> world \<Rightarrow> world" where
  "wlc_shell_surface_implementation E res Shell_pong w = wl_cb_shell_surface_pong w"
| "wlc_shell_surface_implementation E res (Shell_move seat) w = wl_cb_shell_surface_move E seat w"
| "wlc_shell_surface_implementation E res (Shell_resize seat edges) w = wl_cb_shell_surface_resize E seat edges w"
| "wlc_shell_surface_implementation E res Shell_set_toplevel w = wl_cb_shell_surface_set_toplevel E res w"
| "wlc_shell_surface_implementation E res (Shell_set_transient p x y) w = wl_cb_shell_surface_set_transient E res p x y w"
| "wlc_shell_surface_implementation E res (Shell_set_fullscreen m ou) w = wl_cb_shell_surface_set_fullscreen E res m ou w"
| "wlc_shell_surface_implementation E res (Shell_set_popup p x y) w = wl_cb_shell_surface_set_popup E res p x y w"
| "wlc_shell_surface_implementation E res (Shell_set_maximized ou) w = wl_cb_shell_surface_set_maximized E res ou w"
| "wlc_shell_surface_implementation E res (Shell_set_title t) w = wl_cb_shell_surface_set_title E res t w"
| "wlc_shell_surface_implementation E res (Shell_set_class c) w = wl_cb_shell_surface_set_class E res c w"

subsection \<open>zxdg_toplevel_v6\<close>

text \<open>The parent is named by its toplevel resource, 0 for none.\<close>

definition xdg_cb_toplevel_set_parent :: "env \<Rightarrow> nat \<Rightarrow> nat \<Rightarrow> world \<Rightarrow> world" where
  "xdg_cb_toplevel_set_parent E res parent_res w =
     (let vid = named_view E w res in
      if vid = 0 then w
      else wlc_view_set_parent_ptr vid (if parent_res = 0 then 0 else named_view E w parent_res) w)"

definition xdg_cb_toplevel_set_title :: "env \<Rightarrow> nat \<Rightarrow> string \<Rightarrow> world \<Rightarrow> world" where
  "xdg_cb_toplevel_set_title E res title w = wlc_view_set_title_ptr E (named_view E w res) title (length title) w"

definition xdg_cb_toplevel_set_app_id :: "env \<Rightarrow> nat \<Rightarrow> string \<Rightarrow> world \<Rightarrow> world" where
  "xdg_cb_toplevel_set_app_id E res app_id w = wlc_view_set_app_id_ptr E (named_view E w res) app_id w"

definition xdg_cb_toplevel_show_window_menu :: "world \<Rightarrow> world" where
  "xdg_cb_toplevel_show_window_menu w = w"

definition xdg_cb_toplevel_move :: "env \<Rightarrow> nat \<Rightarrow> world \<Rightarrow> world" where
  "xdg_cb_toplevel_move E seat_res w = request_move E seat_res w"

definition xdg_cb_toplevel_resize :: "env \<Rightarrow> nat \<Rightarrow> u32 \<Rightarrow> world \<Rightarrow> world" where
  "xdg_cb_toplevel_resize E seat_res edges w = request_resize E seat_res edges w"

definition xdg_cb_toplevel_set_max_size :: "world \<Rightarrow> world" where "xdg_cb_toplevel_set_max_size w = w"
definition xdg_cb_toplevel_set_min_size :: "world \<Rightarrow> world" where "xdg_cb_toplevel_set_min_size w = w"

definition request_toplevel_state :: "env \<Rightarrow> nat \<Rightarrow> u32 \<Rightarrow> bool \<Rightarrow> world \<Rightarrow> world" where
  "request_toplevel_state E res st toggle w =
     (let vid = named_view E w res in if vid = 0 then w else snd (wlc_view_request_state E vid st toggle w))"

definition xdg_cb_toplevel_set_maximized :: "env \<Rightarrow> nat \<Rightarrow> world \<Rightarrow> world" where
  "xdg_cb_toplevel_set_maximized E res w = request_toplevel_state E res WLC_BIT_MAXIMIZED True w"

definition xdg_cb_toplevel_unset_maximized :: "env \<Rightarrow> nat \<Rightarrow> world \<Rightarrow> world" where
  "xdg_cb_toplevel_unset_maximized E res w = request_toplevel_state E res WLC_BIT_MAXIMIZED False w"

definition xdg_cb_toplevel_set_fullscreen :: "env \<Rightarrow> nat \<Rightarrow> nat \<Rightarrow> world \<Rightarrow> world" where
  "xdg_cb_toplevel_set_fullscreen E res output_res w =
     request_on_output E res WLC_BIT_FULLSCREEN output_res (\<lambda>w. w) w"

definition xdg_cb_toplevel_unset_fullscreen :: "env \<Rightarrow> nat \<Rightarrow> world \<Rightarrow> world" where
  "xdg_cb_toplevel_unset_fullscreen E res w = request_toplevel_state E res WLC_BIT_FULLSCREEN False w"

definition xdg_cb_toplevel_set_minimized :: "env \<Rightarrow> nat \<Rightarrow> world \<Rightarrow> world" where
  "xdg_cb_toplevel_set_minimized E res w = wlc_view_set_minimized_ptr E (named_view E w res) True w"

datatype toplevel_request =
    Top_destroy | Top_set_parent nat | Top_set_title string | Top_set_app_id string | Top_show_window_menu
  | Top_move nat | Top_resize nat u32 | Top_set_max_size | Top_set_min_size | Top_set_maximized
  | Top_unset_maximized | Top_set_fullscreen nat | Top_unset_fullscreen | Top_set_minimized

text \<open>\<open>r\<close> is the number of the resource \<open>res\<close>.\<close>

fun wlc_xdg_toplevel_implementation :: "env \<Rightarrow> nat \<Rightarrow> nat \<Rightarrow> toplevel_request \<Rightarrow> world \<Rightarrow> world" where
  "wlc_xdg_toplevel_implementation E r res Top_destroy w = release_resource E r w"
| "wlc_xdg_toplevel_implementation E r res (Top_set_parent p) w = xdg_cb_toplevel_set_parent E res p w"
| "wlc_xdg_toplevel_implementation E r res (Top_set_title t) w = xdg_cb_toplevel_set_title E res t w"
| "wlc_xdg_toplevel_implementation E r res (Top_set_app_id a) w = xdg_cb_toplevel_set_app_id E res a w"
| "wlc_xdg_toplevel_implementation E r res Top_show_window_menu w = xdg_cb_toplevel_show_window_menu w"
| "wlc_xdg_toplevel_implementation E r res (Top_move seat) w = xdg_cb_toplevel_move E seat w"
| "wlc_xdg_toplevel_implementation E r res (Top_resize seat edges) w = xdg_cb_toplevel_resize E seat edges w"
| "wlc_xdg_toplevel_implementation E r res Top_set_max_size w = xdg_cb_toplevel_set_max_size w"
| "wlc_xdg_toplevel_implementation E r res Top_set_min_size w = xdg_cb_toplevel_set_min_size w"
| "wlc_xdg_toplevel_implementation E r res Top_set_maximized w = xdg_cb_toplevel_set_maximized E res w"
| "wlc_xdg_toplevel_implementation E r res Top_unset_maximized w = xdg_cb_toplevel_unset_maximized E res w"
| "wlc_xdg_toplevel_implementation E r res (Top_set_fullscreen ou) w = xdg_cb_toplevel_set_fullscreen E res ou w"
| "wlc_xdg_toplevel_implementation E r res Top_unset_fullscreen w = xdg_cb_toplevel_unset_fullscreen E res w"
| "wlc_xdg_toplevel_implementation E r res Top_set_minimized w = xdg_cb_toplevel_set_minimized E res w"

section \<open>wl_shell\<close>

definition attach_role :: "env \<Rightarrow> nat \<Rightarrow> surface_role \<Rightarrow> nat \<Rightarrow> world \<Rightarrow> world" where
  "attach_role E sid ty role w = sig_surface E (WLC_SURFACE_EVENT_REQUEST_VIEW_ATTACH sid ty role) w"

definition wl_cb_shell_get_shell_surface :: "env \<Rightarrow> nat \<Rightarrow> nat \<Rightarrow> u32 \<Rightarrow> nat \<Rightarrow> world \<Rightarrow> world" where
  "wl_cb_shell_get_shell_surface E client res wlid sid w =
     (if w_udata w res = UD_null \<or> surface_of w sid = None then w
      else
        let (r, w) = create_resource E client wlid R_shell_surface w in
        if r = 0 then w else attach_role E sid WLC_SHELL_SURFACE r (implement_resource r UD_null w))"

definition wl_shell_bind :: "env \<Rightarrow> nat \<Rightarrow> u32 \<Rightarrow> u32 \<Rightarrow> world \<Rightarrow> world" where
  "wl_shell_bind E client version wlid w = snd (bind_global E client version 1 wlid UD_shell w)"

text \<open>\<open>global\<close> is the global of the shell, 0 for none.\<close>

definition destroy_global :: "nat \<Rightarrow> world \<Rightarrow> world" where
  "destroy_global global w = (if global = 0 then w else emit (Global_destroy global) w)"

definition wlc_shell_release :: "env \<Rightarrow> nat \<Rightarrow> world \<Rightarrow> world" where
  "wlc_shell_release E global w = release_source E 0 K_shell_surface (destroy_global global w)"

text \<open>\<open>pools\<close>: whether the sources could be made.\<close>

definition wlc_shell_ctor :: "env \<Rightarrow> nat \<Rightarrow> bool \<Rightarrow> world \<Rightarrow> bool \<times> world" where
  "wlc_shell_ctor E global pools w =
     (let w = (if global = 0 then w else emit (Global_create ''wl_shell'') w)
      in if global \<noteq> 0 \<and> pools then (True, w) else (False, wlc_shell_release E global w))"

section \<open>zxdg_shell_v6\<close>

definition xdg_surface_of :: "world \<Rightarrow> nat \<Rightarrow> nat option" where
  "xdg_surface_of w r =
     (if r = 0 then None
      else case w_res w r of None \<Rightarrow> None
           | Some e \<Rightarrow> (case re_data e of R_xdg_surface sid \<Rightarrow> Some sid | _ \<Rightarrow> None))"

text \<open>\<open>r\<close> is the number of the xdg surface; the result is the number of its surface, 0 for none.\<close>

definition xdg_surface_get_surface :: "world \<Rightarrow> nat \<Rightarrow> nat" where
  "xdg_surface_get_surface w r =
     (case xdg_surface_of w r of None \<Rightarrow> 0 | Some sid \<Rightarrow> if surface_of w sid = None then 0 else sid)"

text \<open>A role resource is made in a source of the shell, through the pointer in the user data of the xdg surface.\<close>

definition create_role :: "env \<Rightarrow> nat \<Rightarrow> nat \<Rightarrow> u32 \<Rightarrow> res_data \<Rightarrow> world \<Rightarrow> nat \<times> world" where
  "create_role E client res wlid d w =
     (if w_udata w res = UD_xdg_shell then create_resource E client wlid d w else (0, fail Wild_pointer w))"

definition send_configure :: "nat \<Rightarrow> world \<Rightarrow> world" where
  "send_configure res w = (let (serial, w) = next_serial w in emit (Send_xdg_surface_configure res serial) w)"

definition positioner_of_resource :: "world \<Rightarrow> nat \<Rightarrow> nat option" where
  "positioner_of_resource w res = (case w_udata w res of UD_positioner n \<Rightarrow> Some n | _ \<Rightarrow> None)"

definition xdg_cb_surface_get_popup ::
  "env \<Rightarrow> nat \<Rightarrow> nat \<Rightarrow> nat \<Rightarrow> u32 \<Rightarrow> nat \<Rightarrow> nat \<Rightarrow> nat \<Rightarrow> world \<Rightarrow> world" where
  "xdg_cb_surface_get_popup E client r res wlid parent parent_res positioner_res w =
     (let sid = xdg_surface_get_surface w r; psid = xdg_surface_get_surface w parent in
      if w_udata w res = UD_null \<or> sid = 0 \<or> psid = 0 then w
      else if w_udata w parent_res = UD_null \<or> named_view E w parent_res = 0 then w
      else
        let (role, w) = create_role E client res wlid (R_xdg_popup (positioner_of_resource w positioner_res)) w in
        if role = 0 then w
        else
          let w = implement_resource role UD_null w;
              w = attach_role E sid WLC_XDG_SURFACE r w;
              w = sig_surface E (WLC_SURFACE_EVENT_REQUEST_VIEW_POPUP sid psid role) w
          in send_configure res w)"

definition xdg_cb_surface_get_toplevel :: "env \<Rightarrow> nat \<Rightarrow> nat \<Rightarrow> nat \<Rightarrow> u32 \<Rightarrow> world \<Rightarrow> world" where
  "xdg_cb_surface_get_toplevel E client r res wlid w =
     (let sid = xdg_surface_get_surface w r in
      if w_udata w res = UD_null \<or> sid = 0 then w
      else
        let (role, w) = create_role E client res wlid R_xdg_toplevel w in
        if role = 0 then w
        else
          let w = implement_resource role UD_null w;
              w = attach_role E sid WLC_XDG_SURFACE r w;
              w = attach_role E sid WLC_XDG_TOPLEVEL_SURFACE role w
          in send_configure res w)"

definition xdg_cb_surface_ack_configure :: "world \<Rightarrow> world" where "xdg_cb_surface_ack_configure w = w"

definition xdg_cb_surface_set_window_geometry :: "env \<Rightarrow> nat \<Rightarrow> int \<Rightarrow> int \<Rightarrow> int \<Rightarrow> int \<Rightarrow> world \<Rightarrow> world" where
  "xdg_cb_surface_set_window_geometry E res x y width height w =
     (let vid = named_view E w res in
      if vid = 0 then w
      else wlc_view_update vid (upd_view vid (\<lambda>v. v\<lparr>v_surface_pending :=
             \<lparr>gorigin = \<lparr>px = x, py = y\<rparr>, gsize = \<lparr>sw = u32_of_i32 width, sh = u32_of_i32 height\<rparr>\<rparr>\<rparr>) w))"

datatype xdg_surface_request =
    Xs_destroy | Xs_get_toplevel u32 | Xs_get_popup u32 nat nat nat | Xs_ack_configure
  | Xs_set_window_geometry int int int int

fun zxdg_surface_v6_implementation :: "env \<Rightarrow> nat \<Rightarrow> nat \<Rightarrow> nat \<Rightarrow> xdg_surface_request \<Rightarrow> world \<Rightarrow> world" where
  "zxdg_surface_v6_implementation E client r res Xs_destroy w = release_resource E r w"
| "zxdg_surface_v6_implementation E client r res (Xs_get_toplevel wlid) w = xdg_cb_surface_get_toplevel E client r res wlid w"
| "zxdg_surface_v6_implementation E client r res (Xs_get_popup wlid p p_res pos) w =
     xdg_cb_surface_get_popup E client r res wlid p p_res pos w"
| "zxdg_surface_v6_implementation E client r res Xs_ack_configure w = xdg_cb_surface_ack_configure w"
| "zxdg_surface_v6_implementation E client r res (Xs_set_window_geometry x y a b) w =
     xdg_cb_surface_set_window_geometry E res x y a b w"

definition xdg_cb_shell_get_surface :: "env \<Rightarrow> nat \<Rightarrow> nat \<Rightarrow> u32 \<Rightarrow> nat \<Rightarrow> world \<Rightarrow> world" where
  "xdg_cb_shell_get_surface E client res wlid sid w =
     (if w_udata w res = UD_null \<or> surface_of w sid = None then w
      else
        let (r, w) = create_resource E client wlid (R_xdg_surface sid) w in
        if r = 0 then w else implement_resource r UD_xdg_shell w)"

definition xdg_cb_create_positioner :: "env \<Rightarrow> nat \<Rightarrow> nat \<Rightarrow> u32 \<Rightarrow> world \<Rightarrow> world" where
  "xdg_cb_create_positioner E client res wlid w =
     (if w_udata w res = UD_null then w
      else
        let (r, w) = create_resource E client wlid (R_xdg_positioner positioner_zero) w in
        if r = 0 then w else implement_resource r (UD_positioner r) w)"

definition xdg_cb_shell_pong :: "world \<Rightarrow> world" where "xdg_cb_shell_pong w = w"
definition xdg_cb_destroy :: "world \<Rightarrow> world" where "xdg_cb_destroy w = w"
definition xdg_cb_popup_grab :: "world \<Rightarrow> world" where "xdg_cb_popup_grab w = w"

datatype xdg_shell_request = Xshell_destroy | Xshell_create_positioner u32 | Xshell_get_xdg_surface u32 nat | Xshell_pong

fun zxdg_shell_v6_implementation :: "env \<Rightarrow> nat \<Rightarrow> nat \<Rightarrow> xdg_shell_request \<Rightarrow> world \<Rightarrow> world" where
  "zxdg_shell_v6_implementation E client res Xshell_destroy w = xdg_cb_destroy w"
| "zxdg_shell_v6_implementation E client res (Xshell_create_positioner wlid) w = xdg_cb_create_positioner E client res wlid w"
| "zxdg_shell_v6_implementation E client res (Xshell_get_xdg_surface wlid sid) w = xdg_cb_shell_get_surface E client res wlid sid w"
| "zxdg_shell_v6_implementation E client res Xshell_pong w = xdg_cb_shell_pong w"

definition xdg_shell_bind :: "env \<Rightarrow> nat \<Rightarrow> u32 \<Rightarrow> u32 \<Rightarrow> world \<Rightarrow> world" where
  "xdg_shell_bind E client version wlid w = snd (bind_global E client version 1 wlid UD_xdg_shell w)"

definition wlc_xdg_shell_release :: "env \<Rightarrow> nat \<Rightarrow> world \<Rightarrow> world" where
  "wlc_xdg_shell_release E global w =
     release_source E 0 K_xdg_positioner (release_source E 0 K_xdg_popup (release_source E 0 K_xdg_toplevel
       (release_source E 0 K_xdg_surface (destroy_global global w))))"

definition wlc_xdg_shell_ctor :: "env \<Rightarrow> nat \<Rightarrow> bool \<Rightarrow> world \<Rightarrow> bool \<times> world" where
  "wlc_xdg_shell_ctor E global pools w =
     (let w = (if global = 0 then w else emit (Global_create ''zxdg_shell_v6'') w)
      in if global \<noteq> 0 \<and> pools then (True, w) else (False, wlc_xdg_shell_release E global w))"

section \<open>Windows of the author\<close>

text \<open>The role of a custom window is given by client, interface and implementation together; the assertion is
  that all three are there if one is. \<open>live\<close> is whether the shell exists.\<close>

definition wlc_view_from_surface ::
  "env \<Rightarrow> bool \<Rightarrow> nat \<Rightarrow> nat \<Rightarrow> bool \<Rightarrow> bool \<Rightarrow> u32 \<Rightarrow> user_data \<Rightarrow> world \<Rightarrow> nat \<times> world" where
  "wlc_view_from_surface E live sid client interface implementation wlid userdata w =
     (let w = checked live w in
      if surface_of w sid = None then (0, w)
      else
        let asked = (client \<noteq> 0 \<or> interface \<or> implementation);
            w = checked (asked \<longrightarrow> client \<noteq> 0 \<and> interface \<and> implementation) w;
            (r, w) = (if asked then create_resource E client wlid R_custom_surface w else (0, w))
        in
        if asked \<and> r = 0 then (0, w)
        else
          let w = (if asked then implement_resource r userdata w else w);
              w = attach_role E sid WLC_CUSTOM_SURFACE r w
          in case surface_of w sid of None \<Rightarrow> (0, fail Wild_pointer w) | Some s \<Rightarrow> (sf_view s, w))"

definition wlc_custom_shell_release :: "env \<Rightarrow> world \<Rightarrow> world" where
  "wlc_custom_shell_release E w = release_source E 0 K_custom_surface w"

definition wlc_custom_shell_ctor :: "env \<Rightarrow> bool \<Rightarrow> world \<Rightarrow> bool \<times> world" where
  "wlc_custom_shell_ctor E pool w = (if pool then (True, w) else (False, wlc_custom_shell_release E w))"

section \<open>Regions\<close>

definition upd_region :: "nat \<Rightarrow> (region \<Rightarrow> region) \<Rightarrow> world \<Rightarrow> world" where
  "upd_region r f w =
     w\<lparr>w_res := (w_res w)(r := map_option (\<lambda>e. case re_data e of R_region g \<Rightarrow> e\<lparr>re_data := R_region (f g)\<rparr> | _ \<Rightarrow> e) (w_res w r))\<rparr>"

definition wl_cb_region_add :: "env \<Rightarrow> nat \<Rightarrow> int \<Rightarrow> int \<Rightarrow> int \<Rightarrow> int \<Rightarrow> world \<Rightarrow> world" where
  "wl_cb_region_add E r x y width height w =
     (if region_of w r = None then w
      else upd_region r (\<lambda>g. px_union_rect (pxo E) g x y (u32_of_i32 width) (u32_of_i32 height)) w)"

definition wl_cb_region_subtract :: "env \<Rightarrow> nat \<Rightarrow> int \<Rightarrow> int \<Rightarrow> int \<Rightarrow> int \<Rightarrow> world \<Rightarrow> world" where
  "wl_cb_region_subtract E r x y width height w =
     (if region_of w r = None then w
      else upd_region r (\<lambda>g. px_subtract_rect (pxo E) g x y (u32_of_i32 width) (u32_of_i32 height)) w)"

datatype region_request = Region_destroy | Region_add int int int int | Region_subtract int int int int

fun wlc_region_implementation :: "env \<Rightarrow> nat \<Rightarrow> region_request \<Rightarrow> world \<Rightarrow> world" where
  "wlc_region_implementation E r Region_destroy w = release_resource E r w"
| "wlc_region_implementation E r (Region_add x y a b) w = wl_cb_region_add E r x y a b w"
| "wlc_region_implementation E r (Region_subtract x y a b) w = wl_cb_region_subtract E r x y a b w"

end
