(* ===== verification/Keys.thy ===== *)
theory Keys
  imports Seat Keep
begin

text \<open>
  What holds of the keyboard: the keys it counts as held, and who is told about keys. The wire log
  \<open>kb_log\<close> is the part of the trace that tells clients about focus and keys; \<open>entered\<close> and \<open>keys_justified\<close>
  state over it what the wayland protocol and the privacy of input ask for.
\<close>

section \<open>Held keys\<close>

text \<open>The loop of the code is a search for a pressed key and a filter for a released one.\<close>

lemma update_keys_loop_eq:
  assumes "pool_ops_ok P" "length keys = i + n" "key \<notin> set (take i keys)"
  shows "update_keys_loop P n i key True keys = (key \<notin> set keys, keys)"
    and "update_keys_loop P n i key False keys = (True, removeAll key keys)"
proof -
  show "update_keys_loop P n i key True keys = (key \<notin> set keys, keys)"
    using assms
  proof (induction P n i key True keys rule: update_keys_loop.induct)
    case (2 P n i key keys)
    then show ?case by (auto simp: take_Suc_conv_app_nth)
  qed simp
  show "update_keys_loop P n i key False keys = (True, removeAll key keys)"
    using assms
  proof (induction P n i key False keys rule: update_keys_loop.induct)
    case (2 P n i key keys)
    show ?case
    proof (cases "keys ! i = key")
      case True
      have "keys = take i keys @ key # drop (Suc i) keys" using 2 True by (metis id_take_nth_drop less_add_Suc1 add_Suc_right)
      then have "removeAll key (take i keys @ drop (Suc i) keys) = removeAll key keys"
        by (metis append_Cons removeAll.simps(2) removeAll_append)
      then show ?thesis using 2 True by (simp add: pool_ops_okD(4))
    qed (use 2 in \<open>simp add: take_Suc_conv_app_nth\<close>)
  qed simp
qed

lemma update_keys_eq:
  assumes "pool_ops_ok (sp E)"
  shows "update_keys E key False keys = (True, removeAll key keys)"
    and "key \<in> set keys \<Longrightarrow> update_keys E key True keys = (False, keys)"
    and "key \<notin> set keys \<Longrightarrow> update_keys E key True keys =
      (case push_back (sp E) keys key of None \<Rightarrow> (False, keys) | Some ks \<Rightarrow> (True, keys @ [key]))"
  using pool_ops_okD(1) [OF assms] update_keys_loop_eq [OF assms, of keys 0 "length keys" key]
  by (auto simp: update_keys_def split: option.split)

lemma keyboard_upd [simp]:
  "keyboard (upd_keyboard f w) = f (keyboard w)" "keyboard (emit e w) = keyboard w" "keyboard (fail x w) = keyboard w"
  "keyboard (w\<lparr>w_serial := n\<rparr>) = keyboard w" "keyboard (w\<lparr>w_res := rs\<rparr>) = keyboard w"
  "keyboard (set_user_data wl d w) = keyboard w"
  by (simp_all add: keyboard_def upd_keyboard_def)

lemma keyboard_reset [simp]: "kb_keys (keyboard (reset_repeat w)) = kb_keys (keyboard w)"
  by (simp add: reset_repeat_def)

lemma keyboard_update_keys:
  "kb_keys (keyboard (snd (wlc_keyboard_update E key p w))) = snd (update_keys E key p (kb_keys (keyboard w)))"
  "fst (wlc_keyboard_update E key p w) = fst (update_keys E key p (kb_keys (keyboard w)))"
  by (simp_all add: wlc_keyboard_update_def Let_def split: prod.split)

definition key_run :: "env \<Rightarrow> (u32 \<times> bool) list \<Rightarrow> world \<Rightarrow> world" where
  "key_run E evs w = fold (\<lambda>(key, p) w. snd (wlc_keyboard_update E key p w)) evs w"

text \<open>Whether the last of the events about a key is a press.\<close>

definition pressed_last :: "(u32 \<times> bool) list \<Rightarrow> u32 \<Rightarrow> bool" where
  "pressed_last evs key \<longleftrightarrow> (let es = filter (\<lambda>e. fst e = key) evs in es \<noteq> [] \<and> snd (last es))"

lemma pressed_last_snoc: "pressed_last (evs @ [(k, p)]) key = (if k = key then p else pressed_last evs key)"
  by (simp add: pressed_last_def Let_def)

text \<open>C7 (equivalence). The keys the keyboard counts as held are those whose last event is a press, each
  once, for any sequence of press and release events, repeated ones included; and an event is passed on
  exactly unless it presses a key that is held.\<close>

theorem held_keys_are_last_pressed:
  assumes "pool_ops_ok (sp E)" and "\<And>ks k. push_back (sp E) ks k \<noteq> None" and "kb_keys (keyboard w) = []"
  shows "set (kb_keys (keyboard (key_run E evs w))) = {key. pressed_last evs key} \<and>
    distinct (kb_keys (keyboard (key_run E evs w))) \<and>
    (\<forall>key p. fst (wlc_keyboard_update E key p (key_run E evs w)) = (\<not> (p \<and> pressed_last evs key)))"
proof -
  have held: "set (kb_keys (keyboard (key_run E evs w))) = {key. pressed_last evs key} \<and>
    distinct (kb_keys (keyboard (key_run E evs w)))" for evs
  proof (induction evs rule: rev_induct)
    case Nil
    then show ?case using assms(3) by (simp add: key_run_def pressed_last_def)
  next
    case (snoc e evs)
    obtain key p where e: "e = (key, p)" by fastforce
    have "set (snd (update_keys E key p (kb_keys (keyboard (key_run E evs w))))) =
        {k. if key = k then p else pressed_last evs k} \<and>
        distinct (snd (update_keys E key p (kb_keys (keyboard (key_run E evs w)))))"
      using snoc assms(2) [of "kb_keys (keyboard (key_run E evs w))" key] update_keys_eq [OF assms(1)]
      by (cases p; cases "key \<in> set (kb_keys (keyboard (key_run E evs w)))") (auto simp: distinct_removeAll)
    then show ?case by (simp add: e key_run_def keyboard_update_keys pressed_last_snoc)
  qed
  moreover have "fst (update_keys E key p ks) = (\<not> (p \<and> key \<in> set ks))" for key p ks
    using assms(2) [of ks key] update_keys_eq [OF assms(1)] by (cases p; cases "key \<in> set ks") auto
  ultimately show ?thesis by (auto simp: keyboard_update_keys)
qed

theorem held_keys_are_last_pressed_witness:
  "set (kb_keys (keyboard (key_run env_ref [(30, True), (42, True), (30, True), (42, False)] world_blank))) = {30}"
proof -
  have "pressed_last [(30, True), (42, True), (30, True), (42, False)] key = (key = 30)" for key
    by (cases "key = 30"; cases "key = 42") (simp_all add: pressed_last_def Let_def)
  then show ?thesis
    using held_keys_are_last_pressed [of env_ref world_blank "[(30, True), (42, True), (30, True), (42, False)]"]
    by (simp add: pool_ref_total keyboard_def seat_blank_def)
qed

section \<open>Who is told about keys\<close>

definition kb_event :: "event \<Rightarrow> bool" where
  "kb_event e \<longleftrightarrow> (case e of Input_out x \<Rightarrow>
     (case x of Send_keyboard_key _ _ _ _ _ \<Rightarrow> True | Send_keyboard_enter _ _ _ _ \<Rightarrow> True
      | Send_keyboard_leave _ _ _ \<Rightarrow> True | _ \<Rightarrow> False) | _ \<Rightarrow> False)"

definition kb_log :: "world \<Rightarrow> event list" where "kb_log w = filter kb_event (w_trace w)"

text \<open>The surface a keyboard was last told to have the focus of, unless it was told to have lost it.\<close>

definition focus_told :: "nat \<Rightarrow> event \<Rightarrow> nat option option" where
  "focus_told wr e = (case e of Input_out x \<Rightarrow>
     (case x of Send_keyboard_enter r _ s _ \<Rightarrow> if r = wr then Some (Some s) else None
      | Send_keyboard_leave r _ s \<Rightarrow> if r = wr then Some None else None | _ \<Rightarrow> None) | _ \<Rightarrow> None)"

definition focus_now :: "event list \<Rightarrow> nat \<Rightarrow> nat option" where
  "focus_now T wr = fold (\<lambda>e s. case focus_told wr e of None \<Rightarrow> s | Some s' \<Rightarrow> s') T None"

definition entered :: "env \<Rightarrow> event list \<Rightarrow> nat \<Rightarrow> bool" where
  "entered E T wr \<longleftrightarrow> (case focus_now T wr of None \<Rightarrow> False | Some s \<Rightarrow> ext_client E wr = ext_client E s)"

definition keys_justified :: "env \<Rightarrow> event list \<Rightarrow> bool" where
  "keys_justified E T \<longleftrightarrow>
     (\<forall>pre post wr serial time key p. T = pre @ Input_out (Send_keyboard_key wr serial time key p) # post \<longrightarrow> entered E pre wr)"

lemma focus_now_snoc [simp]:
  "focus_now (T @ [e]) wr = (case focus_told wr e of None \<Rightarrow> focus_now T wr | Some s \<Rightarrow> s)"
  "focus_now [] wr = None"
  by (simp_all add: focus_now_def split: option.split)

lemma keys_justified_Nil [simp]: "keys_justified E []"
  by (simp add: keys_justified_def)

lemma keys_justified_snoc:
  "keys_justified E (T @ [e]) \<longleftrightarrow>
     keys_justified E T \<and> (\<forall>wr serial time key p. e = Input_out (Send_keyboard_key wr serial time key p) \<longrightarrow> entered E T wr)"
proof
  assume "keys_justified E (T @ [e])"
  then show "keys_justified E T \<and> (\<forall>wr serial time key p. e = Input_out (Send_keyboard_key wr serial time key p) \<longrightarrow> entered E T wr)"
    unfolding keys_justified_def by (metis append.assoc append_Cons append_Nil2)
next
  assume *: "keys_justified E T \<and> (\<forall>wr serial time key p. e = Input_out (Send_keyboard_key wr serial time key p) \<longrightarrow> entered E T wr)"
  show "keys_justified E (T @ [e])"
    unfolding keys_justified_def
  proof (intro allI impI)
    fix pre post wr serial time key p
    assume eq: "T @ [e] = pre @ Input_out (Send_keyboard_key wr serial time key p) # post"
    show "entered E pre wr"
    proof (cases post rule: rev_cases)
      case Nil
      then show ?thesis using eq * by simp
    next
      case (snoc ys y)
      then have "T = pre @ Input_out (Send_keyboard_key wr serial time key p) # ys" using eq by simp
      then show ?thesis using * unfolding keys_justified_def by blast
    qed
  qed
qed

text \<open>What the keyboard depends on and what it shows: its state, the keyboards of clients, the log.\<close>

definition kb_seen :: "world \<Rightarrow> wlc_keyboard \<times> (nat \<Rightarrow> nat) \<times> event list" where
  "kb_seen w = (keyboard w, (\<lambda>r. wl_of w r K_keyboard), kb_log w)"

definition kb_inv :: "env \<Rightarrow> world \<Rightarrow> bool" where
  "kb_inv E w \<longleftrightarrow> keys_justified E (kb_log w) \<and>
     (\<forall>r\<in>set (kb_focused_resources (keyboard w)). wl_of w r K_keyboard \<noteq> 0 \<longrightarrow> entered E (kb_log w) (wl_of w r K_keyboard))"

lemma kb_log_basic [simp]:
  "kb_log (emit e w) = (if kb_event e then kb_log w @ [e] else kb_log w)" "kb_log (fail x w) = kb_log w"
  "kb_log (upd_keyboard f w) = kb_log w" "kb_log (w\<lparr>w_serial := n\<rparr>) = kb_log w" "kb_log (w\<lparr>w_res := rs\<rparr>) = kb_log w"
  "kb_log (set_user_data wl d w) = kb_log w"
  by (simp_all add: kb_log_def upd_keyboard_def)

lemma wl_of_keyboard [simp]: "wl_of (upd_keyboard f w) r k = wl_of w r k" "wl_of (w\<lparr>w_serial := n\<rparr>) r k = wl_of w r k"
  by (simp_all add: upd_keyboard_def wl_of_def)

lemma kb_seen_basic [simp]:
  "\<not> kb_event e \<Longrightarrow> kb_seen (emit e w) = kb_seen w" "kb_seen (fail x w) = kb_seen w"
  "kb_seen (w\<lparr>w_serial := n\<rparr>) = kb_seen w" "kb_seen (set_user_data wl d w) = kb_seen w"
  by (simp_all add: kb_seen_def)

lemma kb_seenD:
  assumes "kb_seen w' = kb_seen w"
  shows "keyboard w' = keyboard w" "wl_of w' r K_keyboard = wl_of w r K_keyboard" "kb_log w' = kb_log w"
  using assms by (auto simp: kb_seen_def dest: fun_cong)

lemma kb_inv_seen: "kb_seen w' = kb_seen w \<Longrightarrow> kb_inv E w' = kb_inv E w"
  by (simp add: kb_inv_def kb_seenD [where w' = w' and w = w])

lemma kb_inv_basic [simp]:
  "\<not> kb_event e \<Longrightarrow> kb_inv E (emit e w) = kb_inv E w" "kb_inv E (fail x w) = kb_inv E w"
  "kb_inv E (w\<lparr>w_serial := n\<rparr>) = kb_inv E w" "kb_inv E (set_user_data wl d w) = kb_inv E w"
  by (rule kb_inv_seen, simp)+

lemma kb_inv_upd: "kb_focused_resources (f (keyboard w)) = kb_focused_resources (keyboard w) \<Longrightarrow> kb_inv E (upd_keyboard f w) = kb_inv E w"
  by (simp add: kb_inv_def)

text \<open>Only leaving, entering and keys are in the log.\<close>

lemmas kb_event_cases = kb_event_def focus_told_def

lemma kb_events [simp]:
  "kb_event (Input_out (Send_keyboard_key r s t k p))" "kb_event (Input_out (Send_keyboard_enter r s u ks))"
  "kb_event (Input_out (Send_keyboard_leave r s u))" "\<not> kb_event (Input_out (Keyboard_timer i))"
  "\<not> kb_event (Input_out (Send_keyboard_modifiers r s a b c g))" "\<not> kb_event (Input_out (Device_leds d x y z))"
  "\<not> kb_event (Input_out (Send_keyboard_keymap r a i b))" "\<not> kb_event (Input_out (Send_keyboard_repeat_info r a b))"
  "\<not> kb_event (Device_out dv)" "\<not> kb_event (Post_no_memory n)" "\<not> kb_event (Send_toplevel_close n)"
  "\<not> kb_event (Send_popup_done n)" "\<not> kb_event (Send_shell_surface_popup_done n)"
  by (simp_all add: kb_event_def)

lemma kb_seen_serial: "kb_seen (snd (next_serial w)) = kb_seen w"
  by (simp add: next_serial_def)

section \<open>Each step\<close>

lemma kb_inv_send_key:
  assumes "kb_inv E w" "r \<in> set (kb_focused_resources (keyboard w))" "wl_of w r K_keyboard \<noteq> 0"
  shows "kb_inv E (send_key t k p (wl_of w r K_keyboard) w)"
  using assms by (simp add: kb_inv_def send_key_def next_serial_def Let_def keys_justified_snoc entered_def focus_told_def)

lemma kb_inv_for_keys:
  assumes "kb_inv E w" "set rs \<subseteq> set (kb_focused_resources (keyboard w))"
  shows "kb_inv E (for_keyboards (send_key t k p) rs w) \<and>
    keyboard (for_keyboards (send_key t k p) rs w) = keyboard w"
  using assms
proof (induction rs arbitrary: w)
  case (Cons r rs)
  let ?w = "if wl_of w r K_keyboard = 0 then w else send_key t k p (wl_of w r K_keyboard) w"
  have "kb_inv E ?w" "keyboard ?w = keyboard w"
    using Cons.prems kb_inv_send_key [of E w r] by (auto simp: send_key_def next_serial_def)
  then show ?case using Cons by (simp add: for_keyboards_def Let_def)
qed (simp add: for_keyboards_def)

lemma kb_inv_fold_keys:
  assumes "kb_inv E w" "set rs \<subseteq> set (kb_focused_resources (keyboard w))"
  shows "kb_inv E (fold (\<lambda>k. for_keyboards (send_key t k p) rs) ks w) \<and>
    keyboard (fold (\<lambda>k. for_keyboards (send_key t k p) rs) ks w) = keyboard w"
  using assms
proof (induction ks arbitrary: w)
  case (Cons k ks)
  then show ?case using kb_inv_for_keys [OF Cons.prems, of t k p] by simp
qed simp

lemma kb_inv_release_keys:
  assumes "kb_inv E w" "set rs \<subseteq> set (kb_focused_resources (keyboard w))"
  shows "kb_inv E (send_release_for_keys E rs ks w)"
  using kb_inv_fold_keys [OF assms] by (simp add: send_release_for_keys_def Let_def)

lemma for_keyboards_modifiers: "kb_seen (for_keyboards send_modifiers rs w) = kb_seen w"
  unfolding for_keyboards_def
  by (induction rs arbitrary: w) (simp_all add: Let_def send_modifiers_def next_serial_def)

lemma justified_leave:
  "keys_justified E (kb_log w) \<Longrightarrow> keys_justified E (kb_log (for_keyboards (send_leave s) rs w))"
  unfolding for_keyboards_def
  by (induction rs arbitrary: w) (simp_all add: Let_def send_leave_def next_serial_def keys_justified_snoc)

lemma kb_seen_close_view: "env_keeps E kb_seen \<Longrightarrow> kb_seen (wlc_view_close_ptr E vid w) = kb_seen w"
  by (simp add: wlc_view_close_ptr_def Let_def env_keepsD wl_of_not_buffer is_x11_view_def split: option.split)

lemma kb_seen_close_popup: "env_keeps E kb_seen \<Longrightarrow> kb_seen (close_popup E vid s n w) = kb_seen w"
  by (simp add: close_popup_def Let_def kb_seen_close_view split: option.split)

lemma kb_inv_defocus:
  assumes "env_keeps E kb_seen" "kb_inv E w"
  shows "kb_inv E (keyboard_defocus E n w)"
proof -
  note keep = kb_seen_close_popup [OF assms(1)] call_keeps(2) [OF env_keepsD(26) [OF assms(1)]]
  have "keys_justified E (kb_log (send_release_for_keys E (kb_focused_resources (keyboard w)) (kb_keys (keyboard w)) w))"
    using kb_inv_release_keys [OF assms(2)] by (simp add: kb_inv_def)
  then have "keys_justified E (kb_log (keyboard_defocus E n w))"
    using assms(2)
    by (auto simp: keyboard_defocus_def Let_def is_x11_view_def kb_inv_def kb_seenD(3) [OF keep(1)] kb_seenD(3) [OF keep(2)]
        intro!: justified_leave split: option.split)
  then show ?thesis by (simp add: kb_inv_def keyboard_defocus_def Let_def)
qed

lemma enter_keyboard_reads:
  "\<exists>n ks. kb_log (enter_keyboard E s r wr w) = kb_log w @ [Input_out (Send_keyboard_enter wr n s ks)]"
  "kb_focused_resources (keyboard (enter_keyboard E s r wr w)) = pool_push_back (hp E) r (kb_focused_resources (keyboard w))"
  "wl_of (enter_keyboard E s r wr w) x K_keyboard = wl_of w x K_keyboard"
  by (simp_all add: enter_keyboard_def begin_repeat_def send_modifiers_def next_serial_def Let_def)

lemma kb_inv_enter:
  assumes "env_ok E" "kb_inv E w" "wr = wl_of w r K_keyboard" "ext_client E wr = ext_client E s"
  shows "kb_inv E (enter_keyboard E s r wr w)"
proof -
  obtain n ks where log: "kb_log (enter_keyboard E s r wr w) = kb_log w @ [Input_out (Send_keyboard_enter wr n s ks)]"
    using enter_keyboard_reads(1) by blast
  have "x = r \<or> x \<in> set F" if "x \<in> set (pool_push_back (hp E) r F)" for x F
    using pool_push_back_cases [of "hp E" r F] assms(1) that by auto
  then have "entered E (kb_log w @ [Input_out (Send_keyboard_enter wr n s ks)]) (wl_of w x K_keyboard)"
    if "x \<in> set (pool_push_back (hp E) r (kb_focused_resources (keyboard w)))" "wl_of w x K_keyboard \<noteq> 0" for x
    using that assms(2-4) by (cases "wl_of w x K_keyboard = wr") (auto simp: entered_def focus_told_def kb_inv_def)
  then show ?thesis
    using assms(2) by (simp add: kb_inv_def log enter_keyboard_reads(2,3) keys_justified_snoc)
qed

lemma kb_inv_focus_view:
  assumes "env_ok E" "env_keeps E kb_seen" "kb_inv E w"
  shows "kb_inv E (keyboard_focus_view E vid w)"
proof -
  have "kb_inv E (fold (\<lambda>r w. let wr = wl_of w r K_keyboard in
      if wr = 0 \<or> ext_client E wr \<noteq> ext_client E s then w else enter_keyboard E s r wr w) rs w)" for s rs
    using assms(3) by (induction rs arbitrary: w) (simp_all add: Let_def kb_inv_enter assms(1))
  then show ?thesis
    using assms(3)
    by (simp add: keyboard_focus_view_def Let_def kb_inv_upd kb_inv_seen [OF kb_seen_basic(2)]
        kb_inv_seen [OF call_keeps(2) [OF env_keepsD(26) [OF assms(2)]]] split: option.split)
qed

lemma kb_inv_reset: "kb_inv E (reset_repeat w) = kb_inv E w"
  by (simp add: reset_repeat_def kb_inv_upd)

lemma kb_inv_focus:
  assumes "env_ok E" "env_keeps E kb_seen" "kb_inv E w"
  shows "kb_inv E (wlc_keyboard_focus E vid w)"
  using assms by (simp add: wlc_keyboard_focus_def Let_def kb_inv_focus_view kb_inv_defocus kb_inv_reset)

lemma kb_inv_create:
  assumes "kb_inv E w" "\<And>r. ext_new_resource E w = Some r \<Longrightarrow>
      res_name d \<noteq> K_keyboard \<or> r \<notin> set (kb_focused_resources (keyboard w))"
    and "ext_new_resource F = ext_new_resource E"
  shows "kb_inv E (snd (create_resource F client wlid d w))"
  using assms
  by (auto simp: create_resource_def kb_inv_def wl_of_def split: option.splits)

lemma kb_seen_implement [simp]: "kb_seen (implement_resource r d w) = kb_seen w"
  by (simp add: implement_resource_def split: option.split)

lemma kb_inv_implement [simp]: "kb_inv E (implement_resource r d w) = kb_inv E w"
  by (rule kb_inv_seen) simp

lemma kb_inv_fold_offer: "kb_inv E (fold (\<lambda>ty. device (Send_offer n ty)) ts w) = kb_inv E w"
  by (induction ts arbitrary: w) (simp_all add:)

lemma kb_inv_offer:
  assumes "kb_inv E w"
  shows "kb_inv E (wlc_data_device_manager_offer E client w)"
  using assms kb_inv_create [OF assms, of "R_data_offer" E client 0]
  by (auto simp: wlc_data_device_manager_offer_def Let_def kb_inv_fold_offer split: prod.split option.split)

lemma kb_inv_focus_event:
  "env_ok E \<Longrightarrow> env_keeps E kb_seen \<Longrightarrow> kb_inv E w \<Longrightarrow> kb_inv E (seat_focus_event E e w)"
  by (cases e) (simp_all add: Let_def kb_inv_offer kb_inv_focus)

lemma kb_inv_update: "kb_inv E (snd (wlc_keyboard_update F k p w)) = kb_inv E w"
  by (simp add: wlc_keyboard_update_def Let_def kb_inv_upd kb_inv_reset split: prod.split)

lemma kb_inv_modifiers: "kb_inv E (wlc_keyboard_update_modifiers F dev w) = kb_inv E w"
  by (simp add: wlc_keyboard_update_modifiers_def Let_def kb_inv_upd keyboard_update_leds_def
      kb_inv_seen [OF for_keyboards_modifiers])

lemma kb_inv_request:
  assumes "env_keeps E kb_seen" "kb_inv E w"
  shows "kb_inv E (snd (wlc_keyboard_request_key E t m k p w))"
  using assms
  by (simp add: wlc_keyboard_request_key_def begin_repeat_def Let_def kb_inv_upd case_prod_beta
      kb_inv_seen [OF call_keeps(4) [OF env_keepsD(29) [OF assms(1)]]])

lemma kb_inv_key:
  assumes "env_keeps E kb_seen" "kb_inv E w"
  shows "kb_inv E (seat_handle_key E t dev k p w)"
proof -
  have "kb_inv E (wlc_keyboard_key t k p v)" if "kb_inv E v" for v
    using kb_inv_for_keys [OF that] by (simp add: wlc_keyboard_key_def)
  then show ?thesis
    using assms kb_inv_request [OF assms(1)] kb_inv_update [of E E] kb_inv_modifiers [of E E]
    by (auto simp: seat_handle_key_def Let_def case_prod_beta kb_inv_seen [OF env_keepsD(36) [OF assms(1)]])
qed

section \<open>Runs\<close>

text \<open>The seat listens to focus and input itself.\<close>

definition seat_wired :: "env \<Rightarrow> env" where
  "seat_wired E = E\<lparr>sig_focus := seat_focus_event E, sig_input := seat_input_event E\<rparr>"

lemma kb_inv_repeat:
  assumes "env_keeps E kb_seen" "kb_inv E w"
  shows "kb_inv E (cb_repeat (seat_wired E) w)"
proof -
  let ?F = "seat_wired E"
  have *: "kb_inv E (fold (\<lambda>key w. if xkb_key_repeats (xkb ?F) (key + 8)
      then upd_keyboard (\<lambda>k. k\<lparr>kb_xkb := xkb_update_key (xkb ?F) (kb_xkb k) (key + 8) False\<rparr>) w
      else upd_keyboard (\<lambda>k. k\<lparr>kb_keys := snd (update_keys ?F key True (kb_keys k))\<rparr>) w) ks v)" if "kb_inv E v" for ks v
    using that by (induction ks arbitrary: v) (simp_all add: kb_inv_upd)
  have **: "kb_inv E (fold (\<lambda>key w. if \<not> xkb_key_repeats (xkb ?F) (key + 8) then w
      else sig_input ?F (WLC_INPUT_EVENT_KEY (ext_time ?F w) 0 key True) w) ks v)" if "kb_inv E v" for ks v
    using that by (induction ks arbitrary: v) (simp_all add: seat_wired_def kb_inv_key [OF assms(1)])
  show ?thesis
    using assms(2) by (simp add: cb_repeat_def Let_def * ** kb_inv_upd)
qed

lemma kb_inv_focus_ptr:
  assumes "env_ok E" "env_keeps E kb_seen" "kb_inv E w"
  shows "kb_inv E (wlc_view_focus_ptr (seat_wired E) vid w)"
  using assms(3) kb_inv_focus_event [OF assms(1,2)]
  by (simp add: wlc_view_focus_ptr_def wlc_x11_window_set_active_def seat_wired_def Let_def del: seat_focus_event.simps
      split: option.split)

lemma kb_inv_get_keyboard:
  assumes "env_ok E" "env_keeps E kb_seen" "kb_inv E w"
    and "\<And>r. ext_new_resource E w = Some r \<Longrightarrow> r \<notin> set (kb_focused_resources (keyboard w))"
  shows "kb_inv E (wl_cb_seat_get_keyboard (seat_wired E) client res wlid w)"
proof -
  have greet: "kb_inv E (greet_keyboard F wr v) = kb_inv E v" for F wr v
    by (simp add: greet_keyboard_def Let_def)
  have refocus: "kb_inv E (refocus_client (seat_wired E) client v)" if "kb_inv E v" for v
    using that by (simp add: refocus_client_def Let_def kb_inv_upd kb_inv_focus_ptr assms(1,2))
  have "kb_inv E (snd (create_resource (seat_wired E) client wlid R_keyboard w))"
    using kb_inv_create [OF assms(3), of R_keyboard "seat_wired E"] assms(4) by (simp add: seat_wired_def)
  then show ?thesis
    using assms(3)
    by (auto simp: wl_cb_seat_get_keyboard_def Let_def refocus greet kb_inv_upd split: prod.split)
qed

text \<open>The steps of the seat that concern keys: the focus moves, a key comes in, the repeat timer fires, a client
  asks for a keyboard, a resource goes away; anything else leaves the keyboards alone.\<close>

inductive kb_step :: "env \<Rightarrow> world \<Rightarrow> world \<Rightarrow> bool" for E :: env where
  focus: "kb_step E w (seat_focus_event E e w)"
| key: "kb_step E w (seat_input_event E (WLC_INPUT_EVENT_KEY time dev code p) w)"
| timer: "kb_step E w (cb_repeat (seat_wired E) w)"
| new: "(\<And>r. ext_new_resource E w = Some r \<Longrightarrow> r \<notin> set (kb_focused_resources (keyboard w))) \<Longrightarrow>
    kb_step E w (wl_cb_seat_get_keyboard (seat_wired E) client res wlid w)"
| gone: "kb_step E w (w\<lparr>w_res := (w_res w)(r := None)\<rparr>)"
| other: "kb_seen w' = kb_seen w \<Longrightarrow> kb_step E w w'"

lemma kb_inv_step:
  assumes "kb_step E w w'" "env_ok E" "env_keeps E kb_seen" "kb_inv E w"
  shows "kb_inv E w'"
  using assms
proof (induction rule: kb_step.induct)
  case (gone w r)
  then show ?case by (auto simp: kb_inv_def wl_of_def)
next
  case (other w' w)
  then show ?case using kb_inv_seen by blast
qed (simp_all add: kb_inv_focus_event kb_inv_key kb_inv_repeat kb_inv_get_keyboard)


text \<open>A view whose client has a keyboard: it gets the focus, a key is pressed.\<close>

definition world_typing :: world where
  "world_typing = put_view 5 (view_blank\<lparr>v_surface := 7\<rparr>) (put_res 7 (R_surface surface_blank) 70 (put_res 9 R_keyboard 90
     (world_blank\<lparr>w_seat := seat_blank\<lparr>se_keyboard := (se_keyboard seat_blank)\<lparr>kb_keymap := False, kb_resources := [9]\<rparr>\<rparr>\<rparr>)))"

lemma world_typing_of [simp]:
  "keyboard world_typing = (se_keyboard seat_blank)\<lparr>kb_keymap := False, kb_resources := [9]\<rparr>"
  "view_of world_typing h = (if h = 5 then Some (view_blank\<lparr>v_surface := 7\<rparr>) else None)"
  "wl_of world_typing r k = (if r = 7 then (if k = K_surface then 70 else 0) else if r = 9 then (if k = K_keyboard then 90 else 0) else 0)"
  "w_trace world_typing = []" "w_serial world_typing = 0" "w_seat world_typing = seat_blank\<lparr>se_keyboard := (se_keyboard seat_blank)\<lparr>kb_keymap := False, kb_resources := [9]\<rparr>\<rparr>"
  by (auto simp: world_typing_def keyboard_def sample_access put_view_def put_res_def world_blank_def)

lemma seat_upd_keyboard [simp]: "view_of (upd_keyboard f w) h = view_of w h" "w_serial (upd_keyboard f w) = w_serial w"
  "w_trace (upd_keyboard f w) = w_trace w" "w_serial (emit e w) = w_serial w" "view_of (w\<lparr>w_serial := n\<rparr>) h = view_of w h"
  "view_of (emit e w) h = view_of w h" "dm_devices (se_manager (w_seat (upd_keyboard f w))) = dm_devices (se_manager (w_seat w))"
  by (simp_all add: upd_keyboard_def sample_access upd_seat_def)

lemma world_typing_log:
  "kb_log (seat_input_event env_ref (WLC_INPUT_EVENT_KEY 4 0 30 True) (seat_focus_event env_ref (WLC_FOCUS_EVENT_VIEW 5) world_typing)) =
     [Input_out (Send_keyboard_enter 90 2 70 []), Input_out (Send_keyboard_key 90 4 4 30 True)]"
proof -
  have b: "keyboard (wlc_keyboard_focus env_ref 5 world_typing) =
     (se_keyboard seat_blank)\<lparr>kb_keymap := False, kb_resources := [9], kb_focused_resources := [9], kb_focused_view := 5\<rparr>"
     "kb_log (wlc_keyboard_focus env_ref 5 world_typing) = [Input_out (Send_keyboard_enter 90 2 70 [])]"
    by (simp_all add: wlc_keyboard_focus_def keyboard_defocus_def keyboard_focus_view_def Let_def seat_blank_def reset_repeat_def
     enter_keyboard_def begin_repeat_def send_modifiers_def next_serial_def kb_log_def enter_keys_def repeating_keys_def call2_def
     pool_push_back_def pool_ref_total)
  have c: "view_of (wlc_keyboard_focus env_ref 5 world_typing) 5 \<noteq> None" "dm_devices (manager (wlc_keyboard_focus env_ref 5 world_typing)) = []"
    "w_serial (wlc_keyboard_focus env_ref 5 world_typing) = 2" "wl_of (wlc_keyboard_focus env_ref 5 world_typing) 9 K_keyboard = 90"
    by (simp_all add: wlc_keyboard_focus_def keyboard_defocus_def keyboard_focus_view_def Let_def seat_blank_def reset_repeat_def
     enter_keyboard_def begin_repeat_def send_modifiers_def next_serial_def kb_log_def enter_keys_def repeating_keys_def call2_def
     pool_push_back_def pool_ref_total manager_def)
  have f: "seat_focus_event env_ref (WLC_FOCUS_EVENT_VIEW 5) world_typing = wlc_keyboard_focus env_ref 5 world_typing"
    using c by (auto simp: wlc_data_device_manager_offer_def Let_def wl_resource_for_client_of_def)
  show ?thesis unfolding f
    apply (simp add: seat_handle_key_def Let_def case_prod_beta wlc_keyboard_update_def update_keys_def b c pool_ref_total seat_blank_def
       reset_repeat_def wlc_keyboard_update_modifiers_def for_keyboards_def send_modifiers_def next_serial_def is_vt_key_def xkb_ref_def
       wlc_keyboard_request_key_def wlc_keyboard_key_def send_key_def keyboard_update_leds_def call1_except_def
       WLC_BIT_MOD_CTRL_def WLC_BIT_MOD_ALT_def)
    done
qed


section \<open>A stale number\<close>

lemma send_key_log: "kb_log (send_key time key p wr w) = kb_log w @ [Input_out (Send_keyboard_key wr (w_serial w + 1) time key p)]"
  "wl_of (send_key time key p wr w) r k = wl_of w r k" "keyboard (send_key time key p wr w) = keyboard w"
  by (simp_all add: send_key_def next_serial_def)

lemma unjustified_stays:
  "\<not> keys_justified E (kb_log w) \<Longrightarrow> \<not> keys_justified E (kb_log (for_keyboards (send_key time key p) rs w))"
  unfolding for_keyboards_def
  by (induction rs arbitrary: w) (simp_all add: Let_def send_key_log keys_justified_snoc)

lemma unjustified_send:
  assumes "r \<in> set rs" "wl_of w r K_keyboard = wr" "wr \<noteq> 0" "\<not> entered E (kb_log w) wr"
  shows "\<not> keys_justified E (kb_log (for_keyboards (send_key time key p) rs w))"
  using assms
proof (induction rs arbitrary: w)
  case (Cons x rs)
  let ?w = "if wl_of w x K_keyboard = 0 then w else send_key time key p (wl_of w x K_keyboard) w"
  have rec: "for_keyboards (send_key time key p) (x # rs) w = for_keyboards (send_key time key p) rs ?w"
    by (simp add: for_keyboards_def Let_def)
  show ?case
  proof (cases "wl_of w x K_keyboard = wr")
    case True
    then have "\<not> keys_justified E (kb_log ?w)" using Cons.prems by (simp add: send_key_log keys_justified_snoc)
    then show ?thesis unfolding rec by (rule unjustified_stays)
  next
    case False
    then show ?thesis unfolding rec using Cons.prems
      by (intro Cons.IH) (auto simp: send_key_log entered_def focus_told_def)
  qed
qed simp

lemma view_client_cong:
  "view_of w' = view_of w \<Longrightarrow> (\<And>r. wl_of w' r K_surface = wl_of w r K_surface) \<Longrightarrow>
     wlc_view_get_client_ptr E w' vid = wlc_view_get_client_ptr E w vid"
  by (simp add: wlc_view_get_client_ptr_def Let_def split: option.split)

text \<open>The list of keyboards with the focus is not cleared of a keyboard that is destroyed: when its
  number is given to a new keyboard of a client without the focus, that keyboard is sent the next key though
  it was never told to have entered a surface.\<close>

theorem stale_keyboard_gets_keys:
  assumes "r \<in> set (kb_focused_resources (keyboard w))" and "r \<noteq> 0" and "w_res w r = None"
    and "ext_new_resource E w = Some r" and "ext_wl_create E client wlid w = wr" and "wr \<noteq> 0"
    and "w_udata w res \<noteq> UD_null" and "wlc_view_get_client_ptr E w (kb_focused_view (keyboard w)) \<noteq> client"
    and "\<not> entered E (kb_log w) wr"
  shows "\<not> keys_justified E (kb_log (wlc_keyboard_key time key p (wl_cb_seat_get_keyboard E client res wlid w)))"
proof -
  let ?n = "w\<lparr>w_res := (w_res w)(r \<mapsto> \<lparr>re_data = R_keyboard, re_wl = wr\<rparr>)\<rparr>"
  let ?v = "greet_keyboard E wr (implement_resource r UD_keyboard
     (upd_keyboard (\<lambda>k. k\<lparr>kb_resources := ext_pool_add E (kb_resources k) r\<rparr>) ?n))"
  have "keyboard ?n = keyboard w \<and> kb_log ?n = kb_log w" by simp
  have nw: "wl_of ?n x k = (if x = r then (if k = K_keyboard then wr else 0) else wl_of w x k)" "view_of ?n x = view_of w x" for x k
    using assms(2) by (auto simp: wl_of_def view_of_def)
  have greet: "wl_of (greet_keyboard E wr u) x k = wl_of u x k" "view_of (greet_keyboard E wr u) x = view_of u x"
    "keyboard (greet_keyboard E wr u) = keyboard u" "kb_log (greet_keyboard E wr u) = kb_log u" for u x k
    by (simp_all add: greet_keyboard_def Let_def)
  have impl: "implement_resource r UD_keyboard (upd_keyboard f ?n) = set_user_data wr UD_keyboard (upd_keyboard f ?n)" for f
    using assms(2) by (simp add: implement_resource_def upd_keyboard_def upd_seat_def)
  have v: "wl_of ?v x k = (if x = r then (if k = K_keyboard then wr else 0) else wl_of w x k)"
     "view_of ?v x = view_of w x"
     "kb_focused_resources (keyboard ?v) = kb_focused_resources (keyboard w)" "kb_log ?v = kb_log w"
     "kb_focused_view (keyboard ?v) = kb_focused_view (keyboard w)" for x k
    unfolding impl greet by (simp_all add: nw)
  have client: "wlc_view_get_client_ptr E ?v vid = wlc_view_get_client_ptr E w vid" for vid
  proof (rule view_client_cong)
    have "wl_of w r K_surface = 0" using assms(3) by (simp add: wl_of_def)
    then show "wl_of ?v x K_surface = wl_of w x K_surface" for x by (simp add: v)
  qed (simp add: fun_eq_iff v)
  have "snd (create_resource E client wlid R_keyboard w) = ?n" "fst (create_resource E client wlid R_keyboard w) = r"
    using assms(4,5) by (simp_all add: create_resource_def)
  then have "wl_cb_seat_get_keyboard E client res wlid w =
     refocus_client E client (greet_keyboard E (wl_of (implement_resource r UD_keyboard
     (upd_keyboard (\<lambda>k. k\<lparr>kb_resources := ext_pool_add E (kb_resources k) r\<rparr>) ?n)) r K_keyboard) (implement_resource r UD_keyboard
     (upd_keyboard (\<lambda>k. k\<lparr>kb_resources := ext_pool_add E (kb_resources k) r\<rparr>) ?n)))"
    using assms(2,7) by (simp only: wl_cb_seat_get_keyboard_def Let_def case_prod_beta if_False)
  also have "\<dots> = refocus_client E client ?v" by (simp add: impl nw)
  also have "\<dots> = ?v" using assms(8) by (simp add: refocus_client_def Let_def v client)
  finally have run: "wl_cb_seat_get_keyboard E client res wlid w = ?v" .
  show ?thesis
    unfolding run wlc_keyboard_key_def v
    by (rule unjustified_send [OF assms(1)]) (use assms in \<open>simp_all add: v\<close>)
qed

text \<open>The keyboard 9 of client 1 had the focus and is gone; client 2 gets a keyboard.\<close>

definition env_reuse :: env where
  "env_reuse = env_ref\<lparr>ext_new_resource := (\<lambda>_. Some 9), ext_wl_create := (\<lambda>_ _ _. 91)\<rparr>"

definition world_stale :: world where
  "world_stale = world_blank\<lparr>w_udata := (\<lambda>_. UD_seat),
     w_seat := seat_blank\<lparr>se_keyboard := (se_keyboard seat_blank)\<lparr>kb_focused_resources := [9]\<rparr>\<rparr>\<rparr>"

theorem stale_keyboard_gets_keys_witness:
  "\<not> keys_justified env_reuse (kb_log (wlc_keyboard_key 4 30 True (wl_cb_seat_get_keyboard env_reuse 2 60 0 world_stale)))"
  by (rule stale_keyboard_gets_keys [where r = 9 and wr = 91])
    (simp_all add: env_reuse_def world_stale_def keyboard_def world_blank_def seat_blank_def wlc_view_get_client_ptr_def
      view_of_def wl_of_def entered_def kb_log_def)

end
