(* ===== verification/Clipboard.thy ===== *)
theory Clipboard
  imports Datadevice
begin

text \<open>
  What holds of the selection: the reference in the manager is typed and live as long as clients only use their
  requests, what a change of the selection tells whom, and what is left when the owner disconnects.
\<close>

section \<open>What the clipboard sees\<close>

definition clip :: "world \<Rightarrow> wlc_data_device_manager \<times> (nat \<Rightarrow> wlc_data_source option) \<times> (nat \<Rightarrow> wlc_data_source option)" where
  "clip w = (manager w, se_customs (w_seat w), data_source_of w)"

lemma clipD:
  assumes "clip w' = clip w"
  shows "manager w' = manager w" "se_customs (w_seat w') = se_customs (w_seat w)" "data_source_of w' = data_source_of w"
  using assms by (simp_all add: clip_def)

lemma data_source_of_basic [simp]:
  "data_source_of (emit e w) = data_source_of w" "data_source_of (fail x w) = data_source_of w"
  "data_source_of (upd_manager g w) = data_source_of w" "data_source_of (set_user_data wl d w) = data_source_of w"
  "data_source_of (upd_seat f w) = data_source_of w"
  by (simp_all add: fun_eq_iff data_source_of_def upd_manager_def)

lemma clip_basic [simp]:
  "clip (emit e w) = clip w" "clip (fail x w) = clip w" "clip (set_user_data wl d w) = clip w"
  "clip (upd_manager g w) = (g (manager w), se_customs (w_seat w), data_source_of w)"
  by (simp_all add: clip_def manager_def upd_manager_def)

lemma manager_basic [simp]:
  "manager (emit e w) = manager w" "manager (fail x w) = manager w" "manager (set_user_data wl d w) = manager w"
  "manager (upd_manager g w) = g (manager w)"
  by (simp_all add: manager_def upd_manager_def)

lemma source_at_upd_manager [simp]:
  "source_at (upd_manager g w) s = source_at w s" "se_customs (w_seat (upd_manager g w)) = se_customs (w_seat w)"
  by (cases s) (simp_all add: upd_manager_def data_source_of_def)

lemma clip_implement [simp]: "clip (implement_resource r d w) = clip w"
  by (simp add: implement_resource_def split: option.split)

text \<open>Every source carries the functions of its kind, and the selection is one that exists.\<close>

definition sources_typed :: "world \<Rightarrow> bool" where
  "sources_typed w \<longleftrightarrow> (\<forall>r d. data_source_of w r = Some d \<longrightarrow> ds_impl d = Impl_client) \<and>
     (\<forall>n d. se_customs (w_seat w) n = Some d \<longrightarrow> ds_impl d = Impl_custom)"

definition selection_live :: "world \<Rightarrow> bool" where
  "selection_live w \<longleftrightarrow> dm_source (manager w) = No_source \<or> source_at w (dm_source (manager w)) \<noteq> None"

definition clip_ok :: "world \<Rightarrow> bool" where "clip_ok w \<longleftrightarrow> sources_typed w \<and> selection_live w"

lemma source_at_clip: "clip w' = clip w \<Longrightarrow> source_at w' s = source_at w s"
  by (cases s) (simp_all add: clip_def)

lemma clip_ok_clip: "clip w' = clip w \<Longrightarrow> clip_ok w' = clip_ok w"
  using source_at_clip [of w' w] by (simp add: clip_ok_def sources_typed_def selection_live_def clipD [of w' w])

section \<open>Laws of the environment\<close>

text \<open>The listeners of the selection signal leave the clipboard alone, releasing a resource removes at most that one,
  and new resources get numbers that are free.\<close>

definition clip_env :: "env \<Rightarrow> bool" where
  "clip_env E \<longleftrightarrow>
     (\<forall>s w. clip (sig_selection E s w) = clip w) \<and>
     (\<forall>r w. manager (release_resource E r w) = manager w \<and> se_customs (w_seat (release_resource E r w)) = se_customs (w_seat w) \<and>
        (\<forall>x. data_source_of (release_resource E r w) x = data_source_of w x \<or> x = r \<and> data_source_of (release_resource E r w) x = None)) \<and>
     (\<forall>w r. ext_new_resource E w = Some r \<longrightarrow> w_res w r = None)"

lemma clip_create:
  assumes "clip_env E" "create_resource E client wlid d w = (r, w')"
  shows "manager w' = manager w" "se_customs (w_seat w') = se_customs (w_seat w)"
    "data_source_of w' = (if r = 0 then data_source_of w else (data_source_of w)(r := (case d of R_data_source s \<Rightarrow> Some s | _ \<Rightarrow> None)))"
  using assms(2)
  by (cases "ext_new_resource E w"; fastforce simp: create_resource_def data_source_of_def manager_def split: res_data.split)+

lemma clip_create_other:
  assumes "clip_env E" "create_resource E client wlid d w = (r, w')" "\<And>s. d \<noteq> R_data_source s"
  shows "clip w' = clip w"
proof -
  have "data_source_of w r = None"
    using assms(1,2) by (auto simp: create_resource_def clip_env_def data_source_of_def split: option.splits)
  then have "data_source_of w' = data_source_of w"
    using clip_create(3) [OF assms(1,2)] assms(3) by (auto simp: fun_eq_iff split: res_data.splits)
  then show ?thesis using clip_create(1,2) [OF assms(1,2)] by (simp add: clip_def)
qed

section \<open>Each operation\<close>

lemma clip_offer: assumes "clip_env E" shows "clip (wlc_data_device_manager_offer E client w) = clip w"
proof -
  have "clip (fold (\<lambda>ty. device (Send_offer n ty)) ts v) = clip v" for n ts v by (induction ts arbitrary: v) simp_all
  then show ?thesis
    using clip_create_other [OF assms, of client 0 R_data_offer w]
    by (auto simp: wlc_data_device_manager_offer_def Let_def split: prod.split option.split)
qed

lemma cancel_reads:
  "manager (through impl_cancel s w) = manager w" "data_source_of (through impl_cancel s w) = data_source_of w"
  "se_customs (w_seat (through impl_cancel s w)) =
     (case s of Custom_source n \<Rightarrow> (se_customs (w_seat w))(n := None) | _ \<Rightarrow> se_customs (w_seat w))"
  by (cases s; auto simp: through_def data_source_client_cancel_def custom_data_source_cancel_def Let_def manager_def)+

lemma clip_ok_set_source:
  assumes "clip_env E" "clip_ok w" "s = No_source \<or> source_at w s \<noteq> None \<and> s \<noteq> dm_source (manager w)"
  shows "clip_ok (wlc_data_device_manager_set_source E s w)" "dm_source (manager (wlc_data_device_manager_set_source E s w)) = s"
proof -
  define v where "v = sig_selection E s (upd_manager (\<lambda>m. m\<lparr>dm_source := s\<rparr>)
     (if dm_source (manager w) \<noteq> No_source then through impl_cancel (dm_source (manager w)) w else w))"
  have "clip (wlc_data_device_manager_set_source E s w) = clip v"
    by (simp add: wlc_data_device_manager_set_source_def v_def Let_def clip_offer [OF assms(1)])
  moreover have "clip v = clip (upd_manager (\<lambda>m. m\<lparr>dm_source := s\<rparr>)
     (if dm_source (manager w) \<noteq> No_source then through impl_cancel (dm_source (manager w)) w else w))"
    using assms(1) by (simp add: v_def clip_env_def)
  ultimately have c: "clip (wlc_data_device_manager_set_source E s w) = clip (upd_manager (\<lambda>m. m\<lparr>dm_source := s\<rparr>)
     (if dm_source (manager w) \<noteq> No_source then through impl_cancel (dm_source (manager w)) w else w))" by simp
  have "clip_ok (upd_manager (\<lambda>m. m\<lparr>dm_source := s\<rparr>)
     (if dm_source (manager w) \<noteq> No_source then through impl_cancel (dm_source (manager w)) w else w))"
    using assms(2,3)
    by (cases s; cases "dm_source (manager w)")
      (auto simp: clip_ok_def sources_typed_def selection_live_def cancel_reads)
  then show "clip_ok (wlc_data_device_manager_set_source E s w)" using clip_ok_clip [OF c] by simp
  show "dm_source (manager (wlc_data_device_manager_set_source E s w)) = s" using clipD(1) [OF c] by simp
qed

lemma clip_ok_upd_source:
  assumes "clip_ok w" "\<And>d. ds_impl (f d) = ds_impl d"
  shows "clip_ok (upd_source s f w)"
proof -
  have "source_at (upd_source s f w) t = (if s = t then map_option f (source_at w t) else source_at w t)" for t
    by (cases s; cases t) (auto simp: data_source_of_def upd_seat_def split: option.splits res_data.splits)
  then show ?thesis
    using assms
    by (cases s) (auto simp: clip_ok_def sources_typed_def selection_live_def manager_def data_source_of_def upd_seat_def
        split: option.splits res_data.splits if_splits)
qed

lemma clip_ok_release:
  assumes "clip_env E" "clip_ok w" "dm_source (manager w) \<noteq> Client_source r"
  shows "clip_ok (release_resource E r w)"
proof -
  have *: "manager (release_resource E r w) = manager w" "se_customs (w_seat (release_resource E r w)) = se_customs (w_seat w)"
    "data_source_of (release_resource E r w) x = data_source_of w x \<or> x = r \<and> data_source_of (release_resource E r w) x = None" for x
    using assms(1) by (auto simp: clip_env_def)
  have "sources_typed (release_resource E r w)"
    using assms(2) * by (auto simp: clip_ok_def sources_typed_def) (metis option.distinct(1))
  moreover have "data_source_of (release_resource E r w) x = data_source_of w x" if "x \<noteq> r" for x using *(3) [of x] that by simp
  then have "selection_live (release_resource E r w)"
    using assms(2,3) by (cases "dm_source (manager w)") (auto simp: clip_ok_def selection_live_def *(1,2))
  ultimately show ?thesis by (simp add: clip_ok_def)
qed

section \<open>Runs\<close>

text \<open>The requests of clients, a selection of the author, an offer to the client that gets the focus, and what does not
  concern the clipboard. A source is only destroyed through its own request, and a source of the author is a new
  object.\<close>

inductive clip_step :: "env \<Rightarrow> world \<Rightarrow> world \<Rightarrow> bool" for E :: env where
  source: "w_udata w res \<noteq> UD_null \<Longrightarrow> clip_step E w (wl_data_source_implementation E r res q w)"
| create: "clip_step E w (wl_cb_manager_create_data_source E client res wlid w)"
| select: "clip_step E w (wl_cb_data_device_set_selection E client res s w)"
| author: "se_customs (w_seat w) (ext_new_custom E w) = None \<Longrightarrow>
    clip_step E w (wlc_data_device_manager_set_custom_selection E tys w)"
| offer: "data_source_of w r = None \<Longrightarrow> clip_step E w (wl_data_offer_implementation E r res oq w)"
| device: "clip_step E w (wl_cb_manager_get_data_device E client seat_res wlid w)"
| focus: "clip_step E w (wlc_data_device_manager_offer E client w)"
| other: "clip w' = clip w \<Longrightarrow> clip_step E w w'"

lemma clip_ok_source:
  assumes "clip_env E" "clip_ok w" "w_udata w res \<noteq> UD_null"
  shows "clip_ok (wl_data_source_implementation E r res q w)"
proof (cases q)
  case (Source_offer ty)
  then show ?thesis using assms(2) by (simp add: wl_cb_data_source_offer_def clip_ok_upd_source del: upd_source.simps)
next
  case Source_destroy
  let ?v = "wlc_data_device_manager_set_source E No_source w"
  have "dm_source (manager w) \<noteq> Client_source r" if "data_source_of w r = None"
    using that assms(2) by (auto simp: clip_ok_def selection_live_def)
  then show ?thesis
    using clip_ok_set_source [OF assms(1,2), of No_source] clip_ok_release [OF assms(1)] assms Source_destroy
    by (simp add: wl_cb_data_source_destroy_def Let_def)
next
  case (Source_set_actions a)
  then show ?thesis using assms(2) by (simp add: wl_cb_data_source_set_actions_def clip_ok_upd_source del: upd_source.simps)
qed

lemma data_source_upd: "data_source_of (upd_source (Client_source r) f w) x = (if x = r then map_option f (data_source_of w x) else data_source_of w x)"
  by (cases "w_res w r"; cases "re_data (the (w_res w r))") (simp_all add: data_source_of_def)

lemma clip_ok_create:
  assumes "clip_env E" "clip_ok w"
  shows "clip_ok (wl_cb_manager_create_data_source E client res wlid w)"
proof -
  let ?d = "wlc_data_source_ctor Impl_null"
  obtain r w' where c: "create_resource E client wlid (R_data_source ?d) w = (r, w')" by fastforce
  note reads = clip_create [OF assms(1) c]
  show ?thesis
  proof (cases "r = 0 \<or> w_udata w res = UD_null")
    case True
    have "clip w' = clip w" if "r = 0" using reads that by (simp add: clip_def)
    then show ?thesis using True assms(2) c clip_ok_clip [of w' w] by (auto simp: wl_cb_manager_create_data_source_def)
  next
    case False
    let ?v = "upd_source (Client_source r) (\<lambda>d. d\<lparr>ds_impl := Impl_client\<rparr>) w'"
    have new: "data_source_of ?v = (data_source_of w)(r \<mapsto> ?d\<lparr>ds_impl := Impl_client\<rparr>)"
      using False by (intro ext) (simp add: data_source_upd reads(3) del: upd_source.simps)
    have same: "manager ?v = manager w" "se_customs (w_seat ?v) = se_customs (w_seat w)"
      using reads(1,2) by (simp_all add: manager_def)
    have "clip_ok ?v"
      using assms(2) new same by (cases "dm_source (manager w)") (auto simp: clip_ok_def sources_typed_def selection_live_def)
    then show ?thesis
      using False c clip_ok_clip [OF clip_implement, of r UD_manager ?v] by (simp add: wl_cb_manager_create_data_source_def)
  qed
qed

lemma clip_ok_select:
  assumes "clip_env E" "clip_ok w"
  shows "clip_ok (wl_cb_data_device_set_selection E client res s w)"
  using clip_ok_set_source(1) [OF assms, of "Client_source s"] clip_ok_clip [OF clip_offer [OF assms(1)]] assms(2)
  by (auto simp: wl_cb_data_device_set_selection_def)

lemma custom_types_clip: "clip (snd (custom_types E tys w)) = clip w"
proof -
  have "clip (snd (fold (\<lambda>ty (ts, w). if ext_calloc E (Suc (length ts)) then (push_type E ty ts, w) else (ts, fail Null_pointer w)) tys p)) =
      clip (snd p)" for p
    by (induction tys arbitrary: p) (auto split: prod.split)
  then show ?thesis by (simp add: custom_types_def)
qed

lemma clip_ok_author:
  assumes "clip_env E" "clip_ok w" and free: "se_customs (w_seat w) (ext_new_custom E w) = None"
  shows "clip_ok (wlc_data_device_manager_set_custom_selection E tys w)"
proof -
  let ?n = "ext_new_custom E w"
  obtain ts v where t: "custom_types E tys w = (ts, v)" by fastforce
  have v: "manager v = manager w" "se_customs (w_seat v) = se_customs (w_seat w)" "data_source_of v = data_source_of w"
    using clipD [OF custom_types_clip [of E tys w]] t by simp_all
  let ?u = "upd_seat (\<lambda>s. s\<lparr>se_customs := (se_customs s)(?n \<mapsto> (wlc_data_source_ctor Impl_custom)\<lparr>ds_types := ts\<rparr>)\<rparr>) v"
  have m: "manager ?u = manager w" using v(1) by (simp add: manager_def)
  have "clip_ok ?u" "dm_source (manager ?u) \<noteq> Custom_source ?n" "source_at ?u (Custom_source ?n) \<noteq> None"
    using assms(2) v m free
    by (cases "dm_source (manager w)"; auto simp: clip_ok_def sources_typed_def selection_live_def wlc_data_source_ctor_def)+
  then show ?thesis
    using clip_ok_set_source(1) [OF assms(1), of ?u "Custom_source ?n"]
    by (simp add: wlc_data_device_manager_set_custom_selection_def Let_def t del: source_at.simps)
qed

lemma clip_impl: "clip (impl_accept s ty w) = clip w" "clip (impl_send s mt fd w) = clip w" "clip (impl_dnd_finished s w) = clip w"
  by (cases s; simp add: data_source_client_accept_def data_source_client_send_def data_source_client_dnd_finished_def
      custom_data_source_send_def to_source_def Let_def)+

lemma clip_ok_offer_request:
  assumes "clip_env E" "clip_ok w" "data_source_of w r = None"
  shows "clip_ok (wl_data_offer_implementation E r res q w)"
proof (cases q)
  case Offer_destroy
  have "dm_source (manager w) \<noteq> Client_source r" using assms(2,3) by (auto simp: clip_ok_def selection_live_def)
  then show ?thesis using Offer_destroy clip_ok_release [OF assms(1,2)] by simp
qed (use assms(2) in \<open>auto simp: wl_cb_data_offer_accept_def wl_cb_data_offer_receive_def wl_cb_data_offer_finish_def
      wl_cb_data_offer_set_actions_def through_def clip_ok_clip [OF clip_impl(1)] clip_ok_clip [OF clip_impl(2)]
      clip_ok_clip [OF clip_impl(3)] clip_ok_clip [OF clip_basic(2)] clip_ok_upd_source simp del: upd_source.simps
      split: option.split\<close>)

lemma clip_ok_device:
  assumes "clip_env E" "clip_ok w"
  shows "clip_ok (wl_cb_manager_get_data_device E client seat_res wlid w)"
proof -
  obtain r v where c: "create_resource E client wlid R_data_device w = (r, v)" by fastforce
  have v: "clip v = clip w" using clip_create_other [OF assms(1) c] by simp
  have "clip_ok (upd_manager (\<lambda>m. m\<lparr>dm_devices := ds\<rparr>) v)" for ds
    using assms(2) clip_ok_clip [OF v] by (simp add: clip_ok_def sources_typed_def selection_live_def)
  moreover have "upd_manager (\<lambda>m. m\<lparr>dm_devices := ext_pool_add E (dm_devices m) r\<rparr>) v =
      upd_manager (\<lambda>m. m\<lparr>dm_devices := ext_pool_add E (dm_devices (manager v)) r\<rparr>) v"
    by (simp add: upd_manager_def upd_seat_def manager_def)
  ultimately show ?thesis
    using assms(2) clip_ok_clip [OF v] c
    by (simp add: wl_cb_manager_get_data_device_def clip_ok_clip [OF clip_implement])
qed

lemma clip_ok_step: "clip_step E w w' \<Longrightarrow> clip_env E \<Longrightarrow> clip_ok w \<Longrightarrow> clip_ok w'"
proof (induction rule: clip_step.induct)
  case (focus w client)
  then show ?case using clip_ok_clip [OF clip_offer] by blast
next
  case (other w' w)
  then show ?case using clip_ok_clip by blast
qed (simp_all add: clip_ok_source clip_ok_create clip_ok_select clip_ok_author clip_ok_offer_request clip_ok_device)

text \<open>C27 (type). Over any run of requests of clients and selections of the author, every source carries the functions of its
  kind, and the selection is none or a source that exists, so that the calls through its functions reach an
  object of the right type.\<close>

theorem selection_is_typed:
  assumes "clip_env E" and "(clip_step E)\<^sup>*\<^sup>* w w'" and "dm_source (manager w) = No_source"
    and "\<And>r. data_source_of w r = None" and "\<And>n. se_customs (w_seat w) n = None"
  shows "(case dm_source (manager w') of No_source \<Rightarrow> True
      | Client_source r \<Rightarrow> \<exists>d. data_source_of w' r = Some d \<and> ds_impl d = Impl_client
      | Custom_source n \<Rightarrow> \<exists>d. se_customs (w_seat w') n = Some d \<and> ds_impl d = Impl_custom)"
proof -
  have "clip_ok w" using assms(3-5) by (simp add: clip_ok_def sources_typed_def selection_live_def)
  with assms(2) have "clip_ok w'"
    by (induction rule: rtranclp_induct) (use clip_ok_step assms(1) in blast)+
  then show ?thesis
    by (cases "dm_source (manager w')") (auto simp: clip_ok_def sources_typed_def selection_live_def)
qed

text \<open>A client makes the source 1 and selects it.\<close>

definition env_clip :: env where
  "env_clip = env_ref\<lparr>ext_new_resource := (\<lambda>w. if w_res w 1 = None then Some 1 else None)\<rparr>"

definition world_clip :: world where "world_clip = world_blank\<lparr>w_udata := (\<lambda>_. UD_manager)\<rparr>"

definition clip_made :: world where "clip_made = wl_cb_manager_create_data_source env_clip 2 70 0 world_clip"
definition clip_done :: world where "clip_done = wl_cb_data_device_set_selection env_clip 2 71 1 clip_made"

lemma env_clip_ok: "clip_env env_clip"
  by (simp add: clip_env_def env_clip_def)

lemma clip_done_run: "(clip_step env_clip)\<^sup>*\<^sup>* world_clip clip_done"
proof -
  have "clip_step env_clip world_clip clip_made" unfolding clip_made_def by (rule clip_step.create)
  moreover have "clip_step env_clip clip_made clip_done" unfolding clip_done_def by (rule clip_step.select)
  ultimately show ?thesis by (meson rtranclp.simps)
qed

lemma clip_done_source: "dm_source (manager clip_done) = Client_source 1"
proof -
  have "data_source_of clip_made 1 \<noteq> None" and "w_udata clip_made 71 = UD_manager" and "dm_source (manager clip_made) = No_source"
    by (simp_all add: clip_made_def world_clip_def env_clip_def wl_cb_manager_create_data_source_def create_resource_def
        world_blank_def data_source_of_def implement_resource_def wlc_data_source_ctor_def manager_def seat_blank_def)
  then have "clip_done = wlc_data_device_manager_offer env_clip 2 (wlc_data_device_manager_set_source env_clip (Client_source 1) clip_made)"
    by (auto simp: clip_done_def wl_cb_data_device_set_selection_def)
  moreover have "clip_ok world_clip"
    by (simp add: clip_ok_def sources_typed_def selection_live_def world_clip_def world_blank_def data_source_of_def manager_def seat_blank_def)
  then have "clip_ok clip_made" unfolding clip_made_def by (rule clip_ok_create [OF env_clip_ok])
  ultimately show ?thesis
    using clip_ok_set_source(2) [OF env_clip_ok, of clip_made "Client_source 1"] \<open>data_source_of clip_made 1 \<noteq> None\<close>
      \<open>dm_source (manager clip_made) = No_source\<close>
    by (metis clipD(1) [OF clip_offer [OF env_clip_ok]] source_at.simps(2))
qed

theorem selection_is_typed_witness: "\<exists>d. data_source_of clip_done 1 = Some d \<and> ds_impl d = Impl_client"
  using selection_is_typed [OF env_clip_ok clip_done_run] clip_done_source
  by (simp add: world_clip_def world_blank_def manager_def data_source_of_def seat_blank_def)

section \<open>A client that leaves\<close>

text \<open>When the client that owns the selection is gone, its source resource with it, the manager still holds the
  pointer: the next client that is offered the selection has the freed source read.\<close>

theorem selection_of_gone_client_faults:
  assumes "dm_source (manager w) = Client_source s" and "data_source_of w s = None"
    and "client \<noteq> 0" and "wl_resource_for_client_of E w (dm_devices (manager w)) client \<noteq> 0"
    and "ext_new_resource E w = Some r" and "r \<noteq> 0"
  shows "Wild_pointer \<in> set (w_faults (wlc_data_device_manager_offer E client w))"
proof -
  let ?v = "implement_resource r (UD_source (Client_source s))
      (w\<lparr>w_res := (w_res w)(r \<mapsto> \<lparr>re_data = R_data_offer, re_wl = ext_wl_create E client 0 w\<rparr>)\<rparr>)"
  have "data_source_of (w\<lparr>w_res := (w_res w)(r \<mapsto> \<lparr>re_data = R_data_offer, re_wl = ext_wl_create E client 0 w\<rparr>)\<rparr>) s = None"
    using assms(2) by (cases "s = 0") (simp_all add: data_source_of_def)
  then have "data_source_of ?v s = None" by (simp add: clipD(3) [OF clip_implement])
  then have "data_source_of (emit e ?v) s = None" for e by simp
  moreover have "create_resource E client 0 R_data_offer w =
      (r, w\<lparr>w_res := (w_res w)(r \<mapsto> \<lparr>re_data = R_data_offer, re_wl = ext_wl_create E client 0 w\<rparr>)\<rparr>)"
    using assms(5) by (simp add: create_resource_def)
  ultimately show ?thesis
    using assms(1,3,4,6) by (simp add: wlc_data_device_manager_offer_def Let_def del: data_source_of_basic)
qed

text \<open>The owner of the source 1 of the example is gone, and client 3 has a data device.\<close>

definition env_gone :: env where "env_gone = env_ref\<lparr>ext_new_resource := (\<lambda>_. Some 8), ext_client := (\<lambda>_. 3)\<rparr>"

definition world_gone :: world where
  "world_gone = upd_manager (\<lambda>m. m\<lparr>dm_devices := [5], dm_source := Client_source 1\<rparr>)
     (world_blank\<lparr>w_res := [5 \<mapsto> \<lparr>re_data = R_data_device, re_wl = 50\<rparr>]\<rparr>)"

theorem selection_of_gone_client_faults_witness:
  "Wild_pointer \<in> set (w_faults (wlc_data_device_manager_offer env_gone 3 world_gone))"
  by (rule selection_of_gone_client_faults [where s = 1 and r = 8])
    (simp_all add: world_gone_def env_gone_def wl_resource_for_client_of_def world_blank_def data_source_of_def wl_of_def manager_def upd_manager_def
      upd_seat_def seat_blank_def)

end
