(* ===== verification/Startup.thy ===== *)
theory Startup
  imports Shell
begin

text \<open>
  Construction and release of the keymap, the seat and the compositor (src/compositor/seat/keymap.c, the ends of
  src/compositor/seat/seat.c and src/compositor/compositor.c), which call the constructors of the other
  components in order and take everything back when one fails.

  \<open>process\<close> is the world with what only these functions touch: the listeners of the system signals in the order
  they were added, the globals, descriptors, mappings and xkb keymaps the process has. \<open>boot\<close> holds the outcomes
  of the system calls and allocations.
\<close>

datatype wlc_signal =
    Sig_terminate | Sig_activate | Sig_compositor | Sig_focus | Sig_surface | Sig_input | Sig_output | Sig_selection
  | Sig_render | Sig_xwayland

datatype wlc_listener =
    Compositor_activate | Compositor_terminate | Compositor_xwayland | Compositor_surface | Compositor_output
  | Compositor_focus | Seat_input | Seat_focus | Seat_surface | Pointer_render | Main_compositor | Udev_activate

text \<open>The flags are the \<open>notify\<close> members of the listeners in the memory of seat and pointer, the handle of the repeat
  timer, the function table of the back end, and \<open>_g_compositor\<close>; a global is 0 when it is NULL.\<close>

record process =
  pr_world :: world
  pr_km_keymap :: nat
  pr_km_area :: nat
  pr_listeners :: "(wlc_signal \<times> wlc_listener) list"
  pr_seat_listens :: bool
  pr_pointer_listens :: bool
  pr_timer :: bool
  pr_backend :: bool
  pr_g_compositor :: bool
  pr_manager_global :: nat
  pr_seat_global :: nat
  pr_shell_global :: nat
  pr_xdg_global :: nat
  pr_compositor_global :: nat
  pr_subcompositor_global :: nat
  pr_fds :: "int set"
  pr_maps :: "nat set"
  pr_xkb :: "nat set"

record boot =
  b_xkb_context :: bool
  b_keymap :: nat
  b_keymap_string :: "string option"
  b_file :: int
  b_mmap :: nat
  b_mod_index :: "nat \<Rightarrow> u32"
  b_led_index :: "nat \<Rightarrow> u32"
  b_xkb_state :: nat
  b_xkb_sym :: bool
  b_keyboard_pools :: bool
  b_timer :: bool
  b_delay :: "u32 option"
  b_rate :: "u32 option"
  b_pointer_pools :: bool
  b_touch_pools :: bool
  b_manager_global :: nat
  b_manager_pools :: bool
  b_seat_global :: nat
  b_shell_global :: nat
  b_shell_pools :: bool
  b_xdg_global :: nat
  b_xdg_pools :: bool
  b_custom_pools :: bool
  b_sources :: bool
  b_compositor_global :: nat
  b_subcompositor_global :: nat
  b_backend :: bool

abbreviation on_world :: "(world \<Rightarrow> world) \<Rightarrow> process \<Rightarrow> process" where
  "on_world f p \<equiv> p\<lparr>pr_world := f (pr_world p)\<rparr>"

text \<open>\<open>wl_signal_add\<close> and \<open>wl_list_remove\<close> of a listener that is on a list.\<close>

definition listen :: "wlc_signal \<Rightarrow> wlc_listener \<Rightarrow> process \<Rightarrow> process" where
  "listen g l p = p\<lparr>pr_listeners := pr_listeners p @ [(g, l)]\<rparr>"

definition unlisten :: "wlc_listener \<Rightarrow> process \<Rightarrow> process" where
  "unlisten l p = p\<lparr>pr_listeners := filter (\<lambda>x. snd x \<noteq> l) (pr_listeners p)\<rparr>"

section \<open>The keymap\<close>

text \<open>\<open>MAP_FAILED\<close> is not NULL.\<close>

definition MAP_FAILED :: nat where "MAP_FAILED = 18446744073709551615"

definition keymap :: "process \<Rightarrow> wlc_keymap" where "keymap p = se_keymap (w_seat (pr_world p))"

definition upd_keymap :: "(wlc_keymap \<Rightarrow> wlc_keymap) \<Rightarrow> process \<Rightarrow> process" where
  "upd_keymap f = on_world (upd_seat (\<lambda>s. s\<lparr>se_keymap := f (se_keymap s)\<rparr>))"

definition keymap_zero :: wlc_keymap where
  "keymap_zero = \<lparr>km_format = 0, km_size = 0, km_fd = 0, km_mods = replicate WLC_MOD_LAST 0, km_leds = replicate WLC_LED_LAST 0\<rparr>"

definition wlc_keymap_release :: "process \<Rightarrow> process" where
  "wlc_keymap_release p =
     (let km = keymap p;
          p = (if pr_km_keymap p \<noteq> 0 then p\<lparr>pr_xkb := pr_xkb p - {pr_km_keymap p}\<rparr> else p);
          p = (if pr_km_area p \<noteq> 0 then p\<lparr>pr_maps := pr_maps p - {pr_km_area p}\<rparr> else p);
          p = (if km_fd km \<ge> 0 then p\<lparr>pr_fds := pr_fds p - {km_fd km}\<rparr> else p)
      in upd_keymap (\<lambda>_. keymap_zero\<lparr>km_fd := -1\<rparr>) (p\<lparr>pr_km_keymap := 0, pr_km_area := 0\<rparr>))"

definition keymap_failed :: "process \<Rightarrow> bool \<times> process" where
  "keymap_failed p = (False, wlc_keymap_release p)"

text \<open>The modifier and led indices, the format, and the copy of the text into the mapping.\<close>

definition fill_keymap :: "boot \<Rightarrow> process \<Rightarrow> process" where
  "fill_keymap B p =
     (let p = upd_keymap (\<lambda>k. k\<lparr>km_mods := map (b_mod_index B) [0..<WLC_MOD_LAST],
                                 km_leds := map (b_led_index B) [0..<WLC_LED_LAST], km_format := 1\<rparr>) p
      in if pr_km_area p \<in> pr_maps p then p else on_world (fail Wild_pointer) p)"

definition wlc_keymap_ctor :: "boot \<Rightarrow> process \<Rightarrow> bool \<times> process" where
  "wlc_keymap_ctor B p =
     (let p = upd_keymap (\<lambda>_. keymap_zero) (p\<lparr>pr_km_keymap := 0, pr_km_area := 0\<rparr>) in
      if \<not> b_xkb_context B \<or> b_keymap B = 0 then keymap_failed p
      else
        let p = p\<lparr>pr_km_keymap := b_keymap B, pr_xkb := insert (b_keymap B) (pr_xkb p)\<rparr> in
        case b_keymap_string B of
          None \<Rightarrow> keymap_failed p
        | Some str \<Rightarrow>
            let p = upd_keymap (\<lambda>k. k\<lparr>km_size := word_of_nat (length str) + 1, km_fd := b_file B\<rparr>) p in
            if b_file B < 0 then keymap_failed p
            else
              let p = p\<lparr>pr_fds := insert (b_file B) (pr_fds p), pr_km_area := b_mmap B,
                        pr_maps := (if b_mmap B = 0 \<or> b_mmap B = MAP_FAILED then pr_maps p else insert (b_mmap B) (pr_maps p))\<rparr>
              in if b_mmap B = 0 then keymap_failed p else (True, fill_keymap B p))"

section \<open>The seat\<close>

text \<open>What \<open>memset\<close> leaves: the descriptor of the keymap is 0.\<close>

definition seat_zero :: wlc_seat where
  "seat_zero = \<lparr>se_manager = \<lparr>dm_devices = [], dm_source = No_source\<rparr>, se_keymap = keymap_zero, se_keyboard = keyboard_zero,
     se_pointer = pointer_zero, se_touch = \<lparr>tc_resources = [], tc_focus = 0\<rparr>, se_customs = (\<lambda>_. None)\<rparr>"

text \<open>The custom sources are memory of their own.\<close>

definition clear_seat :: "process \<Rightarrow> process" where
  "clear_seat p =
     on_world (upd_seat (\<lambda>s. seat_zero\<lparr>se_customs := se_customs s\<rparr>))
       (p\<lparr>pr_km_keymap := 0, pr_km_area := 0, pr_seat_listens := False, pr_pointer_listens := False, pr_timer := False,
          pr_manager_global := 0, pr_seat_global := 0\<rparr>)"

definition pointer_stop :: "env \<Rightarrow> process \<Rightarrow> process" where
  "pointer_stop E p =
     (let p = (if pr_pointer_listens p then unlisten Pointer_render p else p)
      in (on_world (wlc_pointer_release E) p)\<lparr>pr_pointer_listens := False\<rparr>)"

definition pointer_start :: "env \<Rightarrow> bool \<Rightarrow> process \<Rightarrow> bool \<times> process" where
  "pointer_start E pools p =
     (let p = (on_world (upd_pointer (\<lambda>_. pointer_zero)) p)\<lparr>pr_pointer_listens := True\<rparr>;
          p = listen Sig_render Pointer_render p
      in if pools then (True, p) else (False, pointer_stop E p))"

definition wlc_seat_release :: "env \<Rightarrow> process \<Rightarrow> process" where
  "wlc_seat_release E p =
     (let p = (if pr_seat_listens p then unlisten Seat_surface (unlisten Seat_focus (unlisten Seat_input p)) else p);
          p = on_world (destroy_global (pr_seat_global p)) p;
          p = on_world (wlc_data_device_manager_release E (pr_manager_global p)) p;
          p = on_world (wlc_keyboard_release E (pr_timer p)) p;
          p = wlc_keymap_release p;
          p = pointer_stop E p;
          p = on_world (wlc_touch_release E) p
      in clear_seat p)"

text \<open>The keymap, the keyboard, the pointer and touch, the first failure ending it.\<close>

definition seat_devices :: "env \<Rightarrow> boot \<Rightarrow> process \<Rightarrow> bool \<times> process" where
  "seat_devices E B p =
     (let (ok, p) = wlc_keymap_ctor B p in
      if \<not> ok then (False, p)
      else
        let (ok, w) = wlc_keyboard_ctor E (b_xkb_state B) (b_xkb_sym B) (b_keyboard_pools B) (b_timer B) (b_delay B) (b_rate B)
              (pr_world p);
            p = p\<lparr>pr_world := w, pr_timer := ok\<rparr>
        in
        if \<not> ok then (False, p)
        else
          let (ok, p) = pointer_start E (b_pointer_pools B) p in
          if \<not> ok then (False, p)
          else let (ok, w) = wlc_touch_ctor (b_touch_pools B) (pr_world p) in (ok, p\<lparr>pr_world := w\<rparr>))"

definition wlc_seat_ctor :: "env \<Rightarrow> boot \<Rightarrow> process \<Rightarrow> bool \<times> process" where
  "wlc_seat_ctor E B p =
     (let p = clear_seat p;
          (ok, w) = wlc_data_device_manager_ctor E (b_manager_global B) (b_manager_pools B) (pr_world p);
          p = p\<lparr>pr_world := w, pr_manager_global := (if ok then b_manager_global B else 0)\<rparr>
      in
      if \<not> ok then (False, wlc_seat_release E p)
      else
        let p = p\<lparr>pr_seat_listens := True\<rparr>;
            p = listen Sig_surface Seat_surface (listen Sig_focus Seat_focus (listen Sig_input Seat_input p));
            (ok, p) = seat_devices E B p
        in
        if \<not> ok then (False, wlc_seat_release E p)
        else
          let p = p\<lparr>pr_seat_global := b_seat_global B\<rparr> in
          if b_seat_global B = 0 then (False, wlc_seat_release E p) else (True, on_world (emit (Global_create ''wl_seat'')) p))"

section \<open>The compositor\<close>

definition compositor_listeners :: "(wlc_signal \<times> wlc_listener) list" where
  "compositor_listeners =
     [(Sig_activate, Compositor_activate), (Sig_terminate, Compositor_terminate), (Sig_xwayland, Compositor_xwayland),
      (Sig_surface, Compositor_surface), (Sig_output, Compositor_output), (Sig_focus, Compositor_focus)]"

definition comp_zero :: wlc_compositor where
  "comp_zero = \<lparr>c_outputs = [], c_views = [], c_surfaces = [], c_active_output = 0, c_tty = IDLE, c_vt = 0, c_idle = False,
     c_terminating = False, c_ready = False\<rparr>"

text \<open>The sources, in the order of the code; the handles of a source are released in the order of their pool.\<close>

definition release_compositor_sources :: "env \<Rightarrow> world \<Rightarrow> world" where
  "release_compositor_sources E w =
     (let w = fold (release_handle E) (sort (c_outputs (w_comp w))) w;
          w = fold (release_handle E) (sort (c_views (w_comp w))) w
      in release_source E 0 K_region (release_source E 0 K_subsurface (release_source E 0 K_surface w)))"

definition stop_shells :: "env \<Rightarrow> process \<Rightarrow> process" where
  "stop_shells E p =
     on_world (\<lambda>w. wlc_custom_shell_release E (wlc_xdg_shell_release E (pr_xdg_global p)
       (wlc_shell_release E (pr_shell_global p) w))) (p\<lparr>pr_shell_global := 0, pr_xdg_global := 0\<rparr>)"

text \<open>The release up to the seat, and what follows the seat.\<close>

definition compositor_stopping :: "env \<Rightarrow> process \<Rightarrow> process" where
  "compositor_stopping E p =
     (let p = fold (\<lambda>(_, l). unlisten l) compositor_listeners p;
          p = (if pr_backend p then on_world (emit Backend_release) p else p)\<lparr>pr_backend := False\<rparr>
      in stop_shells E p)"

definition compositor_cleared :: "env \<Rightarrow> process \<Rightarrow> process" where
  "compositor_cleared E p =
     (let p = on_world (destroy_global (pr_subcompositor_global p)) p;
          p = on_world (destroy_global (pr_compositor_global p)) p;
          p = on_world (release_compositor_sources E) p
      in clear_seat (on_world (\<lambda>w. w\<lparr>w_comp := comp_zero\<rparr>)
           (p\<lparr>pr_compositor_global := 0, pr_subcompositor_global := 0, pr_g_compositor := False\<rparr>)))"

definition wlc_compositor_release :: "env \<Rightarrow> process \<Rightarrow> process" where
  "wlc_compositor_release E p =
     (if \<not> pr_g_compositor p then p
      else compositor_cleared E (wlc_seat_release E (compositor_stopping E p)))"

definition shells_start :: "env \<Rightarrow> boot \<Rightarrow> process \<Rightarrow> bool \<times> process" where
  "shells_start E B p =
     (let (ok, w) = wlc_shell_ctor E (b_shell_global B) (b_shell_pools B) (pr_world p);
          p = p\<lparr>pr_world := w, pr_shell_global := (if ok then b_shell_global B else 0)\<rparr>
      in
      if \<not> ok then (False, p)
      else
        let (ok, w) = wlc_xdg_shell_ctor E (b_xdg_global B) (b_xdg_pools B) (pr_world p);
            p = p\<lparr>pr_world := w, pr_xdg_global := (if ok then b_xdg_global B else 0)\<rparr>
        in
        if \<not> ok then (False, p)
        else let (ok, w) = wlc_custom_shell_ctor E (b_custom_pools B) (pr_world p) in (ok, p\<lparr>pr_world := w\<rparr>))"

text \<open>The globals, in the order of the code.\<close>

definition compositor_globals :: "boot \<Rightarrow> process \<Rightarrow> bool \<times> process" where
  "compositor_globals B p =
     (if b_compositor_global B = 0 then (False, p)
      else
        let p = on_world (emit (Global_create ''wl_compositor'')) (p\<lparr>pr_compositor_global := b_compositor_global B\<rparr>) in
        if b_subcompositor_global B = 0 then (False, p)
        else (True, on_world (emit (Global_create ''wl_subcompositor''))
                (p\<lparr>pr_subcompositor_global := b_subcompositor_global B\<rparr>)))"

text \<open>The memory of the compositor reset and its listeners added.\<close>

definition compositor_begun :: "process \<Rightarrow> process" where
  "compositor_begun p =
     fold (\<lambda>(g, l). listen g l) compositor_listeners
       ((clear_seat (on_world (\<lambda>w. w\<lparr>w_comp := comp_zero\<rparr>) p))\<lparr>pr_compositor_global := 0, pr_subcompositor_global := 0,
          pr_shell_global := 0, pr_xdg_global := 0, pr_backend := False, pr_g_compositor := True\<rparr>)"

text \<open>\<open>ready\<close> is whether the process has a display and an event loop.\<close>

definition wlc_compositor_ctor :: "env \<Rightarrow> boot \<Rightarrow> bool \<Rightarrow> process \<Rightarrow> bool \<times> process" where
  "wlc_compositor_ctor E B ready p =
     (if \<not> ready \<or> pr_g_compositor p then (False, on_world (fail Abort) p)
      else
        let p = compositor_begun p in
        if \<not> b_sources B then (False, wlc_compositor_release E p)
        else
          let (ok, p) = compositor_globals B p in
          if \<not> ok then (False, wlc_compositor_release E p)
          else
            let (ok, p) = wlc_seat_ctor E B p in
            if \<not> ok then (False, wlc_compositor_release E p)
            else
              let (ok, p) = shells_start E B p in
              if \<not> ok then (False, wlc_compositor_release E p)
              else if \<not> b_backend B then (False, wlc_compositor_release E p)
              else (True, p\<lparr>pr_backend := True\<rparr>))"

end
