(* ===== verification/Boot.thy ===== *)
theory Boot
  imports Startup
begin

text \<open>
  What the process owns after the constructors of Startup.thy: descriptors, mappings, keymaps and listeners
  are balanced by the releases, except for descriptor 0.
\<close>

section \<open>The keymap\<close>

lemma upd_keymap_fields [simp]:
  "pr_fds (upd_keymap f p) = pr_fds p" "pr_maps (upd_keymap f p) = pr_maps p" "pr_xkb (upd_keymap f p) = pr_xkb p"
  "pr_km_keymap (upd_keymap f p) = pr_km_keymap p" "pr_km_area (upd_keymap f p) = pr_km_area p"
  "pr_listeners (upd_keymap f p) = pr_listeners p" "pr_seat_listens (upd_keymap f p) = pr_seat_listens p"
  "pr_pointer_listens (upd_keymap f p) = pr_pointer_listens p" "pr_g_compositor (upd_keymap f p) = pr_g_compositor p"
  "keymap (upd_keymap f p) = f (keymap p)"
  by (simp_all add: upd_keymap_def keymap_def)

lemma keymap_upd [simp]:
  "keymap (p\<lparr>pr_km_keymap := a\<rparr>) = keymap p" "keymap (p\<lparr>pr_km_area := a\<rparr>) = keymap p" "keymap (p\<lparr>pr_xkb := x\<rparr>) = keymap p"
  "keymap (p\<lparr>pr_maps := x\<rparr>) = keymap p" "keymap (p\<lparr>pr_fds := fs\<rparr>) = keymap p" "keymap (p\<lparr>pr_listeners := ls\<rparr>) = keymap p"
  "keymap (on_world (fail f) p) = keymap p"
  by (simp_all add: keymap_def)

lemma keymap_release_owns [simp]:
  "pr_fds (wlc_keymap_release p) = pr_fds p - (if km_fd (keymap p) \<ge> 0 then {km_fd (keymap p)} else {})"
  "pr_maps (wlc_keymap_release p) = pr_maps p - (if pr_km_area p \<noteq> 0 then {pr_km_area p} else {})"
  "pr_xkb (wlc_keymap_release p) = pr_xkb p - (if pr_km_keymap p \<noteq> 0 then {pr_km_keymap p} else {})"
  "pr_listeners (wlc_keymap_release p) = pr_listeners p" "pr_seat_listens (wlc_keymap_release p) = pr_seat_listens p"
  "pr_pointer_listens (wlc_keymap_release p) = pr_pointer_listens p" "pr_g_compositor (wlc_keymap_release p) = pr_g_compositor p"
  by (simp_all add: wlc_keymap_release_def Let_def)

lemma fill_keymap_fields [simp]:
  "pr_fds (fill_keymap B p) = pr_fds p" "pr_maps (fill_keymap B p) = pr_maps p" "pr_xkb (fill_keymap B p) = pr_xkb p"
  "pr_km_keymap (fill_keymap B p) = pr_km_keymap p" "pr_km_area (fill_keymap B p) = pr_km_area p"
  "km_fd (keymap (fill_keymap B p)) = km_fd (keymap p)"
  "pr_listeners (fill_keymap B p) = pr_listeners p" "pr_seat_listens (fill_keymap B p) = pr_seat_listens p"
  "pr_pointer_listens (fill_keymap B p) = pr_pointer_listens p" "pr_g_compositor (fill_keymap B p) = pr_g_compositor p"
  by (simp_all add: fill_keymap_def Let_def)

text \<open>What the kernel and libxkbcommon hand out is not in use.\<close>

definition fresh :: "boot \<Rightarrow> process \<Rightarrow> bool" where
  "fresh B p \<longleftrightarrow> b_file B \<notin> pr_fds p \<and> b_mmap B \<notin> pr_maps p \<and> b_keymap B \<notin> pr_xkb p"

text \<open>The construction fails before it has a descriptor.\<close>

definition fails_early :: "boot \<Rightarrow> bool" where
  "fails_early B \<longleftrightarrow> \<not> b_xkb_context B \<or> b_keymap B = 0 \<or> b_keymap_string B = None"

section \<open>The seat\<close>

text \<open>The descriptors, mappings and keymaps the process has.\<close>

definition owns :: "process \<Rightarrow> int set \<times> nat set \<times> nat set" where
  "owns p = (pr_fds p, pr_maps p, pr_xkb p)"

definition seat_keymap :: "world \<Rightarrow> wlc_keymap" where "seat_keymap w = se_keymap (w_seat w)"

lemma keymap_world: "keymap p = seat_keymap (pr_world p)"
  by (simp add: keymap_def seat_keymap_def)

lemma seat_keymap_basic [simp]:
  "seat_keymap (emit e w) = seat_keymap w" "seat_keymap (fail x w) = seat_keymap w" "seat_keymap (upd_keyboard f w) = seat_keymap w"
  "seat_keymap (upd_manager g w) = seat_keymap w" "seat_keymap (upd_pointer h w) = seat_keymap w"
  "seat_keymap (upd_touch t w) = seat_keymap w" "seat_keymap (set_user_data wl d w) = seat_keymap w"
  "seat_keymap (w\<lparr>w_res := rs\<rparr>) = seat_keymap w" "seat_keymap (destroy_global n w) = seat_keymap w"
  "seat_keymap (upd_seat (\<lambda>s. s\<lparr>se_customs := c s\<rparr>) w) = seat_keymap w"
  by (simp_all add: seat_keymap_def upd_keyboard_def upd_manager_def upd_pointer_def upd_touch_def destroy_global_def)

lemma seat_keymap_cancel: "seat_keymap (through impl_cancel s w) = seat_keymap w"
  by (cases s) (simp_all add: through_def data_source_client_cancel_def custom_data_source_cancel_def Let_def)

lemma seat_keymap_releases:
  assumes "env_keeps E seat_keymap"
  shows "seat_keymap (wlc_data_device_manager_release E g w) = seat_keymap w"
    "seat_keymap (wlc_keyboard_release E t w) = seat_keymap w"
    "seat_keymap (wlc_pointer_release E w) = seat_keymap w" "seat_keymap (wlc_touch_release E w) = seat_keymap w"
    "seat_keymap (wlc_shell_release E g w) = seat_keymap w" "seat_keymap (wlc_xdg_shell_release E g w) = seat_keymap w"
    "seat_keymap (wlc_custom_shell_release E w) = seat_keymap w"
  by (simp_all add: wlc_data_device_manager_release_def wlc_keyboard_release_def wlc_pointer_release_def wlc_touch_release_def
      wlc_shell_release_def wlc_xdg_shell_release_def wlc_custom_shell_release_def Let_def env_keepsD [OF assms] seat_keymap_cancel)

text \<open>Two processes that own the same and whose keymap is the same to release.\<close>

definition keymap_held :: "process \<Rightarrow> nat \<times> nat \<times> int" where
  "keymap_held p = (pr_km_keymap p, pr_km_area p, km_fd (keymap p))"

definition after_release :: "process \<Rightarrow> int set \<times> nat set \<times> nat set" where
  "after_release p = owns (wlc_keymap_release p)"

lemma after_release_eq:
  "owns q = owns p \<Longrightarrow> keymap_held q = keymap_held p \<Longrightarrow> after_release q = after_release p"
  by (auto simp: after_release_def owns_def keymap_held_def)

lemma owns_simps [simp]:
  "owns (listen g l p) = owns p" "owns (unlisten l p) = owns p" "owns (clear_seat p) = owns p"
  "owns (p\<lparr>pr_seat_listens := b\<rparr>) = owns p" "owns (p\<lparr>pr_pointer_listens := b\<rparr>) = owns p" "owns (p\<lparr>pr_timer := b\<rparr>) = owns p"
  "owns (p\<lparr>pr_backend := b\<rparr>) = owns p" "owns (p\<lparr>pr_g_compositor := b\<rparr>) = owns p"
  "owns (p\<lparr>pr_manager_global := n\<rparr>) = owns p" "owns (p\<lparr>pr_seat_global := n\<rparr>) = owns p" "owns (p\<lparr>pr_shell_global := n\<rparr>) = owns p"
  "owns (p\<lparr>pr_xdg_global := n\<rparr>) = owns p" "owns (p\<lparr>pr_compositor_global := n\<rparr>) = owns p"
  "owns (p\<lparr>pr_subcompositor_global := n\<rparr>) = owns p" "owns (p\<lparr>pr_world := w\<rparr>) = owns p"
  by (simp_all add: owns_def listen_def unlisten_def clear_seat_def)

lemma held_simps [simp]:
  "keymap_held (listen g l p) = keymap_held p" "keymap_held (unlisten l p) = keymap_held p"
  "keymap_held (p\<lparr>pr_seat_listens := b\<rparr>) = keymap_held p" "keymap_held (p\<lparr>pr_pointer_listens := b\<rparr>) = keymap_held p"
  "keymap_held (p\<lparr>pr_timer := b\<rparr>) = keymap_held p"
  "keymap_held (p\<lparr>pr_backend := b\<rparr>) = keymap_held p" "keymap_held (p\<lparr>pr_g_compositor := b\<rparr>) = keymap_held p"
  "keymap_held (p\<lparr>pr_manager_global := n\<rparr>) = keymap_held p" "keymap_held (p\<lparr>pr_seat_global := n\<rparr>) = keymap_held p"
  "keymap_held (p\<lparr>pr_shell_global := n\<rparr>) = keymap_held p"
  "keymap_held (p\<lparr>pr_xdg_global := n\<rparr>) = keymap_held p" "keymap_held (p\<lparr>pr_compositor_global := n\<rparr>) = keymap_held p"
  "keymap_held (p\<lparr>pr_subcompositor_global := n\<rparr>) = keymap_held p"
  "keymap_held (clear_seat p) = (0, 0, 0)"
  by (simp_all add: keymap_held_def listen_def unlisten_def clear_seat_def keymap_def seat_zero_def keymap_zero_def)

lemma listen_fields [simp]:
  "pr_world (listen g l p) = pr_world p" "pr_world (unlisten l p) = pr_world p"
  "pr_listeners (listen g l p) = pr_listeners p @ [(g, l)]" "pr_listeners (unlisten l p) = filter (\<lambda>x. snd x \<noteq> l) (pr_listeners p)"
  "pr_seat_listens (listen g l p) = pr_seat_listens p" "pr_seat_listens (unlisten l p) = pr_seat_listens p"
  "pr_pointer_listens (listen g l p) = pr_pointer_listens p" "pr_pointer_listens (unlisten l p) = pr_pointer_listens p"
  "pr_g_compositor (listen g l p) = pr_g_compositor p" "pr_g_compositor (unlisten l p) = pr_g_compositor p"
  "pr_listeners (clear_seat p) = pr_listeners p" "pr_g_compositor (clear_seat p) = pr_g_compositor p"
  "pr_seat_listens (clear_seat p) = False" "pr_pointer_listens (clear_seat p) = False"
  by (simp_all add: listen_def unlisten_def clear_seat_def)

lemma held_on_world: "seat_keymap w = seat_keymap (pr_world p) \<Longrightarrow> keymap_held (p\<lparr>pr_world := w\<rparr>) = keymap_held p"
  by (simp add: keymap_held_def keymap_world)

lemma pointer_stop_owns:
  assumes "env_keeps E seat_keymap"
  shows "owns (pointer_stop E p) = owns p" "keymap_held (pointer_stop E p) = keymap_held p"
  using assms by (simp_all add: pointer_stop_def Let_def held_on_world seat_keymap_releases)

lemma owns_split: "owns (if b then p else q) = (if b then owns p else owns q)"
  "keymap_held (if b then p else q) = (if b then keymap_held p else keymap_held q)" by simp_all

definition minus0 :: "int set \<times> nat set \<times> nat set \<Rightarrow> int set \<times> nat set \<times> nat set" where
  "minus0 x = (fst x - {0}, snd x)"

lemma minus0_simps [simp]: "minus0 (minus0 x) = minus0 x"
  by (simp add: minus0_def)

lemma after_release_zero: "keymap_held p = (0, 0, 0) \<Longrightarrow> after_release p = minus0 (owns p)"
  by (simp add: after_release_def owns_def keymap_held_def minus0_def)

lemma after_release_none: "keymap_held p = (0, 0, -1) \<Longrightarrow> after_release p = owns p"
  by (simp add: after_release_def owns_def keymap_held_def)

lemma keymap_release_held [simp]: "keymap_held (wlc_keymap_release p) = (0, 0, -1)"
  by (simp add: wlc_keymap_release_def Let_def keymap_held_def)

definition balanced :: "boot \<Rightarrow> process \<Rightarrow> int set \<times> nat set \<times> nat set" where
  "balanced B p = (if fails_early B then minus0 (owns p) else owns p)"

lemma keymap_ctor_balanced:
  assumes "fresh B p"
  shows "after_release (snd (wlc_keymap_ctor B p)) = balanced B p"
    and "\<not> fst (wlc_keymap_ctor B p) \<Longrightarrow> owns (snd (wlc_keymap_ctor B p)) = balanced B p"
    and "fst (wlc_keymap_ctor B p) \<Longrightarrow> \<not> fails_early B"
proof -
  have failed: "after_release (snd (keymap_failed q)) = owns (wlc_keymap_release q)" for q
    by (simp add: keymap_failed_def after_release_none)
  show "after_release (snd (wlc_keymap_ctor B p)) = balanced B p"
  proof (cases "fails_early B")
    case True
    then show ?thesis
      using assms
      by (cases "b_xkb_context B \<and> b_keymap B \<noteq> 0")
        (simp_all add: wlc_keymap_ctor_def failed fresh_def fails_early_def Let_def keymap_zero_def balanced_def minus0_def owns_def)
  next
    case False
    then obtain str where "b_keymap_string B = Some str" by (auto simp: fails_early_def)
    then have got: "b_keymap_string B = Some str" "b_xkb_context B" "b_keymap B \<noteq> 0" using False by (auto simp: fails_early_def)
    show ?thesis
    proof (cases "b_file B < 0 \<or> b_mmap B = 0")
      case True
      then show ?thesis
        using got False assms
        by (cases "b_file B < 0") (simp_all add: wlc_keymap_ctor_def failed fresh_def Let_def balanced_def owns_def)
    next
      case mapped: False
      then show ?thesis
        using got False assms
        by (cases "b_mmap B = MAP_FAILED") (simp_all add: wlc_keymap_ctor_def fresh_def Let_def balanced_def owns_def after_release_def)
    qed
  qed
  moreover have "owns (snd (wlc_keymap_ctor B p)) = after_release (snd (wlc_keymap_ctor B p))" if "\<not> fst (wlc_keymap_ctor B p)"
    using that by (auto simp: wlc_keymap_ctor_def keymap_failed_def after_release_none Let_def split: if_splits option.splits)
  ultimately show "\<not> fst (wlc_keymap_ctor B p) \<Longrightarrow> owns (snd (wlc_keymap_ctor B p)) = balanced B p" by simp
  show "fst (wlc_keymap_ctor B p) \<Longrightarrow> \<not> fails_early B"
    by (auto simp: wlc_keymap_ctor_def keymap_failed_def fails_early_def Let_def split: if_splits option.splits)
qed

definition released :: "bool \<times> process \<Rightarrow> process" where
  "released r = (if fst r then wlc_keymap_release (snd r) else snd r)"

text \<open>A keymap that is made and released, or that could not be made, leaves the process with the
  descriptors, mappings and xkb keymaps it had, except that a construction that fails before it opens its file
  closes descriptor 0.\<close>

theorem keymap_create_release_balanced:
  assumes "fresh B p"
  shows "pr_maps (released (wlc_keymap_ctor B p)) = pr_maps p \<and> pr_xkb (released (wlc_keymap_ctor B p)) = pr_xkb p \<and>
    pr_fds (released (wlc_keymap_ctor B p)) = (if fails_early B then pr_fds p - {0} else pr_fds p)"
proof -
  have "owns (released (wlc_keymap_ctor B p)) = balanced B p"
    using keymap_ctor_balanced [OF assms] by (simp add: released_def after_release_def)
  then show ?thesis by (auto simp: owns_def balanced_def minus0_def split: if_splits)
qed

text \<open>The release of a seat gives up what its keymap holds and nothing else.\<close>

lemma seat_release_owns:
  assumes "env_keeps E seat_keymap"
  shows "owns (wlc_seat_release E p) = after_release p"
proof -
  note keep = seat_keymap_releases [OF assms]
  define p1 where "p1 = (if pr_seat_listens p then unlisten Seat_surface (unlisten Seat_focus (unlisten Seat_input p)) else p)"
  define p2 where "p2 = on_world (destroy_global (pr_seat_global p1)) p1"
  define p3 where "p3 = on_world (wlc_data_device_manager_release E (pr_manager_global p2)) p2"
  define p4 where "p4 = on_world (wlc_keyboard_release E (pr_timer p3)) p3"
  have "owns p4 = owns p \<and> keymap_held p4 = keymap_held p"
    by (simp add: p1_def p2_def p3_def p4_def held_on_world keep)
  moreover have "wlc_seat_release E p = clear_seat (on_world (wlc_touch_release E) (pointer_stop E (wlc_keymap_release p4)))"
    by (simp only: wlc_seat_release_def p1_def p2_def p3_def p4_def Let_def)
  ultimately show ?thesis
    using pointer_stop_owns [OF assms] after_release_eq [of p4 p] by (simp add: after_release_def)
qed


section \<open>The construction of the seat\<close>

lemma seat_keymap_ctors:
  assumes "env_keeps E seat_keymap"
  shows "seat_keymap (snd (wlc_data_device_manager_ctor E g ok w)) = seat_keymap w"
    "seat_keymap (snd (wlc_keyboard_ctor E s1 s2 kp tm d r w)) = seat_keymap w"
    "seat_keymap (snd (wlc_touch_ctor tp w)) = seat_keymap w"
    "seat_keymap (snd (wlc_shell_ctor E g ok w)) = seat_keymap w" "seat_keymap (snd (wlc_xdg_shell_ctor E g ok w)) = seat_keymap w"
    "seat_keymap (snd (wlc_custom_shell_ctor E ok w)) = seat_keymap w"
  by (simp_all add: wlc_data_device_manager_ctor_def wlc_keyboard_ctor_def wlc_touch_ctor_def wlc_shell_ctor_def
      wlc_xdg_shell_ctor_def wlc_custom_shell_ctor_def Let_def case_prod_beta seat_keymap_releases [OF assms])

lemma pointer_start_owns:
  assumes "env_keeps E seat_keymap"
  shows "owns (snd (pointer_start E ok p)) = owns p" "keymap_held (snd (pointer_start E ok p)) = keymap_held p"
  using pointer_stop_owns [OF assms] by (simp_all add: pointer_start_def Let_def held_on_world)

lemma seat_devices_balanced:
  assumes "fresh B p" "env_keeps E seat_keymap"
  shows "after_release (snd (seat_devices E B p)) = balanced B p" "fst (seat_devices E B p) \<Longrightarrow> \<not> fails_early B"
proof -
  let ?k = "snd (wlc_keymap_ctor B p)"
  have "owns (snd (seat_devices E B p)) = owns ?k \<and> keymap_held (snd (seat_devices E B p)) = keymap_held ?k"
    by (simp add: seat_devices_def Let_def case_prod_beta pointer_start_owns [OF assms(2)] held_on_world
        seat_keymap_ctors [OF assms(2)])
  then show "after_release (snd (seat_devices E B p)) = balanced B p"
    using after_release_eq keymap_ctor_balanced(1) [OF assms(1)] by metis
  show "fst (seat_devices E B p) \<Longrightarrow> \<not> fails_early B"
    using keymap_ctor_balanced(3) [OF assms(1)] by (auto simp: seat_devices_def Let_def case_prod_beta split: if_splits)
qed

lemma fresh_owns: "owns q = owns p \<Longrightarrow> fresh B q = fresh B p" "owns q = owns p \<Longrightarrow> balanced B q = balanced B p"
  by (auto simp: fresh_def owns_def balanced_def)

lemma minus0_balanced: "minus0 (balanced B p) = minus0 (owns p)"
  by (simp add: balanced_def)

text \<open>The seat as it is before its devices are made.\<close>

definition seat_begun :: "env \<Rightarrow> boot \<Rightarrow> process \<Rightarrow> process" where
  "seat_begun E B p =
     (let p = clear_seat p; (ok, w) = wlc_data_device_manager_ctor E (b_manager_global B) (b_manager_pools B) (pr_world p)
      in p\<lparr>pr_world := w, pr_manager_global := (if ok then b_manager_global B else 0)\<rparr>)"

definition seat_listening :: "process \<Rightarrow> process" where
  "seat_listening p = listen Sig_surface Seat_surface (listen Sig_focus Seat_focus (listen Sig_input Seat_input (p\<lparr>pr_seat_listens := True\<rparr>)))"

lemma wlc_seat_ctor_steps:
  "wlc_seat_ctor E B p =
     (if \<not> fst (wlc_data_device_manager_ctor E (b_manager_global B) (b_manager_pools B) (pr_world (clear_seat p)))
      then (False, wlc_seat_release E (seat_begun E B p))
      else
        let d = seat_devices E B (seat_listening (seat_begun E B p)) in
        if \<not> fst d then (False, wlc_seat_release E (snd d))
        else
          let q = (snd d)\<lparr>pr_seat_global := b_seat_global B\<rparr> in
          if b_seat_global B = 0 then (False, wlc_seat_release E q) else (True, on_world (emit (Global_create ''wl_seat'')) q))"
  by (simp add: wlc_seat_ctor_def seat_begun_def seat_listening_def Let_def case_prod_beta)

lemma seat_begun_owns:
  assumes "env_keeps E seat_keymap"
  shows "owns (seat_begun E B p) = owns p" "keymap_held (seat_begun E B p) = (0, 0, 0)"
    "owns (seat_listening q) = owns q"
  by (simp_all add: seat_begun_def seat_listening_def Let_def case_prod_beta held_on_world seat_keymap_ctors [OF assms])

lemma seat_released_held: "keymap_held (wlc_seat_release E p) = (0, 0, 0)"
  by (simp add: wlc_seat_release_def Let_def)

lemma seat_ctor_balanced:
  assumes "fresh B p" "env_keeps E seat_keymap"
  shows "fst (wlc_seat_ctor E B p) \<Longrightarrow> after_release (snd (wlc_seat_ctor E B p)) = owns p"
    and "\<not> fst (wlc_seat_ctor E B p) \<Longrightarrow> minus0 (owns (snd (wlc_seat_ctor E B p))) = minus0 (owns p)"
    and "\<not> fst (wlc_seat_ctor E B p) \<Longrightarrow> keymap_held (snd (wlc_seat_ctor E B p)) = (0, 0, 0)"
proof -
  let ?d = "seat_devices E B (seat_listening (seat_begun E B p))"
  have same: "owns (seat_listening (seat_begun E B p)) = owns p" by (simp add: seat_begun_owns [OF assms(2)])
  have d: "after_release (snd ?d) = balanced B p" "fst ?d \<Longrightarrow> \<not> fails_early B"
    using seat_devices_balanced [OF _ assms(2)] fresh_owns [OF same] assms(1) by metis+
  have after_global: "after_release (q\<lparr>pr_seat_global := n\<rparr>) = after_release q" for q n
    by (rule after_release_eq) simp_all
  have after_emit: "after_release (q\<lparr>pr_seat_global := n, pr_world := emit e (pr_world q)\<rparr>) = after_release q" for q n e
    by (rule after_release_eq) (simp_all add: held_on_world)
  show "fst (wlc_seat_ctor E B p) \<Longrightarrow> after_release (snd (wlc_seat_ctor E B p)) = owns p"
    using d by (auto simp: wlc_seat_ctor_steps Let_def after_global after_emit balanced_def split: if_splits)
  show "\<not> fst (wlc_seat_ctor E B p) \<Longrightarrow> minus0 (owns (snd (wlc_seat_ctor E B p))) = minus0 (owns p)"
    using d(1) after_release_zero [OF seat_begun_owns(2) [OF assms(2)]]
    by (auto simp: wlc_seat_ctor_steps Let_def seat_release_owns [OF assms(2)] after_global minus0_balanced
        seat_begun_owns [OF assms(2)] split: if_splits)
  show "\<not> fst (wlc_seat_ctor E B p) \<Longrightarrow> keymap_held (snd (wlc_seat_ctor E B p)) = (0, 0, 0)"
    by (auto simp: wlc_seat_ctor_steps Let_def seat_released_held split: if_splits)
qed

section \<open>The compositor\<close>

lemma release_sources_keymap:
  assumes "env_keeps E seat_keymap"
  shows "seat_keymap (release_compositor_sources E w) = seat_keymap w"
proof -
  have "seat_keymap (fold (release_handle E) hs v) = seat_keymap v" for hs v
    by (induction hs arbitrary: v) (simp_all add: env_keepsD [OF assms])
  then show ?thesis by (simp add: release_compositor_sources_def Let_def env_keepsD [OF assms])
qed

lemma stop_shells_owns:
  assumes "env_keeps E seat_keymap"
  shows "owns (stop_shells E p) = owns p" "keymap_held (stop_shells E p) = keymap_held p"
  by (simp_all add: stop_shells_def held_on_world seat_keymap_releases [OF assms])

lemma unlisten_all: "owns (fold (\<lambda>(_, l). unlisten l) ls p) = owns p" "keymap_held (fold (\<lambda>(_, l). unlisten l) ls p) = keymap_held p"
  by (induction ls arbitrary: p) (simp_all add: case_prod_beta)

lemma listen_all: "owns (fold (\<lambda>(g, l). listen g l) ls p) = owns p" "keymap_held (fold (\<lambda>(g, l). listen g l) ls p) = keymap_held p"
  by (induction ls arbitrary: p) (simp_all add: case_prod_beta)

lemma compositor_release_owns:
  assumes "env_keeps E seat_keymap" "pr_g_compositor p"
  shows "owns (wlc_compositor_release E p) = after_release p"
proof -
  have "owns (compositor_stopping E p) = owns p \<and> keymap_held (compositor_stopping E p) = keymap_held p"
    by (cases "pr_backend (fold (\<lambda>(_, l). unlisten l) compositor_listeners p)")
      (simp_all only: compositor_stopping_def Let_def stop_shells_owns [OF assms(1)] if_True if_False owns_simps held_simps
        held_on_world seat_keymap_basic unlisten_all simp_thms)
  then have "owns (wlc_seat_release E (compositor_stopping E p)) = after_release p"
    using after_release_eq [of "compositor_stopping E p" p] by (simp add: seat_release_owns [OF assms(1)])
  then show ?thesis
    using assms(2)
    by (simp only: wlc_compositor_release_def compositor_cleared_def Let_def owns_simps not_True_eq_False if_False)
qed

section \<open>Listeners\<close>

definition program_listeners :: "wlc_listener set" where "program_listeners = {Main_compositor, Udev_activate}"

text \<open>The listeners of the rest of the program, and the state of the memory in which a listener of the seat or the pointer is
  on a list only if the release will take it off.\<close>

definition main_listeners :: "process \<Rightarrow> (wlc_signal \<times> wlc_listener) list" where
  "main_listeners p = filter (\<lambda>x. snd x \<in> program_listeners) (pr_listeners p)"

definition seat_family :: "wlc_listener set" where "seat_family = {Seat_input, Seat_focus, Seat_surface}"

definition tidy :: "process \<Rightarrow> bool" where
  "tidy p \<longleftrightarrow> (\<forall>x\<in>set (pr_listeners p). (snd x \<in> seat_family \<longrightarrow> pr_seat_listens p) \<and>
     (snd x = Pointer_render \<longrightarrow> pr_pointer_listens p))"

definition listens :: "process \<Rightarrow> (wlc_signal \<times> wlc_listener) list \<times> bool \<times> bool \<times> bool" where
  "listens p = (pr_listeners p, pr_seat_listens p, pr_pointer_listens p, pr_g_compositor p)"

lemma listens_reads:
  "listens q = listens p \<Longrightarrow> main_listeners q = main_listeners p" "listens q = listens p \<Longrightarrow> tidy q = tidy p"
  by (simp_all add: listens_def main_listeners_def tidy_def)

lemma listens_simps [simp]:
  "listens (p\<lparr>pr_timer := b\<rparr>) = listens p" "listens (p\<lparr>pr_backend := b\<rparr>) = listens p"
  "listens (p\<lparr>pr_manager_global := n\<rparr>) = listens p" "listens (p\<lparr>pr_seat_global := n\<rparr>) = listens p"
  "listens (p\<lparr>pr_shell_global := n\<rparr>) = listens p" "listens (p\<lparr>pr_xdg_global := n\<rparr>) = listens p"
  "listens (p\<lparr>pr_compositor_global := n\<rparr>) = listens p" "listens (p\<lparr>pr_subcompositor_global := n\<rparr>) = listens p"
  "listens (p\<lparr>pr_world := w\<rparr>) = listens p" "listens (wlc_keymap_release p) = listens p"
  "listens (fill_keymap B p) = listens p" "listens (upd_keymap f p) = listens p"
  "listens (p\<lparr>pr_km_keymap := n\<rparr>) = listens p" "listens (p\<lparr>pr_km_area := n\<rparr>) = listens p"
  "listens (p\<lparr>pr_maps := x\<rparr>) = listens p" "listens (p\<lparr>pr_fds := fs\<rparr>) = listens p" "listens (p\<lparr>pr_xkb := x\<rparr>) = listens p"
  by (simp_all add: listens_def)

lemma keymap_ctor_listens: "listens (snd (wlc_keymap_ctor B p)) = listens p"
  by (simp add: wlc_keymap_ctor_def keymap_failed_def Let_def split: option.split)

lemma listeners_pointer_stop:
  "pr_listeners (pointer_stop E p) = (if pr_pointer_listens p then filter (\<lambda>x. snd x \<noteq> Pointer_render) (pr_listeners p) else pr_listeners p)"
  "pr_seat_listens (pointer_stop E p) = pr_seat_listens p" "pr_pointer_listens (pointer_stop E p) = False"
  "pr_g_compositor (pointer_stop E p) = pr_g_compositor p"
  by (simp_all add: pointer_stop_def Let_def)

lemma listeners_seat_release:
  "pr_listeners (wlc_seat_release E p) =
     filter (\<lambda>x. (pr_seat_listens p \<longrightarrow> snd x \<notin> seat_family) \<and> (pr_pointer_listens p \<longrightarrow> snd x \<noteq> Pointer_render)) (pr_listeners p)"
  "pr_seat_listens (wlc_seat_release E p) = False" "pr_pointer_listens (wlc_seat_release E p) = False"
  "pr_g_compositor (wlc_seat_release E p) = pr_g_compositor p"
  by (simp_all add: wlc_seat_release_def Let_def listeners_pointer_stop seat_family_def program_listeners_def conj_commute conj_left_commute cong: filter_cong)

lemma seat_release_clean:
  assumes "tidy p"
  shows "main_listeners (wlc_seat_release E p) = main_listeners p" "tidy (wlc_seat_release E p)"
    "\<forall>x\<in>set (pr_listeners (wlc_seat_release E p)). x \<in> set (pr_listeners p) \<and> snd x \<notin> seat_family \<and> snd x \<noteq> Pointer_render"
  using assms by (auto simp: main_listeners_def listeners_seat_release tidy_def seat_family_def program_listeners_def intro!: filter_cong)

text \<open>\<open>calm p q\<close>: from \<open>p\<close> to \<open>q\<close> those listeners and \<open>_g_compositor\<close> are kept, and the listeners stay tidy.\<close>

definition calm :: "process \<Rightarrow> process \<Rightarrow> bool" where
  "calm p q \<longleftrightarrow> tidy p \<longrightarrow> tidy q \<and> main_listeners q = main_listeners p \<and> pr_g_compositor q = pr_g_compositor p"

lemma calm_trans: "calm p q \<Longrightarrow> calm q r \<Longrightarrow> calm p r"
  by (simp add: calm_def)

lemma calm_listens: "listens q = listens p \<Longrightarrow> calm p q"
  using listens_reads [of q p] by (simp add: calm_def) (simp add: listens_def)

lemma calm_refl: "calm p p" by (simp add: calm_def)

lemma calm_updates [simp]:
  "calm p (q\<lparr>pr_world := w\<rparr>) = calm p q" "calm p (q\<lparr>pr_timer := t\<rparr>) = calm p q" "calm p (q\<lparr>pr_seat_global := n\<rparr>) = calm p q"
  by (simp_all add: calm_def tidy_def main_listeners_def)

lemma calm_seat_release: "calm p (wlc_seat_release E p)"
  by (simp add: calm_def seat_release_clean listeners_seat_release(4))

lemma calm_pointer_start: "calm p (snd (pointer_start E ok p))"
  by (auto simp: calm_def tidy_def main_listeners_def pointer_start_def Let_def listeners_pointer_stop seat_family_def program_listeners_def
      intro!: filter_cong)

lemma calm_seat_devices: "calm p (snd (seat_devices E B p))"
proof -
  have "calm p (snd (wlc_keymap_ctor B p))" by (rule calm_listens [OF keymap_ctor_listens])
  then have "calm p (snd (pointer_start E ok (q\<lparr>pr_world := w, pr_timer := t\<rparr>)))" if "q = snd (wlc_keymap_ctor B p)" for ok q w t
    using calm_trans [OF _ calm_pointer_start] that by simp
  then show ?thesis
    using \<open>calm p (snd (wlc_keymap_ctor B p))\<close> by (simp add: seat_devices_def Let_def case_prod_beta)
qed

lemma calm_seat_ctor: assumes "tidy p" "\<forall>x\<in>set (pr_listeners p). snd x \<notin> seat_family \<and> snd x \<noteq> Pointer_render"
  shows "calm p (snd (wlc_seat_ctor E B p))"
proof -
  have begun: "pr_listeners (seat_begun E B p) = pr_listeners p" "pr_g_compositor (seat_begun E B p) = pr_g_compositor p"
    by (simp_all add: seat_begun_def Let_def case_prod_beta)
  have b: "calm p (seat_begun E B p)"
    using assms by (auto simp: calm_def tidy_def main_listeners_def begun)
  have "calm p (seat_listening (seat_begun E B p))"
    using assms by (auto simp: calm_def tidy_def main_listeners_def begun seat_listening_def seat_family_def program_listeners_def)
  then have d: "calm p (snd (seat_devices E B (seat_listening (seat_begun E B p))))"
    using calm_trans calm_seat_devices by blast
  have release: "calm p q \<Longrightarrow> calm p (wlc_seat_release E q)" for q by (rule calm_trans [OF _ calm_seat_release])
  show ?thesis using b d by (simp add: wlc_seat_ctor_steps Let_def release)
qed

lemma unlisten_all_listeners:
  "pr_listeners (fold (\<lambda>(_, l). unlisten l) ls p) = filter (\<lambda>x. snd x \<notin> snd ` set ls) (pr_listeners p)"
  "pr_seat_listens (fold (\<lambda>(_, l). unlisten l) ls p) = pr_seat_listens p"
  "pr_pointer_listens (fold (\<lambda>(_, l). unlisten l) ls p) = pr_pointer_listens p"
  by (induction ls arbitrary: p) (auto simp: case_prod_beta conj_commute intro!: filter_cong)

text \<open>Only the listeners of the rest of the program are left when the compositor is released.\<close>

lemma compositor_release_listeners:
  assumes "tidy p" "pr_g_compositor p"
  shows "pr_listeners (wlc_compositor_release E p) = main_listeners p" "\<not> pr_g_compositor (wlc_compositor_release E p)"
proof -
  define s where "s = compositor_stopping E p"
  have s: "pr_listeners s = filter (\<lambda>x. snd x \<notin> snd ` set compositor_listeners) (pr_listeners p)"
    "pr_seat_listens s = pr_seat_listens p" "pr_pointer_listens s = pr_pointer_listens p"
    by (simp_all add: s_def compositor_stopping_def stop_shells_def Let_def unlisten_all_listeners)
  have "snd x \<notin> snd ` set compositor_listeners \<and> (pr_seat_listens s \<longrightarrow> snd x \<notin> seat_family) \<and>
      (pr_pointer_listens s \<longrightarrow> snd x \<noteq> Pointer_render) \<longleftrightarrow> snd x \<in> program_listeners" if "x \<in> set (pr_listeners p)" for x
    using that assms(1) s(2,3)
    by (cases "snd x") (simp_all add: tidy_def compositor_listeners_def seat_family_def program_listeners_def Bex_def)
  then have "pr_listeners (wlc_seat_release E s) = main_listeners p"
    by (auto simp: listeners_seat_release s(1) main_listeners_def intro!: filter_cong)
  then show "pr_listeners (wlc_compositor_release E p) = main_listeners p" "\<not> pr_g_compositor (wlc_compositor_release E p)"
    using assms(2) by (simp_all add: wlc_compositor_release_def compositor_cleared_def Let_def s_def)
qed

section \<open>Start and release\<close>

definition seat_made :: "env \<Rightarrow> boot \<Rightarrow> process \<Rightarrow> bool" where
  "seat_made E B p \<longleftrightarrow> b_sources B \<and> fst (compositor_globals B (compositor_begun p)) \<and>
     fst (wlc_seat_ctor E B (snd (compositor_globals B (compositor_begun p))))"

text \<open>A compositor that is made and released; one that cannot be made is released already.\<close>

definition started_and_released :: "env \<Rightarrow> boot \<Rightarrow> process \<Rightarrow> process" where
  "started_and_released E B p =
     (let (ok, p) = wlc_compositor_ctor E B True p in if ok then wlc_compositor_release E p else p)"

lemma compositor_begun_reads:
  "owns (compositor_begun p) = owns p" "keymap_held (compositor_begun p) = (0, 0, 0)" "pr_g_compositor (compositor_begun p)"
  "pr_listeners (compositor_begun p) = pr_listeners p @ compositor_listeners"
  by (simp_all add: compositor_begun_def listen_all) (simp_all add: compositor_listeners_def)

lemma compositor_begun_tidy:
  assumes "\<forall>x\<in>set (pr_listeners p). snd x \<in> program_listeners"
  shows "tidy (compositor_begun p)" "main_listeners (compositor_begun p) = pr_listeners p"
    "\<forall>x\<in>set (pr_listeners (compositor_begun p)). snd x \<notin> seat_family \<and> snd x \<noteq> Pointer_render"
proof -
  have "\<forall>x\<in>set (pr_listeners (compositor_begun p)). snd x \<notin> seat_family \<and> snd x \<noteq> Pointer_render"
    using assms by (auto simp: compositor_begun_reads seat_family_def program_listeners_def compositor_listeners_def)
  then show "\<forall>x\<in>set (pr_listeners (compositor_begun p)). snd x \<notin> seat_family \<and> snd x \<noteq> Pointer_render"
    and "tidy (compositor_begun p)" by (auto simp: tidy_def)
  show "main_listeners (compositor_begun p) = pr_listeners p"
    using assms by (simp add: main_listeners_def compositor_begun_reads compositor_listeners_def program_listeners_def)
qed

lemma globals_quiet:
  assumes "env_keeps E seat_keymap"
  shows "owns (snd (compositor_globals B p)) = owns p" "keymap_held (snd (compositor_globals B p)) = keymap_held p"
    "listens (snd (compositor_globals B p)) = listens p"
    "owns (snd (shells_start E B p)) = owns p" "keymap_held (snd (shells_start E B p)) = keymap_held p"
    "listens (snd (shells_start E B p)) = listens p"
  by (simp_all add: compositor_globals_def shells_start_def Let_def case_prod_beta held_on_world seat_keymap_ctors [OF assms])

text \<open>Every way through the constructor ends in the release of some \<open>x\<close> that kept the listeners.\<close>

lemma started_and_released_cases:
  assumes "env_keeps E seat_keymap" "fresh B p" "\<not> pr_g_compositor p" "\<forall>x\<in>set (pr_listeners p). snd x \<in> program_listeners"
  obtains x where "started_and_released E B p = wlc_compositor_release E x" "calm (compositor_begun p) x"
    "after_release x = (if seat_made E B p then owns p else minus0 (owns p))"
proof -
  let ?b = "compositor_begun p" and ?g = "compositor_globals B (compositor_begun p)"
  let ?s = "wlc_seat_ctor E B (snd ?g)" let ?h = "shells_start E B (snd ?s)"
  note quiet = globals_quiet [OF assms(1)]
  have g: "owns (snd ?g) = owns p" "keymap_held (snd ?g) = (0, 0, 0)" "listens (snd ?g) = listens ?b"
    by (simp_all add: quiet compositor_begun_reads)
  have sb: "fst ?s \<Longrightarrow> after_release (snd ?s) = owns p" "\<not> fst ?s \<Longrightarrow> after_release (snd ?s) = minus0 (owns p)"
    using seat_ctor_balanced [of B "snd ?g" E] fresh_owns(1) [OF g(1)] g(1) assms(1,2) by (simp_all add: after_release_zero)
  have "pr_listeners (snd ?g) = pr_listeners ?b" using g(3) by (simp add: listens_def)
  then have "calm (snd ?g) (snd ?s)"
    using compositor_begun_tidy(1,3) [OF assms(4)] listens_reads(2) [OF g(3)] by (intro calm_seat_ctor) simp_all
  moreover have "calm ?b (snd ?g)" by (rule calm_listens [OF g(3)])
  ultimately have cs: "calm ?b (snd ?s)" using calm_trans by blast
  moreover have "calm (snd ?s) (snd ?h)" by (rule calm_listens) (simp add: quiet)
  ultimately have ch: "calm ?b (snd ?h)" using calm_trans by blast
  have sh: "after_release (snd ?h) = after_release (snd ?s)" by (rule after_release_eq) (simp_all add: quiet)
  have backend: "after_release (q\<lparr>pr_backend := True\<rparr>) = after_release q" "calm ?b (q\<lparr>pr_backend := True\<rparr>) = calm ?b q" for q
    by (rule after_release_eq, simp_all) (simp add: calm_def tidy_def main_listeners_def)
  consider "\<not> b_sources B" | "b_sources B" "\<not> fst ?g" | "b_sources B" "fst ?g" "\<not> fst ?s" | "b_sources B" "fst ?g" "fst ?s" "\<not> (fst ?h \<and> b_backend B)"
    | "b_sources B" "fst ?g" "fst ?s" "fst ?h" "b_backend B" by blast
  then show thesis
  proof cases
    case 1
    then show ?thesis using assms(3) by (intro that [of ?b])
        (simp_all add: started_and_released_def wlc_compositor_ctor_def Let_def seat_made_def after_release_zero compositor_begun_reads calm_refl)
  next
    case 2
    then show ?thesis using assms(3) g by (intro that [of "snd ?g"])
        (simp_all add: started_and_released_def wlc_compositor_ctor_def Let_def seat_made_def after_release_zero case_prod_beta calm_listens)
  next
    case 3
    then show ?thesis using assms(3) sb cs by (intro that [of "snd ?s"])
        (simp_all add: started_and_released_def wlc_compositor_ctor_def Let_def seat_made_def case_prod_beta)
  next
    case 4
    then show ?thesis using assms(3) sb ch sh by (intro that [of "snd ?h"])
        (auto simp: started_and_released_def wlc_compositor_ctor_def Let_def seat_made_def case_prod_beta)
  next
    case 5
    then show ?thesis using assms(3) sb ch sh by (intro that [of "(snd ?h)\<lparr>pr_backend := True\<rparr>"])
        (simp_all add: started_and_released_def wlc_compositor_ctor_def Let_def seat_made_def case_prod_beta backend)
  qed
qed

text \<open>C8 (safety). Starting the compositor is all or nothing: whether it comes up and is released, or one of its
  constructors fails, the listeners of the signals, the mappings and the xkb keymaps are afterwards those from
  before. The descriptors are too when the seat came up; otherwise the release of a seat that was only reset
  closes descriptor 0.\<close>

theorem compositor_start_balanced:
  assumes "env_keeps E seat_keymap" and "fresh B p" and "\<not> pr_g_compositor p"
    and "\<forall>x\<in>set (pr_listeners p). snd x \<in> program_listeners"
  shows "\<not> pr_g_compositor (started_and_released E B p) \<and> pr_listeners (started_and_released E B p) = pr_listeners p \<and>
    pr_maps (started_and_released E B p) = pr_maps p \<and> pr_xkb (started_and_released E B p) = pr_xkb p \<and>
    pr_fds (started_and_released E B p) = (if seat_made E B p then pr_fds p else pr_fds p - {0})"
proof -
  obtain x where x: "started_and_released E B p = wlc_compositor_release E x" "calm (compositor_begun p) x"
    "after_release x = (if seat_made E B p then owns p else minus0 (owns p))"
    using started_and_released_cases [OF assms] by blast
  note begun = compositor_begun_tidy [OF assms(4)]
  have c: "tidy x" "main_listeners x = pr_listeners p" "pr_g_compositor x"
    using x(2) begun compositor_begun_reads(3) by (auto simp: calm_def)
  then have "owns (wlc_compositor_release E x) = (if seat_made E B p then owns p else minus0 (owns p))"
    using compositor_release_owns [OF assms(1)] x(3) by simp
  then show ?thesis
    using compositor_release_listeners [OF c(1,3), of E] c(2) x(1) by (auto simp: owns_def minus0_def split: if_splits)
qed

text \<open>A process with the three standard descriptors, and a start in which no allocation and no call succeeds.\<close>

definition process_ref :: process where
  "process_ref = \<lparr>pr_world = world_blank, pr_km_keymap = 0, pr_km_area = 0, pr_listeners = [(Sig_compositor, Main_compositor)],
     pr_seat_listens = False, pr_pointer_listens = False, pr_timer = False, pr_backend = False, pr_g_compositor = False,
     pr_manager_global = 0, pr_seat_global = 0, pr_shell_global = 0, pr_xdg_global = 0, pr_compositor_global = 0,
     pr_subcompositor_global = 0, pr_fds = {0, 1, 2}, pr_maps = {}, pr_xkb = {}\<rparr>"

definition boot_dark :: boot where
  "boot_dark = \<lparr>b_xkb_context = False, b_keymap = 1, b_keymap_string = None, b_file = 9, b_mmap = 5, b_mod_index = (\<lambda>_. 0),
     b_led_index = (\<lambda>_. 0), b_xkb_state = 0, b_xkb_sym = False, b_keyboard_pools = False, b_timer = False, b_delay = None,
     b_rate = None, b_pointer_pools = False, b_touch_pools = False, b_manager_global = 0, b_manager_pools = False,
     b_seat_global = 0, b_shell_global = 0, b_shell_pools = False, b_xdg_global = 0, b_xdg_pools = False,
     b_custom_pools = False, b_sources = False, b_compositor_global = 0, b_subcompositor_global = 0, b_backend = False\<rparr>"

lemma fresh_ref: "fresh boot_dark process_ref"
  by (simp add: fresh_def boot_dark_def process_ref_def)

theorem keymap_create_release_balanced_witness:
  "pr_fds (released (wlc_keymap_ctor boot_dark process_ref)) = {1, 2}"
  using keymap_create_release_balanced [OF fresh_ref]
  by (simp add: fails_early_def boot_dark_def) (auto simp: process_ref_def)

theorem compositor_start_balanced_witness:
  "pr_fds (started_and_released env_ref boot_dark process_ref) = {1, 2} \<and>
   pr_listeners (started_and_released env_ref boot_dark process_ref) = [(Sig_compositor, Main_compositor)]"
proof -
  have "\<not> seat_made env_ref boot_dark process_ref" by (simp add: seat_made_def boot_dark_def)
  then show ?thesis
    using compositor_start_balanced [OF env_ref_keeps fresh_ref]
    by (simp add: process_ref_def program_listeners_def)
qed

end
