(* ===== verification/Udev.thy ===== *)
theory Udev
  imports Startup
begin

text \<open>
  Input devices and hotplug (src/session/udev.c): the libinput and udev contexts with their event sources,
  the translation of libinput events into the input events of the compositor, the hotplug event, and the
  suspension of libinput while the session is away.

  libinput and libudev are parameters: what their calls return is in \<open>udev_sys\<close>, the events they have queued
  are arguments. A handle is 0 when it is NULL.
\<close>

record session =
  ss_process :: process
  in_handle :: nat
  in_source :: nat
  ud_handle :: nat
  ud_monitor :: nat
  ud_source :: nat
  ss_events :: "string list"

record udev_sys =
  us_udev :: nat
  us_monitor :: nat
  us_receiving :: bool
  us_udev_source :: nat
  us_libinput :: nat
  us_assign :: "string \<Rightarrow> bool"
  us_input_source :: nat
  us_xdg_seat :: "string option"

definition say :: "string \<Rightarrow> session \<Rightarrow> session" where
  "say x s = s\<lparr>ss_events := ss_events s @ [x]\<rparr>"

text \<open>\<open>wl_list_remove\<close> of a listener that is on no list follows a NULL pointer.\<close>

definition remove_listener :: "wlc_listener \<Rightarrow> session \<Rightarrow> session" where
  "remove_listener l s =
     (if l \<in> snd ` set (pr_listeners (ss_process s)) then s\<lparr>ss_process := unlisten l (ss_process s)\<rparr>
      else s\<lparr>ss_process := on_world (fail Null_pointer) (ss_process s)\<rparr>)"

section \<open>Events of libinput\<close>

text \<open>The functions scale the position of the event to a width or a height.\<close>

datatype libinput_event =
    Device_added nat
  | Device_removed nat
  | Pointer_motion u32 real real
  | Pointer_motion_absolute u32 "u32 \<Rightarrow> real" "u32 \<Rightarrow> real"
  | Pointer_button u32 u32 bool
  | Pointer_axis u32 "real option" "real option"
  | Keyboard_key u32 nat u32 bool
  | Touch_up u32 int
  | Touch_down u32 "u32 \<Rightarrow> real" "u32 \<Rightarrow> real" int
  | Touch_motion u32 "u32 \<Rightarrow> real" "u32 \<Rightarrow> real" int
  | Touch_frame u32
  | Touch_cancel u32
  | Other_event

fun wlc_touch_type_for_libinput_type :: "libinput_event \<Rightarrow> wlc_touch_type option" where
  "wlc_touch_type_for_libinput_type (Touch_up t s) = Some WLC_TOUCH_UP"
| "wlc_touch_type_for_libinput_type (Touch_down t x y s) = Some WLC_TOUCH_DOWN"
| "wlc_touch_type_for_libinput_type (Touch_motion t x y s) = Some WLC_TOUCH_MOTION"
| "wlc_touch_type_for_libinput_type (Touch_frame t) = Some WLC_TOUCH_FRAME"
| "wlc_touch_type_for_libinput_type (Touch_cancel t) = Some WLC_TOUCH_CANCEL"
| "wlc_touch_type_for_libinput_type _ = None"

definition touch_type :: "libinput_event \<Rightarrow> wlc_touch_type" where
  "touch_type e = (case wlc_touch_type_for_libinput_type e of None \<Rightarrow> WLC_TOUCH_CANCEL | Some t \<Rightarrow> t)"

definition axis_value :: "real option \<Rightarrow> real" where
  "axis_value a = (case a of None \<Rightarrow> 0 | Some x \<Rightarrow> x)"

definition axis_bit :: "u8 \<Rightarrow> real option \<Rightarrow> u8" where
  "axis_bit b a = (case a of None \<Rightarrow> 0 | Some x \<Rightarrow> b)"

text \<open>The case analysis of \<open>input_event\<close>, with the fields an event does not set at 0.\<close>

fun input_event_one :: "env \<Rightarrow> libinput_event \<Rightarrow> world \<Rightarrow> world" where
  "input_event_one E (Device_added d) w = (case if_input_created (iface E) of None \<Rightarrow> w | Some f \<Rightarrow> snd (f d w))"
| "input_event_one E (Device_removed d) w = call1 (if_input_destroyed (iface E)) d w"
| "input_event_one E (Pointer_motion time dx dy) w = sig_input E (WLC_INPUT_EVENT_MOTION time dx dy) w"
| "input_event_one E (Pointer_motion_absolute time x y) w = sig_input E (WLC_INPUT_EVENT_MOTION_ABSOLUTE time x y) w"
| "input_event_one E (Pointer_button time code pressed) w = sig_input E (WLC_INPUT_EVENT_BUTTON time code pressed) w"
| "input_event_one E (Pointer_axis time vertical horizontal) w =
     sig_input E (WLC_INPUT_EVENT_SCROLL time
       (axis_bit WLC_SCROLL_AXIS_VERTICAL vertical OR axis_bit WLC_SCROLL_AXIS_HORIZONTAL horizontal)
       (axis_value vertical) (axis_value horizontal)) w"
| "input_event_one E (Keyboard_key time dev code pressed) w = sig_input E (WLC_INPUT_EVENT_KEY time dev code pressed) w"
| "input_event_one E (Touch_up time slot) w =
     sig_input E (WLC_INPUT_EVENT_TOUCH time None (touch_type (Touch_up time slot)) slot) w"
| "input_event_one E (Touch_down time x y slot) w =
     sig_input E (WLC_INPUT_EVENT_TOUCH time (Some (x, y)) (touch_type (Touch_down time x y slot)) slot) w"
| "input_event_one E (Touch_motion time x y slot) w =
     sig_input E (WLC_INPUT_EVENT_TOUCH time (Some (x, y)) (touch_type (Touch_motion time x y slot)) slot) w"
| "input_event_one E (Touch_frame time) w = sig_input E (WLC_INPUT_EVENT_TOUCH time None (touch_type (Touch_frame time)) 0) w"
| "input_event_one E (Touch_cancel time) w = sig_input E (WLC_INPUT_EVENT_TOUCH time None (touch_type (Touch_cancel time)) 0) w"
| "input_event_one E Other_event w = w"

text \<open>The events that are queued, in order.\<close>

definition input_event :: "env \<Rightarrow> libinput_event list \<Rightarrow> world \<Rightarrow> world" where
  "input_event E evs w = fold (input_event_one E) evs w"

section \<open>Hotplug\<close>

record udev_device =
  ud_sysnum :: "u32 option"
  ud_hotplug :: "string option"
  ud_action :: "string option"
  ud_sysname :: string

definition is_hotplug :: "u32 \<Rightarrow> udev_device \<Rightarrow> bool" where
  "is_hotplug drm_id d \<longleftrightarrow> ud_sysnum d = Some drm_id \<and> ud_hotplug d = Some ''1''"

text \<open>What follows a device that is no hotplug is logging.\<close>

definition udev_event :: "env \<Rightarrow> udev_device option \<Rightarrow> world \<Rightarrow> world" where
  "udev_event E dev w =
     (case dev of
        None \<Rightarrow> w
      | Some d \<Rightarrow> if is_hotplug 0 d then sig_output E WLC_OUTPUT_EVENT_UPDATE w else w)"

section \<open>Event loops and contexts\<close>

text \<open>\<open>loop\<close> is whether there is an event loop; \<open>src\<close> is what \<open>wl_event_loop_add_fd\<close> returns.\<close>

definition input_set_event_loop :: "bool \<Rightarrow> nat \<Rightarrow> session \<Rightarrow> bool \<times> session" where
  "input_set_event_loop loop src s =
     (let s = (if in_source s \<noteq> 0 then (say ''remove input source'' s)\<lparr>in_source := 0\<rparr> else s) in
      if in_handle s \<noteq> 0 \<and> loop then let s = s\<lparr>in_source := src\<rparr> in (src \<noteq> 0, s) else (True, s))"

definition udev_set_event_loop :: "bool \<Rightarrow> nat \<Rightarrow> session \<Rightarrow> bool \<times> session" where
  "udev_set_event_loop loop src s =
     (let s = (if ud_source s \<noteq> 0 then (say ''remove udev source'' s)\<lparr>ud_source := 0\<rparr> else s) in
      if ud_handle s \<noteq> 0 \<and> ud_monitor s \<noteq> 0 \<and> loop then let s = s\<lparr>ud_source := src\<rparr> in (src \<noteq> 0, s) else (True, s))"

definition udev_activate_event :: "bool \<Rightarrow> session \<Rightarrow> session" where
  "udev_activate_event active s =
     (if in_handle s = 0 then s else if \<not> active then say ''libinput suspend'' s else say ''libinput resume'' s)"

definition wlc_input_has_init :: "session \<Rightarrow> bool" where
  "wlc_input_has_init s \<longleftrightarrow> in_handle s \<noteq> 0"

definition wlc_input_terminate :: "session \<Rightarrow> session" where
  "wlc_input_terminate s =
     (let (_, s) = input_set_event_loop False 0 s;
          s = (if in_handle s \<noteq> 0 then say ''unref libinput'' s else s)
      in s\<lparr>in_handle := 0, in_source := 0\<rparr>)"

text \<open>A failure to add the event source is returned without taking the context back.\<close>

definition wlc_input_init :: "udev_sys \<Rightarrow> session \<Rightarrow> bool \<times> session" where
  "wlc_input_init U s =
     (if in_handle s \<noteq> 0 then (True, s)
      else
        let s = s\<lparr>in_handle := us_libinput U\<rparr> in
        if us_libinput U = 0 then (False, wlc_input_terminate s)
        else if \<not> us_assign U (case us_xdg_seat U of None \<Rightarrow> ''seat0'' | Some x \<Rightarrow> x) then (False, wlc_input_terminate s)
        else input_set_event_loop True (us_input_source U) s)"

text \<open>The listener is taken off its list whenever there is a udev context.\<close>

definition wlc_udev_terminate :: "session \<Rightarrow> session" where
  "wlc_udev_terminate s =
     (let s = (if ud_handle s \<noteq> 0 then remove_listener Udev_activate s else s);
          (_, s) = udev_set_event_loop False 0 s;
          s = (if ud_monitor s \<noteq> 0 then say ''unref monitor'' s else s);
          s = (if ud_handle s \<noteq> 0 then say ''unref udev'' s else s)
      in s\<lparr>ud_handle := 0, ud_monitor := 0, ud_source := 0\<rparr>)"

definition wlc_udev_init :: "udev_sys \<Rightarrow> session \<Rightarrow> bool \<times> session" where
  "wlc_udev_init U s =
     (if ud_handle s \<noteq> 0 then (True, s)
      else
        let s = s\<lparr>ud_handle := us_udev U\<rparr> in
        if us_udev U = 0 then (False, s)
        else
          let s = s\<lparr>ud_monitor := us_monitor U\<rparr> in
          if us_monitor U = 0 then (False, wlc_udev_terminate s)
          else if \<not> us_receiving U then (False, wlc_udev_terminate s)
          else
            let (ok, s) = udev_set_event_loop True (us_udev_source U) s in
            if \<not> ok then (False, wlc_udev_terminate s)
            else (True, s\<lparr>ss_process := listen Sig_activate Udev_activate (ss_process s)\<rparr>))"

end
