(* ===== verification/Entry.thy ===== *)
theory Entry
  imports Udev
begin

text \<open>
  The entry of the library (src/wlc.c): initialisation, the run of the event loop and the clean-up, the callbacks
  of the author, activation, the debug channels, the selection as the author sees it.

  \<open>main\<close> is the static \<open>wlc\<close> with the session it drives. The outcomes of system calls are in \<open>main_sys\<close>; steps that
  are modelled with a state of their own elsewhere (Tty.thy, Fdpass.thy, Resources.thy) or that only call libraries
  are events of the session, in order. Logging is left out. \<open>die\<close> ends the process.
\<close>

record main =
  wl_session :: session
  wl_interface :: wlc_interface
  wl_display :: nat
  wl_log_fun :: bool

record main_sys =
  ms_privileged :: bool
  ms_x11display :: bool
  ms_input_access :: bool
  ms_resources :: bool
  ms_display :: nat
  ms_socket :: "string option"
  ms_shm :: bool
  ms_udev :: udev_sys
  ms_libinput :: "string option"
  ms_boot :: boot
  ms_loop :: "main \<Rightarrow> main"
  ms_resource_list :: "world \<Rightarrow> nat list"
  ms_handle_list :: "world \<Rightarrow> nat list"

datatype 'a ending = Returned 'a | Died string

definition note_event :: "string \<Rightarrow> main \<Rightarrow> main" where
  "note_event x m = m\<lparr>wl_session := say x (wl_session m)\<rparr>"

definition on_process :: "(process \<Rightarrow> process) \<Rightarrow> main \<Rightarrow> main" where
  "on_process f m = m\<lparr>wl_session := (wl_session m)\<lparr>ss_process := f (ss_process (wl_session m))\<rparr>\<rparr>"

definition main_world :: "main \<Rightarrow> world" where "main_world m = pr_world (ss_process (wl_session m))"

definition upd_world :: "(world \<Rightarrow> world) \<Rightarrow> main \<Rightarrow> main" where
  "upd_world f = on_process (on_world f)"

text \<open>The operations of the other components see the callbacks that are set.\<close>

definition env_of :: "env \<Rightarrow> main \<Rightarrow> env" where "env_of E m = E\<lparr>iface := wl_interface m\<rparr>"

section \<open>Debug channels\<close>

text \<open>The search in \<open>WLC_DEBUG\<close>, at offset \<open>i\<close> of the string \<open>s\<close>, whose terminator is at \<open>length s\<close>; \<open>neq\<close> is \<open>chck_cstrneq\<close>.
  \<open>Overrun\<close> is a read behind the terminator.\<close>

datatype scan = Found nat | End | Overrun

function dlog_scan :: "(string \<Rightarrow> string \<Rightarrow> nat \<Rightarrow> bool) \<Rightarrow> string \<Rightarrow> string \<Rightarrow> nat \<Rightarrow> scan" where
  "dlog_scan neq s name i =
     (if i > length s then Overrun
      else if i = length s then End
      else if neq (drop i s) name (length name) then Found i
      else dlog_scan neq s name (i + length (takeWhile (\<lambda>c. c \<noteq> CHR '','') (drop i s)) + 1))"
  by pat_completeness auto
termination by (relation "measure (\<lambda>(neq, s, name, i). Suc (length s) - i)") auto

declare dlog_scan.simps [simp del]

record channel =
  ch_active :: bool
  ch_checked :: bool

definition channel_names :: "string list" where
  "channel_names = [''handle'', ''render'', ''render-loop'', ''focus'', ''xwm'', ''keyboard'', ''commit'', ''request'']"

text \<open>\<open>debug\<close> is the value of \<open>WLC_DEBUG\<close>; the result is whether the message is logged, \<open>None\<close> after an overrun.\<close>

definition wlc_dlog ::
  "(string \<Rightarrow> string \<Rightarrow> nat \<Rightarrow> bool) \<Rightarrow> string option \<Rightarrow> nat \<Rightarrow> channel list \<Rightarrow> (bool \<times> channel list) option" where
  "wlc_dlog neq debug dbg chs =
     (if \<not> ch_checked (chs ! dbg) then
        (case debug of
           None \<Rightarrow> Some (False, chs[dbg := \<lparr>ch_active = False, ch_checked = True\<rparr>])
         | Some s \<Rightarrow>
             (case dlog_scan neq s (channel_names ! dbg) 0 of
                Overrun \<Rightarrow> None
              | End \<Rightarrow> Some (False, chs[dbg := \<lparr>ch_active = False, ch_checked = True\<rparr>])
              | Found i \<Rightarrow> Some (True, chs[dbg := \<lparr>ch_active = True, ch_checked = True\<rparr>])))
      else Some (ch_active (chs ! dbg), chs))"

section \<open>Small operations\<close>

definition wlc_get_time :: "int \<Rightarrow> int \<Rightarrow> u32" where
  "wlc_get_time sec nsec = word_of_int (sec * 1000 + nsec div 1000000)"

definition wlc_get_active :: "main \<Rightarrow> bool" where "wlc_get_active m = w_active (main_world m)"

text \<open>\<open>wl_signal_emit\<close> calls the listeners in the order they were added.\<close>

definition emit_activate :: "env \<Rightarrow> bool \<Rightarrow> main \<Rightarrow> main" where
  "emit_activate E active m =
     fold (\<lambda>(g, l) m.
        if g \<noteq> Sig_activate then m
        else if l = Compositor_activate then upd_world (activate_event (env_of E m) active 0) m
        else if l = Udev_activate then m\<lparr>wl_session := udev_activate_event active (wl_session m)\<rparr> else m)
       (pr_listeners (ss_process (wl_session m))) m"

definition emit_terminate :: "env \<Rightarrow> main \<Rightarrow> main" where
  "emit_terminate E m =
     fold (\<lambda>(g, l) m.
        if g = Sig_terminate \<and> l = Compositor_terminate then upd_world (terminate_event (env_of E m)) m else m)
       (pr_listeners (ss_process (wl_session m))) m"

definition wlc_set_active :: "env \<Rightarrow> bool \<Rightarrow> main \<Rightarrow> main" where
  "wlc_set_active E active m =
     (if active = w_active (main_world m) then m
      else emit_activate E active (upd_world (\<lambda>w. w\<lparr>w_active := active\<rparr>) m))"

definition compositor_event :: "main \<Rightarrow> main" where
  "compositor_event m = note_event ''display terminate'' m"

definition wlc_event_source_remove :: "main \<Rightarrow> main" where
  "wlc_event_source_remove m = (if wl_display m \<noteq> 0 then note_event ''remove source'' m else m)"

definition wlc_log_set_handler :: "bool \<Rightarrow> main \<Rightarrow> main" where
  "wlc_log_set_handler cb m = m\<lparr>wl_log_fun := cb\<rparr>"

text \<open>\<open>wlc_exec\<close>, by what \<open>fork\<close> returns: what this process, or its copy, goes on to do.\<close>

datatype exec_step = Setsid | Null_stdout | Null_stderr | Execvp string "string list" | Exit_failure | Log_fork_failure string

definition wlc_exec :: "int \<Rightarrow> string \<Rightarrow> string list \<Rightarrow> exec_step list" where
  "wlc_exec fork bin args =
     (if bin = [] then []
      else if fork = 0 then [Setsid, Null_stdout, Null_stderr, Execvp bin args, Exit_failure]
      else if fork < 0 then [Log_fork_failure bin] else [])"

section \<open>Initialisation\<close>

definition iface_zero :: wlc_interface where "iface_zero = iface_none"

text \<open>The assignment of a zeroed struct: the compositor in it, its signals, the display; the state of the other files
  of the program stays. \<open>wlc.active\<close> and the flag \<open>ready\<close> are part of the world.\<close>

definition reset_main :: "bool \<Rightarrow> wlc_interface \<Rightarrow> main \<Rightarrow> main" where
  "reset_main logger interface m =
     on_process (\<lambda>p. clear_seat (on_world (\<lambda>w. w\<lparr>w_comp := comp_zero, w_active := False\<rparr>)
         (p\<lparr>pr_listeners := [], pr_shell_global := 0, pr_xdg_global := 0, pr_compositor_global := 0,
            pr_subcompositor_global := 0, pr_backend := False\<rparr>)))
       (m\<lparr>wl_display := 0, wl_log_fun := logger, wl_interface := interface\<rparr>)"

definition lift_session :: "(session \<Rightarrow> bool \<times> session) \<Rightarrow> main \<Rightarrow> bool \<times> main" where
  "lift_session f m = (let (ok, s) = f (wl_session m) in (ok, m\<lparr>wl_session := s\<rparr>))"

definition lift_process :: "(process \<Rightarrow> bool \<times> process) \<Rightarrow> main \<Rightarrow> bool \<times> main" where
  "lift_process f m = (let (ok, p) = f (ss_process (wl_session m)) in (ok, on_process (\<lambda>_. p) m))"

text \<open>After the privileges are dropped: from the signals to the compositor.\<close>

definition init_input :: "main_sys \<Rightarrow> main \<Rightarrow> bool \<times> main" where
  "init_input S m =
     (if \<not> ms_x11display S \<or> (ms_libinput S \<noteq> None \<and> ms_libinput S \<noteq> Some ''0'')
      then lift_session (wlc_input_init (ms_udev S)) m else (True, m))"

definition init_services :: "env \<Rightarrow> main_sys \<Rightarrow> main \<Rightarrow> (main) ending" where
  "init_services E S m =
     (let m = on_process (\<lambda>p. listen Sig_compositor Main_compositor (p\<lparr>pr_listeners := []\<rparr>)) m;
          m = note_event ''resources init'' m
      in
      if \<not> ms_resources S then Died ''Failed to init resource manager''
      else
        let m = (if wl_display m = 0 then (note_event ''display create'' m)\<lparr>wl_display := ms_display S\<rparr> else m) in
        if wl_display m = 0 then Died ''Failed to create wayland display''
        else if ms_socket S = None then Died ''Failed to add socket to wayland display''
        else if \<not> ms_shm S then Died ''Failed to init shm''
        else
          let (ok, m) = lift_session (wlc_udev_init (ms_udev S)) m in
          if \<not> ok then Died ''Failed to init udev''
          else
            let (ok, m) = init_input S m in
            if \<not> ok then Died ''Failed to init input''
            else
              let (ok, m) = lift_process (wlc_compositor_ctor (env_of E m) (ms_boot S) True) m in
              if \<not> ok then Died ''Failed to init compositor'' else Returned (note_event ''setenv WAYLAND_DISPLAY'' m))"

text \<open>In a build without logind the terminal is number 0, to be found. The display is hidden from the fd process.\<close>

definition wlc_init :: "env \<Rightarrow> main_sys \<Rightarrow> main \<Rightarrow> (bool \<times> main) ending" where
  "wlc_init E S m =
     (if wl_display m \<noteq> 0 then Returned (True, m)
      else
        let m = reset_main (wl_log_fun m) (wl_interface m) m;
            m = note_event ''log handler'' m
        in
        if \<not> ms_privileged S \<and> \<not> ms_x11display S \<and> \<not> ms_input_access S
        then Died ''Not running from X11 and no access to /dev/input/event0 or logind unavailable''
        else
          let m = (if \<not> ms_x11display S then note_event ''tty init'' m else m);
              display = wl_display m;
              m = m\<lparr>wl_display := 0\<rparr>;
              m = note_event ''fd init'' m;
              m = m\<lparr>wl_display := display\<rparr>
          in case init_services E S m of Died x \<Rightarrow> Died x | Returned m \<Rightarrow> Returned (True, m))"

section \<open>Clean-up, run and termination\<close>

text \<open>Both pools in their order: what is still alive is released.\<close>

definition wlc_resources_terminate_world :: "env \<Rightarrow> main_sys \<Rightarrow> world \<Rightarrow> world" where
  "wlc_resources_terminate_world E S w =
     (let w = fold (release_resource E) (ms_resource_list S w) w
      in fold (release_handle E) (ms_handle_list S w) w)"

definition wlc_cleanup :: "env \<Rightarrow> main_sys \<Rightarrow> main \<Rightarrow> main" where
  "wlc_cleanup E S m =
     (let live = wl_display m \<noteq> 0;
          m = (if \<not> live then m
               else
                 let m = note_event ''flush clients'' m;
                     m = on_process (wlc_compositor_release (env_of E m)) m;
                     m = note_event ''flush clients'' m;
                     m = on_process (unlisten Main_compositor) m;
                     m = upd_world (wlc_resources_terminate_world (env_of E m) S) m;
                     m = m\<lparr>wl_session := wlc_udev_terminate (wlc_input_terminate (wl_session m))\<rparr>
                 in note_event ''fd terminate'' m);
          m = note_event ''tty terminate'' m;
          m = (if live then note_event ''display destroy'' m else m)
      in reset_main False iface_zero m)"

definition wlc_run :: "env \<Rightarrow> main_sys \<Rightarrow> main \<Rightarrow> main" where
  "wlc_run E S m =
     (if wl_display m = 0 then m
      else
        let m = upd_world (upd_comp (\<lambda>c. c\<lparr>c_ready := False\<rparr>)) m;
            m = upd_world (call0 (if_compositor_ready (wl_interface m))) m;
            m = upd_world (upd_comp (\<lambda>c. c\<lparr>c_ready := True\<rparr>)) m;
            m = wlc_set_active E True m;
            m = (if wlc_compositor_is_good (env_of E m) (main_world m) then ms_loop S (note_event ''display run'' m) else m)
        in wlc_cleanup E S m)"

definition wlc_terminate :: "env \<Rightarrow> main \<Rightarrow> main" where
  "wlc_terminate E m = (if wl_display m = 0 then m else emit_terminate E m)"

section \<open>The callbacks of the author\<close>

definition wlc_set_output_created_cb :: "(nat \<Rightarrow> world \<Rightarrow> bool \<times> world) option \<Rightarrow> main \<Rightarrow> main" where
  "wlc_set_output_created_cb cb m = m\<lparr>wl_interface := (wl_interface m)\<lparr>if_output_created := cb\<rparr>\<rparr>"

definition wlc_set_output_destroyed_cb :: "(nat \<Rightarrow> world \<Rightarrow> world) option \<Rightarrow> main \<Rightarrow> main" where
  "wlc_set_output_destroyed_cb cb m = m\<lparr>wl_interface := (wl_interface m)\<lparr>if_output_destroyed := cb\<rparr>\<rparr>"

definition wlc_set_output_focus_cb :: "(nat \<Rightarrow> bool \<Rightarrow> world \<Rightarrow> world) option \<Rightarrow> main \<Rightarrow> main" where
  "wlc_set_output_focus_cb cb m = m\<lparr>wl_interface := (wl_interface m)\<lparr>if_output_focus := cb\<rparr>\<rparr>"

definition wlc_set_output_resolution_cb :: "(nat \<Rightarrow> wlc_size \<Rightarrow> wlc_size \<Rightarrow> world \<Rightarrow> world) option \<Rightarrow> main \<Rightarrow> main" where
  "wlc_set_output_resolution_cb cb m = m\<lparr>wl_interface := (wl_interface m)\<lparr>if_output_resolution := cb\<rparr>\<rparr>"

definition wlc_set_output_render_pre_cb :: "(nat \<Rightarrow> world \<Rightarrow> world) option \<Rightarrow> main \<Rightarrow> main" where
  "wlc_set_output_render_pre_cb cb m = m\<lparr>wl_interface := (wl_interface m)\<lparr>if_output_render_pre := cb\<rparr>\<rparr>"

definition wlc_set_output_render_post_cb :: "(nat \<Rightarrow> world \<Rightarrow> world) option \<Rightarrow> main \<Rightarrow> main" where
  "wlc_set_output_render_post_cb cb m = m\<lparr>wl_interface := (wl_interface m)\<lparr>if_output_render_post := cb\<rparr>\<rparr>"

definition wlc_set_output_context_created_cb :: "(nat \<Rightarrow> world \<Rightarrow> world) option \<Rightarrow> main \<Rightarrow> main" where
  "wlc_set_output_context_created_cb cb m = m\<lparr>wl_interface := (wl_interface m)\<lparr>if_output_context_created := cb\<rparr>\<rparr>"

definition wlc_set_output_context_destroyed_cb :: "(nat \<Rightarrow> world \<Rightarrow> world) option \<Rightarrow> main \<Rightarrow> main" where
  "wlc_set_output_context_destroyed_cb cb m = m\<lparr>wl_interface := (wl_interface m)\<lparr>if_output_context_destroyed := cb\<rparr>\<rparr>"

definition wlc_set_view_created_cb :: "(nat \<Rightarrow> world \<Rightarrow> bool \<times> world) option \<Rightarrow> main \<Rightarrow> main" where
  "wlc_set_view_created_cb cb m = m\<lparr>wl_interface := (wl_interface m)\<lparr>if_view_created := cb\<rparr>\<rparr>"

definition wlc_set_view_destroyed_cb :: "(nat \<Rightarrow> world \<Rightarrow> world) option \<Rightarrow> main \<Rightarrow> main" where
  "wlc_set_view_destroyed_cb cb m = m\<lparr>wl_interface := (wl_interface m)\<lparr>if_view_destroyed := cb\<rparr>\<rparr>"

definition wlc_set_view_focus_cb :: "(nat \<Rightarrow> bool \<Rightarrow> world \<Rightarrow> world) option \<Rightarrow> main \<Rightarrow> main" where
  "wlc_set_view_focus_cb cb m = m\<lparr>wl_interface := (wl_interface m)\<lparr>if_view_focus := cb\<rparr>\<rparr>"

definition wlc_set_view_move_to_output_cb :: "(nat \<Rightarrow> nat \<Rightarrow> nat \<Rightarrow> world \<Rightarrow> world) option \<Rightarrow> main \<Rightarrow> main" where
  "wlc_set_view_move_to_output_cb cb m = m\<lparr>wl_interface := (wl_interface m)\<lparr>if_view_move_to_output := cb\<rparr>\<rparr>"

definition wlc_set_view_request_geometry_cb :: "(nat \<Rightarrow> wlc_geometry \<Rightarrow> world \<Rightarrow> world) option \<Rightarrow> main \<Rightarrow> main" where
  "wlc_set_view_request_geometry_cb cb m = m\<lparr>wl_interface := (wl_interface m)\<lparr>if_view_request_geometry := cb\<rparr>\<rparr>"

definition wlc_set_view_request_state_cb :: "(nat \<Rightarrow> u32 \<Rightarrow> bool \<Rightarrow> world \<Rightarrow> world) option \<Rightarrow> main \<Rightarrow> main" where
  "wlc_set_view_request_state_cb cb m = m\<lparr>wl_interface := (wl_interface m)\<lparr>if_view_request_state := cb\<rparr>\<rparr>"

definition wlc_set_view_request_move_cb :: "(nat \<Rightarrow> wlc_point \<Rightarrow> world \<Rightarrow> world) option \<Rightarrow> main \<Rightarrow> main" where
  "wlc_set_view_request_move_cb cb m = m\<lparr>wl_interface := (wl_interface m)\<lparr>if_view_request_move := cb\<rparr>\<rparr>"

definition wlc_set_view_request_resize_cb :: "(nat \<Rightarrow> u32 \<Rightarrow> wlc_point \<Rightarrow> world \<Rightarrow> world) option \<Rightarrow> main \<Rightarrow> main" where
  "wlc_set_view_request_resize_cb cb m = m\<lparr>wl_interface := (wl_interface m)\<lparr>if_view_request_resize := cb\<rparr>\<rparr>"

definition wlc_set_view_render_pre_cb :: "(nat \<Rightarrow> world \<Rightarrow> world) option \<Rightarrow> main \<Rightarrow> main" where
  "wlc_set_view_render_pre_cb cb m = m\<lparr>wl_interface := (wl_interface m)\<lparr>if_view_render_pre := cb\<rparr>\<rparr>"

definition wlc_set_view_render_post_cb :: "(nat \<Rightarrow> world \<Rightarrow> world) option \<Rightarrow> main \<Rightarrow> main" where
  "wlc_set_view_render_post_cb cb m = m\<lparr>wl_interface := (wl_interface m)\<lparr>if_view_render_post := cb\<rparr>\<rparr>"

definition wlc_set_view_properties_updated_cb :: "(nat \<Rightarrow> u32 \<Rightarrow> world \<Rightarrow> world) option \<Rightarrow> main \<Rightarrow> main" where
  "wlc_set_view_properties_updated_cb cb m = m\<lparr>wl_interface := (wl_interface m)\<lparr>if_view_properties_updated := cb\<rparr>\<rparr>"

definition wlc_set_keyboard_key_cb :: "(nat \<times> u32 \<times> wlc_modifiers \<times> u32 \<times> bool \<Rightarrow> world \<Rightarrow> bool \<times> world) option \<Rightarrow> main \<Rightarrow> main" where
  "wlc_set_keyboard_key_cb cb m = m\<lparr>wl_interface := (wl_interface m)\<lparr>if_keyboard_key := cb\<rparr>\<rparr>"

definition wlc_set_pointer_button_cb :: "(nat \<times> u32 \<times> wlc_modifiers \<times> u32 \<times> bool \<times> wlc_point \<Rightarrow> world \<Rightarrow> bool \<times> world) option \<Rightarrow> main \<Rightarrow> main" where
  "wlc_set_pointer_button_cb cb m = m\<lparr>wl_interface := (wl_interface m)\<lparr>if_pointer_button := cb\<rparr>\<rparr>"

definition wlc_set_pointer_scroll_cb :: "(nat \<times> u32 \<times> wlc_modifiers \<times> u8 \<times> real \<times> real \<Rightarrow> world \<Rightarrow> bool \<times> world) option \<Rightarrow> main \<Rightarrow> main" where
  "wlc_set_pointer_scroll_cb cb m = m\<lparr>wl_interface := (wl_interface m)\<lparr>if_pointer_scroll := cb\<rparr>\<rparr>"

definition wlc_set_pointer_motion_cb :: "(nat \<times> u32 \<times> wlc_point \<Rightarrow> world \<Rightarrow> bool \<times> world) option \<Rightarrow> main \<Rightarrow> main" where
  "wlc_set_pointer_motion_cb cb m = m\<lparr>wl_interface := (wl_interface m)\<lparr>if_pointer_motion := cb\<rparr>\<rparr>"

definition wlc_set_touch_cb :: "(nat \<times> u32 \<times> wlc_modifiers \<times> wlc_touch_type \<times> int \<times> wlc_point \<Rightarrow> world \<Rightarrow> bool \<times> world) option \<Rightarrow> main \<Rightarrow> main" where
  "wlc_set_touch_cb cb m = m\<lparr>wl_interface := (wl_interface m)\<lparr>if_touch := cb\<rparr>\<rparr>"

definition wlc_set_compositor_ready_cb :: "(world \<Rightarrow> world) option \<Rightarrow> main \<Rightarrow> main" where
  "wlc_set_compositor_ready_cb cb m = m\<lparr>wl_interface := (wl_interface m)\<lparr>if_compositor_ready := cb\<rparr>\<rparr>"

definition wlc_set_compositor_terminate_cb :: "(world \<Rightarrow> world) option \<Rightarrow> main \<Rightarrow> main" where
  "wlc_set_compositor_terminate_cb cb m = m\<lparr>wl_interface := (wl_interface m)\<lparr>if_compositor_terminate := cb\<rparr>\<rparr>"

definition wlc_set_input_created_cb :: "(nat \<Rightarrow> world \<Rightarrow> bool \<times> world) option \<Rightarrow> main \<Rightarrow> main" where
  "wlc_set_input_created_cb cb m = m\<lparr>wl_interface := (wl_interface m)\<lparr>if_input_created := cb\<rparr>\<rparr>"

definition wlc_set_input_destroyed_cb :: "(nat \<Rightarrow> world \<Rightarrow> world) option \<Rightarrow> main \<Rightarrow> main" where
  "wlc_set_input_destroyed_cb cb m = m\<lparr>wl_interface := (wl_interface m)\<lparr>if_input_destroyed := cb\<rparr>\<rparr>"

definition wlc_set_view_minimized_cb :: "(nat \<Rightarrow> bool \<Rightarrow> world \<Rightarrow> bool \<times> world) option \<Rightarrow> main \<Rightarrow> main" where
  "wlc_set_view_minimized_cb cb m = m\<lparr>wl_interface := (wl_interface m)\<lparr>if_view_request_minimize := cb\<rparr>\<rparr>"

definition wlc_set_pointer_motion_cb_v2 :: "(nat \<times> u32 \<times> real \<times> real \<Rightarrow> world \<Rightarrow> bool \<times> world) option \<Rightarrow> main \<Rightarrow> main" where
  "wlc_set_pointer_motion_cb_v2 cb m = m\<lparr>wl_interface := (wl_interface m)\<lparr>if_pointer_motion_v2 := cb\<rparr>\<rparr>"

section \<open>The selection\<close>

definition wlc_set_selection :: "env \<Rightarrow> string list \<Rightarrow> main \<Rightarrow> main" where
  "wlc_set_selection E types m = upd_world (wlc_data_device_manager_set_custom_selection (env_of E m) types) m"

text \<open>\<open>mem\<close> is whether \<open>calloc\<close> gives memory. The result is the array, \<open>None\<close> for NULL, and the size that is written, if
  one is; an entry is \<open>None\<close> when its string is NULL.\<close>

definition wlc_get_selection_types :: "bool \<Rightarrow> main \<Rightarrow> (string option list option \<times> nat option) \<times> main" where
  "wlc_get_selection_types mem m =
     (let source = dm_source (manager (main_world m)) in
      if source = No_source then ((None, Some 0), m)
      else case source_at (main_world m) source of
        None \<Rightarrow> ((None, None), upd_world (fail Wild_pointer) m)
      | Some d \<Rightarrow>
          if \<not> mem then ((None, None), m)
          else ((Some (ds_types d), Some (length (ds_types d))), m))"

definition wlc_get_selection_data :: "string \<Rightarrow> int \<Rightarrow> main \<Rightarrow> bool \<times> main" where
  "wlc_get_selection_data mime_type fd m =
     (let source = dm_source (manager (main_world m)) in
      if source = No_source then (False, m)
      else (True, upd_world (through (\<lambda>s. impl_send s mime_type fd) source) m))"

end
