(* ===== verification/Entrance.thy ===== *)
theory Entrance
  imports Entry Boot
begin

text \<open>
  What holds of the entry of the library: the search for a debug channel, the order of initialisation, the start
  of the udev monitor.
\<close>

section \<open>Debug channels\<close>

text \<open>The offsets at which an entry of the comma-separated list starts.\<close>

definition entry_start :: "string \<Rightarrow> nat \<Rightarrow> bool" where
  "entry_start s i \<longleftrightarrow> i = 0 \<or> s ! (i - 1) = CHR '',''"

definition entry_starts :: "string \<Rightarrow> nat list" where
  "entry_starts s = filter (entry_start s) [0..<Suc (length s)]"

lemma next_entry:
  assumes "i \<le> length s" "k = length (takeWhile (\<lambda>c. c \<noteq> CHR '','') (drop i s))"
  shows "i + k \<le> length s" "i < j \<Longrightarrow> j \<le> i + k \<Longrightarrow> s ! (j - 1) \<noteq> CHR '',''"
    "i + k < length s \<Longrightarrow> s ! (i + k) = CHR '',''"
proof -
  show le: "i + k \<le> length s" using assms length_takeWhile_le [of _ "drop i s"] by (metis length_drop le_add_diff_inverse nat_add_left_cancel_le)
  show "s ! (j - 1) \<noteq> CHR '',''" if "i < j" "j \<le> i + k"
  proof -
    have "j - 1 - i < k" using that by simp
    then have "drop i s ! (j - 1 - i) \<noteq> CHR '',''"
      using assms(2) by (metis (mono_tags, lifting) nth_mem set_takeWhileD takeWhile_nth)
    then show ?thesis using that le by simp
  qed
  show "s ! (i + k) = CHR '',''" if "i + k < length s"
    using nth_length_takeWhile [of "\<lambda>c. c \<noteq> CHR '',''" "drop i s"] that assms by simp
qed

lemma entries_from:
  assumes "i < length s" "entry_start s i" "k = length (takeWhile (\<lambda>c. c \<noteq> CHR '','') (drop i s))"
  shows "filter (entry_start s) [i..<Suc (length s)] = i # filter (entry_start s) [i + k + 1..<Suc (length s)]"
proof -
  note n = next_entry [OF less_imp_le [OF assms(1)] assms(3)]
  have "[i..<Suc (length s)] = i # [Suc i..<i + k + 1] @ [i + k + 1..<Suc (length s)]"
  proof -
    have "[i..<Suc (length s)] = [i..<i + k + 1] @ [i + k + 1..<Suc (length s)]"
      using n(1) upt_add_eq_append [of i "i + k + 1" "length s - (i + k)"] by simp
    then show ?thesis by (simp add: upt_conv_Cons del: upt_Suc)
  qed
  moreover have "filter (entry_start s) [Suc i..<i + k + 1] = []"
    using n(2) by (auto simp: entry_start_def filter_empty_conv)
  ultimately show ?thesis using assms(2) by simp
qed

lemma dlog_scan_entries:
  assumes "\<And>a. neq a name (length name) = (take (length name) a = name)" "name \<noteq> []" "i \<le> length s" "entry_start s i"
  shows "dlog_scan neq s name i =
    (case find (\<lambda>j. take (length name) (drop j s) = name) (filter (entry_start s) [i..<Suc (length s)]) of
       Some j \<Rightarrow> Found j | None \<Rightarrow> if i = length s \<or> last s = CHR '','' then End else Overrun)"
  using assms
proof (induction neq s name i rule: dlog_scan.induct)
  case (1 neq s name i)
  note IH = "1.IH" and prem = "1.prems"
  define k where "k = length (takeWhile (\<lambda>c. c \<noteq> CHR '','') (drop i s))"
  note n = next_entry [OF prem(3) k_def]
  consider "i = length s" | "i < length s" "take (length name) (drop i s) = name"
    | "i < length s" "take (length name) (drop i s) \<noteq> name" "i + k = length s"
    | "i < length s" "take (length name) (drop i s) \<noteq> name" "i + k < length s"
    using prem(3) n(1) by fastforce
  then show ?case
  proof cases
    case 1
    then show ?thesis using prem by (simp add: dlog_scan.simps [of neq s name "length s"])
  next
    case 2
    then show ?thesis using prem entries_from [OF 2(1) prem(4) k_def] by (simp add: dlog_scan.simps [of neq s name i])
  next
    case 3
    have "last s \<noteq> CHR '',''" using n(2) [of "length s"] 3(1,3) by (metis last_conv_nth le_refl length_0_conv not_less_zero)
    then show ?thesis
      using 3 prem entries_from [OF 3(1) prem(4) k_def]
      by (simp add: dlog_scan.simps [of neq s name i] dlog_scan.simps [of neq s name "Suc (length s)"] flip: k_def)
  next
    case 4
    have s: "entry_start s (i + k + 1)" using n(3) 4(3) by (simp add: entry_start_def)
    have "dlog_scan neq s name i = dlog_scan neq s name (i + k + 1)"
      using 4 prem(1) by (simp add: dlog_scan.simps [of neq s name i] flip: k_def)
    also have "\<dots> = (case find (\<lambda>j. take (length name) (drop j s) = name) (filter (entry_start s) [i + k + 1..<Suc (length s)]) of
       Some j \<Rightarrow> Found j | None \<Rightarrow> if i + k + 1 = length s \<or> last s = CHR '','' then End else Overrun)"
      using IH [folded k_def] 4 prem s by simp
    also have "(i + k + 1 = length s \<or> last s = CHR '','') = (last s = CHR '','')"
      using n(3) [OF 4(3)] by (metis add_diff_cancel_right' last_conv_nth length_0_conv less_zeroE 4(3))
    finally show ?thesis
      using 4 entries_from [OF 4(1) prem(4) k_def] by simp
  qed
qed

text \<open>A debug channel is on when an entry of \<open>WLC_DEBUG\<close> starts with its name, and the first such entry is the one
  found. When none does, the search ends well only if the list is empty or ends with a comma: otherwise it steps
  over the terminator of the string and reads on behind it.\<close>

theorem dlog_scan_reference:
  assumes "\<And>a. neq a name (length name) = (take (length name) a = name)" and "name \<noteq> []"
  shows "dlog_scan neq s name 0 =
    (case find (\<lambda>j. take (length name) (drop j s) = name) (entry_starts s) of
       Some j \<Rightarrow> Found j | None \<Rightarrow> if s = [] \<or> last s = CHR '','' then End else Overrun)"
proof -
  have "dlog_scan neq s name 0 =
    (case find (\<lambda>j. take (length name) (drop j s) = name) (filter (entry_start s) [0..<Suc (length s)]) of
       Some j \<Rightarrow> Found j | None \<Rightarrow> if 0 = length s \<or> last s = CHR '','' then End else Overrun)"
    by (rule dlog_scan_entries) (use assms in \<open>simp_all add: entry_start_def\<close>)
  then show ?thesis by (simp add: entry_starts_def del: upt_Suc)
qed

theorem dlog_scan_reference_witness:
  "dlog_scan (\<lambda>a b n. take n a = take n b) ''xwm,render-loop'' ''render'' 0 = Found 4 \<and>
   dlog_scan (\<lambda>a b n. take n a = take n b) ''xwm'' ''focus'' 0 = Overrun"
  using dlog_scan_reference [of "\<lambda>a b n. take n a = take n b" "''render''" "''xwm,render-loop''"]
    dlog_scan_reference [of "\<lambda>a b n. take n a = take n b" "''focus''" "''xwm''"]
  by (simp add: entry_starts_def entry_start_def upt_rec)

section \<open>The udev monitor\<close>

text \<open>When the monitor cannot be made or watched, the failure path of \<open>wlc_udev_init\<close> takes a listener off its list
  that was never put on one, through a NULL pointer.\<close>

theorem udev_failure_faults:
  assumes "ud_handle s = 0" and "us_udev U \<noteq> 0" and "us_monitor U = 0 \<or> \<not> us_receiving U \<or> us_udev_source U = 0"
    and "Udev_activate \<notin> snd ` set (pr_listeners (ss_process s))"
  shows "\<not> fst (wlc_udev_init U s) \<and> Null_pointer \<in> set (w_faults (pr_world (ss_process (snd (wlc_udev_init U s)))))"
proof -
  have "Null_pointer \<in> set (w_faults (pr_world (ss_process (wlc_udev_terminate t))))"
    if "ud_handle t \<noteq> 0" "ss_process t = ss_process s" for t
    using that assms(4) by (simp add: wlc_udev_terminate_def remove_listener_def udev_set_event_loop_def say_def Let_def fail_def)
  then show ?thesis
    using assms(1-3) by (auto simp: wlc_udev_init_def udev_set_event_loop_def say_def Let_def split: if_splits)
qed

definition session_ref :: session where
  "session_ref = \<lparr>ss_process = process_ref, in_handle = 0, in_source = 0, ud_handle = 0, ud_monitor = 0, ud_source = 0, ss_events = []\<rparr>"

definition udev_sys_ref :: udev_sys where
  "udev_sys_ref = \<lparr>us_udev = 1, us_monitor = 0, us_receiving = True, us_udev_source = 3, us_libinput = 4, us_assign = (\<lambda>_. True),
     us_input_source = 5, us_xdg_seat = None\<rparr>"

theorem udev_failure_faults_witness:
  "Null_pointer \<in> set (w_faults (pr_world (ss_process (snd (wlc_udev_init udev_sys_ref session_ref)))))"
  using udev_failure_faults [of session_ref udev_sys_ref] by (simp add: session_ref_def udev_sys_ref_def process_ref_def)

section \<open>Initialisation\<close>

definition log_of :: "main \<Rightarrow> string list" where "log_of m = ss_events (wl_session m)"

lemma log_simps [simp]:
  "log_of (note_event x m) = log_of m @ [x]" "log_of (on_process f m) = log_of m" "log_of (reset_main l i m) = log_of m"
  "log_of (m\<lparr>wl_display := d\<rparr>) = log_of m"
  by (simp_all add: log_of_def note_event_def say_def on_process_def reset_main_def)

lemma main_simps [simp]:
  "wl_display (note_event x m) = wl_display m" "wl_display (on_process f m) = wl_display m" "wl_display (reset_main l i m) = 0"
  "wl_interface (note_event x m) = wl_interface m" "wl_interface (on_process f m) = wl_interface m" "wl_interface (reset_main l i m) = i"
  "wl_log_fun (note_event x m) = wl_log_fun m" "wl_log_fun (on_process f m) = wl_log_fun m" "wl_log_fun (reset_main l i m) = l"
  by (simp_all add: note_event_def on_process_def reset_main_def)

text \<open>No event source and no context of a former run is left.\<close>

definition fresh_session :: "main \<Rightarrow> bool" where
  "fresh_session m \<longleftrightarrow> in_source (wl_session m) = 0 \<and> ud_source (wl_session m) = 0 \<and> in_handle (wl_session m) = 0 \<and> ud_handle (wl_session m) = 0"

definition keeps_main :: "main \<Rightarrow> main \<Rightarrow> bool" where
  "keeps_main m m' \<longleftrightarrow> wl_display m' = wl_display m \<and> wl_interface m' = wl_interface m \<and> wl_log_fun m' = wl_log_fun m \<and> log_of m' = log_of m"

lemma udev_init_quiet:
  assumes "lift_session (wlc_udev_init U) m = (True, m')" "fresh_session m"
  shows "keeps_main m m' \<and> in_source (wl_session m') = 0 \<and> in_handle (wl_session m') = 0"
  using assms
  by (auto simp: lift_session_def wlc_udev_init_def udev_set_event_loop_def Let_def fresh_session_def keeps_main_def log_of_def
      split: prod.splits if_splits)

lemma input_init_quiet:
  assumes "init_input S m = (True, m')" "in_source (wl_session m) = 0" "in_handle (wl_session m) = 0"
  shows "keeps_main m m'"
  using assms
  by (auto simp: init_input_def lift_session_def wlc_input_init_def input_set_event_loop_def Let_def keeps_main_def log_of_def
      split: prod.splits if_splits)

lemma fresh_session_simps [simp]:
  "fresh_session (note_event x m) = fresh_session m" "fresh_session (on_process f m) = fresh_session m"
  "fresh_session (reset_main l i m) = fresh_session m" "fresh_session (m\<lparr>wl_display := d\<rparr>) = fresh_session m"
  by (simp_all add: fresh_session_def note_event_def say_def on_process_def reset_main_def)

lemma init_services_order:
  assumes "init_services E S m = Returned m'" "wl_display m = 0" "fresh_session m"
  shows "log_of m' = log_of m @ [''resources init'', ''display create'', ''setenv WAYLAND_DISPLAY''] \<and>
    wl_display m' = ms_display S \<and> wl_interface m' = wl_interface m \<and> wl_log_fun m' = wl_log_fun m \<and>
    ms_display S \<noteq> 0 \<and> ms_socket S \<noteq> None \<and> ms_shm S \<and> ms_resources S"
proof -
  define m1 where "m1 = (note_event ''display create'' (note_event ''resources init''
     (on_process (\<lambda>p. listen Sig_compositor Main_compositor (p\<lparr>pr_listeners := []\<rparr>)) m)))\<lparr>wl_display := ms_display S\<rparr>"
  have m1: "log_of m1 = log_of m @ [''resources init'', ''display create'']" "wl_display m1 = ms_display S"
    "wl_interface m1 = wl_interface m" "wl_log_fun m1 = wl_log_fun m" "fresh_session m1"
    using assms(3) by (simp_all add: m1_def)
  have "init_services E S m =
    (if \<not> ms_resources S then Died ''Failed to init resource manager''
     else if ms_display S = 0 then Died ''Failed to create wayland display''
     else if ms_socket S = None then Died ''Failed to add socket to wayland display''
     else if \<not> ms_shm S then Died ''Failed to init shm''
     else
       let (ok, m) = lift_session (wlc_udev_init (ms_udev S)) m1 in
       if \<not> ok then Died ''Failed to init udev''
       else
         let (ok, m) = init_input S m in
         if \<not> ok then Died ''Failed to init input''
         else
           let (ok, m) = lift_process (wlc_compositor_ctor (env_of E m) (ms_boot S) True) m in
           if \<not> ok then Died ''Failed to init compositor'' else Returned (note_event ''setenv WAYLAND_DISPLAY'' m))"
    using assms(2) by (simp add: init_services_def m1_def Let_def)
  then obtain m2 m3 m4 where
    steps: "lift_session (wlc_udev_init (ms_udev S)) m1 = (True, m2)" "init_input S m2 = (True, m3)"
      "lift_process (wlc_compositor_ctor (env_of E m3) (ms_boot S) True) m3 = (True, m4)"
      "m' = note_event ''setenv WAYLAND_DISPLAY'' m4"
    and sys: "ms_display S \<noteq> 0" "ms_socket S \<noteq> None" "ms_shm S" "ms_resources S"
    using assms(1) by (auto split: if_splits prod.splits)
  have "keeps_main m1 m2" "keeps_main m2 m3"
    using udev_init_quiet [OF steps(1) m1(5)] input_init_quiet [OF steps(2)] by auto
  moreover have "keeps_main m3 m4" using steps(3) by (auto simp: lift_process_def keeps_main_def split: prod.splits)
  ultimately show ?thesis using m1 sys steps(4) by (simp add: keeps_main_def)
qed

text \<open>An initialisation that succeeds has done its steps in the one order that is safe for a privileged process: the
  terminal is taken before the process that keeps the privileges is forked off, that process never sees the
  display, and only then are display, devices and compositor set up. The callbacks and the log handler of the
  author survive it.\<close>

theorem wlc_init_order:
  assumes "wlc_init E S m = Returned (ok, m')" and "wl_display m = 0" and "fresh_session m"
  shows "ok \<and> wl_display m' = ms_display S \<and> ms_display S \<noteq> 0 \<and> wl_interface m' = wl_interface m \<and> wl_log_fun m' = wl_log_fun m \<and>
    log_of m' = log_of m @ [''log handler''] @ (if ms_x11display S then [] else [''tty init'']) @
      [''fd init'', ''resources init'', ''display create'', ''setenv WAYLAND_DISPLAY'']"
proof -
  define m1 where "m1 = note_event ''log handler'' (reset_main (wl_log_fun m) (wl_interface m) m)"
  define m2 where "m2 = (note_event ''fd init'' ((if \<not> ms_x11display S then note_event ''tty init'' m1 else m1)\<lparr>wl_display := 0\<rparr>))\<lparr>wl_display := 0\<rparr>"
  have "init_services E S m2 = Returned m' \<and> ok"
    using assms(1,2)
    by (auto simp: wlc_init_def m1_def m2_def Let_def split: if_splits ending.splits)
  moreover have "wl_display m2 = 0" "fresh_session m2" "wl_interface m2 = wl_interface m" "wl_log_fun m2 = wl_log_fun m"
    "log_of m2 = log_of m @ [''log handler''] @ (if ms_x11display S then [] else [''tty init'']) @ [''fd init'']"
    using assms(3) by (simp_all add: m1_def m2_def)
  ultimately show ?thesis using init_services_order [of E S m2 m'] by simp
qed

text \<open>A start in which everything succeeds.\<close>

definition boot_ref :: boot where
  "boot_ref = \<lparr>b_xkb_context = True, b_keymap = 1, b_keymap_string = Some ''k'', b_file = 9, b_mmap = 5, b_mod_index = (\<lambda>_. 0),
     b_led_index = (\<lambda>_. 0), b_xkb_state = 1, b_xkb_sym = True, b_keyboard_pools = True, b_timer = True, b_delay = None,
     b_rate = None, b_pointer_pools = True, b_touch_pools = True, b_manager_global = 11, b_manager_pools = True,
     b_seat_global = 12, b_shell_global = 13, b_shell_pools = True, b_xdg_global = 14, b_xdg_pools = True,
     b_custom_pools = True, b_sources = True, b_compositor_global = 15, b_subcompositor_global = 16, b_backend = True\<rparr>"

lemma compositor_starts:
  assumes "\<not> pr_g_compositor p"
  shows "fst (wlc_compositor_ctor E boot_ref True p)"
proof -
  have "fst (wlc_keymap_ctor boot_ref q)" for q by (simp add: wlc_keymap_ctor_def boot_ref_def Let_def)
  then have d: "fst (seat_devices E boot_ref q)" for q
    by (simp add: seat_devices_def case_prod_beta Let_def wlc_keyboard_ctor_def wlc_keyboard_set_keymap_def pointer_start_def
        wlc_touch_ctor_def) (simp add: boot_ref_def)
  have "fst (wlc_seat_ctor E boot_ref q)" for q
    using d by (simp add: wlc_seat_ctor_steps Let_def wlc_data_device_manager_ctor_def) (simp add: boot_ref_def)
  moreover have "fst (shells_start E boot_ref q)" for q
    by (simp add: shells_start_def case_prod_beta Let_def wlc_shell_ctor_def wlc_xdg_shell_ctor_def wlc_custom_shell_ctor_def)
      (simp add: boot_ref_def)
  moreover have "fst (compositor_globals boot_ref q)" for q by (simp add: compositor_globals_def boot_ref_def)
  ultimately show ?thesis using assms by (simp add: wlc_compositor_ctor_def case_prod_beta Let_def) (simp add: boot_ref_def)
qed

definition main_sys_ref :: main_sys where
  "main_sys_ref = \<lparr>ms_privileged = False, ms_x11display = True, ms_input_access = False, ms_resources = True, ms_display = 77,
     ms_socket = Some ''wayland-0'', ms_shm = True, ms_udev = udev_sys_ref\<lparr>us_monitor := 2\<rparr>, ms_libinput = None,
     ms_boot = boot_ref, ms_loop = (\<lambda>m. m), ms_resource_list = (\<lambda>_. []), ms_handle_list = (\<lambda>_. [])\<rparr>"

definition main_ref :: main where
  "main_ref = \<lparr>wl_session = session_ref, wl_interface = iface_none, wl_display = 0, wl_log_fun = True\<rparr>"

lemma init_succeeds: "\<exists>m'. wlc_init env_ref main_sys_ref main_ref = Returned (True, m')"
proof -
  have "fst (lift_process (wlc_compositor_ctor E boot_ref True) m)" if "\<not> pr_g_compositor (ss_process (wl_session m))" for E m
    using compositor_starts [OF that] by (simp add: lift_process_def case_prod_beta)
  then show ?thesis
    by (simp add: wlc_init_def main_ref_def main_sys_ref_def init_services_def init_input_def lift_session_def wlc_udev_init_def
        udev_set_event_loop_def udev_sys_ref_def session_ref_def Let_def case_prod_beta note_event_def say_def on_process_def
        reset_main_def process_ref_def)
qed

theorem wlc_init_order_witness:
  "\<exists>m'. wlc_init env_ref main_sys_ref main_ref = Returned (True, m') \<and>
     log_of m' = [''log handler'', ''fd init'', ''resources init'', ''display create'', ''setenv WAYLAND_DISPLAY'']"
proof -
  obtain m' where m: "wlc_init env_ref main_sys_ref main_ref = Returned (True, m')" using init_succeeds by blast
  have "wl_display main_ref = 0" "fresh_session main_ref" by (simp_all add: main_ref_def session_ref_def fresh_session_def)
  from wlc_init_order [OF m this] m show ?thesis
    by (simp add: main_sys_ref_def) (simp add: log_of_def main_ref_def session_ref_def)
qed

end
