(* ===== verification/Frontends.thy ===== *)
theory Frontends
  imports Geometry
begin

text \<open>
  The front ends of the platform layer (src/platform/context/context.c, src/platform/render/render.c,
  src/platform/backend/backend.c): tables of optional functions that a back end fills in, and the calls
  that check the table, bind the context and dispatch.

  \<open>'s\<close> is the state of the graphics libraries and devices, which the functions of a table change; the
  constructors of the back ends are arguments. Addresses of objects the front ends only hand on (wayland
  resources, surfaces, views, pixel memory) are numbers, 0 is NULL.
\<close>

section \<open>The context\<close>

record 's wlc_context_api =
  cx_terminate :: "(nat \<Rightarrow> 's \<Rightarrow> 's) option"
  cx_bind :: "(nat \<Rightarrow> 's \<Rightarrow> bool \<times> 's) option"
  cx_bind_to_wl_display :: "(nat \<Rightarrow> nat \<Rightarrow> 's \<Rightarrow> bool \<times> 's) option"
  cx_swap :: "(nat \<Rightarrow> nat \<Rightarrow> 's \<Rightarrow> 's) option"
  cx_get_proc_address :: "(nat \<Rightarrow> string \<Rightarrow> 's \<Rightarrow> nat \<times> 's) option"
  cx_query_buffer :: "(nat \<Rightarrow> nat \<Rightarrow> int \<Rightarrow> 's \<Rightarrow> (bool \<times> int) \<times> 's) option"
  cx_create_image :: "(nat \<Rightarrow> nat \<Rightarrow> nat \<Rightarrow> int list \<Rightarrow> 's \<Rightarrow> nat \<times> 's) option"
  cx_destroy_image :: "(nat \<Rightarrow> nat \<Rightarrow> 's \<Rightarrow> bool \<times> 's) option"

record 's wlc_context =
  cx_context :: nat
  cx_api :: "'s wlc_context_api"

definition context_api_zero :: "'s wlc_context_api" where
  "context_api_zero = \<lparr>cx_terminate = None, cx_bind = None, cx_bind_to_wl_display = None, cx_swap = None,
     cx_get_proc_address = None, cx_query_buffer = None, cx_create_image = None, cx_destroy_image = None\<rparr>"

definition context_zero :: "'s wlc_context" where
  "context_zero = \<lparr>cx_context = 0, cx_api = context_api_zero\<rparr>"

definition wlc_context_get_proc_address :: "'s wlc_context \<Rightarrow> string \<Rightarrow> 's \<Rightarrow> nat \<times> 's" where
  "wlc_context_get_proc_address c procname s =
     (case cx_get_proc_address (cx_api c) of None \<Rightarrow> (0, s) | Some f \<Rightarrow> f (cx_context c) procname s)"

text \<open>The value is written only by the function of the table.\<close>

definition wlc_context_query_buffer :: "'s wlc_context \<Rightarrow> nat \<Rightarrow> int \<Rightarrow> int \<Rightarrow> 's \<Rightarrow> (bool \<times> int) \<times> 's" where
  "wlc_context_query_buffer c buffer attribute value s =
     (case cx_query_buffer (cx_api c) of None \<Rightarrow> ((False, value), s) | Some f \<Rightarrow> f (cx_context c) buffer attribute s)"

definition wlc_context_create_image :: "'s wlc_context \<Rightarrow> nat \<Rightarrow> nat \<Rightarrow> int list \<Rightarrow> 's \<Rightarrow> nat \<times> 's" where
  "wlc_context_create_image c target buffer attrib_list s =
     (case cx_create_image (cx_api c) of None \<Rightarrow> (0, s) | Some f \<Rightarrow> f (cx_context c) target buffer attrib_list s)"

definition wlc_context_destroy_image :: "'s wlc_context \<Rightarrow> nat \<Rightarrow> 's \<Rightarrow> bool \<times> 's" where
  "wlc_context_destroy_image c img s =
     (case cx_destroy_image (cx_api c) of None \<Rightarrow> (False, s) | Some f \<Rightarrow> f (cx_context c) img s)"

definition wlc_context_bind :: "'s wlc_context \<Rightarrow> 's \<Rightarrow> bool \<times> 's" where
  "wlc_context_bind c s = (case cx_bind (cx_api c) of None \<Rightarrow> (False, s) | Some f \<Rightarrow> f (cx_context c) s)"

definition wlc_context_bind_to_wl_display :: "'s wlc_context \<Rightarrow> nat \<Rightarrow> 's \<Rightarrow> bool \<times> 's" where
  "wlc_context_bind_to_wl_display c display s =
     (case cx_bind_to_wl_display (cx_api c) of None \<Rightarrow> (False, s) | Some f \<Rightarrow> f (cx_context c) display s)"

definition wlc_context_swap :: "'s wlc_context \<Rightarrow> nat \<Rightarrow> 's \<Rightarrow> 's" where
  "wlc_context_swap c bsurface s = (case cx_swap (cx_api c) of None \<Rightarrow> s | Some f \<Rightarrow> f (cx_context c) bsurface s)"

definition wlc_context_release :: "'s wlc_context \<Rightarrow> 's \<Rightarrow> 's wlc_context \<times> 's" where
  "wlc_context_release c s =
     (context_zero, case cx_terminate (cx_api c) of None \<Rightarrow> s | Some f \<Rightarrow> f (cx_context c) s)"

text \<open>The loop over the constructors: each gets the table the one before may have written to.\<close>

fun first_context ::
  "(nat \<Rightarrow> 's wlc_context_api \<Rightarrow> 's \<Rightarrow> (nat \<times> 's wlc_context_api) \<times> 's) list \<Rightarrow> nat \<Rightarrow> 's wlc_context \<Rightarrow> 's \<Rightarrow>
    (bool \<times> 's wlc_context) \<times> 's" where
  "first_context [] surface c s = ((False, c), s)"
| "first_context (f # fs) surface c s =
     (let ((p, api), s) = f surface (cx_api c) s; c = \<lparr>cx_context = p, cx_api = api\<rparr>
      in if p \<noteq> 0 then ((True, c), s) else first_context fs surface c s)"

definition wlc_context_ctor ::
  "(nat \<Rightarrow> 's wlc_context_api \<Rightarrow> 's \<Rightarrow> (nat \<times> 's wlc_context_api) \<times> 's) \<Rightarrow> nat \<Rightarrow> 's \<Rightarrow> (bool \<times> 's wlc_context) \<times> 's" where
  "wlc_context_ctor wlc_egl surface s = first_context [wlc_egl] surface context_zero s"

section \<open>The renderer\<close>

datatype wlc_renderer = WLC_RENDERER_GLES2 | WLC_NO_RENDERER

record 's wlc_render_api =
  rn_type :: wlc_renderer
  rn_terminate :: "(nat \<Rightarrow> 's \<Rightarrow> 's) option"
  rn_resolution :: "(nat \<Rightarrow> wlc_size \<Rightarrow> wlc_size \<Rightarrow> u32 \<Rightarrow> 's \<Rightarrow> 's) option"
  rn_surface_destroy :: "(nat \<Rightarrow> 's wlc_context \<Rightarrow> nat \<Rightarrow> 's \<Rightarrow> 's) option"
  rn_surface_attach :: "(nat \<Rightarrow> 's wlc_context \<Rightarrow> nat \<Rightarrow> nat \<Rightarrow> 's \<Rightarrow> bool \<times> 's) option"
  rn_view_paint :: "(nat \<Rightarrow> nat \<Rightarrow> 's \<Rightarrow> 's) option"
  rn_surface_paint :: "(nat \<Rightarrow> nat \<Rightarrow> wlc_geometry \<Rightarrow> 's \<Rightarrow> 's) option"
  rn_pointer_paint :: "(nat \<Rightarrow> wlc_point \<Rightarrow> 's \<Rightarrow> 's) option"
  rn_read_pixels :: "(nat \<Rightarrow> nat \<Rightarrow> wlc_geometry \<Rightarrow> 's \<Rightarrow> (wlc_geometry \<times> u8 list) \<times> 's) option"
  rn_write_pixels :: "(nat \<Rightarrow> nat \<Rightarrow> wlc_geometry \<Rightarrow> u8 list \<Rightarrow> 's \<Rightarrow> 's) option"
  rn_flush_fakefb :: "(nat \<Rightarrow> 's \<Rightarrow> 's) option"
  rn_clear :: "(nat \<Rightarrow> 's \<Rightarrow> 's) option"

record 's wlc_render =
  rn_render :: nat
  rn_api :: "'s wlc_render_api"

definition render_api_zero :: "'s wlc_render_api" where
  "render_api_zero = \<lparr>rn_type = WLC_RENDERER_GLES2, rn_terminate = None, rn_resolution = None, rn_surface_destroy = None,
     rn_surface_attach = None, rn_view_paint = None, rn_surface_paint = None, rn_pointer_paint = None,
     rn_read_pixels = None, rn_write_pixels = None, rn_flush_fakefb = None, rn_clear = None\<rparr>"

definition render_zero :: "'s wlc_render" where
  "render_zero = \<lparr>rn_render = 0, rn_api = render_api_zero\<rparr>"

definition wlc_render_resolution :: "'s wlc_render \<Rightarrow> 's wlc_context \<Rightarrow> wlc_size \<Rightarrow> wlc_size \<Rightarrow> u32 \<Rightarrow> 's \<Rightarrow> 's" where
  "wlc_render_resolution r bound mode resolution scale s =
     (case rn_resolution (rn_api r) of
        None \<Rightarrow> s
      | Some f \<Rightarrow> let (ok, s) = wlc_context_bind bound s
                  in if ok then f (rn_render r) mode resolution scale s else s)"

definition wlc_render_surface_destroy :: "'s wlc_render \<Rightarrow> 's wlc_context \<Rightarrow> nat \<Rightarrow> 's \<Rightarrow> 's" where
  "wlc_render_surface_destroy r bound surface s =
     (case rn_surface_destroy (rn_api r) of
        None \<Rightarrow> s
      | Some f \<Rightarrow> let (ok, s) = wlc_context_bind bound s in if ok then f (rn_render r) bound surface s else s)"

definition wlc_render_surface_attach_call :: "'s wlc_render \<Rightarrow> 's wlc_context \<Rightarrow> nat \<Rightarrow> nat \<Rightarrow> 's \<Rightarrow> bool \<times> 's" where
  "wlc_render_surface_attach_call r bound surface buffer s =
     (case rn_surface_attach (rn_api r) of
        None \<Rightarrow> (False, s)
      | Some f \<Rightarrow> let (ok, s) = wlc_context_bind bound s
                  in if ok then f (rn_render r) bound surface buffer s else (False, s))"

definition wlc_render_view_paint :: "'s wlc_render \<Rightarrow> 's wlc_context \<Rightarrow> nat \<Rightarrow> 's \<Rightarrow> 's" where
  "wlc_render_view_paint r bound view s =
     (case rn_view_paint (rn_api r) of
        None \<Rightarrow> s
      | Some f \<Rightarrow> let (ok, s) = wlc_context_bind bound s in if ok then f (rn_render r) view s else s)"

definition wlc_render_surface_paint :: "'s wlc_render \<Rightarrow> 's wlc_context \<Rightarrow> nat \<Rightarrow> wlc_geometry \<Rightarrow> 's \<Rightarrow> 's" where
  "wlc_render_surface_paint r bound surface geometry s =
     (case rn_surface_paint (rn_api r) of
        None \<Rightarrow> s
      | Some f \<Rightarrow> let (ok, s) = wlc_context_bind bound s in if ok then f (rn_render r) surface geometry s else s)"

definition wlc_render_pointer_paint :: "'s wlc_render \<Rightarrow> 's wlc_context \<Rightarrow> wlc_point \<Rightarrow> 's \<Rightarrow> 's" where
  "wlc_render_pointer_paint r bound pos s =
     (case rn_pointer_paint (rn_api r) of
        None \<Rightarrow> s
      | Some f \<Rightarrow> let (ok, s) = wlc_context_bind bound s in if ok then f (rn_render r) pos s else s)"

text \<open>\<open>out\<close> is what the caller's two out parameters hold.\<close>

definition wlc_render_read_pixels ::
  "'s wlc_render \<Rightarrow> 's wlc_context \<Rightarrow> nat \<Rightarrow> wlc_geometry \<Rightarrow> wlc_geometry \<times> u8 list \<Rightarrow> 's \<Rightarrow> (wlc_geometry \<times> u8 list) \<times> 's" where
  "wlc_render_read_pixels r bound format geometry out s =
     (case rn_read_pixels (rn_api r) of
        None \<Rightarrow> (out, s)
      | Some f \<Rightarrow> let (ok, s) = wlc_context_bind bound s in if ok then f (rn_render r) format geometry s else (out, s))"

definition wlc_render_write_pixels ::
  "'s wlc_render \<Rightarrow> 's wlc_context \<Rightarrow> nat \<Rightarrow> wlc_geometry \<Rightarrow> u8 list \<Rightarrow> 's \<Rightarrow> 's" where
  "wlc_render_write_pixels r bound format geometry data s =
     (case rn_write_pixels (rn_api r) of
        None \<Rightarrow> s
      | Some f \<Rightarrow> let (ok, s) = wlc_context_bind bound s in if ok then f (rn_render r) format geometry data s else s)"

definition wlc_render_flush_fakefb :: "'s wlc_render \<Rightarrow> 's wlc_context \<Rightarrow> 's \<Rightarrow> 's" where
  "wlc_render_flush_fakefb r bound s =
     (case rn_flush_fakefb (rn_api r) of
        None \<Rightarrow> s | Some f \<Rightarrow> let (ok, s) = wlc_context_bind bound s in if ok then f (rn_render r) s else s)"

definition wlc_render_clear :: "'s wlc_render \<Rightarrow> 's wlc_context \<Rightarrow> 's \<Rightarrow> 's" where
  "wlc_render_clear r bound s =
     (case rn_clear (rn_api r) of
        None \<Rightarrow> s | Some f \<Rightarrow> let (ok, s) = wlc_context_bind bound s in if ok then f (rn_render r) s else s)"

text \<open>A renderer whose context cannot be bound is not terminated, and its memory is not reset.\<close>

definition wlc_render_release :: "'s wlc_render \<Rightarrow> 's wlc_context \<Rightarrow> 's \<Rightarrow> 's wlc_render \<times> 's" where
  "wlc_render_release r bound s =
     (case rn_terminate (rn_api r) of
        None \<Rightarrow> (render_zero, s)
      | Some f \<Rightarrow> let (ok, s) = wlc_context_bind bound s in if ok then (render_zero, f (rn_render r) s) else (r, s))"

fun first_render ::
  "('s wlc_render_api \<Rightarrow> 's \<Rightarrow> (nat \<times> 's wlc_render_api) \<times> 's) list \<Rightarrow> 's wlc_render \<Rightarrow> 's \<Rightarrow> (bool \<times> 's wlc_render) \<times> 's" where
  "first_render [] r s = ((False, r), s)"
| "first_render (f # fs) r s =
     (let ((p, api), s) = f (rn_api r) s; r = \<lparr>rn_render = p, rn_api = api\<rparr>
      in if p \<noteq> 0 then ((True, r), s) else first_render fs r s)"

definition wlc_render_ctor ::
  "('s wlc_render_api \<Rightarrow> 's \<Rightarrow> (nat \<times> 's wlc_render_api) \<times> 's) \<Rightarrow> 's wlc_context \<Rightarrow> 's \<Rightarrow> (bool \<times> 's wlc_render) \<times> 's" where
  "wlc_render_ctor wlc_gles2 c s =
     (let (ok, s) = wlc_context_bind c s in
      if \<not> ok then ((False, render_zero), s)
      else
        let ((ok, r), s) = first_render [wlc_gles2] render_zero s in
        if ok then ((True, r), s)
        else let (r, s) = wlc_render_release r c s in ((False, r), s))"

section \<open>The back end\<close>

text \<open>The surface of a back end; \<open>internal\<close> is memory of the back end, \<open>None\<close> is NULL.\<close>

record 's wlc_bsurface =
  bsf_internal :: "nat option"
  bsf_internal_size :: nat
  bsf_display :: nat
  bsf_window :: nat
  bsf_terminate :: "('s \<Rightarrow> 's) option"

definition bsurface_zero :: "'s wlc_bsurface" where
  "bsurface_zero = \<lparr>bsf_internal = None, bsf_internal_size = 0, bsf_display = 0, bsf_window = 0, bsf_terminate = None\<rparr>"

text \<open>\<open>mem\<close> is what \<open>calloc\<close> returns.\<close>

definition wlc_backend_surface_ctor :: "nat option \<Rightarrow> ('s \<Rightarrow> 's) option \<Rightarrow> nat \<Rightarrow> bool \<times> 's wlc_bsurface" where
  "wlc_backend_surface_ctor mem destructor internal_size =
     (if internal_size > 0 \<and> mem = None then (False, bsurface_zero)
      else (True, bsurface_zero\<lparr>bsf_internal := (if internal_size > 0 then mem else None), bsf_terminate := destructor,
                                bsf_internal_size := internal_size\<rparr>))"

text \<open>The result is the memory that is freed, if any.\<close>

definition wlc_backend_surface_release :: "'s wlc_bsurface \<Rightarrow> 's \<Rightarrow> nat option \<times> 's wlc_bsurface \<times> 's" where
  "wlc_backend_surface_release b s =
     (if bsf_internal_size b > 0 then bsf_internal b else None, bsurface_zero,
      case bsf_terminate b of None \<Rightarrow> s | Some f \<Rightarrow> f s)"

datatype wlc_backend_type = WLC_BACKEND_NONE | WLC_BACKEND_DRM | WLC_BACKEND_X11 | WLC_BACKEND_WAYLAND

record 's wlc_backend =
  be_type :: wlc_backend_type
  be_update_outputs :: "('s \<Rightarrow> u32 \<times> 's) option"
  be_terminate :: "('s \<Rightarrow> 's) option"

definition backend_zero :: "'s wlc_backend" where
  "backend_zero = \<lparr>be_type = WLC_BACKEND_NONE, be_update_outputs = None, be_terminate = None\<rparr>"

definition wlc_backend_update_outputs :: "'s wlc_backend \<Rightarrow> 's \<Rightarrow> u32 \<times> 's" where
  "wlc_backend_update_outputs b s = (case be_update_outputs b of None \<Rightarrow> (0, s) | Some f \<Rightarrow> f s)"

definition wlc_backend_release :: "'s wlc_backend \<Rightarrow> 's \<Rightarrow> 's wlc_backend \<times> 's" where
  "wlc_backend_release b s = (backend_zero, case be_terminate b of None \<Rightarrow> s | Some f \<Rightarrow> f s)"

fun first_backend ::
  "(wlc_backend_type \<times> ('s wlc_backend \<Rightarrow> 's \<Rightarrow> (bool \<times> 's wlc_backend) \<times> 's)) list \<Rightarrow> 's wlc_backend \<Rightarrow> 's \<Rightarrow>
    (bool \<times> 's wlc_backend) \<times> 's" where
  "first_backend [] b s = ((False, b), s)"
| "first_backend ((ty, f) # fs) b s =
     (let ((ok, b), s) = f b s in if ok then ((True, b\<lparr>be_type := ty\<rparr>), s) else first_backend fs b s)"

definition wlc_backend_ctor ::
  "('s wlc_backend \<Rightarrow> 's \<Rightarrow> (bool \<times> 's wlc_backend) \<times> 's) option \<Rightarrow>
   ('s wlc_backend \<Rightarrow> 's \<Rightarrow> (bool \<times> 's wlc_backend) \<times> 's) option \<Rightarrow>
   ('s wlc_backend \<Rightarrow> 's \<Rightarrow> (bool \<times> 's wlc_backend) \<times> 's) \<Rightarrow> 's \<Rightarrow> (bool \<times> 's wlc_backend) \<times> 's" where
  "wlc_backend_ctor wayland x11 drm s =
     first_backend ((case wayland of None \<Rightarrow> [] | Some f \<Rightarrow> [(WLC_BACKEND_WAYLAND, f)]) @
                    (case x11 of None \<Rightarrow> [] | Some f \<Rightarrow> [(WLC_BACKEND_X11, f)]) @ [(WLC_BACKEND_DRM, drm)]) backend_zero s"

section \<open>What a renderer can rely on\<close>

text \<open>The calls of the front end, and whatever else happens to the libraries in between, such as another output
  binding its context.\<close>

datatype 's fe_call =
    Fe_resolution wlc_size wlc_size u32 | Fe_surface_destroy nat | Fe_surface_attach nat nat | Fe_view_paint nat
  | Fe_surface_paint nat wlc_geometry | Fe_pointer_paint wlc_point | Fe_read_pixels nat wlc_geometry
  | Fe_write_pixels nat wlc_geometry "u8 list" | Fe_flush_fakefb | Fe_clear | Fe_release | Fe_other "'s \<Rightarrow> 's"

fun fe_run :: "'s wlc_render \<Rightarrow> 's wlc_context \<Rightarrow> 's fe_call \<Rightarrow> 's \<Rightarrow> 's" where
  "fe_run r c (Fe_resolution m v k) s = wlc_render_resolution r c m v k s"
| "fe_run r c (Fe_surface_destroy x) s = wlc_render_surface_destroy r c x s"
| "fe_run r c (Fe_surface_attach x b) s = snd (wlc_render_surface_attach_call r c x b s)"
| "fe_run r c (Fe_view_paint v) s = wlc_render_view_paint r c v s"
| "fe_run r c (Fe_surface_paint x g) s = wlc_render_surface_paint r c x g s"
| "fe_run r c (Fe_pointer_paint p) s = wlc_render_pointer_paint r c p s"
| "fe_run r c (Fe_read_pixels f g) s = snd (wlc_render_read_pixels r c f g (g, []) s)"
| "fe_run r c (Fe_write_pixels f g d) s = wlc_render_write_pixels r c f g d s"
| "fe_run r c Fe_flush_fakefb s = wlc_render_flush_fakefb r c s"
| "fe_run r c Fe_clear s = wlc_render_clear r c s"
| "fe_run r c Fe_release s = snd (wlc_render_release r c s)"
| "fe_run r c (Fe_other f) s = f s"

text \<open>A renderer that does anything at all when it is entered in a state without \<open>B\<close>.\<close>

definition guard :: "('s \<Rightarrow> bool) \<Rightarrow> ('s \<Rightarrow> 'r) \<Rightarrow> ('s \<Rightarrow> 'r) \<Rightarrow> 's \<Rightarrow> 'r" where
  "guard B bad f s = (if B s then f s else bad s)"

definition guarded :: "('s \<Rightarrow> bool) \<Rightarrow> ('s \<Rightarrow> 's) \<Rightarrow> 's wlc_render \<Rightarrow> 's wlc_render" where
  "guarded B bad r = (let a = rn_api r in r\<lparr>rn_api := a\<lparr>
     rn_terminate := map_option (\<lambda>f n. guard B bad (f n)) (rn_terminate a),
     rn_resolution := map_option (\<lambda>f n m v k. guard B bad (f n m v k)) (rn_resolution a),
     rn_surface_destroy := map_option (\<lambda>f n c x. guard B bad (f n c x)) (rn_surface_destroy a),
     rn_surface_attach := map_option (\<lambda>f n c x b. guard B (\<lambda>s. (False, bad s)) (f n c x b)) (rn_surface_attach a),
     rn_view_paint := map_option (\<lambda>f n v. guard B bad (f n v)) (rn_view_paint a),
     rn_surface_paint := map_option (\<lambda>f n x g. guard B bad (f n x g)) (rn_surface_paint a),
     rn_pointer_paint := map_option (\<lambda>f n p. guard B bad (f n p)) (rn_pointer_paint a),
     rn_read_pixels := map_option (\<lambda>f n x g. guard B (\<lambda>s. ((g, []), bad s)) (f n x g)) (rn_read_pixels a),
     rn_write_pixels := map_option (\<lambda>f n x g d. guard B bad (f n x g d)) (rn_write_pixels a),
     rn_flush_fakefb := map_option (\<lambda>f n. guard B bad (f n)) (rn_flush_fakefb a),
     rn_clear := map_option (\<lambda>f n. guard B bad (f n)) (rn_clear a)\<rparr>\<rparr>)"

lemma fe_run_guarded:
  assumes "\<And>s s'. wlc_context_bind c s = (True, s') \<Longrightarrow> B s'"
  shows "fe_run (guarded B bad r) c x s = fe_run r c x s"
  using assms [of s]
  by (cases x)
    (auto simp: guarded_def Let_def guard_def wlc_render_resolution_def wlc_render_surface_destroy_def
      wlc_render_surface_attach_call_def wlc_render_view_paint_def wlc_render_surface_paint_def wlc_render_pointer_paint_def
      wlc_render_read_pixels_def wlc_render_write_pixels_def wlc_render_flush_fakefb_def wlc_render_clear_def
      wlc_render_release_def split: option.split prod.split)

text \<open>C9 (safety). No function of the renderer is entered unless the context of its output was bound successfully
  right before: if binding makes \<open>B\<close> true (that the context is current, say), a renderer that does arbitrary harm
  when \<open>B\<close> is false behaves like the original, over any sequence of calls and whatever happens between them.\<close>

theorem renderer_entered_bound:
  assumes "\<And>s s'. wlc_context_bind c s = (True, s') \<Longrightarrow> B s'"
  shows "fold (fe_run (guarded B bad r) c) calls s = fold (fe_run r c) calls s"
  by (induction calls arbitrary: s) (simp_all add: fe_run_guarded [OF assms])

text \<open>The libraries are a number: the current context; painting without context 5 is the harm.\<close>

definition context_ref :: "(nat \<times> nat list) wlc_context" where
  "context_ref = \<lparr>cx_context = 5, cx_api = context_api_zero\<lparr>cx_bind := Some (\<lambda>n (_, l). (True, (n, l)))\<rparr>\<rparr>"

definition render_ref :: "(nat \<times> nat list) wlc_render" where
  "render_ref = \<lparr>rn_render = 1, rn_api = render_api_zero\<lparr>rn_view_paint := Some (\<lambda>_ v (n, l). (n, l @ [v]))\<rparr>\<rparr>"

theorem renderer_entered_bound_witness:
  "fold (fe_run (guarded (\<lambda>(n, _). n = 5) (\<lambda>(n, _). (n, [])) render_ref) context_ref)
     [Fe_view_paint 7, Fe_other (\<lambda>(_, l). (3, l)), Fe_view_paint 8] (0, []) = (5, [7, 8])"
  by (subst renderer_entered_bound)
    (auto simp: context_ref_def render_ref_def wlc_context_bind_def wlc_render_view_paint_def)

end
