(* ===== verification/Public.thy ===== *)
theory Public
  imports Output Frontends Keyboard
begin

text \<open>
  The public functions for authors who render or speak wayland themselves (src/extended/wlc-render.c,
  src/extended/wlc-wayland.c) and the last getters of src/compositor/compositor.c.

  A function that is given a wayland resource receives the number \<open>convert_from_wl_resource\<close> finds for it, 0 for
  none. A surface's textures and the renderer of an output live in the memory of the renderer: they are
  arguments.
\<close>

section \<open>Rendering\<close>

definition wlc_surface_render :: "env \<Rightarrow> nat \<Rightarrow> wlc_geometry \<Rightarrow> world \<Rightarrow> world" where
  "wlc_surface_render E surface geometry w =
     (let o1 = wlc_get_rendering_output w in
      if o1 = 0 then w else wlc_output_render_surface E o1 surface geometry w)"

definition wlc_pixels_write :: "nat \<Rightarrow> wlc_geometry \<Rightarrow> world \<Rightarrow> world" where
  "wlc_pixels_write format geometry w =
     (let o1 = wlc_get_rendering_output w in if o1 = 0 then w else input (Rd_write_pixels o1 format geometry) w)"

definition wlc_pixels_read :: "nat \<Rightarrow> wlc_geometry \<Rightarrow> world \<Rightarrow> world" where
  "wlc_pixels_read format geometry w =
     (let o1 = wlc_get_rendering_output w in if o1 = 0 then w else input (Rd_read_pixels o1 format geometry) w)"

definition wlc_output_schedule_render :: "nat \<Rightarrow> world \<Rightarrow> world" where
  "wlc_output_schedule_render h w = (if output_of w h = None then w else wlc_output_schedule_repaint h w)"

definition wlc_output_get_renderer :: "(nat \<Rightarrow> wlc_renderer) \<Rightarrow> nat \<Rightarrow> world \<Rightarrow> wlc_renderer" where
  "wlc_output_get_renderer renderer h w = (if output_of w h = None then WLC_NO_RENDERER else renderer h)"

definition wlc_surface_get_textures :: "(nat \<Rightarrow> nat list \<times> nat) \<Rightarrow> nat \<Rightarrow> world \<Rightarrow> (nat list \<times> nat) option" where
  "wlc_surface_get_textures textures surface w =
     (if surface_of w surface = None then None else Some (take 3 (fst (textures surface)), snd (textures surface)))"

text \<open>A cycle of subsurfaces makes the recursion endless: \<open>None\<close> when the fuel runs out.\<close>

fun surface_flush_frame_callbacks_recursive :: "env \<Rightarrow> nat \<Rightarrow> nat \<Rightarrow> nat \<Rightarrow> world \<Rightarrow> world option" where
  "surface_flush_frame_callbacks_recursive E 0 sid oid w = None"
| "surface_flush_frame_callbacks_recursive E (Suc n) sid oid w =
     (case surface_of w sid of
        None \<Rightarrow> Some w
      | Some s \<Rightarrow>
          fold (\<lambda>c r. case r of None \<Rightarrow> None | Some w \<Rightarrow> surface_flush_frame_callbacks_recursive E n c oid w)
            (sf_subsurface_list s) (Some (take_callbacks E oid sid w)))"

definition wlc_surface_flush_frame_callbacks :: "env \<Rightarrow> nat \<Rightarrow> nat \<Rightarrow> world \<Rightarrow> world option" where
  "wlc_surface_flush_frame_callbacks E n surface w =
     (case surface_of w surface of
        None \<Rightarrow> Some w
      | Some s \<Rightarrow>
          if output_of w (sf_output s) = None then Some w
          else
            (case surface_flush_frame_callbacks_recursive E n surface (sf_output s) w of
               None \<Rightarrow> None
             | Some w \<Rightarrow>
                 let v = (case surface_of w surface of None \<Rightarrow> 0 | Some s \<Rightarrow> sf_parent_view s)
                 in Some (if view_of w v = None then w else wlc_view_commit_state E v w)))"

section \<open>Wayland objects\<close>

definition wlc_handle_from_wl_surface_resource :: "world \<Rightarrow> nat \<Rightarrow> nat" where
  "wlc_handle_from_wl_surface_resource w r = (case surface_of w r of None \<Rightarrow> 0 | Some s \<Rightarrow> sf_view s)"

text \<open>The user data of a \<open>wl_output\<close> is the handle of its output; any other pointer is taken as it is.\<close>

definition wlc_handle_from_wl_output_resource :: "world \<Rightarrow> nat \<Rightarrow> nat option" where
  "wlc_handle_from_wl_output_resource w res = (case w_udata w res of UD_number h \<Rightarrow> Some h | UD_null \<Rightarrow> Some 0 | _ \<Rightarrow> None)"

definition wlc_surface_get_size :: "world \<Rightarrow> nat \<Rightarrow> wlc_size option" where
  "wlc_surface_get_size w r = map_option sf_size (surface_of w r)"

definition wlc_surface_get_wl_resource :: "world \<Rightarrow> nat \<Rightarrow> nat" where
  "wlc_surface_get_wl_resource w r = wl_of w r K_surface"

definition wlc_view_get_role :: "world \<Rightarrow> nat \<Rightarrow> nat" where
  "wlc_view_get_role w h = (case view_of w h of None \<Rightarrow> 0 | Some v \<Rightarrow> wl_of w (v_custom_surface v) K_custom_surface)"

definition wlc_view_get_surface :: "world \<Rightarrow> nat \<Rightarrow> nat" where
  "wlc_view_get_surface w h = (case view_of w h of None \<Rightarrow> 0 | Some v \<Rightarrow> v_surface v)"

definition wlc_surface_get_subsurfaces :: "world \<Rightarrow> nat \<Rightarrow> nat list option" where
  "wlc_surface_get_subsurfaces w r = map_option sf_subsurface_list (surface_of w r)"

definition wlc_get_subsurface_geometry :: "world \<Rightarrow> nat \<Rightarrow> wlc_geometry" where
  "wlc_get_subsurface_geometry w r =
     (case surface_of w r of
        None \<Rightarrow> wlc_geometry_zero
      | Some s \<Rightarrow> \<lparr>gorigin = ss_subsurface_position (sf_commit s), gsize = sf_size s\<rparr>)"

definition wlc_view_get_wl_client :: "env \<Rightarrow> world \<Rightarrow> nat \<Rightarrow> nat" where
  "wlc_view_get_wl_client E w h = (if view_of w h = None then 0 else wlc_view_get_client_ptr E w h)"

section \<open>The keyboard of the seat\<close>

definition wlc_keyboard_get_xkb_state :: "world \<Rightarrow> nat" where
  "wlc_keyboard_get_xkb_state w = kb_xkb (keyboard w)"

end
