(* ===== verification/Egl.thy ===== *)
theory Egl
  imports Prelude
begin

text \<open>
  The EGL context of an output (src/platform/context/egl.c): the search for an extension, the creation of a context
  through its stages, binding, swapping and the calls on buffers and images.

  EGL is a parameter: \<open>el_ret L h c\<close> is what the call \<open>c\<close> returns after the calls \<open>h\<close> (0 is failure or NULL), and
  \<open>el_string\<close> the strings of \<open>eglQueryString\<close>. \<open>eg_current\<close> is the surface and the context that EGL has made current;
  the code does not see it. A context is named by its address; \<open>eg_bound\<close> is the static variable of \<open>bind\<close>.
\<close>

section \<open>Calls\<close>

datatype egl_call =
    GetProcAddress string
  | QueryString nat string
  | QueryDeviceString nat
  | QueryDevices
  | GetPlatformDisplay int nat "int option"
  | GetDisplay nat
  | Initialize nat
  | BindAPI
  | ChooseConfig nat bool
  | CreateContext nat nat
  | GetOutputLayers nat u32
  | CreateStream nat
  | StreamConsumerOutput nat nat nat
  | CreateStreamProducerSurface nat nat nat u32 u32
  | CreateWindowSurface nat nat nat
  | MakeCurrent nat nat nat
  | QueryContext nat nat
  | SwapInterval nat
  | SwapBuffers nat nat
  | DestroySurface nat nat
  | DestroyContext nat nat
  | BindWaylandDisplay nat nat
  | QueryWaylandBuffer nat nat int
  | CreateImage nat nat nat nat
  | DestroyImage nat nat
  | StreamConsumerAcquireAttrib nat nat nat
  | Calloc

record egl_lib =
  el_ret :: "egl_call list \<Rightarrow> egl_call \<Rightarrow> nat"
  el_out :: "egl_call list \<Rightarrow> egl_call \<Rightarrow> nat"
  el_string :: "egl_call list \<Rightarrow> egl_call \<Rightarrow> string option"
  el_devices :: "nat list"
  el_wlc_shm :: "string option"

record ctx =
  ctx_extensions :: "string option"
  ctx_device_extensions :: "string option"
  ctx_wl_display :: nat
  ctx_display :: nat
  ctx_context :: nat
  ctx_surface :: nat
  ctx_stream :: nat
  ctx_config :: nat
  ctx_flip_failed :: bool
  ctx_api :: "string \<Rightarrow> nat"

definition ctx_zero :: ctx where
  "ctx_zero = \<lparr>ctx_extensions = None, ctx_device_extensions = None, ctx_wl_display = 0, ctx_display = 0, ctx_context = 0,
     ctx_surface = 0, ctx_stream = 0, ctx_config = 0, ctx_flip_failed = False, ctx_api = (\<lambda>_. 0)\<rparr>"

text \<open>What the code reads of a \<open>wlc_backend_surface\<close> and of the output it is in.\<close>

record egl_surface =
  es_display :: nat
  es_window :: nat
  es_display_type :: int
  es_drm_fd :: int
  es_use_egldevice :: bool
  es_crtc_id :: u32
  es_mode_w :: u32
  es_mode_h :: u32

datatype egl_fault = Null_call string | Bad_context | Aborted

record egl =
  eg_ctx :: "nat \<Rightarrow> ctx option"
  eg_bound :: nat
  eg_current :: "nat \<times> nat"
  eg_log :: "egl_call list"
  eg_faults :: "egl_fault list"

definition ecall :: "egl_lib \<Rightarrow> egl_call \<Rightarrow> 'a egl_scheme \<Rightarrow> nat \<times> 'a egl_scheme" where
  "ecall L c s = (el_ret L (eg_log s) c, s\<lparr>eg_log := c # eg_log s\<rparr>)"

definition estring :: "egl_lib \<Rightarrow> egl_call \<Rightarrow> 'a egl_scheme \<Rightarrow> string option \<times> 'a egl_scheme" where
  "estring L c s = (el_string L (eg_log s) c, s\<lparr>eg_log := c # eg_log s\<rparr>)"

definition efault :: "egl_fault \<Rightarrow> 'a egl_scheme \<Rightarrow> 'a egl_scheme" where
  "efault f s = s\<lparr>eg_faults := eg_faults s @ [f]\<rparr>"

definition upd_ctx :: "nat \<Rightarrow> (ctx \<Rightarrow> ctx) \<Rightarrow> 'a egl_scheme \<Rightarrow> 'a egl_scheme" where
  "upd_ctx p f s =
     (case eg_ctx s p of None \<Rightarrow> efault Bad_context s | Some c \<Rightarrow> s\<lparr>eg_ctx := (eg_ctx s)(p \<mapsto> f c)\<rparr>)"

definition ctx_of :: "'a egl_scheme \<Rightarrow> nat \<Rightarrow> ctx" where
  "ctx_of s p = (case eg_ctx s p of None \<Rightarrow> ctx_zero | Some c \<Rightarrow> c)"

text \<open>\<open>eglMakeCurrent\<close>: on success the surface and the context are current.\<close>

definition make_current :: "egl_lib \<Rightarrow> nat \<Rightarrow> nat \<Rightarrow> nat \<Rightarrow> 'a egl_scheme \<Rightarrow> nat \<times> 'a egl_scheme" where
  "make_current L dpy surface context s =
     (let (r, s) = ecall L (MakeCurrent dpy surface context) s
      in (r, if r \<noteq> 0 then s\<lparr>eg_current := (surface, context)\<rparr> else s))"

text \<open>A call through a pointer that \<open>eglGetProcAddress\<close> has returned.\<close>

definition api_call :: "egl_lib \<Rightarrow> nat \<Rightarrow> string \<Rightarrow> egl_call \<Rightarrow> 'a egl_scheme \<Rightarrow> nat \<times> 'a egl_scheme" where
  "api_call L p name c s = (if ctx_api (ctx_of s p) name = 0 then (0, efault (Null_call name) s) else ecall L c s)"

section \<open>Extensions\<close>

text \<open>The scan over the string of extensions; it ends at the first entry that is empty.\<close>

lemma scan_shorter: "takeWhile P s \<noteq> [] \<Longrightarrow> length (drop (length (takeWhile P s) + k) s) < length s"
  by (cases s) auto

function is_extension_in :: "string \<Rightarrow> string \<Rightarrow> bool" where
  "is_extension_in extension s =
     (let pos = length (takeWhile (\<lambda>c. c \<noteq> CHR '' '') s) in
      if pos = 0 then False
      else if take (length extension) s = extension then True
      else is_extension_in extension (drop (pos + (if pos < length s then 1 else 0)) s))"
  by pat_completeness auto

termination
  by (relation "measure (\<lambda>(_, s). length s)") (auto dest: scan_shorter [where k = 0] intro: scan_shorter scan_shorter [where k = "Suc 0", simplified]
      intro!: diff_less)

declare is_extension_in.simps [simp del]

definition is_extension_supported :: "string option \<Rightarrow> string \<Rightarrow> bool" where
  "is_extension_supported extensions extension =
     (case extensions of None \<Rightarrow> False | Some s \<Rightarrow> is_extension_in extension s)"

definition has_extension :: "ctx \<Rightarrow> string \<Rightarrow> bool" where
  "has_extension c extension = is_extension_supported (ctx_extensions c) extension"

definition has_device_extension :: "ctx \<Rightarrow> string \<Rightarrow> bool" where
  "has_device_extension c extension = is_extension_supported (ctx_device_extensions c) extension"

fun find_drm_device :: "egl_lib \<Rightarrow> nat list \<Rightarrow> 'a egl_scheme \<Rightarrow> nat \<times> 'a egl_scheme" where
  "find_drm_device L [] s = (0, s)"
| "find_drm_device L (d # ds) s =
     (let (ext, s) = estring L (QueryDeviceString d) s
      in if is_extension_supported ext ''EGL_EXT_device_drm'' \<and> d \<noteq> 0 then (d, s) else find_drm_device L ds s)"

text \<open>The two pointers are called without a test.\<close>

definition get_egl_device :: "egl_lib \<Rightarrow> 'a egl_scheme \<Rightarrow> nat \<times> 'a egl_scheme" where
  "get_egl_device L s =
     (let (query_devices, s) = ecall L (GetProcAddress ''eglQueryDevicesEXT'') s;
          (query_string, s) = ecall L (GetProcAddress ''eglQueryDeviceStringEXT'') s;
          (ext, s) = estring L (QueryString 0 ''EGL_EXTENSIONS'') s
      in
      if \<not> is_extension_supported ext ''EGL_EXT_device_base'' \<and>
         (\<not> is_extension_supported ext ''EGL_EXT_device_enumeration'' \<or> \<not> is_extension_supported ext ''EGL_EXT_device_query'')
      then (0, s)
      else if query_devices = 0 then (0, efault (Null_call ''eglQueryDevicesEXT'') s)
      else
        let (ok, s) = ecall L QueryDevices s in
        if ok = 0 \<or> el_devices L = [] then (0, s)
        else
          let (ok, s) = ecall L QueryDevices s in
          if ok = 0 then (0, s)
          else if query_string = 0 then (0, efault (Null_call ''eglQueryDeviceStringEXT'') s)
          else find_drm_device L (el_devices L) s)"

section \<open>Creation\<close>

definition egl_terminate :: "egl_lib \<Rightarrow> nat \<Rightarrow> 'a egl_scheme \<Rightarrow> 'a egl_scheme" where
  "egl_terminate L p s =
     (let c = ctx_of s p;
          s = snd (make_current L (ctx_display c) 0 0 s);
          s = (if ctx_surface c \<noteq> 0 then snd (ecall L (DestroySurface (ctx_display c) (ctx_surface c)) s) else s);
          s = (if ctx_context c \<noteq> 0 then snd (ecall L (DestroyContext (ctx_display c) (ctx_context c)) s) else s)
      in s\<lparr>eg_ctx := (eg_ctx s)(p := None)\<rparr>)"

text \<open>\<open>load p name\<close> stores the address of a function in the table of the context.\<close>

definition load :: "egl_lib \<Rightarrow> nat \<Rightarrow> string \<Rightarrow> 'a egl_scheme \<Rightarrow> 'a egl_scheme" where
  "load L p name s =
     (let (a, s) = ecall L (GetProcAddress name) s in upd_ctx p (\<lambda>c. c\<lparr>ctx_api := (ctx_api c)(name := a)\<rparr>) s)"

definition get_display :: "egl_lib \<Rightarrow> nat \<Rightarrow> int \<Rightarrow> nat \<Rightarrow> int \<Rightarrow> 'a egl_scheme \<Rightarrow> nat \<times> 'a egl_scheme" where
  "get_display L p type native drm_fd s =
     (let c = ctx_of s p in
      if ctx_api c ''eglGetPlatformDisplayEXT'' \<noteq> 0
      then (if has_extension c ''EGL_EXT_platform_device'' \<and> has_device_extension c ''EGL_EXT_device_drm''
            then ecall L (GetPlatformDisplay type native (Some drm_fd)) s
            else ecall L (GetPlatformDisplay type native None) s)
      else ecall L (GetDisplay native) s)"

definition create_surface_egl_device :: "egl_lib \<Rightarrow> nat \<Rightarrow> egl_surface \<Rightarrow> 'a egl_scheme \<Rightarrow> nat \<times> 'a egl_scheme" where
  "create_surface_egl_device L p b s =
     (let dpy = ctx_display (ctx_of s p);
          layers = GetOutputLayers dpy (es_crtc_id b);
          layer = el_out L (eg_log s) layers;
          (n, s) = api_call L p ''eglGetOutputLayersEXT'' layers s
      in
      if n = 0 then (0, s)
      else
        let (ok, s) = api_call L p ''eglStreamConsumerOutputEXT'' (StreamConsumerOutput dpy (ctx_stream (ctx_of s p)) layer) s in
        if ok = 0 then (0, s)
        else api_call L p ''eglCreateStreamProducerSurfaceKHR''
               (CreateStreamProducerSurface dpy (ctx_config (ctx_of s p)) (ctx_stream (ctx_of s p)) (es_mode_w b) (es_mode_h b)) s)"

definition create_surface_gbm :: "egl_lib \<Rightarrow> nat \<Rightarrow> nat \<Rightarrow> nat \<Rightarrow> 'a egl_scheme \<Rightarrow> nat \<times> 'a egl_scheme" where
  "create_surface_gbm L display config window s = ecall L (CreateWindowSurface display config window) s"

text \<open>The stages of \<open>create_context\<close>; the first that fails ends it. Calls whose results are only logged are left out.\<close>

fun stages :: "('a egl_scheme \<Rightarrow> bool \<times> 'a egl_scheme) list \<Rightarrow> 'a egl_scheme \<Rightarrow> bool \<times> 'a egl_scheme" where
  "stages [] s = (True, s)"
| "stages (f # fs) s = (let (ok, s) = f s in if ok then stages fs s else (False, s))"

definition create_extensions :: "egl_lib \<Rightarrow> nat \<Rightarrow> egl_surface \<Rightarrow> 'a egl_scheme \<Rightarrow> bool \<times> 'a egl_scheme" where
  "create_extensions L p b s =
     (let (ext, s) = estring L (QueryString 0 ''EGL_EXTENSIONS'') s;
          s = upd_ctx p (\<lambda>c. c\<lparr>ctx_extensions := ext\<rparr>) s;
          s = (if has_extension (ctx_of s p) ''EGL_EXT_platform_base'' then load L p ''eglGetPlatformDisplayEXT'' s else s)
      in
      if \<not> es_use_egldevice b then (True, s)
      else
        let (query, s) = ecall L (GetProcAddress ''eglQueryDeviceStringEXT'') s;
            (ext, s) = (if query = 0 then (None, efault (Null_call ''eglQueryDeviceStringEXT'') s)
                        else estring L (QueryDeviceString (es_display b)) s);
            s = upd_ctx p (\<lambda>c. c\<lparr>ctx_device_extensions := ext\<rparr>) s
        in (True, fold (load L p) [''eglGetOutputLayersEXT'', ''eglCreateStreamKHR'', ''eglStreamConsumerOutputEXT'',
             ''eglCreateStreamProducerSurfaceKHR'', ''eglStreamConsumerAcquireAttribNV''] s))"

definition create_display :: "egl_lib \<Rightarrow> nat \<Rightarrow> egl_surface \<Rightarrow> 'a egl_scheme \<Rightarrow> bool \<times> 'a egl_scheme" where
  "create_display L p b s =
     (let (d, s) = get_display L p (es_display_type b) (es_display b) (es_drm_fd b) s;
          s = upd_ctx p (\<lambda>c. c\<lparr>ctx_display := d\<rparr>) s
      in
      if d = 0 then (False, s)
      else
        let (ok, s) = ecall L (Initialize d) s in
        if ok = 0 then (False, s) else let (ok, s) = ecall L BindAPI s in (ok \<noteq> 0, s))"

definition create_config :: "egl_lib \<Rightarrow> nat \<Rightarrow> egl_surface \<Rightarrow> 'a egl_scheme \<Rightarrow> bool \<times> 'a egl_scheme" where
  "create_config L p b s =
     (let call = ChooseConfig (ctx_display (ctx_of s p)) (es_use_egldevice b);
          config = el_out L (eg_log s) call;
          (n, s) = ecall L call s;
          s = upd_ctx p (\<lambda>c. c\<lparr>ctx_config := (if n > 0 then config else 0)\<rparr>) s
      in
      if ctx_config (ctx_of s p) = 0 then (False, s)
      else
        let (x, s) = ecall L (CreateContext (ctx_display (ctx_of s p)) (ctx_config (ctx_of s p))) s
        in (x \<noteq> 0, upd_ctx p (\<lambda>c. c\<lparr>ctx_context := x\<rparr>) s))"

definition create_stream :: "egl_lib \<Rightarrow> nat \<Rightarrow> egl_surface \<Rightarrow> 'a egl_scheme \<Rightarrow> bool \<times> 'a egl_scheme" where
  "create_stream L p b s =
     (if \<not> es_use_egldevice b then (True, s)
      else
        let (x, s) = api_call L p ''eglCreateStreamKHR'' (CreateStream (ctx_display (ctx_of s p))) s
        in (x \<noteq> 0, upd_ctx p (\<lambda>c. c\<lparr>ctx_stream := x\<rparr>) s))"

definition create_surface :: "egl_lib \<Rightarrow> nat \<Rightarrow> egl_surface \<Rightarrow> 'a egl_scheme \<Rightarrow> bool \<times> 'a egl_scheme" where
  "create_surface L p b s =
     (let c = ctx_of s p;
          (x, s) = (if es_use_egldevice b then create_surface_egl_device L p b s
                    else create_surface_gbm L (ctx_display c) (ctx_config c) (es_window b) s);
          s = upd_ctx p (\<lambda>c. c\<lparr>ctx_surface := x\<rparr>) s
      in
      if x = 0 then (False, s)
      else
        let (ok, s) = make_current L (ctx_display (ctx_of s p)) x (ctx_context (ctx_of s p)) s in
        if ok = 0 then (False, s)
        else let (ok, s) = ecall L (QueryContext (ctx_display (ctx_of s p)) (ctx_context (ctx_of s p))) s in (ok \<noteq> 0, s))"

definition create_api :: "egl_lib \<Rightarrow> nat \<Rightarrow> egl_surface \<Rightarrow> 'a egl_scheme \<Rightarrow> bool \<times> 'a egl_scheme" where
  "create_api L p b s =
     (let (ext, s) = estring L (QueryString (ctx_display (ctx_of s p)) ''EGL_EXTENSIONS'') s;
          s = upd_ctx p (\<lambda>c. c\<lparr>ctx_extensions := ext\<rparr>) s;
          s = (if has_extension (ctx_of s p) ''EGL_WL_bind_wayland_display'' \<and> has_extension (ctx_of s p) ''EGL_KHR_image_base''
               then fold (load L p) [''eglCreateImageKHR'', ''eglDestroyImageKHR'', ''eglBindWaylandDisplayWL'',
                      ''eglUnbindWaylandDisplayWL'', ''eglQueryWaylandBufferWL''] s else s);
          s = (if has_extension (ctx_of s p) ''EGL_EXT_swap_buffers_with_damage'' then load L p ''eglSwapBuffersWithDamage'' s else s);
          s = snd (ecall L (SwapInterval (ctx_display (ctx_of s p))) s)
      in (True, s))"

definition create_context :: "egl_lib \<Rightarrow> egl_surface \<Rightarrow> 'a egl_scheme \<Rightarrow> nat \<times> 'a egl_scheme" where
  "create_context L b s =
     (let (p, s) = ecall L Calloc s in
      if p = 0 then (0, s)
      else
        let s = s\<lparr>eg_ctx := (eg_ctx s)(p \<mapsto> ctx_zero)\<rparr>;
            (ok, s) = stages [create_extensions L p b, create_display L p b, create_config L p b, create_stream L p b,
                              create_surface L p b, create_api L p b] s
        in if ok then (p, s) else (0, egl_terminate L p s))"

section \<open>The functions of the table\<close>

definition egl_bind :: "egl_lib \<Rightarrow> nat \<Rightarrow> 'a egl_scheme \<Rightarrow> bool \<times> 'a egl_scheme" where
  "egl_bind L p s =
     (if p = eg_bound s then (True, s)
      else
        let c = ctx_of s p;
            (r, s) = make_current L (ctx_display c) (ctx_surface c) (ctx_context c) s
        in if r \<noteq> 1 then (False, s) else (True, s\<lparr>eg_bound := p\<rparr>))"

definition bind_to_wl_display :: "egl_lib \<Rightarrow> nat \<Rightarrow> nat \<Rightarrow> 'a egl_scheme \<Rightarrow> bool \<times> 'a egl_scheme" where
  "bind_to_wl_display L p wl_display s =
     (if el_wlc_shm L = Some ''1'' then (False, s)
      else
        let c = ctx_of s p;
            s = (if ctx_api c ''eglBindWaylandDisplayWL'' \<noteq> 0
                 then let (r, s) = ecall L (BindWaylandDisplay (ctx_display c) wl_display) s
                      in if r = 1 then upd_ctx p (\<lambda>c. c\<lparr>ctx_wl_display := wl_display\<rparr>) s else s
                 else s)
        in (ctx_wl_display (ctx_of s p) \<noteq> 0, s))"

definition output_stream_flip :: "egl_lib \<Rightarrow> nat \<Rightarrow> nat \<Rightarrow> 'a egl_scheme \<Rightarrow> bool \<times> 'a egl_scheme" where
  "output_stream_flip L p bsurface s =
     (let c = ctx_of s p in
      if ctx_stream c \<noteq> 0
      then let (r, s) = api_call L p ''eglStreamConsumerAcquireAttribNV''
                          (StreamConsumerAcquireAttrib (ctx_display c) (ctx_stream c) bsurface) s
           in (r = 1, s)
      else (True, s))"

text \<open>\<open>flip\<close> is the function for page flips of the backend surface, if it has one.\<close>

definition swap ::
  "egl_lib \<Rightarrow> nat \<Rightarrow> nat \<Rightarrow> bool \<Rightarrow> ('a egl_scheme \<Rightarrow> bool \<times> 'a egl_scheme) option \<Rightarrow> 'a egl_scheme \<Rightarrow> 'a egl_scheme" where
  "swap L p bsurface use_egldevice flip s =
     (let (ok, s) = egl_bind L p s in
      if \<not> ok then efault Aborted s
      else
        let c = ctx_of s p;
            (ret, s) = (if \<not> ctx_flip_failed c then ecall L (SwapBuffers (ctx_display c) (ctx_surface c)) s else (0, s))
        in
        if ret = 1 \<and> use_egldevice then snd (output_stream_flip L p bsurface s)
        else
          (case flip of
             Some f \<Rightarrow>
               if ret = 1
               then let (ok, s) = f s in upd_ctx p (\<lambda>c. c\<lparr>ctx_flip_failed := \<not> ok\<rparr>) s
               else s
           | None \<Rightarrow> s))"

definition get_proc_address :: "egl_lib \<Rightarrow> string \<Rightarrow> 'a egl_scheme \<Rightarrow> nat \<times> 'a egl_scheme" where
  "get_proc_address L procname s = ecall L (GetProcAddress procname) s"

definition query_buffer :: "egl_lib \<Rightarrow> nat \<Rightarrow> nat \<Rightarrow> int \<Rightarrow> 'a egl_scheme \<Rightarrow> nat \<times> 'a egl_scheme" where
  "query_buffer L p buffer attribute s =
     (if ctx_api (ctx_of s p) ''eglQueryWaylandBufferWL'' \<noteq> 0
      then ecall L (QueryWaylandBuffer (ctx_display (ctx_of s p)) buffer attribute) s else (0, s))"

definition create_image :: "egl_lib \<Rightarrow> nat \<Rightarrow> nat \<Rightarrow> nat \<Rightarrow> 'a egl_scheme \<Rightarrow> nat \<times> 'a egl_scheme" where
  "create_image L p target buffer s =
     (if ctx_api (ctx_of s p) ''eglCreateImageKHR'' \<noteq> 0
      then ecall L (CreateImage (ctx_display (ctx_of s p)) (ctx_context (ctx_of s p)) target buffer) s else (0, s))"

definition destroy_image :: "egl_lib \<Rightarrow> nat \<Rightarrow> nat \<Rightarrow> 'a egl_scheme \<Rightarrow> nat \<times> 'a egl_scheme" where
  "destroy_image L p img s =
     (if ctx_api (ctx_of s p) ''eglDestroyImageKHR'' \<noteq> 0
      then ecall L (DestroyImage (ctx_display (ctx_of s p)) img) s else (0, s))"

section \<open>What the operations leave alone\<close>

lemma bound_basic [simp]:
  "eg_bound (snd (ecall L c s)) = eg_bound s" "eg_bound (snd (estring L c s)) = eg_bound s" "eg_bound (efault f s) = eg_bound s"
  "eg_bound (upd_ctx p g s) = eg_bound s" "eg_bound (snd (make_current L d x y s)) = eg_bound s"
  "eg_bound (snd (api_call L p n c s)) = eg_bound s" "eg_bound (load L p n s) = eg_bound s"
  "eg_bound (snd (get_display L p ty nv fd s)) = eg_bound s" "eg_bound (egl_terminate L p s) = eg_bound s"
  by (simp_all add: ecall_def estring_def efault_def upd_ctx_def make_current_def api_call_def load_def get_display_def
      egl_terminate_def Let_def case_prod_beta split: option.split)

lemma bound_loads [simp]: "eg_bound (fold (load L p) ns s) = eg_bound s"
  by (induction ns arbitrary: s) simp_all

lemma bound_surface [simp]:
  "eg_bound (snd (create_surface_egl_device L p b s)) = eg_bound s" "eg_bound (snd (create_surface_gbm L d c v s)) = eg_bound s"
  by (simp_all add: create_surface_egl_device_def create_surface_gbm_def Let_def case_prod_beta)

lemma bound_stages:
  "eg_bound (snd (create_extensions L p b s)) = eg_bound s" "eg_bound (snd (create_display L p b s)) = eg_bound s"
  "eg_bound (snd (create_config L p b s)) = eg_bound s" "eg_bound (snd (create_stream L p b s)) = eg_bound s"
  "eg_bound (snd (create_surface L p b s)) = eg_bound s" "eg_bound (snd (create_api L p b s)) = eg_bound s"
  by (simp_all add: create_extensions_def create_display_def create_config_def create_stream_def create_surface_def create_api_def
      Let_def case_prod_beta del: fold.simps)

lemma stages_bound: "(\<And>f s. f \<in> set fs \<Longrightarrow> eg_bound (snd (f s)) = eg_bound s) \<Longrightarrow> eg_bound (snd (stages fs s)) = eg_bound s"
  by (induction fs arbitrary: s) (simp_all add: case_prod_beta)

lemma terminate_current:
  "(\<And>h. el_ret L h (MakeCurrent (ctx_display (ctx_of s p)) 0 0) \<noteq> 0) \<Longrightarrow> eg_current (egl_terminate L p s) = (0, 0)"
  by (simp add: egl_terminate_def make_current_def ecall_def Let_def)

section \<open>Properties\<close>

text \<open>The entries of a string of extensions, by its spaces.\<close>

fun words :: "string \<Rightarrow> string list" where
  "words [] = [[]]"
| "words (c # cs) = (if c = CHR '' '' then [] # words cs else (case words cs of [] \<Rightarrow> [[c]] | v # vs \<Rightarrow> (c # v) # vs))"

lemma words_split:
  "words s = (let v = takeWhile (\<lambda>c. c \<noteq> CHR '' '') s in
     if length v < length s then v # words (drop (Suc (length v)) s) else [v])"
  by (induction s) (auto simp: Let_def split: list.splits)

lemma take_until_space:
  "CHR '' '' \<notin> set e \<Longrightarrow> take (length e) (takeWhile (\<lambda>c. c \<noteq> CHR '' '') s) = e \<longleftrightarrow> take (length e) s = e"
  by (induction e arbitrary: s; case_tac s) auto

text \<open>An extension is found exactly when its name is the beginning of an entry before the first empty one, where
  entries are separated by single spaces.\<close>

theorem extension_scan_reference:
  assumes "CHR '' '' \<notin> set extension"
  shows "is_extension_supported (Some s) extension \<longleftrightarrow>
     (\<exists>x\<in>set (takeWhile (\<lambda>x. x \<noteq> []) (words s)). take (length extension) x = extension)"
proof -
  have "is_extension_in extension s \<longleftrightarrow> (\<exists>x\<in>set (takeWhile (\<lambda>x. x \<noteq> []) (words s)). take (length extension) x = extension)"
    using assms
  proof (induction extension s rule: is_extension_in.induct)
    case (1 extension s)
    let ?v = "takeWhile (\<lambda>c. c \<noteq> CHR '' '') s"
    have empty: "is_extension_in extension [] = False" by (simp add: is_extension_in.simps [of extension "[]"])
    show ?case
    proof (cases "?v = [] \<or> take (length extension) s = extension")
      case True
      then show ?thesis
        using take_until_space [OF "1.prems", of s]
        by (auto simp: is_extension_in.simps [of extension s] words_split [of s] Let_def)
    next
      case False
      then have "length ?v \<noteq> 0" "take (length extension) s \<noteq> extension" by auto
      from "1.IH" [OF refl this "1.prems"] show ?thesis
        using take_until_space [OF "1.prems", of s] False empty
        by (cases "length ?v < length s") (simp_all add: is_extension_in.simps [of extension s] words_split [of s] Let_def)
    qed
  qed
  then show ?thesis by (simp add: is_extension_supported_def)
qed

theorem extension_scan_reference_witness:
  "is_extension_supported (Some ''EGL_EXT_platform_base EGL_KHR_gbm'') ''EGL_KHR_g''"
  by (subst extension_scan_reference) simp_all

text \<open>When the creation of a context for another output fails, no context is current, but \<open>bind\<close> still holds the one
  that was bound before to be, and reports success without making it current again.\<close>

theorem failed_creation_loses_binding:
  assumes "fst (create_context L b s) = 0" and "fst (ecall L Calloc s) \<noteq> 0"
    and "\<And>h d. el_ret L h (MakeCurrent d 0 0) \<noteq> 0"
  shows "eg_current (snd (create_context L b s)) = (0, 0) \<and>
     egl_bind L (eg_bound s) (snd (create_context L b s)) = (True, snd (create_context L b s))"
proof -
  obtain p u where u: "ecall L Calloc s = (p, u)" by fastforce
  then have p: "p \<noteq> 0" "eg_bound u = eg_bound s" using assms(2) by (auto simp: ecall_def)
  define v where "v = u\<lparr>eg_ctx := (eg_ctx u)(p \<mapsto> ctx_zero)\<rparr>"
  let ?fs = "[create_extensions L p b, create_display L p b, create_config L p b, create_stream L p b,
      create_surface L p b, create_api L p b]"
  have run: "create_context L b s = (if fst (stages ?fs v) then (p, snd (stages ?fs v)) else (0, egl_terminate L p (snd (stages ?fs v))))"
    using p(1) u by (simp add: create_context_def v_def case_prod_beta del: stages.simps)
  have bound: "eg_bound (snd (stages ?fs v)) = eg_bound s"
    using p(2) by (subst stages_bound) (auto simp: v_def bound_stages)
  have "create_context L b s = (0, egl_terminate L p (snd (stages ?fs v)))"
    using run assms(1) p(1) by (simp del: stages.simps split: if_splits)
  then show ?thesis using assms(3) bound by (simp add: terminate_current egl_bind_def del: stages.simps)
qed

text \<open>Context 3 is bound; for the output that is plugged in everything works but the query of the context.\<close>

definition egl_lib_ref :: egl_lib where
  "egl_lib_ref = \<lparr>el_ret = (\<lambda>h c. case c of Calloc \<Rightarrow> 7 | QueryContext _ _ \<Rightarrow> 0 | _ \<Rightarrow> 1), el_out = (\<lambda>h c. 5),
     el_string = (\<lambda>h c. None), el_devices = [], el_wlc_shm = None\<rparr>"

definition egl_surface_ref :: egl_surface where
  "egl_surface_ref = \<lparr>es_display = 1, es_window = 2, es_display_type = 0, es_drm_fd = 4, es_use_egldevice = False, es_crtc_id = 0,
     es_mode_w = 64, es_mode_h = 48\<rparr>"

definition egl_ref :: egl where
  "egl_ref = \<lparr>eg_ctx = [3 \<mapsto> ctx_zero\<lparr>ctx_display := 1, ctx_surface := 8, ctx_context := 9\<rparr>], eg_bound = 3, eg_current = (8, 9),
     eg_log = [], eg_faults = []\<rparr>"

theorem failed_creation_loses_binding_witness:
  "eg_current (snd (create_context egl_lib_ref egl_surface_ref egl_ref)) = (0, 0) \<and>
   fst (egl_bind egl_lib_ref 3 (snd (create_context egl_lib_ref egl_surface_ref egl_ref)))"
proof -
  have "fst (create_context egl_lib_ref egl_surface_ref egl_ref) = 0" by code_simp
  moreover have "eg_bound egl_ref = 3" by (simp add: egl_ref_def)
  moreover have "fst (ecall egl_lib_ref Calloc egl_ref) \<noteq> 0" "el_ret egl_lib_ref h (MakeCurrent d 0 0) \<noteq> 0" for h d
    by (simp_all add: egl_lib_ref_def ecall_def)
  ultimately show ?thesis using failed_creation_loses_binding [of egl_lib_ref egl_surface_ref egl_ref] by simp
qed

text \<open>After one page flip that failed, no swap of the context ever swaps buffers or flips a page again: the output
  is frozen until the context is made anew.\<close>

theorem failed_flip_freezes:
  assumes "eg_ctx s p = Some c" and "ctx_flip_failed c"
  shows "(\<forall>d x. SwapBuffers d x \<notin> set (take (length (eg_log (((swap L p b use_device flip) ^^ n) s)) - length (eg_log s))
     (eg_log (((swap L p b use_device flip) ^^ n) s)))) \<and> eg_ctx (((swap L p b use_device flip) ^^ n) s) = eg_ctx s"
proof -
  have one: "\<exists>h. eg_log (swap L p b use_device flip u) = h @ eg_log u \<and> (\<forall>d x. SwapBuffers d x \<notin> set h) \<and>
      eg_ctx (swap L p b use_device flip u) = eg_ctx u" if "eg_ctx u p = Some c" for u
    using assms(2) that
    by (auto simp: swap_def egl_bind_def make_current_def ecall_def efault_def ctx_of_def Let_def split: option.split)
  let ?run = "\<lambda>n. ((swap L p b use_device flip) ^^ n) s"
  have "\<exists>h. eg_log (?run n) = h @ eg_log s \<and> (\<forall>d x. SwapBuffers d x \<notin> set h) \<and> eg_ctx (?run n) = eg_ctx s"
  proof (induction n)
    case (Suc n)
    then obtain h where h: "eg_log (?run n) = h @ eg_log s" "\<forall>d x. SwapBuffers d x \<notin> set h" "eg_ctx (?run n) = eg_ctx s" by blast
    then obtain k where "eg_log (?run (Suc n)) = k @ eg_log (?run n)" "\<forall>d x. SwapBuffers d x \<notin> set k" "eg_ctx (?run (Suc n)) = eg_ctx s"
      using h(3) one [of "?run n"] assms(1) by auto
    then show ?case using h(1,2) by (intro exI [of _ "k @ h"]) (simp del: funpow.simps)
  qed simp
  then obtain h where h: "eg_log (?run n) = h @ eg_log s" "\<forall>d x. SwapBuffers d x \<notin> set h" "eg_ctx (?run n) = eg_ctx s" by blast
  show ?thesis unfolding h(1) using h(2,3) by simp
qed

definition egl_frozen :: egl where
  "egl_frozen = egl_ref\<lparr>eg_ctx := [3 \<mapsto> ctx_zero\<lparr>ctx_flip_failed := True\<rparr>]\<rparr>"

theorem failed_flip_freezes_witness:
  "eg_ctx (((swap egl_lib_ref 3 0 False (Some (\<lambda>s. (True, s)))) ^^ 2) egl_frozen) 3 = Some (ctx_zero\<lparr>ctx_flip_failed := True\<rparr>)"
  using failed_flip_freezes [where s = egl_frozen and p = 3 and L = egl_lib_ref and b = 0 and use_device = False
      and flip = "Some (\<lambda>s. (True, s))" and n = 2]
  by (simp add: egl_frozen_def)

end
