(* ===== verification/Drm.thy ===== *)
theory Drm
  imports Egl Output
begin

text \<open>
  The back end on bare hardware (src/platform/backend/drm.c): framebuffers and page flips of an output, the search
  for connectors, encoders and crtcs, hotplug, start and end.

  \<open>gpu\<close> extends the state of EGL (whose \<open>swap\<close> calls \<open>page_flip\<close>) by the world, the static \<open>drm\<close>, and the
  \<open>drm_surface\<close> objects by address: \<open>gp_internal\<close> is the \<open>internal\<close> pointer of the backend surface of an output.
  Results of libdrm and libgbm are functions of the calls made so far, as are the objects the kernel describes
  (connectors, encoders, crtcs), which are values here. What the compositor does on a page flip, an addition or a
  removal of an output are fields of \<open>drm_env\<close>: they can release the very surface the back end is working on.
\<close>

section \<open>Data\<close>

record drm_mode =
  mi_hdisplay :: u16
  mi_vdisplay :: u16
  mi_vrefresh :: u32
  mi_type :: u32
  mi_rest :: nat

record drm_connector =
  co_connector_id :: u32
  co_encoder_id :: u32
  co_connected :: bool
  co_modes :: "drm_mode list"
  co_mm_width :: u32
  co_mm_height :: u32
  co_subpixel :: u32
  co_type :: u32
  co_type_id :: u32

record drm_encoder =
  en_encoder_id :: u32
  en_crtc_id :: u32
  en_possible_crtcs :: u32

record drm_crtc =
  cr_crtc_id :: u32
  cr_buffer_id :: u32
  cr_mode_valid :: bool
  cr_mode :: drm_mode
  cr_gamma_size :: u16

record drm_output_information =
  di_connector :: drm_connector
  di_encoder :: drm_encoder
  di_crtc :: drm_crtc
  di_mode :: drm_mode
  di_info :: wlc_output_information
  di_width :: u32
  di_height :: u32

record drm_fb =
  fb_bo :: nat
  fb_fd :: u32
  fb_stride :: u32

definition NUM_FBS :: nat where "NUM_FBS = 2"

definition fb_zero :: drm_fb where "fb_zero = \<lparr>fb_bo = 0, fb_fd = 0, fb_stride = 0\<rparr>"

record drm_surface =
  dr_device :: nat
  dr_gbm_surface :: nat
  dr_connector :: drm_connector
  dr_encoder :: drm_encoder
  dr_crtc :: drm_crtc
  dr_fb :: "nat \<Rightarrow> drm_fb"
  dr_stride :: u32
  dr_index :: nat
  dr_flipping :: bool

record drm =
  dm_use_egldevice :: bool
  dm_device :: nat
  dm_fd :: int
  dm_event_source :: nat

definition drm_zero :: drm where
  "drm_zero = \<lparr>dm_use_egldevice = False, dm_device = 0, dm_fd = 0, dm_event_source = 0\<rparr>"

datatype drm_call =
    RmFB u32
  | GbmReleaseBuffer nat nat
  | GbmHasFreeBuffers nat
  | GbmLockFrontBuffer nat
  | AddFB u32 u32 u32 u32
  | SetCrtc u32 u32 "u32 option" "drm_mode option"
  | SetCursor u32
  | PageFlip u32 u32 nat
  | CrtcSetGamma u32 u16
  | CreateDumb u32 u32
  | MapDumb u32
  | Mmap
  | DestroyDumb u32
  | GbmSurfaceCreate nat u32 u32
  | GbmSurfaceDestroy nat
  | FreeCrtc u32
  | FreeEncoder u32
  | FreeConnector u32
  | EventSourceRemove nat
  | GbmDeviceDestroy nat
  | FdClose int
  | CallocSurface
  | OpenCard string
  | GbmCreateDevice int
  | EventSourceAdd int

record gpu = egl +
  gp_world :: world
  gp_drm :: drm
  gp_internal :: "nat \<Rightarrow> nat"
  gp_surface :: "nat \<Rightarrow> drm_surface option"
  gp_calls :: "drm_call list"
  gp_faults :: "fault list"

text \<open>A buffer object of gbm: width, height, stride and handle.\<close>

record drm_bo =
  bo_width :: u32
  bo_height :: u32
  bo_stride :: u32
  bo_handle :: u32

record drm_card =
  cd_connectors :: "drm_connector option list"
  cd_encoders :: "u32 list"
  cd_encoder :: "u32 \<Rightarrow> drm_encoder option"
  cd_crtcs :: "u32 list"
  cd_crtc :: "u32 \<Rightarrow> drm_crtc option"

record drm_env =
  dk_ret :: "drm_call list \<Rightarrow> drm_call \<Rightarrow> int"
  dk_id :: "drm_call list \<Rightarrow> drm_call \<Rightarrow> u32"
  dk_ptr :: "drm_call list \<Rightarrow> drm_call \<Rightarrow> nat"
  dk_bo :: "nat \<Rightarrow> drm_bo"
  dk_card :: "drm_call list \<Rightarrow> drm_card option"
  dk_malloc :: bool
  dk_modes :: "wlc_output_mode pool_ops"
  dk_infos :: "drm_output_information pool_ops"
  dk_connector_type :: "u32 \<Rightarrow> wlc_connector_type option"
  dk_getenv :: "string \<Rightarrow> string option"
  dk_version_name :: "string option"
  dk_egl :: egl_lib
  dx_finish_frame :: "nat \<Rightarrow> int \<Rightarrow> int \<Rightarrow> gpu \<Rightarrow> gpu"
  dx_add_output :: "wlc_backend_surface \<Rightarrow> wlc_output_information \<Rightarrow> nat \<Rightarrow> gpu \<Rightarrow> gpu"
  dx_terminate_output :: "nat \<Rightarrow> gpu \<Rightarrow> gpu"

definition dcall :: "drm_env \<Rightarrow> drm_call \<Rightarrow> gpu \<Rightarrow> int \<times> gpu" where
  "dcall D c s = (dk_ret D (gp_calls s) c, s\<lparr>gp_calls := c # gp_calls s\<rparr>)"

definition dptr :: "drm_env \<Rightarrow> drm_call \<Rightarrow> gpu \<Rightarrow> nat \<times> gpu" where
  "dptr D c s = (dk_ptr D (gp_calls s) c, s\<lparr>gp_calls := c # gp_calls s\<rparr>)"

definition dlog :: "drm_call \<Rightarrow> gpu \<Rightarrow> gpu" where
  "dlog c s = s\<lparr>gp_calls := c # gp_calls s\<rparr>"

definition dfail :: "fault \<Rightarrow> gpu \<Rightarrow> gpu" where
  "dfail f s = s\<lparr>gp_faults := gp_faults s @ [f]\<rparr>"

text \<open>Writing an object that is gone writes freed memory.\<close>

definition upd_drm :: "nat \<Rightarrow> (drm_surface \<Rightarrow> drm_surface) \<Rightarrow> gpu \<Rightarrow> gpu" where
  "upd_drm a f s =
     (case gp_surface s a of None \<Rightarrow> dfail Wild_pointer s | Some d \<Rightarrow> s\<lparr>gp_surface := (gp_surface s)(a \<mapsto> f d)\<rparr>)"

definition upd_fb :: "nat \<Rightarrow> nat \<Rightarrow> (drm_fb \<Rightarrow> drm_fb) \<Rightarrow> gpu \<Rightarrow> gpu" where
  "upd_fb a i f = upd_drm a (\<lambda>d. d\<lparr>dr_fb := (dr_fb d)(i := f (dr_fb d i))\<rparr>)"

section \<open>Framebuffers\<close>

text \<open>The framebuffer is slot \<open>i\<close> of the surface at \<open>a\<close>.\<close>

definition release_fb :: "nat \<Rightarrow> nat \<Rightarrow> gpu \<Rightarrow> gpu" where
  "release_fb a i s =
     (case gp_surface s a of
        None \<Rightarrow> dfail Wild_pointer s
      | Some d \<Rightarrow>
          let fb = dr_fb d i;
              s = (if fb_fd fb > 0 then dlog (RmFB (fb_fd fb)) s else s);
              s = (if dr_gbm_surface d \<noteq> 0 \<and> fb_bo fb \<noteq> 0 then dlog (GbmReleaseBuffer (dr_gbm_surface d) (fb_bo fb)) s else s)
          in upd_fb a i (\<lambda>fb. fb\<lparr>fb_bo := 0, fb_fd := 0\<rparr>) s)"

definition page_flip_handler :: "drm_env \<Rightarrow> nat \<Rightarrow> int \<Rightarrow> int \<Rightarrow> gpu \<Rightarrow> gpu" where
  "page_flip_handler D oid sec usec s =
     (let a = gp_internal s oid;
          s = (if \<not> dm_use_egldevice (gp_drm s)
               then
                 (case gp_surface s a of
                    None \<Rightarrow> dfail Wild_pointer s
                  | Some d \<Rightarrow>
                      let n = (dr_index d + 1) mod NUM_FBS
                      in upd_drm a (\<lambda>d. d\<lparr>dr_index := n\<rparr>) (release_fb a n s))
               else s);
          s = dx_finish_frame D oid sec (usec * 1000) s
      in upd_drm a (\<lambda>d. d\<lparr>dr_flipping := False\<rparr>) s)"

text \<open>The framebuffer is made of the buffer EGL has drawn.\<close>

definition create_gbm_fb :: "drm_env \<Rightarrow> nat \<Rightarrow> nat \<Rightarrow> gpu \<Rightarrow> bool \<times> gpu" where
  "create_gbm_fb D a i s =
     (case gp_surface s a of
        None \<Rightarrow> (False, dfail Wild_pointer s)
      | Some d \<Rightarrow>
          let (free, s) = dcall D (GbmHasFreeBuffers (dr_gbm_surface d)) s in
          if free = 0 then (False, release_fb a i s)
          else
            let (bo, s) = dptr D (GbmLockFrontBuffer (dr_gbm_surface d)) s;
                s = upd_fb a i (\<lambda>fb. fb\<lparr>fb_bo := bo\<rparr>) s
            in
            if bo = 0 then (False, release_fb a i s)
            else
              let b = dk_bo D bo;
                  add = AddFB (bo_width b) (bo_height b) (bo_stride b) (bo_handle b);
                  fd = dk_id D (gp_calls s) add;
                  (r, s) = dcall D add s
              in
              if r \<noteq> 0 then (False, release_fb a i s)
              else (True, upd_fb a i (\<lambda>fb. fb\<lparr>fb_fd := fd, fb_stride := bo_stride b\<rparr>) s))"

definition create_dumb_fb :: "drm_env \<Rightarrow> u32 \<Rightarrow> u32 \<Rightarrow> gpu \<Rightarrow> u32 \<times> gpu" where
  "create_dumb_fb D width height s =
     (let create = CreateDumb width height;
          handle = dk_id D (gp_calls s) create;
          (r, s) = dcall D create s
      in
      if r < 0 then (0, s)
      else
        let pitch = bo_stride (dk_bo D (unat handle));
            fd = dk_id D (gp_calls s) (AddFB width height pitch handle);
            (r, s) = dcall D (AddFB width height pitch handle) s
        in
        if r \<noteq> 0 then (0, dlog (DestroyDumb handle) s)
        else
          let (r, s) = dcall D (MapDumb handle) s in
          if r \<noteq> 0 then (0, dlog (DestroyDumb handle) (dlog (RmFB fd) s))
          else
            let (r, s) = dcall D Mmap s in
            if r = -1 then (0, dlog (DestroyDumb handle) (dlog (RmFB fd) s)) else (fd, s))"

text \<open>The mode is set only when the stride of the framebuffer changes.\<close>

definition set_mode :: "drm_env \<Rightarrow> nat \<Rightarrow> nat \<Rightarrow> nat \<Rightarrow> gpu \<Rightarrow> bool \<times> gpu" where
  "set_mode D oid a i s =
     (case gp_surface s a of
        None \<Rightarrow> (False, dfail Wild_pointer s)
      | Some d \<Rightarrow>
          let fb = dr_fb d i; m = unat (o_field o_active_mode 0 oid (gp_world s)) in
          if fb_stride fb = dr_stride d then (True, s)
          else
            let s = (if m < length (co_modes (dr_connector d)) then s else dfail Wild_pointer s);
                (r, s) = dcall D (SetCrtc (cr_crtc_id (dr_crtc d)) (fb_fd fb) (Some (co_connector_id (dr_connector d)))
                                    (Some (co_modes (dr_connector d) ! m))) s
            in
            if r \<noteq> 0 then (False, s)
            else (True, upd_drm a (\<lambda>d. d\<lparr>dr_stride := fb_stride fb\<rparr>) (dlog (SetCursor (cr_crtc_id (dr_crtc d))) s)))"

definition page_flip :: "drm_env \<Rightarrow> nat \<Rightarrow> gpu \<Rightarrow> bool \<times> gpu" where
  "page_flip D oid s =
     (let a = gp_internal s oid in
      case gp_surface s a of
        None \<Rightarrow> (False, dfail Assertion s)
      | Some d \<Rightarrow>
          let s = (if dr_flipping d then dfail Assertion s else s);
              i = dr_index d;
              s = release_fb a i s;
              (ok, s) = create_gbm_fb D a i s
          in
          if \<not> ok then (False, s)
          else
            let (ok, s) = set_mode D oid a i s in
            if \<not> ok then (False, release_fb a i s)
            else
              let (r, s) = dcall D (PageFlip (cr_crtc_id (dr_crtc d))
                                      (case gp_surface s a of None \<Rightarrow> 0 | Some d \<Rightarrow> fb_fd (dr_fb d i)) oid) s
              in
              if r \<noteq> 0 then (False, release_fb a i s)
              else (True, upd_drm a (\<lambda>d. d\<lparr>dr_flipping := True\<rparr>) s))"

section \<open>The functions of a surface\<close>

definition with_drm :: "nat \<Rightarrow> (drm_surface \<Rightarrow> gpu \<Rightarrow> gpu) \<Rightarrow> gpu \<Rightarrow> gpu" where
  "with_drm oid f s =
     (case gp_surface s (gp_internal s oid) of None \<Rightarrow> dfail Wild_pointer s | Some d \<Rightarrow> f d s)"

definition surface_sleep :: "nat \<Rightarrow> bool \<Rightarrow> gpu \<Rightarrow> gpu" where
  "surface_sleep oid sleep s =
     with_drm oid (\<lambda>d s. if sleep
       then upd_drm (gp_internal s oid) (\<lambda>d. d\<lparr>dr_stride := 0\<rparr>) (dlog (SetCrtc (cr_crtc_id (dr_crtc d)) 0 None None) s)
       else s) s"

definition set_gamma :: "nat \<Rightarrow> u16 \<Rightarrow> gpu \<Rightarrow> gpu" where
  "set_gamma oid sz s = with_drm oid (\<lambda>d. dlog (CrtcSetGamma (cr_crtc_id (dr_crtc d)) sz)) s"

definition get_gamma_size :: "nat \<Rightarrow> gpu \<Rightarrow> u16" where
  "get_gamma_size oid s =
     (case gp_surface s (gp_internal s oid) of None \<Rightarrow> 0 | Some d \<Rightarrow> cr_gamma_size (dr_crtc d))"

definition surface_release :: "nat \<Rightarrow> gpu \<Rightarrow> gpu" where
  "surface_release a s =
     (case gp_surface s a of
        None \<Rightarrow> dfail Wild_pointer s
      | Some d \<Rightarrow>
          let s = release_fb a (dr_index d) s;
              s = dlog (SetCrtc (cr_crtc_id (dr_crtc d)) (cr_buffer_id (dr_crtc d)) (Some (co_connector_id (dr_connector d)))
                         (Some (cr_mode (dr_crtc d)))) s;
              s = dlog (FreeCrtc (cr_crtc_id (dr_crtc d))) s;
              s = (if \<not> dm_use_egldevice (gp_drm s) \<and> dr_gbm_surface d \<noteq> 0
                   then dlog (GbmSurfaceDestroy (dr_gbm_surface d)) s else s)
          in dlog (FreeConnector (co_connector_id (dr_connector d))) (dlog (FreeEncoder (en_encoder_id (dr_encoder d))) s))"

text \<open>\<open>wlc_backend_surface_release\<close> of a surface of this back end: its destructor, then its memory is freed.\<close>

definition drm_backend_surface_release :: "nat \<Rightarrow> gpu \<Rightarrow> gpu" where
  "drm_backend_surface_release oid s =
     (let a = gp_internal s oid in
      if a = 0 then s
      else let s = surface_release a s
           in s\<lparr>gp_surface := (gp_surface s)(a := None), gp_internal := (gp_internal s)(oid := 0)\<rparr>)"

section \<open>Outputs of the card\<close>

definition set_crtc_default_mode :: "drm_env \<Rightarrow> drm_output_information \<Rightarrow> gpu \<Rightarrow> bool \<times> gpu" where
  "set_crtc_default_mode D i s =
     (let (fb, s) = create_dumb_fb D (di_width i) (di_height i) s in
      if fb = 0 then (False, s)
      else
        let (r, s) = dcall D (SetCrtc (cr_crtc_id (di_crtc i)) fb (Some (co_connector_id (di_connector i))) (Some (di_mode i))) s
        in (r = 0, s))"

text \<open>The address of the new surface is what \<open>calloc\<close> gives; the compositor puts the surface into an output.\<close>

definition add_drm_output :: "drm_env \<Rightarrow> nat \<Rightarrow> nat \<Rightarrow> drm_output_information \<Rightarrow> gpu \<Rightarrow> bool \<times> gpu" where
  "add_drm_output D device gbm i s =
     (let (a, s) = dptr D CallocSurface s in
      if a = 0 then (False, s)
      else
        let d = \<lparr>dr_device = device, dr_gbm_surface = gbm, dr_connector = di_connector i, dr_encoder = di_encoder i,
                 dr_crtc = di_crtc i, dr_fb = (\<lambda>_. fb_zero), dr_stride = 0, dr_index = 0, dr_flipping = False\<rparr>;
            b = \<lparr>bs_display = device, bs_window = gbm, bs_api_sleep = True, bs_api_set_gamma = True, bs_api_get_gamma_size = True\<rparr>
        in (True, dx_add_output D b (di_info i) a (s\<lparr>gp_surface := (gp_surface s)(a \<mapsto> d)\<rparr>)))"

fun first_encoder :: "drm_card \<Rightarrow> u32 list \<Rightarrow> drm_encoder option" where
  "first_encoder C [] = None"
| "first_encoder C (e # es) = (case cd_encoder C e of None \<Rightarrow> first_encoder C es | Some x \<Rightarrow> Some x)"

definition find_encoder_for_connector :: "drm_card \<Rightarrow> drm_connector \<Rightarrow> drm_encoder option" where
  "find_encoder_for_connector C co =
     (case cd_encoder C (co_encoder_id co) of Some e \<Rightarrow> Some e | None \<Rightarrow> first_encoder C (cd_encoders C))"

fun free_crtc :: "drm_card \<Rightarrow> drm_encoder \<Rightarrow> u32 list \<Rightarrow> nat \<Rightarrow> u32 list \<Rightarrow> drm_crtc option" where
  "free_crtc C e used n [] = None"
| "free_crtc C e used n (c # cs) =
     (if c \<in> set used \<or> \<not> bit (en_possible_crtcs e) n then free_crtc C e used (Suc n) cs
      else (case cd_crtc C c of None \<Rightarrow> free_crtc C e used (Suc n) cs | Some x \<Rightarrow> Some x))"

definition find_crtc_for_encoder :: "drm_card \<Rightarrow> drm_encoder \<Rightarrow> u32 list \<Rightarrow> drm_crtc option" where
  "find_crtc_for_encoder C e used =
     (case cd_crtc C (en_crtc_id e) of Some c \<Rightarrow> Some c | None \<Rightarrow> free_crtc C e used 0 (cd_crtcs C))"

definition wlc_connector_for_drm_connector :: "drm_env \<Rightarrow> u32 \<Rightarrow> wlc_connector_type" where
  "wlc_connector_for_drm_connector D type =
     (case dk_connector_type D type of None \<Rightarrow> WLC_CONNECTOR_UNKNOWN | Some t \<Rightarrow> t)"

definition DRM_MODE_TYPE_PREFERRED :: u32 where "DRM_MODE_TYPE_PREFERRED = 8"
definition WL_OUTPUT_MODE_CURRENT :: u32 where "WL_OUTPUT_MODE_CURRENT = 1"
definition WL_OUTPUT_MODE_PREFERRED :: u32 where "WL_OUTPUT_MODE_PREFERRED = 2"

definition take_mode :: "drm_mode \<Rightarrow> drm_output_information \<Rightarrow> drm_output_information" where
  "take_mode m i = i\<lparr>di_width := ucast (mi_hdisplay m), di_height := ucast (mi_vdisplay m), di_mode := m\<rparr>"

definition no_size :: "drm_output_information \<Rightarrow> bool" where
  "no_size i \<longleftrightarrow> di_width i = 0 \<and> di_height i = 0"

text \<open>One mode of a connector: it is offered to the author, and may become the mode of the output.\<close>

definition mode_flags :: "drm_crtc \<Rightarrow> drm_mode \<Rightarrow> u32" where
  "mode_flags c m =
     (if mi_type m AND DRM_MODE_TYPE_PREFERRED \<noteq> 0 then WL_OUTPUT_MODE_PREFERRED else 0) OR
     (if cr_mode_valid c \<and> m = cr_mode c then WL_OUTPUT_MODE_CURRENT else 0)"

definition query_mode :: "drm_env \<Rightarrow> drm_crtc \<Rightarrow> drm_mode \<Rightarrow> drm_output_information \<Rightarrow> drm_output_information" where
  "query_mode D c m i =
     (let i = (if mi_type m AND DRM_MODE_TYPE_PREFERRED \<noteq> 0 \<and> no_size i then take_mode m i else i);
          i = (if cr_mode_valid c \<and> m = cr_mode c then take_mode m i else i);
          mode = \<lparr>md_refresh = i32_of_u32 (mi_vrefresh m * 1000), md_width = uint (mi_hdisplay m), md_height = uint (mi_vdisplay m),
                  md_flags = mode_flags c m\<rparr>
      in i\<lparr>di_info := snd (wlc_output_information_add_mode (dk_modes D) (di_info i) mode)\<rparr>)"

text \<open>Without a preferred and a current mode the first one is preferred.\<close>

definition query_default :: "drm_connector \<Rightarrow> drm_output_information \<Rightarrow> drm_output_information option" where
  "query_default co i =
     (if no_size i \<and> co_modes co \<noteq> [] then
        (case in_modes (di_info i) of
           [] \<Rightarrow> None
         | m # ms \<Rightarrow> Some (i\<lparr>di_info := (di_info i)\<lparr>in_modes := m\<lparr>md_flags := md_flags m OR WL_OUTPUT_MODE_PREFERRED\<rparr> # ms\<rparr>,
                           di_width := word_of_int (md_width m), di_height := word_of_int (md_height m), di_mode := hd (co_modes co)\<rparr>))
      else Some i)"

definition information_for :: "drm_env \<Rightarrow> drm_connector \<Rightarrow> drm_encoder \<Rightarrow> drm_crtc \<Rightarrow> drm_output_information option" where
  "information_for D co e c =
     query_default co (fold (query_mode D c) (co_modes co)
       \<lparr>di_connector = co, di_encoder = e, di_crtc = c, di_mode = \<lparr>mi_hdisplay = 0, mi_vdisplay = 0, mi_vrefresh = 0, mi_type = 0, mi_rest = 0\<rparr>,
        di_info = information_zero\<lparr>in_make := Some ''drm'', in_model := Some ''unknown'', in_physical_width := i32_of_u32 (co_mm_width co),
          in_physical_height := i32_of_u32 (co_mm_height co), in_subpixel := i32_of_u32 (co_subpixel co), in_connector_id := co_type_id co,
          in_crtc_id := cr_crtc_id c, in_connector := wlc_connector_for_drm_connector D (co_type co)\<rparr>,
        di_width = 0, di_height = 0\<rparr>)"

text \<open>The loop over the connectors, with the infos found and the crtcs used so far. A pool that cannot grow skips the
  connector.\<close>

fun query_connectors ::
  "drm_env \<Rightarrow> drm_card \<Rightarrow> drm_connector option list \<Rightarrow> drm_output_information list \<Rightarrow> u32 list \<Rightarrow> gpu \<Rightarrow> drm_output_information list \<times> gpu" where
  "query_connectors D C [] infos used s = (infos, s)"
| "query_connectors D C (co # cs) infos used s =
     (case co of
        None \<Rightarrow> query_connectors D C cs infos used s
      | Some co \<Rightarrow>
          if \<not> co_connected co \<or> co_modes co = [] then query_connectors D C cs infos used (dlog (FreeConnector (co_connector_id co)) s)
          else
            (case find_encoder_for_connector C co of
               None \<Rightarrow> query_connectors D C cs infos used (dlog (FreeConnector (co_connector_id co)) s)
             | Some e \<Rightarrow>
                 (case find_crtc_for_encoder C e used of
                    None \<Rightarrow> query_connectors D C cs infos used
                             (dlog (FreeConnector (co_connector_id co)) (dlog (FreeEncoder (en_encoder_id e)) s))
                  | Some c \<Rightarrow>
                      (case information_for D co e c of
                         None \<Rightarrow> query_connectors D C cs infos used (dfail Null_pointer s)
                       | Some i \<Rightarrow>
                           (case push_back (dk_infos D) infos i of
                              None \<Rightarrow> query_connectors D C cs infos used
                                       (dlog (FreeConnector (co_connector_id co)) (dlog (FreeEncoder (en_encoder_id e))
                                         (dlog (FreeCrtc (cr_crtc_id c)) s)))
                            | Some infos \<Rightarrow> query_connectors D C cs infos (used @ [cr_crtc_id c]) s)))))"

text \<open>A failure forgets the state of the back end, the descriptor of the card included.\<close>

definition query_drm :: "drm_env \<Rightarrow> gpu \<Rightarrow> drm_output_information list option \<times> gpu" where
  "query_drm D s =
     (case dk_card D (gp_calls s) of
        None \<Rightarrow> (None, s\<lparr>gp_drm := drm_zero\<rparr>)
      | Some C \<Rightarrow>
          if \<not> dk_malloc D then (None, s\<lparr>gp_drm := drm_zero\<rparr>)
          else let (infos, s) = query_connectors D C (cd_connectors C) [] [] s in (Some infos, s))"

definition drm_terminate :: "gpu \<Rightarrow> gpu" where
  "drm_terminate s =
     (let m = gp_drm s;
          s = (if dm_event_source m \<noteq> 0 then dlog (EventSourceRemove (dm_event_source m)) s else s);
          s = (if \<not> dm_use_egldevice m \<and> dm_device m \<noteq> 0 then dlog (GbmDeviceDestroy (dm_device m)) s else s)
      in (dlog (FdClose (dm_fd m)) s)\<lparr>gp_drm := drm_zero\<rparr>)"

text \<open>The pool of outputs is read from the world, as it is when the loop runs.\<close>

definition connector_of :: "gpu \<Rightarrow> nat \<Rightarrow> u32 option" where
  "connector_of s oid =
     (if gp_internal s oid = 0 then None
      else map_option (\<lambda>d. co_connector_id (dr_connector d)) (gp_surface s (gp_internal s oid)))"

definition output_exists_for_connector :: "gpu \<Rightarrow> drm_connector \<Rightarrow> bool" where
  "output_exists_for_connector s co \<longleftrightarrow> (\<exists>oid\<in>set (c_outputs (w_comp (gp_world s))). connector_of s oid = Some (co_connector_id co))"

definition info_exists_for_drm_surface :: "drm_output_information list \<Rightarrow> u32 \<Rightarrow> bool" where
  "info_exists_for_drm_surface infos cid \<longleftrightarrow> (\<exists>i\<in>set infos. co_connector_id (di_connector i) = cid)"

definition drop_outputs :: "drm_env \<Rightarrow> drm_output_information list \<Rightarrow> gpu \<Rightarrow> gpu" where
  "drop_outputs D infos s =
     fold (\<lambda>oid s. case connector_of s oid of
         None \<Rightarrow> s
       | Some cid \<Rightarrow> if info_exists_for_drm_surface infos cid then s else dx_terminate_output D oid s)
       (c_outputs (w_comp (gp_world s))) s"

definition add_info :: "drm_env \<Rightarrow> bool \<Rightarrow> drm_output_information \<Rightarrow> gpu \<Rightarrow> nat \<times> gpu" where
  "add_info D outputs i s =
     (if outputs \<and> output_exists_for_connector s (di_connector i) then (0, s)
      else
        let (ok, s) = (if dm_use_egldevice (gp_drm s) then set_crtc_default_mode D i s else (True, s)) in
        if \<not> ok then (0, s)
        else
          let (g, s) = (if \<not> dm_use_egldevice (gp_drm s)
                        then dptr D (GbmSurfaceCreate (dm_device (gp_drm s)) (di_width i) (di_height i)) s else (0, s))
          in
          if \<not> dm_use_egldevice (gp_drm s) \<and> g = 0 then (0, s)
          else let (ok, s) = add_drm_output D (dm_device (gp_drm s)) g i s in (of_bool ok, s))"

fun add_infos :: "drm_env \<Rightarrow> bool \<Rightarrow> drm_output_information list \<Rightarrow> gpu \<Rightarrow> nat \<times> gpu" where
  "add_infos D outputs [] s = (0, s)"
| "add_infos D outputs (i # is) s =
     (let (n, s) = add_info D outputs i s; (k, s) = add_infos D outputs is s in (n + k, s))"

definition drm_update_outputs :: "drm_env \<Rightarrow> bool \<Rightarrow> gpu \<Rightarrow> nat \<times> gpu" where
  "drm_update_outputs D outputs s =
     (case query_drm D s of
        (None, s) \<Rightarrow> (0, s)
      | (Some infos, s) \<Rightarrow>
          let s = (if outputs then drop_outputs D infos s else s) in add_infos D outputs infos s)"

section \<open>Start\<close>

definition use_egldevice :: "drm_env \<Rightarrow> bool" where
  "use_egldevice D =
     (case dk_getenv D ''WLC_BUFFER_API'' of
        Some (c # cs) \<Rightarrow> c # cs = ''EGL''
      | _ \<Rightarrow> dk_version_name D = Some ''nvidia-drm'')"

definition wlc_drm :: "drm_env \<Rightarrow> gpu \<Rightarrow> bool \<times> gpu" where
  "wlc_drm D s =
     (let device = (case dk_getenv D ''WLC_DRM_DEVICE'' of Some (c # cs) \<Rightarrow> c # cs | _ \<Rightarrow> ''card0'');
          (fd, s) = dcall D (OpenCard (''/dev/dri/'' @ device)) s;
          s = s\<lparr>gp_drm := (gp_drm s)\<lparr>dm_fd := fd\<rparr>\<rparr>
      in
      if fd < 0 then (False, drm_terminate s)
      else
        let s = s\<lparr>gp_drm := (gp_drm s)\<lparr>dm_use_egldevice := use_egldevice D\<rparr>\<rparr>;
            (dev, s) = (if \<not> use_egldevice D then dptr D (GbmCreateDevice fd) s else get_egl_device (dk_egl D) s);
            s = s\<lparr>gp_drm := (gp_drm s)\<lparr>dm_device := dev\<rparr>\<rparr>
        in
        if dev = 0 then (False, drm_terminate s)
        else
          let (src, s) = dptr D (EventSourceAdd fd) s;
              s = s\<lparr>gp_drm := (gp_drm s)\<lparr>dm_event_source := src\<rparr>\<rparr>
          in if src = 0 then (False, drm_terminate s) else (True, s))"

end
