(* ===== verification/Scanout.thy ===== *)
theory Scanout
  imports Drm Clock
begin

text \<open>
  What holds of the back end on bare hardware: the framebuffers and buffers it holds are those in its two slots, a
  surface that is released during its own page flip, what a release forgets, and which crtcs outputs get.
\<close>

section \<open>What the kernel holds\<close>

text \<open>The framebuffers that have been added and not removed, and the buffers of a gbm surface that are locked, by the
  history of calls.\<close>

fun fbs_of :: "drm_env \<Rightarrow> drm_call list \<Rightarrow> u32 set" where
  "fbs_of D [] = {}"
| "fbs_of D (c # h) =
     (case c of
        AddFB x y st n \<Rightarrow> if dk_ret D h c = 0 then insert (dk_id D h c) (fbs_of D h) else fbs_of D h
      | RmFB f \<Rightarrow> fbs_of D h - {f}
      | _ \<Rightarrow> fbs_of D h)"

fun bos_of :: "drm_env \<Rightarrow> nat \<Rightarrow> drm_call list \<Rightarrow> nat set" where
  "bos_of D g [] = {}"
| "bos_of D g (c # h) =
     (case c of
        GbmLockFrontBuffer g' \<Rightarrow> if g' = g \<and> dk_ptr D h c \<noteq> 0 then insert (dk_ptr D h c) (bos_of D g h) else bos_of D g h
      | GbmReleaseBuffer g' b \<Rightarrow> if g' = g then bos_of D g h - {b} else bos_of D g h
      | _ \<Rightarrow> bos_of D g h)"

text \<open>Numbers are handed out only while they are free, and never 0.\<close>

definition fresh_numbers :: "drm_env \<Rightarrow> bool" where
  "fresh_numbers D \<longleftrightarrow>
     (\<forall>h x y st n. dk_ret D h (AddFB x y st n) = 0 \<longrightarrow> dk_id D h (AddFB x y st n) \<notin> insert 0 (fbs_of D h)) \<and>
     (\<forall>h g. dk_ptr D h (GbmLockFrontBuffer g) \<notin> bos_of D g h)"

definition quiet_flip :: "drm_env \<Rightarrow> bool" where
  "quiet_flip D \<longleftrightarrow> (\<forall>oid sec nsec s. let s' = dx_finish_frame D oid sec nsec s in
     gp_surface s' = gp_surface s \<and> gp_internal s' = gp_internal s \<and> gp_calls s' = gp_calls s \<and> gp_drm s' = gp_drm s)"

text \<open>The surface at \<open>a\<close> of output \<open>oid\<close> holds what is in its slots, and nothing else beside \<open>F\<close>, \<open>B\<close>.\<close>

definition slots_ok :: "drm_env \<Rightarrow> nat \<Rightarrow> nat \<Rightarrow> u32 set \<Rightarrow> nat set \<Rightarrow> drm_surface \<Rightarrow> drm_call list \<Rightarrow> bool" where
  "slots_ok D a g F B d h \<longleftrightarrow>
     dr_gbm_surface d = g \<and> dr_index d < 2 \<and> (\<not> dr_flipping d \<longrightarrow> fb_fd (dr_fb d (dr_index d)) = 0 \<and> fb_bo (dr_fb d (dr_index d)) = 0) \<and>
     fbs_of D h = F \<union> ({fb_fd (dr_fb d 0), fb_fd (dr_fb d 1)} - {0}) \<and> fb_fd (dr_fb d 0) \<notin> F - {0} \<and> fb_fd (dr_fb d 1) \<notin> F - {0} \<and>
     (fb_fd (dr_fb d 0) = fb_fd (dr_fb d 1) \<longrightarrow> fb_fd (dr_fb d 0) = 0) \<and>
     bos_of D g h = B \<union> ({fb_bo (dr_fb d 0), fb_bo (dr_fb d 1)} - {0}) \<and> fb_bo (dr_fb d 0) \<notin> B - {0} \<and> fb_bo (dr_fb d 1) \<notin> B - {0} \<and>
     (fb_bo (dr_fb d 0) = fb_bo (dr_fb d 1) \<longrightarrow> fb_bo (dr_fb d 0) = 0)"

definition scan_ok :: "drm_env \<Rightarrow> nat \<Rightarrow> nat \<Rightarrow> nat \<Rightarrow> u32 set \<Rightarrow> nat set \<Rightarrow> gpu \<Rightarrow> bool" where
  "scan_ok D oid a g F B s \<longleftrightarrow> gp_internal s oid = a \<and> \<not> dm_use_egldevice (gp_drm s) \<and> g \<noteq> 0 \<and>
     (\<exists>d. gp_surface s a = Some d \<and> slots_ok D a g F B d (gp_calls s))"

section \<open>Each operation\<close>

lemma gpu_basic [simp]:
  "gp_surface (dlog c s) = gp_surface s" "gp_internal (dlog c s) = gp_internal s" "gp_drm (dlog c s) = gp_drm s"
  "gp_world (dlog c s) = gp_world s"
  "gp_calls (dlog c s) = c # gp_calls s" "gp_surface (dfail f s) = gp_surface s" "gp_internal (dfail f s) = gp_internal s"
  "gp_drm (dfail f s) = gp_drm s" "gp_calls (dfail f s) = gp_calls s" "gp_world (dfail f s) = gp_world s"
  "dcall D c s = (dk_ret D (gp_calls s) c, dlog c s)" "dptr D c s = (dk_ptr D (gp_calls s) c, dlog c s)"
  by (simp_all add: dlog_def dfail_def dcall_def dptr_def)

lemma upd_drm_Some [simp]:
  "gp_surface s a = Some d \<Longrightarrow> upd_drm a f s = s\<lparr>gp_surface := (gp_surface s)(a \<mapsto> f d)\<rparr>"
  by (simp add: upd_drm_def)

lemma release_empty:
  "gp_surface s a = Some d \<Longrightarrow> fb_fd (dr_fb d i) = 0 \<Longrightarrow> fb_bo (dr_fb d i) = 0 \<Longrightarrow> release_fb a i s = s"
  by (simp add: release_fb_def upd_fb_def) (simp add: fun_upd_idem)

text \<open>The slot in use is filled from empty, or is empty again.\<close>

definition empty_slot :: "drm_surface \<Rightarrow> nat \<Rightarrow> bool" where
  "empty_slot d i \<longleftrightarrow> fb_fd (dr_fb d i) = 0 \<and> fb_bo (dr_fb d i) = 0"

definition fill :: "nat \<Rightarrow> drm_fb \<Rightarrow> drm_surface \<Rightarrow> drm_surface" where
  "fill i fb d = d\<lparr>dr_fb := (dr_fb d)(i := fb)\<rparr>"

text \<open>\<open>filled D g i d s d' s'\<close>: slot \<open>i\<close> of \<open>d\<close> holds a new framebuffer of a new buffer.\<close>

definition filled :: "drm_env \<Rightarrow> nat \<Rightarrow> nat \<Rightarrow> drm_surface \<Rightarrow> gpu \<Rightarrow> drm_surface \<Rightarrow> gpu \<Rightarrow> bool" where
  "filled D a i d s d' s' \<longleftrightarrow>
     gp_surface s' = (gp_surface s)(a \<mapsto> d') \<and> gp_internal s' = gp_internal s \<and> gp_drm s' = gp_drm s \<and>
     (\<exists>fb st. d' = (fill i fb d)\<lparr>dr_stride := st\<rparr> \<and> fb_fd fb \<notin> insert 0 (fbs_of D (gp_calls s)) \<and>
       fb_bo fb \<notin> insert 0 (bos_of D (dr_gbm_surface d) (gp_calls s)) \<and>
       fbs_of D (gp_calls s') = insert (fb_fd fb) (fbs_of D (gp_calls s)) \<and>
       bos_of D (dr_gbm_surface d) (gp_calls s') = insert (fb_bo fb) (bos_of D (dr_gbm_surface d) (gp_calls s)))"

definition emptied :: "drm_env \<Rightarrow> nat \<Rightarrow> nat \<Rightarrow> drm_surface \<Rightarrow> gpu \<Rightarrow> gpu \<Rightarrow> bool" where
  "emptied D a i d s s' \<longleftrightarrow> gp_internal s' = gp_internal s \<and> gp_drm s' = gp_drm s \<and>
     fbs_of D (gp_calls s') = fbs_of D (gp_calls s) \<and>
     bos_of D (dr_gbm_surface d) (gp_calls s') = bos_of D (dr_gbm_surface d) (gp_calls s) \<and>
     (\<exists>st st'. gp_surface s' = (gp_surface s)(a \<mapsto> (fill i \<lparr>fb_bo = 0, fb_fd = 0, fb_stride = st\<rparr> d)\<lparr>dr_stride := st'\<rparr>))"

lemma fill_simps [simp]:
  "dr_gbm_surface (fill i fb d) = dr_gbm_surface d" "dr_index (fill i fb d) = dr_index d" "dr_flipping (fill i fb d) = dr_flipping d"
  "dr_stride (fill i fb d) = dr_stride d" "dr_connector (fill i fb d) = dr_connector d" "dr_crtc (fill i fb d) = dr_crtc d"
  "dr_fb (fill i fb d) = (dr_fb d)(i := fb)"
  "fill i fb (fill i fb' d) = fill i fb d" "fill i fb (d\<lparr>dr_stride := st\<rparr>) = (fill i fb d)\<lparr>dr_stride := st\<rparr>"
  "(fill i fb d)\<lparr>dr_fb := g\<rparr> = d\<lparr>dr_fb := g\<rparr>"
  by (simp_all add: fill_def)

lemma fill_stride [simp]: "(fill i fb d)\<lparr>dr_stride := dr_stride d\<rparr> = fill i fb d"
  by (simp add: fill_def)

lemma upd_fb_Some [simp]:
  "gp_surface s a = Some d \<Longrightarrow> upd_fb a i f s = s\<lparr>gp_surface := (gp_surface s)(a \<mapsto> fill i (f (dr_fb d i)) d)\<rparr>"
  by (simp add: upd_fb_def fill_def)

lemma fb_zeroed: "fb\<lparr>fb_bo := 0, fb_fd := 0\<rparr> = \<lparr>fb_bo = 0, fb_fd = 0, fb_stride = fb_stride (fb :: drm_fb)\<rparr>"
  by simp

lemma fb_written: "fb\<lparr>fb_bo := b, fb_fd := f, fb_stride := st\<rparr> = \<lparr>fb_bo = b, fb_fd = f, fb_stride = st\<rparr>" for fb :: drm_fb
  by simp

lemma release_new:
  assumes "filled D a i d s d' s'" and "dr_gbm_surface d \<noteq> 0"
  shows "emptied D a i d s (release_fb a i s')"
proof -
  obtain fb st where d': "d' = (fill i fb d)\<lparr>dr_stride := st\<rparr>" "fb_fd fb \<notin> insert 0 (fbs_of D (gp_calls s))"
    "fb_bo fb \<notin> insert 0 (bos_of D (dr_gbm_surface d) (gp_calls s))"
    "fbs_of D (gp_calls s') = insert (fb_fd fb) (fbs_of D (gp_calls s))"
    "bos_of D (dr_gbm_surface d) (gp_calls s') = insert (fb_bo fb) (bos_of D (dr_gbm_surface d) (gp_calls s))"
    "gp_surface s' = (gp_surface s)(a \<mapsto> d')" "gp_internal s' = gp_internal s" "gp_drm s' = gp_drm s"
    using assms(1) by (auto simp: filled_def)
  have "0 < fb_fd fb" using d'(2) by (simp add: word_gt_0)
  then have r: "release_fb a i s' = (dlog (GbmReleaseBuffer (dr_gbm_surface d) (fb_bo fb)) (dlog (RmFB (fb_fd fb)) s'))
      \<lparr>gp_surface := (gp_surface s)(a \<mapsto> (fill i (fb\<lparr>fb_bo := 0, fb_fd := 0\<rparr>) d)\<lparr>dr_stride := st\<rparr>)\<rparr>"
    using d' assms(2) by (simp add: release_fb_def)
  show ?thesis
    unfolding emptied_def r using d'
    by (intro conjI exI [where x = "fb_stride fb"] exI [where x = st]) (auto simp: fb_zeroed)
qed

lemma release_slot:
  assumes "gp_surface s a = Some (fill i fb d)" and "dr_gbm_surface d \<noteq> 0" and "fb_fd fb = 0"
  shows "release_fb a i s = (if fb_bo fb \<noteq> 0 then dlog (GbmReleaseBuffer (dr_gbm_surface d) (fb_bo fb)) s else s)
     \<lparr>gp_surface := (gp_surface s)(a \<mapsto> fill i \<lparr>fb_bo = 0, fb_fd = 0, fb_stride = fb_stride fb\<rparr> d)\<rparr>"
  using assms by (simp add: release_fb_def fb_zeroed)

lemma emptied_slot:
  assumes "gp_surface s' = (gp_surface s)(a \<mapsto> fill i \<lparr>fb_bo = 0, fb_fd = 0, fb_stride = st\<rparr> d)"
    and "gp_internal s' = gp_internal s" "gp_drm s' = gp_drm s" "fbs_of D (gp_calls s') = fbs_of D (gp_calls s)"
    and "bos_of D (dr_gbm_surface d) (gp_calls s') = bos_of D (dr_gbm_surface d) (gp_calls s)"
  shows "emptied D a i d s s'"
  using assms unfolding emptied_def by (metis (no_types, lifting) drm_surface.surjective drm_surface.update_convs(7) fill_simps(4))

lemma create_gbm_fb_cases:
  assumes "fresh_numbers D" and "gp_surface s a = Some d" and "empty_slot d i" and "dr_gbm_surface d \<noteq> 0"
  shows "case create_gbm_fb D a i s of (ok, s') \<Rightarrow>
     if ok then \<exists>d'. filled D a i d s d' s' \<and> dr_stride d' = dr_stride d else emptied D a i d s s'"
proof -
  let ?g = "dr_gbm_surface d" and ?st = "fb_stride (dr_fb d i)"
  have self: "fill i (dr_fb d i) d = d" by (simp add: fill_def)
  define u where "u = dlog (GbmHasFreeBuffers ?g) s"
  have u: "gp_surface u a = Some (fill i (dr_fb d i) d)" "fb_fd (dr_fb d i) = 0" "fb_bo (dr_fb d i) = 0"
    using assms(2,3) self by (simp_all add: u_def empty_slot_def)
  define bo where "bo = dk_ptr D (gp_calls u) (GbmLockFrontBuffer ?g)"
  define v where "v = (dlog (GbmLockFrontBuffer ?g) u)\<lparr>gp_surface := (gp_surface u)(a \<mapsto> fill i ((dr_fb d i)\<lparr>fb_bo := bo\<rparr>) d)\<rparr>"
  define c where "c = AddFB (bo_width (dk_bo D bo)) (bo_height (dk_bo D bo)) (bo_stride (dk_bo D bo)) (bo_handle (dk_bo D bo))"
  define w where "w = dlog c v"
  have v: "gp_surface v a = Some (fill i ((dr_fb d i)\<lparr>fb_bo := bo\<rparr>) d)" "gp_calls v = GbmLockFrontBuffer ?g # GbmHasFreeBuffers ?g # gp_calls s"
    "gp_internal v = gp_internal s" "gp_drm v = gp_drm s" "gp_surface v = (gp_surface s)(a \<mapsto> fill i ((dr_fb d i)\<lparr>fb_bo := bo\<rparr>) d)"
    by (simp_all add: v_def u_def)
  have run: "create_gbm_fb D a i s =
      (if dk_ret D (gp_calls s) (GbmHasFreeBuffers ?g) = 0 then (False, release_fb a i u)
       else if bo = 0 then (False, release_fb a i v)
       else if dk_ret D (gp_calls v) c \<noteq> 0 then (False, release_fb a i w)
       else (True, upd_fb a i (\<lambda>fb. fb\<lparr>fb_fd := dk_id D (gp_calls v) c, fb_stride := bo_stride (dk_bo D bo)\<rparr>) w))"
    using assms(2) u self
    by (simp add: create_gbm_fb_def Let_def u_def [symmetric] bo_def [symmetric] v_def w_def c_def)
  show ?thesis
  proof (cases "dk_ret D (gp_calls s) (GbmHasFreeBuffers ?g) = 0 \<or> bo = 0 \<or> dk_ret D (gp_calls v) c \<noteq> 0")
    case True
    then have "create_gbm_fb D a i s = (False, snd (create_gbm_fb D a i s))" using run by auto
    moreover have "emptied D a i d s (snd (create_gbm_fb D a i s))"
    proof -
      have 1: "emptied D a i d s (release_fb a i u)"
        unfolding release_slot [OF u(1) assms(4) u(2)] by (rule emptied_slot) (use u(3) in \<open>simp_all add: u_def\<close>)
      have 2: "emptied D a i d s (release_fb a i v)" if "bo = 0"
        unfolding release_slot [OF v(1) assms(4), simplified, OF u(2)]
        by (rule emptied_slot) (use that v in \<open>simp_all add: bo_def u_def\<close>)
      have 3: "emptied D a i d s (release_fb a i w)" if "bo \<noteq> 0" "dk_ret D (gp_calls v) c \<noteq> 0"
      proof -
        have "bo \<notin> bos_of D ?g (gp_calls u)" using assms(1) by (simp add: fresh_numbers_def bo_def)
        moreover have "gp_surface w a = Some (fill i ((dr_fb d i)\<lparr>fb_bo := bo\<rparr>) d)" using v(1) by (simp add: w_def)
        ultimately show ?thesis
          unfolding release_slot [OF \<open>gp_surface w a = Some (fill i ((dr_fb d i)\<lparr>fb_bo := bo\<rparr>) d)\<close> assms(4), simplified, OF u(2)]
          by (intro emptied_slot) (use that v in \<open>simp_all add: w_def c_def bo_def u_def\<close>)
      qed
      show ?thesis using True run 1 2 3 by auto
    qed
    ultimately show ?thesis by (cases "create_gbm_fb D a i s") simp
  next
    case False
    define fb where "fb = \<lparr>fb_bo = bo, fb_fd = dk_id D (gp_calls v) c, fb_stride = bo_stride (dk_bo D bo)\<rparr>"
    define x where "x = w\<lparr>gp_surface := (gp_surface s)(a \<mapsto> fill i fb d)\<rparr>"
    have "create_gbm_fb D a i s = (True, x)" using False run v(1,5) by (simp add: x_def fb_def w_def fb_written)
    moreover have "fb_fd fb \<notin> insert 0 (fbs_of D (gp_calls v))"
      using assms(1) False by (simp add: fb_def fresh_numbers_def c_def)
    moreover have "fb_bo fb \<notin> insert 0 (bos_of D ?g (gp_calls s))"
    proof -
      have "bo \<notin> bos_of D ?g (gp_calls u)" using assms(1) unfolding fresh_numbers_def bo_def by blast
      then show ?thesis using False by (simp add: fb_def u_def)
    qed
    moreover have "fbs_of D (gp_calls x) = insert (fb_fd fb) (fbs_of D (gp_calls s))" "fbs_of D (gp_calls v) = fbs_of D (gp_calls s)"
      using False v(2) by (simp_all add: x_def w_def fb_def c_def)
    moreover have "bos_of D ?g (gp_calls x) = insert (fb_bo fb) (bos_of D ?g (gp_calls s))"
      using False v(2) by (simp add: x_def w_def fb_def c_def bo_def u_def)
    moreover have "gp_surface x = (gp_surface s)(a \<mapsto> (fill i fb d)\<lparr>dr_stride := dr_stride d\<rparr>)" "gp_internal x = gp_internal s" "gp_drm x = gp_drm s"
      using v(3,4) by (simp_all add: x_def w_def)
    ultimately have "filled D a i d s ((fill i fb d)\<lparr>dr_stride := dr_stride d\<rparr>) x"
      unfolding filled_def by (metis insert_iff)
    then show ?thesis using \<open>create_gbm_fb D a i s = (True, x)\<close> by auto
  qed
qed

lemma filledD:
  "filled D a i d s d' s' \<Longrightarrow> gp_surface s' a = Some d' \<and> dr_gbm_surface d' = dr_gbm_surface d \<and> dr_crtc d' = dr_crtc d"
  by (auto simp: filled_def)

lemma filled_calls:
  assumes "filled D a i d s d' s'" "gp_surface s'' = (gp_surface s')(a \<mapsto> d'\<lparr>dr_stride := st\<rparr>)"
    "gp_internal s'' = gp_internal s'" "gp_drm s'' = gp_drm s'" "fbs_of D (gp_calls s'') = fbs_of D (gp_calls s')"
    "bos_of D (dr_gbm_surface d) (gp_calls s'') = bos_of D (dr_gbm_surface d) (gp_calls s')"
  shows "filled D a i d s (d'\<lparr>dr_stride := st\<rparr>) s''"
proof -
  obtain fb st' where d': "d' = (fill i fb d)\<lparr>dr_stride := st'\<rparr>" "fb_fd fb \<notin> insert 0 (fbs_of D (gp_calls s))"
    "fb_bo fb \<notin> insert 0 (bos_of D (dr_gbm_surface d) (gp_calls s))"
    "fbs_of D (gp_calls s') = insert (fb_fd fb) (fbs_of D (gp_calls s))"
    "bos_of D (dr_gbm_surface d) (gp_calls s') = insert (fb_bo fb) (bos_of D (dr_gbm_surface d) (gp_calls s))"
    "gp_surface s' = (gp_surface s)(a \<mapsto> d')" "gp_internal s' = gp_internal s" "gp_drm s' = gp_drm s"
    using assms(1) by (auto simp: filled_def)
  then have "d'\<lparr>dr_stride := st\<rparr> = (fill i fb d)\<lparr>dr_stride := st\<rparr>" by simp
  then show ?thesis unfolding filled_def using assms(2-6) d'(2-8) by (intro conjI exI [where x = fb] exI [where x = st]) simp_all
qed

lemma set_mode_filled:
  assumes "filled D a i d s d' s'"
  shows "\<exists>d''. filled D a i d s d'' (snd (set_mode D oid a i s'))"
proof -
  have d': "gp_surface s' a = Some d'" "dr_gbm_surface d' = dr_gbm_surface d" using filledD [OF assms] by auto
  have same: "filled D a i d s d' u" if "gp_surface u = gp_surface s'" "gp_internal u = gp_internal s'" "gp_drm u = gp_drm s'"
    "fbs_of D (gp_calls u) = fbs_of D (gp_calls s')" "bos_of D (dr_gbm_surface d) (gp_calls u) = bos_of D (dr_gbm_surface d) (gp_calls s')" for u
    using filled_calls [OF assms, of u "dr_stride d'"] that d' by (simp add: fun_upd_idem)
  have new: "filled D a i d s (d'\<lparr>dr_stride := st\<rparr>) u" if "gp_surface u = (gp_surface s')(a \<mapsto> d'\<lparr>dr_stride := st\<rparr>)"
    "gp_internal u = gp_internal s'" "gp_drm u = gp_drm s'"
    "fbs_of D (gp_calls u) = fbs_of D (gp_calls s')" "bos_of D (dr_gbm_surface d) (gp_calls u) = bos_of D (dr_gbm_surface d) (gp_calls s')" for u st
    using filled_calls [OF assms, of u st] that by simp
  let ?m = "unat (o_field o_active_mode 0 oid (gp_world s'))"
  define c where "c = SetCrtc (cr_crtc_id (dr_crtc d')) (fb_fd (dr_fb d' i)) (Some (co_connector_id (dr_connector d')))
    (Some (co_modes (dr_connector d') ! ?m))"
  define u where "u = (if ?m < length (co_modes (dr_connector d')) then s' else dfail Wild_pointer s')"
  have u: "gp_surface u = gp_surface s'" "gp_internal u = gp_internal s'" "gp_drm u = gp_drm s'" "gp_calls u = gp_calls s'"
    by (simp_all add: u_def)
  have run: "snd (set_mode D oid a i s') = (if fb_stride (dr_fb d' i) = dr_stride d' then s'
      else if dk_ret D (gp_calls u) c \<noteq> 0 then dlog c u
      else (dlog (SetCursor (cr_crtc_id (dr_crtc d'))) (dlog c u))\<lparr>gp_surface := (gp_surface s')(a \<mapsto> d'\<lparr>dr_stride := fb_stride (dr_fb d' i)\<rparr>)\<rparr>)"
    using d'(1) u by (simp add: set_mode_def Let_def u_def [symmetric] c_def [symmetric])
  have "filled D a i d s d' s'" "filled D a i d s d' (dlog c u)"
    "filled D a i d s (d'\<lparr>dr_stride := fb_stride (dr_fb d' i)\<rparr>) ((dlog (SetCursor (cr_crtc_id (dr_crtc d'))) (dlog c u))
      \<lparr>gp_surface := (gp_surface s')(a \<mapsto> d'\<lparr>dr_stride := fb_stride (dr_fb d' i)\<rparr>)\<rparr>)"
    using assms by (auto intro!: same new simp: u c_def)
  then show ?thesis unfolding run by auto
qed

lemma page_flip_cases:
  assumes "fresh_numbers D" and "gp_internal s oid = a" and "gp_surface s a = Some d" and "dr_gbm_surface d \<noteq> 0"
    and "\<not> dr_flipping d" and "empty_slot d (dr_index d)"
  shows "case page_flip D oid s of (ok, s') \<Rightarrow>
     if ok then \<exists>d' u. filled D a (dr_index d) d s d' u \<and> s' = u\<lparr>gp_surface := (gp_surface u)(a \<mapsto> d'\<lparr>dr_flipping := True\<rparr>)\<rparr>
     else emptied D a (dr_index d) d s s'"
proof -
  let ?i = "dr_index d"
  have start: "release_fb a ?i s = s" using release_empty assms(3,6) by (simp add: empty_slot_def)
  obtain ok u where u: "create_gbm_fb D a ?i s = (ok, u)" by fastforce
  show ?thesis
  proof (cases ok)
    case False
    then show ?thesis
      using create_gbm_fb_cases [OF assms(1,3,6,4)] assms(2,3,5) u start by (simp add: page_flip_def Let_def)
  next
    case True
    then obtain d1 where d1: "filled D a ?i d s d1 u" using create_gbm_fb_cases [OF assms(1,3,6,4)] u by auto
    obtain ok2 v where v: "set_mode D oid a ?i u = (ok2, v)" by fastforce
    then obtain d2 where d2: "filled D a ?i d s d2 v" using set_mode_filled [OF d1, of oid] by auto
    then have "gp_surface v a = Some d2" by (rule filledD [THEN conjunct1])
    define c where "c = PageFlip (cr_crtc_id (dr_crtc d)) (fb_fd (dr_fb d2 ?i)) oid"
    have d3: "filled D a ?i d s d2 (dlog c v)"
      using filled_calls [OF d2, of "dlog c v" "dr_stride d2"] \<open>gp_surface v a = Some d2\<close> by (simp add: c_def fun_upd_idem)
    have "page_flip D oid s = (if \<not> ok2 then (False, release_fb a ?i v)
        else if dk_ret D (gp_calls v) c \<noteq> 0 then (False, release_fb a ?i (dlog c v))
        else (True, (dlog c v)\<lparr>gp_surface := (gp_surface (dlog c v))(a \<mapsto> d2\<lparr>dr_flipping := True\<rparr>)\<rparr>))"
      using assms(2,3,5) u v True start \<open>gp_surface v a = Some d2\<close> by (simp add: page_flip_def Let_def c_def)
    then show ?thesis using release_new [OF d2 assms(4)] release_new [OF d3 assms(4)] d3
      by (auto intro!: exI [where x = d2] exI [where x = "dlog c v"])
  qed
qed

lemma release_held:
  assumes "gp_surface s a = Some d" and "dr_gbm_surface d \<noteq> 0"
  shows "gp_surface (release_fb a i s) = (gp_surface s)(a \<mapsto> fill i \<lparr>fb_bo = 0, fb_fd = 0, fb_stride = fb_stride (dr_fb d i)\<rparr> d)"
    "gp_internal (release_fb a i s) = gp_internal s" "gp_drm (release_fb a i s) = gp_drm s"
    "fbs_of D (gp_calls (release_fb a i s)) = fbs_of D (gp_calls s) - ({fb_fd (dr_fb d i)} - {0})"
    "bos_of D (dr_gbm_surface d) (gp_calls (release_fb a i s)) = bos_of D (dr_gbm_surface d) (gp_calls s) - ({fb_bo (dr_fb d i)} - {0})"
  using assms by (auto simp: release_fb_def Let_def fb_zeroed word_gt_0)

section \<open>Runs\<close>

text \<open>What happens to the surface of an output: page flips when none is on its way, the events that report them, sleep and
  gamma.\<close>

inductive scan_step :: "drm_env \<Rightarrow> nat \<Rightarrow> gpu \<Rightarrow> gpu \<Rightarrow> bool" for D oid where
  flip: "gp_surface s (gp_internal s oid) = Some d \<Longrightarrow> \<not> dr_flipping d \<Longrightarrow> scan_step D oid s (snd (page_flip D oid s))"
| flipped: "gp_surface s (gp_internal s oid) = Some d \<Longrightarrow> dr_flipping d \<Longrightarrow> scan_step D oid s (page_flip_handler D oid sec usec s)"
| sleep: "scan_step D oid s (surface_sleep oid b s)"
| gamma: "scan_step D oid s (set_gamma oid sz s)"

lemma index_cases: "dr_index d < 2 \<Longrightarrow> dr_index d = 0 \<or> dr_index d = 1"
  by auto

lemma scan_ok_emptied:
  assumes "scan_ok D oid a g F B s" "gp_surface s a = Some d" "empty_slot d i" "emptied D a i d s s'"
  shows "scan_ok D oid a g F B s'"
proof -
  have ok: "slots_ok D a g F B d (gp_calls s)" and g: "dr_gbm_surface d = g"
    using assms(1,2) by (auto simp: scan_ok_def slots_ok_def)
  obtain st st' where s': "gp_surface s' = (gp_surface s)(a \<mapsto> (fill i \<lparr>fb_bo = 0, fb_fd = 0, fb_stride = st\<rparr> d)\<lparr>dr_stride := st'\<rparr>)"
    using assms(4) by (auto simp: emptied_def)
  let ?d = "(fill i \<lparr>fb_bo = 0, fb_fd = 0, fb_stride = st\<rparr> d)\<lparr>dr_stride := st'\<rparr>"
  have same: "fb_fd (dr_fb ?d j) = fb_fd (dr_fb d j)" "fb_bo (dr_fb ?d j) = fb_bo (dr_fb d j)" for j
    using assms(3) by (simp_all add: empty_slot_def)
  have "fbs_of D (gp_calls s') = fbs_of D (gp_calls s)" "bos_of D g (gp_calls s') = bos_of D g (gp_calls s)"
    "gp_internal s' = gp_internal s" "gp_drm s' = gp_drm s"
    using assms(4) g by (auto simp: emptied_def)
  moreover have "slots_ok D a g F B ?d (gp_calls s')"
    using ok calculation unfolding slots_ok_def same by simp
  ultimately show ?thesis using assms(1) s' by (simp add: scan_ok_def)
qed

lemma scan_ok_filled:
  assumes "scan_ok D oid a g F B s" "gp_surface s a = Some d" "empty_slot d (dr_index d)" "filled D a (dr_index d) d s d' u"
  shows "scan_ok D oid a g F B (u\<lparr>gp_surface := (gp_surface u)(a \<mapsto> d'\<lparr>dr_flipping := True\<rparr>)\<rparr>)"
proof -
  have ok: "slots_ok D a g F B d (gp_calls s)" and g: "dr_gbm_surface d = g"
    using assms(1,2) by (auto simp: scan_ok_def slots_ok_def)
  obtain fb st where d': "d' = (fill (dr_index d) fb d)\<lparr>dr_stride := st\<rparr>" "fb_fd fb \<notin> insert 0 (fbs_of D (gp_calls s))"
    "fb_bo fb \<notin> insert 0 (bos_of D g (gp_calls s))" "fbs_of D (gp_calls u) = insert (fb_fd fb) (fbs_of D (gp_calls s))"
    "bos_of D g (gp_calls u) = insert (fb_bo fb) (bos_of D g (gp_calls s))" "gp_internal u = gp_internal s" "gp_drm u = gp_drm s"
    using assms(4) g by (auto simp: filled_def)
  have "dr_index d = 0 \<or> dr_index d = 1" using ok index_cases [of d] by (simp add: slots_ok_def)
  then have "slots_ok D a g F B (d'\<lparr>dr_flipping := True\<rparr>) (gp_calls u)"
    using ok d' assms(3) by (elim disjE) (auto simp: slots_ok_def empty_slot_def)
  then show ?thesis using assms(1) d'(6,7) by (simp add: scan_ok_def)
qed

lemma held_drop:
  "x \<notin> F - {z} \<Longrightarrow> (x = y \<longrightarrow> x = z) \<Longrightarrow> F \<union> ({x, y} - {z}) - ({x} - {z}) = F \<union> ({z, y} - {z})"
  "y \<notin> F - {z} \<Longrightarrow> (x = y \<longrightarrow> x = z) \<Longrightarrow> F \<union> ({x, y} - {z}) - ({y} - {z}) = F \<union> ({x, z} - {z})"
  by auto

lemma slots_ok_next:
  assumes "slots_ok D a g F B d h" and n: "n = Suc (dr_index d) mod NUM_FBS"
    and "fbs_of D h' = fbs_of D h - ({fb_fd (dr_fb d n)} - {0})" and "bos_of D g h' = bos_of D g h - ({fb_bo (dr_fb d n)} - {0})"
  shows "slots_ok D a g F B ((fill n \<lparr>fb_bo = 0, fb_fd = 0, fb_stride = st\<rparr> d)\<lparr>dr_index := n, dr_flipping := False\<rparr>) h'"
proof -
  note ok = assms(1) [unfolded slots_ok_def]
  have f: "fbs_of D h = F \<union> ({fb_fd (dr_fb d 0), fb_fd (dr_fb d 1)} - {0})" "fb_fd (dr_fb d 0) \<notin> F - {0}" "fb_fd (dr_fb d 1) \<notin> F - {0}"
    "fb_fd (dr_fb d 0) = fb_fd (dr_fb d 1) \<longrightarrow> fb_fd (dr_fb d 0) = 0"
    and b: "bos_of D g h = B \<union> ({fb_bo (dr_fb d 0), fb_bo (dr_fb d 1)} - {0})" "fb_bo (dr_fb d 0) \<notin> B - {0}" "fb_bo (dr_fb d 1) \<notin> B - {0}"
    "fb_bo (dr_fb d 0) = fb_bo (dr_fb d 1) \<longrightarrow> fb_bo (dr_fb d 0) = 0"
    using ok by blast+
  have "dr_index d < 2" using ok by blast
  then have "dr_index d = 0 \<and> n = 1 \<or> dr_index d = 1 \<and> n = 0" using index_cases [of d] unfolding n by (auto simp: NUM_FBS_def)
  then show ?thesis
  proof (elim disjE conjE)
    assume i: "n = 1"
    have "fbs_of D h' = F \<union> ({fb_fd (dr_fb d 0), 0} - {0})" "bos_of D g h' = B \<union> ({fb_bo (dr_fb d 0), 0} - {0})"
      unfolding assms(3,4) i f(1) b(1) by (rule held_drop(2) [OF f(3,4)], rule held_drop(2) [OF b(3,4)])
    then show ?thesis using ok i by (simp add: slots_ok_def)
  next
    assume i: "n = 0"
    have "fbs_of D h' = F \<union> ({0, fb_fd (dr_fb d 1)} - {0})" "bos_of D g h' = B \<union> ({0, fb_bo (dr_fb d 1)} - {0})"
      unfolding assms(3,4) i f(1) b(1) by (rule held_drop(1) [OF f(2,4)], rule held_drop(1) [OF b(2,4)])
    then show ?thesis using ok i by (simp add: slots_ok_def)
  qed
qed

lemma scan_ok_handler:
  assumes "quiet_flip D" "scan_ok D oid a g F B s"
  shows "scan_ok D oid a g F B (page_flip_handler D oid sec usec s)"
proof -
  obtain d where d: "gp_internal s oid = a" "\<not> dm_use_egldevice (gp_drm s)" "g \<noteq> 0" "gp_surface s a = Some d"
    "slots_ok D a g F B d (gp_calls s)" "dr_gbm_surface d = g"
    using assms(2) by (auto simp: scan_ok_def slots_ok_def)
  define n where "n = Suc (dr_index d) mod NUM_FBS"
  have g: "dr_gbm_surface d \<noteq> 0" using d by simp
  note released = release_held(1-3) [OF d(4) g, of n] release_held(4,5) [OF d(4) g, of D n]
  define u where "u = upd_drm a (\<lambda>d. d\<lparr>dr_index := n\<rparr>) (release_fb a n s)"
  define e where "e = (fill n \<lparr>fb_bo = 0, fb_fd = 0, fb_stride = fb_stride (dr_fb d n)\<rparr> d)\<lparr>dr_index := n\<rparr>"
  have u: "gp_surface u = (gp_surface s)(a \<mapsto> e)" "gp_internal u = gp_internal s" "gp_drm u = gp_drm s" "gp_calls u = gp_calls (release_fb a n s)"
    using released(1-3) by (simp_all add: u_def e_def)
  define v where "v = dx_finish_frame D oid sec (usec * 1000) u"
  have v: "gp_surface v = gp_surface u" "gp_internal v = gp_internal u" "gp_drm v = gp_drm u" "gp_calls v = gp_calls u"
    using assms(1) by (simp_all add: v_def quiet_flip_def Let_def)
  have "page_flip_handler D oid sec usec s = v\<lparr>gp_surface := (gp_surface v)(a \<mapsto> e\<lparr>dr_flipping := False\<rparr>)\<rparr>"
    using d v u by (simp add: page_flip_handler_def Let_def u_def [symmetric] v_def [symmetric] n_def [symmetric])
  moreover have "slots_ok D a g F B (e\<lparr>dr_flipping := False\<rparr>) (gp_calls v)"
    unfolding v(4) u(4) e_def using slots_ok_next [OF d(5) n_def] released(4,5) d(6) by simp
  ultimately show ?thesis using d v u by (simp add: scan_ok_def)
qed

lemma scan_ok_flip:
  assumes "fresh_numbers D" "scan_ok D oid a g F B s" "gp_surface s a = Some d" "\<not> dr_flipping d"
  shows "scan_ok D oid a g F B (snd (page_flip D oid s))"
proof -
  have d: "gp_internal s oid = a" "dr_gbm_surface d \<noteq> 0" "empty_slot d (dr_index d)"
    using assms(2-4) by (auto simp: scan_ok_def slots_ok_def empty_slot_def)
  obtain ok s' where s': "page_flip D oid s = (ok, s')" by fastforce
  show ?thesis
    using page_flip_cases [OF assms(1) d(1) assms(3) d(2) assms(4) d(3)] scan_ok_filled [OF assms(2,3) d(3)]
      scan_ok_emptied [OF assms(2,3) d(3)] s' by (auto split: if_splits)
qed

lemma scan_ok_sleep:
  assumes "scan_ok D oid a g F B s"
  shows "scan_ok D oid a g F B (surface_sleep oid b s)"
proof -
  obtain d where d: "gp_internal s oid = a" "gp_surface s a = Some d" "slots_ok D a g F B d (gp_calls s)"
    using assms by (auto simp: scan_ok_def)
  then have "slots_ok D a g F B (d\<lparr>dr_stride := 0\<rparr>) (SetCrtc (cr_crtc_id (dr_crtc d)) 0 None None # gp_calls s)"
    by (simp add: slots_ok_def)
  then show ?thesis using assms d by (simp add: surface_sleep_def with_drm_def scan_ok_def)
qed

lemma scan_ok_gamma:
  assumes "scan_ok D oid a g F B s"
  shows "scan_ok D oid a g F B (set_gamma oid sz s)"
proof -
  obtain d where d: "gp_internal s oid = a" "gp_surface s a = Some d" "slots_ok D a g F B d (gp_calls s)"
    using assms by (auto simp: scan_ok_def)
  then have "slots_ok D a g F B d (CrtcSetGamma (cr_crtc_id (dr_crtc d)) sz # gp_calls s)" by (simp add: slots_ok_def)
  then show ?thesis using assms d by (simp add: set_gamma_def with_drm_def scan_ok_def)
qed

lemma scan_ok_step:
  assumes "scan_step D oid s s'" "fresh_numbers D" "quiet_flip D" "scan_ok D oid a g F B s"
  shows "scan_ok D oid a g F B s'"
  using assms
proof (cases rule: scan_step.cases)
  case (flip d)
  then show ?thesis using scan_ok_flip [OF assms(2,4)] assms(4) by (simp add: scan_ok_def)
qed (simp_all add: scan_ok_handler scan_ok_sleep scan_ok_gamma)

text \<open>C29 (invariant). Over any run of page flips and their events a surface holds, of the framebuffers and locked buffers of the
  card, exactly those in its two slots: nothing is lost and nothing is freed twice. Between frames one slot is
  empty, so that at most one of each is held.\<close>

theorem framebuffers_balanced:
  assumes "fresh_numbers D" and "quiet_flip D" and "(scan_step D oid)\<^sup>*\<^sup>* s s'"
    and "gp_internal s oid = a" and "gp_surface s a = Some d" and "dr_fb d = (\<lambda>_. fb_zero)" and "dr_index d = 0" and "\<not> dr_flipping d"
    and "dr_gbm_surface d \<noteq> 0" and "\<not> dm_use_egldevice (gp_drm s)"
  shows "\<exists>d'. gp_surface s' a = Some d' \<and>
     fbs_of D (gp_calls s') = fbs_of D (gp_calls s) \<union> ({fb_fd (dr_fb d' 0), fb_fd (dr_fb d' 1)} - {0}) \<and>
     bos_of D (dr_gbm_surface d) (gp_calls s') =
       bos_of D (dr_gbm_surface d) (gp_calls s) \<union> ({fb_bo (dr_fb d' 0), fb_bo (dr_fb d' 1)} - {0}) \<and>
     (\<not> dr_flipping d' \<longrightarrow> fb_fd (dr_fb d' (dr_index d')) = 0 \<and> fb_bo (dr_fb d' (dr_index d')) = 0)"
proof -
  let ?I = "scan_ok D oid a (dr_gbm_surface d) (fbs_of D (gp_calls s)) (bos_of D (dr_gbm_surface d) (gp_calls s))"
  have "?I s" using assms(4-10) by (simp add: scan_ok_def slots_ok_def fb_zero_def)
  with assms(3) have "?I s'" by (induction rule: rtranclp_induct) (use scan_ok_step assms(1,2) in blast)+
  then show ?thesis by (auto simp: scan_ok_def slots_ok_def)
qed

text \<open>A card whose numbers are the length of the history, for a while.\<close>

definition drm_env_ref :: drm_env where
  "drm_env_ref = \<lparr>
     dk_ret = (\<lambda>h c. case c of GbmHasFreeBuffers _ \<Rightarrow> 1 | AddFB _ _ _ _ \<Rightarrow> if length h < 1000 then 0 else 1 | _ \<Rightarrow> 0),
     dk_id = (\<lambda>h c. of_nat (Suc (length h))), dk_ptr = (\<lambda>h c. Suc (length h)),
     dk_bo = (\<lambda>_. \<lparr>bo_width = 64, bo_height = 48, bo_stride = 256, bo_handle = 1\<rparr>),
     dk_card = (\<lambda>_. None), dk_malloc = True, dk_modes = pool_ref, dk_infos = pool_ref, dk_connector_type = (\<lambda>_. None),
     dk_getenv = (\<lambda>_. None), dk_version_name = None, dk_egl = egl_lib_ref,
     dx_finish_frame = (\<lambda>_ _ _ s. s), dx_add_output = (\<lambda>_ _ _ s. s), dx_terminate_output = (\<lambda>_ s. s)\<rparr>"

definition mode_ref :: drm_mode where
  "mode_ref = \<lparr>mi_hdisplay = 64, mi_vdisplay = 48, mi_vrefresh = 60, mi_type = 0, mi_rest = 0\<rparr>"

definition drm_surface_ref :: drm_surface where
  "drm_surface_ref = \<lparr>dr_device = 1, dr_gbm_surface = 2,
     dr_connector = \<lparr>co_connector_id = 1, co_encoder_id = 1, co_connected = True, co_modes = [mode_ref], co_mm_width = 0, co_mm_height = 0,
       co_subpixel = 0, co_type = 0, co_type_id = 0\<rparr>,
     dr_encoder = \<lparr>en_encoder_id = 1, en_crtc_id = 1, en_possible_crtcs = 1\<rparr>,
     dr_crtc = \<lparr>cr_crtc_id = 1, cr_buffer_id = 0, cr_mode_valid = True, cr_mode = mode_ref, cr_gamma_size = 0\<rparr>,
     dr_fb = (\<lambda>_. fb_zero), dr_stride = 0, dr_index = 0, dr_flipping = False\<rparr>"

definition gpu_ref :: gpu where
  "gpu_ref = \<lparr>eg_ctx = (\<lambda>_. None), eg_bound = 0, eg_current = (0, 0), eg_log = [], eg_faults = [],
     gp_world = world_blank, gp_drm = drm_zero, gp_internal = (\<lambda>_. 0)(1 := 9), gp_surface = [9 \<mapsto> drm_surface_ref],
     gp_calls = [], gp_faults = []\<rparr>"

lemma drm_env_ref_fields [simp]:
  "dk_ret drm_env_ref h (AddFB x y st n) = (if length h < 1000 then 0 else 1)"
  "dk_ret drm_env_ref h (GbmHasFreeBuffers g) = 1"
  "dk_id drm_env_ref h c = of_nat (Suc (length h))" "dk_ptr drm_env_ref h c = Suc (length h)"
  "dx_finish_frame drm_env_ref oid sec nsec s = s"
  by (simp_all add: drm_env_ref_def)

lemma unat_ref: "k < 1000 \<Longrightarrow> unat (of_nat (Suc k) :: u32) = Suc k"
  by (subst unat_of_nat) simp

lemma fbs_ref: "f \<in> fbs_of drm_env_ref h \<Longrightarrow> 0 < unat f \<and> unat f \<le> length h"
proof (induction h)
  case (Cons c h)
  then show ?case using unat_ref [of "length h"] by (cases c) (auto split: if_splits simp del: of_nat_Suc)
qed simp

lemma bos_ref: "b \<in> bos_of drm_env_ref g h \<Longrightarrow> b \<le> length h"
  by (induction h) (auto split: drm_call.splits if_splits)

lemma fresh_front: "fresh_numbers drm_env_ref"
proof -
  have "of_nat (Suc (length h)) \<notin> insert 0 (fbs_of drm_env_ref h)" if "length h < 1000" for h
    using fbs_ref [of "of_nat (Suc (length h))" h] unat_ref [OF that] by (auto simp del: of_nat_Suc)
  moreover have "Suc (length h) \<notin> bos_of drm_env_ref g h" for h g using bos_ref [of "Suc (length h)" g h] by auto
  ultimately show ?thesis by (simp add: fresh_numbers_def del: of_nat_Suc)
qed

theorem framebuffers_balanced_witness:
  "\<exists>d'. gp_surface (snd (page_flip drm_env_ref 1 gpu_ref)) 9 = Some d' \<and>
     fbs_of drm_env_ref (gp_calls (snd (page_flip drm_env_ref 1 gpu_ref))) = {fb_fd (dr_fb d' 0), fb_fd (dr_fb d' 1)} - {0}"
proof -
  have s: "gp_internal gpu_ref 1 = 9" "gp_surface gpu_ref 9 = Some drm_surface_ref" "gp_calls gpu_ref = []"
    "\<not> dm_use_egldevice (gp_drm gpu_ref)" "\<not> dr_flipping drm_surface_ref" "dr_gbm_surface drm_surface_ref \<noteq> 0"
    "dr_fb drm_surface_ref = (\<lambda>_. fb_zero)" "dr_index drm_surface_ref = 0"
    by (simp_all add: gpu_ref_def drm_surface_ref_def drm_zero_def)
  have "scan_step drm_env_ref 1 gpu_ref (snd (page_flip drm_env_ref 1 gpu_ref))"
    by (rule scan_step.flip [where d = drm_surface_ref]) (simp_all add: s [simplified])
  moreover have "quiet_flip drm_env_ref" by (simp add: quiet_flip_def)
  ultimately show ?thesis
    using framebuffers_balanced [OF fresh_front _ r_into_rtranclp s(1,2,7,8,5,6,4)] by (fastforce simp: s(3))
qed

section \<open>The end of a surface\<close>

text \<open>A release frees the framebuffer of the slot in use only: the one on the screen, in the other slot, stays in the
  card and its buffer stays locked.\<close>

theorem release_keeps_front_framebuffer:
  assumes "gp_surface s a = Some d" and "dr_gbm_surface d \<noteq> 0" and "j \<noteq> dr_index d"
    and "fb_fd (dr_fb d j) \<in> fbs_of D (gp_calls s)" and "fb_bo (dr_fb d j) \<in> bos_of D (dr_gbm_surface d) (gp_calls s)"
    and "fb_fd (dr_fb d j) \<noteq> fb_fd (dr_fb d (dr_index d))" and "fb_bo (dr_fb d j) \<noteq> fb_bo (dr_fb d (dr_index d))"
  shows "fb_fd (dr_fb d j) \<in> fbs_of D (gp_calls (surface_release a s)) \<and>
     fb_bo (dr_fb d j) \<in> bos_of D (dr_gbm_surface d) (gp_calls (surface_release a s))"
  using assms release_held(4,5) [OF assms(1,2), of D "dr_index d"]
  by (simp add: surface_release_def Let_def)

definition gpu_shown :: gpu where
  "gpu_shown = gpu_ref\<lparr>gp_surface := [9 \<mapsto> drm_surface_ref\<lparr>dr_fb := (\<lambda>_. fb_zero)(1 := \<lparr>fb_bo = 1, fb_fd = 2, fb_stride = 256\<rparr>)\<rparr>],
     gp_calls := [AddFB 64 48 256 1, GbmLockFrontBuffer 2]\<rparr>"

theorem release_keeps_front_framebuffer_witness:
  "2 \<in> fbs_of drm_env_ref (gp_calls (surface_release 9 gpu_shown)) \<and> 1 \<in> bos_of drm_env_ref 2 (gp_calls (surface_release 9 gpu_shown))"
  using release_keeps_front_framebuffer [of gpu_shown 9
      "drm_surface_ref\<lparr>dr_fb := (\<lambda>_. fb_zero)(1 := \<lparr>fb_bo = 1, fb_fd = 2, fb_stride = 256\<rparr>)\<rparr>" 1 drm_env_ref]
  by (simp add: gpu_shown_def drm_surface_ref_def fb_zero_def)

text \<open>The compositor, with the surface it gives back during the frame: \<open>wlc_output_finish_frame\<close> runs the deferred tasks,
  and a removal of the backend surface reaches the destructor of this back end.\<close>

definition finish_frame_of :: "env \<Rightarrow> nat \<Rightarrow> int \<Rightarrow> int \<Rightarrow> gpu \<Rightarrow> gpu" where
  "finish_frame_of E oid sec nsec s =
     (let w = wlc_output_finish_frame E oid sec nsec (gp_world s); s' = s\<lparr>gp_world := w\<rparr>
      in if Bs_release oid \<in> set (drop (length (w_trace (gp_world s))) (w_trace w)) then drm_backend_surface_release oid s' else s')"

definition prefixed :: "event list \<Rightarrow> world \<Rightarrow> bool" where
  "prefixed t w \<longleftrightarrow> (\<exists>l. w_trace w = t @ l)"

lemma prefixed_basic:
  "prefixed t w \<Longrightarrow> prefixed t (emit e w)" "prefixed t (fail f w) = prefixed t w" "prefixed t (upd_view h1 f1 w) = prefixed t w"
  "prefixed t (upd_output h2 f2 w) = prefixed t w" "prefixed t (upd_surface h3 f3 w) = prefixed t w" "prefixed t (upd_buffer h4 f4 w) = prefixed t w"
  "prefixed t (w\<lparr>w_serial := n\<rparr>) = prefixed t w" "prefixed t (w\<lparr>w_rendering_output := m\<rparr>) = prefixed t w"
  by (auto simp: prefixed_def emit_def)

interpretation trace: saved "prefixed t" for t
  by unfold_locales (auto simp: prefixed_basic wlc_output_schedule_repaint_def Let_def split: option.split)

lemma release_backend_traced:
  assumes "\<And>t. env_saves E (prefixed t)" and "prefixed t w"
  shows "\<exists>l. prefixed (t @ l @ [Bs_release oid]) (release_backend E oid w)"
proof -
  define v where "v = (if \<exists>x. output_of (destroy_surfaces oid w) oid = Some x \<and> o_created x
      then call1 (if_output_context_destroyed (iface E)) oid (destroy_surfaces oid w) else destroy_surfaces oid w)"
  have "prefixed t v" using assms trace.destroy_all trace.calls [OF assms(1)] by (simp add: v_def)
  then obtain l where "w_trace v = t @ l" by (auto simp: prefixed_def)
  then have "w_trace (release_backend E oid w) = t @ (l @ [Rd_release oid, Ctx_release oid]) @ [Bs_release oid]"
    by (simp add: release_backend_def v_def [symmetric] Let_def emit_def)
  then show ?thesis unfolding prefixed_def by (metis append_Nil2)
qed

lemma cancel_traced: "prefixed t w \<Longrightarrow> prefixed t (cancel_repaint oid w)"
  by (simp add: cancel_repaint_def prefixed_basic)

lemma remove_backend_traced:
  assumes "\<And>t. env_saves E (prefixed t)" and "prefixed t w"
  shows "\<exists>l. prefixed (t @ l @ [Bs_release oid]) (remove_backend E oid w)"
proof -
  obtain l where "prefixed (t @ l @ [Bs_release oid]) (release_backend E oid w)" using release_backend_traced [OF assms] by blast
  then have "prefixed (t @ l @ [Bs_release oid]) (remove_backend E oid w)"
    unfolding remove_backend_def by (intro trace.calls [OF assms(1)] cancel_traced)
  then show ?thesis by blast
qed

lemma tasks_traced:
  assumes "\<And>t. env_saves E (prefixed t)" and "prefixed t w"
  shows "prefixed t (task_terminate E oid w)" "prefixed t (task_sleep oid w)"
proof -
  have *: "prefixed t (wlc_output_terminate E oid w)" if "prefixed t w" for w
    using that trace.calls [OF assms(1)] trace.basic by (auto simp: wlc_output_terminate_def prefixed_basic split: option.split)
  show "prefixed t (task_terminate E oid w)" using assms(2) * by (simp add: task_terminate_def prefixed_basic)
  have "prefixed t (wlc_output_set_sleep_ptr oid True w)"
    using assms(2) cancel_traced trace.basic
    by (auto simp: wlc_output_set_sleep_ptr_def Let_def prefixed_basic split: option.split)
  then show "prefixed t (task_sleep oid w)" using assms(2) by (simp add: task_sleep_def prefixed_basic)
qed

lemma finish_frame_releases:
  assumes "\<And>t. env_saves E (prefixed t)" and "output_of w oid = Some x" and "bs_display (o_bsurface x) \<noteq> 0"
    and "bs_display (o_task_bsurface x) = INVALID_DISPLAY"
  shows "Bs_release oid \<in> set (drop (length (w_trace w)) (w_trace (wlc_output_finish_frame E oid sec nsec w)))"
proof -
  define v where "v = upd_output oid (\<lambda>x. x\<lparr>o_pending := False, o_frame_time := u32_of_i32 (sec * 1000 + nsec div 1000000)\<rparr>) w"
  define u where "u = (if o_activity x \<and> \<not> o_task_terminate x
      then upd_output oid (\<lambda>x. x\<lparr>o_scheduled := True, o_activity := False\<rparr>)
             (emit (Timer_update oid (real_to_i32 (next_ims E (o_ims x)))) (upd_output oid (\<lambda>x. x\<lparr>o_ims := next_ims E (o_ims x)\<rparr>) v))
      else upd_output oid (\<lambda>x. x\<lparr>o_scheduled := False\<rparr>) v)"
  have run: "wlc_output_finish_frame E oid sec nsec w = finish_frame_tasks E oid u"
    using assms(2) by (simp add: wlc_output_finish_frame_def v_def u_def Let_def)
  have "\<exists>y. output_of u oid = Some y \<and> o_bsurface y = o_bsurface x \<and> o_task_bsurface y = o_task_bsurface x \<and> \<not> o_pending y"
    using assms(2) by (simp add: u_def v_def)
  then obtain y where y: "output_of u oid = Some y" "bs_display (o_bsurface y) \<noteq> 0" "bs_display (o_task_bsurface y) = INVALID_DISPLAY"
    "\<not> o_pending y" using assms(3,4) by auto
  have u: "prefixed (w_trace w) u" by (simp add: u_def v_def prefixed_basic) (simp add: prefixed_def)
  obtain l where "prefixed (w_trace w @ l @ [Bs_release oid]) (remove_backend E oid u)" using remove_backend_traced [OF assms(1) u] by blast
  then have "prefixed (w_trace w @ l @ [Bs_release oid]) (task_backend E oid u)"
    using y by (simp add: task_backend_def o_field_def wlc_output_set_backend_surface_def wlc_output_set_backend_surface_none_def
        INVALID_DISPLAY_def prefixed_basic)
  then have "prefixed (w_trace w @ l @ [Bs_release oid]) (finish_frame_tasks E oid u)"
    unfolding finish_frame_tasks_def by (intro tasks_traced [OF assms(1)])
  then show ?thesis unfolding run by (auto simp: prefixed_def)
qed

text \<open>C30 (error). When the backend surface was to be removed while a frame was on its way (a switch of the terminal does that),
  the event of the page flip frees it and then writes to it.\<close>

theorem flip_of_released_surface_faults:
  assumes "dx_finish_frame D = finish_frame_of E" and "\<And>t. env_saves E (prefixed t)"
    and "gp_internal s oid \<noteq> 0" and "gp_surface s (gp_internal s oid) = Some d"
    and "output_of (gp_world s) oid = Some x" and "bs_display (o_bsurface x) \<noteq> 0" and "bs_display (o_task_bsurface x) = INVALID_DISPLAY"
  shows "Wild_pointer \<in> set (gp_faults (page_flip_handler D oid sec usec s))"
proof -
  let ?a = "gp_internal s oid"
  obtain u where u: "page_flip_handler D oid sec usec s = upd_drm ?a (\<lambda>d. d\<lparr>dr_flipping := False\<rparr>) (finish_frame_of E oid sec (usec * 1000) u)"
    "gp_world u = gp_world s" "gp_internal u = gp_internal s"
  proof -
    have "gp_world (upd_drm ?a f (release_fb ?a n s)) = gp_world s" "gp_internal (upd_drm ?a f (release_fb ?a n s)) = gp_internal s" for f n
      using assms(4) by (simp_all add: release_fb_def Let_def upd_drm_def split: option.split)
    then show thesis using that assms(1,4) by (cases "dm_use_egldevice (gp_drm s)") (auto simp: page_flip_handler_def Let_def)
  qed
  have "Bs_release oid \<in> set (drop (length (w_trace (gp_world u))) (w_trace (wlc_output_finish_frame E oid sec (usec * 1000) (gp_world u))))"
    using finish_frame_releases [OF assms(2) _ assms(6,7)] assms(5) u(2) by simp
  then have "gp_surface (finish_frame_of E oid sec (usec * 1000) u) ?a = None"
    using assms(3) u(3) by (simp add: finish_frame_of_def drm_backend_surface_release_def Let_def)
  then show ?thesis unfolding u(1) by (simp add: upd_drm_def dfail_def)
qed

definition output_leaving :: wlc_output where
  "output_leaving = output_blank\<lparr>o_pending := True, o_bsurface := bsurface_zero\<lparr>bs_display := 1\<rparr>,
     o_task_bsurface := bsurface_zero\<lparr>bs_display := INVALID_DISPLAY\<rparr>\<rparr>"

definition gpu_leaving :: gpu where
  "gpu_leaving = gpu_ref\<lparr>gp_world := world_blank\<lparr>w_outputs := [1 \<mapsto> output_leaving]\<rparr>\<rparr>"

theorem flip_of_released_surface_faults_witness:
  "Wild_pointer \<in> set (gp_faults (page_flip_handler (drm_env_ref\<lparr>dx_finish_frame := finish_frame_of env_ref\<rparr>) 1 0 0 gpu_leaving))"
  by (rule flip_of_released_surface_faults [where E = env_ref and d = drm_surface_ref and x = output_leaving])
    (simp_all add: gpu_leaving_def gpu_ref_def output_leaving_def env_saves_def saves1_def saves3_def saves1r_def output_of_def Let_def bsurface_zero_def)

section \<open>Crtcs\<close>

lemma information_crtc: "information_for D co e c = Some i \<Longrightarrow> di_crtc i = c"
proof -
  have "di_crtc (fold (query_mode D c) ms i) = di_crtc i" for ms i
    by (induction ms arbitrary: i) (simp_all add: query_mode_def take_mode_def Let_def)
  then show "information_for D co e c = Some i \<Longrightarrow> di_crtc i = c"
    by (auto simp: information_for_def query_default_def split: if_splits list.splits)
qed

lemma free_crtc_unused:
  assumes "\<And>c x. cd_crtc C c = Some x \<Longrightarrow> cr_crtc_id x = c"
  shows "free_crtc C e used n cs = Some x \<Longrightarrow> cr_crtc_id x \<in> set cs - set used"
  by (induction cs arbitrary: n) (auto dest: assms split: if_splits option.splits)

lemma query_connectors_distinct:
  assumes "pool_ops_ok (dk_infos D)" and "\<And>c x. cd_crtc C c = Some x \<Longrightarrow> cr_crtc_id x = c"
    and "\<And>e x. cd_encoder C e = Some x \<Longrightarrow> cd_crtc C (en_crtc_id x) = None"
  shows "distinct used \<Longrightarrow> map (\<lambda>i. cr_crtc_id (di_crtc i)) infos = used \<Longrightarrow>
    distinct (map (\<lambda>i. cr_crtc_id (di_crtc i)) (fst (query_connectors D C cs infos used s)))"
proof (induction cs arbitrary: infos used s)
  case (Cons co cs)
  have enc: "cd_crtc C (en_crtc_id e) = None" if "find_encoder_for_connector C k = Some e" for k e
  proof -
    have "first_encoder C es = Some e \<Longrightarrow> cd_crtc C (en_crtc_id e) = None" for es
      by (induction es) (auto split: option.splits dest: assms(3))
    then show ?thesis using that assms(3) by (auto simp: find_encoder_for_connector_def split: option.splits)
  qed
  have new: "cr_crtc_id c \<notin> set used" if "find_crtc_for_encoder C e used = Some c" "cd_crtc C (en_crtc_id e) = None" for e c
    using that free_crtc_unused [OF assms(2)] by (auto simp: find_crtc_for_encoder_def)
  have add: "l = infos @ [i]" if "push_back (dk_infos D) infos i = Some l" for i l
    using that assms(1) by (auto simp: pool_ops_ok_def)
  have skip: "distinct (map (\<lambda>i. cr_crtc_id (di_crtc i)) (fst (query_connectors D C cs infos used s')))" for s'
    by (rule Cons.IH [OF Cons.prems])
  have found: "distinct (map (\<lambda>i. cr_crtc_id (di_crtc i)) (fst (query_connectors D C cs l (used @ [cr_crtc_id c]) s')))"
    if "find_encoder_for_connector C k = Some e" "find_crtc_for_encoder C e used = Some c" "information_for D k e c = Some i"
      "push_back (dk_infos D) infos i = Some l" for k e c i l s'
    by (rule Cons.IH) (use new [OF that(2) enc [OF that(1)]] add [OF that(4)] information_crtc [OF that(3)] Cons.prems in auto)
  show ?case using skip found by (simp split: option.split del: map_map)
qed simp

text \<open>When no encoder drives a crtc already, two connectors never get the same crtc, whatever the card lists. (An encoder
  that drives one hands it out again.)\<close>

theorem crtcs_distinct:
  assumes "pool_ops_ok (dk_infos D)" and "dk_card D (gp_calls s) = Some C" and "\<And>c x. cd_crtc C c = Some x \<Longrightarrow> cr_crtc_id x = c"
    and "\<And>e x. cd_encoder C e = Some x \<Longrightarrow> cd_crtc C (en_crtc_id x) = None"
    and "query_drm D s = (Some infos, s')"
  shows "distinct (map (\<lambda>i. cr_crtc_id (di_crtc i)) infos)"
  using query_connectors_distinct [OF assms(1,3,4), where used = "[]" and infos = "[]" and cs = "cd_connectors C" and s = s] assms(2,5)
  by (auto simp: query_drm_def split: if_splits prod.splits)

text \<open>Two connected connectors with the same encoder, and two crtcs.\<close>

definition connector_ref :: "u32 \<Rightarrow> drm_connector" where
  "connector_ref n = (dr_connector drm_surface_ref)\<lparr>co_connector_id := n, co_encoder_id := 7\<rparr>"

definition card_ref :: drm_card where
  "card_ref = \<lparr>cd_connectors = [Some (connector_ref 1), Some (connector_ref 2)], cd_encoders = [7],
     cd_encoder = [7 \<mapsto> \<lparr>en_encoder_id = 7, en_crtc_id = 0, en_possible_crtcs = 3\<rparr>], cd_crtcs = [11, 12],
     cd_crtc = [11 \<mapsto> (dr_crtc drm_surface_ref)\<lparr>cr_crtc_id := 11\<rparr>, 12 \<mapsto> (dr_crtc drm_surface_ref)\<lparr>cr_crtc_id := 12\<rparr>]\<rparr>"

definition drm_env_card :: drm_env where "drm_env_card = drm_env_ref\<lparr>dk_card := (\<lambda>_. Some card_ref)\<rparr>"

theorem crtcs_distinct_witness:
  "distinct (map (\<lambda>i. cr_crtc_id (di_crtc i)) (the (fst (query_drm drm_env_card gpu_ref)))) \<and> fst (query_drm drm_env_card gpu_ref) \<noteq> None"
proof -
  obtain infos s' where q: "query_drm drm_env_card gpu_ref = (Some infos, s')"
    by (cases "query_connectors drm_env_card card_ref (cd_connectors card_ref) [] [] gpu_ref")
      (simp add: query_drm_def drm_env_card_def drm_env_ref_def)
  have "distinct (map (\<lambda>i. cr_crtc_id (di_crtc i)) infos)"
  proof (rule crtcs_distinct [where D = drm_env_card and s = gpu_ref and C = card_ref and s' = s'])
    show "pool_ops_ok (dk_infos drm_env_card)" "dk_card drm_env_card (gp_calls gpu_ref) = Some card_ref"
      by (simp_all add: drm_env_card_def drm_env_ref_def)
  qed (auto simp: q card_ref_def split: if_splits)
  then show ?thesis by (simp add: q)
qed

end
