(* ===== verification/Nested.thy ===== *)
theory Nested
  imports Seat
begin

text \<open>
  The back ends that run inside another display server (src/platform/backend/x11.c, src/platform/backend/wayland.c):
  the translation of events of the host, the windows that stand for outputs, start and end.

  \<open>nested\<close> is the world with the static \<open>x11\<close> or \<open>wayland\<close> and the calls made to the host; xcb, Xlib and
  libwayland-client are the results in \<open>nest_env\<close>. \<open>nx_finish_frame\<close>, \<open>nx_add_output\<close> and the others are what the
  compositor does. \<open>chck_clamp\<close> at the integer type of X11 coordinates is \<open>nx_clamp\<close>.
\<close>

section \<open>The host\<close>

datatype host_call =
    Destroy_window nat
  | Create_window nat
  | Change_root nat
  | Free_cursor nat
  | Close_display
  | Source_remove
  | Flush
  | Xkb_update_mask u32 u32 u32 u32
  | Set_cursor_hidden
  | Get_pointer | Release_pointer | Get_keyboard | Release_keyboard | Get_touch | Release_touch
  | Pong nat u32
  | Bind u32 string
  | Create_surface nat
  | Get_shell_surface nat
  | Create_egl_window nat
  | Egl_window_destroy nat
  | Shell_surface_destroy nat
  | Surface_destroy nat
  | Shell_destroy | Seat_destroy | Compositor_destroy | Registry_destroy
  | Display_disconnect
  | Dispatch | Dispatch_pending

record x11 =
  x_display :: nat
  x_connection :: nat
  x_root :: nat
  x_width :: int
  x_height :: int
  x_cursor :: nat
  x_wm_delete :: u32
  x_xkb_event_base :: u8
  x_event_source :: nat

record wayland_surface =
  ws_surface :: nat
  ws_shell_surface :: nat
  ws_egl_window :: nat

record wayland_backend =
  wb_display :: nat
  wb_registry :: nat
  wb_compositor :: nat
  wb_shell :: nat
  wb_seat :: nat
  wb_keyboard :: nat
  wb_pointer :: nat
  wb_touch :: nat
  wb_event_source :: nat

definition x11_zero :: x11 where
  "x11_zero = \<lparr>x_display = 0, x_connection = 0, x_root = 0, x_width = 0, x_height = 0, x_cursor = 0, x_wm_delete = 0,
     x_xkb_event_base = 0, x_event_source = 0\<rparr>"

definition wayland_zero :: wayland_backend where
  "wayland_zero = \<lparr>wb_display = 0, wb_registry = 0, wb_compositor = 0, wb_shell = 0, wb_seat = 0, wb_keyboard = 0, wb_pointer = 0,
     wb_touch = 0, wb_event_source = 0\<rparr>"

text \<open>\<open>ns_internal\<close> is the \<open>wayland_surface\<close> of an output, if it has a backend surface.\<close>

record nested =
  ns_world :: world
  ns_x11 :: x11
  ns_wayland :: wayland_backend
  ns_internal :: "nat \<Rightarrow> wayland_surface option"
  ns_calls :: "host_call list"

record nest_env =
  nx_env :: env
  nx_has_input :: bool
  nx_outputs :: "u32 option"
  nx_getenv :: "string \<Rightarrow> bool"
  nx_open :: "string \<Rightarrow> nat"
  nx_new :: "nested \<Rightarrow> nat"
  nx_root_taken :: bool
  nx_created :: "nested \<Rightarrow> nat \<Rightarrow> bool"
  nx_calloc :: bool
  nx_clamp :: "int \<Rightarrow> u32 \<Rightarrow> real"
  nx_update_mask :: "nat \<Rightarrow> u32 \<Rightarrow> u32 \<Rightarrow> u32 \<Rightarrow> u32 \<Rightarrow> nat"
  nx_time :: "nested \<Rightarrow> int \<times> int"
  nx_clampd :: "real \<Rightarrow> u32 \<Rightarrow> real"
  nx_modes :: "wlc_output_mode pool_ops"
  nx_add_output :: "wlc_backend_surface \<Rightarrow> wlc_output_information \<Rightarrow> wayland_surface option \<Rightarrow> nested \<Rightarrow> nested"
  nx_terminate :: "world \<Rightarrow> world"

definition host :: "host_call \<Rightarrow> nested \<Rightarrow> nested" where
  "host c s = s\<lparr>ns_calls := ns_calls s @ [c]\<rparr>"

definition world_of :: "(world \<Rightarrow> world) \<Rightarrow> nested \<Rightarrow> nested" where
  "world_of f s = s\<lparr>ns_world := f (ns_world s)\<rparr>"

text \<open>A page is flipped at once: the frame is finished before the swap returns.\<close>

definition nested_page_flip :: "nest_env \<Rightarrow> nat \<Rightarrow> nested \<Rightarrow> bool \<times> nested" where
  "nested_page_flip N oid s =
     (let (sec, nsec) = nx_time N s in (True, world_of (wlc_output_finish_frame (nx_env N) oid sec nsec) s))"

definition fakes :: "nest_env \<Rightarrow> nat" where
  "fakes N = (case nx_outputs N of None \<Rightarrow> 1 | Some n \<Rightarrow> unat (max n 1))"

definition windows :: "world \<Rightarrow> nat list" where
  "windows w = filter (\<lambda>oid. o_field (\<lambda>x. bs_window (o_bsurface x)) 0 oid w \<noteq> 0) (c_outputs (w_comp w))"

definition host_mode :: "int \<Rightarrow> int \<Rightarrow> wlc_output_mode" where
  "host_mode wd ht = \<lparr>md_refresh = 60000, md_width = wd, md_height = ht, md_flags = 3\<rparr>"

definition fake_information :: "nest_env \<Rightarrow> string \<Rightarrow> string \<Rightarrow> int \<Rightarrow> int \<Rightarrow> u32 \<Rightarrow> wlc_output_information" where
  "fake_information N mk model wd ht cid =
     snd (wlc_output_information_add_mode (nx_modes N)
       (information_zero\<lparr>in_make := Some mk, in_model := Some model, in_connector := WLC_CONNECTOR_WLC, in_connector_id := cid\<rparr>)
       (host_mode wd ht))"

text \<open>The modifiers of the host replace those of the keyboard.\<close>

definition host_modifiers :: "nest_env \<Rightarrow> u32 \<Rightarrow> u32 \<Rightarrow> u32 \<Rightarrow> u32 \<Rightarrow> world \<Rightarrow> world" where
  "host_modifiers N depressed latched locked layout w =
     (if \<not> kb_keymap (keyboard w) then w
      else
        let km = se_keymap (w_seat w); mask = wlc_keymap_get_mod_mask km
        in wlc_keyboard_update_modifiers (nx_env N) 0
             (upd_keyboard (\<lambda>k. k\<lparr>kb_xkb := nx_update_mask N (kb_xkb k) (mask depressed) (mask latched) (mask locked) layout\<rparr>) w))"

section \<open>X11\<close>

datatype xcb_event =
    XCB_EXPOSE nat
  | XCB_CLIENT_MESSAGE nat u32
  | XCB_CONFIGURE_NOTIFY nat u16 u16
  | XCB_FOCUS_IN nat
  | XCB_XKB_STATE_NOTIFY u32 u32 u32 u32
  | XCB_MOTION_NOTIFY u32 int int
  | XCB_BUTTON_PRESS u32 u8
  | XCB_BUTTON_RELEASE u32 u8
  | XCB_KEY_PRESS u32 u8
  | XCB_KEY_RELEASE u32 u8
  | XCB_OTHER

definition BTN_LEFT :: u32 where "BTN_LEFT = 272"
definition BTN_RIGHT :: u32 where "BTN_RIGHT = 273"
definition BTN_MIDDLE :: u32 where "BTN_MIDDLE = 274"

definition output_for_window :: "world \<Rightarrow> nat \<Rightarrow> nat option" where
  "output_for_window w win = find (\<lambda>oid. o_field (\<lambda>x. bs_window (o_bsurface x)) 0 oid w = win) (c_outputs (w_comp w))"

definition x11_surface_release :: "nat \<Rightarrow> nested \<Rightarrow> nested" where
  "x11_surface_release win s = host (Destroy_window win) s"

definition x11_add_output :: "nest_env \<Rightarrow> nat \<Rightarrow> wlc_output_information \<Rightarrow> nested \<Rightarrow> bool \<times> nested" where
  "x11_add_output N win info s =
     (True, nx_add_output N \<lparr>bs_display = x_display (ns_x11 s), bs_window = win, bs_api_sleep = False, bs_api_set_gamma = False,
        bs_api_get_gamma_size = False\<rparr> info None s)"

text \<open>The detail of a button event is a button from 1; 2 and 3 are exchanged.\<close>

definition x11_button :: "u8 \<Rightarrow> u32" where
  "x11_button detail = (if detail = 2 then BTN_MIDDLE else if detail = 3 then BTN_RIGHT else ucast detail + BTN_LEFT - 1)"

definition x11_release :: "u32 \<Rightarrow> u8 \<Rightarrow> wlc_input_event" where
  "x11_release time detail =
     (if detail = 4 \<or> detail = 5 then WLC_INPUT_EVENT_SCROLL time WLC_SCROLL_AXIS_VERTICAL (if detail = 4 then -10 else 10) 0
      else if detail = 6 \<or> detail = 7 then WLC_INPUT_EVENT_SCROLL time WLC_SCROLL_AXIS_HORIZONTAL 0 (if detail = 6 then -10 else 10)
      else WLC_INPUT_EVENT_BUTTON time (x11_button detail) False)"

text \<open>The input an event stands for, when libinput is not in use.\<close>

fun x11_input :: "nest_env \<Rightarrow> xcb_event \<Rightarrow> wlc_input_event option" where
  "x11_input N (XCB_MOTION_NOTIFY time x y) = Some (WLC_INPUT_EVENT_MOTION_ABSOLUTE time (nx_clamp N x) (nx_clamp N y))"
| "x11_input N (XCB_BUTTON_PRESS time detail) =
     (if detail \<ge> 4 \<and> detail \<le> 7 then None else Some (WLC_INPUT_EVENT_BUTTON time (x11_button detail) True))"
| "x11_input N (XCB_BUTTON_RELEASE time detail) = Some (x11_release time detail)"
| "x11_input N (XCB_KEY_PRESS time detail) = Some (WLC_INPUT_EVENT_KEY time 0 (ucast detail - 8) True)"
| "x11_input N (XCB_KEY_RELEASE time detail) = Some (WLC_INPUT_EVENT_KEY time 0 (ucast detail - 8) False)"
| "x11_input N _ = None"

text \<open>What an event of a window does to the output it stands for. The result says whether the loop returns.\<close>

definition x11_closed :: "nest_env \<Rightarrow> nat \<Rightarrow> world \<Rightarrow> world" where
  "x11_closed N oid w = (if length (windows w) \<le> 1 then nx_terminate N w else wlc_output_terminate (nx_env N) oid w)"

definition x11_configured :: "nest_env \<Rightarrow> nat \<Rightarrow> u16 \<Rightarrow> u16 \<Rightarrow> world \<Rightarrow> world" where
  "x11_configured N oid wd ht w =
     (let sz = \<lparr>sw = ucast wd, sh = ucast ht\<rparr>; w = upd_output oid (\<lambda>x. x\<lparr>o_mode := sz\<rparr>) w
      in snd (wlc_output_set_resolution_ptr (nx_env N) oid sz (o_field o_scale 1 oid w) w))"

definition on_window :: "nat \<Rightarrow> (nat \<Rightarrow> world \<Rightarrow> world) \<Rightarrow> world \<Rightarrow> world" where
  "on_window win f w = (case output_for_window w win of None \<Rightarrow> w | Some oid \<Rightarrow> f oid w)"

fun x11_window_event :: "nest_env \<Rightarrow> x11 \<Rightarrow> xcb_event \<Rightarrow> world \<Rightarrow> bool \<times> world" where
  "x11_window_event N x (XCB_EXPOSE win) w = (False, on_window win wlc_output_schedule_repaint w)"
| "x11_window_event N x (XCB_CLIENT_MESSAGE win data) w =
     (if data = x_wm_delete x \<and> output_for_window w win \<noteq> None then (True, on_window win (x11_closed N) w) else (False, w))"
| "x11_window_event N x (XCB_CONFIGURE_NOTIFY win wd ht) w = (False, on_window win (\<lambda>oid. x11_configured N oid wd ht) w)"
| "x11_window_event N x (XCB_FOCUS_IN win) w =
     (False, on_window win (\<lambda>oid. sig_output (nx_env N) (WLC_OUTPUT_EVENT_ACTIVE oid)) w)"
| "x11_window_event N x (XCB_XKB_STATE_NOTIFY depressed latched locked layout) w = (False, host_modifiers N depressed latched locked layout w)"
| "x11_window_event N x _ w = (False, w)"

fun x11_events :: "nest_env \<Rightarrow> xcb_event list \<Rightarrow> nested \<Rightarrow> nat \<times> nested" where
  "x11_events N [] s = (0, host Flush s)"
| "x11_events N (e # es) s =
     (let (stop, w) = x11_window_event N (ns_x11 s) e (ns_world s) in
      if stop then (1, s\<lparr>ns_world := w\<rparr>)
      else
        let w = (if nx_has_input N then w else case x11_input N e of None \<Rightarrow> w | Some ev \<Rightarrow> sig_input (nx_env N) ev w);
            (n, s) = x11_events N es (s\<lparr>ns_world := w\<rparr>)
        in (Suc n, s))"

text \<open>If the root window can be taken over there is one output, otherwise a window for each.\<close>

definition x11_window :: "nest_env \<Rightarrow> nat \<Rightarrow> nested \<Rightarrow> nat \<times> nested" where
  "x11_window N i s =
     (let win = nx_new N s in
      if win = 0 then (0, s)
      else
        let s = host (Create_window win) s in
        if \<not> nx_created N s win then (0, s)
        else
          let (ok, s) = x11_add_output N win
                (fake_information N ''Xorg'' ''X11 Window'' (x_width (ns_x11 s)) (x_height (ns_x11 s)) (of_nat (1 + i))) s
          in (of_bool ok, s))"

fun sum_counts :: "(nat \<Rightarrow> nested \<Rightarrow> nat \<times> nested) \<Rightarrow> nat list \<Rightarrow> nested \<Rightarrow> nat \<times> nested" where
  "sum_counts f [] s = (0, s)"
| "sum_counts f (i # is) s = (let (n, s) = f i s; (k, s) = sum_counts f is s in (n + k, s))"

definition x11_update_outputs :: "nest_env \<Rightarrow> bool \<Rightarrow> nested \<Rightarrow> nat \<times> nested" where
  "x11_update_outputs N outputs s =
     (if (if outputs then length (windows (ns_world s)) else 0) \<ge> fakes N then (0, s)
      else
        let s = host (Change_root (x_root (ns_x11 s))) s in
        if nx_root_taken N then sum_counts (x11_window N) [0..<fakes N] s
        else
          let (ok, s) = x11_add_output N (x_root (ns_x11 s))
                (fake_information N ''Xorg'' ''X11 Window'' (x_width (ns_x11 s)) (x_height (ns_x11 s)) 1) s
          in (of_bool ok, s))"

definition x11_terminate :: "nested \<Rightarrow> nested" where
  "x11_terminate s =
     (let x = ns_x11 s;
          s = (if x_cursor x \<noteq> 0 then host (Free_cursor (x_cursor x)) s else s);
          s = (if x_display x \<noteq> 0 then host Close_display s else s);
          s = (if x_event_source x \<noteq> 0 then host Source_remove s else s)
      in s\<lparr>ns_x11 := x11_zero\<rparr>)"

text \<open>\<open>setup_xkb\<close>: the steps that can fail, with the base of the extension.\<close>

definition setup_xkb :: "nest_env \<Rightarrow> nested \<Rightarrow> bool \<times> nested" where
  "setup_xkb N s =
     (if nx_open N ''xkb'' = 0 then (False, s)
      else
        let s = s\<lparr>ns_x11 := (ns_x11 s)\<lparr>x_xkb_event_base := of_nat (nx_open N ''xkb'')\<rparr>\<rparr>
        in (nx_open N ''select events'' \<noteq> 0 \<and> nx_open N ''use extension'' \<noteq> 0 \<and> nx_open N ''per client flags'' \<noteq> 0, s))"

definition wlc_x11 :: "nest_env \<Rightarrow> nested \<Rightarrow> bool \<times> nested" where
  "wlc_x11 N s =
     (let s = s\<lparr>ns_x11 := (ns_x11 s)\<lparr>x_display := nx_open N ''display''\<rparr>\<rparr> in
      if nx_open N ''display'' = 0 then (False, x11_terminate s)
      else
        let s = s\<lparr>ns_x11 := (ns_x11 s)\<lparr>x_connection := nx_open N ''connection''\<rparr>\<rparr> in
        if nx_open N ''connection'' = 0 \<or> nx_open N ''connection error'' \<noteq> 0 then (False, x11_terminate s)
        else
          let s = s\<lparr>ns_x11 := (ns_x11 s)\<lparr>x_wm_delete := of_nat (nx_open N ''WM_DELETE_WINDOW''), x_root := nx_open N ''root'',
                      x_width := int (nx_open N ''width''), x_height := int (nx_open N ''height''), x_cursor := nx_open N ''cursor''\<rparr>\<rparr>
          in
          if nx_open N ''cursor'' = 0 then (False, x11_terminate s)
          else
            let (ok, s) = setup_xkb N s in
            if \<not> ok then (False, x11_terminate s)
            else
              let s = s\<lparr>ns_x11 := (ns_x11 s)\<lparr>x_event_source := nx_open N ''event source''\<rparr>\<rparr>
              in if nx_open N ''event source'' = 0 then (False, x11_terminate s) else (True, s))"

section \<open>Wayland\<close>

text \<open>The events of the objects of the host that have a listener; coordinates are 24.8 fixed point numbers.\<close>

datatype client_event =
    Pointer_enter nat
  | Pointer_leave
  | Pointer_motion u32 int int
  | Pointer_button u32 u32 bool
  | Pointer_axis u32 u32 int
  | Keyboard_keymap
  | Keyboard_enter
  | Keyboard_leave
  | Keyboard_key u32 u32 bool
  | Keyboard_modifiers u32 u32 u32 u32
  | Touch_down u32 int int int
  | Touch_up u32 int
  | Touch_motion u32 int int int
  | Touch_frame
  | Touch_cancel
  | Seat_capabilities u32
  | Seat_name
  | Shell_ping nat u32
  | Shell_configure
  | Shell_popup_done
  | Registry_global u32 string
  | Registry_global_remove u32

definition fixed_to_double :: "int \<Rightarrow> real" where "fixed_to_double f = of_int f / 256"

definition xy_event :: "nest_env \<Rightarrow> int \<Rightarrow> u32 \<Rightarrow> real" where "xy_event N f = nx_clampd N (fixed_to_double f)"

text \<open>
  The output of a surface of the host. The data of the back end is read for every output of the pool until one
  matches; the result is None where it is NULL.
\<close>

fun output_for_wl_surface :: "nested \<Rightarrow> nat \<Rightarrow> nat list \<Rightarrow> nat option option" where
  "output_for_wl_surface s surface [] = Some None"
| "output_for_wl_surface s surface (oid # os) =
     (case ns_internal s oid of
        None \<Rightarrow> None
      | Some ws \<Rightarrow> if ws_surface ws = surface then Some (Some oid) else output_for_wl_surface s surface os)"

definition pointer_handle_enter :: "nest_env \<Rightarrow> nat \<Rightarrow> nested \<Rightarrow> nested" where
  "pointer_handle_enter N surface s =
     (case output_for_wl_surface s surface (c_outputs (w_comp (ns_world s))) of
        None \<Rightarrow> world_of (fail Null_pointer) s
      | Some None \<Rightarrow> s
      | Some (Some oid) \<Rightarrow> host Set_cursor_hidden (world_of (sig_output (nx_env N) (WLC_OUTPUT_EVENT_ACTIVE oid)) s))"

definition axis_event :: "u32 \<Rightarrow> u32 \<Rightarrow> int \<Rightarrow> wlc_input_event" where
  "axis_event time axis val =
     (if axis = 0 then WLC_INPUT_EVENT_SCROLL time WLC_SCROLL_AXIS_VERTICAL (fixed_to_double val) 0
      else if axis = 1 then WLC_INPUT_EVENT_SCROLL time WLC_SCROLL_AXIS_HORIZONTAL 0 (fixed_to_double val)
      else WLC_INPUT_EVENT_SCROLL time 0 0 0)"

fun client_input :: "nest_env \<Rightarrow> client_event \<Rightarrow> wlc_input_event option" where
  "client_input N (Pointer_motion time x y) = Some (WLC_INPUT_EVENT_MOTION_ABSOLUTE time (xy_event N x) (xy_event N y))"
| "client_input N (Pointer_button time button pressed) = Some (WLC_INPUT_EVENT_BUTTON time button pressed)"
| "client_input N (Pointer_axis time axis val) = Some (axis_event time axis val)"
| "client_input N (Keyboard_key time key pressed) = Some (WLC_INPUT_EVENT_KEY time 0 key pressed)"
| "client_input N (Touch_down time slot x y) =
     Some (WLC_INPUT_EVENT_TOUCH time (Some (xy_event N x, xy_event N y)) WLC_TOUCH_DOWN slot)"
| "client_input N (Touch_up time slot) = Some (WLC_INPUT_EVENT_TOUCH time None WLC_TOUCH_UP slot)"
| "client_input N (Touch_motion time slot x y) =
     Some (WLC_INPUT_EVENT_TOUCH time (Some (xy_event N x, xy_event N y)) WLC_TOUCH_MOTION slot)"
| "client_input N Touch_frame = Some (WLC_INPUT_EVENT_TOUCH 0 None WLC_TOUCH_FRAME 0)"
| "client_input N Touch_cancel = Some (WLC_INPUT_EVENT_TOUCH 0 None WLC_TOUCH_CANCEL 0)"
| "client_input N _ = None"

definition set_wayland :: "(wayland_backend \<Rightarrow> wayland_backend) \<Rightarrow> nested \<Rightarrow> nested" where
  "set_wayland f s = s\<lparr>ns_wayland := f (ns_wayland s)\<rparr>"

text \<open>A device is taken when its capability appears and released when it goes; a proxy that is NULL is used at once.\<close>

definition follow :: "nest_env \<Rightarrow> bool \<Rightarrow> (wayland_backend \<Rightarrow> nat) \<Rightarrow> ((nat \<Rightarrow> nat) \<Rightarrow> wayland_backend \<Rightarrow> wayland_backend) \<Rightarrow>
    host_call \<Rightarrow> host_call \<Rightarrow> nested \<Rightarrow> nested" where
  "follow N has dev upd get rel s =
     (if has \<and> dev (ns_wayland s) = 0 then
        let d = nx_new N s; s = set_wayland (upd (\<lambda>_. d)) (host get s) in if d = 0 then world_of (fail Null_pointer) s else s
      else if \<not> has \<and> dev (ns_wayland s) \<noteq> 0 then set_wayland (upd (\<lambda>_. 0)) (host rel s)
      else s)"

definition input_handle_capabilities :: "nest_env \<Rightarrow> u32 \<Rightarrow> nested \<Rightarrow> nested" where
  "input_handle_capabilities N caps s =
     follow N (bit caps 2) wb_touch wb_touch_update Get_touch Release_touch
       (follow N (bit caps 1) wb_keyboard wb_keyboard_update Get_keyboard Release_keyboard
         (follow N (bit caps 0) wb_pointer wb_pointer_update Get_pointer Release_pointer s))"

definition registry_handle_global :: "nest_env \<Rightarrow> u32 \<Rightarrow> string \<Rightarrow> nested \<Rightarrow> nested" where
  "registry_handle_global N name interface s =
     (if interface = ''wl_compositor'' then set_wayland (wb_compositor_update (\<lambda>_. nx_new N s)) (host (Bind name interface) s)
      else if interface = ''wl_shell'' then set_wayland (wb_shell_update (\<lambda>_. nx_new N s)) (host (Bind name interface) s)
      else if interface = ''wl_seat'' then
        let d = nx_new N s; s = set_wayland (wb_seat_update (\<lambda>_. d)) (host (Bind name interface) s)
        in if d = 0 then world_of (fail Null_pointer) s else s
      else s)"

fun client_handle :: "nest_env \<Rightarrow> client_event \<Rightarrow> nested \<Rightarrow> nested" where
  "client_handle N (Pointer_enter surface) s = pointer_handle_enter N surface s"
| "client_handle N (Keyboard_modifiers depressed latched locked layout) s =
     world_of (host_modifiers N depressed latched locked layout) s"
| "client_handle N (Seat_capabilities caps) s = input_handle_capabilities N caps s"
| "client_handle N (Shell_ping surface serial) s = host (Pong surface serial) s"
| "client_handle N (Registry_global name interface) s = registry_handle_global N name interface s"
| "client_handle N ev s = (case client_input N ev of None \<Rightarrow> s | Some e \<Rightarrow> world_of (sig_input (nx_env N) e) s)"

text \<open>
  \<open>events\<close> is what the dispatch finds in the queue and \<open>n\<close> its result. Bits of the mask: 0 readable, 1 writable,
  2 hang-up, 3 error.
\<close>

definition wayland_event :: "nest_env \<Rightarrow> client_event list \<Rightarrow> int \<Rightarrow> u32 \<Rightarrow> nested \<Rightarrow> int \<times> nested" where
  "wayland_event N events n ready s =
     (if bit ready 2 \<or> bit ready 3 then (0, world_of (nx_terminate N) s)
      else
        let (count, s) = (if bit ready 0 then (n, fold (client_handle N) events (host Dispatch s)) else (0, s));
            s = (if bit ready 1 then host Flush s else s)
        in if ready = 0 then (n, host Flush (fold (client_handle N) events (host Dispatch_pending s))) else (count, s))"

definition wayland_surface_release :: "wayland_surface option \<Rightarrow> nested \<Rightarrow> nested" where
  "wayland_surface_release surface s =
     (case surface of
        None \<Rightarrow> s
      | Some ws \<Rightarrow>
          let s = (if ws_egl_window ws \<noteq> 0 then host (Egl_window_destroy (ws_egl_window ws)) s else s);
              s = (if ws_shell_surface ws \<noteq> 0 then host (Shell_surface_destroy (ws_shell_surface ws)) s else s)
          in if ws_surface ws \<noteq> 0 then host (Surface_destroy (ws_surface ws)) s else s)"

definition wayland_add_output :: "nest_env \<Rightarrow> wayland_surface \<Rightarrow> wlc_output_information \<Rightarrow> nested \<Rightarrow> bool \<times> nested" where
  "wayland_add_output N surface info s =
     (if \<not> nx_calloc N then (False, s)
      else (True, nx_add_output N \<lparr>bs_display = wb_display (ns_wayland s), bs_window = ws_egl_window surface, bs_api_sleep = False,
                    bs_api_set_gamma = False, bs_api_get_gamma_size = False\<rparr> info (Some surface) s))"

text \<open>A host object that is NULL where a request is sent to it is read at once.\<close>

definition wayland_window :: "nest_env \<Rightarrow> nat \<Rightarrow> nested \<Rightarrow> nat \<times> nested" where
  "wayland_window N i s =
     (if wb_compositor (ns_wayland s) = 0 then (0, world_of (fail Null_pointer) s)
      else
        let surface = nx_new N s; s = host (Create_surface surface) s in
        if wb_shell (ns_wayland s) = 0 \<or> surface = 0 then (0, world_of (fail Null_pointer) s)
        else
          let shell = nx_new N s; s = host (Get_shell_surface shell) s in
          if shell = 0 then (0, world_of (fail Null_pointer) s)
          else
            let win = nx_new N s; s = host (Create_egl_window win) s;
                (ok, s) = wayland_add_output N \<lparr>ws_surface = surface, ws_shell_surface = shell, ws_egl_window = win\<rparr>
                  (fake_information N ''Wayland'' ''Wayland Window'' 800 480 (of_nat (i + 1))) s
            in (of_bool ok, s))"

definition wayland_update_outputs :: "nest_env \<Rightarrow> bool \<Rightarrow> nested \<Rightarrow> nat \<times> nested" where
  "wayland_update_outputs N outputs s =
     (if (if outputs then length (windows (ns_world s)) else 0) \<ge> fakes N then (0, s)
      else sum_counts (wayland_window N) [0..<fakes N] s)"

definition wayland_terminate :: "nested \<Rightarrow> nested" where
  "wayland_terminate s =
     (let b = ns_wayland s;
          s = (if wb_shell b \<noteq> 0 then host Shell_destroy s else s);
          s = (if wb_seat b \<noteq> 0 then host Seat_destroy s else s);
          s = (if wb_compositor b \<noteq> 0 then host Compositor_destroy s else s);
          s = (if wb_registry b \<noteq> 0 then host Registry_destroy s else s);
          s = (if wb_display b \<noteq> 0 then host Display_disconnect (host Flush s) else s);
          s = (if wb_event_source b \<noteq> 0 then host Source_remove s else s)
      in s\<lparr>ns_wayland := wayland_zero\<rparr>)"

text \<open>\<open>globals\<close> are the events of the first round trip.\<close>

definition wlc_wayland :: "nest_env \<Rightarrow> client_event list \<Rightarrow> nested \<Rightarrow> bool \<times> nested" where
  "wlc_wayland N globals s =
     (if \<not> nx_getenv N ''WAYLAND_DISPLAY'' \<and> \<not> nx_getenv N ''WAYLAND_SOCKET'' then (False, s)
      else
        let s = set_wayland (wb_display_update (\<lambda>_. nx_open N ''display'')) s in
        if nx_open N ''display'' = 0 then (False, wayland_terminate s)
        else
          let s = set_wayland (wb_registry_update (\<lambda>_. nx_open N ''registry'')) s in
          if nx_open N ''registry'' = 0 then (False, wayland_terminate s)
          else
            let s = fold (client_handle N) globals (host Dispatch s);
                s = set_wayland (wb_event_source_update (\<lambda>_. nx_open N ''event source'')) s
            in if nx_open N ''event source'' = 0 then (False, wayland_terminate s) else (True, s))"

section \<open>Devices of the host's seat\<close>

lemma world_of_simps [simp]:
  "ns_wayland (world_of f s) = ns_wayland s" "ns_calls (world_of f s) = ns_calls s" "ns_internal (world_of f s) = ns_internal s"
  "ns_x11 (world_of f s) = ns_x11 s" "ns_world (world_of f s) = f (ns_world s)"
  by (simp_all add: world_of_def)

lemma host_simps [simp]:
  "ns_wayland (host c s) = ns_wayland s" "ns_calls (host c s) = ns_calls s @ [c]" "ns_internal (host c s) = ns_internal s"
  "ns_x11 (host c s) = ns_x11 s" "ns_world (host c s) = ns_world s"
  by (simp_all add: host_def)

lemma set_wayland_simps [simp]:
  "ns_wayland (set_wayland g s) = g (ns_wayland s)" "ns_calls (set_wayland g s) = ns_calls s"
  "ns_world (set_wayland g s) = ns_world s" "ns_internal (set_wayland g s) = ns_internal s"
  by (simp_all add: set_wayland_def)

text \<open>A device is taken once more than it is released if it is held, and as often if it is not.\<close>

definition balanced_on :: "host_call \<Rightarrow> host_call \<Rightarrow> nat \<Rightarrow> host_call list \<Rightarrow> bool" where
  "balanced_on get rel dev cs \<longleftrightarrow> count_list cs get = count_list cs rel + of_bool (dev \<noteq> 0)"

definition devices_ok :: "nested \<Rightarrow> bool" where
  "devices_ok s \<longleftrightarrow>
     balanced_on Get_pointer Release_pointer (wb_pointer (ns_wayland s)) (ns_calls s) \<and>
     balanced_on Get_keyboard Release_keyboard (wb_keyboard (ns_wayland s)) (ns_calls s) \<and>
     balanced_on Get_touch Release_touch (wb_touch (ns_wayland s)) (ns_calls s)"

definition devices_held :: "nested \<Rightarrow> bool \<times> bool \<times> bool" where
  "devices_held s = (wb_pointer (ns_wayland s) \<noteq> 0, wb_keyboard (ns_wayland s) \<noteq> 0, wb_touch (ns_wayland s) \<noteq> 0)"

text \<open>What the last event of the host about capabilities said.\<close>

fun capabilities :: "bool \<times> bool \<times> bool \<Rightarrow> client_event list \<Rightarrow> bool \<times> bool \<times> bool" where
  "capabilities c [] = c"
| "capabilities c (Seat_capabilities caps # es) = capabilities (bit caps 0, bit caps 1, bit caps 2) es"
| "capabilities c (e # es) = capabilities c es"

lemma capabilities_step:
  assumes new: "\<And>s. nx_new N s \<noteq> 0" and ok: "devices_ok s"
  shows "devices_ok (input_handle_capabilities N caps s) \<and>
    devices_held (input_handle_capabilities N caps s) = (bit caps 0, bit caps 1, bit caps 2)"
  using ok by (simp add: input_handle_capabilities_def follow_def devices_ok_def devices_held_def balanced_on_def Let_def new)

definition same_devices :: "nested \<Rightarrow> nested \<Rightarrow> bool" where
  "same_devices s t \<longleftrightarrow> devices_held t = devices_held s \<and> (devices_ok s \<longrightarrow> devices_ok t)"

lemma same_devices_refl [simp]: "same_devices s s"
  by (simp add: same_devices_def)

lemma same_devices_world [simp]: "same_devices s (world_of f t) = same_devices s t"
  by (simp add: same_devices_def devices_held_def devices_ok_def)

lemma same_devices_enter [simp]: "same_devices s (pointer_handle_enter N surface s)"
  by (simp add: pointer_handle_enter_def same_devices_def devices_held_def devices_ok_def balanced_on_def split: option.splits)

lemma same_devices_global [simp]: "same_devices s (registry_handle_global N name interface s)"
  by (simp add: registry_handle_global_def Let_def same_devices_def devices_held_def devices_ok_def balanced_on_def)

lemma same_devices_pong [simp]: "same_devices s (host (Pong surface serial) s)"
  by (simp add: same_devices_def devices_held_def devices_ok_def balanced_on_def)

lemma client_handle_devices:
  assumes "\<nexists>caps. e = Seat_capabilities caps"
  shows "same_devices s (client_handle N e s)"
  using assms by (cases e) simp_all

lemma capabilities_other:
  assumes "\<nexists>caps. e = Seat_capabilities caps"
  shows "capabilities c (e # es) = capabilities c es"
  using assms by (cases e) simp_all

text \<open>C31 (invariant). 
  C1 (invariant). Whatever the host display sends, the nested wayland back end holds a pointer, a keyboard and a touch
  device exactly when the last event about the capabilities of the seat announced them, and has released every other
  device it ever took, once.
\<close>
theorem wayland_devices_follow_capabilities:
  assumes "\<And>s. nx_new N s \<noteq> 0" "devices_ok s"
  shows "devices_ok (fold (client_handle N) events s) \<and>
    devices_held (fold (client_handle N) events s) = capabilities (devices_held s) events"
  using assms(2)
proof (induction events arbitrary: s)
  case (Cons e es)
  show ?case
  proof (cases "\<exists>caps. e = Seat_capabilities caps")
    case True
    then obtain caps where e: "e = Seat_capabilities caps" by blast
    show ?thesis using Cons.IH [of "client_handle N e s"] capabilities_step [OF assms(1) Cons.prems, of caps] by (simp add: e)
  next
    case False
    then have "same_devices s (client_handle N e s)" by (rule client_handle_devices)
    then show ?thesis
      using Cons.IH [of "client_handle N e s"] Cons.prems False by (simp add: same_devices_def capabilities_other)
  qed
qed simp

text \<open>An environment in which every call of the host succeeds, and the state the back end starts from.\<close>

definition nest_ref :: nest_env where
  "nest_ref = \<lparr>nx_env = env_ref, nx_has_input = False, nx_outputs = Some 2, nx_getenv = (\<lambda>_. True), nx_open = (\<lambda>_. 1),
     nx_new = (\<lambda>s. Suc (length (ns_calls s))), nx_root_taken = True, nx_created = (\<lambda>_ _. True), nx_calloc = True,
     nx_clamp = (\<lambda>x high. max 0 (min (of_int x) (u32_real high))), nx_update_mask = (\<lambda>n _ _ _ _. n), nx_time = (\<lambda>_. (0, 0)),
     nx_clampd = (\<lambda>x high. max 0 (min x (u32_real high))), nx_modes = pool_ref, nx_add_output = (\<lambda>_ _ _ s. s),
     nx_terminate = (\<lambda>w. w)\<rparr>"

definition nested_blank :: nested where
  "nested_blank = \<lparr>ns_world = world_blank, ns_x11 = x11_zero, ns_wayland = wayland_zero, ns_internal = (\<lambda>_. None), ns_calls = []\<rparr>"

theorem wayland_devices_follow_capabilities_witness:
  "let s = fold (client_handle nest_ref) [Seat_capabilities 7, Pointer_leave, Seat_capabilities 2] nested_blank
   in devices_ok s \<and> devices_held s = (False, True, False)"
proof -
  have bits: "bit (2::u32) 0 = False" "bit (2::u32) 1 = True" "bit (2::u32) 2 = False" by code_simp+
  have "devices_ok nested_blank"
    by (simp add: devices_ok_def balanced_on_def nested_blank_def wayland_zero_def)
  from wayland_devices_follow_capabilities [OF _ this,
      of nest_ref "[Seat_capabilities 7, Pointer_leave, Seat_capabilities 2]"]
  show ?thesis by (simp only: Let_def capabilities.simps bits) (simp add: nest_ref_def)
qed

section \<open>Windows for outputs\<close>

lemma sum_counts_all:
  assumes "\<And>i s. P s \<Longrightarrow> fst (f i s) = 1 \<and> P (snd (f i s))" "P s"
  shows "fst (sum_counts f is s) = length is \<and> P (snd (sum_counts f is s))"
  using assms(2)
proof (induction "is" arbitrary: s)
  case (Cons i "is")
  have one: "fst (f i s) = 1" "P (snd (f i s))" using assms(1) [OF Cons.prems] by blast+
  show ?case using Cons.IH [OF one(2)] by (simp add: case_prod_beta one(1))
qed simp

definition host_works :: "nest_env \<Rightarrow> bool" where
  "host_works N \<longleftrightarrow>
     (\<forall>s. nx_new N s \<noteq> 0) \<and> nx_root_taken N \<and> (\<forall>s win. nx_created N s win) \<and> nx_calloc N \<and>
     (\<forall>b i k s. ns_wayland (nx_add_output N b i k s) = ns_wayland s)"

lemma x11_window_created:
  assumes "host_works N"
  shows "fst (x11_window N i s) = 1"
  using assms by (simp add: host_works_def x11_window_def x11_add_output_def Let_def)

lemma wayland_window_created:
  assumes "host_works N" "wb_compositor (ns_wayland s) \<noteq> 0 \<and> wb_shell (ns_wayland s) \<noteq> 0"
  shows "fst (wayland_window N i s) = 1 \<and>
    wb_compositor (ns_wayland (snd (wayland_window N i s))) \<noteq> 0 \<and> wb_shell (ns_wayland (snd (wayland_window N i s))) \<noteq> 0"
  using assms by (simp add: host_works_def wayland_window_def wayland_add_output_def Let_def)

text \<open>
  C1 (functional). An update that finds fewer outputs than \<open>WLC_OUTPUTS\<close> asks for adds that many again instead of the
  missing ones, on both nested back ends; one that finds enough adds none.
\<close>
theorem nested_outputs_overshoot:
  assumes "host_works N" "wb_compositor (ns_wayland s) \<noteq> 0" "wb_shell (ns_wayland s) \<noteq> 0"
  shows "fst (x11_update_outputs N True s) = (if length (windows (ns_world s)) < fakes N then fakes N else 0) \<and>
    fst (wayland_update_outputs N True s) = (if length (windows (ns_world s)) < fakes N then fakes N else 0)"
proof -
  have "fst (sum_counts (x11_window N) [0..<fakes N] t) = fakes N" for t
    using sum_counts_all [where P = "\<lambda>_. True" and f = "x11_window N"] x11_window_created [OF assms(1)] by simp
  moreover have "fst (sum_counts (wayland_window N) [0..<fakes N] s) = fakes N"
    using sum_counts_all [where P = "\<lambda>s. wb_compositor (ns_wayland s) \<noteq> 0 \<and> wb_shell (ns_wayland s) \<noteq> 0", of "wayland_window N" s]
      wayland_window_created [OF assms(1)] assms(2,3) by simp
  ultimately show ?thesis
    using assms(1) by (simp add: x11_update_outputs_def wayland_update_outputs_def Let_def host_works_def not_le)
qed

definition nested_one :: nested where
  "nested_one = nested_blank\<lparr>
     ns_wayland := wayland_zero\<lparr>wb_compositor := 1, wb_shell := 2\<rparr>,
     ns_world := world_blank\<lparr>
       w_outputs := [1 \<mapsto> output_blank\<lparr>o_bsurface := (o_bsurface output_blank)\<lparr>bs_window := 9\<rparr>\<rparr>],
       w_comp := (w_comp world_blank)\<lparr>c_outputs := [1]\<rparr>\<rparr>\<rparr>"

theorem nested_outputs_overshoot_witness:
  "length (windows (ns_world nested_one)) = 1 \<and> fakes nest_ref = 2 \<and>
   fst (x11_update_outputs nest_ref True nested_one) = 2 \<and> fst (wayland_update_outputs nest_ref True nested_one) = 2"
proof -
  have works: "host_works nest_ref" by (simp add: host_works_def nest_ref_def)
  have one: "length (windows (ns_world nested_one)) = 1" by code_simp
  have two: "fakes nest_ref = 2" by (simp add: fakes_def nest_ref_def max_def word_le_nat_alt)
  have "wb_compositor (ns_wayland nested_one) \<noteq> 0" "wb_shell (ns_wayland nested_one) \<noteq> 0"
    by (simp_all add: nested_one_def)
  from nested_outputs_overshoot [OF works this] show ?thesis by (simp add: one two)
qed

lemma shell_enter [simp]: "wb_shell (ns_wayland (pointer_handle_enter N surface s)) = wb_shell (ns_wayland s)"
  by (simp add: pointer_handle_enter_def split: option.splits)

lemma shell_follow:
  assumes "\<And>f b. wb_shell (upd f b) = wb_shell b"
  shows "wb_shell (ns_wayland (follow N has dev upd get rel s)) = wb_shell (ns_wayland s)"
  by (simp add: follow_def Let_def assms)

lemma shell_capabilities [simp]: "wb_shell (ns_wayland (input_handle_capabilities N caps s)) = wb_shell (ns_wayland s)"
  by (simp add: input_handle_capabilities_def shell_follow)

lemma shell_global:
  "interface \<noteq> ''wl_shell'' \<Longrightarrow> wb_shell (ns_wayland (registry_handle_global N name interface s)) = wb_shell (ns_wayland s)"
  by (simp add: registry_handle_global_def Let_def)

lemma shell_client_handle:
  assumes "e \<notin> range (\<lambda>name. Registry_global name ''wl_shell'')"
  shows "wb_shell (ns_wayland (client_handle N e s)) = wb_shell (ns_wayland s)"
  using assms by (cases e) (simp_all add: shell_global image_iff)

lemma wayland_window_no_shell:
  "wb_shell (ns_wayland s) = 0 \<Longrightarrow> Null_pointer \<in> set (w_faults (ns_world (snd (wayland_window N i s))))"
  by (simp add: wayland_window_def Let_def fail_def)

text \<open>
  C1 (error). On a host that announces no \<open>wl_shell\<close> the back end starts, and then reads a NULL proxy as soon as an
  output is to be created.
\<close>
theorem wayland_without_shell_faults:
  assumes "nx_getenv N ''WAYLAND_DISPLAY''" "\<And>what. nx_open N what \<noteq> 0" "ns_wayland s = wayland_zero"
    "set globals \<inter> range (\<lambda>name. Registry_global name ''wl_shell'') = {}"
  shows "fst (wlc_wayland N globals s) \<and>
    Null_pointer \<in> set (w_faults (ns_world (snd (wayland_window N 0 (snd (wlc_wayland N globals s))))))"
proof -
  have "wb_shell (ns_wayland (fold (client_handle N) globals t)) = wb_shell (ns_wayland t)" for t
    using assms(4) by (induction globals arbitrary: t) (simp_all add: shell_client_handle)
  then have "fst (wlc_wayland N globals s) \<and> wb_shell (ns_wayland (snd (wlc_wayland N globals s))) = 0"
    by (simp add: wlc_wayland_def Let_def assms(1-3) wayland_zero_def)
  then show ?thesis by (simp add: wayland_window_no_shell)
qed

theorem wayland_without_shell_faults_witness:
  "let s = snd (wlc_wayland nest_ref [Registry_global 1 ''wl_compositor'', Registry_global 2 ''wl_seat''] nested_blank)
   in Null_pointer \<in> set (w_faults (ns_world (snd (wayland_window nest_ref 0 s))))"
proof -
  have "nx_getenv nest_ref ''WAYLAND_DISPLAY''" "nx_open nest_ref what \<noteq> 0" for what by (simp_all add: nest_ref_def)
  moreover have "ns_wayland nested_blank = wayland_zero" by (simp add: nested_blank_def)
  ultimately show ?thesis
    using wayland_without_shell_faults [of nest_ref nested_blank "[Registry_global 1 ''wl_compositor'', Registry_global 2 ''wl_seat'']"]
    by (simp add: Let_def image_iff)
qed

section \<open>Buttons\<close>

text \<open>A press and a release of the same button carry the same code, another button another; the wheel is never pressed.\<close>

lemma x11_press_release:
  assumes "\<not> (4 \<le> detail \<and> detail \<le> 7)"
  shows "x11_input N (XCB_BUTTON_PRESS time detail) = Some (WLC_INPUT_EVENT_BUTTON time (x11_button detail) True) \<and>
    x11_input N (XCB_BUTTON_RELEASE time detail) = Some (WLC_INPUT_EVENT_BUTTON time (x11_button detail) False)"
proof -
  have "detail \<noteq> 4" "detail \<noteq> 5" "detail \<noteq> 6" "detail \<noteq> 7"
    using assms by (auto simp: word_le_nat_alt)
  then show ?thesis using assms by (auto simp: x11_release_def)
qed

section \<open>Ends\<close>

lemma x11_start_failure_clears: "\<not> fst (wlc_x11 N s) \<Longrightarrow> ns_x11 (snd (wlc_x11 N s)) = x11_zero"
  by (auto simp: wlc_x11_def x11_terminate_def Let_def split: prod.splits if_splits)

lemma wayland_terminate_clears [simp]: "ns_wayland (wayland_terminate s) = wayland_zero"
  by (simp add: wayland_terminate_def Let_def)

text \<open>Releasing the surface of an output destroys the window, the shell surface and the surface, in that order.\<close>

lemma wayland_surface_release_calls:
  assumes "ws_surface ws \<noteq> 0" "ws_shell_surface ws \<noteq> 0" "ws_egl_window ws \<noteq> 0"
  shows "ns_calls (wayland_surface_release (Some ws) s) = ns_calls s @
    [Egl_window_destroy (ws_egl_window ws), Shell_surface_destroy (ws_shell_surface ws), Surface_destroy (ws_surface ws)]"
  using assms by (simp add: wayland_surface_release_def Let_def)

end
