(* ===== verification/Gles2.thy ===== *)
theory Gles2
  imports Attach Egl
begin

text \<open>
  The OpenGL ES 2 renderer (src/platform/render/gles2.c): creation, textures and images of surfaces, painting, pixels.

  \<open>gles2\<close> is the world with the renderer: the \<open>struct ctx\<close>, the textures, images and format of every surface, the
  two debug switches and the history of calls. OpenGL is the record \<open>gl_lib\<close>: a name it returns may depend on the
  history. The images of a context are made by the functions of the context (egl.c), which are calls here. The text of
  the shaders is not modelled, they have names; the log of OpenGL errors is left out, and so is the surface format of
  X11 windows, which the modelled build does not have.
\<close>

section \<open>Data\<close>

datatype program_type =
    PROGRAM_RGB | PROGRAM_RGBA | PROGRAM_EGL | PROGRAM_Y_UV | PROGRAM_Y_U_V | PROGRAM_Y_XUXV | PROGRAM_CURSOR

definition programs :: "program_type list" where
  "programs = [PROGRAM_RGB, PROGRAM_RGBA, PROGRAM_EGL, PROGRAM_Y_UV, PROGRAM_Y_U_V, PROGRAM_Y_XUXV, PROGRAM_CURSOR]"

datatype shader = Vert_shader | Frag_shader program_type | Frag_shader_dummy

datatype texture = TEXTURE_BLACK | TEXTURE_RED | TEXTURE_BLUE | TEXTURE_CURSOR | TEXTURE_FAKEFB

definition fixed_textures :: "texture list" where
  "fixed_textures = [TEXTURE_BLACK, TEXTURE_RED, TEXTURE_BLUE, TEXTURE_CURSOR, TEXTURE_FAKEFB]"

datatype gl_target = GL_TEXTURE_2D | GL_TEXTURE_EXTERNAL_OES
datatype gl_format = GL_LUMINANCE | GL_RGB | GL_RGBA | GL_BGRA_EXT
datatype gl_type = GL_UNSIGNED_BYTE | GL_UNSIGNED_SHORT_5_6_5
datatype gl_blend = Blend_over | Blend_multiply
datatype gl_filter = GL_LINEAR | GL_NEAREST
datatype gl_pixels = No_pixels | Bytes "nat list" | Client_memory nat

text \<open>The values of \<open>enum wlc_surface_format\<close> are those of the first six programs.\<close>

datatype wlc_surface_format = SURFACE_RGB | SURFACE_RGBA | SURFACE_EGL | SURFACE_Y_UV | SURFACE_Y_U_V | SURFACE_Y_XUXV

fun program_of :: "wlc_surface_format \<Rightarrow> program_type" where
  "program_of SURFACE_RGB = PROGRAM_RGB"
| "program_of SURFACE_RGBA = PROGRAM_RGBA"
| "program_of SURFACE_EGL = PROGRAM_EGL"
| "program_of SURFACE_Y_UV = PROGRAM_Y_UV"
| "program_of SURFACE_Y_U_V = PROGRAM_Y_U_V"
| "program_of SURFACE_Y_XUXV = PROGRAM_Y_XUXV"

datatype gl_call =
    GetString string
  | CreateShader shader | CompileShader nat | DeleteShader nat
  | CreateProgram | AttachShader nat nat | LinkProgram nat | UseProgram nat | DeleteProgram nat
  | BindAttribLocation nat nat string | GetUniformLocation nat string | Uniform1i nat nat | Uniform2fv nat real real
  | GenTexture nat | DeleteTexture nat | ActiveTexture nat | BindTexture gl_target nat
  | TexClamp | TexFilter gl_filter
  | TexImage2D gl_format u32 u32 gl_type gl_pixels
  | TexSubImage2D int int u32 u32 nat
  | PixelStorei string int
  | EnableVertexAttribArray nat
  | GenFramebuffer | DeleteFramebuffer nat | BindFramebuffer nat | FramebufferTexture2D nat
  | EnableBlend | BlendFunc gl_blend | ClearColor | Clear
  | Viewport u32 u32
  | Draw "(real \<times> real) list"
  | ReadPixels int u32 u32 u32
  | Begin_access nat | End_access nat
  | Gl_query nat string
  | Create_image nat nat | Destroy_image nat | Image_target gl_target nat
  | Get_proc_address string

record ctx_program =
  cp_obj :: nat
  cp_uniforms :: "nat list"

record gl_ctx =
  gc_extensions :: "string option"
  gc_program :: "program_type option"
  gc_programs :: "program_type \<Rightarrow> ctx_program"
  gc_resolution :: wlc_size
  gc_mode :: wlc_size
  gc_scale :: u32
  gc_textures :: "texture \<Rightarrow> nat"
  gc_clear_fbo :: nat
  gc_native_resolution :: bool
  gc_fakefb_dirty :: bool
  gc_image_target :: nat

text \<open>A surface as the renderer sees it: three textures, three images, 0 for none.\<close>

record gl_surface =
  gs_textures :: "nat \<Rightarrow> nat"
  gs_images :: "nat \<Rightarrow> nat"
  gs_format :: wlc_surface_format

definition gl_surface_zero :: gl_surface where
  "gl_surface_zero = \<lparr>gs_textures = (\<lambda>_. 0), gs_images = (\<lambda>_. 0), gs_format = SURFACE_RGB\<rparr>"

record gles2 =
  gl_world :: world
  gl_ctx :: gl_ctx
  gl_surfaces :: "nat \<Rightarrow> gl_surface"
  gl_draw_opaque :: bool
  gl_draw_input :: bool
  gl_calls :: "gl_call list"

record shm_buffer =
  sb_width :: int
  sb_height :: int
  sb_stride :: int
  sb_format :: u32

text \<open>
  \<open>ll_shm\<close> is \<open>wl_shm_buffer_get\<close>; \<open>ll_query\<close> the attributes of a buffer of the context.
\<close>

record gl_lib =
  ll_name :: "gl_call list \<Rightarrow> gl_call \<Rightarrow> nat"
  ll_status :: "gl_call list \<Rightarrow> bool"
  ll_string :: "string \<Rightarrow> string option"
  ll_shm :: "nat \<Rightarrow> shm_buffer option"
  ll_query :: "nat \<Rightarrow> string \<Rightarrow> int option"
  ll_calloc :: bool
  ll_env_opaque :: "bool option"
  ll_env_input :: "bool option"

definition gl :: "gl_call \<Rightarrow> gles2 \<Rightarrow> gles2" where
  "gl c s = s\<lparr>gl_calls := gl_calls s @ [c]\<rparr>"

text \<open>A call that returns a name, of an object made or of a place found.\<close>

definition glname :: "gl_lib \<Rightarrow> gl_call \<Rightarrow> gles2 \<Rightarrow> nat \<times> gles2" where
  "glname L c s = (ll_name L (gl_calls s) c, gl c s)"

definition upd_gl :: "(gl_ctx \<Rightarrow> gl_ctx) \<Rightarrow> gles2 \<Rightarrow> gles2" where
  "upd_gl f s = s\<lparr>gl_ctx := f (gl_ctx s)\<rparr>"

definition upd_gl_surface :: "nat \<Rightarrow> (gl_surface \<Rightarrow> gl_surface) \<Rightarrow> gles2 \<Rightarrow> gles2" where
  "upd_gl_surface sid f s = s\<lparr>gl_surfaces := (gl_surfaces s)(sid := f (gl_surfaces s sid))\<rparr>"

definition gl_fail :: "fault \<Rightarrow> gles2 \<Rightarrow> gles2" where
  "gl_fail f s = s\<lparr>gl_world := fail f (gl_world s)\<rparr>"

section \<open>Creation\<close>

definition gl_has_extension :: "gles2 \<Rightarrow> string \<Rightarrow> bool" where
  "gl_has_extension s extension = is_extension_supported (gc_extensions (gl_ctx s)) extension"

definition set_program :: "program_type \<Rightarrow> gles2 \<Rightarrow> gles2" where
  "set_program p s =
     gl (UseProgram (cp_obj (gc_programs (gl_ctx s) p))) (upd_gl (\<lambda>c. c\<lparr>gc_program := Some p\<rparr>) s)"

text \<open>None: the process has called \<open>abort\<close>.\<close>

definition create_shader :: "gl_lib \<Rightarrow> shader \<Rightarrow> gles2 \<Rightarrow> nat option \<times> gles2" where
  "create_shader L source s =
     (let (sh, s) = glname L (CreateShader source) s;
          s = (if sh = 0 then gl_fail Assertion s else s);
          s = gl (CompileShader sh) s
      in if ll_status L (gl_calls s) then (Some sh, s) else (None, gl_fail Abort s))"

definition uniform_names :: "string list" where
  "uniform_names = [''texture0'', ''texture1'', ''texture2'', ''resolution'']"

fun uniforms :: "gl_lib \<Rightarrow> program_type \<Rightarrow> string list \<Rightarrow> gles2 \<Rightarrow> gles2" where
  "uniforms L p [] s = s"
| "uniforms L p (n # ns) s =
     (let (u, s) = glname L (GetUniformLocation (cp_obj (gc_programs (gl_ctx s) p)) n) s
      in uniforms L p ns
           (upd_gl (\<lambda>c. c\<lparr>gc_programs := (gc_programs c)(p := (gc_programs c p)\<lparr>cp_uniforms := cp_uniforms (gc_programs c p) @ [u]\<rparr>)\<rparr>) s))"

definition create_program :: "gl_lib \<Rightarrow> program_type \<Rightarrow> shader \<Rightarrow> gles2 \<Rightarrow> bool \<times> gles2" where
  "create_program L p source s =
     (case create_shader L Vert_shader s of
        (None, s) \<Rightarrow> (False, s)
      | (Some vert, s) \<Rightarrow>
          case create_shader L source s of
            (None, s) \<Rightarrow> (False, s)
          | (Some frag, s) \<Rightarrow>
              let (obj, s) = glname L CreateProgram s;
                  s = upd_gl (\<lambda>c. c\<lparr>gc_programs := (gc_programs c)(p := \<lparr>cp_obj = obj, cp_uniforms = []\<rparr>)\<rparr>) s;
                  s = gl (DeleteShader frag) (gl (DeleteShader vert) (gl (LinkProgram obj) (gl (AttachShader obj frag) (gl (AttachShader obj vert) s))))
              in
              if \<not> ll_status L (gl_calls s) then (False, gl_fail Abort s)
              else
                let s = set_program p s;
                    s = gl (BindAttribLocation obj 1 ''uv'') (gl (BindAttribLocation obj 0 ''pos'') s);
                    s = uniforms L p uniform_names s;
                    us = cp_uniforms (gc_programs (gl_ctx s) p)
                in (True, gl (Uniform1i (us ! 2) 2) (gl (Uniform1i (us ! 1) 1) (gl (Uniform1i (us ! 0) 0) s))))"

fun create_programs :: "gl_lib \<Rightarrow> (program_type \<Rightarrow> shader) \<Rightarrow> program_type list \<Rightarrow> gles2 \<Rightarrow> bool \<times> gles2" where
  "create_programs L source [] s = (True, s)"
| "create_programs L source (p # ps) s =
     (let (ok, s) = create_program L p (source p) s in if ok then create_programs L source ps s else (False, s))"

text \<open>The arrow: 0 is black, 1 white, 2 transparent.\<close>

definition cursor_palette :: "nat list" where
  "cursor_palette = [
     1, 1, 1, 1, 1, 1, 1, 1, 1, 1, 1, 1, 1, 1,
     1, 0, 0, 0, 0, 0, 0, 0, 0, 0, 0, 1, 1, 2,
     1, 0, 0, 0, 0, 0, 0, 0, 0, 0, 1, 2, 2, 2,
     1, 0, 0, 0, 0, 0, 0, 0, 0, 1, 2, 2, 2, 2,
     1, 0, 0, 0, 0, 0, 0, 0, 0, 1, 2, 2, 2, 2,
     1, 0, 0, 0, 0, 0, 0, 0, 0, 0, 1, 2, 2, 2,
     1, 0, 0, 0, 0, 0, 0, 0, 0, 0, 0, 1, 2, 2,
     1, 0, 0, 0, 0, 0, 0, 0, 0, 0, 0, 0, 1, 2,
     1, 0, 0, 0, 0, 0, 0, 0, 0, 0, 0, 0, 0, 1,
     1, 0, 0, 1, 1, 0, 0, 0, 0, 0, 0, 0, 1, 2,
     1, 0, 1, 2, 2, 1, 0, 0, 0, 0, 0, 1, 2, 2,
     1, 1, 2, 2, 2, 2, 1, 0, 0, 0, 1, 2, 2, 2,
     1, 1, 2, 2, 2, 2, 2, 1, 0, 1, 2, 2, 2, 2,
     1, 2, 2, 2, 2, 2, 2, 2, 1, 2, 2, 2, 2, 2]"

fun fixed_image :: "texture \<Rightarrow> gl_call" where
  "fixed_image TEXTURE_BLACK = TexImage2D GL_LUMINANCE 1 1 GL_UNSIGNED_BYTE No_pixels"
| "fixed_image TEXTURE_RED = TexImage2D GL_RGB 1 1 GL_UNSIGNED_BYTE (Bytes [255, 0, 0])"
| "fixed_image TEXTURE_BLUE = TexImage2D GL_RGB 1 1 GL_UNSIGNED_BYTE (Bytes [0, 0, 255])"
| "fixed_image TEXTURE_CURSOR = TexImage2D GL_LUMINANCE 14 14 GL_UNSIGNED_BYTE (Bytes cursor_palette)"
| "fixed_image TEXTURE_FAKEFB = TexImage2D GL_RGBA 0 0 GL_UNSIGNED_BYTE No_pixels"

text \<open>One call makes the names of all; here it is a call for each.\<close>

definition gen_texture :: "gl_lib \<Rightarrow> texture \<Rightarrow> gles2 \<Rightarrow> gles2" where
  "gen_texture L t s =
     (let n = ll_name L (gl_calls s) (GenTexture 0)
      in upd_gl (\<lambda>c. c\<lparr>gc_textures := (gc_textures c)(t := n)\<rparr>) (gl (GenTexture n) s))"

definition fill_texture :: "texture \<Rightarrow> gles2 \<Rightarrow> gles2" where
  "fill_texture t s = gl (fixed_image t) (gl TexClamp (gl (BindTexture GL_TEXTURE_2D (gc_textures (gl_ctx s) t)) s))"

definition gl_ctx_zero :: gl_ctx where
  "gl_ctx_zero = \<lparr>gc_extensions = None, gc_program = None,
     gc_programs = (\<lambda>_. \<lparr>cp_obj = 0, cp_uniforms = []\<rparr>), gc_resolution = wlc_size_zero, gc_mode = wlc_size_zero, gc_scale = 0,
     gc_textures = (\<lambda>_. 0), gc_clear_fbo = 0, gc_native_resolution = False, gc_fakefb_dirty = False, gc_image_target = 0\<rparr>"

definition gl_create_context :: "gl_lib \<Rightarrow> gles2 \<Rightarrow> bool \<times> gles2" where
  "gl_create_context L s =
     (if \<not> ll_calloc L then (False, s)
      else
        let s = upd_gl (\<lambda>_. gl_ctx_zero) s;
            s = gl (GetString ''GL_EXTENSIONS'') (gl (GetString ''GL_VENDOR'') (gl (GetString ''GL_VERSION'') s));
            s = upd_gl (\<lambda>c. c\<lparr>gc_extensions := ll_string L ''GL_EXTENSIONS''\<rparr>) s;
            egl = gl_has_extension s ''GL_OES_EGL_image_external'';
            (ok, s) = create_programs L (\<lambda>p. if p = PROGRAM_EGL \<and> \<not> egl then Frag_shader_dummy else Frag_shader p) programs s
        in
        if \<not> ok then (False, s)
        else
          let s = fold (gen_texture L) fixed_textures (gl (PixelStorei ''GL_UNPACK_ALIGNMENT'' 1) s);
              s = fold fill_texture fixed_textures s;
              s = gl (EnableVertexAttribArray 1) (gl (EnableVertexAttribArray 0) s);
              (fbo, s) = glname L GenFramebuffer s;
              s = upd_gl (\<lambda>c. c\<lparr>gc_clear_fbo := fbo\<rparr>) s;
              s = gl (BindFramebuffer 0) (gl (FramebufferTexture2D (gc_textures (gl_ctx s) TEXTURE_FAKEFB)) (gl (BindFramebuffer fbo) s))
          in (True, gl ClearColor (gl (BlendFunc Blend_over) (gl EnableBlend s))))"

text \<open>The result of \<open>wlc_gles2\<close> is whether it returned a renderer, whose functions are those below.\<close>

definition wlc_gles2 :: "gl_lib \<Rightarrow> gles2 \<Rightarrow> bool \<times> gles2" where
  "wlc_gles2 L s =
     (let (ok, s) = gl_create_context L s in
      if \<not> ok then (False, s)
      else (True, s\<lparr>gl_draw_opaque := (case ll_env_opaque L of None \<Rightarrow> gl_draw_opaque s | Some b \<Rightarrow> b),
                    gl_draw_input := (case ll_env_input L of None \<Rightarrow> gl_draw_input s | Some b \<Rightarrow> b)\<rparr>))"

definition gl_terminate :: "gles2 \<Rightarrow> gles2" where
  "gl_terminate s =
     (let s = fold (\<lambda>p s. gl (DeleteProgram (cp_obj (gc_programs (gl_ctx s) p))) s) programs s;
          s = fold (\<lambda>t s. gl (DeleteTexture (gc_textures (gl_ctx s) t)) s) fixed_textures s
      in gl (DeleteFramebuffer (gc_clear_fbo (gl_ctx s))) s)"

section \<open>Resolution\<close>

definition clear_fakefb :: "gles2 \<Rightarrow> gles2" where
  "clear_fakefb s = gl (BindFramebuffer 0) (gl Clear (gl (BindFramebuffer (gc_clear_fbo (gl_ctx s))) s))"

definition set_resolution :: "env \<Rightarrow> wlc_size \<Rightarrow> program_type \<Rightarrow> gles2 \<Rightarrow> gles2" where
  "set_resolution E res p s =
     (let s = set_program p s
      in gl (Uniform2fv (cp_uniforms (gc_programs (gl_ctx s) p) ! 3) (flt_u32 E (sw res)) (flt_u32 E (sh res))) s)"

definition resolution :: "env \<Rightarrow> wlc_size \<Rightarrow> wlc_size \<Rightarrow> u32 \<Rightarrow> gles2 \<Rightarrow> gles2" where
  "resolution E md res scale s =
     (if scale = 0 then gl_fail Assertion s
      else
        let s = (if wlc_size_equals (gc_resolution (gl_ctx s)) res then s
                 else
                   let s = fold (set_resolution E res) programs s;
                       s = gl (BindTexture GL_TEXTURE_2D (gc_textures (gl_ctx s) TEXTURE_FAKEFB)) s;
                       s = gl (TexImage2D GL_RGBA (sw res) (sh res) GL_UNSIGNED_BYTE No_pixels) s
                   in upd_gl (\<lambda>c. c\<lparr>gc_resolution := res\<rparr>) (clear_fakefb s));
            s = (if wlc_size_equals (gc_mode (gl_ctx s)) md then s
                 else upd_gl (\<lambda>c. c\<lparr>gc_mode := md\<rparr>) (gl (Viewport (sw md) (sh md)) s));
            virtual = \<lparr>sw = real_to_u32 (flt_div E (sw md) scale), sh = real_to_u32 (flt_div E (sh md) scale)\<rparr>
        in upd_gl (\<lambda>c. c\<lparr>gc_native_resolution := wlc_size_equals res virtual, gc_scale := scale\<rparr>) s)"

section \<open>Textures of surfaces\<close>

definition surface_gen_texture :: "gl_lib \<Rightarrow> nat \<Rightarrow> nat \<Rightarrow> gles2 \<Rightarrow> gles2" where
  "surface_gen_texture L sid i s =
     (if gs_textures (gl_surfaces s sid) i \<noteq> 0 then s
      else
        let n = ll_name L (gl_calls s) (GenTexture 0);
            s = upd_gl_surface sid (\<lambda>x. x\<lparr>gs_textures := (gs_textures x)(i := n)\<rparr>) (gl (GenTexture n) s)
        in gl TexClamp (gl (BindTexture GL_TEXTURE_2D n) s))"

definition surface_gen_textures :: "gl_lib \<Rightarrow> nat \<Rightarrow> nat \<Rightarrow> gles2 \<Rightarrow> gles2" where
  "surface_gen_textures L sid num s = fold (surface_gen_texture L sid) [0..<num] s"

definition delete_texture :: "nat \<Rightarrow> nat \<Rightarrow> gles2 \<Rightarrow> gles2" where
  "delete_texture sid i s =
     (let t = gs_textures (gl_surfaces s sid) i in if t \<noteq> 0 then gl (DeleteTexture t) s else s)"

definition surface_flush_textures :: "nat \<Rightarrow> gles2 \<Rightarrow> gles2" where
  "surface_flush_textures sid s =
     upd_gl_surface sid (\<lambda>x. x\<lparr>gs_textures := \<lambda>_. 0\<rparr>) (fold (delete_texture sid) [0, 1, 2] s)"

definition delete_image :: "nat \<Rightarrow> nat \<Rightarrow> gles2 \<Rightarrow> gles2" where
  "delete_image sid i s =
     (let t = gs_images (gl_surfaces s sid) i in if t \<noteq> 0 then gl (Destroy_image t) s else s)"

definition surface_flush_images :: "nat \<Rightarrow> gles2 \<Rightarrow> gles2" where
  "surface_flush_images sid s =
     upd_gl_surface sid (\<lambda>x. x\<lparr>gs_images := \<lambda>_. 0\<rparr>) (fold (delete_image sid) [0, 1, 2] s)"

definition gl_surface_destroy :: "nat \<Rightarrow> gles2 \<Rightarrow> gles2" where
  "gl_surface_destroy sid s = surface_flush_images sid (surface_flush_textures sid s)"

definition set_format :: "nat \<Rightarrow> wlc_surface_format \<Rightarrow> gles2 \<Rightarrow> gles2" where
  "set_format sid f s = upd_gl_surface sid (\<lambda>x. x\<lparr>gs_format := f\<rparr>) s"

definition buffer_size :: "nat \<Rightarrow> (wlc_size \<Rightarrow> wlc_size) \<Rightarrow> gles2 \<Rightarrow> gles2" where
  "buffer_size bid f s = s\<lparr>gl_world := upd_buffer bid (\<lambda>b. b\<lparr>bf_size := f (bf_size b)\<rparr>) (gl_world s)\<rparr>"

text \<open>The formats are ARGB8888 = 0, XRGB8888 = 1 and RGB565; the division of the code truncates.\<close>

definition shm_layout :: "shm_buffer \<Rightarrow> (int \<times> gl_format \<times> gl_type \<times> wlc_surface_format) option" where
  "shm_layout b =
     (let by = (\<lambda>k. sgn (sb_stride b) * (\<bar>sb_stride b\<bar> div k)) in
      if sb_format b = 1 then Some (by 4, GL_BGRA_EXT, GL_UNSIGNED_BYTE, SURFACE_RGB)
      else if sb_format b = 0 then Some (by 4, GL_BGRA_EXT, GL_UNSIGNED_BYTE, SURFACE_RGBA)
      else if sb_format b = 0x36314752 then Some (by 2, GL_RGB, GL_UNSIGNED_SHORT_5_6_5, SURFACE_RGB)
      else None)"

text \<open>The texture is as wide as a line of the buffer, padding included.\<close>

definition shm_attach :: "gl_lib \<Rightarrow> nat \<Rightarrow> nat \<Rightarrow> nat \<Rightarrow> shm_buffer \<Rightarrow> gles2 \<Rightarrow> bool \<times> gles2" where
  "shm_attach L sid bid wl b s =
     (let s = buffer_size bid (\<lambda>_. \<lparr>sw = u32_of_i32 (sb_width b), sh = u32_of_i32 (sb_height b)\<rparr>) s in
      case shm_layout b of
        None \<Rightarrow> (False, s)
      | Some (pitch, format, type, sf) \<Rightarrow>
          let s = surface_gen_textures L sid 1 (set_format sid sf s);
              s = gl (BindTexture GL_TEXTURE_2D (gs_textures (gl_surfaces s sid) 0)) s;
              s = gl (PixelStorei ''GL_UNPACK_ROW_LENGTH_EXT'' pitch) s;
              s = gl (PixelStorei ''GL_UNPACK_SKIP_ROWS_EXT'' 0) (gl (PixelStorei ''GL_UNPACK_SKIP_PIXELS_EXT'' 0) s);
              s = gl (TexImage2D format (u32_of_i32 pitch) (u32_of_i32 (sb_height b)) type (Client_memory wl)) (gl (Begin_access wl) s)
          in (True, gl (PixelStorei ''GL_UNPACK_ROW_LENGTH_EXT'' 0) (gl (End_access wl) s)))"

text \<open>The planes of a texture format of EGL, the format of the surface and the target of its textures.\<close>

definition egl_layout :: "int \<Rightarrow> nat \<times> wlc_surface_format \<times> gl_target" where
  "egl_layout format =
     (if format = 0x31DA then (1, SURFACE_EGL, GL_TEXTURE_EXTERNAL_OES)
      else if format = 0x31D8 then (2, SURFACE_Y_UV, GL_TEXTURE_2D)
      else if format = 0x31D7 then (3, SURFACE_Y_U_V, GL_TEXTURE_2D)
      else if format = 0x31D9 then (2, SURFACE_Y_XUXV, GL_TEXTURE_2D)
      else (1, SURFACE_RGBA, GL_TEXTURE_2D))"

text \<open>A query writes its result only when it succeeds.\<close>

definition query :: "gl_lib \<Rightarrow> nat \<Rightarrow> string \<Rightarrow> (int \<Rightarrow> gles2 \<Rightarrow> gles2) \<Rightarrow> gles2 \<Rightarrow> gles2" where
  "query L wl a f s = (let s = gl (Gl_query wl a) s in case ll_query L wl a of None \<Rightarrow> s | Some n \<Rightarrow> f n s)"

fun create_images :: "gl_lib \<Rightarrow> nat \<Rightarrow> nat \<Rightarrow> gl_target \<Rightarrow> nat list \<Rightarrow> gles2 \<Rightarrow> bool \<times> gles2" where
  "create_images L sid wl target [] s = (True, s)"
| "create_images L sid wl target (i # is) s =
     (let n = ll_name L (gl_calls s) (Create_image 0 i);
          s = upd_gl_surface sid (\<lambda>x. x\<lparr>gs_images := (gs_images x)(i := n)\<rparr>) (gl (Create_image n i) s)
      in
      if n = 0 then (False, s)
      else create_images L sid wl target is
             (gl (Image_target target n) (gl (BindTexture target (gs_textures (gl_surfaces s sid) i)) (gl (ActiveTexture i) s))))"

definition set_y_inverted :: "nat \<Rightarrow> int \<Rightarrow> gles2 \<Rightarrow> gles2" where
  "set_y_inverted bid n s = s\<lparr>gl_world := upd_buffer bid (\<lambda>b. b\<lparr>bf_y_inverted := n \<noteq> 0\<rparr>) (gl_world s)\<rparr>"

text \<open>The function of the extension is looked up once; 0 when there is none.\<close>

definition load_image_target :: "gl_lib \<Rightarrow> gles2 \<Rightarrow> nat \<times> gles2" where
  "load_image_target L s =
     (if gc_image_target (gl_ctx s) \<noteq> 0 then (gc_image_target (gl_ctx s), s)
      else if \<not> gl_has_extension s ''GL_OES_EGL_image_external'' then (0, s)
      else
        let (f, s) = glname L (Get_proc_address ''glEGLImageTargetTexture2DOES'') s
        in (f, upd_gl (\<lambda>c. c\<lparr>gc_image_target := f\<rparr>) s))"

definition query_wl_buffer :: "gl_lib \<Rightarrow> nat \<Rightarrow> nat \<Rightarrow> gles2 \<Rightarrow> gles2" where
  "query_wl_buffer L bid wl s =
     (let s = query L wl ''EGL_WIDTH'' (\<lambda>n. buffer_size bid (\<lambda>z. z\<lparr>sw := u32_of_i32 n\<rparr>)) s;
          s = query L wl ''EGL_HEIGHT'' (\<lambda>n. buffer_size bid (\<lambda>z. z\<lparr>sh := u32_of_i32 n\<rparr>)) s
      in query L wl ''EGL_WAYLAND_Y_INVERTED_WL'' (set_y_inverted bid) s)"

definition egl_attach :: "gl_lib \<Rightarrow> nat \<Rightarrow> nat \<Rightarrow> nat \<Rightarrow> int \<Rightarrow> gles2 \<Rightarrow> bool \<times> gles2" where
  "egl_attach L sid bid wl format s =
     (let (f, s) = load_image_target L s in
      if f = 0 then (False, s)
      else
        let s = query_wl_buffer L bid wl s;
            (planes, sf, target) = egl_layout format;
            s = surface_gen_textures L sid planes (surface_flush_images sid (set_format sid sf s))
        in create_images L sid wl target [0..<planes] s)"

definition gl_surface_attach :: "gl_lib \<Rightarrow> nat \<Rightarrow> nat \<Rightarrow> gles2 \<Rightarrow> bool \<times> gles2" where
  "gl_surface_attach L sid bid s =
     (let wl = (if buffer_of (gl_world s) bid = None then 0 else wl_of (gl_world s) bid K_buffer) in
      if wl = 0 then (True, gl_surface_destroy sid s)
      else
        case ll_shm L wl of
          Some b \<Rightarrow> shm_attach L sid bid wl b s
        | None \<Rightarrow>
            let s = gl (Gl_query wl ''EGL_TEXTURE_FORMAT'') s
            in case ll_query L wl ''EGL_TEXTURE_FORMAT'' of None \<Rightarrow> (False, s) | Some format \<Rightarrow> egl_attach L sid bid wl format s)"

section \<open>Painting\<close>

record paint =
  pn_visible :: wlc_geometry
  pn_program :: program_type
  pn_filter :: bool

text \<open>The corners of the quad. The sums are \<open>uint32_t\<close>, the corner itself is converted from \<open>int32_t\<close>.\<close>

definition quad :: "env \<Rightarrow> wlc_geometry \<Rightarrow> (real \<times> real) list" where
  "quad E g =
     (let x = flt_i32 E (px (gorigin g)); y = flt_i32 E (py (gorigin g));
          r = flt_u32 E (u32_of_i32 (px (gorigin g)) + sw (gsize g)); b = flt_u32 E (u32_of_i32 (py (gorigin g)) + sh (gsize g))
      in [(r, y), (x, y), (r, b), (x, b)])"

fun bind_textures :: "gl_filter \<Rightarrow> nat \<Rightarrow> nat list \<Rightarrow> gles2 \<Rightarrow> gles2" where
  "bind_textures f i [] s = s"
| "bind_textures f i (t # ts) s =
     (if t = 0 then s
      else bind_textures f (Suc i) ts (gl (TexFilter f) (gl (BindTexture GL_TEXTURE_2D t) (gl (ActiveTexture i) s))))"

definition texture_paint :: "env \<Rightarrow> nat list \<Rightarrow> wlc_geometry \<Rightarrow> paint \<Rightarrow> gles2 \<Rightarrow> gles2" where
  "texture_paint E ts g p s =
     (let s = set_program (pn_program p) s;
          f = (if pn_filter p \<or> \<not> gc_native_resolution (gl_ctx s) then GL_LINEAR else GL_NEAREST)
      in gl (Draw (quad E g)) (bind_textures f 0 ts s))"

definition surface_paint_internal :: "env \<Rightarrow> nat \<Rightarrow> wlc_geometry \<Rightarrow> paint \<Rightarrow> gles2 \<Rightarrow> gles2" where
  "surface_paint_internal E sid g p s =
     (case surface_of (gl_world s) sid of
        None \<Rightarrow> gl_fail Assertion s
      | Some x \<Rightarrow>
          let s = (if ss_scale (sf_commit x) \<ge> 1 then s else gl_fail Assertion s);
              p = p\<lparr>pn_filter := u32_of_i32 (ss_scale (sf_commit x)) \<noteq> gc_scale (gl_ctx s)\<rparr>;
              textures = (\<lambda>s. map (gs_textures (gl_surfaces s sid)) [0, 1, 2])
          in
          if wlc_size_equals (sf_size x) (gsize g) then texture_paint E (textures s) g p s
          else if wlc_geometry_equals (pn_visible p) g then texture_paint E (textures s) g (p\<lparr>pn_filter := True\<rparr>) s
          else
            let border = p\<lparr>pn_program := (if pn_program p = PROGRAM_RGBA \<or> pn_program p = PROGRAM_RGB then pn_program p else PROGRAM_RGB)\<rparr>;
                s = texture_paint E [gc_textures (gl_ctx s) TEXTURE_BLACK] g border s
            in texture_paint E (textures s) (pn_visible p) p s)"

text \<open>The debug switches paint a region over the surface.\<close>

definition paint_region :: "env \<Rightarrow> texture \<Rightarrow> wlc_geometry \<Rightarrow> paint \<Rightarrow> gles2 \<Rightarrow> gles2" where
  "paint_region E t g p s =
     (let s = gl (BlendFunc Blend_multiply) s;
          s = texture_paint E [gc_textures (gl_ctx s) t] g (p\<lparr>pn_visible := g, pn_program := PROGRAM_RGB\<rparr>) s
      in gl (BlendFunc Blend_over) s)"

definition debug_regions :: "env \<Rightarrow> bool \<times> bool \<times> wlc_geometry \<Rightarrow> bool \<times> wlc_geometry \<Rightarrow> paint \<Rightarrow> gles2 \<Rightarrow> gles2" where
  "debug_regions E opaque input p s =
     (let s = (if gl_draw_opaque s then
                 paint_region E TEXTURE_RED (snd (snd opaque)) p (if fst opaque then s else gl_fail Assertion s) else s)
      in if gl_draw_input s then
           paint_region E TEXTURE_BLUE (snd input) p (if fst input then s else gl_fail Assertion s) else s)"

text \<open>\<open>settings.filter\<close> as \<open>surface_paint_internal\<close> leaves it.\<close>

definition filter_after :: "nat \<Rightarrow> wlc_geometry \<Rightarrow> paint \<Rightarrow> gles2 \<Rightarrow> paint" where
  "filter_after sid g p s =
     (case surface_of (gl_world s) sid of
        None \<Rightarrow> p
      | Some x \<Rightarrow> p\<lparr>pn_filter := u32_of_i32 (ss_scale (sf_commit x)) \<noteq> gc_scale (gl_ctx s) \<or>
                    \<not> wlc_size_equals (sf_size x) (gsize g) \<and> wlc_geometry_equals (pn_visible p) g\<rparr>)"

definition gl_surface_paint :: "env \<Rightarrow> nat \<Rightarrow> wlc_geometry \<Rightarrow> gles2 \<Rightarrow> gles2" where
  "gl_surface_paint E sid g s =
     (let w = gl_world s; so = surface_of w sid;
          p = \<lparr>pn_visible = g, pn_program = program_of (gs_format (gl_surfaces s sid)), pn_filter = False\<rparr>
      in debug_regions E (wlc_surface_get_opaque E so (gorigin g)) (wlc_surface_get_input E so (gorigin g)) (filter_after sid g p s)
           (surface_paint_internal E sid g p s))"

definition gl_view_paint :: "env \<Rightarrow> nat \<Rightarrow> gles2 \<Rightarrow> gles2" where
  "gl_view_paint E vid s =
     (let w = gl_world s in
      case view_of w vid of
        None \<Rightarrow> gl_fail Assertion s
      | Some v \<Rightarrow>
          if surface_of w (v_surface v) = None then s
          else
            let (ok, g, visible) = wlc_view_get_bounds E w v;
                s = (if ok then s else gl_fail Assertion s);
                p = \<lparr>pn_visible = (case visible of None \<Rightarrow> wlc_geometry_zero | Some r \<Rightarrow> r),
                     pn_program = program_of (gs_format (gl_surfaces s (v_surface v))), pn_filter = False\<rparr>
            in debug_regions E (wlc_view_get_opaque E w v) (wlc_view_get_input E w v) (filter_after (v_surface v) g p s)
                 (surface_paint_internal E (v_surface v) g p s))"

definition gl_pointer_paint :: "env \<Rightarrow> wlc_point \<Rightarrow> gles2 \<Rightarrow> gles2" where
  "gl_pointer_paint E pos s =
     texture_paint E [gc_textures (gl_ctx s) TEXTURE_CURSOR] \<lparr>gorigin = pos, gsize = \<lparr>sw = 14, sh = 14\<rparr>\<rparr>
       \<lparr>pn_visible = wlc_geometry_zero, pn_program = PROGRAM_CURSOR, pn_filter = False\<rparr> s"

section \<open>Pixels\<close>

text \<open>One axis: the position, the length and the bound. The sums are \<open>uint32_t\<close>.\<close>

definition clamp_axis :: "int \<Rightarrow> u32 \<Rightarrow> u32 \<Rightarrow> int \<times> u32" where
  "clamp_axis x len bound =
     (let (x, len) = (if x < 0 then (0, len + u32_of_i32 x) else if u32_of_i32 x > bound then (i32_of_u32 bound, len) else (x, len));
          far = u32_of_i32 x + len
      in (x, if far > bound then len - (far - bound) else len))"

definition clamp_to_bounds :: "wlc_geometry \<Rightarrow> wlc_size \<Rightarrow> wlc_geometry" where
  "clamp_to_bounds g bounds =
     (let (x, wd) = clamp_axis (px (gorigin g)) (sw (gsize g)) (sw bounds);
          (y, ht) = clamp_axis (py (gorigin g)) (sh (gsize g)) (sh bounds)
      in \<lparr>gorigin = \<lparr>px = x, py = y\<rparr>, gsize = \<lparr>sw = wd, sh = ht\<rparr>\<rparr>)"

text \<open>\<open>flipped_row\<close> is the first row of a rectangle counted from below.\<close>

definition flipped_row :: "wlc_geometry \<Rightarrow> wlc_size \<Rightarrow> u32" where
  "flipped_row g md = sh md - (u32_of_i32 (py (gorigin g)) + sh (gsize g))"

definition read_pixels :: "wlc_geometry \<Rightarrow> gles2 \<Rightarrow> wlc_geometry \<times> gles2" where
  "read_pixels g s =
     (let g = clamp_to_bounds g (gc_mode (gl_ctx s))
      in (g, gl (ReadPixels (px (gorigin g)) (flipped_row g (gc_mode (gl_ctx s))) (sw (gsize g)) (sh (gsize g))) s))"

definition write_pixels :: "wlc_geometry \<Rightarrow> nat \<Rightarrow> gles2 \<Rightarrow> gles2" where
  "write_pixels g data s =
     (let g = clamp_to_bounds g (gc_mode (gl_ctx s));
          s = gl (BindTexture GL_TEXTURE_2D (gc_textures (gl_ctx s) TEXTURE_FAKEFB)) s;
          s = gl (TexSubImage2D (px (gorigin g)) (py (gorigin g)) (sw (gsize g)) (sh (gsize g)) data) s
      in upd_gl (\<lambda>c. c\<lparr>gc_fakefb_dirty := True\<rparr>) s)"

definition flush_fakefb :: "env \<Rightarrow> gles2 \<Rightarrow> gles2" where
  "flush_fakefb E s =
     (if \<not> gc_fakefb_dirty (gl_ctx s) then s
      else
        let s = texture_paint E [gc_textures (gl_ctx s) TEXTURE_FAKEFB] \<lparr>gorigin = wlc_point_zero, gsize = gc_resolution (gl_ctx s)\<rparr>
                  \<lparr>pn_visible = wlc_geometry_zero, pn_program = PROGRAM_RGBA, pn_filter = False\<rparr> s
        in upd_gl (\<lambda>c. c\<lparr>gc_fakefb_dirty := False\<rparr>) (clear_fakefb s))"

definition gl_clear :: "gles2 \<Rightarrow> gles2" where
  "gl_clear s = gl Clear s"

section \<open>The functions of the renderer\<close>

datatype render_request =
    Gl_resolution wlc_size wlc_size u32
  | Gl_attach nat nat
  | Gl_destroy nat
  | Gl_view_paint nat
  | Gl_surface_paint nat wlc_geometry
  | Gl_pointer_paint wlc_point
  | Gl_read_pixels wlc_geometry
  | Gl_write_pixels wlc_geometry nat
  | Gl_flush_fakefb
  | Gl_clear

text \<open>Between two calls the rest of the program changes the world as it likes.\<close>

fun gl_request :: "env \<Rightarrow> gl_lib \<Rightarrow> render_request \<Rightarrow> gles2 \<Rightarrow> gles2" where
  "gl_request E L (Gl_resolution md res scale) s = resolution E md res scale s"
| "gl_request E L (Gl_attach sid bid) s = snd (gl_surface_attach L sid bid s)"
| "gl_request E L (Gl_destroy sid) s = gl_surface_destroy sid s"
| "gl_request E L (Gl_view_paint vid) s = gl_view_paint E vid s"
| "gl_request E L (Gl_surface_paint sid g) s = gl_surface_paint E sid g s"
| "gl_request E L (Gl_pointer_paint pos) s = gl_pointer_paint E pos s"
| "gl_request E L (Gl_read_pixels g) s = snd (read_pixels g s)"
| "gl_request E L (Gl_write_pixels g data) s = write_pixels g data s"
| "gl_request E L Gl_flush_fakefb s = flush_fakefb E s"
| "gl_request E L Gl_clear s = gl_clear s"

definition gl_runs :: "env \<Rightarrow> gl_lib \<Rightarrow> (world \<times> render_request) list \<Rightarrow> gles2 \<Rightarrow> gles2" where
  "gl_runs E L rs s = fold (\<lambda>(w, r) s. gl_request E L r (s\<lparr>gl_world := w\<rparr>)) rs s"

section \<open>Access\<close>

lemma gl_simps [simp]:
  "gl_world (gl c s) = gl_world s" "gl_ctx (gl c s) = gl_ctx s" "gl_surfaces (gl c s) = gl_surfaces s"
  "gl_draw_opaque (gl c s) = gl_draw_opaque s" "gl_draw_input (gl c s) = gl_draw_input s" "gl_calls (gl c s) = gl_calls s @ [c]"
  by (simp_all add: gl_def)

lemma upd_gl_simps [simp]:
  "gl_world (upd_gl f s) = gl_world s" "gl_ctx (upd_gl f s) = f (gl_ctx s)" "gl_surfaces (upd_gl f s) = gl_surfaces s"
  "gl_calls (upd_gl f s) = gl_calls s"
  by (simp_all add: upd_gl_def)

lemma upd_gl_surface_simps [simp]:
  "gl_world (upd_gl_surface sid f s) = gl_world s" "gl_ctx (upd_gl_surface sid f s) = gl_ctx s"
  "gl_surfaces (upd_gl_surface sid f s) = (gl_surfaces s)(sid := f (gl_surfaces s sid))"
  "gl_calls (upd_gl_surface sid f s) = gl_calls s"
  by (simp_all add: upd_gl_surface_def)

lemma gl_fail_simps [simp]:
  "gl_ctx (gl_fail x s) = gl_ctx s" "gl_surfaces (gl_fail x s) = gl_surfaces s" "gl_calls (gl_fail x s) = gl_calls s"
  by (simp_all add: gl_fail_def)

lemma buffer_size_simps [simp]:
  "gl_ctx (buffer_size bid f s) = gl_ctx s" "gl_surfaces (buffer_size bid f s) = gl_surfaces s"
  "gl_calls (buffer_size bid f s) = gl_calls s"
  by (simp_all add: buffer_size_def)

lemma set_y_inverted_simps [simp]:
  "gl_ctx (set_y_inverted bid n s) = gl_ctx s" "gl_surfaces (set_y_inverted bid n s) = gl_surfaces s"
  "gl_calls (set_y_inverted bid n s) = gl_calls s"
  by (simp_all add: set_y_inverted_def)

lemma set_format_simps [simp]:
  "gl_ctx (set_format sid f s) = gl_ctx s" "gl_calls (set_format sid f s) = gl_calls s" "gl_world (set_format sid f s) = gl_world s"
  by (simp_all add: set_format_def)

end
