(* ===== verification/Pixels.thy ===== *)
theory Pixels
  imports Gles2
begin

text \<open>
  Rectangles on the screen of the OpenGL renderer: \<open>clamp_to_bounds\<close> against the intersection with the screen, the
  corners \<open>texture_paint\<close> hands to OpenGL against those of the rectangle, and where both leave the rectangle.
\<close>

section \<open>Clamping\<close>

text \<open>On an axis where the far end is neither left of 0 nor beyond the range of \<open>uint32_t\<close>.\<close>

definition axis_fits :: "int \<Rightarrow> u32 \<Rightarrow> u32 \<Rightarrow> bool" where
  "axis_fits x len bound \<longleftrightarrow> in_i32 x \<and> uint bound < 2 ^ 31 \<and> 0 \<le> x + uint len \<and> x + uint len < 2 ^ 32"

lemma powers: "(2::int) ^ 24 = 16777216" "(2::int) ^ 31 = 2147483648" "(2::int) ^ 32 = 4294967296"
  by simp_all

lemma uint_u32_of_i32: "0 \<le> x \<Longrightarrow> in_i32 x \<Longrightarrow> uint (u32_of_i32 x) = x"
  by (simp add: u32_of_i32_def in_i32_def uint_word_of_int)

lemma uint_u32_of_neg: "x < 0 \<Longrightarrow> in_i32 x \<Longrightarrow> uint (u32_of_i32 x) = 2 ^ 32 + x"
  by (simp add: u32_of_i32_def in_i32_def uint_word_of_int) (smt (verit) mod_add_self2 mod_pos_pos_trivial)

lemma uint_plus_small: "uint (a :: u32) + uint b < 2 ^ 32 \<Longrightarrow> uint (a + b) = uint a + uint b"
  by (simp add: uint_plus_if_size word_size)

lemma uint_plus_wrap: "2 ^ 32 \<le> uint (a :: u32) + uint b \<Longrightarrow> uint (a + b) = uint a + uint b - 2 ^ 32"
  by (simp add: uint_plus_if_size word_size)

lemma uint_minus_small: "uint (b :: u32) \<le> uint a \<Longrightarrow> uint (a - b) = uint a - uint b"
  by (simp add: uint_sub_if_size)

text \<open>The far end of the axis once the near end is on the screen.\<close>

definition clamp_far :: "int \<Rightarrow> u32 \<Rightarrow> u32 \<Rightarrow> u32" where
  "clamp_far x len bound =
     (let far = u32_of_i32 x + len in if far > bound then len - (far - bound) else len)"

lemma clamp_far_spec:
  assumes "0 \<le> x" "x \<le> uint bound" "uint bound < 2 ^ 31" "x + uint len < 2 ^ 32"
  shows "uint (clamp_far x len bound) = min (uint len) (uint bound - x)"
proof -
  have x: "uint (u32_of_i32 x) = x" using assms by (intro uint_u32_of_i32) (simp_all add: in_i32_def)
  then have far: "uint (u32_of_i32 x + len) = x + uint len" using assms uint_plus_small [of "u32_of_i32 x" len] by simp
  show ?thesis
  proof (cases "u32_of_i32 x + len > bound")
    case True
    then have gt: "uint bound < x + uint len" by (simp add: word_less_def far)
    then have "uint (u32_of_i32 x + len - bound) = x + uint len - uint bound" by (simp add: uint_minus_small far)
    then show ?thesis using True gt assms by (simp add: clamp_far_def uint_minus_small x)
  next
    case False
    then have "x + uint len \<le> uint bound" by (simp add: word_less_def far)
    then show ?thesis using False by (simp add: clamp_far_def)
  qed
qed

lemma clamp_axis_inside:
  assumes "0 \<le> x" "x \<le> uint bound" "in_i32 x" "uint bound < 2 ^ 31"
  shows "clamp_axis x len bound = (x, clamp_far x len bound)"
  using assms uint_u32_of_i32 [of x] by (simp add: clamp_axis_def clamp_far_def Let_def word_less_def)

lemma clamp_axis_beyond:
  assumes "uint bound < x" "in_i32 x" "uint bound < 2 ^ 31"
  shows "clamp_axis x len bound = (uint bound, clamp_far (uint bound) len bound)"
proof -
  have "0 \<le> x" using assms(1) uint_ge_0 [of bound] by linarith
  then show ?thesis
    using assms uint_u32_of_i32 [of x] i32_of_u32_small [of bound]
    by (simp add: clamp_axis_def clamp_far_def Let_def word_less_def)
qed

lemma clamp_axis_negative:
  assumes "x < 0"
  shows "clamp_axis x len bound = (0, clamp_far 0 (len + u32_of_i32 x) bound)"
  using assms by (simp add: clamp_axis_def clamp_far_def Let_def)

lemma clamp_axis_spec:
  assumes "axis_fits x len bound"
  shows "{fst (clamp_axis x len bound)..<fst (clamp_axis x len bound) + uint (snd (clamp_axis x len bound))} =
    {x..<x + uint len} \<inter> {0..<uint bound}"
proof -
  have b: "in_i32 x" "uint bound < 2 ^ 31" "0 \<le> x + uint len" "x + uint len < 2 ^ 32"
    using assms by (simp_all add: axis_fits_def)
  consider (neg) "x < 0" | (ins) "0 \<le> x" "x \<le> uint bound" | (bey) "uint bound < x" by linarith
  then show ?thesis
  proof cases
    case neg
    then have "uint (len + u32_of_i32 x) = uint len + x"
      using b uint_u32_of_neg [OF neg b(1)] uint_plus_wrap [of len "u32_of_i32 x"] by simp
    then show ?thesis using neg b clamp_far_spec [of 0 bound "len + u32_of_i32 x"] by (auto simp: clamp_axis_negative)
  next
    case ins
    then show ?thesis using b clamp_far_spec [of x bound len] by (auto simp: clamp_axis_inside)
  next
    case bey
    then show ?thesis using b clamp_far_spec [of "uint bound" bound len] by (auto simp: clamp_axis_beyond)
  qed
qed

lemma clamp_axis_range:
  assumes "axis_fits x len bound"
  shows "0 \<le> fst (clamp_axis x len bound) \<and>
    fst (clamp_axis x len bound) + uint (snd (clamp_axis x len bound)) \<le> uint bound"
proof -
  have b: "in_i32 x" "uint bound < 2 ^ 31" "0 \<le> x + uint len" "x + uint len < 2 ^ 32"
    using assms by (simp_all add: axis_fits_def)
  consider (neg) "x < 0" | (ins) "0 \<le> x" "x \<le> uint bound" | (bey) "uint bound < x" by linarith
  then show ?thesis
  proof cases
    case neg
    then have "uint (len + u32_of_i32 x) = uint len + x"
      using b uint_u32_of_neg [OF neg b(1)] uint_plus_wrap [of len "u32_of_i32 x"] by simp
    then show ?thesis using neg b clamp_far_spec [of 0 bound "len + u32_of_i32 x"] by (simp add: clamp_axis_negative)
  next
    case ins
    then show ?thesis using b clamp_far_spec [of x bound len] by (simp add: clamp_axis_inside)
  next
    case bey
    then show ?thesis using b clamp_far_spec [of "uint bound" bound len] by (simp add: clamp_axis_beyond)
  qed
qed

definition geometry_clampable :: "wlc_geometry \<Rightarrow> wlc_size \<Rightarrow> bool" where
  "geometry_clampable g b \<longleftrightarrow>
     axis_fits (px (gorigin g)) (sw (gsize g)) (sw b) \<and> axis_fits (py (gorigin g)) (sh (gsize g)) (sh b)"

text \<open>C35 (equivalence). 
  C1 (equivalence). A rectangle whose far edges are neither left of nor above the screen, nor beyond the range of
  \<open>uint32_t\<close>, is clamped to its intersection with the screen: the pixels that are read or written are those of the
  request that exist.
\<close>
theorem clamp_is_intersection:
  assumes "geometry_clampable g bounds"
  shows "geometry_pixels (clamp_to_bounds g bounds) = geometry_pixels g \<inter> geometry_pixels \<lparr>gorigin = wlc_point_zero, gsize = bounds\<rparr>"
proof -
  have "geometry_pixels (clamp_to_bounds g bounds) =
      {fst (clamp_axis (px (gorigin g)) (sw (gsize g)) (sw bounds))..<
        fst (clamp_axis (px (gorigin g)) (sw (gsize g)) (sw bounds)) + uint (snd (clamp_axis (px (gorigin g)) (sw (gsize g)) (sw bounds)))} \<times>
      {fst (clamp_axis (py (gorigin g)) (sh (gsize g)) (sh bounds))..<
        fst (clamp_axis (py (gorigin g)) (sh (gsize g)) (sh bounds)) + uint (snd (clamp_axis (py (gorigin g)) (sh (gsize g)) (sh bounds)))}"
    by (simp add: clamp_to_bounds_def geometry_pixels_def case_prod_beta)
  then show ?thesis
    using assms by (simp add: geometry_clampable_def clamp_axis_spec geometry_pixels_def wlc_point_zero_def Times_Int_Times)
qed

theorem clamp_is_intersection_witness:
  "geometry_pixels (clamp_to_bounds \<lparr>gorigin = \<lparr>px = -5, py = 90\<rparr>, gsize = \<lparr>sw = 20, sh = 20\<rparr>\<rparr> \<lparr>sw = 100, sh = 100\<rparr>) =
   geometry_pixels \<lparr>gorigin = \<lparr>px = -5, py = 90\<rparr>, gsize = \<lparr>sw = 20, sh = 20\<rparr>\<rparr> \<inter>
     geometry_pixels \<lparr>gorigin = wlc_point_zero, gsize = \<lparr>sw = 100, sh = 100\<rparr>\<rparr>"
  by (rule clamp_is_intersection) (simp add: geometry_clampable_def axis_fits_def in_i32_def)

text \<open>
  C1 (error). A rectangle that ends left of the screen is clamped to the full width of it instead of to nothing: a
  reader gets more pixels than were asked for.
\<close>
theorem read_left_of_screen_is_full_width:
  assumes "px (gorigin g) + uint (sw (gsize g)) < 0" "in_i32 (px (gorigin g))" "uint (sw (gc_mode (gl_ctx s))) < 2 ^ 31"
  shows "px (gorigin (fst (read_pixels g s))) = 0 \<and> sw (gsize (fst (read_pixels g s))) = sw (gc_mode (gl_ctx s)) \<and>
    (\<exists>row ht. gl_calls (snd (read_pixels g s)) = gl_calls s @ [ReadPixels 0 row (sw (gc_mode (gl_ctx s))) ht])"
proof -
  let ?x = "px (gorigin g)" and ?l = "sw (gsize g)" and ?b = "sw (gc_mode (gl_ctx s))"
  have neg: "?x < 0" using assms(1) uint_ge_0 [of ?l] by linarith
  have "uint (?l + u32_of_i32 ?x) = 2 ^ 32 + ?x + uint ?l"
    using assms(1) uint_u32_of_neg [OF neg assms(2)] uint_plus_small [of ?l "u32_of_i32 ?x"] by simp
  then have gt: "uint ?b < uint (?l + u32_of_i32 ?x)"
    using assms(2,3) uint_ge_0 [of ?l] unfolding in_i32_def powers by linarith
  then have "clamp_far 0 (?l + u32_of_i32 ?x) ?b = ?b"
    by (simp add: clamp_far_def u32_of_i32_def word_less_def)
  then have "clamp_axis ?x ?l ?b = (0, ?b)" using neg by (simp add: clamp_axis_negative)
  then show ?thesis by (simp add: read_pixels_def clamp_to_bounds_def Let_def case_prod_beta)
qed

text \<open>A request for 10 pixels in a row, at the left of a screen that has 800.\<close>

definition gl_pixels_ref :: gles2 where
  "gl_pixels_ref = \<lparr>gl_world = world_blank, gl_ctx = gl_ctx_zero\<lparr>gc_mode := \<lparr>sw = 800, sh = 600\<rparr>\<rparr>, gl_surfaces = (\<lambda>_. gl_surface_zero),
     gl_draw_opaque = False, gl_draw_input = False, gl_calls = []\<rparr>"

theorem read_left_of_screen_is_full_width_witness:
  "sw (gsize (fst (read_pixels \<lparr>gorigin = \<lparr>px = -20, py = 0\<rparr>, gsize = \<lparr>sw = 10, sh = 1\<rparr>\<rparr> gl_pixels_ref))) = 800"
  using read_left_of_screen_is_full_width [of "\<lparr>gorigin = \<lparr>px = -20, py = 0\<rparr>, gsize = \<lparr>sw = 10, sh = 1\<rparr>\<rparr>" gl_pixels_ref]
  by (simp add: gl_pixels_ref_def in_i32_def)

text \<open>The rows of a clamped rectangle, counted from below as OpenGL does, are rows of the screen.\<close>

lemma flipped_row_inside:
  assumes "geometry_clampable g md"
  shows "uint (flipped_row (clamp_to_bounds g md) md) + uint (sh (gsize (clamp_to_bounds g md))) + py (gorigin (clamp_to_bounds g md)) = uint (sh md)"
proof -
  let ?y = "fst (clamp_axis (py (gorigin g)) (sh (gsize g)) (sh md))" and ?h = "snd (clamp_axis (py (gorigin g)) (sh (gsize g)) (sh md))"
  have f: "axis_fits (py (gorigin g)) (sh (gsize g)) (sh md)" using assms by (simp add: geometry_clampable_def)
  have b: "uint (sh md) < 2 ^ 31" using f by (simp add: axis_fits_def)
  have in_y: "0 \<le> ?y" "?y + uint ?h \<le> uint (sh md)" using clamp_axis_range [OF f] by blast+
  then have "in_i32 ?y" using b uint_ge_0 [of ?h] unfolding in_i32_def powers by linarith
  then have y: "uint (u32_of_i32 ?y) = ?y" using in_y by (intro uint_u32_of_i32) simp_all
  then have "uint (u32_of_i32 ?y + ?h) = ?y + uint ?h"
    using in_y b uint_plus_small [of "u32_of_i32 ?y" ?h] by simp
  then have "uint (sh md - (u32_of_i32 ?y + ?h)) = uint (sh md) - (?y + uint ?h)"
    using in_y by (simp add: uint_minus_small)
  then show ?thesis by (simp add: flipped_row_def clamp_to_bounds_def case_prod_beta)
qed

section \<open>Corners\<close>

text \<open>The pixel rectangle of a geometry has these corners, in the order of a triangle strip.\<close>

definition corners :: "wlc_geometry \<Rightarrow> (real \<times> real) list" where
  "corners g =
     (let x = px (gorigin g); y = py (gorigin g); r = x + uint (sw (gsize g)); b = y + uint (sh (gsize g))
      in map (\<lambda>(u, v). (of_int u, of_int v)) [(r, y), (x, y), (r, b), (x, b)])"

lemma flt_exact: "fp_ok (fpo E) \<Longrightarrow> \<bar>n\<bar> \<le> 2 ^ 24 \<Longrightarrow> flt E (of_int n) = of_int n"
  by (simp add: fp_ok_def flt_def)

definition edge_fits :: "int \<Rightarrow> u32 \<Rightarrow> bool" where
  "edge_fits x len \<longleftrightarrow> - (2 ^ 24) \<le> x \<and> x \<le> 2 ^ 24 \<and> 0 \<le> x + uint len \<and> x + uint len \<le> 2 ^ 24"

lemma edge_exact:
  assumes "fp_ok (fpo E)" "edge_fits x len"
  shows "flt_i32 E x = of_int x \<and> flt_u32 E (u32_of_i32 x + len) = of_int (x + uint len)"
proof -
  have e: "- (2 ^ 24) \<le> x" "x \<le> 2 ^ 24" "0 \<le> x + uint len" "x + uint len \<le> 2 ^ 24"
    using assms(2) by (simp_all add: edge_fits_def)
  then have i: "in_i32 x" by (simp add: in_i32_def)
  have "uint (u32_of_i32 x + len) = x + uint len"
  proof (cases "x < 0")
    case True
    then show ?thesis using uint_u32_of_neg [OF True i] uint_plus_wrap [of "u32_of_i32 x" len] e by simp
  next
    case False
    then show ?thesis using uint_u32_of_i32 [OF _ i] uint_plus_small [of "u32_of_i32 x" len] e by simp
  qed
  then show ?thesis
    using assms(1) e flt_exact [of E x] flt_exact [of E "x + uint len"] by (simp add: flt_i32_def flt_u32_def u32_real_def)
qed

text \<open>A rectangle that does not end left of or above the origin is painted where it is.\<close>

lemma quad_is_rectangle:
  assumes "fp_ok (fpo E)" "edge_fits (px (gorigin g)) (sw (gsize g))" "edge_fits (py (gorigin g)) (sh (gsize g))"
  shows "quad E g = corners g"
  using edge_exact [OF assms(1,2)] edge_exact [OF assms(1,3)] by (simp add: quad_def corners_def Let_def)

text \<open>C36 (error). 
  C1 (error). A rectangle that ends left of the screen is painted over it: its left corners are left of 0, its right
  corners beyond \<open>2 ^ 24\<close>.
\<close>
theorem quad_left_of_screen_covers_it:
  assumes "fp_ok (fpo E)" "- (2 ^ 24) \<le> px (gorigin g)" "px (gorigin g) + uint (sw (gsize g)) < 0"
  shows "fst (quad E g ! 1) < 0 \<and> fst (quad E g ! 3) < 0 \<and> 2 ^ 24 \<le> fst (quad E g ! 0) \<and> 2 ^ 24 \<le> fst (quad E g ! 2)"
proof -
  let ?x = "px (gorigin g)" and ?l = "sw (gsize g)"
  have neg: "?x < 0" using assms(3) uint_ge_0 [of ?l] by linarith
  then have i: "in_i32 ?x" using assms(2) by (simp add: in_i32_def)
  have "uint (u32_of_i32 ?x + ?l) = 2 ^ 32 + ?x + uint ?l"
    using assms(3) uint_u32_of_neg [OF neg i] uint_plus_small [of "u32_of_i32 ?x" ?l] by simp
  then have big: "2 ^ 24 \<le> uint (u32_of_i32 ?x + ?l)" using assms(2) uint_ge_0 [of ?l] unfolding powers by linarith
  have "flt E (of_int (2 ^ 24)) \<le> flt E (of_int (uint (u32_of_i32 ?x + ?l)))"
    using assms(1) big unfolding fp_ok_def flt_def of_int_le_iff [symmetric, where 'a = real] by blast
  then have "2 ^ 24 \<le> flt_u32 E (u32_of_i32 ?x + ?l)"
    using flt_exact [OF assms(1), of "2 ^ 24"] by (simp add: flt_u32_def u32_real_def)
  moreover have "flt_i32 E ?x < 0"
    using flt_exact [OF assms(1), of ?x] assms(2) neg by (simp add: flt_i32_def)
  ultimately show ?thesis by (simp add: quad_def Let_def)
qed

theorem quad_left_of_screen_covers_it_witness:
  "let q = quad env_ref \<lparr>gorigin = \<lparr>px = -20, py = 0\<rparr>, gsize = \<lparr>sw = 10, sh = 10\<rparr>\<rparr>
   in fst (q ! 1) < 0 \<and> 2 ^ 24 \<le> fst (q ! 0)"
  using quad_left_of_screen_covers_it [of env_ref "\<lparr>gorigin = \<lparr>px = -20, py = 0\<rparr>, gsize = \<lparr>sw = 10, sh = 10\<rparr>\<rparr>"]
  by (simp add: Let_def env_ref_def)

text \<open>The picture of the cursor has an index of the palette for each of its pixels.\<close>

lemma cursor_palette_complete: "length cursor_palette = 14 * 14 \<and> set cursor_palette = {0, 1, 2}"
  by (simp add: cursor_palette_def) blast

end
