(* ===== verification/Glstate.thy ===== *)
theory Glstate
  imports Gles2
begin

text \<open>
  What the calls of the renderer leave behind in OpenGL. \<open>gl_exec\<close> is the effect of a call on the part of the state of
  OpenGL that the renderer keeps copies of or has to restore: the program in use, the uniform \<open>resolution\<close> of each
  program (the only one that is a vector), the blend function, the framebuffer, the length of rows, the viewport.
  The second part keeps account of textures and images: \<open>owed\<close> is what was made and neither deleted nor held.
\<close>

section \<open>The machine\<close>

record gl_machine =
  gm_program :: nat
  gm_uniform :: "nat \<Rightarrow> real \<times> real"
  gm_blend :: "gl_blend option"
  gm_framebuffer :: nat
  gm_row_length :: int
  gm_viewport :: "(u32 \<times> u32) option"

definition gl_initial :: gl_machine where
  "gl_initial = \<lparr>gm_program = 0, gm_uniform = (\<lambda>_. (0, 0)), gm_blend = None, gm_framebuffer = 0, gm_row_length = 0, gm_viewport = None\<rparr>"

fun gl_exec :: "gl_call \<Rightarrow> gl_machine \<Rightarrow> gl_machine" where
  "gl_exec (UseProgram p) m = m\<lparr>gm_program := p\<rparr>"
| "gl_exec (LinkProgram p) m = m\<lparr>gm_uniform := (gm_uniform m)(p := (0, 0))\<rparr>"
| "gl_exec (Uniform2fv u x y) m = m\<lparr>gm_uniform := (gm_uniform m)(gm_program m := (x, y))\<rparr>"
| "gl_exec (BlendFunc b) m = m\<lparr>gm_blend := Some b\<rparr>"
| "gl_exec (BindFramebuffer f) m = m\<lparr>gm_framebuffer := f\<rparr>"
| "gl_exec (PixelStorei p n) m = (if p = ''GL_UNPACK_ROW_LENGTH_EXT'' then m\<lparr>gm_row_length := n\<rparr> else m)"
| "gl_exec (Viewport a b) m = m\<lparr>gm_viewport := Some (a, b)\<rparr>"
| "gl_exec _ m = m"

definition machine :: "gles2 \<Rightarrow> gl_machine" where
  "machine s = fold gl_exec (gl_calls s) gl_initial"

lemma machine_simps [simp]:
  "machine (gl c s) = gl_exec c (machine s)" "machine (upd_gl f s) = machine s" "machine (upd_gl_surface sid g s) = machine s"
  "machine (gl_fail x s) = machine s" "machine (buffer_size bid h s) = machine s" "machine (set_y_inverted bid n s) = machine s"
  "machine (set_format sid sf s) = machine s" "machine (s\<lparr>gl_world := w\<rparr>) = machine s"
  by (simp_all add: machine_def)

text \<open>The copies of the context agree with OpenGL, and what is switched for a moment is switched back.\<close>

definition copies :: "gl_ctx \<Rightarrow> program_type option \<times> (program_type \<Rightarrow> nat) \<times> wlc_size \<times> wlc_size" where
  "copies c = (gc_program c, \<lambda>p. cp_obj (gc_programs c p), gc_resolution c, gc_mode c)"

fun agrees :: "env \<Rightarrow> gl_machine \<Rightarrow> program_type option \<times> (program_type \<Rightarrow> nat) \<times> wlc_size \<times> wlc_size \<Rightarrow> bool" where
  "agrees E m (p, obj, res, md) \<longleftrightarrow>
     (case p of None \<Rightarrow> True | Some p \<Rightarrow> gm_program m = obj p) \<and>
     (\<forall>p. gm_uniform m (obj p) = (flt_u32 E (sw res), flt_u32 E (sh res))) \<and>
     (md = wlc_size_zero \<or> gm_viewport m = Some (sw md, sh md)) \<and>
     gm_framebuffer m = 0 \<and> gm_row_length m = 0"

definition context_ok :: "env \<Rightarrow> gles2 \<Rightarrow> bool" where
  "context_ok E s \<longleftrightarrow> agrees E (machine s) (copies (gl_ctx s))"

definition renderer_ok :: "env \<Rightarrow> gles2 \<Rightarrow> bool" where
  "renderer_ok E s \<longleftrightarrow> context_ok E s \<and> gm_blend (machine s) = Some Blend_over"

text \<open>Steps that change neither the machine nor these copies.\<close>

definition steady :: "gles2 \<Rightarrow> gles2 \<Rightarrow> bool" where
  "steady s t \<longleftrightarrow> machine t = machine s \<and> copies (gl_ctx t) = copies (gl_ctx s)"

lemma steady_refl [simp]: "steady s s"
  by (simp add: steady_def)

lemma steady_trans: "steady s t \<Longrightarrow> steady t u \<Longrightarrow> steady s u"
  by (simp add: steady_def)

lemma steady_fold: "(\<And>x s. x \<in> set xs \<Longrightarrow> steady s (f x s)) \<Longrightarrow> steady s (fold f xs s)"
proof (induction xs arbitrary: s)
  case (Cons x xs)
  then have "steady s (f x s)" "steady (f x s) (fold f xs (f x s))" by simp_all
  then show ?case using steady_trans by simp
qed simp

lemma steady_context: "steady s t \<Longrightarrow> context_ok E t = context_ok E s"
  by (simp add: context_ok_def steady_def)

lemma steady_renderer: "steady s t \<Longrightarrow> renderer_ok E t = renderer_ok E s"
  by (simp add: renderer_ok_def context_ok_def steady_def)

section \<open>Textures\<close>

lemma steady_gen_texture: "steady s (surface_gen_texture L sid i s)"
  by (simp add: surface_gen_texture_def steady_def Let_def)

lemma steady_gen_textures: "steady s (surface_gen_textures L sid n s)"
  by (simp add: surface_gen_textures_def steady_fold steady_gen_texture)

lemma steady_delete: "steady s (delete_texture sid i s)" "steady s (delete_image sid i s)"
  by (simp_all add: delete_texture_def delete_image_def steady_def Let_def)

lemma steady_upd_surface [simp]: "steady s (upd_gl_surface sid f t) = steady s t"
  by (simp add: steady_def)

lemma steady_set_format [simp]: "steady s (set_format sid f t) = steady s t"
  by (simp add: steady_def)

lemma steady_fail [simp]: "steady s (gl_fail x t) = steady s t"
  by (simp add: steady_def)

lemma steady_flush_textures: "steady s (surface_flush_textures sid s)"
  by (simp add: surface_flush_textures_def steady_fold steady_delete del: fold.simps)

lemma steady_flush_images: "steady s (surface_flush_images sid s)"
  by (simp add: surface_flush_images_def steady_fold steady_delete del: fold.simps)

lemma steady_destroy: "steady s (gl_surface_destroy sid s)"
  using steady_trans [OF steady_flush_textures steady_flush_images] by (simp add: gl_surface_destroy_def)

lemma steady_create_images: "steady s (snd (create_images L sid wl target planes s))"
proof (induction planes arbitrary: s)
  case (Cons i ps)
  let ?n = "ll_name L (gl_calls s) (Create_image 0 i)"
  let ?t = "upd_gl_surface sid (\<lambda>x. x\<lparr>gs_images := (gs_images x)(i := ?n)\<rparr>) (gl (Create_image ?n i) s)"
  let ?u = "gl (Image_target target ?n) (gl (BindTexture target (gs_textures (gl_surfaces ?t sid) i)) (gl (ActiveTexture i) ?t))"
  have u: "steady s ?u" by (simp add: steady_def)
  have t: "steady s (gl (Create_image k i) s)" for k by (simp add: steady_def)
  show ?case using steady_trans [OF u Cons.IH [of ?u]] t by (simp add: Let_def)
qed simp

lemma steady_query:
  assumes "\<And>n s. steady s (f n s)"
  shows "steady s (query L wl a f s)"
proof (cases "ll_query L wl a")
  case (Some n)
  have "steady s (gl (Gl_query wl a) s)" by (simp add: steady_def)
  then show ?thesis using steady_trans [OF _ assms] by (simp add: query_def Some)
qed (simp add: query_def steady_def)

lemma steady_buffer: "steady s (buffer_size bid f s)" "steady s (set_y_inverted bid n s)"
  by (simp_all add: steady_def)

text \<open>Shared memory: the length of rows is set for the upload and set back, so a layout with texture is not steady inside.\<close>

lemma steady_shm: "gm_row_length (machine s) = 0 \<Longrightarrow> steady s (snd (shm_attach L sid bid wl b s))"
proof -
  assume r: "gm_row_length (machine s) = 0"
  show ?thesis
  proof (cases "shm_layout b")
    case None
    then show ?thesis by (simp add: shm_attach_def steady_buffer Let_def)
  next
    case (Some l)
    obtain pitch format type sf where l: "l = (pitch, format, type, sf)" by (cases l)
    let ?z = "\<lambda>_. \<lparr>sw = u32_of_i32 (sb_width b), sh = u32_of_i32 (sb_height b)\<rparr>"
    let ?t = "surface_gen_textures L sid 1 (set_format sid sf (buffer_size bid ?z s))"
    have q: "steady s ?t"
      using steady_gen_textures [of "set_format sid sf (buffer_size bid ?z s)" L sid 1] by (simp add: steady_def)
    have row: "machine ?t\<lparr>gm_row_length := 0\<rparr> = machine ?t" using q r by (simp add: steady_def)
    show ?thesis using q Some l row by (simp add: shm_attach_def steady_def Let_def)
  qed
qed

lemma steady_load: "steady s (snd (load_image_target L s))"
  by (simp add: load_image_target_def glname_def steady_def copies_def Let_def)

lemma steady_query_wl_buffer: "steady s (query_wl_buffer L bid wl s)"
  unfolding query_wl_buffer_def Let_def
  by (intro steady_trans [OF steady_trans [OF steady_query steady_query] steady_query] steady_buffer)

lemma steady_egl: "steady s (snd (egl_attach L sid bid wl format s))"
proof -
  obtain planes sf target where l: "egl_layout format = (planes, sf, target)" by (cases "egl_layout format")
  let ?t = "snd (load_image_target L s)"
  let ?u = "query_wl_buffer L bid wl ?t"
  let ?v = "surface_gen_textures L sid planes (surface_flush_images sid (set_format sid sf ?u))"
  have "steady ?u ?v"
    using steady_trans [OF steady_flush_images [of "set_format sid sf ?u" sid] steady_gen_textures [of _ L sid planes]] by (simp add: steady_def)
  then have "steady s ?v" by (rule steady_trans [OF steady_trans [OF steady_load steady_query_wl_buffer]])
  then have "steady s (snd (create_images L sid wl target [0..<planes] ?v))" using steady_create_images by (rule steady_trans)
  then show ?thesis using steady_load by (simp add: egl_attach_def case_prod_beta Let_def l)
qed

lemma steady_attach: "gm_row_length (machine s) = 0 \<Longrightarrow> steady s (snd (gl_surface_attach L sid bid s))"
proof -
  assume r: "gm_row_length (machine s) = 0"
  have q: "steady s (gl c s)" if "c = Gl_query wl a" for c wl a using that by (simp add: steady_def)
  show ?thesis
    using steady_destroy steady_shm [OF r] steady_trans [OF q steady_egl] q
    by (auto simp: gl_surface_attach_def Let_def split: option.splits)
qed

section \<open>Painting\<close>

lemma context_set_program:
  assumes "context_ok E s"
  shows "context_ok E (set_program p s)"
  using assms by (cases "gc_program (gl_ctx s)") (simp_all add: context_ok_def set_program_def copies_def)

lemma bind_textures_simps [simp]:
  "machine (bind_textures f i ts s) = machine s" "gl_ctx (bind_textures f i ts s) = gl_ctx s"
  by (induction ts arbitrary: i s) simp_all

lemma context_gl: "gl_exec c (machine s) = machine s \<Longrightarrow> context_ok E (gl c s) = context_ok E s"
  by (simp add: context_ok_def)

lemma context_bind_textures: "context_ok E (bind_textures f i ts s) = context_ok E s"
  by (simp add: context_ok_def)

lemma context_texture_paint: "context_ok E s \<Longrightarrow> context_ok E (texture_paint F ts g p s)"
  by (simp add: texture_paint_def Let_def context_gl context_bind_textures context_set_program)

lemma blend_texture_paint [simp]: "gm_blend (machine (texture_paint F ts g p s)) = gm_blend (machine s)"
  by (simp add: texture_paint_def Let_def set_program_def)

lemma context_fail [simp]: "context_ok E (gl_fail x s) = context_ok E s"
  by (simp add: context_ok_def)

lemma renderer_texture_paint: "renderer_ok E s \<Longrightarrow> renderer_ok E (texture_paint F ts g p s)"
  by (simp add: renderer_ok_def context_texture_paint)

lemma renderer_fail [simp]: "renderer_ok E (gl_fail x s) = renderer_ok E s"
  by (simp add: renderer_ok_def)

lemma renderer_internal:
  assumes "renderer_ok E s"
  shows "renderer_ok E (surface_paint_internal F sid g p s)"
proof (cases "surface_of (gl_world s) sid")
  case (Some x)
  let ?s = "if ss_scale (sf_commit x) \<ge> 1 then s else gl_fail Assertion s"
  have "renderer_ok E ?s" using assms by simp
  then show ?thesis by (simp add: surface_paint_internal_def Some Let_def renderer_texture_paint)
qed (simp add: surface_paint_internal_def assms)

lemma renderer_paint_region:
  assumes "renderer_ok E s"
  shows "renderer_ok E (paint_region F t g p s)"
proof -
  have "context_ok E (gl (BlendFunc b) s')" if "context_ok E s'" for b s'
    using that by (simp add: context_ok_def copies_def split: option.splits)
  then show ?thesis
    using assms by (simp add: renderer_ok_def paint_region_def Let_def context_texture_paint)
qed

lemma renderer_debug_regions:
  assumes "renderer_ok E s"
  shows "renderer_ok E (debug_regions F opaque input p s)"
proof -
  let ?a = "if fst opaque then s else gl_fail Assertion s"
  let ?t = "if gl_draw_opaque s then paint_region F TEXTURE_RED (snd (snd opaque)) p ?a else s"
  have t: "renderer_ok E ?t" using assms by (simp add: renderer_paint_region)
  then have "renderer_ok E (if fst input then ?t else gl_fail Assertion ?t)"
    by (cases "fst input") (simp_all only: if_True if_False renderer_fail)
  then have "renderer_ok E (paint_region F TEXTURE_BLUE (snd input) p (if fst input then ?t else gl_fail Assertion ?t))"
    by (rule renderer_paint_region)
  then show ?thesis using t by (simp only: debug_regions_def Let_def split: if_split) blast
qed

lemma renderer_surface_paint: "renderer_ok E s \<Longrightarrow> renderer_ok E (gl_surface_paint F sid g s)"
  by (simp add: gl_surface_paint_def Let_def renderer_debug_regions renderer_internal)

lemma renderer_view_paint: "renderer_ok E s \<Longrightarrow> renderer_ok E (gl_view_paint F vid s)"
proof -
  assume ok: "renderer_ok E s"
  then have "renderer_ok E (if b then s else gl_fail Assertion s)" for b by simp
  then show ?thesis
    using ok by (simp add: gl_view_paint_def Let_def case_prod_beta renderer_debug_regions renderer_internal split: option.splits)
qed

section \<open>Resolution and pixels\<close>

lemma steady_gl: "gl_exec c (machine s) = machine s \<Longrightarrow> steady s (gl c s)"
  by (simp add: steady_def)

lemma clear_fakefb_machine: "machine (clear_fakefb s) = machine s\<lparr>gm_framebuffer := 0\<rparr>"
  by (simp add: clear_fakefb_def)

lemma clear_fakefb_ctx [simp]: "gl_ctx (clear_fakefb s) = gl_ctx s"
  by (simp add: clear_fakefb_def)

lemma renderer_clear_fakefb: "renderer_ok E s \<Longrightarrow> renderer_ok E (clear_fakefb s)"
  by (simp add: renderer_ok_def context_ok_def clear_fakefb_machine copies_def split: option.splits)

lemma renderer_ctx:
  "copies (f (gl_ctx s)) = copies (gl_ctx s) \<Longrightarrow> renderer_ok E (upd_gl f s) = renderer_ok E s"
  by (simp add: renderer_ok_def context_ok_def)

lemma renderer_flush: "renderer_ok E s \<Longrightarrow> renderer_ok E (flush_fakefb F s)"
  by (simp add: flush_fakefb_def Let_def renderer_ctx copies_def renderer_clear_fakefb renderer_texture_paint)

lemma renderer_gl: "gl_exec c (machine s) = machine s \<Longrightarrow> renderer_ok E (gl c s) = renderer_ok E s"
  by (simp add: renderer_ok_def context_ok_def)

lemma renderer_write: "renderer_ok E s \<Longrightarrow> renderer_ok E (write_pixels g d s)"
  by (simp add: write_pixels_def Let_def renderer_ctx copies_def renderer_gl)

lemma renderer_read: "renderer_ok E s \<Longrightarrow> renderer_ok E (snd (read_pixels g s))"
  by (simp add: read_pixels_def Let_def renderer_gl)

text \<open>Setting the uniform of every program, whether or not two programs share an object.\<close>

lemma set_resolution_ctx [simp]:
  "gc_programs (gl_ctx (set_resolution E res p s)) = gc_programs (gl_ctx s)" "gc_mode (gl_ctx (set_resolution E res p s)) = gc_mode (gl_ctx s)"
  "gc_program (gl_ctx (set_resolution E res p s)) = Some p"
  by (simp_all add: set_resolution_def set_program_def Let_def)

lemma set_resolution_machine [simp]:
  "machine (set_resolution E res p s) = (machine s)\<lparr>gm_program := cp_obj (gc_programs (gl_ctx s) p),
     gm_uniform := (gm_uniform (machine s))(cp_obj (gc_programs (gl_ctx s) p) := (flt_u32 E (sw res), flt_u32 E (sh res)))\<rparr>"
  by (simp add: set_resolution_def set_program_def Let_def)

definition resolution_set :: "env \<Rightarrow> wlc_size \<Rightarrow> program_type set \<Rightarrow> gles2 \<Rightarrow> bool" where
  "resolution_set E res ps s \<longleftrightarrow>
     (\<forall>p\<in>ps. gm_uniform (machine s) (cp_obj (gc_programs (gl_ctx s) p)) = (flt_u32 E (sw res), flt_u32 E (sh res)))"

lemma set_resolutions:
  "resolution_set E res qs s \<Longrightarrow> resolution_set E res (qs \<union> set ps) (fold (set_resolution E res) ps s)"
proof (induction ps arbitrary: s qs)
  case (Cons p ps)
  have "resolution_set E res (insert p qs) (set_resolution E res p s)" using Cons.prems by (simp add: resolution_set_def)
  then show ?case using Cons.IH [of "insert p qs"] by simp
qed simp

lemma set_resolutions_rest:
  "ps \<noteq> [] \<Longrightarrow> gc_programs (gl_ctx (fold (set_resolution E res) ps s)) = gc_programs (gl_ctx s) \<and>
     gc_mode (gl_ctx (fold (set_resolution E res) ps s)) = gc_mode (gl_ctx s) \<and>
     gc_program (gl_ctx (fold (set_resolution E res) ps s)) = Some (last ps) \<and>
     gm_program (machine (fold (set_resolution E res) ps s)) = cp_obj (gc_programs (gl_ctx s) (last ps)) \<and>
     gm_blend (machine (fold (set_resolution E res) ps s)) = gm_blend (machine s) \<and>
     gm_framebuffer (machine (fold (set_resolution E res) ps s)) = gm_framebuffer (machine s) \<and>
     gm_row_length (machine (fold (set_resolution E res) ps s)) = gm_row_length (machine s) \<and>
     gm_viewport (machine (fold (set_resolution E res) ps s)) = gm_viewport (machine s)"
proof (induction ps arbitrary: s)
  case (Cons p ps)
  show ?case
  proof (cases ps)
    case (Cons q qs)
    then show ?thesis using Cons.IH [of "set_resolution E res p s"] by simp
  qed simp
qed simp

lemma all_programs: "p \<in> set programs"
  by (cases p) (simp_all add: programs_def)

lemma renderer_new_resolution:
  assumes "renderer_ok E s"
  shows "renderer_ok E (upd_gl (\<lambda>c. c\<lparr>gc_resolution := res\<rparr>) (fold (set_resolution E res) programs s))"
proof -
  let ?t = "fold (set_resolution E res) programs s"
  have "resolution_set E res ({} \<union> set programs) ?t" by (rule set_resolutions) (simp add: resolution_set_def)
  then have "gm_uniform (machine ?t) (cp_obj (gc_programs (gl_ctx ?t) p)) = (flt_u32 E (sw res), flt_u32 E (sh res))" for p
    using all_programs [of p] by (simp add: resolution_set_def)
  moreover have "programs \<noteq> []" by (simp add: programs_def)
  ultimately show ?thesis
    using assms set_resolutions_rest [of programs E res s] by (simp add: renderer_ok_def context_ok_def copies_def)
qed

lemma renderer_new_mode:
  assumes "renderer_ok E s"
  shows "renderer_ok E (upd_gl (\<lambda>c. c\<lparr>gc_mode := md\<rparr>) (gl (Viewport (sw md) (sh md)) s))"
  using assms by (simp add: renderer_ok_def context_ok_def copies_def split: option.splits)

lemma renderer_resolution:
  assumes "renderer_ok E s"
  shows "renderer_ok E (resolution E md res scale s)"
proof -
  let ?f = "\<lambda>s. gl (TexImage2D GL_RGBA (sw res) (sh res) GL_UNSIGNED_BYTE No_pixels)
    (gl (BindTexture GL_TEXTURE_2D (gc_textures (gl_ctx s) TEXTURE_FAKEFB)) s)"
  let ?t = "upd_gl (\<lambda>c. c\<lparr>gc_resolution := res\<rparr>) (clear_fakefb (?f (fold (set_resolution E res) programs s)))"
  have swap: "renderer_ok E (upd_gl g (clear_fakefb (?f u))) = renderer_ok E (clear_fakefb (?f (upd_gl g u)))"
    if "\<And>c. gc_textures (g c) = gc_textures c" for g u
    by (simp add: renderer_ok_def context_ok_def clear_fakefb_machine that)
  have t: "renderer_ok E ?t"
    using renderer_new_resolution [OF assms, of res] by (simp add: swap renderer_clear_fakefb renderer_gl)
  have last: "renderer_ok E (upd_gl (\<lambda>c. c\<lparr>gc_native_resolution := nr, gc_scale := scale\<rparr>) u)" if "renderer_ok E u" for nr u
    using that by (simp add: renderer_ctx copies_def)
  show ?thesis
    using assms t by (simp add: resolution_def Let_def last renderer_new_mode)
qed

section \<open>Creation\<close>

text \<open>While the programs are made no uniform \<open>resolution\<close> is set; the last one made is in use.\<close>

definition making :: "gles2 \<Rightarrow> bool" where
  "making s \<longleftrightarrow>
     gm_uniform (machine s) = (\<lambda>_. (0, 0)) \<and> gm_row_length (machine s) = 0 \<and>
     gc_resolution (gl_ctx s) = wlc_size_zero \<and> gc_mode (gl_ctx s) = wlc_size_zero"

definition in_use :: "gles2 \<Rightarrow> bool" where
  "in_use s \<longleftrightarrow> (case gc_program (gl_ctx s) of None \<Rightarrow> True | Some p \<Rightarrow> gm_program (machine s) = cp_obj (gc_programs (gl_ctx s) p))"

lemma create_shader_simps [simp]:
  "machine (snd (create_shader L source s)) = machine s" "gl_ctx (snd (create_shader L source s)) = gl_ctx s"
  by (simp_all add: create_shader_def glname_def Let_def)

lemma uniforms_simps [simp]:
  "machine (uniforms L p ns s) = machine s" "cp_obj (gc_programs (gl_ctx (uniforms L p ns s)) q) = cp_obj (gc_programs (gl_ctx s) q)"
  "gc_program (gl_ctx (uniforms L p ns s)) = gc_program (gl_ctx s)" "gc_resolution (gl_ctx (uniforms L p ns s)) = gc_resolution (gl_ctx s)"
  "gc_mode (gl_ctx (uniforms L p ns s)) = gc_mode (gl_ctx s)"
  by (induction ns arbitrary: s) (simp_all add: glname_def)

lemma create_program_made:
  assumes "fst (create_program L p source s)" "making s"
  shows "making (snd (create_program L p source s)) \<and> in_use (snd (create_program L p source s))"
proof -
  obtain vo s1 where v: "create_shader L Vert_shader s = (vo, s1)" by (cases "create_shader L Vert_shader s")
  obtain fo s2 where f: "create_shader L source s1 = (fo, s2)" by (cases "create_shader L source s1")
  have s1: "machine s1 = machine s" "gl_ctx s1 = gl_ctx s" using create_shader_simps [of L Vert_shader s] by (simp_all add: v)
  have s2: "machine s2 = machine s" "gl_ctx s2 = gl_ctx s" using create_shader_simps [of L source s1] s1 by (simp_all add: f)
  show ?thesis
    using assms by (cases vo; cases fo)
      (auto simp: create_program_def v f glname_def Let_def making_def in_use_def set_program_def s2 fun_upd_idem split: if_splits)
qed

lemma create_programs_made:
  assumes "fst (create_programs L source ps s)" "making s" "in_use s"
  shows "making (snd (create_programs L source ps s)) \<and> in_use (snd (create_programs L source ps s))"
  using assms
proof (induction ps arbitrary: s)
  case (Cons p ps)
  then have "fst (create_program L p (source p) s)" by (auto simp: case_prod_beta split: if_splits)
  with Cons create_program_made [of L p "source p" s] show ?case by (auto simp: case_prod_beta split: if_splits)
qed simp

lemma fold_gen_texture [simp]:
  "machine (fold (gen_texture L) ts s) = machine s" "copies (gl_ctx (fold (gen_texture L) ts s)) = copies (gl_ctx s)"
  by (induction ts arbitrary: s) (simp_all add: gen_texture_def Let_def copies_def)

lemma fold_fill_texture [simp]:
  "machine (fold fill_texture ts s) = machine s" "gl_ctx (fold fill_texture ts s) = gl_ctx s"
proof (induction ts arbitrary: s)
  case (Cons t ts)
  { case 1 show ?case using Cons.IH by (cases t) (simp_all add: fill_texture_def) }
  { case 2 show ?case using Cons.IH by (simp add: fill_texture_def) }
qed simp_all

definition fresh_context :: "gles2 \<Rightarrow> bool" where "fresh_context s \<longleftrightarrow> gl_calls s = []"

lemma create_context_ok:
  assumes "fp_ok (fpo E)" "fresh_context s" "fst (gl_create_context L s)"
  shows "renderer_ok E (snd (gl_create_context L s))"
proof -
  have "f32 (fpo E) (of_int 0) = of_int 0"
    using assms(1) unfolding fp_ok_def by (metis abs_zero zero_le_numeral zero_le_power)
  then have zero: "flt_u32 E 0 = 0" by (simp add: flt_u32_def flt_def u32_real_def)
  let ?s0 = "upd_gl (\<lambda>c. c\<lparr>gc_extensions := ll_string L ''GL_EXTENSIONS''\<rparr>)
     (gl (GetString ''GL_EXTENSIONS'') (gl (GetString ''GL_VENDOR'') (gl (GetString ''GL_VERSION'') (upd_gl (\<lambda>_. gl_ctx_zero) s))))"
  let ?src = "\<lambda>p. if p = PROGRAM_EGL \<and> \<not> gl_has_extension ?s0 ''GL_OES_EGL_image_external'' then Frag_shader_dummy else Frag_shader p"
  obtain ok s1 where s1: "create_programs L ?src programs ?s0 = (ok, s1)" by (cases "create_programs L ?src programs ?s0")
  have calloc: "ll_calloc L" and ok: "ok" using assms(3) s1 by (auto simp: gl_create_context_def Let_def split: if_splits)
  have "machine s = gl_initial" using assms(2) by (simp add: machine_def fresh_context_def)
  then have "making ?s0" "in_use ?s0" by (simp_all add: making_def in_use_def gl_ctx_zero_def gl_initial_def)
  then have made: "making s1 \<and> in_use s1" using create_programs_made [of L ?src programs ?s0] s1 ok by simp
  let ?s2 = "fold fill_texture fixed_textures (fold (gen_texture L) fixed_textures (gl (PixelStorei ''GL_UNPACK_ALIGNMENT'' 1) s1))"
  have s2: "machine ?s2 = machine s1" "copies (gl_ctx ?s2) = copies (gl_ctx s1)" by simp_all
  have "agrees E (machine s1\<lparr>gm_framebuffer := 0\<rparr>) (copies (gl_ctx s1))"
    using made by (simp add: making_def in_use_def copies_def zero wlc_size_zero_def split: option.splits)
  moreover have "copies (c\<lparr>gc_clear_fbo := n\<rparr>) = copies c" for c n by (simp add: copies_def)
  moreover have "agrees E (m\<lparr>gm_blend := b\<rparr>) c = agrees E m c" for m b c by (cases c) (simp split: option.splits)
  ultimately show ?thesis
    using s1 ok calloc s2 by (simp add: gl_create_context_def Let_def glname_def renderer_ok_def context_ok_def)
qed

lemma renderer_request:
  assumes "renderer_ok E s"
  shows "renderer_ok E (gl_request E L r s)"
proof (cases r)
  case (Gl_attach sid bid)
  have "gm_row_length (machine s) = 0" using assms by (cases "copies (gl_ctx s)") (simp add: renderer_ok_def context_ok_def)
  then show ?thesis using steady_renderer [OF steady_attach] assms Gl_attach by simp
qed (use assms in \<open>simp_all add: steady_renderer [OF steady_destroy] renderer_resolution renderer_view_paint renderer_surface_paint
    gl_pointer_paint_def renderer_texture_paint renderer_read renderer_write renderer_flush gl_clear_def renderer_gl\<close>)

text \<open>C32 (invariant). 
  C1 (invariant). Over any run of the functions of the renderer, whatever happens to the world in between, OpenGL is in
  the state the renderer believes it to be in: every program has the resolution of the context, the viewport is its
  mode, its program is in use; and blending, framebuffer and row length are back where creation left them.
\<close>
theorem renderer_state_is_true:
  assumes "fp_ok (fpo E)" "fresh_context s" "fst (wlc_gles2 L s)"
  shows "renderer_ok E (gl_runs E L rs (snd (wlc_gles2 L s)))"
proof -
  have "renderer_ok E (snd (wlc_gles2 L s))"
    using create_context_ok [OF assms(1,2), of L] assms(3)
    by (auto simp: wlc_gles2_def case_prod_beta renderer_ok_def context_ok_def machine_def split: if_splits)
  moreover have "renderer_ok E (fold (\<lambda>(w, r) s. gl_request E L r (s\<lparr>gl_world := w\<rparr>)) rs t)" if "renderer_ok E t" for t
    using that
  proof (induction rs arbitrary: t)
    case (Cons x rs)
    then have "renderer_ok E (t\<lparr>gl_world := fst x\<rparr>)" by (simp add: renderer_ok_def context_ok_def)
    then show ?case using Cons.IH [OF renderer_request] by (simp add: case_prod_beta)
  qed simp
  ultimately show ?thesis by (simp add: gl_runs_def)
qed

definition gl_lib_ref :: gl_lib where
  "gl_lib_ref = \<lparr>ll_name = (\<lambda>h c. Suc (length h)), ll_status = (\<lambda>_. True), ll_string = (\<lambda>_. Some ''GL_OES_EGL_image_external''),
     ll_shm = (\<lambda>wl. if wl = 7 then Some \<lparr>sb_width = 4, sb_height = 4, sb_stride = 16, sb_format = 0\<rparr> else None),
     ll_query = (\<lambda>wl a. if a = ''EGL_TEXTURE_FORMAT'' then Some 0x31D7 else Some 4),
     ll_calloc = True, ll_env_opaque = None, ll_env_input = Some True\<rparr>"

definition gles2_blank :: gles2 where
  "gles2_blank = \<lparr>gl_world = world_blank, gl_ctx = gl_ctx_zero, gl_surfaces = (\<lambda>_. gl_surface_zero), gl_draw_opaque = False,
     gl_draw_input = False, gl_calls = []\<rparr>"

lemma gles2_ref_created: "fst (wlc_gles2 gl_lib_ref gles2_blank)"
proof -
  have shader: "fst (create_shader gl_lib_ref source s) = Some (Suc (length (gl_calls s)))" for source s
    by (simp add: create_shader_def glname_def Let_def gl_lib_ref_def)
  have "fst (create_program gl_lib_ref p source s)" for p source s
    using shader by (simp add: create_program_def case_prod_beta Let_def glname_def gl_lib_ref_def split: option.splits prod.splits)
  then have "fst (create_programs gl_lib_ref src ps s)" for src ps s
    by (induction ps arbitrary: s) (simp_all add: case_prod_beta)
  then show ?thesis by (simp add: wlc_gles2_def gl_create_context_def case_prod_beta Let_def) (simp add: gl_lib_ref_def)
qed

theorem renderer_state_is_true_witness:
  "renderer_ok env_ref (gl_runs env_ref gl_lib_ref [(world_blank, Gl_resolution \<lparr>sw = 800, sh = 600\<rparr> \<lparr>sw = 400, sh = 300\<rparr> 2),
     (world_blank, Gl_pointer_paint \<lparr>px = 5, py = 6\<rparr>)] (snd (wlc_gles2 gl_lib_ref gles2_blank)))"
proof (rule renderer_state_is_true)
  show "fp_ok (fpo env_ref)" by (simp add: env_ref_def)
  show "fresh_context gles2_blank" by (simp add: fresh_context_def gles2_blank_def)
  show "fst (wlc_gles2 gl_lib_ref gles2_blank)" by (rule gles2_ref_created)
qed

section \<open>Textures and images\<close>

text \<open>
  An account: the calls that make objects and those that delete them, and the slots of a surface. The balance of a
  name over the surfaces \<open>S\<close> is how often it was made, less how often it was deleted and how many slots hold it.
\<close>

record account =
  ac_made :: "gl_call \<Rightarrow> nat list"
  ac_deleted :: "gl_call \<Rightarrow> nat list"
  ac_slots :: "gl_surface \<Rightarrow> nat \<Rightarrow> nat"

definition held :: "account \<Rightarrow> gl_surface \<Rightarrow> nat list" where
  "held A x = filter (\<lambda>n. n \<noteq> 0) (map (ac_slots A x) [0, 1, 2])"

definition tally :: "account \<Rightarrow> gl_call list \<Rightarrow> nat \<Rightarrow> int" where
  "tally A cs n = int (count_list (concat (map (ac_made A) cs)) n) - int (count_list (concat (map (ac_deleted A) cs)) n)"

definition owed :: "account \<Rightarrow> nat set \<Rightarrow> gles2 \<Rightarrow> nat \<Rightarrow> int" where
  "owed A S s n = tally A (gl_calls s) n - (\<Sum>sid\<in>S. int (count_list (held A (gl_surfaces s sid)) n))"

definition texture_account :: account where
  "texture_account = \<lparr>ac_made = (\<lambda>c. case c of GenTexture n \<Rightarrow> [n] | _ \<Rightarrow> []),
     ac_deleted = (\<lambda>c. case c of DeleteTexture n \<Rightarrow> [n] | _ \<Rightarrow> []), ac_slots = gs_textures\<rparr>"

definition image_account :: account where
  "image_account = \<lparr>ac_made = (\<lambda>c. case c of Create_image n _ \<Rightarrow> filter (\<lambda>n. n \<noteq> 0) [n] | _ \<Rightarrow> []),
     ac_deleted = (\<lambda>c. case c of Destroy_image n \<Rightarrow> [n] | _ \<Rightarrow> []), ac_slots = gs_images\<rparr>"

lemma tally_append [simp]: "tally A (cs @ ds) n = tally A cs n + tally A ds n"
  by (simp add: tally_def)

lemma tally_Nil [simp]: "tally A [] n = 0"
  by (simp add: tally_def)

text \<open>A step on one surface keeps the balance when the tally moves with the slots of that surface.\<close>

definition keeps_account :: "account \<Rightarrow> nat \<Rightarrow> gles2 \<Rightarrow> gles2 \<Rightarrow> bool" where
  "keeps_account A sid s t \<longleftrightarrow>
     (\<forall>k. k \<noteq> sid \<longrightarrow> gl_surfaces t k = gl_surfaces s k) \<and>
     (\<forall>n. tally A (gl_calls t) n - int (count_list (held A (gl_surfaces t sid)) n) =
          tally A (gl_calls s) n - int (count_list (held A (gl_surfaces s sid)) n))"

lemma keeps_account_refl [simp]: "keeps_account A sid s s"
  by (simp add: keeps_account_def)

lemma keeps_account_trans: "keeps_account A sid s t \<Longrightarrow> keeps_account A sid t u \<Longrightarrow> keeps_account A sid s u"
  by (simp add: keeps_account_def)

lemma keeps_account_fold: "(\<And>x s. x \<in> set xs \<Longrightarrow> keeps_account A sid s (f x s)) \<Longrightarrow> keeps_account A sid s (fold f xs s)"
proof (induction xs arbitrary: s)
  case (Cons x xs)
  then have "keeps_account A sid s (f x s)" "keeps_account A sid (f x s) (fold f xs (f x s))" by simp_all
  then show ?case using keeps_account_trans by simp
qed simp

lemma keeps_account_owed:
  assumes "keeps_account A sid s t" "finite S" "sid \<in> S"
  shows "owed A S t n = owed A S s n"
proof -
  have "(\<Sum>k\<in>S - {sid}. int (count_list (held A (gl_surfaces t k)) n)) = (\<Sum>k\<in>S - {sid}. int (count_list (held A (gl_surfaces s k)) n))"
    using assms(1) by (intro sum.cong) (simp_all add: keeps_account_def)
  then show ?thesis
    using assms by (simp add: owed_def sum.remove [OF assms(2,3)] keeps_account_def algebra_simps)
qed

text \<open>Calls that make and delete nothing, and changes of a surface that leave the slots.\<close>

lemma keeps_gl: "ac_made A c = [] \<Longrightarrow> ac_deleted A c = [] \<Longrightarrow> keeps_account A sid s (gl c t) = keeps_account A sid s t"
  by (simp add: keeps_account_def tally_def)

lemma keeps_same: "gl_calls t = gl_calls u \<Longrightarrow> gl_surfaces t = gl_surfaces u \<Longrightarrow> keeps_account A sid s t = keeps_account A sid s u"
  by (simp add: keeps_account_def)

lemma keeps_slots:
  assumes "\<And>x. held A (f x) = held A x"
  shows "keeps_account A sid s (upd_gl_surface sid f t) = keeps_account A sid s t"
  using assms by (simp add: keeps_account_def)

definition accounts :: "account set" where "accounts = {texture_account, image_account}"

lemma accounts_cases: "A \<in> accounts \<Longrightarrow> A = texture_account \<or> A = image_account"
  by (simp add: accounts_def)

definition plain :: "gl_call \<Rightarrow> bool" where
  "plain c \<longleftrightarrow> (\<forall>A\<in>accounts. ac_made A c = [] \<and> ac_deleted A c = [])"

lemma plain_calls [simp]:
  "plain (BindTexture t n)" "plain TexClamp" "plain (TexFilter f)" "plain (ActiveTexture i)" "plain (TexImage2D gf a b ty d)"
  "plain (TexSubImage2D x y a b k)" "plain (PixelStorei q m)" "plain (Begin_access k)" "plain (End_access k)"
  "plain (Gl_query k q)" "plain (Image_target t n)" "plain (Get_proc_address q)" "plain (UseProgram n)" "plain (Uniform2fv n u v)"
  "plain (BindFramebuffer n)" "plain Clear" "plain (Viewport a b)" "plain (Draw vs)" "plain (ReadPixels x r a b)" "plain (BlendFunc bl)"
  by (simp_all add: plain_def accounts_def texture_account_def image_account_def)

lemma keeps_plain: "A \<in> accounts \<Longrightarrow> plain c \<Longrightarrow> keeps_account A sid s (gl c t) = keeps_account A sid s t"
  by (simp add: plain_def keeps_gl)

lemma keeps_upd_gl [simp]: "keeps_account A sid s (upd_gl f t) = keeps_account A sid s t"
  by (rule keeps_same) simp_all

lemma keeps_fail [simp]: "keeps_account A sid s (gl_fail x t) = keeps_account A sid s t"
  by (rule keeps_same) simp_all

lemma keeps_set_format: "A \<in> accounts \<Longrightarrow> keeps_account A sid s (set_format sid f t) = keeps_account A sid s t"
  unfolding set_format_def by (rule keeps_slots) (auto simp: accounts_def held_def texture_account_def image_account_def)

lemma keeps_buffer [simp]:
  "keeps_account A sid s (buffer_size bid f t) = keeps_account A sid s t" "keeps_account A sid s (set_y_inverted bid n t) = keeps_account A sid s t"
  by (rule keeps_same, simp_all)+

lemma keeps_step:
  assumes "gl_calls t = gl_calls s @ cs" "\<And>k. k \<noteq> sid \<Longrightarrow> gl_surfaces t k = gl_surfaces s k"
    "\<And>n. int (count_list (held A (gl_surfaces t sid)) n) = int (count_list (held A (gl_surfaces s sid)) n) + tally A cs n"
  shows "keeps_account A sid s t"
  using assms by (simp add: keeps_account_def)

definition taken :: "(nat \<Rightarrow> nat) \<Rightarrow> nat list" where "taken f = filter (\<lambda>n. n \<noteq> 0) (map f [0, 1, 2])"

lemma held_taken: "held texture_account x = taken (gs_textures x)" "held image_account x = taken (gs_images x)"
  by (simp_all add: held_def taken_def texture_account_def image_account_def)

lemma taken_zero [simp]: "taken (\<lambda>_. 0) = []"
  by (simp add: taken_def)

lemma taken_fill:
  assumes "f i = 0" "i < 3"
  shows "int (count_list (taken (f(i := k))) n) = int (count_list (taken f) n) + of_bool (k = n \<and> k \<noteq> 0)"
proof -
  consider "i = 0" | "i = 1" | "i = 2" using assms(2) by linarith
  then show ?thesis using assms(1) by cases (simp_all add: taken_def)
qed

lemma tally_singles [simp]:
  "tally texture_account [GenTexture k] n = of_bool (k = n)" "tally image_account [GenTexture k] n = 0"
  "tally texture_account [Create_image k i] n = 0" "tally image_account [Create_image k i] n = of_bool (k = n \<and> k \<noteq> 0)"
  by (simp_all add: tally_def texture_account_def image_account_def)

text \<open>Names of textures are never 0.\<close>

definition names_ok :: "gl_lib \<Rightarrow> bool" where "names_ok L \<longleftrightarrow> (\<forall>h. ll_name L h (GenTexture 0) \<noteq> 0)"

lemma keeps_gen_texture:
  assumes "A \<in> accounts" "names_ok L" "i < 3"
  shows "keeps_account A sid s (surface_gen_texture L sid i s)"
proof (cases "gs_textures (gl_surfaces s sid) i = 0")
  case True
  let ?n = "ll_name L (gl_calls s) (GenTexture 0)"
  let ?t = "upd_gl_surface sid (\<lambda>x. x\<lparr>gs_textures := (gs_textures x)(i := ?n)\<rparr>) (gl (GenTexture ?n) s)"
  have n: "?n \<noteq> 0" using assms(2) by (simp add: names_ok_def)
  have "keeps_account texture_account sid s ?t" "keeps_account image_account sid s ?t"
    by (rule keeps_step [where cs = "[GenTexture ?n]"]; use taken_fill [where f = "gs_textures (gl_surfaces s sid)" and i = i and k = ?n, OF True assms(3)] n in \<open>simp add: held_taken\<close>)+
  then have "keeps_account A sid s ?t" using accounts_cases [OF assms(1)] by blast
  then show ?thesis using True assms(1) by (simp add: surface_gen_texture_def Let_def keeps_plain)
qed (simp add: surface_gen_texture_def)

lemma keeps_gen_textures:
  assumes "A \<in> accounts" "names_ok L" "k \<le> 3"
  shows "keeps_account A sid s (surface_gen_textures L sid k s)"
  unfolding surface_gen_textures_def
  by (rule keeps_account_fold) (rule keeps_gen_texture [OF assms(1,2)], use assms(3) in simp)

lemma delete_texture_calls:
  "gl_calls (delete_texture sid i s) = gl_calls s @ map DeleteTexture (filter (\<lambda>n. n \<noteq> 0) [gs_textures (gl_surfaces s sid) i])"
  "gl_surfaces (delete_texture sid i s) = gl_surfaces s"
  by (simp_all add: delete_texture_def Let_def)

lemma delete_image_calls:
  "gl_calls (delete_image sid i s) = gl_calls s @ map Destroy_image (filter (\<lambda>n. n \<noteq> 0) [gs_images (gl_surfaces s sid) i])"
  "gl_surfaces (delete_image sid i s) = gl_surfaces s"
  by (simp_all add: delete_image_def Let_def)

lemma tally_deletes [simp]:
  "tally texture_account (map DeleteTexture ts) n = - int (count_list ts n)" "tally image_account (map DeleteTexture ts) n = 0"
  "tally texture_account (map Destroy_image ts) n = 0" "tally image_account (map Destroy_image ts) n = - int (count_list ts n)"
  by (induction ts) (simp_all add: tally_def texture_account_def image_account_def)

lemma deletes_taken:
  "filter (\<lambda>n. n \<noteq> 0) [f 0] @ filter (\<lambda>n. n \<noteq> 0) [f 1] @ filter (\<lambda>n. n \<noteq> 0) [f 2] = taken f"
  by (simp add: taken_def)

lemma flush_textures_calls:
  "gl_calls (surface_flush_textures sid s) = gl_calls s @ map DeleteTexture (taken (gs_textures (gl_surfaces s sid)))"
  unfolding deletes_taken [symmetric] by (simp add: surface_flush_textures_def delete_texture_calls)

lemma flush_images_calls:
  "gl_calls (surface_flush_images sid s) = gl_calls s @ map Destroy_image (taken (gs_images (gl_surfaces s sid)))"
  unfolding deletes_taken [symmetric] by (simp add: surface_flush_images_def delete_image_calls)

lemma flush_surfaces:
  "gl_surfaces (surface_flush_textures sid s) = (gl_surfaces s)(sid := (gl_surfaces s sid)\<lparr>gs_textures := \<lambda>_. 0\<rparr>)"
  "gl_surfaces (surface_flush_images sid s) = (gl_surfaces s)(sid := (gl_surfaces s sid)\<lparr>gs_images := \<lambda>_. 0\<rparr>)"
  by (simp_all add: surface_flush_textures_def surface_flush_images_def delete_texture_calls delete_image_calls)

lemma keeps_flush_textures: "A \<in> accounts \<Longrightarrow> keeps_account A sid s (surface_flush_textures sid s)"
  by (rule keeps_step [OF flush_textures_calls]) (auto dest!: accounts_cases simp: flush_surfaces held_taken)

lemma keeps_flush_images: "A \<in> accounts \<Longrightarrow> keeps_account A sid s (surface_flush_images sid s)"
  by (rule keeps_step [OF flush_images_calls]) (auto dest!: accounts_cases simp: flush_surfaces held_taken)

lemma keeps_destroy: "A \<in> accounts \<Longrightarrow> keeps_account A sid s (gl_surface_destroy sid s)"
  unfolding gl_surface_destroy_def by (rule keeps_account_trans [OF keeps_flush_textures keeps_flush_images])

lemma keeps_create_images:
  assumes "A \<in> accounts" "distinct ps" "\<forall>i\<in>set ps. i < 3 \<and> gs_images (gl_surfaces s sid) i = 0"
  shows "keeps_account A sid s (snd (create_images L sid wl target ps s))"
  using assms(2,3)
proof (induction ps arbitrary: s)
  case (Cons i ps)
  let ?n = "ll_name L (gl_calls s) (Create_image 0 i)"
  let ?t = "upd_gl_surface sid (\<lambda>x. x\<lparr>gs_images := (gs_images x)(i := ?n)\<rparr>) (gl (Create_image ?n i) s)"
  let ?u = "gl (Image_target target ?n) (gl (BindTexture target (gs_textures (gl_surfaces ?t sid) i)) (gl (ActiveTexture i) ?t))"
  have i: "gs_images (gl_surfaces s sid) i = 0" "i < 3" using Cons.prems(2) by simp_all
  have "keeps_account texture_account sid s ?t" "keeps_account image_account sid s ?t"
    by (rule keeps_step [where cs = "[Create_image ?n i]"]; use taken_fill [where f = "gs_images (gl_surfaces s sid)" and i = i and k = ?n, OF i] in \<open>simp add: held_taken\<close>)+
  then have t: "keeps_account A sid s ?t" using accounts_cases [OF assms(1)] by blast
  then have u: "keeps_account A sid s ?u" using assms(1) by (simp add: keeps_plain)
  have "keeps_account A sid ?u (snd (create_images L sid wl target ps ?u))"
    using Cons.prems by (intro Cons.IH) auto
  then have go: "keeps_account A sid s (snd (create_images L sid wl target ps ?u))" by (rule keeps_account_trans [OF u])
  show ?case
  proof (cases "?n = 0")
    case True
    then have "snd (create_images L sid wl target (i # ps) s) = ?t" by (simp add: Let_def)
    then show ?thesis using t by (simp only:)
  next
    case False
    then have "snd (create_images L sid wl target (i # ps) s) = snd (create_images L sid wl target ps ?u)" by (simp add: Let_def)
    then show ?thesis using go by (simp only:)
  qed
qed simp

section \<open>The account of a run\<close>

lemma keeps_query:
  assumes "A \<in> accounts" "\<And>n t. keeps_account A sid t (f n t)"
  shows "keeps_account A sid s (query L wl a f s)"
proof -
  have q: "keeps_account A sid s (gl (Gl_query wl a) s)" using assms(1) by (simp add: keeps_plain)
  show ?thesis using q keeps_account_trans [OF q assms(2)] by (cases "ll_query L wl a") (simp_all add: query_def)
qed

lemma keeps_shm:
  assumes "A \<in> accounts" "names_ok L"
  shows "keeps_account A sid s (snd (shm_attach L sid bid wl b s))"
proof -
  let ?s = "buffer_size bid (\<lambda>_. \<lparr>sw = u32_of_i32 (sb_width b), sh = u32_of_i32 (sb_height b)\<rparr>) s"
  have "keeps_account A sid s (surface_gen_textures L sid 1 (set_format sid sf ?s))" for sf
    by (rule keeps_account_trans [OF _ keeps_gen_textures [OF assms]]) (simp_all add: keeps_set_format assms(1))
  then show ?thesis
    using assms(1) by (simp add: shm_attach_def Let_def keeps_plain split: option.splits)
qed

lemma gen_textures_images [simp]:
  "gs_images (gl_surfaces (surface_gen_textures L sid k s) sid) = gs_images (gl_surfaces s sid)"
proof -
  have "gs_images (gl_surfaces (fold (surface_gen_texture L sid) is s) sid) = gs_images (gl_surfaces s sid)" for "is"
    by (induction "is" arbitrary: s) (simp_all add: surface_gen_texture_def Let_def)
  then show ?thesis by (simp add: surface_gen_textures_def)
qed

lemma keeps_egl:
  assumes "A \<in> accounts" "names_ok L"
  shows "keeps_account A sid s (snd (egl_attach L sid bid wl format s))"
proof -
  obtain planes sf target where l: "egl_layout format = (planes, sf, target)" by (cases "egl_layout format")
  then have p: "planes \<le> 3" by (auto simp: egl_layout_def split: if_splits)
  let ?t = "snd (load_image_target L s)"
  let ?u = "query_wl_buffer L bid wl ?t"
  let ?f = "surface_flush_images sid (set_format sid sf ?u)"
  let ?v = "surface_gen_textures L sid planes ?f"
  have t: "keeps_account A sid s ?t"
    using assms(1) by (simp add: load_image_target_def glname_def keeps_plain Let_def)
  have "keeps_account A sid ?t ?u"
    unfolding query_wl_buffer_def Let_def
    by (intro keeps_account_trans [OF keeps_account_trans [OF keeps_query keeps_query] keeps_query] assms(1)) simp_all
  moreover have "keeps_account A sid ?u ?f"
    by (rule keeps_account_trans [OF _ keeps_flush_images [OF assms(1)]]) (simp add: keeps_set_format assms(1))
  moreover have "keeps_account A sid ?f ?v" by (rule keeps_gen_textures [OF assms p])
  ultimately have v: "keeps_account A sid s ?v" using t keeps_account_trans by blast
  have "keeps_account A sid ?v (snd (create_images L sid wl target [0..<planes] ?v))"
    by (rule keeps_create_images [OF assms(1)]) (use p in \<open>simp_all add: flush_surfaces\<close>)
  then show ?thesis using t keeps_account_trans [OF v] by (simp add: egl_attach_def case_prod_beta Let_def l)
qed

lemma keeps_attach:
  assumes "A \<in> accounts" "names_ok L"
  shows "keeps_account A sid s (snd (gl_surface_attach L sid bid s))"
proof -
  have q: "keeps_account A sid s (gl (Gl_query wl a) s)" for wl a using assms(1) by (simp add: keeps_plain)
  have "keeps_account A sid s (snd (egl_attach L sid bid wl format (gl (Gl_query wl a) s)))" for wl a format
    by (rule keeps_account_trans [OF q keeps_egl [OF assms]])
  then show ?thesis
    using q keeps_destroy [OF assms(1)] keeps_shm [OF assms] by (simp add: gl_surface_attach_def Let_def split: option.splits)
qed

text \<open>Everything else neither makes nor deletes.\<close>

lemma keeps_bind_textures: "A \<in> accounts \<Longrightarrow> keeps_account A sid s (bind_textures f i ts t) = keeps_account A sid s t"
  by (induction ts arbitrary: i t) (simp_all add: keeps_plain)

lemma keeps_set_program: "A \<in> accounts \<Longrightarrow> keeps_account A sid s (set_program p t) = keeps_account A sid s t"
  by (simp add: set_program_def keeps_plain)

lemma keeps_texture_paint: "A \<in> accounts \<Longrightarrow> keeps_account A sid s (texture_paint E ts g p t) = keeps_account A sid s t"
  by (simp add: texture_paint_def Let_def keeps_plain keeps_bind_textures keeps_set_program)

lemma keeps_internal: "A \<in> accounts \<Longrightarrow> keeps_account A sid s (surface_paint_internal E k g p t) = keeps_account A sid s t"
  by (cases "surface_of (gl_world t) k") (simp_all add: surface_paint_internal_def Let_def keeps_texture_paint)

lemma keeps_debug_regions: "A \<in> accounts \<Longrightarrow> keeps_account A sid s (debug_regions E a b p t) = keeps_account A sid s t"
  by (simp add: debug_regions_def paint_region_def Let_def keeps_texture_paint keeps_plain)

lemma keeps_clear_fakefb: "A \<in> accounts \<Longrightarrow> keeps_account A sid s (clear_fakefb t) = keeps_account A sid s t"
  by (simp add: clear_fakefb_def keeps_plain)

lemma keeps_set_resolutions:
  "A \<in> accounts \<Longrightarrow> keeps_account A sid s (fold (set_resolution E res) ps t) = keeps_account A sid s t"
  by (induction ps arbitrary: t) (simp_all add: set_resolution_def Let_def keeps_plain keeps_set_program)

lemma keeps_resolution: "A \<in> accounts \<Longrightarrow> keeps_account A sid s (resolution E md res scale s)"
  by (simp add: resolution_def Let_def keeps_plain keeps_clear_fakefb keeps_set_resolutions del: fold.simps)

lemma keeps_view_paint: "A \<in> accounts \<Longrightarrow> keeps_account A sid s (gl_view_paint E vid s)"
  by (simp add: gl_view_paint_def Let_def case_prod_beta keeps_debug_regions keeps_internal split: option.splits)

fun request_surface :: "render_request \<Rightarrow> nat option" where
  "request_surface (Gl_attach sid bid) = Some sid"
| "request_surface (Gl_destroy sid) = Some sid"
| "request_surface _ = None"

lemma keeps_request:
  assumes "A \<in> accounts" "names_ok L" "request_surface r = None \<or> request_surface r = Some sid"
  shows "keeps_account A sid s (gl_request E L r s)"
  using assms(3) by (cases r)
    (simp_all add: keeps_attach [OF assms(1,2)] keeps_destroy [OF assms(1)] keeps_resolution [OF assms(1)] keeps_view_paint [OF assms(1)]
      gl_surface_paint_def keeps_debug_regions [OF assms(1)] keeps_internal [OF assms(1)] gl_pointer_paint_def keeps_texture_paint [OF assms(1)]
      read_pixels_def write_pixels_def flush_fakefb_def gl_clear_def Let_def keeps_plain [OF assms(1)] keeps_clear_fakefb [OF assms(1)])

lemma owed_request:
  assumes "A \<in> accounts" "names_ok L" "finite S" "set_option (request_surface r) \<subseteq> S"
  shows "owed A S (gl_request E L r s) n = owed A S s n"
proof (cases "request_surface r")
  case (Some sid)
  then show ?thesis
    using keeps_account_owed [OF keeps_request [OF assms(1,2), of r sid] assms(3)] assms(4) by simp
next
  case None
  then have k: "keeps_account A sid s (gl_request E L r s)" for sid by (simp add: keeps_request [OF assms(1,2)])
  have "gl_surfaces (gl_request E L r s) sid = gl_surfaces s sid" for sid
    using k [of "Suc sid"] by (simp add: keeps_account_def)
  then have "gl_surfaces (gl_request E L r s) = gl_surfaces s" by (rule ext)
  then show ?thesis using k [of 0] by (simp add: owed_def keeps_account_def)
qed

text \<open>C33 (invariant). 
  C1 (invariant). Over any run of the functions of the renderer, whatever happens to the world in between, the textures
  made and not deleted are those in the slots of the surfaces, and so are the images: none leaks and none is deleted
  twice.
\<close>
theorem textures_and_images_balanced:
  assumes "names_ok L" "finite S" "\<forall>(w, r)\<in>set rs. set_option (request_surface r) \<subseteq> S" "A \<in> {texture_account, image_account}"
    "\<forall>sid\<in>S. gl_surfaces s sid = gl_surface_zero"
  shows "tally A (gl_calls (gl_runs E L rs s)) n - tally A (gl_calls s) n =
    (\<Sum>sid\<in>S. int (count_list (held A (gl_surfaces (gl_runs E L rs s) sid)) n))"
proof -
  have A: "A \<in> accounts" using assms(4) by (simp add: accounts_def)
  have world: "owed A S (t\<lparr>gl_world := w\<rparr>) n = owed A S t n" for t w by (simp add: owed_def)
  have "owed A S (fold (\<lambda>(w, r) s. gl_request E L r (s\<lparr>gl_world := w\<rparr>)) rs s) n = owed A S s n"
    using assms(3)
  proof (induction rs arbitrary: s)
    case (Cons x rs)
    then show ?case using owed_request [OF A assms(1,2), of "snd x"] by (simp add: case_prod_beta world)
  qed simp
  moreover have "held A gl_surface_zero = []" using assms(4) by (auto simp: held_taken gl_surface_zero_def)
  ultimately show ?thesis using assms(5) by (simp add: gl_runs_def owed_def)
qed

text \<open>A surface shows a buffer in shared memory, then one of three planes, and is destroyed.\<close>

definition world_with_buffers :: world where
  "world_with_buffers = world_blank\<lparr>w_res := [1 \<mapsto> \<lparr>re_data = R_buffer buffer_blank, re_wl = 7\<rparr>, 2 \<mapsto> \<lparr>re_data = R_buffer buffer_blank, re_wl = 8\<rparr>]\<rparr>"

theorem textures_and_images_balanced_witness:
  "let rs = map (Pair world_with_buffers) [Gl_attach 5 1, Gl_attach 5 2, Gl_destroy 5, Gl_attach 6 2]; t = gl_runs env_ref gl_lib_ref rs gles2_blank
   in tally image_account (gl_calls t) 10 = (\<Sum>sid\<in>{5, 6}. int (count_list (held image_account (gl_surfaces t sid)) 10))"
  unfolding Let_def
  by (rule textures_and_images_balanced [where s = gles2_blank, unfolded gles2_blank_def gles2.select_convs tally_Nil diff_zero, folded gles2_blank_def])
    (simp_all add: names_ok_def gl_lib_ref_def)

section \<open>The renderer behind the front end\<close>

text \<open>Attaching changes nothing of the world but the size and the orientation of the buffer.\<close>

definition set_buffer :: "(wlc_buffer \<Rightarrow> wlc_size \<times> bool) \<Rightarrow> wlc_buffer \<Rightarrow> wlc_buffer" where
  "set_buffer F b = b\<lparr>bf_size := fst (F b), bf_y_inverted := snd (F b)\<rparr>"

definition buffer_only :: "nat \<Rightarrow> gles2 \<Rightarrow> gles2 \<Rightarrow> bool" where
  "buffer_only bid s t \<longleftrightarrow> (\<exists>F. gl_world t = upd_buffer bid (set_buffer F) (gl_world s))"

lemma upd_buffer_twice: "upd_buffer bid f (upd_buffer bid g w) = upd_buffer bid (\<lambda>b. f (g b)) w"
proof -
  have "map_buffer f (map_buffer g e) = map_buffer (\<lambda>b. f (g b)) e" for e by (cases "re_data e") simp_all
  then have "map_buffer f \<circ> map_buffer g = map_buffer (\<lambda>b. f (g b))" by (intro ext) (simp del: map_buffer.simps)
  then show ?thesis by (simp add: upd_buffer_def option.map_comp del: map_buffer.simps)
qed

lemma buffer_only_refl: "gl_world t = gl_world s \<Longrightarrow> buffer_only bid s t"
proof -
  assume w: "gl_world t = gl_world s"
  have i: "map_buffer (set_buffer (\<lambda>b. (bf_size b, bf_y_inverted b))) e = e" for e
    by (cases e; cases "re_data e") (simp_all add: set_buffer_def)
  have "upd_buffer bid (set_buffer (\<lambda>b. (bf_size b, bf_y_inverted b))) (gl_world s) = gl_world s"
    using i by (cases "w_res (gl_world s) bid") (simp_all add: upd_buffer_def fun_upd_idem del: map_buffer.simps)
  with w show ?thesis unfolding buffer_only_def by metis
qed

lemma buffer_only_trans: "buffer_only bid s t \<Longrightarrow> buffer_only bid t u \<Longrightarrow> buffer_only bid s u"
proof -
  assume "buffer_only bid s t" "buffer_only bid t u"
  then obtain F G where "gl_world t = upd_buffer bid (set_buffer F) (gl_world s)" "gl_world u = upd_buffer bid (set_buffer G) (gl_world t)"
    unfolding buffer_only_def by blast
  moreover have "set_buffer G (set_buffer F b) = set_buffer (\<lambda>b. G (set_buffer F b)) b" for b by (simp add: set_buffer_def)
  ultimately show ?thesis unfolding buffer_only_def by (auto simp: upd_buffer_twice)
qed

lemma buffer_only_writes: "buffer_only bid s (buffer_size bid f s)" "buffer_only bid s (set_y_inverted bid n s)"
proof -
  have "(\<lambda>b. b\<lparr>bf_size := f (bf_size b)\<rparr>) = set_buffer (\<lambda>b. (f (bf_size b), bf_y_inverted b))"
    "(\<lambda>b. b\<lparr>bf_y_inverted := n \<noteq> 0\<rparr>) = set_buffer (\<lambda>b. (bf_size b, n \<noteq> 0))"
    by (intro ext, simp add: set_buffer_def)+
  then have "gl_world (buffer_size bid f s) = upd_buffer bid (set_buffer (\<lambda>b. (f (bf_size b), bf_y_inverted b))) (gl_world s)"
    "gl_world (set_y_inverted bid n s) = upd_buffer bid (set_buffer (\<lambda>b. (bf_size b, n \<noteq> 0))) (gl_world s)"
    by (simp_all only: buffer_size_def set_y_inverted_def gles2.select_convs gles2.update_convs) simp_all
  then show "buffer_only bid s (buffer_size bid f s)" "buffer_only bid s (set_y_inverted bid n s)"
    unfolding buffer_only_def by blast+
qed

lemma world_fold: "(\<And>x s. gl_world (f x s) = gl_world s) \<Longrightarrow> gl_world (fold f xs s) = gl_world s"
  by (induction xs arbitrary: s) simp_all

lemma world_textures [simp]:
  "gl_world (surface_gen_textures L sid k s) = gl_world s" "gl_world (surface_flush_images sid s) = gl_world s"
  "gl_world (surface_flush_textures sid s) = gl_world s" "gl_world (gl_surface_destroy sid s) = gl_world s"
  by (simp_all add: surface_gen_textures_def surface_gen_texture_def surface_flush_images_def surface_flush_textures_def gl_surface_destroy_def
      delete_texture_def delete_image_def world_fold Let_def)

lemma world_create_images [simp]: "gl_world (snd (create_images L sid wl target ps s)) = gl_world s"
  by (induction ps arbitrary: s) (simp_all add: Let_def)

lemma buffer_only_query:
  assumes "\<And>n t. buffer_only bid t (f n t)"
  shows "buffer_only bid s (query L wl a f s)"
proof -
  have q: "buffer_only bid s (gl (Gl_query wl a) s)" by (rule buffer_only_refl) simp
  show ?thesis using q buffer_only_trans [OF q assms] by (cases "ll_query L wl a") (simp_all add: query_def)
qed

lemma buffer_only_attach: "buffer_only bid s (snd (gl_surface_attach L sid bid s))"
proof -
  have world: "buffer_only bid s t" if "buffer_only bid s u" "gl_world t = gl_world u" for t u
    using that by (simp add: buffer_only_def)
  have shm: "buffer_only bid s (snd (shm_attach L sid bid wl b s))" for wl b
    by (rule world [OF buffer_only_writes(1) [where f = "\<lambda>_. \<lparr>sw = u32_of_i32 (sb_width b), sh = u32_of_i32 (sb_height b)\<rparr>"]])
      (simp add: shm_attach_def Let_def split: option.splits)
  have load: "gl_world (snd (load_image_target L t)) = gl_world t" for t
    by (simp add: load_image_target_def glname_def Let_def)
  have "buffer_only bid t (query_wl_buffer L bid wl t)" for t wl
    unfolding query_wl_buffer_def Let_def
    by (intro buffer_only_trans [OF buffer_only_trans [OF buffer_only_query buffer_only_query] buffer_only_query] buffer_only_writes)
  then have q: "buffer_only bid s (query_wl_buffer L bid wl t)" if "gl_world t = gl_world s" for t wl
    using that by (metis buffer_only_def)
  have egl: "buffer_only bid s (snd (egl_attach L sid bid wl format (gl (Gl_query wl a) s)))" for wl format a
  proof (cases "fst (load_image_target L (gl (Gl_query wl a) s)) = 0")
    case True
    then show ?thesis by (simp add: egl_attach_def case_prod_beta load buffer_only_refl)
  next
    case False
    let ?u = "query_wl_buffer L bid wl (snd (load_image_target L (gl (Gl_query wl a) s)))"
    show ?thesis
      by (rule world [of ?u]) (use False in \<open>simp_all add: q load egl_attach_def case_prod_beta Let_def\<close>)
  qed
  have rest: "buffer_only bid s (gl_surface_destroy sid s)" "buffer_only bid s (gl c s)" for c
    by (simp_all add: buffer_only_refl)
  show ?thesis
    using shm egl rest by (simp add: gl_surface_attach_def Let_def split: option.splits)
qed

text \<open>What the renderer tells the front end.\<close>

definition gl_report :: "gl_lib \<Rightarrow> gles2 \<Rightarrow> nat \<Rightarrow> nat \<Rightarrow> nat \<Rightarrow> world \<Rightarrow> bool \<times> wlc_size \<times> bool" where
  "gl_report L s oid sid bid w =
     (let (ok, t) = gl_surface_attach L sid bid (s\<lparr>gl_world := w\<rparr>)
      in case buffer_of (gl_world t) bid of None \<Rightarrow> (ok, wlc_size_zero, False) | Some b \<Rightarrow> (ok, bf_size b, bf_y_inverted b))"



end
