(* ===== verification/Logind.thy ===== *)
theory Logind
  imports Sample
begin

text \<open>
  The session of systemd (src/session/logind.c) and its connection to dbus (src/session/dbus.c), which a build with
  HAS_LOGIND uses in place of the privileged child.

  \<open>login\<close> is the world with the static \<open>logind\<close>, the sources that belong to the watches and timeouts of the
  connection, and the history of calls to libdbus, to the event loop and to the kernel. What these return is in
  \<open>login_env\<close>: \<open>lx_new\<close> the object or 0, \<open>lx_ok\<close> whether a step succeeds, \<open>lx_int\<close> a number, each from the history.
  A message that arrives is the tree of its arguments. Messages to the log are left out.
\<close>

section \<open>Data\<close>

datatype dbus_call =
    Message_new nat "string option" string string
  | Message_reply nat
  | Message_unref nat
  | Message_append nat
  | Message_send nat
  | Message_call nat
  | Pending_new nat nat | Pending_notify nat | Pending_cancel nat | Pending_unref nat
  | Take_fd int | Close_fd int
  | Source_add nat u32 | Source_check nat | Source_remove nat | Source_update nat u32 | Timer_update nat int
  | Watch_handle nat u32 | Timeout_handle nat
  | Dispatch_connection nat
  | Connection_get nat | Connection_ref nat | Connection_unref nat | Connection_close nat
  | Set_watch_functions nat bool | Set_timeout_functions nat bool
  | Add_filter nat
  | Add_match string | Remove_match string

datatype dbus_arg =
    A_bool bool | A_string string | A_u32 u32 | A_path string | A_other
  | A_variant dbus_arg
  | A_entry "dbus_arg list"
  | A_array "dbus_arg list"

record dbus_signal =
  sg_interface :: string
  sg_member :: string
  sg_args :: "dbus_arg list"

record login =
  ln_world :: world
  ln_seat :: "string option"
  ln_sid :: "string option"
  ln_dbus :: nat
  ln_dbus_ctx :: nat
  ln_spath :: "string option"
  ln_vt :: int
  ln_pending :: nat
  ln_watch :: "nat \<Rightarrow> nat"
  ln_timeout :: "nat \<Rightarrow> nat"
  ln_calls :: "dbus_call list"

record login_env =
  lx_new :: "dbus_call list \<Rightarrow> nat"
  lx_ok :: "dbus_call list \<Rightarrow> string \<Rightarrow> bool"
  lx_int :: "dbus_call list \<Rightarrow> string \<Rightarrow> int"
  lx_string :: "string \<Rightarrow> string option"
  lx_stat :: "string \<Rightarrow> (bool \<times> u32 \<times> u32) option"
  lx_fstat :: "int \<Rightarrow> (bool \<times> u32 \<times> u32) option"
  lx_set_active :: "bool \<Rightarrow> world \<Rightarrow> world"
  lx_terminate :: "world \<Rightarrow> world"

definition bus :: "dbus_call \<Rightarrow> login \<Rightarrow> login" where
  "bus c s = s\<lparr>ln_calls := ln_calls s @ [c]\<rparr>"

definition made :: "login_env \<Rightarrow> (nat \<Rightarrow> dbus_call) \<Rightarrow> login \<Rightarrow> nat \<times> login" where
  "made X c s = (let n = lx_new X (ln_calls s) in (n, bus (c n) s))"

definition goes :: "login_env \<Rightarrow> string \<Rightarrow> login \<Rightarrow> bool" where
  "goes X step s = lx_ok X (ln_calls s) step"

definition on_login_world :: "(world \<Rightarrow> world) \<Rightarrow> login \<Rightarrow> login" where
  "on_login_world f s = s\<lparr>ln_world := f (ln_world s)\<rparr>"

section \<open>Connection to dbus\<close>

text \<open>\<open>enabled\<close> and \<open>flags\<close> are what libdbus says of a watch: readable is bit 0, writable bit 1.\<close>

definition watch_mask :: "bool \<Rightarrow> u32 \<Rightarrow> u32" where
  "watch_mask enabled flags = (if enabled then (if bit flags 0 then 1 else 0) OR (if bit flags 1 then 2 else 0) else 0)"

text \<open>Of the event loop, bit 2 is a hang-up and bit 3 an error; libdbus has them the other way round.\<close>

definition dispatch_watch :: "nat \<Rightarrow> bool \<Rightarrow> u32 \<Rightarrow> login \<Rightarrow> login" where
  "dispatch_watch watch enabled ready s =
     (if \<not> enabled then s
      else bus (Watch_handle watch ((if bit ready 0 then 1 else 0) OR (if bit ready 1 then 2 else 0) OR
             (if bit ready 2 then 8 else 0) OR (if bit ready 3 then 4 else 0))) s)"

definition add_watch :: "login_env \<Rightarrow> nat \<Rightarrow> bool \<Rightarrow> u32 \<Rightarrow> login \<Rightarrow> bool \<times> login" where
  "add_watch X watch enabled flags s =
     (let (n, s) = made X (\<lambda>n. Source_add n (watch_mask enabled flags)) s in
      if n = 0 then (False, s)
      else (True, s\<lparr>ln_watch := (ln_watch s)(watch := n)\<rparr>))"

definition remove_watch :: "nat \<Rightarrow> login \<Rightarrow> login" where
  "remove_watch watch s = (if ln_watch s watch = 0 then s else bus (Source_remove (ln_watch s watch)) s)"

definition toggle_watch :: "nat \<Rightarrow> bool \<Rightarrow> u32 \<Rightarrow> login \<Rightarrow> login" where
  "toggle_watch watch enabled flags s =
     (if ln_watch s watch = 0 then s else bus (Source_update (ln_watch s watch) (watch_mask enabled flags)) s)"

definition dispatch_timeout :: "nat \<Rightarrow> bool \<Rightarrow> login \<Rightarrow> login" where
  "dispatch_timeout timeout enabled s = (if enabled then bus (Timeout_handle timeout) s else s)"

definition adjust_timeout :: "login_env \<Rightarrow> bool \<Rightarrow> int \<Rightarrow> nat \<Rightarrow> login \<Rightarrow> bool \<times> login" where
  "adjust_timeout X enabled interval n s =
     (let s = bus (Timer_update n (if enabled then interval else 0)) s in (goes X ''timer'' s, s))"

definition add_timeout :: "login_env \<Rightarrow> nat \<Rightarrow> bool \<Rightarrow> int \<Rightarrow> login \<Rightarrow> bool \<times> login" where
  "add_timeout X timeout enabled interval s =
     (let (n, s) = made X (\<lambda>n. Source_add n 0) s in
      if n = 0 then (False, s)
      else
        let (ok, s) = adjust_timeout X enabled interval n s in
        if \<not> ok then (False, bus (Source_remove n) s) else (True, s\<lparr>ln_timeout := (ln_timeout s)(timeout := n)\<rparr>))"

definition remove_timeout :: "nat \<Rightarrow> login \<Rightarrow> login" where
  "remove_timeout timeout s = (if ln_timeout s timeout = 0 then s else bus (Source_remove (ln_timeout s timeout)) s)"

definition toggle_timeout :: "login_env \<Rightarrow> nat \<Rightarrow> bool \<Rightarrow> int \<Rightarrow> login \<Rightarrow> login" where
  "toggle_timeout X timeout enabled interval s =
     (if ln_timeout s timeout = 0 then s else snd (adjust_timeout X enabled interval (ln_timeout s timeout) s))"

datatype dispatch_status = Dispatch_complete | Dispatch_remains | Dispatch_memory | Dispatch_other

text \<open>The loop goes on while data remains; the list is what the calls return, and None is that it has not ended.\<close>

fun dispatch :: "dispatch_status list \<Rightarrow> login \<Rightarrow> login option" where
  "dispatch [] s = None"
| "dispatch (r # rs) s =
     (let s = bus (Dispatch_connection (ln_dbus s)) s in if r = Dispatch_remains then dispatch rs s else Some s)"

definition drop_functions :: "nat \<Rightarrow> login \<Rightarrow> login" where
  "drop_functions c s = bus (Set_watch_functions c False) (bus (Set_timeout_functions c False) s)"

text \<open>The result is the source, 0 when the binding failed.\<close>

definition dbus_bind :: "login_env \<Rightarrow> nat \<Rightarrow> login \<Rightarrow> nat \<times> login" where
  "dbus_bind X c s =
     (let fd = lx_int X (ln_calls s) ''eventfd'' in
      if fd < 0 then (0, s)
      else
        let (ctx, s) = made X (\<lambda>n. Source_add n 0) (bus (Take_fd fd) s); s = bus (Close_fd fd) s in
        if ctx = 0 then (0, s)
        else
          let s = bus (Source_check ctx) s; failed = (\<lambda>s. (0, bus (Source_remove ctx) (drop_functions c s))) in
          if \<not> goes X ''watch functions'' s then failed s
          else
            let s = bus (Set_watch_functions c True) s in
            if \<not> goes X ''timeout functions'' s then failed s
            else (ctx, bus (Connection_ref c) (bus (Set_timeout_functions c True) s)))"

definition dbus_unbind :: "nat \<Rightarrow> nat \<Rightarrow> login \<Rightarrow> login" where
  "dbus_unbind c ctx s = bus (Source_remove ctx) (bus (Connection_unref c) (drop_functions c s))"

definition assert_login :: "bool \<Rightarrow> login \<Rightarrow> login" where
  "assert_login b s = (if b then s else on_login_world (fail Assertion) s)"

definition wlc_dbus_close :: "nat \<Rightarrow> nat \<Rightarrow> login \<Rightarrow> login" where
  "wlc_dbus_close c ctx s = bus (Connection_unref c) (bus (Connection_close c) (dbus_unbind c ctx (assert_login (c \<noteq> 0 \<and> ctx \<noteq> 0) s)))"

text \<open>\<open>wlc_dbus_open\<close> writes the connection only when it is bound, the source in any case that gets to the binding.\<close>

definition wlc_dbus_open :: "login_env \<Rightarrow> login \<Rightarrow> bool \<times> login" where
  "wlc_dbus_open X s =
     (let (c, s) = made X Connection_get s in
      if c = 0 then (False, s)
      else
        let (ctx, s) = dbus_bind X c s; s = s\<lparr>ln_dbus_ctx := ctx\<rparr> in
        if ctx = 0 then (False, bus (Connection_unref c) (bus (Connection_close c) s)) else (True, s\<lparr>ln_dbus := c\<rparr>))"

definition wlc_dbus_add_match_signal :: "login_env \<Rightarrow> string \<Rightarrow> string \<Rightarrow> string \<Rightarrow> string \<Rightarrow> login \<Rightarrow> bool \<times> login" where
  "wlc_dbus_add_match_signal X sender interface member path s =
     (let s = bus (Add_match (''type='' @ [CHR 0x27] @ ''signal'' @ [CHR 0x27] @ '',sender='' @ [CHR 0x27] @ sender @ [CHR 0x27] @
                '',interface='' @ [CHR 0x27] @ interface @ [CHR 0x27] @ '',member='' @ [CHR 0x27] @ member @ [CHR 0x27] @
                '',path='' @ [CHR 0x27] @ path @ [CHR 0x27])) s
      in (goes X ''match'' s, s))"

section \<open>Devices of the session\<close>

definition session_interface :: string where "session_interface = ''org.freedesktop.login1.Session''"

definition method_call :: "login_env \<Rightarrow> string \<Rightarrow> string \<Rightarrow> login \<Rightarrow> nat \<times> login" where
  "method_call X interface method s = made X (\<lambda>m. Message_new m (ln_spath s) interface method) s"

definition take_device :: "login_env \<Rightarrow> u32 \<Rightarrow> u32 \<Rightarrow> login \<Rightarrow> int \<times> bool \<times> login" where
  "take_device X maj mnr s =
     (let (m, s) = method_call X session_interface ''TakeDevice'' s in
      if m = 0 then (-1, False, s)
      else if \<not> goes X ''append'' s then (-1, False, bus (Message_unref m) s)
      else
        let (r, s) = made X Message_reply (bus (Message_call m) (bus (Message_append m) s)) in
        if r = 0 then (-1, False, bus (Message_unref m) s)
        else
          let both = bus (Message_unref m) \<circ> bus (Message_unref r) in
          if \<not> goes X ''device and state'' s then (-1, False, both s)
          else
            let fd = lx_int X (ln_calls s) ''device''; paused = lx_ok X (ln_calls s) ''paused''; s = bus (Take_fd fd) s in
            if lx_int X (ln_calls s) ''F_GETFL'' < 0 \<or> lx_int X (ln_calls s) ''F_SETFD'' < 0
            then (-1, paused, both (bus (Close_fd fd) s))
            else (fd, paused, both s))"

definition tell_device :: "login_env \<Rightarrow> string \<Rightarrow> login \<Rightarrow> login" where
  "tell_device X method s =
     (let (m, s) = method_call X session_interface method s in
      if m = 0 then s
      else bus (Message_unref m) (if goes X ''append'' s then bus (Message_send m) (bus (Message_append m) s) else s))"

definition release_device :: "login_env \<Rightarrow> login \<Rightarrow> login" where
  "release_device X s = tell_device X ''ReleaseDevice'' s"

definition pause_device :: "login_env \<Rightarrow> login \<Rightarrow> login" where
  "pause_device X s = tell_device X ''PauseDeviceComplete'' s"

definition wlc_logind_open :: "login_env \<Rightarrow> string \<Rightarrow> login \<Rightarrow> int \<times> login" where
  "wlc_logind_open X path s =
     (case lx_stat X path of
        Some (True, maj, mnr) \<Rightarrow> let (fd, _, s) = take_device X maj mnr s in (fd, s)
      | _ \<Rightarrow> (-1, s))"

definition wlc_logind_close :: "login_env \<Rightarrow> int \<Rightarrow> login \<Rightarrow> login" where
  "wlc_logind_close X fd s = (case lx_fstat X fd of Some (True, maj, mnr) \<Rightarrow> release_device X s | _ \<Rightarrow> s)"

section \<open>Signals of the session\<close>

fun parse_active :: "login_env \<Rightarrow> dbus_arg \<Rightarrow> login \<Rightarrow> login" where
  "parse_active X (A_variant (A_bool b)) s = on_login_world (lx_set_active X b) s"
| "parse_active X _ s = s"

text \<open>The reply to the question whether the session is active; None: there is none. \<open>Suc r\<close> is its message.\<close>

definition get_active_cb :: "login_env \<Rightarrow> (nat \<times> bool \<times> dbus_arg list) option \<Rightarrow> login \<Rightarrow> login" where
  "get_active_cb X reply s =
     (let s = (bus (Pending_unref (ln_pending s)) s)\<lparr>ln_pending := 0\<rparr> in
      case reply of
        None \<Rightarrow> s
      | Some (r, return, args) \<Rightarrow>
          let s = bus (Message_reply (Suc r)) s;
              s = (case args of a # _ \<Rightarrow> if return then parse_active X a s else s | [] \<Rightarrow> s)
          in bus (Message_unref (Suc r)) s)"

text \<open>A connection that is lost sends and returns no pending call, which is then used.\<close>

definition get_active :: "login_env \<Rightarrow> login \<Rightarrow> login" where
  "get_active X s =
     (let (m, s) = method_call X ''org.freedesktop.DBus.Properties'' ''Get'' s in
      if m = 0 then s
      else if \<not> goes X ''append'' s \<or> \<not> goes X ''send'' s then bus (Message_unref m) s
      else
        let (p, s) = made X (\<lambda>p. Pending_new p m) (bus (Message_append m) s) in
        if p = 0 then bus (Message_unref m) (on_login_world (fail Null_pointer) s)
        else if \<not> goes X ''notify'' s then bus (Message_unref m) (bus (Pending_unref p) (bus (Pending_cancel p) s))
        else
          let s = bus (Pending_notify p) s;
              s = (if ln_pending s \<noteq> 0 then bus (Pending_unref (ln_pending s)) (bus (Pending_cancel (ln_pending s)) s) else s)
          in s\<lparr>ln_pending := p\<rparr>)"

definition login_terminate :: "login_env \<Rightarrow> login \<Rightarrow> login" where
  "login_terminate X s = on_login_world (lx_terminate X) s"

fun session_removed :: "login_env \<Rightarrow> dbus_arg list \<Rightarrow> login \<Rightarrow> login" where
  "session_removed X (A_string name # A_path obj # _) s = (if ln_sid s = Some name then login_terminate X s else s)"
| "session_removed X _ s = s"

datatype prop_scan = Found dbus_arg | Not_found | Malformed

fun scan_changed :: "dbus_arg list \<Rightarrow> prop_scan" where
  "scan_changed (A_entry (A_string name # val # _) # es) = (if name = ''Active'' then Found val else scan_changed es)"
| "scan_changed (A_entry _ # es) = Malformed"
| "scan_changed _ = Not_found"

fun scan_invalidated :: "dbus_arg list \<Rightarrow> bool" where
  "scan_invalidated (A_string name # ns) \<longleftrightarrow> name = ''Active'' \<or> scan_invalidated ns"
| "scan_invalidated _ \<longleftrightarrow> False"

fun property_changed :: "login_env \<Rightarrow> dbus_arg list \<Rightarrow> login \<Rightarrow> login" where
  "property_changed X (A_string interface # A_array changed # rest) s =
     (case scan_changed changed of
        Malformed \<Rightarrow> s
      | Found val \<Rightarrow> parse_active X val s
      | Not_found \<Rightarrow> (case rest of A_array names # _ \<Rightarrow> if scan_invalidated names then get_active X s else s | _ \<Rightarrow> s))"
| "property_changed X _ s = s"

text \<open>226 is \<open>DRM_MAJOR\<close>.\<close>

fun device_paused :: "login_env \<Rightarrow> dbus_arg list \<Rightarrow> login \<Rightarrow> login" where
  "device_paused X (A_u32 maj # A_u32 mnr # A_string ty # _) s =
     (let s = (if ty = ''pause'' then pause_device X s else s)
      in if maj = 226 then on_login_world (lx_set_active X False) s else s)"
| "device_paused X _ s = s"

fun device_resumed :: "login_env \<Rightarrow> dbus_arg list \<Rightarrow> login \<Rightarrow> login" where
  "device_resumed X (A_u32 maj # _) s = (if maj = 226 then on_login_world (lx_set_active X True) s else s)"
| "device_resumed X _ s = s"

definition filter_dbus :: "login_env \<Rightarrow> dbus_signal \<Rightarrow> login \<Rightarrow> login" where
  "filter_dbus X m s =
     (let this = (\<lambda>i n. sg_interface m = i \<and> sg_member m = n) in
      if this ''org.freedesktop.DBus.Local'' ''Disconnected'' then login_terminate X s
      else if this ''org.freedesktop.login1.Manager'' ''SessionRemoved'' then session_removed X (sg_args m) s
      else if this ''org.freedesktop.DBus.Properties'' ''PropertiesChanged'' then property_changed X (sg_args m) s
      else if this session_interface ''PauseDevice'' then device_paused X (sg_args m) s
      else if this session_interface ''ResumeDevice'' then device_resumed X (sg_args m) s
      else s)"

section \<open>Start and end\<close>

definition session_path :: "string \<Rightarrow> string" where "session_path sid = ''/org/freedesktop/login1/session/'' @ sid"

fun add_matches :: "login_env \<Rightarrow> (string \<times> string \<times> string) list \<Rightarrow> login \<Rightarrow> bool \<times> login" where
  "add_matches X [] s = (True, s)"
| "add_matches X ((i, n, p) # ms) s =
     (let (ok, s) = wlc_dbus_add_match_signal X ''org.freedesktop.login1'' i n p s in if ok then add_matches X ms s else (False, s))"

definition setup_dbus :: "login_env \<Rightarrow> login \<Rightarrow> bool \<times> login" where
  "setup_dbus X s =
     (let path = session_path (case ln_sid s of None \<Rightarrow> '''' | Some sid \<Rightarrow> sid) in
      if \<not> goes X ''path'' s then (False, s)
      else
        let s = s\<lparr>ln_spath := Some path\<rparr> in
        if \<not> goes X ''filter'' s then (False, s\<lparr>ln_spath := None\<rparr>)
        else
          let (ok, s) = add_matches X
                [(''org.freedesktop.login1.Manager'', ''SessionRemoved'', ''/org/freedesktop/login1''),
                 (session_interface, ''PauseDevice'', path), (session_interface, ''ResumeDevice'', path),
                 (''org.freedesktop.DBus.Properties'', ''PropertiesChanged'', path)] (bus (Add_filter (ln_dbus s)) s)
          in if ok then (True, s) else (False, s\<lparr>ln_spath := None\<rparr>))"

definition take_control :: "login_env \<Rightarrow> login \<Rightarrow> bool \<times> login" where
  "take_control X s =
     (let (m, s) = method_call X session_interface ''TakeControl'' s in
      if m = 0 then (False, s)
      else if \<not> goes X ''append'' s then (False, bus (Message_unref m) s)
      else
        let (r, s) = made X Message_reply (bus (Message_call m) (bus (Message_append m) s))
        in if r = 0 then (False, bus (Message_unref m) s) else (True, bus (Message_unref m) (bus (Message_unref r) s)))"

definition release_control :: "login_env \<Rightarrow> login \<Rightarrow> login" where
  "release_control X s =
     (if ln_spath s = None then s
      else
        let (m, s) = method_call X session_interface ''ReleaseControl'' s
        in if m = 0 then s else bus (Message_unref m) (bus (Message_send m) s))"

definition wlc_logind_available :: "login_env \<Rightarrow> bool" where
  "wlc_logind_available X \<longleftrightarrow>
     lx_string X ''session'' \<noteq> None \<and> lx_ok X [] ''active'' \<and> lx_string X ''seat'' \<noteq> None \<and> lx_int X [] ''get vt'' \<ge> 0"

definition login_cleared :: "login \<Rightarrow> login" where
  "login_cleared s = s\<lparr>ln_seat := None, ln_sid := None, ln_dbus := 0, ln_dbus_ctx := 0, ln_spath := None, ln_vt := 0, ln_pending := 0\<rparr>"

definition wlc_logind_terminate :: "login_env \<Rightarrow> login \<Rightarrow> login" where
  "wlc_logind_terminate X s =
     (let s = (if ln_pending s \<noteq> 0 then bus (Pending_unref (ln_pending s)) (bus (Pending_cancel (ln_pending s)) s) else s);
          s = release_control X s
      in login_cleared (wlc_dbus_close (ln_dbus s) (ln_dbus_ctx s) s))"

text \<open>A step of \<open>sd-login\<close> that fails leaves what was found before.\<close>

definition wlc_logind_init :: "login_env \<Rightarrow> string \<Rightarrow> login \<Rightarrow> int \<times> login" where
  "wlc_logind_init X seat s =
     (if ln_vt s \<noteq> 0 then (ln_vt s, s)
      else
        let failed = (\<lambda>s. (0, wlc_logind_terminate X s)) in
        case lx_string X ''session'' of
          None \<Rightarrow> failed s
        | Some sid \<Rightarrow>
            let s = s\<lparr>ln_sid := Some sid\<rparr> in
            case lx_string X ''seat'' of
              None \<Rightarrow> failed s
            | Some st \<Rightarrow>
                let s = s\<lparr>ln_seat := Some st\<rparr> in
                if seat \<noteq> st then failed s
                else if lx_int X (ln_calls s) ''get vt'' < 0 then failed s
                else
                  let s = s\<lparr>ln_vt := lx_int X (ln_calls s) ''vt''\<rparr>; (ok, s) = wlc_dbus_open X s in
                  if \<not> ok then failed s
                  else
                    let (ok, s) = setup_dbus X s in
                    if \<not> ok then failed s
                    else let (ok, s) = take_control X s in if ok then (ln_vt s, s) else failed s)"

section \<open>Changed properties\<close>

text \<open>
  C1 (equivalence). For every change of properties that libdbus reports, the value of \<open>Active\<close> is taken if it is among
  the changed properties, and it is asked for if it is among the invalidated ones.
\<close>
theorem property_changed_reference:
  "property_changed X (A_string interface # A_array (map (\<lambda>(n, v). A_entry [A_string n, v]) changed) # A_array (map A_string names) # rest) s =
   (case map_of changed ''Active'' of
      Some v \<Rightarrow> parse_active X v s
    | None \<Rightarrow> if ''Active'' \<in> set names then get_active X s else s)"
proof -
  have "scan_changed (map (\<lambda>(n, v). A_entry [A_string n, v]) changed) =
      (case map_of changed ''Active'' of Some v \<Rightarrow> Found v | None \<Rightarrow> Not_found)"
    by (induction changed) auto
  moreover have "scan_invalidated (map A_string names) \<longleftrightarrow> ''Active'' \<in> set names"
    by (induction names) auto
  ultimately show ?thesis by (simp split: option.splits)
qed

section \<open>Balances\<close>

text \<open>Messages made and not released; pending calls; references of the connection and sources of the event loop.\<close>

fun messages :: "dbus_call \<Rightarrow> int" where
  "messages (Message_new n _ _ _) = of_bool (n \<noteq> 0)"
| "messages (Message_reply n) = of_bool (n \<noteq> 0)"
| "messages (Message_unref n) = -1"
| "messages _ = 0"

fun pendings :: "dbus_call \<Rightarrow> int" where
  "pendings (Pending_new n _) = of_bool (n \<noteq> 0)"
| "pendings (Pending_unref n) = -1"
| "pendings _ = 0"

fun questions :: "dbus_call \<Rightarrow> int" where
  "questions (Pending_notify _) = 1"
| "questions _ = 0"

fun references :: "dbus_call \<Rightarrow> int" where
  "references (Connection_get n) = of_bool (n \<noteq> 0)"
| "references (Connection_ref n) = 1"
| "references (Connection_unref n) = -1"
| "references _ = 0"

fun sources :: "dbus_call \<Rightarrow> int" where
  "sources (Source_add n _) = of_bool (n \<noteq> 0)"
| "sources (Source_remove n) = -1"
| "sources _ = 0"

definition sum_calls :: "(dbus_call \<Rightarrow> int) \<Rightarrow> login \<Rightarrow> int" where
  "sum_calls f s = sum_list (map f (ln_calls s))"

lemma bus_simps [simp]:
  "sum_calls f (bus c s) = sum_calls f s + f c" "ln_pending (bus c s) = ln_pending s" "ln_dbus (bus c s) = ln_dbus s"
  "ln_dbus_ctx (bus c s) = ln_dbus_ctx s" "ln_spath (bus c s) = ln_spath s" "ln_world (bus c s) = ln_world s" "ln_vt (bus c s) = ln_vt s"
  by (simp_all add: sum_calls_def bus_def)

lemma on_login_world_simps [simp]:
  "sum_calls f (on_login_world g s) = sum_calls f s" "ln_pending (on_login_world g s) = ln_pending s" "ln_dbus (on_login_world g s) = ln_dbus s"
  "ln_dbus_ctx (on_login_world g s) = ln_dbus_ctx s" "ln_world (on_login_world g s) = g (ln_world s)"
  by (simp_all add: sum_calls_def on_login_world_def)

lemma assert_login_simps [simp]:
  "sum_calls f (assert_login b s) = sum_calls f s"
  by (simp add: assert_login_def)

lemma login_updates [simp]:
  "sum_calls f (s\<lparr>ln_dbus_ctx := a\<rparr>) = sum_calls f s" "sum_calls f (s\<lparr>ln_dbus := b\<rparr>) = sum_calls f s" "sum_calls f (s\<lparr>ln_pending := p\<rparr>) = sum_calls f s"
  by (simp_all add: sum_calls_def)

text \<open>
  C1 (roundtrip). Opening the connection to dbus either fails and leaves no reference and no source behind, or closing
  it afterwards does.
\<close>
theorem dbus_open_close_balanced:
  assumes "wlc_dbus_open X s = (ok, t)" "f \<in> {references, sources}"
  shows "sum_calls f (if ok then wlc_dbus_close (ln_dbus t) (ln_dbus_ctx t) t else t) = sum_calls f s"
  using assms
  by (auto simp: wlc_dbus_open_def dbus_bind_def made_def drop_functions_def wlc_dbus_close_def dbus_unbind_def Let_def split: if_splits)

section \<open>A run of the session\<close>

datatype login_request =
    L_open string
  | L_close int
  | L_signal dbus_signal
  | L_reply "(nat \<times> bool \<times> dbus_arg list) option"

text \<open>libdbus notifies a pending call that was neither cancelled nor answered.\<close>

fun login_step :: "login_env \<Rightarrow> login_request \<Rightarrow> login \<Rightarrow> login" where
  "login_step X (L_open path) s = snd (wlc_logind_open X path s)"
| "login_step X (L_close fd) s = wlc_logind_close X fd s"
| "login_step X (L_signal m) s = filter_dbus X m s"
| "login_step X (L_reply r) s = (if ln_pending s = 0 then s else get_active_cb X r s)"

text \<open>A question for \<open>Active\<close> keeps its message; every other message is released.\<close>

definition login_balance :: "login \<Rightarrow> login \<Rightarrow> bool" where
  "login_balance s t \<longleftrightarrow>
     sum_calls messages t - sum_calls messages s = sum_calls questions t - sum_calls questions s \<and>
     sum_calls pendings t - sum_calls pendings s = of_bool (ln_pending t \<noteq> 0) - of_bool (ln_pending s \<noteq> 0)"

lemma login_balance_refl [simp]: "login_balance s s"
  by (simp add: login_balance_def)

lemma login_balance_trans: "login_balance s t \<Longrightarrow> login_balance t u \<Longrightarrow> login_balance s u"
  by (simp add: login_balance_def)

lemma login_balance_world [simp]: "login_balance s (on_login_world f t) = login_balance s t"
  by (simp add: login_balance_def)

lemma balance_take: "login_balance s (snd (snd (take_device X maj mnr s)))"
  by (simp add: take_device_def method_call_def made_def Let_def login_balance_def)

lemma balance_tell: "login_balance s (tell_device X method s)"
  by (simp add: tell_device_def method_call_def made_def Let_def login_balance_def)

lemma balance_parse: "login_balance s (parse_active X a t) = login_balance s t"
  by (cases "(X, a, t)" rule: parse_active.cases) simp_all

lemma balance_get_active: "login_balance s (get_active X s)"
  by (simp add: get_active_def method_call_def made_def Let_def login_balance_def)

lemma parse_active_simps [simp]:
  "sum_calls f (parse_active X a u) = sum_calls f u" "ln_pending (parse_active X a u) = ln_pending u"
  by (cases "(X, a, u)" rule: parse_active.cases; simp)+

lemma balance_cb: "ln_pending s \<noteq> 0 \<Longrightarrow> login_balance s (get_active_cb X r s)"
  by (auto simp: get_active_cb_def Let_def login_balance_def split: option.splits list.splits)

lemma balance_property: "login_balance s (property_changed X args s)"
  by (cases "(X, args, s)" rule: property_changed.cases)
    (auto simp: balance_parse balance_get_active split: prop_scan.splits list.splits dbus_arg.splits)

lemma balance_removed: "login_balance s (session_removed X args s)"
  by (cases "(X, args, s)" rule: session_removed.cases) (simp_all add: login_terminate_def)

lemma balance_paused: "login_balance s (device_paused X args s)"
  by (cases "(X, args, s)" rule: device_paused.cases) (simp_all add: Let_def pause_device_def balance_tell)

lemma balance_resumed: "login_balance s (device_resumed X args s)"
  by (cases "(X, args, s)" rule: device_resumed.cases) simp_all

lemma balance_step: "login_balance s (login_step X r s)"
  by (cases r)
    (auto simp: wlc_logind_open_def wlc_logind_close_def release_device_def balance_tell balance_take balance_cb filter_dbus_def Let_def
      login_terminate_def balance_property balance_removed balance_paused balance_resumed case_prod_beta split: option.splits bool.splits)


definition login_blank :: login where
  "login_blank = \<lparr>ln_world = world_blank, ln_seat = None, ln_sid = None, ln_dbus = 0, ln_dbus_ctx = 0, ln_spath = None, ln_vt = 0,
     ln_pending = 0, ln_watch = (\<lambda>_. 0), ln_timeout = (\<lambda>_. 0), ln_calls = []\<rparr>"

definition login_env_ref :: login_env where
  "login_env_ref = \<lparr>lx_new = (\<lambda>h. Suc (length h)), lx_ok = (\<lambda>_ _. True), lx_int = (\<lambda>_ _. 7),
     lx_string = (\<lambda>k. if k = ''session'' then Some ''c1'' else Some ''seat1''), lx_stat = (\<lambda>_. None), lx_fstat = (\<lambda>_. None),
     lx_set_active = (\<lambda>_ w. w), lx_terminate = (\<lambda>w. w)\<rparr>"

definition active_invalid :: dbus_signal where
  "active_invalid = \<lparr>sg_interface = ''org.freedesktop.DBus.Properties'', sg_member = ''PropertiesChanged'',
     sg_args = [A_string ''i'', A_array [], A_array [A_string ''Active'']]\<rparr>"


text \<open>C38 (error). 
  C1 (error). When the program does not run in a session on the seat it was given, the initialisation closes a
  connection to dbus that it has not opened: an assertion ends the program before it can report the failure.
\<close>
theorem failed_logind_init_aborts:
  assumes "ln_vt s = 0" "ln_dbus s = 0" "ln_spath s = None"
    "lx_string X ''session'' = None \<or> lx_string X ''seat'' \<noteq> Some seat"
  shows "Assertion \<in> set (w_faults (ln_world (snd (wlc_logind_init X seat s))))"
proof -
  have "Assertion \<in> set (w_faults (ln_world (wlc_logind_terminate X t)))" if "ln_dbus t = 0" "ln_spath t = None" for t
    using that by (simp add: wlc_logind_terminate_def release_control_def wlc_dbus_close_def dbus_unbind_def drop_functions_def assert_login_def
        login_cleared_def Let_def fail_def)
  then show ?thesis using assms by (auto simp: wlc_logind_init_def Let_def split: option.splits)
qed

theorem failed_logind_init_aborts_witness:
  "Assertion \<in> set (w_faults (ln_world (snd (wlc_logind_init login_env_ref ''seat0'' login_blank))))"
  by (rule failed_logind_init_aborts) (simp_all add: login_blank_def login_env_ref_def)

end
