(* ===== verification/Xserver.thy ===== *)
theory Xserver
  imports Prelude
begin

text \<open>
  The start of Xwayland (src/xwayland/xwayland.c), in a build with ENABLE_XWAYLAND on Linux: the search for a free
  display, its lock file and sockets, the process, restart and end.

  \<open>xserver\<close> is the static of that name; \<open>xs_log\<close> the history of calls to the kernel, to libwayland and of the signal
  \<open>xwayland\<close>, each with its result. \<open>x_env\<close> gives the results, from the history. The log of messages is left out.
\<close>

section \<open>Data\<close>

datatype x_path = Lock int | Display_socket int | Abstract_socket int

text \<open>Text of the environment and of arguments: as it is, a display as \<open>:n\<close>, a descriptor in decimal.\<close>

datatype x_text = Plain string | Display_name "int option" | Descriptor int

datatype x_call =
    X_lock_create int | X_lock_open int | X_read int | X_kill int | X_write int
  | X_unlink x_path
  | X_close int
  | X_socket | X_bind int x_path | X_listen int
  | X_mkdir
  | X_socketpair | X_pair_second
  | X_fork
  | X_set_cloexec_off int | X_ignore_usr1 | X_clearenv
  | X_setenv string x_text | X_unsetenv string
  | X_exec "x_text list"
  | X_exit
  | X_sigaction_usr1 | X_restore_usr1
  | X_client_create int | X_client_destroy nat | X_listener_add | X_listener_remove
  | X_signal bool
  | X_time

record xserver =
  xs_start_time :: int
  xs_display_name :: "int option"
  xs_client :: nat
  xs_display :: int
  xs_wl :: "int \<times> int"
  xs_wm :: "int \<times> int"
  xs_socks :: "int \<times> int"
  xs_pid :: int
  xs_log :: "(x_call \<times> int) list"

text \<open>\<open>xe_owner\<close> is what the lock file holds: None if it is no number of the right length.\<close>

record x_env =
  xe_ret :: "(x_call \<times> int) list \<Rightarrow> x_call \<Rightarrow> int"
  xe_owner :: "(x_call \<times> int) list \<Rightarrow> int option"
  xe_dead :: "(x_call \<times> int) list \<Rightarrow> int \<Rightarrow> bool"
  xe_runtime_dir :: "string option"

definition xcall :: "x_env \<Rightarrow> x_call \<Rightarrow> xserver \<Rightarrow> int \<times> xserver" where
  "xcall X c s = (let r = xe_ret X (xs_log s) c in (r, s\<lparr>xs_log := xs_log s @ [(c, r)]\<rparr>))"

definition xdo :: "x_env \<Rightarrow> x_call \<Rightarrow> xserver \<Rightarrow> xserver" where
  "xdo X c s = snd (xcall X c s)"

section \<open>Sockets and locks\<close>

text \<open>The path of an abstract socket begins with a zero byte, so to unlink it is to unlink nothing.\<close>

definition unlink_address :: "x_env \<Rightarrow> x_path \<Rightarrow> xserver \<Rightarrow> xserver" where
  "unlink_address X path s = (case path of Abstract_socket _ \<Rightarrow> s | _ \<Rightarrow> xdo X (X_unlink path) s)"

definition open_socket :: "x_env \<Rightarrow> x_path \<Rightarrow> xserver \<Rightarrow> int \<times> xserver" where
  "open_socket X path s =
     (let (fd, s) = xcall X X_socket s in
      if fd < 0 then (-1, s)
      else
        let (r, s) = xcall X (X_bind fd path) (unlink_address X path s) in
        if r < 0 then (-1, xdo X (X_close fd) s)
        else
          let (r, s) = xcall X (X_listen fd) s
          in if r < 0 then (-1, xdo X (X_close fd) (unlink_address X path s)) else (fd, s))"

text \<open>The lock of a process that is gone is taken over.\<close>

definition try_lock :: "x_env \<Rightarrow> int \<Rightarrow> xserver \<Rightarrow> int \<times> xserver" where
  "try_lock X dpy s =
     (let (fd, s) = xcall X (X_lock_create dpy) s in
      if fd \<ge> 0 then (fd, s)
      else
        let (fd, s) = xcall X (X_lock_open dpy) s in
        if fd < 0 then (-1, s)
        else
          let owner = xe_owner X (xs_log s); s = xdo X (X_close fd) (xdo X (X_read fd) s) in
          case owner of
            None \<Rightarrow> (-1, s)
          | Some pid \<Rightarrow>
              let dead = xe_dead X (xs_log s) pid; s = xdo X (X_kill pid) s in
              if \<not> dead then (-1, s)
              else
                let (fd, s) = xcall X (X_lock_create dpy) (xdo X (X_unlink (Display_socket dpy)) (xdo X (X_unlink (Lock dpy)) s))
                in (if fd \<ge> 0 then fd else -1, s))"

function find_lock :: "x_env \<Rightarrow> int \<Rightarrow> xserver \<Rightarrow> (int \<times> int) option \<times> xserver" where
  "find_lock X dpy s =
     (if dpy > 32 then (None, s)
      else
        let (fd, s) = try_lock X dpy s in
        if fd \<ge> 0 then (Some (dpy, fd), s) else find_lock X (dpy + 1) s)"
  by pat_completeness auto

termination by (relation "measure (\<lambda>(_, dpy, _). nat (33 - dpy))") auto

declare find_lock.simps [simp del]

lemma find_lock_bounds: "fst (find_lock X dpy s) = Some (d, fd) \<Longrightarrow> dpy \<le> d \<and> d \<le> 32 \<and> 0 \<le> fd"
proof (induction X dpy s rule: find_lock.induct)
  case (1 X dpy s)
  show ?case
  proof (cases "dpy > 32 \<or> fst (try_lock X dpy s) \<ge> 0")
    case True
    then show ?thesis using "1.prems" by (auto simp: find_lock.simps [of X dpy] case_prod_beta Let_def split: if_splits)
  next
    case False
    then have "fst (find_lock X (dpy + 1) (snd (try_lock X dpy s))) = Some (d, fd)"
      using "1.prems" by (simp add: find_lock.simps [of X dpy] case_prod_beta Let_def)
    with False "1.IH" [of "try_lock X dpy s"] show ?thesis by (cases "try_lock X dpy s") simp
  qed
qed

text \<open>The first display from \<open>dpy\<close> on whose lock and sockets can be had. When a socket cannot be had the search goes on.\<close>

definition take_sockets :: "x_env \<Rightarrow> int \<Rightarrow> xserver \<Rightarrow> bool \<times> xserver" where
  "take_sockets X dpy s =
     (let (a, s) = open_socket X (Abstract_socket dpy) s; s = s\<lparr>xs_socks := (a, snd (xs_socks s))\<rparr> in
      if a < 0 then (False, xdo X (X_unlink (Display_socket dpy)) (xdo X (X_unlink (Lock dpy)) s))
      else
        let (b, s) = open_socket X (Display_socket dpy) (xdo X X_mkdir s); s = s\<lparr>xs_socks := (a, b)\<rparr> in
        if b < 0 then (False, xdo X (X_unlink (Display_socket dpy)) (xdo X (X_unlink (Lock dpy)) (xdo X (X_close a) s)))
        else (True, s))"

function open_display :: "x_env \<Rightarrow> int \<Rightarrow> xserver \<Rightarrow> bool \<times> xserver" where
  "open_display X dpy s =
     (case find_lock X dpy s of
        (None, s) \<Rightarrow> (False, s)
      | (Some (d, fd), s) \<Rightarrow>
          let (n, s) = xcall X (X_write fd) s in
          if n \<noteq> 11 then open_display X (d + 1) (xdo X (X_close fd) (xdo X (X_unlink (Lock d)) s))
          else
            let (ok, s) = take_sockets X d (xdo X (X_close fd) s) in
            if ok then (True, s\<lparr>xs_display_name := Some d, xs_display := d\<rparr>) else open_display X (d + 1) s)"
  by pat_completeness auto

termination
proof (relation "measure (\<lambda>(_, dpy, _). nat (33 - dpy))", goal_cases)
  case (2 X dpy s p s1 q d fd r n s2)
  then have "fst (find_lock X dpy s) = Some (d, fd)" by (metis fst_conv)
  then show ?case using find_lock_bounds by fastforce
next
  case (3 X dpy s p s1 q d fd r n s2 t ok s3)
  then have "fst (find_lock X dpy s) = Some (d, fd)" by (metis fst_conv)
  then show ?case using find_lock_bounds by fastforce
qed simp

declare open_display.simps [simp del]

definition close_display :: "x_env \<Rightarrow> xserver \<Rightarrow> xserver" where
  "close_display X s =
     xdo X (X_unsetenv ''DISPLAY'') (xdo X (X_unlink (Lock (xs_display s))) (xdo X (X_unlink (Display_socket (xs_display s))) s))"

section \<open>The server\<close>

definition sigusr_handler :: "x_env \<Rightarrow> xserver \<Rightarrow> xserver" where
  "sigusr_handler X s = xdo X (X_signal True) (xdo X (X_setenv ''DISPLAY'' (Display_name (xs_display_name s))) (xdo X X_restore_usr1 s))"

text \<open>Clearing the static leaves descriptors that are 0.\<close>

definition xserver_clear :: "xserver \<Rightarrow> xserver" where
  "xserver_clear s = s\<lparr>xs_start_time := 0, xs_display_name := None, xs_client := 0, xs_display := 0, xs_wl := (0, 0), xs_wm := (0, 0),
     xs_socks := (0, 0), xs_pid := 0\<rparr>"

definition close_fds :: "x_env \<Rightarrow> int list \<Rightarrow> xserver \<Rightarrow> xserver" where
  "close_fds X fds s = fold (\<lambda>fd s. if fd \<ge> 0 then xdo X (X_close fd) s else s) fds s"

definition wlc_xwayland_terminate :: "x_env \<Rightarrow> xserver \<Rightarrow> xserver" where
  "wlc_xwayland_terminate X s =
     (let s = xdo X (X_signal False) s;
          s = (if xs_client s \<noteq> 0 then xdo X (X_client_destroy (xs_client s)) (xdo X X_listener_remove s) else s);
          s = close_fds X [fst (xs_socks s), snd (xs_socks s), fst (xs_wl s), snd (xs_wl s), fst (xs_wm s), snd (xs_wm s)] s;
          s = (if fst (xs_socks s) \<ge> 0 \<or> snd (xs_socks s) \<ge> 0 then close_display X s else s)
      in xserver_clear s)"

text \<open>
  The child: it keeps the four descriptors open and becomes the server, or it exits. The descriptors are
  set one by one, and the first failure ends it. A descriptor has at most ten digits, so its text always fits.
\<close>

fun keep_open :: "x_env \<Rightarrow> int list \<Rightarrow> xserver \<Rightarrow> bool \<times> xserver" where
  "keep_open X [] s = (True, s)"
| "keep_open X (fd # fds) s = (let (r, s) = xcall X (X_set_cloexec_off fd) s in if r \<noteq> 0 then (False, s) else keep_open X fds s)"

definition xwayland_child :: "x_env \<Rightarrow> int list \<Rightarrow> xserver \<Rightarrow> xserver" where
  "xwayland_child X fds s =
     (let (ok, s) = keep_open X fds s in
      if \<not> ok then xdo X X_exit s
      else
        let (r, s) = xcall X X_ignore_usr1 s in
        if r \<noteq> 0 then xdo X X_exit s
        else
          case xe_runtime_dir X of
            None \<Rightarrow> xdo X X_exit s
          | Some dir \<Rightarrow>
              let (r, s) = xcall X X_clearenv s in
              if r \<noteq> 0 then xdo X X_exit s
              else
                let s = xdo X (X_setenv ''WAYLAND_SOCKET'' (Descriptor (fds ! 0))) (xdo X (X_setenv ''XDG_RUNTIME_DIR'' (Plain dir)) s);
                    args = [Plain ''Xwayland'', Display_name (xs_display_name s), Plain ''-rootless'', Plain ''-terminate'', Plain ''-listen'',
                      Descriptor (fds ! 2), Plain ''-listen'', Descriptor (fds ! 3), Plain ''-wm'', Descriptor (fds ! 1)]
                in xdo X X_exit (xdo X (X_exec args) s))"

definition socket_pair :: "x_env \<Rightarrow> xserver \<Rightarrow> (int \<times> int) option \<times> xserver" where
  "socket_pair X s = (let (a, s) = xcall X X_socketpair s; (b, s) = xcall X X_pair_second s in (if a < 0 then None else Some (a, b), s))"

text \<open>In the child, where fork returns 0, the result does not matter: it never returns.\<close>

definition wlc_xwayland_init :: "x_env \<Rightarrow> xserver \<Rightarrow> bool \<times> xserver" where
  "wlc_xwayland_init X s =
     (let failed = (\<lambda>s. (False, wlc_xwayland_terminate X s));
          s = s\<lparr>xs_socks := (-1, -1), xs_wl := (-1, -1), xs_wm := (-1, -1)\<rparr>;
          (ok, s) = open_display X 0 s
      in
      if \<not> ok then failed s
      else
        case socket_pair X s of
          (None, s) \<Rightarrow> failed s
        | (Some wl, s) \<Rightarrow>
            case socket_pair X (s\<lparr>xs_wl := wl\<rparr>) of
              (None, s) \<Rightarrow> failed s
            | (Some wm, s) \<Rightarrow>
                let fds = [snd wl, snd wm, fst (xs_socks s), snd (xs_socks s)];
                    (pid, s) = xcall X X_fork (s\<lparr>xs_wm := wm\<rparr>); s = s\<lparr>xs_pid := pid\<rparr> in
                if pid = 0 then (False, xwayland_child X fds s)
                else if pid < 0 then failed s
                else
                  let s = fold (\<lambda>fd. xdo X (X_close fd)) fds s;
                      s = s\<lparr>xs_wm := (fst wm, -1), xs_wl := (fst wl, -1), xs_socks := (-1, -1)\<rparr>;
                      (c, s) = xcall X (X_client_create (fst wl)) s
                  in
                  if c \<le> 0 then failed s
                  else
                    let (t, s) = xcall X X_time (s\<lparr>xs_client := nat c\<rparr>)
                    in (True, xdo X X_sigaction_usr1 (xdo X X_listener_add (s\<lparr>xs_start_time := t\<rparr>))))"

definition destroy_event :: "x_env \<Rightarrow> xserver \<Rightarrow> xserver" where
  "destroy_event X s =
     (let (now, s) = xcall X X_time s; diff = now - xs_start_time s; s = wlc_xwayland_terminate X (s\<lparr>xs_client := 0\<rparr>)
      in if diff > 5 then snd (wlc_xwayland_init X s) else s)"

section \<open>Locks\<close>

text \<open>The displays whose lock files the process has made and not removed.\<close>

fun lock_step :: "x_call \<times> int \<Rightarrow> int set \<Rightarrow> int set" where
  "lock_step (X_lock_create d, r) L = (if r \<ge> 0 then insert d L else L)"
| "lock_step (X_unlink (Lock d), r) L = L - {d}"
| "lock_step _ L = L"

definition locks :: "xserver \<Rightarrow> int set" where "locks s = fold lock_step (xs_log s) {}"

lemma locks_xcall [simp]: "locks (snd (xcall X c s)) = lock_step (c, fst (xcall X c s)) (locks s)"
  by (simp add: xcall_def Let_def locks_def)

lemma locks_xdo [simp]: "locks (xdo X c s) = lock_step (c, fst (xcall X c s)) (locks s)"
  by (simp add: xdo_def)

lemma locks_update [simp]: "locks (s\<lparr>xs_socks := p\<rparr>) = locks s" "locks (s\<lparr>xs_display_name := n, xs_display := d\<rparr>) = locks s"
  by (simp_all add: locks_def)

lemma locks_open_socket [simp]: "locks (snd (open_socket X (Abstract_socket d) s)) = locks s"
  "locks (snd (open_socket X (Display_socket d) s)) = locks s"
  by (simp_all add: open_socket_def unlink_address_def case_prod_beta Let_def)

lemma locks_try_lock:
  assumes "dpy \<notin> locks s"
  shows "locks (snd (try_lock X dpy s)) = (if fst (try_lock X dpy s) \<ge> 0 then insert dpy (locks s) else locks s)"
  using assms by (auto simp: try_lock_def case_prod_beta Let_def split: option.splits)

lemma locks_find_lock:
  assumes "\<forall>d\<in>locks s. d < dpy"
  shows "locks (snd (find_lock X dpy s)) = (case fst (find_lock X dpy s) of None \<Rightarrow> locks s | Some (d, _) \<Rightarrow> insert d (locks s))"
  using assms
proof (induction X dpy s rule: find_lock.induct)
  case (1 X dpy s)
  have fresh: "dpy \<notin> locks s" using "1.prems" by auto
  show ?case
  proof (cases "dpy > 32 \<or> fst (try_lock X dpy s) \<ge> 0")
    case True
    then show ?thesis using locks_try_lock [OF fresh, of X] by (auto simp: find_lock.simps [of X dpy] case_prod_beta Let_def)
  next
    case False
    then have l: "locks (snd (try_lock X dpy s)) = locks s" using locks_try_lock [OF fresh, of X] by simp
    have "find_lock X dpy s = find_lock X (dpy + 1) (snd (try_lock X dpy s))"
      using False by (simp add: find_lock.simps [of X dpy] case_prod_beta Let_def)
    moreover have "\<forall>d\<in>locks (snd (try_lock X dpy s)). d < dpy + 1" using "1.prems" by (auto simp: l)
    ultimately show ?thesis using "1.IH" [of "try_lock X dpy s"] False l
      by (cases "try_lock X dpy s") (simp split: option.splits)
  qed
qed

lemma locks_take_sockets: "locks (snd (take_sockets X d s)) = (if fst (take_sockets X d s) then locks s else locks s - {d})"
  by (simp add: take_sockets_def case_prod_beta Let_def)

lemma open_display_locks:
  assumes "\<forall>d\<in>locks s. d < dpy"
  shows "locks (snd (open_display X dpy s)) =
    (if fst (open_display X dpy s) then insert (xs_display (snd (open_display X dpy s))) (locks s) else locks s)"
  using assms
proof (induction X dpy s rule: open_display.induct)
  case (1 X dpy s)
  obtain r t where f: "find_lock X dpy s = (r, t)" by (cases "find_lock X dpy s")
  show ?case
  proof (cases r)
    case None
    then show ?thesis using locks_find_lock [OF "1.prems", of X] f by (simp add: open_display.simps [of X dpy])
  next
    case (Some q)
    obtain d fd where q: "q = (d, fd)" by (cases q)
    have b: "dpy \<le> d" using find_lock_bounds [of X dpy s d fd] f Some q by simp
    then have d: "d \<notin> locks s" using "1.prems" by auto
    have t: "locks t = insert d (locks s)" using locks_find_lock [OF "1.prems", of X] f Some q by simp
    obtain n u where w: "xcall X (X_write fd) t = (n, u)" by (cases "xcall X (X_write fd) t")
    have u: "locks u = insert d (locks s)" using locks_xcall [of X "X_write fd" t] t w by simp
    have fd: "locks (xdo X (X_close fd) (xdo X (X_unlink (Lock d)) u)) = locks s" using u d by simp
    obtain ok v where v: "take_sockets X d (xdo X (X_close fd) u) = (ok, v)" by (cases "take_sockets X d (xdo X (X_close fd) u)")
    have lv: "locks v = (if ok then insert d (locks s) else locks s)"
      using locks_take_sockets [of X d "xdo X (X_close fd) u"] v u d by (simp split: if_splits)
    have le: "\<forall>k\<in>locks s. k < d + 1" using "1.prems" b by auto
    show ?thesis
      using "1.IH"(1) [OF f [symmetric] Some q [symmetric] w [symmetric] refl] "1.IH"(2) [OF f [symmetric] Some q [symmetric] w [symmetric] refl _ v [symmetric] refl]
        f Some q w v fd lv le by (simp add: open_display.simps [of X dpy])
  qed
qed

text \<open>C39 (safety). 
  C1 (safety). The search for a display leaves exactly one lock file behind, that of the display it has found, and none
  when it fails, whichever of its attempts at locks, sockets and writing fail on the way.
\<close>
theorem open_display_keeps_one_lock:
  assumes "xs_log s = []"
  shows "locks (snd (open_display X 0 s)) = (if fst (open_display X 0 s) then {xs_display (snd (open_display X 0 s))} else {})"
  using open_display_locks [of s 0 X] assms by (simp add: locks_def)

definition xserver_idle :: xserver where
  "xserver_idle = \<lparr>xs_start_time = 0, xs_display_name = None, xs_client = 0, xs_display = 0, xs_wl = (-1, -1), xs_wm = (-1, -1),
     xs_socks = (-1, -1), xs_pid = 0, xs_log = []\<rparr>"

text \<open>A kernel on which the lock of display 0 is held by a live process and the sockets of display 1 are in use.\<close>

definition x_env_busy :: x_env where
  "x_env_busy = \<lparr>xe_ret = (\<lambda>_ c. case c of X_lock_create d \<Rightarrow> if d = 0 then -1 else 5 | X_write _ \<Rightarrow> 11
     | X_bind _ p \<Rightarrow> if p = Abstract_socket 1 then -1 else 0 | X_lock_open _ \<Rightarrow> 4 | X_socket \<Rightarrow> 6 | _ \<Rightarrow> 0),
     xe_owner = (\<lambda>_. Some 77), xe_dead = (\<lambda>_ _. False), xe_runtime_dir = None\<rparr>"

theorem open_display_keeps_one_lock_witness:
  "locks (snd (open_display x_env_busy 0 xserver_idle)) =
     (if fst (open_display x_env_busy 0 xserver_idle) then {xs_display (snd (open_display x_env_busy 0 xserver_idle))} else {})"
  by (rule open_display_keeps_one_lock) (simp add: xserver_idle_def)

section \<open>The end\<close>

lemma xcall_fields [simp]:
  "xs_client (snd (xcall X c s)) = xs_client s" "xs_display (snd (xcall X c s)) = xs_display s" "xs_socks (snd (xcall X c s)) = xs_socks s"
  "xs_wl (snd (xcall X c s)) = xs_wl s" "xs_wm (snd (xcall X c s)) = xs_wm s"
  "map fst (xs_log (snd (xcall X c s))) = map fst (xs_log s) @ [c]"
  by (simp_all add: xcall_def Let_def)

lemma xdo_fields [simp]:
  "xs_client (xdo X c s) = xs_client s" "xs_display (xdo X c s) = xs_display s" "xs_socks (xdo X c s) = xs_socks s"
  "xs_wl (xdo X c s) = xs_wl s" "xs_wm (xdo X c s) = xs_wm s" "map fst (xs_log (xdo X c s)) = map fst (xs_log s) @ [c]"
  by (simp_all add: xdo_def)

text \<open>C40 (error). 
  C1 (error). Ending Xwayland when it is not running, as the clean-up of the library does after a failed start or when
  it was switched off, closes the standard input six times and removes the socket and the lock of display 0, whosever
  they are.
\<close>
theorem second_end_removes_display_0:
  "map fst (xs_log (wlc_xwayland_terminate X (wlc_xwayland_terminate X s))) =
     map fst (xs_log (wlc_xwayland_terminate X s)) @ [X_signal False] @ replicate 6 (X_close 0) @
     [X_unlink (Display_socket 0), X_unlink (Lock 0), X_unsetenv ''DISPLAY'']"
proof -
  have clear: "map fst (xs_log (wlc_xwayland_terminate X t)) = map fst (xs_log t) @ [X_signal False] @ replicate 6 (X_close 0) @
      [X_unlink (Display_socket 0), X_unlink (Lock 0), X_unsetenv ''DISPLAY'']" if "t = xserver_clear u" for t u
    by (simp add: that wlc_xwayland_terminate_def close_fds_def close_display_def xserver_clear_def Let_def numeral_eq_Suc)
  show ?thesis by (rule clear) (simp add: wlc_xwayland_terminate_def Let_def)
qed

text \<open>A server that was started keeps its lock and its socket when it is ended.\<close>

lemma end_keeps_display:
  assumes "xs_socks s = (-1, -1)"
  shows "locks (wlc_xwayland_terminate X s) = locks s"
proof -
  have "locks (xserver_clear t) = locks t" for t by (simp add: locks_def xserver_clear_def)
  moreover have "locks (close_fds X fds t) = locks t" for fds t
    unfolding close_fds_def by (induction fds arbitrary: t) simp_all
  moreover have "xs_socks (close_fds X fds t) = xs_socks t" for fds t
    unfolding close_fds_def by (induction fds arbitrary: t) simp_all
  ultimately show ?thesis using assms by (simp add: wlc_xwayland_terminate_def Let_def)
qed

end
